(* ===== verification/Prelude.thy ===== *)
theory Prelude
  imports Main "HOL-Library.AList" "HOL-Library.State_Monad" "HOL-Library.Monad_Syntax"
    "HOL-Library.Word"
begin

text \<open>
  What every component shares: Go maps as association lists in iteration order, the string
  functions of the Go standard library the program calls, effects as a state monad over a
  world with Go's error results as a sum, and a weakest-precondition calculus for it.

  Conventions. A Go \<open>string\<close> is its list of bytes (a \<open>char list\<close>). A Go \<open>map\<close> is an association
  list with distinct keys whose order is the order in which one \<open>range\<close> statement happens to visit it; lookups
  are \<open>map_of\<close>. A pointer that may be nil is an \<open>option\<close>. A function
  returning \<open>(T, error)\<close> returns \<open>go_error + 'a\<close>. Log lines, events and contexts are not modelled.
\<close>

section \<open>Collections of facts\<close>

named_theorems wp_simps \<open>symbolic execution of the monadic code\<close>
named_theorems only_intros \<open>compositional rules for trace and state invariants\<close>

section \<open>Go maps\<close>

type_synonym ('k, 'v) gomap = "('k \<times> 'v) list"

text \<open>The value of \<open>m[k]\<close> for a string-valued map: the zero value when the key is absent.\<close>

definition get_str :: "('k, string) gomap \<Rightarrow> 'k \<Rightarrow> string" where
  "get_str m k = (case map_of m k of Some v \<Rightarrow> v | None \<Rightarrow> '''')"

definition map_eq :: "('k, 'v) gomap \<Rightarrow> ('k, 'v) gomap \<Rightarrow> bool" where
  "map_eq m n \<longleftrightarrow> map_of m = map_of n"

lemma get_str_Some [simp]: "map_of m k = Some v \<Longrightarrow> get_str m k = v"
  by (simp add: get_str_def)

lemma map_of_in_fst: "map_of m k = Some v \<Longrightarrow> k \<in> set (map fst m)"
  by (induction m) (auto split: if_splits)

lemma distinct_map_of_iff:
  "distinct (map fst m) \<Longrightarrow> map_of m k = Some v \<longleftrightarrow> (k, v) \<in> set m"
  by (simp add: map_of_eq_Some_iff)

lemma map_of_filter_key:
  "map_of (filter (\<lambda>(k, v). P k) m) k = (if P k then map_of m k else None)"
  by (induction m) auto

lemma distinct_fst_filter: "distinct (map fst m) \<Longrightarrow> distinct (map fst (filter P m))"
  by (simp add: distinct_map_filter)

lemma distinct_keys_dom_card: "distinct (map fst m) \<Longrightarrow> length m = card (dom (map_of m))"
  by (metis distinct_card dom_map_of_conv_image_fst length_map list.set_map)

section \<open>Strings of the Go standard library\<close>

text \<open>\<open>strings.HasPrefix\<close>, \<open>strings.TrimPrefix\<close>, \<open>strings.HasSuffix\<close>.\<close>

definition has_prefix :: "string \<Rightarrow> string \<Rightarrow> bool" where
  "has_prefix s p \<longleftrightarrow> take (length p) s = p"

definition trim_prefix :: "string \<Rightarrow> string \<Rightarrow> string" where
  "trim_prefix s p = (if has_prefix s p then drop (length p) s else s)"

definition has_suffix :: "string \<Rightarrow> string \<Rightarrow> bool" where
  "has_suffix s p \<longleftrightarrow> has_prefix (rev s) (rev p)"

lemma has_prefix_append [simp]: "has_prefix (p @ s) p"
  by (simp add: has_prefix_def)

lemma trim_prefix_append [simp]: "trim_prefix (p @ s) p = s"
  by (simp add: trim_prefix_def)

lemma has_prefix_split: "has_prefix s p \<Longrightarrow> s = p @ trim_prefix s p"
  unfolding trim_prefix_def has_prefix_def by (metis append_take_drop_id)

lemma has_prefix_iff: "has_prefix s p \<longleftrightarrow> (\<exists>r. s = p @ r)"
  using has_prefix_split has_prefix_append by metis

text \<open>\<open>strings.Contains\<close>.\<close>

fun contains_sub :: "string \<Rightarrow> string \<Rightarrow> bool" where
  "contains_sub [] p \<longleftrightarrow> p = []"
| "contains_sub (c # s) p \<longleftrightarrow> has_prefix (c # s) p \<or> contains_sub s p"

text \<open>\<open>strings.SplitN(s, sep, 2)\<close> for a one-byte separator: the part before the first separator and,
  when there is one, the part after it.\<close>

fun split2 :: "char \<Rightarrow> string \<Rightarrow> string \<times> string option" where
  "split2 c [] = ([], None)"
| "split2 c (x # s) = (if x = c then ([], Some s)
     else (case split2 c s of (a, b) \<Rightarrow> (x # a, b)))"

text \<open>\<open>strings.LastIndexByte\<close>, as the parts before and after the last separator.\<close>

definition split_last :: "char \<Rightarrow> string \<Rightarrow> (string \<times> string) option" where
  "split_last c s = (case split2 c (rev s) of
      (b, Some a) \<Rightarrow> Some (rev a, rev b) | (_, None) \<Rightarrow> None)"

text \<open>\<open>strings.Split(s, sep)\<close> for a one-byte separator: never empty.\<close>

fun split_on :: "char \<Rightarrow> string \<Rightarrow> string list" where
  "split_on c [] = [[]]"
| "split_on c (x # s) = (if x = c then [] # split_on c s
     else (case split_on c s of [] \<Rightarrow> [[x]] | p # ps \<Rightarrow> (x # p) # ps))"

text \<open>\<open>strings.Join\<close>.\<close>

fun join_with :: "string \<Rightarrow> string list \<Rightarrow> string" where
  "join_with sep [] = []"
| "join_with sep [p] = p"
| "join_with sep (p # q # ps) = p @ sep @ join_with sep (q # ps)"

lemma split_on_not_Nil [simp]: "split_on c s \<noteq> []"
  by (induction s) (auto split: list.splits)

lemma split_on_sep: "c \<notin> set a \<Longrightarrow> split_on c (a @ c # s) = a # split_on c s"
  by (induction a) auto

lemma split_on_free: "c \<notin> set a \<Longrightarrow> split_on c a = [a]"
  by (induction a) auto

lemma split2_join: "split2 c s = (a, Some b) \<Longrightarrow> s = a @ c # b \<and> c \<notin> set a"
  by (induction s arbitrary: a) (auto split: if_splits prod.splits)

lemma split2_none [simp]: "c \<notin> set s \<Longrightarrow> split2 c s = (s, None)"
  by (induction s) auto

lemma split2_first [simp]: "c \<notin> set a \<Longrightarrow> split2 c (a @ c # b) = (a, Some b)"
  by (induction a) auto

lemma split_last_append: "c \<notin> set b \<Longrightarrow> split_last c (a @ c # b) = Some (a, b)"
  by (simp add: split_last_def)

lemma split_last_SomeD: "split_last c s = Some (a, b) \<Longrightarrow> s = a @ c # b \<and> c \<notin> set b"
proof -
  assume "split_last c s = Some (a, b)"
  then have eq: "split2 c (rev s) = (rev b, Some (rev a))"
    by (auto simp: split_last_def split: prod.splits option.splits)
  then have "rev s = rev b @ c # rev a" and c: "c \<notin> set b"
    using split2_join[OF eq] by auto
  then have "rev (rev s) = rev (rev b @ c # rev a)" by simp
  then show ?thesis using c by simp
qed

lemma split_on_join: "join_with [c] (split_on c s) = s"
proof (induction s)
  case (Cons x s)
  then show ?case
    by (cases "split_on c s" rule: list.exhaust; cases "tl (split_on c s)") auto
qed simp

text \<open>\<open>strings.TrimSpace\<close>, on bytes: the UTF-8 encodings of the code points \<open>unicode.IsSpace\<close> accepts.\<close>

definition space_encodings :: "string list" where
  "space_encodings =
     map (\<lambda>n. [char_of (n :: nat)]) [9, 10, 11, 12, 13, 32] @
     map (map (char_of :: nat \<Rightarrow> char))
       ([[0xC2, 0x85], [0xC2, 0xA0], [0xE1, 0x9A, 0x80]] @
        map (\<lambda>n. [0xE2, 0x80, n]) [0x80 ..< 0x8B] @
        [[0xE2, 0x80, 0xA8], [0xE2, 0x80, 0xA9], [0xE2, 0x80, 0xAF], [0xE2, 0x81, 0x9F],
         [0xE3, 0x80, 0x80]])"

function strip_any :: "string list \<Rightarrow> string \<Rightarrow> string" where
  "strip_any ps s = (case find (\<lambda>p. p \<noteq> [] \<and> has_prefix s p) ps of
      None \<Rightarrow> s | Some p \<Rightarrow> strip_any ps (drop (length p) s))"
  by pat_completeness auto
termination
proof (relation "measure (\<lambda>(ps, s). length s)", simp)
  fix ps :: "string list" and s p :: string
  assume "find (\<lambda>p. p \<noteq> [] \<and> has_prefix s p) ps = Some p"
  then have "p \<noteq> []" and "has_prefix s p" by (auto simp: find_Some_iff)
  then have "length p > 0" and "length s \<ge> length p"
    by (auto simp: has_prefix_def) (metis length_take min.absorb_iff2 min.commute)
  then show "((ps, drop (length p) s), (ps, s)) \<in> measure (\<lambda>(ps, s). length s)"
    using diff_less[of "length p" "length s"] by (simp only: in_measure length_drop case_prod_conv)
qed

declare strip_any.simps [simp del]

definition trim_space :: "string \<Rightarrow> string" where
  "trim_space s =
     rev (strip_any (map rev space_encodings) (rev (strip_any space_encodings s)))"

text \<open>\<open>strings.ToLower\<close>, as far as a test for an ASCII word can see it: the ASCII letters, and the two
  other code points (U+0130 and U+212A) whose lower case is an ASCII letter.\<close>

definition lower_char :: "char \<Rightarrow> char" where
  "lower_char c = (let n = (of_char c :: nat) in if 65 \<le> n \<and> n \<le> 90 then char_of (n + 32) else c)"

fun to_lower :: "string \<Rightarrow> string" where
  "to_lower [] = []"
| "to_lower [a] = [lower_char a]"
| "to_lower [a, b] = (if [a, b] = map char_of [0xC4 :: nat, 0xB0] then [CHR ''i'']
     else [lower_char a, lower_char b])"
| "to_lower (a # b # c # s) = (
     if [a, b, c] = map char_of [0xE2 :: nat, 0x84, 0xAA] then CHR ''k'' # to_lower s
     else if [a, b] = map char_of [0xC4 :: nat, 0xB0] then CHR ''i'' # to_lower (c # s)
     else lower_char a # to_lower (b # c # s))"

end
