(* ===== verification/Errors.thy ===== *)
theory Errors
  imports Prelude
begin

text \<open>
  Error values and \<open>internal/services/errors/errors.go\<close>: the classification of SDK errors that
  drives the idempotence of the service layer and the backoff of the controllers.

  A Go error is a tree: an SDK response error (\<open>sdkerr.ServiceResponseError\<close>) with its HTTP status,
  error code and message; an error of the Kubernetes API with its reason; a plain error; an error
  wrapped with a message (\<open>errors.Wrap\<close>); a join of several errors (\<open>errors.Join\<close> of the standard
  library), which \<open>errors.As\<close> searches depth first; a \<open>kerrors.Aggregate\<close>, which it does not enter.
  \<open>OutOfFuel\<close> is no value of the program: it marks a model run whose fuel was too small.
\<close>

datatype kube_reason = KubeNotFound | KubeAlreadyExists | KubeConflict | KubeOther

datatype go_error =
    SdkErr (sdk_status: int) (sdk_code: string) (sdk_message: string)
  | KubeErr kube_reason string
  | PlainErr string
  | WrapErr string go_error
  | JoinErr "go_error list"
  | AggErr "go_error list"
  | OutOfFuel

text \<open>\<open>errors.As(err, &sdkErr)\<close>: the first SDK response error of the chain.\<close>

fun as_sdk :: "go_error \<Rightarrow> (int \<times> string \<times> string) option"
  and as_sdk_first :: "go_error list \<Rightarrow> (int \<times> string \<times> string) option" where
  "as_sdk (SdkErr st c m) = Some (st, c, m)"
| "as_sdk (WrapErr _ e) = as_sdk e"
| "as_sdk (KubeErr _ _) = None"
| "as_sdk (PlainErr _) = None"
| "as_sdk (AggErr _) = None"
| "as_sdk OutOfFuel = None"
| "as_sdk (JoinErr es) = as_sdk_first es"
| "as_sdk_first [] = None"
| "as_sdk_first (e # es) = (case as_sdk e of Some r \<Rightarrow> Some r | None \<Rightarrow> as_sdk_first es)"

definition ErrCodeContainerNetworkCIDRConflict :: string where
  "ErrCodeContainerNetworkCIDRConflict = ''CCE.01400005''"
definition ErrCodeResourceNotFound :: string where
  "ErrCodeResourceNotFound = ''CCE.01404001''"
definition ErrCodeAuthenticationFailure :: string where
  "ErrCodeAuthenticationFailure = ''CCE.01401001''"
definition ErrCodePermissionDenied :: string where
  "ErrCodePermissionDenied = ''CCE.01403001''"
definition ErrCodeAccountRestricted :: string where
  "ErrCodeAccountRestricted = ''CCE.01403002''"
definition ErrCodeNoAgencyPermission :: string where
  "ErrCodeNoAgencyPermission = ''CCE.01403008''"
definition ErrCodeResourceAlreadyExists :: string where
  "ErrCodeResourceAlreadyExists = ''CCE.01409001''"
definition ErrCodeResourceVersionExpired :: string where
  "ErrCodeResourceVersionExpired = ''CCE.01409002''"
definition ErrCodeResourceLocked :: string where
  "ErrCodeResourceLocked = ''CCE.01429002''"
definition ErrCodeConcurrencyLimit :: string where
  "ErrCodeConcurrencyLimit = ''CCE.01429003''"
definition ErrCodeOperationConflictCreatingNode :: string where
  "ErrCodeOperationConflictCreatingNode = ''CCE.01400023''"
definition ErrCodeOperationConflictDeletingCluster :: string where
  "ErrCodeOperationConflictDeletingCluster = ''CCE.01400024''"
definition ErrCodeContainerCIDRConflictCM :: string where
  "ErrCodeContainerCIDRConflictCM = ''CCE_CM.0410''"
definition ErrCodeScaleNoOp :: string where
  "ErrCodeScaleNoOp = ''CCE_CM.0004''"
definition ErrCodeNodePoolStateNotAllowDelete :: string where
  "ErrCodeNodePoolStateNotAllowDelete = ''CCE.01403003''"

text \<open>The quota codes, in the order of the \<open>case\<close> of \<open>IsQuotaExceeded\<close>.\<close>

definition quota_codes :: "string list" where
  "quota_codes = [''CCE.01400007'', ''CCE.01400008'', ''CCE.01400011'', ''CCE.01400009'',
     ''CCE.01400010'', ''CCE.01400012'', ''CCE.01400013'', ''CCE.01400019'', ''CCE.01400020'',
     ''CCE.01400025'']"

lemmas err_code_defs = ErrCodeContainerNetworkCIDRConflict_def ErrCodeResourceNotFound_def
  ErrCodeAuthenticationFailure_def ErrCodePermissionDenied_def ErrCodeAccountRestricted_def
  ErrCodeNoAgencyPermission_def ErrCodeResourceAlreadyExists_def
  ErrCodeResourceVersionExpired_def ErrCodeResourceLocked_def ErrCodeConcurrencyLimit_def
  ErrCodeOperationConflictCreatingNode_def ErrCodeOperationConflictDeletingCluster_def
  ErrCodeContainerCIDRConflictCM_def ErrCodeScaleNoOp_def
  ErrCodeNodePoolStateNotAllowDelete_def quota_codes_def

definition IsNotFound :: "go_error \<Rightarrow> bool" where
  "IsNotFound err = (case as_sdk err of
      Some (st, code, _) \<Rightarrow> st = 404 \<or> code = ErrCodeResourceNotFound
    | None \<Rightarrow> False)"

definition IsNodePoolDeleting :: "go_error \<Rightarrow> bool" where
  "IsNodePoolDeleting err = (case as_sdk err of
      Some (_, code, _) \<Rightarrow> code = ErrCodeNodePoolStateNotAllowDelete
    | None \<Rightarrow> False)"

definition IsConflict :: "go_error \<Rightarrow> bool" where
  "IsConflict err = (case as_sdk err of
      Some (st, code, _) \<Rightarrow> st = 409
        \<or> code = ErrCodeResourceAlreadyExists
        \<or> code = ErrCodeResourceVersionExpired
        \<or> code = ErrCodeOperationConflictCreatingNode
        \<or> code = ErrCodeOperationConflictDeletingCluster
        \<or> code = ErrCodeContainerNetworkCIDRConflict
        \<or> code = ErrCodeContainerCIDRConflictCM
    | None \<Rightarrow> False)"

definition IsPermissionDenied :: "go_error \<Rightarrow> bool" where
  "IsPermissionDenied err = (case as_sdk err of
      Some (st, code, _) \<Rightarrow> st = 401
        \<or> code = ErrCodeAuthenticationFailure
        \<or> code = ErrCodePermissionDenied
        \<or> code = ErrCodeAccountRestricted
        \<or> code = ErrCodeNoAgencyPermission
    | None \<Rightarrow> False)"

definition IsThrottled :: "go_error \<Rightarrow> bool" where
  "IsThrottled err = (case as_sdk err of
      Some (st, code, _) \<Rightarrow> st = 429 \<or> code = ErrCodeResourceLocked \<or> code = ErrCodeConcurrencyLimit
    | None \<Rightarrow> False)"

definition IsQuotaExceeded :: "go_error \<Rightarrow> bool" where
  "IsQuotaExceeded err = (case as_sdk err of
      Some (_, code, _) \<Rightarrow> code \<in> set quota_codes
    | None \<Rightarrow> False)"

definition ServiceResponseError :: "go_error \<Rightarrow> string \<times> string" where
  "ServiceResponseError err = (case as_sdk err of
      Some (_, code, msg) \<Rightarrow> (code, msg)
    | None \<Rightarrow> ('''', ''''))"

definition IsScaleNoOp :: "go_error \<Rightarrow> bool" where
  "IsScaleNoOp err = (case ServiceResponseError err of (code, message) \<Rightarrow>
      if code \<noteq> '''' then code = ErrCodeScaleNoOp
      else contains_sub message ''No scale task needed'')"

lemmas err_class_defs = IsNotFound_def IsNodePoolDeleting_def IsConflict_def
  IsPermissionDenied_def IsThrottled_def IsQuotaExceeded_def

text \<open>Wrapping an error, as every layer of the program does, does not change its class.\<close>

lemma err_class_wrap [simp]:
  "IsNotFound (WrapErr m e) = IsNotFound e"
  "IsNodePoolDeleting (WrapErr m e) = IsNodePoolDeleting e"
  "IsConflict (WrapErr m e) = IsConflict e"
  "IsPermissionDenied (WrapErr m e) = IsPermissionDenied e"
  "IsThrottled (WrapErr m e) = IsThrottled e"
  "IsQuotaExceeded (WrapErr m e) = IsQuotaExceeded e"
  "IsScaleNoOp (WrapErr m e) = IsScaleNoOp e"
  by (simp_all add: err_class_defs IsScaleNoOp_def ServiceResponseError_def)

lemma err_class_plain [simp]:
  "\<not> IsNotFound (PlainErr m)" "\<not> IsConflict (PlainErr m)" "\<not> IsThrottled (PlainErr m)"
  "\<not> IsPermissionDenied (PlainErr m)" "\<not> IsQuotaExceeded (PlainErr m)"
  "\<not> IsNodePoolDeleting (PlainErr m)"
  by (simp_all add: err_class_defs)

text \<open>The error codes alone never put an error in two of the three parked classes.\<close>

lemma parked_codes_disjoint:
  "code \<in> set quota_codes \<Longrightarrow>
     code \<notin> {ErrCodeResourceLocked, ErrCodeConcurrencyLimit, ErrCodeAuthenticationFailure,
              ErrCodePermissionDenied, ErrCodeAccountRestricted, ErrCodeNoAgencyPermission}"
  "code \<in> {ErrCodeResourceLocked, ErrCodeConcurrencyLimit} \<Longrightarrow>
     code \<notin> {ErrCodeAuthenticationFailure, ErrCodePermissionDenied, ErrCodeAccountRestricted,
              ErrCodeNoAgencyPermission}"
  by (auto simp: err_code_defs)

end
