(* ===== verification/Effects.thy ===== *)
theory Effects
  imports Errors
begin

text \<open>
  Go functions with effects: a state monad over a world \<open>'w\<close>, the early return on an error, the
  loops of the program, and a weakest-precondition calculus (\<open>wp\<close>) with an invariant calculus
  (\<open>keeps\<close>) on top of it. The components are polymorphic in the world, so that the same code runs
  against the SDK-backed service, a recording service or any other implementation.
\<close>

section \<open>Results and loops\<close>

text \<open>An error message assembled from its parts (\<open>errors.Wrapf\<close>, \<open>errors.Errorf\<close>).\<close>

definition msgf :: "string list \<Rightarrow> string" where
  "msgf parts = concat parts"

type_synonym ('w, 'a) go = "('w, go_error + 'a) state"

definition ok :: "'a \<Rightarrow> ('w, 'a) go" where
  "ok v = State_Monad.return (Inr v)"

definition fail :: "go_error \<Rightarrow> ('w, 'a) go" where
  "fail e = State_Monad.return (Inl e)"

text \<open>\<open>v, err := m(); if err != nil { return err }; k(v)\<close>\<close>

definition tryE :: "('w, 'a) go \<Rightarrow> ('a \<Rightarrow> ('w, 'b) go) \<Rightarrow> ('w, 'b) go" where
  "tryE m k = do { r \<leftarrow> m; case r of Inl e \<Rightarrow> fail e | Inr v \<Rightarrow> k v }"

text \<open>\<open>if err != nil { return errors.Wrap(err, msg) }\<close>\<close>

definition wrapE :: "string \<Rightarrow> ('w, 'a) go \<Rightarrow> ('w, 'a) go" where
  "wrapE msg m = do {
     r \<leftarrow> m;
     case r of Inl e \<Rightarrow> fail (WrapErr msg e) | Inr v \<Rightarrow> ok v }"

text \<open>A loop whose body may return an error, which ends the loop and the function.\<close>

fun forE :: "('a \<Rightarrow> ('w, unit) go) \<Rightarrow> 'a list \<Rightarrow> ('w, unit) go" where
  "forE f [] = ok ()"
| "forE f (x # xs) = tryE (f x) (\<lambda>_. forE f xs)"

text \<open>A loop that threads an accumulator and stops at the first error.\<close>

fun foldE :: "('a \<Rightarrow> 'b \<Rightarrow> ('w, 'b) go) \<Rightarrow> 'a list \<Rightarrow> 'b \<Rightarrow> ('w, 'b) go" where
  "foldE f [] acc = ok acc"
| "foldE f (x # xs) acc = tryE (f x acc) (\<lambda>acc'. foldE f xs acc')"

text \<open>A loop whose body has no result (errors are logged and the loop goes on).\<close>

fun for_each :: "('a \<Rightarrow> ('w, unit) state) \<Rightarrow> 'a list \<Rightarrow> ('w, unit) state" where
  "for_each f [] = State_Monad.return ()"
| "for_each f (x # xs) = do { _ \<leftarrow> f x; for_each f xs }"

text \<open>A statement whose error is only logged.\<close>

definition ignoreE :: "('w, 'a) go \<Rightarrow> ('w, unit) state" where
  "ignoreE m = do { _ \<leftarrow> m; State_Monad.return () }"

section \<open>Weakest preconditions\<close>

definition wp :: "('w, 'a) state \<Rightarrow> ('a \<Rightarrow> 'w \<Rightarrow> bool) \<Rightarrow> 'w \<Rightarrow> bool" where
  "wp m Q s = (case run_state m s of (r, s') \<Rightarrow> Q r s')"

text \<open>The rules are equations between predicates, so that they also rewrite the continuations.\<close>

lemma wp_return [wp_simps]: "wp (State_Monad.return x) Q = Q x"
  by (simp add: wp_def fun_eq_iff)

lemma wp_bind [wp_simps]: "wp (m \<bind> k) Q = wp m (\<lambda>r. wp (k r) Q)"
  by (simp add: wp_def fun_eq_iff split: prod.splits)

lemma wp_ok [wp_simps]: "wp (ok x) Q = Q (Inr x)"
  by (simp add: ok_def wp_simps)

lemma wp_fail [wp_simps]: "wp (fail e) Q = Q (Inl e)"
  by (simp add: fail_def wp_simps)

lemma wp_if [wp_simps]: "wp (if b then m else n) Q = (if b then wp m Q else wp n Q)"
  by simp

lemma wp_sum [wp_simps]:
  "wp (case r of Inl e \<Rightarrow> f e | Inr v \<Rightarrow> g v) Q =
     (case r of Inl e \<Rightarrow> wp (f e) Q | Inr v \<Rightarrow> wp (g v) Q)"
  by (simp split: sum.splits)

lemma wp_option [wp_simps]:
  "wp (case r of None \<Rightarrow> f | Some v \<Rightarrow> g v) Q =
     (case r of None \<Rightarrow> wp f Q | Some v \<Rightarrow> wp (g v) Q)"
  by (simp split: option.splits)

lemma wp_tryE [wp_simps]:
  "wp (tryE m k) Q = wp m (\<lambda>r. case r of Inl e \<Rightarrow> Q (Inl e) | Inr v \<Rightarrow> wp (k v) Q)"
  by (simp add: tryE_def wp_simps cong: sum.case_cong)

lemma wp_wrapE [wp_simps]:
  "wp (wrapE msg m) Q =
     wp m (\<lambda>r. case r of Inl e \<Rightarrow> Q (Inl (WrapErr msg e)) | Inr v \<Rightarrow> Q (Inr v))"
  by (simp add: wrapE_def wp_simps cong: sum.case_cong)

lemma wp_ignoreE [wp_simps]: "wp (ignoreE m) Q = wp m (\<lambda>_. Q ())"
  by (simp add: ignoreE_def wp_simps)

lemma wp_mono: "wp m Q s \<Longrightarrow> (\<And>r s'. Q r s' \<Longrightarrow> Q' r s') \<Longrightarrow> wp m Q' s"
  by (simp add: wp_def split: prod.splits)

lemma wp_conj: "wp m Q s \<Longrightarrow> wp m Q' s \<Longrightarrow> wp m (\<lambda>r s. Q r s \<and> Q' r s) s"
  by (simp add: wp_def split: prod.splits)

lemma wp_run: "wp m Q s \<longleftrightarrow> Q (fst (run_state m s)) (snd (run_state m s))"
  by (simp add: wp_def split: prod.splits)

section \<open>Invariants\<close>

text \<open>\<open>keeps I m\<close>: running \<open>m\<close> in a world that satisfies \<open>I\<close> ends in a world that satisfies \<open>I\<close>.\<close>

definition keeps :: "('w \<Rightarrow> bool) \<Rightarrow> ('w, 'a) state \<Rightarrow> bool" where
  "keeps I m \<longleftrightarrow> (\<forall>s. I s \<longrightarrow> wp m (\<lambda>_. I) s)"

lemma keepsD: "keeps I m \<Longrightarrow> I s \<Longrightarrow> I (snd (run_state m s))"
  by (simp add: keeps_def wp_run)

lemma keeps_wp: "keeps I m \<Longrightarrow> I s \<Longrightarrow> wp m (\<lambda>_. I) s"
  by (simp add: keeps_def)

lemma keeps_return [only_intros]: "keeps I (State_Monad.return x)"
  by (simp add: keeps_def wp_simps)

lemma keeps_ok [only_intros]: "keeps I (ok x)" "keeps I (fail e)"
  by (simp_all add: keeps_def wp_simps)

lemma keeps_bind [only_intros]: "keeps I m \<Longrightarrow> (\<And>r. keeps I (k r)) \<Longrightarrow> keeps I (m \<bind> k)"
  unfolding keeps_def wp_bind by (blast intro: wp_mono)

lemma keeps_tryE [only_intros]: "keeps I m \<Longrightarrow> (\<And>r. keeps I (k r)) \<Longrightarrow> keeps I (tryE m k)"
  unfolding tryE_def by (intro keeps_bind) (auto split: sum.splits intro: keeps_ok)

lemma keeps_wrapE [only_intros]: "keeps I m \<Longrightarrow> keeps I (wrapE msg m)"
  unfolding wrapE_def by (intro keeps_bind) (auto split: sum.splits intro: keeps_ok)

lemma keeps_ignoreE [only_intros]: "keeps I m \<Longrightarrow> keeps I (ignoreE m)"
  unfolding ignoreE_def by (intro keeps_bind keeps_return)

lemma keeps_if [only_intros]: "(b \<Longrightarrow> keeps I m) \<Longrightarrow> (\<not> b \<Longrightarrow> keeps I n) \<Longrightarrow> keeps I (if b then m else n)"
  by simp

lemma keeps_sum [only_intros]:
  "(\<And>e. r = Inl e \<Longrightarrow> keeps I (f e)) \<Longrightarrow> (\<And>v. r = Inr v \<Longrightarrow> keeps I (g v)) \<Longrightarrow>
     keeps I (case r of Inl e \<Rightarrow> f e | Inr v \<Rightarrow> g v)"
  by (simp split: sum.splits)

lemma keeps_option [only_intros]:
  "(r = None \<Longrightarrow> keeps I f) \<Longrightarrow> (\<And>v. r = Some v \<Longrightarrow> keeps I (g v)) \<Longrightarrow>
     keeps I (case r of None \<Rightarrow> f | Some v \<Rightarrow> g v)"
  by (simp split: option.splits)

lemma keeps_prod: "(\<And>a b. p = (a, b) \<Longrightarrow> keeps I (f a b)) \<Longrightarrow> keeps I (case p of (a, b) \<Rightarrow> f a b)"
  by (cases p) simp

lemma keeps_forE [only_intros]:
  "(\<And>x. x \<in> set xs \<Longrightarrow> keeps I (f x)) \<Longrightarrow> keeps I (forE f xs)"
  by (induction xs) (auto intro!: only_intros)

lemma keeps_foldE [only_intros]:
  "(\<And>x a. x \<in> set xs \<Longrightarrow> keeps I (f x a)) \<Longrightarrow> keeps I (foldE f xs acc)"
  by (induction xs arbitrary: acc) (auto intro!: only_intros)

lemma keeps_for_each [only_intros]:
  "(\<And>x. x \<in> set xs \<Longrightarrow> keeps I (f x)) \<Longrightarrow> keeps I (for_each f xs)"
  by (induction xs) (auto intro!: only_intros)

lemma forE_append: "forE f (xs @ ys) = tryE (forE f xs) (\<lambda>_. forE f ys)"
proof (induction xs)
  case Nil
  show ?case by (simp add: tryE_def ok_def State_Monad.bind_def State_Monad.return_def)
next
  case (Cons x xs)
  show ?case
    by (simp add: Cons.IH) (auto simp: tryE_def fail_def State_Monad.bind_def State_Monad.return_def
        split: prod.splits sum.splits intro!: ext)
qed

end
