(* ===== verification/Requeue.thy ===== *)
theory Requeue
  imports Effects
begin

text \<open>
  \<open>controllers/requeue.go\<close>: the process-wide failure counter (\<open>backoffTracker\<close>), the exponential
  delay computed on 64-bit \<open>time.Duration\<close> values (nanoseconds, with Go's wrap-around), and the
  translation of classified errors into reconcile results.
\<close>

section \<open>Definitions\<close>

type_synonym duration = "64 word"
type_synonym NamespacedName = "string \<times> string"

definition seconds :: "int \<Rightarrow> duration" where
  "seconds n = word_of_int (n * 1000000000)"

definition throttledBackoffBase :: duration where "throttledBackoffBase = seconds 180"
definition quotaBackoffBase :: duration where "quotaBackoffBase = seconds 300"
definition permissionBackoff :: duration where "permissionBackoff = seconds 1800"
definition backoffMax :: duration where "backoffMax = seconds 1800"
definition deletedThrottledBackoffBase :: duration where "deletedThrottledBackoffBase = seconds 90"
definition defaultRequeue :: duration where "defaultRequeue = seconds 30"

lemmas backoff_consts = throttledBackoffBase_def quotaBackoffBase_def permissionBackoff_def
  backoffMax_def deletedThrottledBackoffBase_def defaultRequeue_def seconds_def

text \<open>\<open>backoffTracker.state\<close>: a key is present only once a failure was recorded.\<close>

type_synonym backoff = "NamespacedName \<Rightarrow> nat option"

definition newBackoffTracker :: backoff where
  "newBackoffTracker = Map.empty"

definition failures :: "backoff \<Rightarrow> NamespacedName \<Rightarrow> nat" where
  "failures b key = (case b key of Some n \<Rightarrow> n | None \<Rightarrow> 0)"

text \<open>The loop of \<open>delay\<close>, by the number of iterations left.\<close>

fun delay_loop :: "nat \<Rightarrow> duration \<Rightarrow> duration" where
  "delay_loop 0 d = d"
| "delay_loop (Suc n) d = (let d' = d * 2 in if backoffMax \<le>s d' then backoffMax else delay_loop n d')"

definition count_failure :: "backoff \<Rightarrow> NamespacedName \<Rightarrow> backoff" where
  "count_failure b key = b(key \<mapsto> failures b key + 1)"

definition delay :: "backoff \<Rightarrow> NamespacedName \<Rightarrow> duration \<Rightarrow> duration \<times> backoff" where
  "delay b key base =
     (let b' = count_failure b key in (delay_loop (failures b' key - 1) base, b'))"

definition reset :: "backoff \<Rightarrow> NamespacedName \<Rightarrow> backoff" where
  "reset b key = b(key := None)"

definition requeueAfterForError :: "NamespacedName \<Rightarrow> go_error \<Rightarrow> backoff \<Rightarrow> duration \<times> backoff" where
  "requeueAfterForError key err b =
     (if IsThrottled err then delay b key throttledBackoffBase
      else if IsQuotaExceeded err then delay b key quotaBackoffBase
      else if IsPermissionDenied err then (permissionBackoff, b)
      else (defaultRequeue, b))"

text \<open>\<open>ctrl.Result\<close>, and the pair \<open>(ctrl.Result, error)\<close> a reconciler returns.\<close>

record ctrl_Result =
  RequeueAfter :: duration

type_synonym reconcile_result = "ctrl_Result \<times> go_error option"

definition noRequeue :: ctrl_Result where
  "noRequeue = \<lparr> RequeueAfter = 0 \<rparr>"

definition resultAfterError ::
    "NamespacedName \<Rightarrow> go_error \<Rightarrow> backoff \<Rightarrow> reconcile_result \<times> backoff" where
  "resultAfterError key err b =
     (if IsThrottled err \<or> IsQuotaExceeded err \<or> IsPermissionDenied err
      then case requeueAfterForError key err b of
             (d, b') \<Rightarrow> ((\<lparr> RequeueAfter = d \<rparr>, None), b')
      else ((noRequeue, Some err), b))"

definition resultAfterErrorForDelete ::
    "NamespacedName \<Rightarrow> go_error \<Rightarrow> backoff \<Rightarrow> reconcile_result \<times> backoff" where
  "resultAfterErrorForDelete key err b =
     (if IsThrottled err
      then case delay b key deletedThrottledBackoffBase of
             (d, b') \<Rightarrow> ((\<lparr> RequeueAfter = d \<rparr>, None), b')
      else resultAfterError key err b)"

definition resetBackoff :: "NamespacedName \<Rightarrow> backoff \<Rightarrow> backoff" where
  "resetBackoff key b = reset b key"

section \<open>The exponential delay\<close>

text \<open>The delay the documentation promises, over unbounded integers.\<close>

definition capped_delay :: "nat \<Rightarrow> int \<Rightarrow> int" where
  "capped_delay n base = min (base * 2 ^ n) (sint backoffMax)"

lemma sint_backoffMax [simp]: "sint backoffMax = 1800000000000"
  by (simp add: backoff_consts)

lemma sint_double:
  fixes d :: duration
  assumes "0 < sint d" "sint d < 1800000000000"
  shows "sint (d * 2) = sint d * 2"
proof -
  have "sint (d * 2) = signed_take_bit 63 (sint d * 2)"
    by (simp add: sint_word_ariths(3))
  also have "\<dots> = sint d * 2"
    using assms by (intro signed_take_bit_int_eq_self) auto
  finally show ?thesis .
qed

lemma delay_loop_capped:
  assumes "0 < sint d" "sint d < sint backoffMax"
  shows "sint (delay_loop n d) = capped_delay n (sint d)"
  using assms
proof (induction n arbitrary: d)
  case 0
  then show ?case by (simp add: capped_delay_def)
next
  case (Suc n)
  have dbl: "sint (d * 2) = sint d * 2" using Suc.prems by (simp add: sint_double)
  show ?case
  proof (cases "backoffMax \<le>s d * 2")
    case True
    then have le: "sint backoffMax \<le> sint d * 2" by (simp add: word_sle_eq dbl)
    have "sint d * 2 * 1 \<le> sint d * 2 * 2 ^ n"
      using Suc.prems by (intro mult_left_mono) auto
    then have "sint backoffMax \<le> sint d * 2 * 2 ^ n" using le by linarith
    then have "sint backoffMax \<le> sint d * 2 ^ Suc n" by (simp only: power_Suc mult.assoc)
    then show ?thesis using True by (simp add: capped_delay_def min_def)
  next
    case False
    then have "sint (d * 2) < sint backoffMax" by (simp add: word_sle_eq dbl)
    then show ?thesis
      using False Suc.prems Suc.IH[of "d * 2"] by (simp add: dbl capped_delay_def mult.assoc)
  qed
qed

lemma backoff_bases:
  "base \<in> {throttledBackoffBase, quotaBackoffBase, deletedThrottledBackoffBase} \<Longrightarrow>
     0 < sint base \<and> sint base < sint backoffMax"
  by (auto simp: backoff_consts)

section \<open>The counter as an interface\<close>

text \<open>What the backoff policy needs from a failure counter keyed by reconcile request.\<close>

locale failure_counter =
  fixes count :: "'b \<Rightarrow> 'k \<Rightarrow> nat"
    and bump :: "'b \<Rightarrow> 'k \<Rightarrow> 'b"
    and clear :: "'b \<Rightarrow> 'k \<Rightarrow> 'b"
  assumes count_bump: "count (bump b k) k = count b k + 1"
    and count_bump_other: "k' \<noteq> k \<Longrightarrow> count (bump b k) k' = count b k'"
    and count_clear: "count (clear b k) k = 0"
    and count_clear_other: "k' \<noteq> k \<Longrightarrow> count (clear b k) k' = count b k'"
begin

lemma count_bumps: "count (((\<lambda>b. bump b k) ^^ n) b) k = count b k + n"
  by (induction n) (auto simp: count_bump)

lemma count_after_clear: "count (((\<lambda>b. bump b k) ^^ n) (clear b k)) k = n"
  by (simp add: count_bumps count_clear)

lemma count_bumps_other: "k' \<noteq> k \<Longrightarrow> count (((\<lambda>b. bump b k) ^^ n) b) k' = count b k'"
  by (induction n) (auto simp: count_bump_other)

end

interpretation bt: failure_counter failures count_failure reset
  by unfold_locales (auto simp: failures_def count_failure_def reset_def)

lemma delay_state [simp]: "snd (delay b key base) = count_failure b key"
  by (simp add: delay_def Let_def)

lemma delay_value: "fst (delay b key base) = delay_loop (failures b key) base"
  by (simp add: delay_def Let_def bt.count_bump)

section \<open>Properties\<close>

text \<open>C24: Exponential backoff. The n-th consecutive throttled failure since the last clean reconcile
  of a key is requeued after exactly min(3 min * 2^(n-1), 30 min): the 64-bit duration never wraps,
  whatever the other keys do and however many failures came before the reset.\<close>

theorem delay_exponential:
  assumes "base \<in> {throttledBackoffBase, quotaBackoffBase, deletedThrottledBackoffBase}"
  shows "sint (fst (delay (((\<lambda>b. snd (delay b key base)) ^^ n) (resetBackoff key b)) key base)) =
           min (sint base * 2 ^ n) (sint backoffMax)"
proof -
  have "failures (((\<lambda>b. snd (delay b key base)) ^^ n) (resetBackoff key b)) key = n"
    using bt.count_after_clear[of n key b] by (simp add: resetBackoff_def)
  then show ?thesis
    using delay_loop_capped backoff_bases[OF assms] by (simp add: delay_value capped_delay_def)
qed

theorem delay_exponential_witness:
  "sint (fst (delay (((\<lambda>b. snd (delay b (''ns'', ''a'') throttledBackoffBase)) ^^ 3)
      (resetBackoff (''ns'', ''a'') newBackoffTracker)) (''ns'', ''a'') throttledBackoffBase)) =
     1440000000000"
  using delay_exponential[of throttledBackoffBase 3 "(''ns'', ''a'')" newBackoffTracker]
  by (simp add: backoff_consts)

end
