(* ===== verification/SdkModel.thy ===== *)
theory SdkModel
  imports Effects
begin

text \<open>
  The Huawei Cloud SDK as the program uses it. The request and response records carry the fields
  the code reads and writes, with the SDK's pointer fields as options and its enumerations as
  datatypes. The cloud itself is not part of the program: it is a record of arbitrary functions
  (\<open>cloud\<close>), each answering a request from the whole history of requests, so that every statement
  about the program holds for every behaviour of the platform. The world of the SDK-backed code is
  the list of the requests sent so far.
\<close>

type_synonym int32 = "32 word"

section \<open>CCE model records\<close>

record ResourceTag =
  rt_Key :: "string option"
  rt_Value :: "string option"

record ClusterEndpoint =
  ce_Url :: "string option"
  ce_Type :: "string option"

record ClusterMetadata =
  cm_Uid :: "string option"
  cm_Name :: string

record ClusterStatusModel =
  cst_Phase :: "string option"
  cst_Endpoints :: "ClusterEndpoint list option"

datatype ContainerNetworkModeEnum = OVERLAY_L2 | VPC_ROUTER | ENI
datatype ClusterSpecCategoryEnum = TURBO | CCE
datatype EncryptionConfigModeEnum = KMS | DEFAULT

record ContainerNetwork =
  cn_Mode :: ContainerNetworkModeEnum
  cn_Cidr :: "string option"
  cn_Cidrs :: "string list option"

record ServiceNetwork =
  sn_IPv4CIDR :: "string option"
  sn_IPv6CIDR :: "string option"

record HostNetwork =
  hn_Vpc :: string
  hn_Subnet :: string

record AuthenticatingProxy =
  ap_Ca :: "string option"
  ap_Cert :: "string option"
  ap_PrivateKey :: "string option"

record Authentication =
  au_Mode :: "string option"
  au_AuthenticatingProxy :: "AuthenticatingProxy option"

text \<open>\<open>PackageConfiguration\<close>: a group and its items; the only item value the code sends is a boolean.\<close>

type_synonym PackageConfiguration = "string \<times> (string \<times> bool) list"

record ClusterSpec =
  cs_Category :: "ClusterSpecCategoryEnum option"
  cs_BillingMode :: "int32 option"
  cs_ContainerNetwork :: "ContainerNetwork option"
  cs_AgencyName :: "string option"
  cs_Flavor :: "string option"
  cs_Version :: "string option"
  cs_ServiceNetwork :: "ServiceNetwork option"
  cs_Ipv6enable :: "bool option"
  cs_EnableAutopilot :: "bool option"
  cs_CustomSan :: "string list option"
  cs_EniSubnets :: "string list option"
  cs_PublicAccess :: "string list option option"
  cs_HostNetwork :: "HostNetwork option"
  cs_ConfigurationsOverride :: "PackageConfiguration list option"
  cs_ClusterTags :: "ResourceTag list option"
  cs_EncryptionConfig :: "EncryptionConfigModeEnum option"
  cs_Authentication :: "Authentication option"

record Cluster =
  cl_Metadata :: "ClusterMetadata option"
  cl_Spec :: "ClusterSpec option"
  cl_Status :: "ClusterStatusModel option"

datatype BlockEnum = BLOCK
datatype OndemandNodePolicyEnum = OD_DELETE | OD_RESET | OD_RETAIN
datatype PeriodicNodePolicyEnum = PE_RESET | PE_RETAIN

record DeleteClusterRequest =
  dcr_ClusterId :: string
  dcr_DeleteEvs :: "BlockEnum option"
  dcr_DeleteEni :: "BlockEnum option"
  dcr_DeleteNet :: "BlockEnum option"
  dcr_OndemandNodePolicy :: "OndemandNodePolicyEnum option"
  dcr_PeriodicNodePolicy :: "PeriodicNodePolicyEnum option"

datatype MasterEipAction = BIND | UNBIND
datatype PrincipalTypeEnum = USER | GROUP | AGENCY

record AccessPolicy =
  apo_Name :: string
  apo_Clusters :: "string list"
  apo_Namespaces :: "string list"
  apo_PolicyType :: string
  apo_PrincipalType :: PrincipalTypeEnum
  apo_PrincipalIds :: "string list"

record AccessPolicyResp =
  apr_PolicyId :: "string option"
  apr_Name :: "string option"
  apr_PolicyType :: "string option"
  apr_Principal :: "(string \<times> string list) option"
  apr_AccessScope :: "string list option"
  apr_Clusters :: "string list option"

section \<open>Kubeconfig certificate response\<close>

record CertCluster =
  cc_Server :: "string option"
  cc_CertificateAuthorityData :: "string option"
  cc_InsecureSkipTlsVerify :: "bool option"

record CertUser =
  cu_ClientCertificateData :: "string option"
  cu_ClientKeyData :: "string option"

record CertContext =
  cx_Cluster :: "string option"
  cx_User :: "string option"

record CertResponse =
  cr_Clusters :: "(string option \<times> CertCluster option) list option"
  cr_Users :: "(string option \<times> CertUser option) list option"
  cr_Contexts :: "(string option \<times> CertContext option) list option"
  cr_CurrentContext :: "string option"

section \<open>Node pools, nodes, upgrades, addons, logging, pod identity\<close>

record Volume =
  vo_Size :: int32
  vo_Type :: string

datatype TaintEffect = PREFER_NO_SCHEDULE | NO_EXECUTE | NO_SCHEDULE

record Taint =
  ta_Key :: string
  ta_Value :: "string option"
  ta_Effect :: TaintEffect

datatype MarketType = SPOT

record NodeExtendParam =
  ne_MarketType :: "MarketType option"
  ne_SpotPrice :: "string option"
  ne_PreInstall :: "string option"
  ne_PostInstall :: "string option"

record NodeBandwidth =
  nb_Size :: "int32 option"
  nb_Sharetype :: "string option"
  nb_Chargemode :: "string option"

datatype NodeBillingMode = E_0

record NodeTemplate =
  nt_Flavor :: "string option"
  nt_BillingMode :: "NodeBillingMode option"
  nt_RootVolume :: "Volume option"
  nt_Os :: "string option"
  nt_Az :: "string option"
  nt_DataVolumes :: "Volume list option"
  nt_SshKey :: "string option"
  nt_EcsGroupId :: "string option"
  nt_FaultDomain :: "string option"
  nt_DedicatedHostId :: "string option"
  nt_Taints :: "Taint list option"
  nt_K8sTags :: "(string, string) gomap"
  nt_UserTags :: "ResourceTag list option"
  nt_ExtendParam :: "NodeExtendParam option"
  nt_WaitPostInstallFinish :: "bool option"
  nt_PublicIP :: "(string \<times> NodeBandwidth) option"

record NodePoolNodeAutoscaling =
  nna_Enable :: "bool option"
  nna_MinNodeCount :: "int32 option"
  nna_MaxNodeCount :: "int32 option"

text \<open>\<open>ExtensionScaleGroup\<close>: name, flavor and AZ.\<close>

type_synonym ExtensionScaleGroup = "string \<times> string \<times> string"

record NodePoolSpec =
  nps_NodeTemplate :: "NodeTemplate option"
  nps_InitialNodeCount :: "int32 option"
  nps_CustomSecurityGroups :: "string list option"
  nps_Autoscaling :: "NodePoolNodeAutoscaling option"
  nps_ExtensionScaleGroups :: "ExtensionScaleGroup list option"

record NodePool =
  np_Uid :: "string option"
  np_Name :: string
  np_Spec :: "NodePoolSpec option"

record NodePoolStatus =
  npt_CurrentNode :: "int32 option"
  npt_ActiveNode :: "int32 option"

text \<open>A node pool as \<open>ListNodePools\<close> reports it.\<close>

record NodePoolResp =
  npr_Metadata :: "(string option \<times> string) option"
  npr_UserTags :: "ResourceTag list option"
  npr_Status :: "NodePoolStatus option"

record NodePoolSpecUpdate =
  npu_InitialNodeCount :: int32
  npu_IgnoreInitialNodeCount :: "bool option"
  npu_UserTags :: "ResourceTag list option"
  npu_UserTagsPolicyOnExistingNodes :: "string option"
  npu_CustomSecurityGroups :: "string list option"
  npu_Autoscaling :: "NodePoolNodeAutoscaling option"
  npu_TaintPolicyOnExistingNodes :: "string option"
  npu_LabelPolicyOnExistingNodes :: "string option"

record Node =
  no_Uid :: "string option"
  no_NodepoolID :: "string option"
  no_ServerId :: "string option"
  no_Phase :: "string option"

record VersionInfo =
  vi_Release :: "string option"
  vi_Patch :: "string option"
  vi_SuggestPatch :: "string option"
  vi_TargetVersions :: "string list option"

record InstanceRequest =
  ir_Name :: string
  ir_ClusterID :: string
  ir_AddonTemplateName :: string
  ir_Version :: "string option"

record AddonInstance =
  ai_Metadata :: "(string option \<times> string option) option"
  ai_Version :: "string option"
  ai_Status :: "string option"

datatype LogTypeEnum = LOG_CONTROL | LOG_AUDIT | LOG_SYSTEM_ADDON

text \<open>Log items as sent (name, enable, type) and as reported.\<close>

type_synonym LogItemReq = "string \<times> bool \<times> LogTypeEnum"
type_synonym LogItemResp = "string option \<times> bool option \<times> string option"

record PodIdentityAssociation =
  pia_Uid :: "string option"
  pia_Namespace :: "string option"
  pia_ServiceAccount :: "string option"
  pia_AgencyName :: "string option"
  pia_Tags :: "ResourceTag list option"

end
