(* ===== verification/Cloud.thy ===== *)
theory Cloud
  imports SdkModel
begin

text \<open>
  The requests the program sends, the cloud that answers them, and the Client of
  \<open>internal/services/cce/cce.go\<close> (one SDK client per service, the auxiliary ones possibly nil).
  A nested chain of SDK pointers that the code only tests for nil and follows is one option.
\<close>

section \<open>VPC, EIP, EVS and NAT model records\<close>

record PublicipResp =
  pi_Id :: "string option"
  pi_PublicIpAddress :: "string option"
  pi_Tags :: "string list option"

record VolumeDetail =
  vd_Id :: string
  vd_Name :: string
  vd_Tags :: "(string, string) gomap"

record SdkVpc =
  sv_Id :: string
  sv_Name :: string
  sv_Cidr :: string

record SdkSubnet =
  ss_Id :: string
  ss_Name :: string
  ss_Cidr :: string
  ss_NeutronSubnetId :: string

record SdkSecurityGroup =
  sg_Id :: string
  sg_GroupName :: string

record SdkSecurityGroupRule =
  sr_Id :: string
  sr_Direction :: string
  sr_Protocol :: string
  sr_PortRangeMin :: int32
  sr_PortRangeMax :: int32
  sr_RemoteIpPrefix :: string
  sr_RemoteGroupId :: string

record SdkNatGateway =
  ng_Id :: "string option"
  ng_Name :: "string option"
  ng_Status :: "string option"

record SdkSnatRule =
  sn_Id :: string
  sn_NetworkId :: string
  sn_FloatingIpId :: string

datatype NatSpecEnum = NAT_1 | NAT_2 | NAT_3 | NAT_4

record CreateSubnetOption =
  cso_Name :: string
  cso_Cidr :: string
  cso_VpcId :: string
  cso_GatewayIp :: string
  cso_AvailabilityZone :: "string option"
  cso_PrimaryDns :: "string option"
  cso_SecondaryDns :: "string option"
  cso_Tags :: "string list"

record CreateRuleOption =
  cro_SecurityGroupId :: string
  cro_Direction :: string
  cro_Description :: "string option"
  cro_Protocol :: "string option"
  cro_RemoteIpPrefix :: "string option"
  cro_RemoteGroupId :: "string option"
  cro_PortRangeMin :: "int32 option"
  cro_PortRangeMax :: "int32 option"

text \<open>An ECS server as the operator tools request it: one NIC, one security group, a public address of its own.\<close>

record PrePaidServer =
  pps_ImageRef :: string
  pps_FlavorRef :: string
  pps_Name :: string
  pps_Vpcid :: string
  pps_SubnetId :: string
  pps_KeyName :: "string option"
  pps_Count :: int32
  pps_Metadata :: "(string, string) gomap"
  pps_RootVolumeSize :: int32
  pps_SecurityGroup :: string
  pps_AvailabilityZone :: string
  pps_EipBandwidthSize :: int32

section \<open>Requests\<close>

text \<open>One datatype per SDK client, with one constructor per request the code sends.\<close>

datatype (plugins only: code) cce_request =
    ShowClusterReq string
  | ListClustersReq
  | CreateClusterReq Cluster
  | DeleteClusterReq DeleteClusterRequest
  | BatchDeleteClusterTagsReq string "string option list"
  | BatchCreateClusterTagsReq string "ResourceTag list"
  | UpdateClusterEipReq string MasterEipAction "string option"
  | CreateClusterCertReq string int32
  | CreateAccessPolicyReq AccessPolicy
  | UpdateAccessPolicyReq string AccessPolicy
  | ListAccessPolicyReq
  | DeleteAccessPolicyReq string
  | CreateNodePoolReq string NodePool
  | ScaleNodePoolReq string string int32 "string list"
  | UpdateNodePoolReq string string NodePoolSpecUpdate
  | DeleteNodePoolReq string string
  | ListNodePoolsReq string
  | UpgradeNodePoolReq string string int32
  | ListNodesReq string "string option" int32
  | ResetNodeReq string "string list"
  | ShowClusterUpgradeInfoReq string
  | CreateUpgradeWorkFlowReq string string string
  | CreatePreCheckReq string string string
  | UpgradeClusterReq string string int32
  | ShowUpgradeClusterTaskReq string string
  | CreateAddonInstanceReq InstanceRequest
  | UpdateAddonInstanceReq string InstanceRequest
  | ListAddonInstancesReq string
  | DeleteAddonInstanceReq string
  | CreatePodIdentityReq string PodIdentityAssociation
  | ListPodIdentityReq string
  | DeletePodIdentityReq string string
  | UpdateClusterLogConfigReq string int32 "LogItemReq list"
  | ShowClusterConfigReq string

datatype (plugins only: code) eip_request =
    CreatePublicipReq string int32 string
  | CreatePublicipTagReq string string string
  | ShowPublicipReq string
  | DeletePublicipReq string
  | ListPublicipsReq "string option" int32

datatype (plugins only: code) evs_request =
    ListVolumesReq "string option" int32
  | DeleteVolumeReq string

datatype (plugins only: code) vpc_request =
    ListVpcsReq "string option" "string option" "int32 option"
  | ShowVpcTagsReq string
  | CreateVpcReq "string option" "string option" "string option" "string list"
  | ShowVpcReq string
  | DeleteVpcReq string
  | ListSubnetsReq string
  | ShowSubnetTagsReq string
  | CreateSubnetReq CreateSubnetOption
  | ShowSubnetReq string
  | DeleteSubnetReq string string
  | ListSecurityGroupsReq "string option"
  | ShowSecurityGroupTagsReq string
  | CreateSecurityGroupReq string "string option"
  | ShowSecurityGroupReq string
  | DeleteSecurityGroupReq string
  | ListSecurityGroupRulesReq string
  | CreateSecurityGroupRuleReq CreateRuleOption
  | DeleteSecurityGroupRuleReq string

datatype (plugins only: code) nat_request =
    ListNatGatewaysReq "string option" "string option" "int32 option"
  | ShowNatGatewayTagReq string
  | CreateNatGatewayReq string string string NatSpecEnum "string list"
  | ShowNatGatewayReq string
  | DeleteNatGatewayReq string
  | ListSnatRulesReq string
  | CreateSnatRuleReq string string int32 string
  | DeleteSnatRuleReq string string

text \<open>The requests only the operator tools under \<open>hack/\<close> send (CCE, ECS, IMS and SWR).\<close>

datatype (plugins only: code) ops_request =
    ShowClusterEndpointsReq string
  | NovaListKeypairsReq
  | NovaCreateKeypairReq string
  | ListFlavorsReq
  | ListServersReq "string option"
  | CreateServersReq PrePaidServer
  | ShowServerReq string
  | ListImagesReq
  | CreateNamespaceReq string
  | CreateSecretReq
  | ListAllNodesReq string
  | ListAllSubnetsReq
  | ListAllPublicipsReq

datatype (plugins only: code) request =
    CceReq cce_request
  | EipReq eip_request
  | EvsReq evs_request
  | VpcReq vpc_request
  | NatReq nat_request
  | OpsReq ops_request

type_synonym history = "request list"

section \<open>The cloud\<close>

text \<open>
  One field per kind of request: its answer to the last request of a history. Requests whose
  response body the program ignores are answered by \<open>ack\<close>.
\<close>

type_synonym 'a answer = "history \<Rightarrow> go_error + 'a"

record cce_cloud =
  ack :: "unit answer"
  ans_ShowCluster :: "Cluster answer"
  ans_ListClusters :: "Cluster list option answer"
  ans_CreateCluster :: "Cluster answer"
  ans_CreateClusterCert :: "CertResponse answer"
  ans_CreateAccessPolicy :: "string option answer"
  ans_ListAccessPolicy :: "AccessPolicyResp list option answer"
  ans_CreateNodePool :: "string option answer"
  ans_ListNodePools :: "NodePoolResp list option answer"
  ans_ListNodes :: "(Node list option \<times> string option) answer"
  ans_ShowClusterUpgradeInfo :: "VersionInfo option answer"
  ans_UpgradeCluster :: "string option answer"
  ans_ShowUpgradeClusterTask :: "string option answer"
  ans_CreateAddonInstance :: "string option answer"
  ans_ListAddonInstances :: "AddonInstance list option answer"
  ans_CreatePodIdentity :: "string option answer"
  ans_ListPodIdentity :: "PodIdentityAssociation list option answer"
  ans_ShowClusterConfig :: "(int32 option \<times> LogItemResp list option) answer"

record cloud = cce_cloud +
  ans_CreatePublicip :: "PublicipResp option answer"
  ans_ListPublicips :: "PublicipResp list option answer"
  ans_ListVolumes :: "VolumeDetail list option answer"
  ans_ListVpcs :: "SdkVpc list option answer"
  ans_ShowVpcTags :: "(string \<times> string) list option answer"
  ans_CreateVpc :: "SdkVpc option answer"
  ans_ListSubnets :: "SdkSubnet list option answer"
  ans_ShowSubnetTags :: "(string \<times> string) list option answer"
  ans_CreateSubnet :: "SdkSubnet option answer"
  ans_ListSecurityGroups :: "SdkSecurityGroup list option answer"
  ans_ShowSecurityGroupTags :: "(string \<times> string) list option answer"
  ans_CreateSecurityGroup :: "SdkSecurityGroup option answer"
  ans_ListSecurityGroupRules :: "SdkSecurityGroupRule list option answer"
  ans_ListNatGateways :: "SdkNatGateway list option answer"
  ans_ShowNatGatewayTag :: "(string \<times> string) list option answer"
  ans_CreateNatGateway :: "(string option \<times> SdkNatGateway option) answer"
  ans_ShowNatGateway :: "SdkNatGateway option answer"
  ans_ListSnatRules :: "SdkSnatRule list option answer"

text \<open>Sending a request appends it to the history and returns the cloud's answer.\<close>

definition send :: "request \<Rightarrow> 'a answer \<Rightarrow> (history, 'a) go" where
  "send req ans = State (\<lambda>tr. (ans (tr @ [req]), tr @ [req]))"

lemma wp_send [wp_simps]: "wp (send req ans) Q = (\<lambda>tr. Q (ans (tr @ [req])) (tr @ [req]))"
  by (simp add: send_def wp_def fun_eq_iff)

lemma run_send [simp]: "run_state (send req ans) tr = (ans (tr @ [req]), tr @ [req])"
  by (simp add: send_def)

section \<open>What a piece of code may send\<close>

text \<open>\<open>sends P m\<close>: every request \<open>m\<close> adds to the history satisfies \<open>P\<close>, and none is taken back.\<close>

definition extends :: "(request \<Rightarrow> bool) \<Rightarrow> history \<Rightarrow> history \<Rightarrow> bool" where
  "extends P tr0 tr \<longleftrightarrow> (\<exists>new. tr = tr0 @ new \<and> list_all P new)"

definition sends :: "(request \<Rightarrow> bool) \<Rightarrow> (history, 'a) state \<Rightarrow> bool" where
  "sends P m \<longleftrightarrow> (\<forall>tr0. keeps (extends P tr0) m)"

lemma extends_refl [simp]: "extends P tr tr"
  by (simp add: extends_def)

lemma extends_snoc: "extends P tr0 tr \<Longrightarrow> P req \<Longrightarrow> extends P tr0 (tr @ [req])"
  by (auto simp: extends_def)

lemma extends_in: "extends P tr0 tr \<Longrightarrow> req \<in> set tr \<Longrightarrow> req \<notin> set tr0 \<Longrightarrow> P req"
  by (auto simp: extends_def list_all_iff)

lemma extends_mono: "extends P tr0 tr \<Longrightarrow> (\<And>r. P r \<Longrightarrow> Q r) \<Longrightarrow> extends Q tr0 tr"
  by (auto simp: extends_def list_all_iff)

lemma sendsD: "sends P m \<Longrightarrow> extends P tr (snd (run_state m tr))"
  unfolding sends_def using keepsD extends_refl by metis

lemma sends_run: "sends P m \<Longrightarrow> req \<in> set (snd (run_state m [])) \<Longrightarrow> P req"
  using extends_in[OF sendsD[of P m "[]"]] by simp

named_theorems sends_intros \<open>compositional rules for \<open>sends\<close>\<close>

lemma sends_send [sends_intros]: "P req \<Longrightarrow> sends P (send req ans)"
  by (auto simp: sends_def keeps_def wp_simps intro: extends_snoc)

lemma sends_return [sends_intros]: "sends P (State_Monad.return x)"
  by (simp add: sends_def keeps_return)

lemma sends_ok [sends_intros]: "sends P (ok x)" "sends P (fail e)"
  by (simp_all add: sends_def keeps_ok)

lemma sends_bind [sends_intros]: "sends P m \<Longrightarrow> (\<And>r. sends P (k r)) \<Longrightarrow> sends P (m \<bind> k)"
  by (simp add: sends_def keeps_bind)

lemma sends_tryE [sends_intros]: "sends P m \<Longrightarrow> (\<And>r. sends P (k r)) \<Longrightarrow> sends P (tryE m k)"
  by (simp add: sends_def keeps_tryE)

lemma sends_wrapE [sends_intros]: "sends P m \<Longrightarrow> sends P (wrapE msg m)"
  by (simp add: sends_def keeps_wrapE)

lemma sends_ignoreE [sends_intros]: "sends P m \<Longrightarrow> sends P (ignoreE m)"
  by (simp add: sends_def keeps_ignoreE)

lemma sends_if [sends_intros]:
  "(b \<Longrightarrow> sends P m) \<Longrightarrow> (\<not> b \<Longrightarrow> sends P n) \<Longrightarrow> sends P (if b then m else n)"
  by simp

lemma sends_sum [sends_intros]:
  "(\<And>e. r = Inl e \<Longrightarrow> sends P (f e)) \<Longrightarrow> (\<And>v. r = Inr v \<Longrightarrow> sends P (g v)) \<Longrightarrow>
     sends P (case r of Inl e \<Rightarrow> f e | Inr v \<Rightarrow> g v)"
  by (simp split: sum.splits)

lemma sends_option [sends_intros]:
  "(r = None \<Longrightarrow> sends P f) \<Longrightarrow> (\<And>v. r = Some v \<Longrightarrow> sends P (g v)) \<Longrightarrow>
     sends P (case r of None \<Rightarrow> f | Some v \<Rightarrow> g v)"
  by (simp split: option.splits)

lemma sends_prod [sends_intros]:
  "(\<And>a b. r = (a, b) \<Longrightarrow> sends P (f a b)) \<Longrightarrow> sends P (case r of (a, b) \<Rightarrow> f a b)"
  by (simp split: prod.splits)

lemma sends_forE [sends_intros]: "(\<And>x. x \<in> set xs \<Longrightarrow> sends P (f x)) \<Longrightarrow> sends P (forE f xs)"
  by (simp add: sends_def keeps_forE)

lemma sends_foldE [sends_intros]:
  "(\<And>x a. x \<in> set xs \<Longrightarrow> sends P (f x a)) \<Longrightarrow> sends P (foldE f xs acc)"
  by (simp add: sends_def keeps_foldE)

lemma sends_for_each [sends_intros]:
  "(\<And>x. x \<in> set xs \<Longrightarrow> sends P (f x)) \<Longrightarrow> sends P (for_each f xs)"
  by (simp add: sends_def keeps_for_each)

lemma sends_mono:
  assumes "sends P m" and "\<And>r. P r \<Longrightarrow> Q r"
  shows "sends Q m"
proof -
  have "extends Q tr0 (snd (run_state m tr))" if "extends Q tr0 tr" for tr0 tr
  proof -
    have "extends Q tr (snd (run_state m tr))"
      using sendsD[OF assms(1)] assms(2) by (rule extends_mono)
    then show ?thesis using that by (auto simp: extends_def)
  qed
  then show ?thesis by (simp add: sends_def keeps_def wp_run)
qed

section \<open>What the cloud answered\<close>

text \<open>Somewhere in the history the request \<open>q\<close> was answered by \<open>r\<close>.\<close>

definition answered :: "history \<Rightarrow> request \<Rightarrow> 'a answer \<Rightarrow> go_error + 'a \<Rightarrow> bool" where
  "answered w q ans r \<longleftrightarrow> (\<exists>pre post. w = pre @ q # post \<and> ans (pre @ [q]) = r)"

lemma answered_mono: "answered w q ans r \<Longrightarrow> answered (w @ z) q ans r"
  unfolding answered_def by (metis append.assoc append_Cons)

lemma answered_now: "answered (w @ [q]) q ans (ans (w @ [q]))"
  unfolding answered_def by blast

section \<open>A cloud for examples\<close>

text \<open>
  A cloud that has nothing and accepts everything it does not have to return an object for; the
  witnesses override the fields they need.
\<close>

definition empty_cloud :: cloud where
  "empty_cloud = \<lparr>
     ack = (\<lambda>_. Inr ()),
     ans_ShowCluster = (\<lambda>_. Inl (SdkErr 404 ''CCE.01404001'' ''not found'')),
     ans_ListClusters = (\<lambda>_. Inr None),
     ans_CreateCluster = (\<lambda>_. Inl (SdkErr 500 '''' '''')),
     ans_CreateClusterCert = (\<lambda>_. Inl (SdkErr 500 '''' '''')),
     ans_CreateAccessPolicy = (\<lambda>_. Inr None),
     ans_ListAccessPolicy = (\<lambda>_. Inr None),
     ans_CreateNodePool = (\<lambda>_. Inr None),
     ans_ListNodePools = (\<lambda>_. Inr None),
     ans_ListNodes = (\<lambda>_. Inr (None, None)),
     ans_ShowClusterUpgradeInfo = (\<lambda>_. Inr None),
     ans_UpgradeCluster = (\<lambda>_. Inr None),
     ans_ShowUpgradeClusterTask = (\<lambda>_. Inr None),
     ans_CreateAddonInstance = (\<lambda>_. Inr None),
     ans_ListAddonInstances = (\<lambda>_. Inr None),
     ans_CreatePodIdentity = (\<lambda>_. Inr None),
     ans_ListPodIdentity = (\<lambda>_. Inr None),
     ans_ShowClusterConfig = (\<lambda>_. Inr (None, None)),
     ans_CreatePublicip = (\<lambda>_. Inr None),
     ans_ListPublicips = (\<lambda>_. Inr None),
     ans_ListVolumes = (\<lambda>_. Inr None),
     ans_ListVpcs = (\<lambda>_. Inr None),
     ans_ShowVpcTags = (\<lambda>_. Inr None),
     ans_CreateVpc = (\<lambda>_. Inr None),
     ans_ListSubnets = (\<lambda>_. Inr None),
     ans_ShowSubnetTags = (\<lambda>_. Inr None),
     ans_CreateSubnet = (\<lambda>_. Inr None),
     ans_ListSecurityGroups = (\<lambda>_. Inr None),
     ans_ShowSecurityGroupTags = (\<lambda>_. Inr None),
     ans_CreateSecurityGroup = (\<lambda>_. Inr None),
     ans_ListSecurityGroupRules = (\<lambda>_. Inr None),
     ans_ListNatGateways = (\<lambda>_. Inr None),
     ans_ShowNatGatewayTag = (\<lambda>_. Inr None),
     ans_CreateNatGateway = (\<lambda>_. Inr (None, None)),
     ans_ShowNatGateway = (\<lambda>_. Inr None),
     ans_ListSnatRules = (\<lambda>_. Inr None) \<rparr>"

text \<open>\<open>Client\<close>: the CCE client is always there; the auxiliary clients may be nil.\<close>

record Client =
  cli_cloud :: cloud
  cli_has_eip :: bool

end
