(* ===== verification/Tags.thy ===== *)
theory Tags
  imports Prelude
begin

text \<open>
  \<open>internal/services/tags/tags.go\<close>: the ownership tag scheme, and the facts that relate its two
  readers (\<open>IsOwned\<close> of a known cluster, \<open>OwnedClusterName\<close> of an unknown one).
\<close>

definition OwnedTagPrefix :: string where
  "OwnedTagPrefix = ''cluster-api-provider-cce.cluster''"

definition OwnedTagKey :: "string \<Rightarrow> string" where
  "OwnedTagKey clusterName = OwnedTagPrefix @ ''.'' @ clusterName"

definition IsOwned :: "(string, string) gomap \<Rightarrow> string \<Rightarrow> bool" where
  "IsOwned tags clusterName \<longleftrightarrow> get_str tags (OwnedTagKey clusterName) = ''owned''"

text \<open>The \<open>range\<close> loop returns at the first owned tag it visits.\<close>

fun OwnedClusterName :: "(string, string) gomap \<Rightarrow> string" where
  "OwnedClusterName [] = ''''"
| "OwnedClusterName ((k, v) # tags) =
     (if v = ''owned'' \<and> has_prefix k (OwnedTagPrefix @ ''.'')
      then trim_prefix k (OwnedTagPrefix @ ''.'')
      else OwnedClusterName tags)"

lemma OwnedTagKey_inj [simp]: "OwnedTagKey a = OwnedTagKey b \<longleftrightarrow> a = b"
  by (simp add: OwnedTagKey_def)

lemma OwnedTagKey_prefix [simp]: "has_prefix (OwnedTagKey n) (OwnedTagPrefix @ ''.'')"
  unfolding OwnedTagKey_def has_prefix_iff by simp

lemma OwnedTagKey_trim [simp]: "trim_prefix (OwnedTagKey n) (OwnedTagPrefix @ ''.'') = n"
  unfolding OwnedTagKey_def using trim_prefix_append[of "OwnedTagPrefix @ ''.''" n] by simp

lemma owned_prefix_iff: "has_prefix k (OwnedTagPrefix @ ''.'') \<longleftrightarrow> (\<exists>n. k = OwnedTagKey n)"
  by (simp add: has_prefix_iff OwnedTagKey_def)

lemma OwnedClusterName_entry:
  "OwnedClusterName tags = n \<Longrightarrow> n \<noteq> '''' \<Longrightarrow> (OwnedTagKey n, ''owned'') \<in> set tags"
proof (induction tags rule: OwnedClusterName.induct)
  case (2 k v tags)
  then show ?case
    by (cases "v = ''owned'' \<and> has_prefix k (OwnedTagPrefix @ ''.'')") (auto simp: owned_prefix_iff)
qed simp

lemma IsOwned_iff:
  assumes "distinct (map fst tags)"
  shows "IsOwned tags n \<longleftrightarrow> (OwnedTagKey n, ''owned'') \<in> set tags"
proof -
  have "IsOwned tags n \<longleftrightarrow> map_of tags (OwnedTagKey n) = Some ''owned''"
    by (simp add: IsOwned_def get_str_def split: option.split)
  then show ?thesis using distinct_map_of_iff[OF assms] by simp
qed

lemma OwnedClusterName_IsOwned:
  "distinct (map fst tags) \<Longrightarrow> OwnedClusterName tags = n \<Longrightarrow> n \<noteq> '''' \<Longrightarrow> IsOwned tags n"
  by (simp add: IsOwned_iff OwnedClusterName_entry)

text \<open>A resource with no owned tag at all is nobody's.\<close>

lemma OwnedClusterName_none:
  "(\<And>n. (OwnedTagKey n, ''owned'') \<notin> set tags) \<Longrightarrow> OwnedClusterName tags = ''''"
  using OwnedClusterName_entry by blast

lemma OwnedClusterName_unique:
  assumes "(OwnedTagKey n, ''owned'') \<in> set tags"
    and "\<And>n'. (OwnedTagKey n', ''owned'') \<in> set tags \<Longrightarrow> n' = n"
  shows "OwnedClusterName tags = n"
  using assms
proof (induction tags rule: OwnedClusterName.induct)
  case (2 k v tags)
  show ?case
  proof (cases "v = ''owned'' \<and> has_prefix k (OwnedTagPrefix @ ''.'')")
    case True
    then obtain n' where "k = OwnedTagKey n'" "v = ''owned''" by (auto simp only: owned_prefix_iff)
    then show ?thesis using "2.prems"(2)[of n'] by simp
  next
    case False
    then have "(OwnedTagKey n, ''owned'') \<noteq> (k, v)" by auto
    then have "(OwnedTagKey n, ''owned'') \<in> set tags" using "2.prems"(1) by auto
    then have "OwnedClusterName tags = n" by (rule "2.IH"[OF False]) (auto intro: "2.prems"(2))
    then show ?thesis using False by (auto simp: if_not_P)
  qed
qed simp

end
