(* ===== verification/CceTypes.thy ===== *)
theory CceTypes
  imports Cloud Tags
begin

text \<open>
  \<open>internal/services/cce/interfaces.go\<close>: the data the controllers exchange with the CCE service, and
  the \<open>Service\<close> interface itself as a record of operations over an arbitrary world. The SDK-backed
  implementation of the interface is assembled in \<open>CceService\<close>.
\<close>

section \<open>Clusters\<close>

record Endpoint =
  ep_URL :: string
  ep_Type :: string

record ClusterInfo =
  ci_ClusterID :: string
  ci_Phase :: string
  ci_Version :: string
  ci_Endpoints :: "Endpoint list"
  ci_Tags :: "(string, string) gomap"

record AuthenticatingProxyInput =
  api_CA :: string
  api_Cert :: string
  api_PrivateKey :: string

record AuthenticationInput =
  aui_Mode :: string
  aui_AuthenticatingProxy :: "AuthenticatingProxyInput option"

text \<open>\<open>EncryptionConfigInput\<close> has the one field \<open>Mode\<close>.\<close>

record EncryptionConfigInput =
  eci_Mode :: string

record CreateClusterInput =
  cci_Name :: string
  cci_Category :: string
  cci_Flavor :: string
  cci_Version :: string
  cci_ContainerNetworkMode :: string
  cci_ContainerNetworkCIDR :: string
  cci_ContainerNetworkCIDRs :: "string list"
  cci_ENISubnets :: "string list"
  cci_HostNetworkVpcID :: string
  cci_HostNetworkSubnetID :: string
  cci_ServiceCIDR :: string
  cci_ServiceIPv6CIDR :: string
  cci_Ipv6Enable :: "bool option"
  cci_EnableAutopilot :: "bool option"
  cci_CustomSAN :: "string list"
  cci_PublicAccess :: bool
  cci_PublicAccessCIDRs :: "string list"
  cci_AgencyName :: string
  cci_BillingMode :: int32
  cci_EnableDataPlaneV2 :: bool
  cci_Tags :: "(string, string) gomap"
  cci_EncryptionConfig :: "EncryptionConfigInput option"
  cci_Authentication :: "AuthenticationInput option"

record DeleteClusterInput =
  dci_ClusterID :: string
  dci_DeleteEVS :: bool
  dci_DeleteENI :: bool
  dci_DeleteELB :: bool
  dci_OnDemandNodePolicy :: string
  dci_PeriodicNodePolicy :: string

record ClusterRef =
  clr_ClusterID :: string
  clr_Name :: string
  clr_Tags :: "(string, string) gomap"

section \<open>Node pools\<close>

record NodePoolAutoscaling =
  npa_Enable :: bool
  npa_MinNodeCount :: int32
  npa_MaxNodeCount :: int32

record NodeVolumeInput =
  nvi_Size :: int32
  nvi_Type :: string

record ExtensionScaleGroupInput =
  esg_Name :: string
  esg_Flavor :: string
  esg_AvailabilityZone :: string

record CreateNodePoolInput =
  cni_ClusterID :: string
  cni_Name :: string
  cni_Flavor :: string
  cni_OS :: string
  cni_RootVolumeSize :: int32
  cni_RootVolumeType :: string
  cni_DataVolumes :: "NodeVolumeInput list"
  cni_SSHKey :: string
  cni_AvailabilityZone :: string
  cni_InitialNodeCount :: int32
  cni_BillingMode :: int32
  cni_Spot :: bool
  cni_SpotPrice :: string
  cni_ExtensionScaleGroups :: "ExtensionScaleGroupInput list"
  cni_Taints :: "string list"
  cni_Labels :: "(string, string) gomap"
  cni_SecurityGroups :: "string list"
  cni_CustomSecurityGroups :: "string list"
  cni_Autoscaling :: "NodePoolAutoscaling option"
  cni_ClusterName :: string
  cni_Tags :: "(string, string) gomap"
  cni_EcsGroupID :: string
  cni_FaultDomain :: string
  cni_DedicatedHostID :: string
  cni_PreInstall :: string
  cni_PostInstall :: string
  cni_WaitPostInstallFinish :: "bool option"
  cni_PublicIP :: bool
  cni_PublicIPBandwidthSize :: int32
  cni_PublicIPShareType :: string
  cni_PublicIPChargeMode :: string

record NodePoolInfo =
  npi_NodePoolID :: string
  npi_Name :: string
  npi_NodeCount :: int32
  npi_ActiveNodeCount :: int32
  npi_Tags :: "(string, string) gomap"

record NodeInfo =
  ni_UID :: string
  ni_NodePoolID :: string
  ni_Phase :: string

text \<open>\<open>UserTags\<close> distinguishes a nil map (\<open>None\<close>) from an empty one.\<close>

record UpdateNodePoolInput =
  uni_ClusterID :: string
  uni_NodePoolID :: string
  uni_InitialNodeCount :: int32
  uni_IgnoreInitialNodeCount :: bool
  uni_CustomSecurityGroups :: "string list"
  uni_Autoscaling :: "NodePoolAutoscaling option"
  uni_TaintPolicyOnExistingNodes :: string
  uni_LabelPolicyOnExistingNodes :: string
  uni_UserTagsPolicyOnExistingNodes :: string
  uni_UserTags :: "(string, string) gomap option"
  uni_ClusterName :: string

section \<open>Upgrades, addons, pod identity, logging, access policies, standalone resources\<close>

record UpgradeInfo =
  ui_CurrentVersion :: string
  ui_Patch :: string
  ui_SuggestPatch :: string
  ui_TargetVersions :: "string list"

definition UpgradeTaskPhaseSuccess :: string where "UpgradeTaskPhaseSuccess = ''Success''"
definition UpgradeTaskPhaseFailed :: string where "UpgradeTaskPhaseFailed = ''Failed''"

record AddonInput =
  adi_ClusterID :: string
  adi_AddonID :: string
  adi_Name :: string
  adi_Version :: string

record AddonInfo =
  ad_ID :: string
  ad_Name :: string
  ad_Version :: string
  ad_Status :: string

record PodIdentityAssociationInput =
  pii_ClusterID :: string
  pii_Namespace :: string
  pii_ServiceAccount :: string
  pii_AgencyName :: string
  pii_Tags :: "(string, string) gomap"

record PodIdentityAssociationInfo =
  pai_ID :: string
  pai_Namespace :: string
  pai_ServiceAccount :: string
  pai_AgencyName :: string
  pai_Tags :: "(string, string) gomap"

record LogConfigInput =
  lci_Name :: string
  lci_Type :: string
  lci_Enable :: bool

record LogConfigInfo =
  lcf_TTLInDays :: int32
  lcf_Logs :: "LogConfigInput list"

record AccessPolicyInput =
  acp_Name :: string
  acp_ClusterID :: string
  acp_PolicyType :: string
  acp_PrincipalType :: string
  acp_PrincipalIDs :: "string list"
  acp_Namespaces :: "string list"

record AccessPolicyInfo =
  acf_PolicyID :: string
  acf_Name :: string
  acf_ClusterIDs :: "string list"
  acf_PolicyType :: string
  acf_PrincipalType :: string
  acf_PrincipalIDs :: "string list"
  acf_Namespaces :: "string list"

record EipRef =
  er_ID :: string
  er_Address :: string
  er_Tags :: "(string, string) gomap"

text \<open>\<open>VolumeRef\<close>, \<open>VpcRef\<close> and \<open>NatGatewayRef\<close> have the same three fields.\<close>

record ResourceRef =
  rr_ID :: string
  rr_Name :: string
  rr_Tags :: "(string, string) gomap"

section \<open>The Service interface\<close>

text \<open>The operations the garbage collector uses.\<close>

record 'w gc_service =
  svc_ListClusters :: "('w, ClusterRef list) go"
  svc_DeleteCluster :: "DeleteClusterInput \<Rightarrow> ('w, unit) go"
  svc_ListEips :: "('w, EipRef list) go"
  svc_DeleteEip :: "string \<Rightarrow> ('w, unit) go"
  svc_ListVolumes :: "('w, ResourceRef list) go"
  svc_DeleteVolume :: "string \<Rightarrow> ('w, unit) go"
  svc_ListVpcs :: "('w, ResourceRef list) go"
  svc_DeleteVpc :: "string \<Rightarrow> ('w, unit) go"
  svc_ListNatGateways :: "('w, ResourceRef list) go"
  svc_DeleteNatGateway :: "string \<Rightarrow> ('w, unit) go"

text \<open>The operations the control plane controller uses besides those.\<close>

record 'w cp_service = "'w gc_service" +
  svc_ShowCluster :: "string \<Rightarrow> ('w, ClusterInfo) go"
  svc_ReconcileClusterTags :: "string \<Rightarrow> string \<Rightarrow> (string, string) gomap \<Rightarrow> ('w, unit) go"
  svc_CreateCluster :: "CreateClusterInput \<Rightarrow> ('w, string) go"
  svc_GetClusterKubeconfig :: "string \<Rightarrow> int32 \<Rightarrow> ('w, string) go"
  svc_BindClusterEip :: "string \<Rightarrow> string \<Rightarrow> ('w, string \<times> string) go"
  svc_UnbindClusterEip :: "string \<Rightarrow> string \<Rightarrow> ('w, unit) go"
  svc_GetUpgradeInfo :: "string \<Rightarrow> ('w, UpgradeInfo) go"
  svc_StartUpgrade :: "string \<Rightarrow> string \<Rightarrow> ('w, string) go"
  svc_ShowUpgradeTask :: "string \<Rightarrow> string \<Rightarrow> ('w, string) go"
  svc_CreateAddonInstance :: "AddonInput \<Rightarrow> ('w, string) go"
  svc_UpdateAddonInstance :: "AddonInput \<Rightarrow> ('w, unit) go"
  svc_ListAddonInstances :: "string \<Rightarrow> ('w, AddonInfo list) go"
  svc_DeleteAddonInstance :: "string \<Rightarrow> string \<Rightarrow> ('w, unit) go"
  svc_CreatePodIdentityAssociation :: "PodIdentityAssociationInput \<Rightarrow> ('w, string) go"
  svc_ListPodIdentityAssociations :: "string \<Rightarrow> ('w, PodIdentityAssociationInfo list) go"
  svc_DeletePodIdentityAssociation :: "string \<Rightarrow> string \<Rightarrow> ('w, unit) go"
  svc_UpdateClusterLogConfig :: "string \<Rightarrow> int32 \<Rightarrow> LogConfigInput list \<Rightarrow> ('w, unit) go"
  svc_ShowClusterLogConfig :: "string \<Rightarrow> ('w, LogConfigInfo) go"
  svc_CreateAccessPolicy :: "AccessPolicyInput \<Rightarrow> ('w, string) go"
  svc_UpdateAccessPolicy :: "string \<Rightarrow> AccessPolicyInput \<Rightarrow> ('w, unit) go"
  svc_ListAccessPolicies :: "('w, AccessPolicyInfo list) go"
  svc_DeleteAccessPolicy :: "string \<Rightarrow> ('w, unit) go"

text \<open>The whole interface: the node pool operations come on top. The tag map of
  \<open>ReconcileNodePoolTags\<close> may be nil (\<open>None\<close>), which its implementation distinguishes from an empty map.\<close>

record 'w service = "'w cp_service" +
  svc_CreateNodePool :: "CreateNodePoolInput \<Rightarrow> ('w, string) go"
  svc_ScaleNodePool :: "string \<Rightarrow> string \<Rightarrow> int32 \<Rightarrow> ('w, unit) go"
  svc_UpdateNodePool :: "UpdateNodePoolInput \<Rightarrow> ('w, unit) go"
  svc_DeleteNodePool :: "string \<Rightarrow> string \<Rightarrow> ('w, unit) go"
  svc_ListNodePools :: "string \<Rightarrow> ('w, NodePoolInfo list) go"
  svc_ReconcileNodePoolTags :: "string \<Rightarrow> string \<Rightarrow> string \<Rightarrow> (string, string) gomap option \<Rightarrow>
     NodePoolInfo list \<Rightarrow> ('w, bool) go"
  svc_ListNodes :: "string \<Rightarrow> string \<Rightarrow> ('w, string list) go"
  svc_ListNodesWithStatus :: "string \<Rightarrow> ('w, NodeInfo list) go"
  svc_ResetNode :: "string \<Rightarrow> string list \<Rightarrow> ('w, unit) go"
  svc_UpgradeNodePool :: "string \<Rightarrow> string \<Rightarrow> int32 \<Rightarrow> ('w, unit) go"

end
