(* ===== verification/CceTags.thy ===== *)
theory CceTags
  imports CceTypes
begin

text \<open>
  The tag logic of \<open>internal/services/cce/cce.go\<close>: the desired tag sets of clusters and node pools,
  the diff and the ordered plan of writes, and \<open>ShowCluster\<close> and \<open>ReconcileClusterTags\<close>, the
  operations that read and converge the tags of a cluster.
\<close>

section \<open>Pure tag functions\<close>

definition RoleTagKey :: string where "RoleTagKey = ''cluster-api-provider-cce.role''"
definition RoleApiserver :: string where "RoleApiserver = ''apiserver''"
definition RoleNode :: string where "RoleNode = ''node''"

definition skipReservedTagKey :: "string \<Rightarrow> string \<Rightarrow> bool" where
  "skipReservedTagKey userKey clusterName \<longleftrightarrow>
     userKey = OwnedTagKey clusterName \<or> userKey = RoleTagKey"

definition mk_tag :: "string \<Rightarrow> string \<Rightarrow> ResourceTag" where
  "mk_tag k v = \<lparr> rt_Key = Some k, rt_Value = Some v \<rparr>"

definition toClusterTags :: "string \<Rightarrow> (string, string) gomap \<Rightarrow> ResourceTag list" where
  "toClusterTags clusterName userTags =
     [mk_tag (OwnedTagKey clusterName) ''owned'', mk_tag RoleTagKey RoleApiserver] @
     [mk_tag k v. (k, v) \<leftarrow> userTags, \<not> skipReservedTagKey k clusterName]"

definition toUserTags :: "string \<Rightarrow> (string, string) gomap \<Rightarrow> ResourceTag list" where
  "toUserTags clusterName userTags =
     [mk_tag (OwnedTagKey clusterName) ''owned'', mk_tag RoleTagKey RoleNode] @
     [mk_tag k v. (k, v) \<leftarrow> userTags, \<not> skipReservedTagKey k clusterName]"

text \<open>The loops \<open>for _, t := range tags { if t.Key != nil && t.Value != nil { m[*t.Key] = *t.Value } }\<close>.\<close>

fun put_tags :: "ResourceTag list \<Rightarrow> (string, string) gomap \<Rightarrow> (string, string) gomap" where
  "put_tags [] m = m"
| "put_tags (t # ts) m = put_tags ts (case (rt_Key t, rt_Value t) of
      (Some k, Some v) \<Rightarrow> AList.update k v m | _ \<Rightarrow> m)"

definition clusterTagsDiff ::
    "(string, string) gomap \<Rightarrow> (string, string) gomap \<Rightarrow> string \<Rightarrow>
     ResourceTag list \<times> string option list" where
  "clusterTagsDiff cur want ownedKey =
     ([mk_tag k v. (k, v) \<leftarrow> want, map_of cur k \<noteq> Some v],
      [Some k. (k, _) \<leftarrow> cur, map_of want k = None \<and> k \<noteq> ownedKey])"

text \<open>\<open>clusterTagWrite\<close>: exactly one of \<open>Delete\<close> and \<open>Create\<close> is set.\<close>

datatype clusterTagWrite = WDelete "string option" | WCreate ResourceTag

definition planClusterTags ::
    "(string, string) gomap \<Rightarrow> (string, string) gomap \<Rightarrow> string \<Rightarrow> clusterTagWrite list" where
  "planClusterTags cur want ownedKey = (case clusterTagsDiff cur want ownedKey of (add, del) \<Rightarrow>
     [WDelete k. k \<leftarrow> del, k \<noteq> Some RoleTagKey] @ map WCreate add)"

fun tagsEqual_loop :: "(string, string) gomap \<Rightarrow> (string, string) gomap \<Rightarrow> bool" where
  "tagsEqual_loop [] b = True"
| "tagsEqual_loop ((k, v) # a) b = (if map_of b k \<noteq> Some v then False else tagsEqual_loop a b)"

definition tagsEqual :: "(string, string) gomap \<Rightarrow> (string, string) gomap \<Rightarrow> bool" where
  "tagsEqual a b = (if length a \<noteq> length b then False else tagsEqual_loop a b)"

section \<open>Operations\<close>

definition show_tags :: "ResourceTag list option \<Rightarrow> (string, string) gomap" where
  "show_tags ts = (case ts of Some l \<Rightarrow> put_tags l [] | None \<Rightarrow> [])"

definition deref :: "string option \<Rightarrow> string" where
  "deref p = (case p of Some s \<Rightarrow> s | None \<Rightarrow> '''')"

definition cluster_info :: "Cluster \<Rightarrow> ClusterInfo" where
  "cluster_info resp = \<lparr>
     ci_ClusterID = (case cl_Metadata resp of Some m \<Rightarrow> deref (cm_Uid m) | None \<Rightarrow> ''''),
     ci_Phase = (case cl_Status resp of Some st \<Rightarrow> deref (cst_Phase st) | None \<Rightarrow> ''''),
     ci_Version = (case cl_Spec resp of Some sp \<Rightarrow> deref (cs_Version sp) | None \<Rightarrow> ''''),
     ci_Endpoints = (case cl_Status resp of
         Some st \<Rightarrow> (case cst_Endpoints st of
             Some eps \<Rightarrow> map (\<lambda>e. \<lparr> ep_URL = deref (ce_Url e), ep_Type = deref (ce_Type e) \<rparr>) eps
           | None \<Rightarrow> [])
       | None \<Rightarrow> []),
     ci_Tags = (case cl_Spec resp of Some sp \<Rightarrow> show_tags (cs_ClusterTags sp) | None \<Rightarrow> []) \<rparr>"

definition ShowCluster :: "Client \<Rightarrow> string \<Rightarrow> (history, ClusterInfo) go" where
  "ShowCluster s clusterID =
     tryE (wrapE (msgf [''ShowCluster '', clusterID, '' failed''])
             (send (CceReq (ShowClusterReq clusterID)) (ans_ShowCluster (cli_cloud s))))
       (\<lambda>resp. ok (cluster_info resp))"

definition writes_deletes :: "clusterTagWrite list \<Rightarrow> string option list" where
  "writes_deletes ws = [k. WDelete k \<leftarrow> ws]"

definition writes_creates :: "clusterTagWrite list \<Rightarrow> ResourceTag list" where
  "writes_creates ws = [t. WCreate t \<leftarrow> ws]"

definition ReconcileClusterTags ::
    "Client \<Rightarrow> string \<Rightarrow> string \<Rightarrow> (string, string) gomap \<Rightarrow> (history, unit) go" where
  "ReconcileClusterTags s clusterID clusterName userTags =
     tryE (ShowCluster s clusterID) (\<lambda>info.
       let cur = ci_Tags info;
           want = put_tags (toClusterTags clusterName userTags) [];
           ws = planClusterTags cur want (OwnedTagKey clusterName);
           toDelete = writes_deletes ws;
           toCreate = writes_creates ws
       in tryE (if toDelete \<noteq> []
                then wrapE (msgf [''BatchDeleteClusterTags '', clusterID, '' failed''])
                       (send (CceReq (BatchDeleteClusterTagsReq clusterID toDelete)) (ack (cli_cloud s)))
                else ok ()) (\<lambda>_.
          if toCreate \<noteq> []
          then wrapE (msgf [''BatchCreateClusterTags '', clusterID, '' failed''])
                 (send (CceReq (BatchCreateClusterTagsReq clusterID toCreate)) (ack (cli_cloud s)))
          else ok ()))"

section \<open>Facts about the tag sets\<close>

lemma OwnedTagKey_not_Role [simp]: "OwnedTagKey n \<noteq> RoleTagKey" "RoleTagKey \<noteq> OwnedTagKey n"
  by (simp_all add: OwnedTagKey_def OwnedTagPrefix_def RoleTagKey_def)

lemma put_tags_distinct: "distinct (map fst m) \<Longrightarrow> distinct (map fst (put_tags ts m))"
  by (induction ts arbitrary: m) (auto simp: distinct_update split: option.splits)

lemma show_tags_distinct: "distinct (map fst (show_tags ts))"
  by (simp add: show_tags_def put_tags_distinct split: option.splits)

lemma put_tags_mk:
  "map_of (put_tags (map (\<lambda>(k, v). mk_tag k v) kvs) m) = (\<lambda>k. case map_of (rev kvs) k of
      Some v \<Rightarrow> Some v | None \<Rightarrow> map_of m k)"
  by (induction kvs arbitrary: m)
     (auto simp: mk_tag_def update_conv' map_add_def fun_eq_iff split: option.splits)

lemma toClusterTags_kvs:
  "toClusterTags n u = map (\<lambda>(k, v). mk_tag k v)
     ([(OwnedTagKey n, ''owned''), (RoleTagKey, RoleApiserver)] @
      filter (\<lambda>(k, v). \<not> skipReservedTagKey k n) u)"
  by (induction u) (auto simp: toClusterTags_def)

lemma toUserTags_kvs:
  "toUserTags n u = map (\<lambda>(k, v). mk_tag k v)
     ([(OwnedTagKey n, ''owned''), (RoleTagKey, RoleNode)] @
      filter (\<lambda>(k, v). \<not> skipReservedTagKey k n) u)"
  by (induction u) (auto simp: toUserTags_def)

section \<open>The plan converges\<close>

text \<open>The effect of a write on the tags the platform stores.\<close>

fun apply_write :: "clusterTagWrite \<Rightarrow> (string \<rightharpoonup> string) \<Rightarrow> (string \<rightharpoonup> string)" where
  "apply_write (WDelete (Some k)) m = m(k := None)"
| "apply_write (WDelete None) m = m"
| "apply_write (WCreate t) m = (case (rt_Key t, rt_Value t) of
      (Some k, Some v) \<Rightarrow> m(k \<mapsto> v) | _ \<Rightarrow> m)"

abbreviation plan_dels :: "(string, string) gomap \<Rightarrow> (string, string) gomap \<Rightarrow> string \<Rightarrow> string list" where
  "plan_dels cur want okey \<equiv>
     filter (\<lambda>k. map_of want k = None \<and> k \<noteq> okey \<and> k \<noteq> RoleTagKey) (map fst cur)"

abbreviation plan_adds :: "(string, string) gomap \<Rightarrow> (string, string) gomap \<Rightarrow> (string, string) gomap" where
  "plan_adds cur want \<equiv> filter (\<lambda>(k, v). map_of cur k \<noteq> Some v) want"

lemma planClusterTags_split:
  "planClusterTags cur want okey =
     map (\<lambda>k. WDelete (Some k)) (plan_dels cur want okey) @
     map (\<lambda>(k, v). WCreate (mk_tag k v)) (plan_adds cur want)"
proof -
  have "[WDelete k. k \<leftarrow> [Some k. (k, _) \<leftarrow> cur, map_of want k = None \<and> k \<noteq> okey], k \<noteq> Some RoleTagKey]
      = map (\<lambda>k. WDelete (Some k)) (plan_dels cur want okey)"
    by (induction cur) auto
  moreover have "map WCreate [mk_tag k v. (k, v) \<leftarrow> want', map_of cur k \<noteq> Some v] =
      map (\<lambda>(k, v). WCreate (mk_tag k v)) (plan_adds cur want')" for want'
    by (induction want') auto
  ultimately show ?thesis by (simp add: planClusterTags_def clusterTagsDiff_def)
qed

lemma fold_deletes:
  "fold apply_write (map (\<lambda>k. WDelete (Some k)) ks) m = m |` (- set ks)"
  by (induction ks arbitrary: m) (auto simp: restrict_map_def fun_eq_iff)

lemma fold_creates:
  "fold apply_write (map (\<lambda>(k, v). WCreate (mk_tag k v)) kvs) m = m ++ map_of (rev kvs)"
  by (induction kvs arbitrary: m) (auto simp: mk_tag_def map_add_def fun_eq_iff split: option.splits)

lemma map_of_rev_distinct: "distinct (map fst kvs) \<Longrightarrow> map_of (rev kvs) = map_of kvs"
  by (intro map_of_eqI) (auto simp: rev_map[symmetric] distinct_map_of_iff)

text \<open>A set of desired tags is complete when it has both reserved keys, as \<open>toClusterTags\<close> builds it.\<close>

definition complete_want :: "string \<Rightarrow> (string, string) gomap \<Rightarrow> bool" where
  "complete_want okey want \<longleftrightarrow> distinct (map fst want) \<and> map_of want okey \<noteq> None \<and> map_of want RoleTagKey \<noteq> None"

lemma plan_final:
  assumes "complete_want okey want"
  shows "fold apply_write (planClusterTags cur want okey) (map_of cur) = map_of want"
proof
  fix k
  have d: "distinct (map fst (plan_adds cur want))"
    using assms by (auto simp: complete_want_def intro: distinct_fst_filter)
  have adds: "map_of (plan_adds cur want) k =
      (if map_of want k \<noteq> map_of cur k then map_of want k else None)"
  proof (cases "map_of want k")
    case None
    then have "map_of (plan_adds cur want) k = None" by (auto simp: map_of_eq_None_iff)
    then show ?thesis using None by simp
  next
    case (Some v)
    show ?thesis
    proof (cases "map_of cur k = Some v")
      case True
      have "map_of (plan_adds cur want) k = None"
        using True Some assms by (auto simp: map_of_eq_None_iff complete_want_def distinct_map_of_iff)
           (metis distinct_map_of_iff option.inject)
      then show ?thesis using True Some by simp
    next
      case False
      then have "(k, v) \<in> set (plan_adds cur want)"
        using Some by (auto dest: map_of_SomeD)
      then show ?thesis using False Some d by (simp add: distinct_map_of_iff)
    qed
  qed
  have "k \<in> set (plan_dels cur want okey) \<longleftrightarrow> map_of cur k \<noteq> None \<and> map_of want k = None"
    using assms by (auto simp: complete_want_def map_of_eq_None_iff[of cur k])
  then show "fold apply_write (planClusterTags cur want okey) (map_of cur) k = map_of want k"
    using adds by (auto simp: planClusterTags_split fold_deletes fold_creates map_of_rev_distinct[OF d]
        map_add_def restrict_map_def split: option.splits)
qed

section \<open>The desired tags of a cluster\<close>

definition desired_tags :: "string \<Rightarrow> string \<Rightarrow> (string, string) gomap \<Rightarrow> string \<rightharpoonup> string" where
  "desired_tags role n u = (\<lambda>k. if k = OwnedTagKey n then Some ''owned''
      else if k = RoleTagKey then Some role else map_of u k)"

lemma reserved_want:
  assumes "distinct (map fst u)"
  shows "map_of (put_tags (map (\<lambda>(k, v). mk_tag k v)
           ([(OwnedTagKey n, ''owned''), (RoleTagKey, role)] @
            filter (\<lambda>(k, v). \<not> skipReservedTagKey k n) u)) []) = desired_tags role n u"
proof -
  let ?f = "filter (\<lambda>(k, v). \<not> skipReservedTagKey k n) u"
  have f: "map_of (rev ?f) = (\<lambda>k. if skipReservedTagKey k n then None else map_of u k)"
    using map_of_rev_distinct[OF distinct_fst_filter[OF assms]]
    by (auto simp: map_of_filter_key fun_eq_iff)
  show ?thesis
    unfolding put_tags_mk rev_append map_of_append f
    by (rule ext) (auto simp: desired_tags_def skipReservedTagKey_def map_add_def split: option.splits)
qed

lemma put_toClusterTags:
  "distinct (map fst u) \<Longrightarrow>
     map_of (put_tags (toClusterTags n u) []) = desired_tags RoleApiserver n u"
  unfolding toClusterTags_kvs by (rule reserved_want)

lemma put_toUserTags:
  "distinct (map fst u) \<Longrightarrow> map_of (put_tags (toUserTags n u) []) = desired_tags RoleNode n u"
  unfolding toUserTags_kvs by (rule reserved_want)

lemma complete_cluster_want:
  "distinct (map fst u) \<Longrightarrow> complete_want (OwnedTagKey n) (put_tags (toClusterTags n u) [])"
  by (simp add: complete_want_def put_toClusterTags desired_tags_def put_tags_distinct)

text \<open>Deleting first keeps every intermediate state within the larger of the two sets, so a cluster
  at the platform's tag limit never exceeds it.\<close>

lemma dom_creates: "dom (m ++ map_of (rev kvs)) = dom m \<union> set (map fst kvs)"
  by (auto simp: dom_map_of_conv_image_fst)

lemma plan_prefix_dom:
  assumes "complete_want okey want"
  shows "dom (fold apply_write (take i (planClusterTags cur want okey)) (map_of cur)) \<subseteq> dom (map_of cur) \<or>
         dom (fold apply_write (take i (planClusterTags cur want okey)) (map_of cur)) \<subseteq> dom (map_of want)"
proof (cases "i \<le> length (plan_dels cur want okey)")
  case True
  then have "take i (planClusterTags cur want okey) =
      map (\<lambda>k. WDelete (Some k)) (take i (plan_dels cur want okey))"
    by (simp add: planClusterTags_split take_map)
  then show ?thesis by (auto simp: fold_deletes restrict_map_def split: if_splits)
next
  case False
  define adds where "adds = take (i - length (plan_dels cur want okey)) (plan_adds cur want)"
  have tk: "take i (planClusterTags cur want okey) =
      map (\<lambda>k. WDelete (Some k)) (plan_dels cur want okey) @ map (\<lambda>(k, v). WCreate (mk_tag k v)) adds"
    using False by (simp add: planClusterTags_split take_map adds_def)
  have sub: "set (map fst adds) \<subseteq> dom (map_of want)"
    unfolding adds_def dom_map_of_conv_image_fst using set_take_subset by fastforce
  have "dom (map_of cur |` (- set (plan_dels cur want okey))) \<subseteq> dom (map_of want)"
    using assms by (auto simp: complete_want_def map_of_eq_None_iff[of cur] restrict_map_def
        dom_def split: if_splits)
       (metis map_of_in_fst list.set_map)+
  then have "dom (map_of cur |` (- set (plan_dels cur want okey)) ++ map_of (rev adds)) \<subseteq> dom (map_of want)"
    using sub by (simp only: dom_creates) blast
  then show ?thesis unfolding tk by (simp add: fold_deletes fold_creates)
qed

lemma plan_prefix_card:
  assumes "complete_want okey want"
  shows "card (dom (fold apply_write (take i (planClusterTags cur want okey)) (map_of cur))) \<le>
         max (card (dom (map_of cur))) (card (dom (map_of want)))"
  using plan_prefix_dom[OF assms, of i cur] by (meson card_mono finite_dom_map_of le_max_iff_disj)

lemma plan_never_deletes_reserved:
  "WDelete k \<in> set (planClusterTags cur want (OwnedTagKey n)) \<Longrightarrow>
     \<exists>k'. k = Some k' \<and> \<not> skipReservedTagKey k' n \<and> map_of want k' = None"
  by (auto simp: planClusterTags_split skipReservedTagKey_def)

text \<open>A cluster in sync needs no write at all.\<close>

lemma plan_in_sync:
  assumes "distinct (map fst want)" "map_of cur = map_of want"
  shows "planClusterTags cur want okey = []"
proof -
  have "plan_dels cur want okey = []"
    using assms(2) by (auto simp: filter_empty_conv dest: map_of_in_fst)
       (metis map_of_eq_None_iff fst_conv image_eqI)
  moreover have "plan_adds cur want = []"
    using assms by (auto simp: filter_empty_conv distinct_map_of_iff)
  ultimately show ?thesis by (simp add: planClusterTags_split)
qed

lemma tagsEqual_loop_iff: "tagsEqual_loop a b \<longleftrightarrow> (\<forall>(k, v) \<in> set a. map_of b k = Some v)"
  by (induction a b rule: tagsEqual_loop.induct) auto

lemma tagsEqual_iff:
  assumes "distinct (map fst a)" "distinct (map fst b)"
  shows "tagsEqual a b \<longleftrightarrow> map_of a = map_of b"
proof
  assume eq: "tagsEqual a b"
  then have sub: "map_of a \<subseteq>\<^sub>m map_of b"
    by (force simp: tagsEqual_def tagsEqual_loop_iff map_le_def dest: map_of_SomeD split: if_splits)
  then have "dom (map_of a) \<subseteq> dom (map_of b)" by (rule map_le_implies_dom_le)
  moreover have "card (dom (map_of a)) = card (dom (map_of b))"
    using eq assms distinct_keys_dom_card by (metis tagsEqual_def)
  ultimately have "dom (map_of a) = dom (map_of b)" by (simp add: card_subset_eq finite_dom_map_of)
  then show "map_of a = map_of b" using sub by (metis map_le_antisym map_le_def)
next
  assume eq: "map_of a = map_of b"
  then have "length a = length b"
    using distinct_keys_dom_card[OF assms(1)] distinct_keys_dom_card[OF assms(2)] by simp
  moreover have "map_of b k = Some v" if "(k, v) \<in> set a" for k v
    using that assms(1) eq by (metis distinct_map_of_iff)
  ultimately show "tagsEqual a b" by (auto simp: tagsEqual_def tagsEqual_loop_iff)
qed

section \<open>Running \<open>ReconcileClusterTags\<close>\<close>

text \<open>The effect of a request on the tags of one cluster.\<close>

definition tag_effect :: "string \<Rightarrow> request \<Rightarrow> (string \<rightharpoonup> string) \<Rightarrow> (string \<rightharpoonup> string)" where
  "tag_effect clusterID req m = (case req of
      CceReq (BatchDeleteClusterTagsReq c ks) \<Rightarrow>
        if c = clusterID then fold apply_write (map WDelete ks) m else m
    | CceReq (BatchCreateClusterTagsReq c ts) \<Rightarrow>
        if c = clusterID then fold apply_write (map WCreate ts) m else m
    | _ \<Rightarrow> m)"

lemma writes_split:
  "map WDelete (writes_deletes (planClusterTags cur want okey)) @
   map WCreate (writes_creates (planClusterTags cur want okey)) = planClusterTags cur want okey"
proof -
  have "writes_deletes (map (\<lambda>k. WDelete (Some k)) ks @ map (\<lambda>(k, v). WCreate (mk_tag k v)) kvs) =
          map Some ks" for ks kvs
    unfolding writes_deletes_def by (induction ks) (auto simp: case_prod_unfold)
  moreover have "writes_creates (map (\<lambda>k. WDelete (Some k)) ks @ map (\<lambda>(k, v). WCreate (mk_tag k v)) kvs) =
          map (\<lambda>(k, v). mk_tag k v) kvs" for ks kvs
    unfolding writes_creates_def by (induction ks; induction kvs) (auto simp: case_prod_unfold)
  ultimately show ?thesis by (simp add: planClusterTags_split comp_def case_prod_unfold)
qed

lemma run_ShowCluster:
  "run_state (ShowCluster s clusterID) tr =
     (case ans_ShowCluster (cli_cloud s) (tr @ [CceReq (ShowClusterReq clusterID)]) of
        Inl e \<Rightarrow> Inl (WrapErr (msgf [''ShowCluster '', clusterID, '' failed'']) e)
      | Inr resp \<Rightarrow> Inr (cluster_info resp), tr @ [CceReq (ShowClusterReq clusterID)])"
  by (simp add: ShowCluster_def tryE_def wrapE_def ok_def fail_def split: sum.splits)

lemma wp_ShowCluster [wp_simps]:
  "wp (ShowCluster s clusterID) Q = (\<lambda>tr.
     Q (case ans_ShowCluster (cli_cloud s) (tr @ [CceReq (ShowClusterReq clusterID)]) of
        Inl e \<Rightarrow> Inl (WrapErr (msgf [''ShowCluster '', clusterID, '' failed'']) e)
      | Inr resp \<Rightarrow> Inr (cluster_info resp)) (tr @ [CceReq (ShowClusterReq clusterID)]))"
  by (simp add: wp_def run_ShowCluster fun_eq_iff)

lemma sends_ShowCluster [sends_intros]:
  "P (CceReq (ShowClusterReq clusterID)) \<Longrightarrow> sends P (ShowCluster s clusterID)"
  unfolding ShowCluster_def by (intro sends_intros) auto

text \<open>C2: Tag convergence. When \<open>ReconcileClusterTags\<close> returns without an error, the requests it sent,
  replayed on the tags \<open>ShowCluster\<close> reported, leave exactly the desired set: the owned tag, the
  apiserver role tag, and the user's tags except those that collide with the two reserved keys.\<close>

theorem ReconcileClusterTags_converges:
  assumes "distinct (map fst userTags)"
    and "run_state (ReconcileClusterTags s clusterID n userTags) tr = (Inr (), tr')"
  shows "\<exists>resp new. ans_ShowCluster (cli_cloud s) (tr @ [CceReq (ShowClusterReq clusterID)]) = Inr resp \<and>
           tr' = tr @ CceReq (ShowClusterReq clusterID) # new \<and>
           fold (tag_effect clusterID) new (map_of (ci_Tags (cluster_info resp))) =
             desired_tags RoleApiserver n userTags"
proof (cases "ans_ShowCluster (cli_cloud s) (tr @ [CceReq (ShowClusterReq clusterID)])")
  case (Inl e)
  then show ?thesis
    using assms(2) by (simp add: ReconcileClusterTags_def tryE_def run_ShowCluster fail_def)
next
  case (Inr resp)
  define cur where "cur = ci_Tags (cluster_info resp)"
  define want where "want = put_tags (toClusterTags n userTags) []"
  define ws where "ws = planClusterTags cur want (OwnedTagKey n)"
  have "wp (ReconcileClusterTags s clusterID n userTags)
      (\<lambda>r tr'. r = Inr () \<longrightarrow> (\<exists>new. tr' = tr @ CceReq (ShowClusterReq clusterID) # new \<and>
         fold (tag_effect clusterID) new (map_of cur) =
         fold apply_write (map WDelete (writes_deletes ws) @ map WCreate (writes_creates ws)) (map_of cur))) tr"
    by (auto simp: ReconcileClusterTags_def wp_simps Inr Let_def tag_effect_def
        cur_def[symmetric] want_def[symmetric] ws_def[symmetric] split: sum.splits)
  then have "\<exists>new. tr' = tr @ CceReq (ShowClusterReq clusterID) # new \<and>
         fold (tag_effect clusterID) new (map_of cur) = fold apply_write ws (map_of cur)"
    using assms(2) writes_split[of cur want "OwnedTagKey n"] by (simp add: wp_run ws_def)
  moreover have "fold apply_write ws (map_of cur) = desired_tags RoleApiserver n userTags"
    using plan_final[OF complete_cluster_want[OF assms(1)]] put_toClusterTags[OF assms(1)]
    by (simp add: ws_def want_def)
  ultimately show ?thesis using Inr by (auto simp: cur_def)
qed

text \<open>Reserved tags survive. No request \<open>ReconcileClusterTags\<close> sends deletes the owned tag or the
  role tag, for any cloud, whatever tags the user asks for.\<close>

theorem ReconcileClusterTags_keeps_reserved:
  "sends (\<lambda>req. case req of CceReq (BatchDeleteClusterTagsReq c ks) \<Rightarrow>
        c = clusterID \<and> list_all (\<lambda>k. \<not> skipReservedTagKey (deref k) n) ks
      | _ \<Rightarrow> True) (ReconcileClusterTags s clusterID n userTags)"
proof -
  have "list_all (\<lambda>k. \<not> skipReservedTagKey (deref k) n)
      (writes_deletes (planClusterTags cur want (OwnedTagKey n)))" for cur want
  proof (unfold list_all_iff, rule ballI)
    fix k
    assume "k \<in> set (writes_deletes (planClusterTags cur want (OwnedTagKey n)))"
    then have "WDelete k \<in> set (planClusterTags cur want (OwnedTagKey n))"
      by (metis UnI1 imageI list.set_map set_append writes_split)
    from plan_never_deletes_reserved[OF this] show "\<not> skipReservedTagKey (deref k) n"
      by (auto simp: deref_def)
  qed
  then show ?thesis
    unfolding ReconcileClusterTags_def Let_def
    by (intro sends_intros) (auto intro!: sends_intros)
qed

text \<open>Deletions come first, so the platform's limit is never exceeded on the way. After any
  number of the planned writes the cluster has at most as many tags as the larger of its current and
  its desired set.\<close>

theorem planClusterTags_within_limit:
  assumes "distinct (map fst userTags)"
  shows "card (dom (fold apply_write
             (take i (planClusterTags cur (put_tags (toClusterTags n userTags) []) (OwnedTagKey n)))
             (map_of cur))) \<le>
         max (card (dom (map_of cur))) (card (dom (desired_tags RoleApiserver n userTags)))"
  using plan_prefix_card[OF complete_cluster_want[OF assms, of n], of i cur]
  by (simp add: put_toClusterTags[OF assms])

section \<open>Witnesses\<close>

text \<open>A cloud whose only cluster carries a stale tag and a drifted role, and accepts every write.\<close>

definition example_spec :: ClusterSpec where
  "example_spec = \<lparr> cs_Category = None, cs_BillingMode = None, cs_ContainerNetwork = None,
     cs_AgencyName = None, cs_Flavor = None, cs_Version = Some ''v1.30'', cs_ServiceNetwork = None,
     cs_Ipv6enable = None, cs_EnableAutopilot = None, cs_CustomSan = None, cs_EniSubnets = None,
     cs_PublicAccess = None, cs_HostNetwork = None, cs_ConfigurationsOverride = None,
     cs_ClusterTags = Some [mk_tag ''stale'' ''x'', mk_tag RoleTagKey ''worker''],
     cs_EncryptionConfig = None, cs_Authentication = None \<rparr>"

definition tagged_cloud :: cloud where
  "tagged_cloud = empty_cloud \<lparr> ans_ShowCluster := (\<lambda>_. Inr \<lparr> cl_Metadata =
     Some \<lparr> cm_Uid = Some ''c1'', cm_Name = ''demo'' \<rparr>, cl_Spec = Some example_spec, cl_Status = None \<rparr>) \<rparr>"

definition example_client :: "cloud \<Rightarrow> Client" where
  "example_client c = \<lparr> cli_cloud = c, cli_has_eip = True \<rparr>"

theorem ReconcileClusterTags_converges_witness:
  "\<exists>resp new. ans_ShowCluster tagged_cloud [CceReq (ShowClusterReq ''c1'')] = Inr resp \<and>
     snd (run_state (ReconcileClusterTags (example_client tagged_cloud) ''c1'' ''demo'' [(''team'', ''a'')]) []) =
       CceReq (ShowClusterReq ''c1'') # new \<and>
     fold (tag_effect ''c1'') new (map_of (ci_Tags (cluster_info resp))) =
       desired_tags RoleApiserver ''demo'' [(''team'', ''a'')]"
proof -
  let ?m = "ReconcileClusterTags (example_client tagged_cloud) ''c1'' ''demo'' [(''team'', ''a'')]"
  have "fst (run_state ?m []) = Inr ()"
    by (simp add: ReconcileClusterTags_def tryE_def run_ShowCluster wrapE_def ok_def fail_def Let_def
        example_client_def tagged_cloud_def empty_cloud_def)
  then have "run_state ?m [] = (Inr (), snd (run_state ?m []))" by (simp add: prod_eq_iff)
  from ReconcileClusterTags_converges[OF _ this] show ?thesis
    by (simp add: example_client_def)
qed

theorem planClusterTags_within_limit_witness:
  "card (dom (fold apply_write (take 1 (planClusterTags [(''old'', ''1'')]
       (put_tags (toClusterTags ''demo'' [(''new'', ''2'')]) []) (OwnedTagKey ''demo'')))
     (map_of [(''old'', ''1'')]))) \<le>
   max (card (dom (map_of [(''old'', ''1'')]))) (card (dom (desired_tags RoleApiserver ''demo'' [(''new'', ''2'')])))"
  by (rule planClusterTags_within_limit) simp

end
