(* ===== verification/Base64.thy ===== *)
theory Base64
  imports Prelude
begin

text \<open>
  \<open>base64.StdEncoding\<close> of the Go standard library on byte strings, as the certificate code uses it:
  padded encoding, and decoding that skips CR and LF and rejects everything else that is not a
  sequence of complete quantums (with padding in the last one only).
\<close>

definition b64_alphabet :: string where
  "b64_alphabet = ''ABCDEFGHIJKLMNOPQRSTUVWXYZabcdefghijklmnopqrstuvwxyz0123456789+/''"

definition b64_char :: "nat \<Rightarrow> char" where
  "b64_char n = b64_alphabet ! n"

definition b64_val :: "char \<Rightarrow> nat option" where
  "b64_val c = find (\<lambda>n. b64_char n = c) [0 ..< 64]"

fun b64_encode :: "string \<Rightarrow> string" where
  "b64_encode [] = []"
| "b64_encode [a] = (let x = of_char a in
     [b64_char (x div 4), b64_char (x mod 4 * 16), CHR ''='', CHR ''=''])"
| "b64_encode [a, b] = (let x = of_char a; y = of_char b in
     [b64_char (x div 4), b64_char (x mod 4 * 16 + y div 16), b64_char (y mod 16 * 4), CHR ''=''])"
| "b64_encode (a # b # c # s) = (let x = of_char a; y = of_char b; z = of_char c in
     b64_char (x div 4) # b64_char (x mod 4 * 16 + y div 16) #
     b64_char (y mod 16 * 4 + z div 64) # b64_char (z mod 64) # b64_encode s)"

fun b64_decode_quantums :: "string \<Rightarrow> string option" where
  "b64_decode_quantums [] = Some []"
| "b64_decode_quantums [a, b, c, d] =
     (case (b64_val a, b64_val b, b64_val c, b64_val d) of
        (Some p, Some q, Some r, Some t) \<Rightarrow>
          Some [char_of (p * 4 + q div 16), char_of (q mod 16 * 16 + r div 4), char_of (r mod 4 * 64 + t)]
      | (Some p, Some q, Some r, None) \<Rightarrow>
          if d = CHR ''='' then Some [char_of (p * 4 + q div 16), char_of (q mod 16 * 16 + r div 4)] else None
      | (Some p, Some q, None, None) \<Rightarrow>
          if c = CHR ''='' \<and> d = CHR ''='' then Some [char_of (p * 4 + q div 16)] else None
      | _ \<Rightarrow> None)"
| "b64_decode_quantums (a # b # c # d # s) =
     (case (b64_val a, b64_val b, b64_val c, b64_val d) of
        (Some p, Some q, Some r, Some t) \<Rightarrow>
          map_option ((@) [char_of (p * 4 + q div 16), char_of (q mod 16 * 16 + r div 4),
                           char_of (r mod 4 * 64 + t)]) (b64_decode_quantums s)
      | _ \<Rightarrow> None)"
| "b64_decode_quantums _ = None"

definition b64_decode :: "string \<Rightarrow> string option" where
  "b64_decode s = b64_decode_quantums (filter (\<lambda>c. c \<noteq> char_of (10 :: nat) \<and> c \<noteq> char_of (13 :: nat)) s)"

section \<open>Round trip\<close>

lemma b64_val_char: "n < 64 \<Longrightarrow> b64_val (b64_char n) = Some n"
proof -
  have "\<forall>n \<in> set [0 ..< 64]. b64_val (b64_char n) = Some n" by code_simp
  then show "n < 64 \<Longrightarrow> ?thesis" by simp
qed

lemma b64_val_pad [simp]: "b64_val CHR ''='' = None"
  by code_simp

lemma b64_char_not_newline:
  "n < 64 \<Longrightarrow> b64_char n \<noteq> char_of (10 :: nat) \<and> b64_char n \<noteq> char_of (13 :: nat)"
proof -
  have "\<forall>n \<in> set [0 ..< 64]. b64_char n \<noteq> char_of (10 :: nat) \<and> b64_char n \<noteq> char_of (13 :: nat)"
    by code_simp
  then show "n < 64 \<Longrightarrow> ?thesis" by simp
qed

lemma b64_pad_not_newline [simp]:
  "CHR ''='' \<noteq> char_of (10 :: nat)" "CHR ''='' \<noteq> char_of (13 :: nat)"
  by code_simp+

lemma byte_divs [simp]:
  fixes c :: char
  shows "(of_char c :: nat) div 4 < 64" "(of_char c :: nat) div 16 div 16 = 0"
    "(of_char c :: nat) div 16 mod 16 = of_char c div 16"
    "(of_char c :: nat) div 64 div 4 = 0" "(of_char c :: nat) div 64 mod 4 = of_char c div 64"
proof -
  have c: "(of_char c :: nat) < 256" by simp
  show "(of_char c :: nat) div 4 < 64" using c by (simp add: less_mult_imp_div_less)
  have d: "(of_char c :: nat) div 16 < 16" "(of_char c :: nat) div 64 < 4"
    using c by (simp_all add: less_mult_imp_div_less)
  then show "(of_char c :: nat) div 16 div 16 = 0"
    "(of_char c :: nat) div 16 mod 16 = of_char c div 16"
    "(of_char c :: nat) div 64 div 4 = 0" "(of_char c :: nat) div 64 mod 4 = of_char c div 64"
    by (simp_all only: div_less mod_less)
qed

lemma sextet_bounds [simp]:
  fixes a c :: char
  shows "(of_char a :: nat) mod 4 * 16 + of_char c div 16 < 64"
    "(of_char a :: nat) mod 16 * 4 + of_char c div 64 < 64"
    "(of_char a :: nat) mod 4 * 16 < 64" "(of_char a :: nat) mod 16 * 4 < 64"
proof -
  have "(of_char c :: nat) < 256" by simp
  then have "(of_char c :: nat) div 16 < 16" "(of_char c :: nat) div 64 < 4"
    by (simp_all add: less_mult_imp_div_less)
  moreover have "(of_char a :: nat) mod 4 < 4" "(of_char a :: nat) mod 16 < 16" by simp_all
  ultimately show "(of_char a :: nat) mod 4 * 16 + of_char c div 16 < 64"
    "(of_char a :: nat) mod 16 * 4 + of_char c div 64 < 64"
    "(of_char a :: nat) mod 4 * 16 < 64" "(of_char a :: nat) mod 16 * 4 < 64"
    by linarith+
qed

lemma b64_encode_clean:
  "filter (\<lambda>c. c \<noteq> char_of (10 :: nat) \<and> c \<noteq> char_of (13 :: nat)) (b64_encode s) = b64_encode s"
  by (induction s rule: b64_encode.induct) (simp_all add: Let_def b64_char_not_newline)

lemma b64_decode_encode: "b64_decode (b64_encode s) = Some s"
proof -
  have "b64_decode_quantums (b64_encode s) = Some s"
  proof (induction s rule: b64_encode.induct)
    case (4 a b c s)
    then show ?case by (cases "b64_encode s") (simp_all add: Let_def b64_val_char)
  qed (simp_all add: Let_def b64_val_char)
  then show ?thesis by (simp add: b64_decode_def b64_encode_clean)
qed

end
