(* ===== verification/CceCluster.thy ===== *)
theory CceCluster
  imports CceTags Base64
begin

text \<open>
  The cluster operations of \<open>internal/services/cce/cce.go\<close>: building the create request, creating
  with adoption of an existing cluster the provider owns, deleting, binding and releasing the
  public address of the API server, and assembling the kubeconfig. Message arguments that the code
  formats with \<open>%q\<close> are inserted without the quotes.
\<close>

section \<open>Building the create request\<close>

definition ModeENI :: string where "ModeENI = ''eni''"
definition ModeVPCRouter :: string where "ModeVPCRouter = ''vpc-router''"
definition ModeOverlayL2 :: string where "ModeOverlayL2 = ''overlay_l2''"
definition DefaultEIPType :: string where "DefaultEIPType = ''5_bgp''"

definition cceClusterVersion :: "string \<Rightarrow> string" where
  "cceClusterVersion v = (case split2 CHR ''.'' v of
      (a, Some r) \<Rightarrow> (case split2 CHR ''.'' r of (b, Some _) \<Rightarrow> a @ ''.'' @ b | (_, None) \<Rightarrow> v)
    | (_, None) \<Rightarrow> v)"

definition clusterCategory :: "string \<Rightarrow> string \<Rightarrow> ClusterSpecCategoryEnum" where
  "clusterCategory category networkMode =
     (if category = ''Turbo'' then TURBO
      else if category = '''' \<and> networkMode = ModeENI then TURBO
      else CCE)"

definition encryptionModeEnum :: "string \<Rightarrow> EncryptionConfigModeEnum" where
  "encryptionModeEnum mode = (if mode = ''KMS'' then KMS else DEFAULT)"

definition base64StrPtr :: "string \<Rightarrow> string option" where
  "base64StrPtr s = (if s = '''' then None else Some (b64_encode s))"

text \<open>\<open>if s != "" { p = ptr.To(s) }\<close>\<close>

definition ptr_or_nil :: "string \<Rightarrow> string option" where
  "ptr_or_nil s = (if s = '''' then None else Some s)"

definition list_or_nil :: "'a list \<Rightarrow> 'a list option" where
  "list_or_nil l = (if l = [] then None else Some l)"

definition container_mode :: "string \<Rightarrow> ContainerNetworkModeEnum" where
  "container_mode mode =
     (if mode = ModeVPCRouter then VPC_ROUTER else if mode = ModeENI then ENI else OVERLAY_L2)"

definition create_cluster_spec :: "CreateClusterInput \<Rightarrow> ClusterSpec" where
  "create_cluster_spec i = \<lparr>
     cs_Category = Some (clusterCategory (cci_Category i) (cci_ContainerNetworkMode i)),
     cs_BillingMode = Some (cci_BillingMode i),
     cs_ContainerNetwork = Some \<lparr> cn_Mode = container_mode (cci_ContainerNetworkMode i),
        cn_Cidr = ptr_or_nil (cci_ContainerNetworkCIDR i),
        cn_Cidrs = list_or_nil (cci_ContainerNetworkCIDRs i) \<rparr>,
     cs_AgencyName = ptr_or_nil (cci_AgencyName i),
     cs_Flavor = ptr_or_nil (cci_Flavor i),
     cs_Version = (if cci_Version i \<noteq> '''' then Some (cceClusterVersion (cci_Version i)) else None),
     cs_ServiceNetwork =
        (if cci_ServiceCIDR i \<noteq> '''' \<or> cci_ServiceIPv6CIDR i \<noteq> ''''
         then Some \<lparr> sn_IPv4CIDR = ptr_or_nil (cci_ServiceCIDR i),
                     sn_IPv6CIDR = ptr_or_nil (cci_ServiceIPv6CIDR i) \<rparr>
         else None),
     cs_Ipv6enable = cci_Ipv6Enable i,
     cs_EnableAutopilot = cci_EnableAutopilot i,
     cs_CustomSan = list_or_nil (cci_CustomSAN i),
     cs_EniSubnets = list_or_nil (cci_ENISubnets i),
     cs_PublicAccess =
        (if cci_PublicAccess i then Some (list_or_nil (cci_PublicAccessCIDRs i)) else None),
     cs_HostNetwork = Some \<lparr> hn_Vpc = cci_HostNetworkVpcID i, hn_Subnet = cci_HostNetworkSubnetID i \<rparr>,
     cs_ConfigurationsOverride =
        (if cci_EnableDataPlaneV2 i then Some [(ModeENI, [(''dataplane-v2'', True)])] else None),
     cs_ClusterTags = Some (toClusterTags (cci_Name i) (cci_Tags i)),
     cs_EncryptionConfig = (case cci_EncryptionConfig i of
        Some e \<Rightarrow> if eci_Mode e \<noteq> '''' then Some (encryptionModeEnum (eci_Mode e)) else None
      | None \<Rightarrow> None),
     cs_Authentication = (case cci_Authentication i of
        Some a \<Rightarrow> if aui_Mode a \<noteq> '''' then Some \<lparr> au_Mode = Some (aui_Mode a),
            au_AuthenticatingProxy = map_option (\<lambda>p. \<lparr>
               ap_Ca = base64StrPtr (api_CA p), ap_Cert = base64StrPtr (api_Cert p),
               ap_PrivateKey = base64StrPtr (api_PrivateKey p) \<rparr>) (aui_AuthenticatingProxy a) \<rparr>
          else None
      | None \<Rightarrow> None) \<rparr>"

definition buildCreateClusterRequest :: "CreateClusterInput \<Rightarrow> go_error + Cluster" where
  "buildCreateClusterRequest i =
     (if cci_HostNetworkVpcID i = '''' \<or> cci_HostNetworkSubnetID i = ''''
      then Inl (PlainErr ''CreateCluster: hostNetwork vpc and subnet are required'')
      else Inr \<lparr> cl_Metadata = Some \<lparr> cm_Uid = None, cm_Name = cci_Name i \<rparr>,
                cl_Spec = Some (create_cluster_spec i), cl_Status = None \<rparr>)"

section \<open>Creating and deleting\<close>

definition adoptConflictCandidate ::
    "string \<Rightarrow> string \<Rightarrow> string \<Rightarrow> (string, string) gomap \<Rightarrow> string \<Rightarrow> go_error + string" where
  "adoptConflictCandidate kind name rid resourceTags clusterName =
     (if \<not> IsOwned resourceTags clusterName
      then Inl (PlainErr (msgf [kind, '' '', name, '' ('', rid,
             '') already exists but is not owned by this provider; refusing to adopt'']))
      else Inr rid)"

fun cluster_id_by_name :: "string \<Rightarrow> Cluster list \<Rightarrow> string option" where
  "cluster_id_by_name name [] = None"
| "cluster_id_by_name name (c # cs) = (case cl_Metadata c of
      Some m \<Rightarrow> (case cm_Uid m of
          Some u \<Rightarrow> if cm_Name m = name then Some u else cluster_id_by_name name cs
        | None \<Rightarrow> cluster_id_by_name name cs)
    | None \<Rightarrow> cluster_id_by_name name cs)"

definition findClusterIDByName :: "Client \<Rightarrow> string \<Rightarrow> (history, string) go" where
  "findClusterIDByName s name =
     tryE (wrapE ''ListClusters failed'' (send (CceReq ListClustersReq) (ans_ListClusters (cli_cloud s))))
       (\<lambda>items. case (case items of Some cs \<Rightarrow> cluster_id_by_name name cs | None \<Rightarrow> None) of
           Some u \<Rightarrow> ok u
         | None \<Rightarrow> fail (PlainErr (msgf [''cluster '', name, '' not found by name''])))"

definition CreateCluster :: "Client \<Rightarrow> CreateClusterInput \<Rightarrow> (history, string) go" where
  "CreateCluster s i = (case buildCreateClusterRequest i of
      Inl e \<Rightarrow> fail e
    | Inr req \<Rightarrow> do {
        r \<leftarrow> send (CceReq (CreateClusterReq req)) (ans_CreateCluster (cli_cloud s));
        case r of
          Inl err \<Rightarrow>
            if IsConflict err then do {
              f \<leftarrow> findClusterIDByName s (cci_Name i);
              case f of
                Inr cid \<Rightarrow>
                  if cid \<noteq> '''' then do {
                    sh \<leftarrow> ShowCluster s cid;
                    case sh of
                      Inr info \<Rightarrow>
                        if ci_Phase info = ''Available'' \<or> ci_Phase info = ''Creating''
                        then State_Monad.return
                          (adoptConflictCandidate ''cluster'' (cci_Name i) cid (ci_Tags info) (cci_Name i))
                        else fail (WrapErr (msgf [''CreateCluster conflicted but existing cluster '',
                               cci_Name i, '' is not adoptable'']) err)
                    | Inl _ \<Rightarrow> fail (WrapErr (msgf [''CreateCluster conflicted but existing cluster '',
                               cci_Name i, '' is not adoptable'']) err)
                  } else fail (WrapErr ''CreateCluster failed'' err)
              | Inl _ \<Rightarrow> fail (WrapErr ''CreateCluster failed'' err)
            } else fail (WrapErr ''CreateCluster failed'' err)
        | Inr resp \<Rightarrow> (case (case cl_Metadata resp of Some m \<Rightarrow> cm_Uid m | None \<Rightarrow> None) of
              Some uid \<Rightarrow> ok uid
            | None \<Rightarrow> wrapE ''CreateCluster returned no ID and lookup by name failed''
                        (findClusterIDByName s (cci_Name i)))
      })"

definition delete_cluster_request :: "DeleteClusterInput \<Rightarrow> DeleteClusterRequest" where
  "delete_cluster_request i = \<lparr>
     dcr_ClusterId = dci_ClusterID i,
     dcr_DeleteEvs = (if dci_DeleteEVS i then Some BLOCK else None),
     dcr_DeleteEni = (if dci_DeleteENI i then Some BLOCK else None),
     dcr_DeleteNet = (if dci_DeleteELB i then Some BLOCK else None),
     dcr_OndemandNodePolicy =
       (if dci_OnDemandNodePolicy i = ''reset'' then Some OD_RESET
        else if dci_OnDemandNodePolicy i = ''retain'' then Some OD_RETAIN
        else Some OD_DELETE),
     dcr_PeriodicNodePolicy =
       (if dci_PeriodicNodePolicy i = ''reset'' then Some PE_RESET
        else if dci_PeriodicNodePolicy i = ''retain'' then Some PE_RETAIN
        else None) \<rparr>"

text \<open>A delete whose NotFound counts as success, the idiom of every delete of the service layer.\<close>

definition tolerate_missing :: "string \<Rightarrow> (history, unit) go \<Rightarrow> (history, unit) go" where
  "tolerate_missing msg m = do {
     r \<leftarrow> m;
     case r of
       Inl err \<Rightarrow> if IsNotFound err then ok () else fail (WrapErr msg err)
     | Inr _ \<Rightarrow> ok () }"

definition DeleteCluster :: "Client \<Rightarrow> DeleteClusterInput \<Rightarrow> (history, unit) go" where
  "DeleteCluster s i =
     tolerate_missing (msgf [''DeleteCluster '', dci_ClusterID i, '' failed''])
       (send (CceReq (DeleteClusterReq (delete_cluster_request i))) (ack (cli_cloud s)))"

section \<open>The public address of the API server\<close>

definition BindClusterEip :: "Client \<Rightarrow> string \<Rightarrow> string \<Rightarrow> (history, string \<times> string) go" where
  "BindClusterEip s clusterID clusterName = (
     if \<not> cli_has_eip s then fail (PlainErr ''BindClusterEip: EIP client is not configured'')
     else let name = clusterName @ ''-apiserver-eip''; cl = cli_cloud s in
     tryE (wrapE ''CreatePublicip(apiserver) failed''
             (send (EipReq (CreatePublicipReq name 5 DefaultEIPType)) (ans_CreatePublicip cl)))
       (\<lambda>resp. case (case resp of Some p \<Rightarrow> pi_Id p | None \<Rightarrow> None) of
          None \<Rightarrow> fail (PlainErr ''CreatePublicip(apiserver) returned no id'')
        | Some eipID \<Rightarrow>
            let addr = (case resp of Some p \<Rightarrow> deref (pi_PublicIpAddress p) | None \<Rightarrow> '''') in do {
            t \<leftarrow> send (EipReq (CreatePublicipTagReq eipID (OwnedTagKey clusterName) ''owned'')) (ack cl);
            case t of
              Inl terr \<Rightarrow> do {
                _ \<leftarrow> send (EipReq (DeletePublicipReq eipID)) (ack cl);
                fail (WrapErr ''CreatePublicipTag(owned) failed; untagged EIP released'' terr) }
            | Inr _ \<Rightarrow> do {
                b \<leftarrow> send (CceReq (UpdateClusterEipReq clusterID BIND (Some eipID))) (ack cl);
                case b of
                  Inl berr \<Rightarrow> do {
                    _ \<leftarrow> send (EipReq (DeletePublicipReq eipID)) (ack cl);
                    fail (WrapErr (msgf [''UpdateClusterEip(bind) '', clusterID, '' failed; EIP released'']) berr) }
                | Inr _ \<Rightarrow> ok (eipID, addr) } }))"

definition UnbindClusterEip :: "Client \<Rightarrow> string \<Rightarrow> string \<Rightarrow> (history, unit) go" where
  "UnbindClusterEip s clusterID eipID = (
     if eipID = '''' then ok ()
     else if \<not> cli_has_eip s then fail (PlainErr ''UnbindClusterEip: EIP client is not configured'')
     else tryE (tolerate_missing (msgf [''UpdateClusterEip(unbind) '', clusterID, '' failed''])
                 (send (CceReq (UpdateClusterEipReq clusterID UNBIND None)) (ack (cli_cloud s))))
            (\<lambda>_. tolerate_missing (msgf [''DeletePublicip '', eipID, '' failed''])
                 (send (EipReq (DeletePublicipReq eipID)) (ack (cli_cloud s)))))"

section \<open>The contract of the idempotent deletes\<close>

text \<open>
  A delete operation of the service layer sends one request, and fails exactly when the platform
  refuses it for another reason than that the resource is gone.
\<close>

locale idempotent_delete =
  fixes del :: "Client \<Rightarrow> 'a \<Rightarrow> (history, unit) go"
    and req :: "'a \<Rightarrow> request"
    and msg :: "'a \<Rightarrow> string"
  assumes del_run: "run_state (del s x) tr =
    (case ack (cli_cloud s) (tr @ [req x]) of
       Inl e \<Rightarrow> if IsNotFound e then Inr () else Inl (WrapErr (msg x) e)
     | Inr _ \<Rightarrow> Inr (), tr @ [req x])"
begin

lemma wp_del: "wp (del s x) Q = (\<lambda>tr. Q (case ack (cli_cloud s) (tr @ [req x]) of
       Inl e \<Rightarrow> if IsNotFound e then Inr () else Inl (WrapErr (msg x) e)
     | Inr _ \<Rightarrow> Inr ()) (tr @ [req x]))"
  by (simp add: wp_def del_run fun_eq_iff)

lemma sends_del: "P (req x) \<Longrightarrow> sends P (del s x)"
  by (auto simp: sends_def keeps_def wp_del intro: extends_snoc)

lemma del_gone: "(\<And>e. ack (cli_cloud s) (tr @ [req x]) = Inl e \<Longrightarrow> IsNotFound e) \<Longrightarrow>
    run_state (del s x) tr = (Inr (), tr @ [req x])"
  by (simp add: del_run split: sum.splits)

lemma del_error: "fst (run_state (del s x) tr) = Inl err \<Longrightarrow>
    \<exists>e. ack (cli_cloud s) (tr @ [req x]) = Inl e \<and> \<not> IsNotFound e \<and> err = WrapErr (msg x) e"
  by (auto simp: del_run split: sum.splits if_splits)

lemma del_error_class:
  assumes "fst (run_state (del s x) tr) = Inl err"
  shows "\<not> IsNotFound err \<and> (\<exists>e. ack (cli_cloud s) (tr @ [req x]) = Inl e \<and>
    IsThrottled err = IsThrottled e \<and> IsQuotaExceeded err = IsQuotaExceeded e \<and>
    IsPermissionDenied err = IsPermissionDenied e)"
  using del_error[OF assms] by auto

end

lemma run_tolerate_missing:
  "run_state (tolerate_missing m (send q (ack c))) tr =
    (case ack c (tr @ [q]) of
       Inl e \<Rightarrow> if IsNotFound e then Inr () else Inl (WrapErr m e)
     | Inr _ \<Rightarrow> Inr (), tr @ [q])"
  by (simp add: tolerate_missing_def ok_def fail_def split: sum.splits)

interpretation dc: idempotent_delete DeleteCluster
  "\<lambda>i. CceReq (DeleteClusterReq (delete_cluster_request i))"
  "\<lambda>i. msgf [''DeleteCluster '', dci_ClusterID i, '' failed'']"
  by unfold_locales (simp only: DeleteCluster_def run_tolerate_missing)

lemma wp_tolerate_missing [wp_simps]:
  "wp (tolerate_missing msg m) Q = wp m (\<lambda>r. case r of
       Inl e \<Rightarrow> if IsNotFound e then Q (Inr ()) else Q (Inl (WrapErr msg e)) | Inr _ \<Rightarrow> Q (Inr ()))"
  by (simp add: tolerate_missing_def wp_simps cong: sum.case_cong if_cong)

lemma sends_tolerate_missing [sends_intros]: "sends P m \<Longrightarrow> sends P (tolerate_missing msg m)"
  unfolding tolerate_missing_def by (intro sends_intros)

section \<open>Properties\<close>

lemma wp_findClusterIDByName:
  "wp (findClusterIDByName s name) (\<lambda>r tr'. tr' = tr @ [CceReq ListClustersReq]) tr"
  by (simp add: findClusterIDByName_def wp_simps split: sum.splits option.splits)

lemma adoptConflictCandidate_Inr [simp]:
  "adoptConflictCandidate kind name rid t n = Inr r \<longleftrightarrow> r = rid \<and> IsOwned t n"
  by (auto simp: adoptConflictCandidate_def)

text \<open>C1: A create that the platform refuses never adopts a cluster of somebody else. When
  \<open>CreateCluster\<close> returns an ID although the create request failed, the failure was a conflict and the
  last request read that very cluster, which is Available or Creating and carries the owned tag of
  this cluster name.\<close>

theorem CreateCluster_adopts_only_owned:
  assumes "buildCreateClusterRequest i = Inr req"
    and "ans_CreateCluster (cli_cloud s) (tr @ [CceReq (CreateClusterReq req)]) = Inl err"
    and "run_state (CreateCluster s i) tr = (Inr cid, tr')"
  shows "IsConflict err \<and> (\<exists>resp. last tr' = CceReq (ShowClusterReq cid) \<and>
           ans_ShowCluster (cli_cloud s) tr' = Inr resp \<and>
           IsOwned (ci_Tags (cluster_info resp)) (cci_Name i) \<and>
           ci_Phase (cluster_info resp) \<in> {''Available'', ''Creating''})"
proof -
  have "wp (CreateCluster s i) (\<lambda>r tr'. \<forall>cid. r = Inr cid \<longrightarrow> IsConflict err \<and>
      (\<exists>resp. last tr' = CceReq (ShowClusterReq cid) \<and>
           ans_ShowCluster (cli_cloud s) tr' = Inr resp \<and>
           IsOwned (ci_Tags (cluster_info resp)) (cci_Name i) \<and>
           ci_Phase (cluster_info resp) \<in> {''Available'', ''Creating''})) tr"
    using assms(1,2)
    by (auto simp: CreateCluster_def findClusterIDByName_def wp_simps split: sum.splits option.splits)
  then show ?thesis using assms(3) by (simp add: wp_run)
qed

text \<open>C20: Binding the public address never leaks one. If the platform hands out an EIP and
  \<open>BindClusterEip\<close> fails, its last request releases that EIP; if it succeeds, the EIP was tagged as
  owned before it was bound, and it is the one returned.\<close>

theorem BindClusterEip_no_leak:
  assumes "cli_has_eip s"
    and "ans_CreatePublicip (cli_cloud s)
           (tr @ [EipReq (CreatePublicipReq (n @ ''-apiserver-eip'') 5 DefaultEIPType)]) = Inr (Some p)"
    and "pi_Id p = Some eip"
    and "run_state (BindClusterEip s clusterID n) tr = (r, tr')"
  shows "case r of
      Inl _ \<Rightarrow> last tr' = EipReq (DeletePublicipReq eip)
    | Inr (rid, _) \<Rightarrow> rid = eip \<and> tr' = tr @
        [EipReq (CreatePublicipReq (n @ ''-apiserver-eip'') 5 DefaultEIPType),
         EipReq (CreatePublicipTagReq eip (OwnedTagKey n) ''owned''),
         CceReq (UpdateClusterEipReq clusterID BIND (Some eip))]"
proof -
  have "wp (BindClusterEip s clusterID n) (\<lambda>r tr'. case r of
      Inl _ \<Rightarrow> last tr' = EipReq (DeletePublicipReq eip)
    | Inr (rid, _) \<Rightarrow> rid = eip \<and> tr' = tr @
        [EipReq (CreatePublicipReq (n @ ''-apiserver-eip'') 5 DefaultEIPType),
         EipReq (CreatePublicipTagReq eip (OwnedTagKey n) ''owned''),
         CceReq (UpdateClusterEipReq clusterID BIND (Some eip))]) tr"
    using assms(1-3) by (auto simp: BindClusterEip_def Let_def wp_simps split: sum.splits)
  then show ?thesis using assms(4) by (simp add: wp_run)
qed

text \<open>Deleting a cluster is idempotent and keeps error classes. \<open>DeleteCluster\<close> sends exactly one
  request; it fails exactly when the platform refuses for another reason than NotFound, and the error it
  returns is parked by the controllers exactly like the platform's.\<close>

theorem DeleteCluster_idempotent:
  "\<exists>res. run_state (DeleteCluster s i) tr =
           (res, tr @ [CceReq (DeleteClusterReq (delete_cluster_request i))]) \<and>
    (case res of
       Inr _ \<Rightarrow> (case ack (cli_cloud s) (tr @ [CceReq (DeleteClusterReq (delete_cluster_request i))]) of
           Inr _ \<Rightarrow> True | Inl e \<Rightarrow> IsNotFound e)
     | Inl err \<Rightarrow> (case ack (cli_cloud s) (tr @ [CceReq (DeleteClusterReq (delete_cluster_request i))]) of
           Inr _ \<Rightarrow> False
         | Inl e \<Rightarrow> \<not> IsNotFound err \<and> IsThrottled err = IsThrottled e \<and>
             IsQuotaExceeded err = IsQuotaExceeded e \<and> IsPermissionDenied err = IsPermissionDenied e))"
  by (auto simp: dc.del_run split: sum.splits)

section \<open>Witnesses\<close>

text \<open>A cloud where the cluster exists already and belongs to the provider.\<close>

definition conflict_cloud :: cloud where
  "conflict_cloud = empty_cloud \<lparr>
     ans_CreateCluster := (\<lambda>_. Inl (SdkErr 409 ''CCE.01409001'' ''exists'')),
     ans_ListClusters := (\<lambda>_. Inr (Some [\<lparr> cl_Metadata = Some \<lparr> cm_Uid = Some ''c1'', cm_Name = ''demo'' \<rparr>,
        cl_Spec = None, cl_Status = None \<rparr>])),
     ans_ShowCluster := (\<lambda>_. Inr \<lparr> cl_Metadata = None,
        cl_Spec = Some (example_spec \<lparr> cs_ClusterTags := Some [mk_tag (OwnedTagKey ''demo'') ''owned''] \<rparr>),
        cl_Status = Some \<lparr> cst_Phase = Some ''Available'', cst_Endpoints = None \<rparr> \<rparr>),
     ans_CreatePublicip := (\<lambda>_. Inr (Some \<lparr> pi_Id = Some ''e1'', pi_PublicIpAddress = Some ''1.2.3.4'',
        pi_Tags = None \<rparr>)) \<rparr>"

definition example_create :: CreateClusterInput where
  "example_create = \<lparr> cci_Name = ''demo'', cci_Category = '''', cci_Flavor = '''', cci_Version = ''v1.35.0'',
     cci_ContainerNetworkMode = ''eni'', cci_ContainerNetworkCIDR = '''', cci_ContainerNetworkCIDRs = [],
     cci_ENISubnets = [''n1''], cci_HostNetworkVpcID = ''v1'', cci_HostNetworkSubnetID = ''s1'',
     cci_ServiceCIDR = '''', cci_ServiceIPv6CIDR = '''', cci_Ipv6Enable = None, cci_EnableAutopilot = None,
     cci_CustomSAN = [], cci_PublicAccess = False, cci_PublicAccessCIDRs = [], cci_AgencyName = '''',
     cci_BillingMode = 0, cci_EnableDataPlaneV2 = False, cci_Tags = [], cci_EncryptionConfig = None,
     cci_Authentication = None \<rparr>"

theorem CreateCluster_adopts_only_owned_witness:
  "fst (run_state (CreateCluster (example_client conflict_cloud) example_create) []) = Inr ''c1'' \<and>
   IsConflict (SdkErr 409 ''CCE.01409001'' ''exists'')"
proof -
  let ?m = "CreateCluster (example_client conflict_cloud) example_create"
  have r: "fst (run_state ?m []) = Inr ''c1''"
    by (simp add: CreateCluster_def findClusterIDByName_def tryE_def wrapE_def ok_def fail_def
        run_ShowCluster example_client_def conflict_cloud_def empty_cloud_def example_create_def
        buildCreateClusterRequest_def IsConflict_def cluster_info_def example_spec_def show_tags_def
        mk_tag_def deref_def adoptConflictCandidate_def IsOwned_def get_str_def)
  obtain req where req: "buildCreateClusterRequest example_create = Inr req"
    by (simp add: buildCreateClusterRequest_def example_create_def)
  from r have run: "run_state ?m [] = (Inr ''c1'', snd (run_state ?m []))" by (simp add: prod_eq_iff)
  have "IsConflict (SdkErr 409 ''CCE.01409001'' ''exists'')"
    using CreateCluster_adopts_only_owned[OF req _ run, of "SdkErr 409 ''CCE.01409001'' ''exists''"]
    by (simp add: example_client_def conflict_cloud_def)
  with r show ?thesis by simp
qed

theorem BindClusterEip_no_leak_witness:
  "case fst (run_state (BindClusterEip (example_client (conflict_cloud \<lparr> ack := (\<lambda>_. Inl (PlainErr ''x'')) \<rparr>))
      ''c1'' ''demo'') []) of
     Inl _ \<Rightarrow> last (snd (run_state (BindClusterEip
        (example_client (conflict_cloud \<lparr> ack := (\<lambda>_. Inl (PlainErr ''x'')) \<rparr>)) ''c1'' ''demo'') [])) =
        EipReq (DeletePublicipReq ''e1'')
   | Inr _ \<Rightarrow> True"
  using BindClusterEip_no_leak[of "example_client (conflict_cloud \<lparr> ack := (\<lambda>_. Inl (PlainErr ''x'')) \<rparr>)" "[]"
      "''demo''" _ "''e1''" "''c1''", OF _ _ _ prod.collapse[symmetric]]
  by (auto simp: example_client_def conflict_cloud_def split: sum.splits)

end
