(* ===== verification/Kubeconfig.thy ===== *)
theory Kubeconfig
  imports CceCluster
begin

text \<open>
  The kubeconfig of \<open>internal/services/cce/cce.go\<close>: the certificate request with its clamped duration,
  the assembly of a \<open>clientcmdapi.Config\<close>, and the choice of the API server address. Serialising and
  parsing a config (\<open>clientcmd.Write\<close>, \<open>clientcmd.Load\<close>) is client-go code, a parameter (\<open>codec\<close>).
\<close>

section \<open>Definitions\<close>

record KCluster =
  kc_Server :: string
  kc_CertificateAuthorityData :: string
  kc_InsecureSkipTLSVerify :: bool

record KAuthInfo =
  ka_ClientCertificateData :: string
  ka_ClientKeyData :: string

record KContext =
  kx_Cluster :: string
  kx_AuthInfo :: string

record KubeConfig =
  kf_Clusters :: "(string, KCluster option) gomap"
  kf_AuthInfos :: "(string, KAuthInfo option) gomap"
  kf_Contexts :: "(string, KContext option) gomap"
  kf_CurrentContext :: string

record codec =
  kc_Write :: "KubeConfig \<Rightarrow> go_error + string"
  kc_Load :: "string \<Rightarrow> go_error + KubeConfig"

definition decodeCertData :: "string \<Rightarrow> string" where
  "decodeCertData s = (case b64_decode s of Some dec \<Rightarrow> dec | None \<Rightarrow> s)"

definition derefBool :: "bool option \<Rightarrow> bool" where
  "derefBool p = (case p of Some b \<Rightarrow> b | None \<Rightarrow> False)"

definition cert_bytes :: "string option \<Rightarrow> string" where
  "cert_bytes p = (case p of Some s \<Rightarrow> decodeCertData s | None \<Rightarrow> [])"

text \<open>The loops over the clusters, users and contexts of the response: entries without a name or a body
  are skipped, a repeated name overwrites the earlier entry.\<close>

fun put_entries :: "('a \<Rightarrow> 'b) \<Rightarrow> (string option \<times> 'a option) list \<Rightarrow> (string, 'b option) gomap \<Rightarrow>
    (string, 'b option) gomap" where
  "put_entries f [] m = m"
| "put_entries f ((Some n, Some x) # es) m = put_entries f es (AList.update n (Some (f x)) m)"
| "put_entries f ((None, _) # es) m = put_entries f es m"
| "put_entries f ((Some n, None) # es) m = put_entries f es m"

definition list_of_ptr :: "'a list option \<Rightarrow> 'a list" where
  "list_of_ptr p = (case p of Some l \<Rightarrow> l | None \<Rightarrow> [])"

definition cert_config :: "CertResponse \<Rightarrow> KubeConfig" where
  "cert_config resp = \<lparr>
     kf_Clusters = put_entries (\<lambda>c. \<lparr> kc_Server = deref (cc_Server c),
         kc_CertificateAuthorityData = cert_bytes (cc_CertificateAuthorityData c),
         kc_InsecureSkipTLSVerify = derefBool (cc_InsecureSkipTlsVerify c) \<rparr>)
       (list_of_ptr (cr_Clusters resp)) [],
     kf_AuthInfos = put_entries (\<lambda>u. \<lparr>
         ka_ClientCertificateData = cert_bytes (cu_ClientCertificateData u),
         ka_ClientKeyData = cert_bytes (cu_ClientKeyData u) \<rparr>)
       (list_of_ptr (cr_Users resp)) [],
     kf_Contexts = put_entries (\<lambda>x. \<lparr> kx_Cluster = deref (cx_Cluster x),
         kx_AuthInfo = deref (cx_User x) \<rparr>) (list_of_ptr (cr_Contexts resp)) [],
     kf_CurrentContext = deref (cr_CurrentContext resp) \<rparr>"

definition assembleKubeconfig :: "codec \<Rightarrow> CertResponse \<Rightarrow> go_error + string" where
  "assembleKubeconfig cd resp = (
     if list_of_ptr (cr_Clusters resp) = []
     then Inl (PlainErr ''kubeconfig response contains no clusters'')
     else case kc_Write cd (cert_config resp) of
         Inl e \<Rightarrow> Inl (WrapErr ''failed to serialize kubeconfig'' e)
       | Inr data \<Rightarrow> Inr data)"

fun preferred_loop :: "Endpoint list \<Rightarrow> string \<Rightarrow> string \<times> string" where
  "preferred_loop [] internalURL =
     (if internalURL \<noteq> '''' then (internalURL, ''Internal'') else ('''', ''''))"
| "preferred_loop (ep # eps) internalURL =
     (if ep_Type ep = ''External'' then
        (if ep_URL ep \<noteq> '''' then (ep_URL ep, ''External'') else preferred_loop eps internalURL)
      else if ep_Type ep = ''Internal'' then
        preferred_loop eps (if ep_URL ep \<noteq> '''' \<and> internalURL = '''' then ep_URL ep else internalURL)
      else preferred_loop eps internalURL)"

definition preferredEndpoint :: "Endpoint list \<Rightarrow> string \<times> string" where
  "preferredEndpoint endpoints = preferred_loop endpoints ''''"

text \<open>The first loop of \<open>replaceKubeconfigServer\<close>: the rewritten clusters and the target.\<close>

fun mark_servers :: "string \<Rightarrow> string \<Rightarrow> (string, KCluster option) gomap \<Rightarrow> string \<Rightarrow>
    (string, KCluster option) gomap \<times> string" where
  "mark_servers needle server [] target = ([], target)"
| "mark_servers needle server ((name, Some c) # cs) target =
     (if contains_sub (to_lower name) needle
      then (case mark_servers needle server cs name of (cs', t) \<Rightarrow>
              ((name, Some (c \<lparr> kc_Server := server \<rparr>)) # cs', t))
      else (case mark_servers needle server cs target of (cs', t) \<Rightarrow> ((name, Some c) # cs', t)))"
| "mark_servers needle server ((name, None) # cs) target =
     (case mark_servers needle server cs target of (cs', t) \<Rightarrow> ((name, None) # cs', t))"

fun context_of :: "string \<Rightarrow> (string, KContext option) gomap \<Rightarrow> string option" where
  "context_of target [] = None"
| "context_of target ((name, Some x) # xs) =
     (if kx_Cluster x = target then Some name else context_of target xs)"
| "context_of target ((name, None) # xs) = context_of target xs"

definition rewrite_server :: "KubeConfig \<Rightarrow> string \<Rightarrow> string \<Rightarrow> KubeConfig" where
  "rewrite_server cfg server epType =
     (case mark_servers (to_lower epType) server (kf_Clusters cfg) '''' of (cs, target) \<Rightarrow>
        if target = ''''
        then cfg \<lparr> kf_Clusters := map (\<lambda>(n, c). (n, map_option (\<lambda>c. c \<lparr> kc_Server := server \<rparr>) c)) cs \<rparr>
        else cfg \<lparr> kf_Clusters := cs, kf_CurrentContext :=
               (case context_of target (kf_Contexts cfg) of Some n \<Rightarrow> n | None \<Rightarrow> kf_CurrentContext cfg) \<rparr>)"

definition replaceKubeconfigServer :: "codec \<Rightarrow> string \<Rightarrow> string \<Rightarrow> string \<Rightarrow> go_error + string" where
  "replaceKubeconfigServer cd kubeconfig server epType = (case kc_Load cd kubeconfig of
      Inl e \<Rightarrow> Inl (WrapErr ''parse kubeconfig'' e)
    | Inr cfg \<Rightarrow> (case kc_Write cd (rewrite_server cfg server epType) of
          Inl e \<Rightarrow> Inl (WrapErr ''serialize kubeconfig'' e)
        | Inr out \<Rightarrow> Inr out))"

definition clamp_days :: "int32 \<Rightarrow> int32" where
  "clamp_days durationDays =
     (if durationDays = -1 then 1827
      else if durationDays <s 1 then 1
      else if 1827 <s durationDays then 1827
      else durationDays)"

definition GetClusterKubeconfig :: "codec \<Rightarrow> Client \<Rightarrow> string \<Rightarrow> int32 \<Rightarrow> (history, string) go" where
  "GetClusterKubeconfig cd s clusterID durationDays =
     tryE (wrapE ''CreateKubernetesClusterCert failed''
             (send (CceReq (CreateClusterCertReq clusterID (clamp_days durationDays)))
                (ans_CreateClusterCert (cli_cloud s))))
       (\<lambda>resp. case assembleKubeconfig cd resp of
          Inl e \<Rightarrow> fail e
        | Inr kube \<Rightarrow> do {
            sh \<leftarrow> ShowCluster s clusterID;
            case sh of
              Inl _ \<Rightarrow> ok kube
            | Inr info \<Rightarrow> (case preferredEndpoint (ci_Endpoints info) of (url, epType) \<Rightarrow>
                if url \<noteq> '''' then
                  (case replaceKubeconfigServer cd kube url epType of
                     Inl e \<Rightarrow> fail (WrapErr ''replace kubeconfig server'' e)
                   | Inr k \<Rightarrow> ok k)
                else ok kube) })"

section \<open>Facts\<close>

lemma decodeCertData_roundtrip [simp]: "decodeCertData (b64_encode s) = s"
  by (simp add: decodeCertData_def b64_decode_encode)

lemma clamp_days_bounds: "1 \<le> sint (clamp_days d) \<and> sint (clamp_days d) \<le> 1827"
proof -
  have "sint (1827 :: int32) = 1827" "sint (1 :: int32) = 1" by simp_all
  then show ?thesis by (auto simp: clamp_days_def word_sless_alt)
qed

lemma clamp_days_id: "1 \<le> sint d \<Longrightarrow> sint d \<le> 1827 \<Longrightarrow> clamp_days d = d"
  by (auto simp: clamp_days_def word_sless_alt)

lemma map_of_map_key: "map_of (map (\<lambda>(n, c). (n, f n c)) m) k = map_option (f k) (map_of m k)"
  by (induction m) auto

lemma mark_servers_fst:
  "fst (mark_servers needle server cs t) = map (\<lambda>(n, c).
     (n, if contains_sub (to_lower n) needle then map_option (\<lambda>c. c \<lparr> kc_Server := server \<rparr>) c else c)) cs"
  by (induction needle server cs t rule: mark_servers.induct) (auto split: prod.splits)

lemma mark_servers_target:
  "snd (mark_servers needle server cs t) \<noteq> t \<Longrightarrow>
     \<exists>c. (snd (mark_servers needle server cs t), Some c) \<in> set cs \<and>
         contains_sub (to_lower (snd (mark_servers needle server cs t))) needle"
proof (induction needle server cs t rule: mark_servers.induct)
  case (2 needle server name c cs target)
  show ?case
  proof (cases "contains_sub (to_lower name) needle")
    case True
    then show ?thesis
      using 2 by (cases "snd (mark_servers needle server cs name) = name") (auto split: prod.splits)
  next
    case False
    then show ?thesis using 2 by (auto split: prod.splits)
  qed
qed (auto split: prod.splits)

lemma context_of_Some: "context_of t xs = Some n \<Longrightarrow> \<exists>x. (n, Some x) \<in> set xs \<and> kx_Cluster x = t"
  by (induction t xs rule: context_of.induct) (auto split: if_splits)

lemma preferred_loop_spec:
  "preferred_loop eps i =
     (case find (\<lambda>e. ep_Type e = ''External'' \<and> ep_URL e \<noteq> '''') eps of
        Some e \<Rightarrow> (ep_URL e, ''External'')
      | None \<Rightarrow> (if i \<noteq> '''' then (i, ''Internal'')
          else case find (\<lambda>e. ep_Type e = ''Internal'' \<and> ep_URL e \<noteq> '''') eps of
            Some e \<Rightarrow> (ep_URL e, ''Internal'') | None \<Rightarrow> ('''', '''')))"
  by (induction eps i rule: preferred_loop.induct) (auto split: option.splits)

section \<open>Properties\<close>

text \<open>The kubeconfig certificate is never requested for a duration the platform rejects: whatever
  the caller asks for, the request carries between 1 and 1827 days, and the asked value when it is in
  that range.\<close>

theorem GetClusterKubeconfig_duration:
  "sends (\<lambda>req. case req of
       CceReq (CreateClusterCertReq c d) \<Rightarrow> c = clusterID \<and> d = clamp_days days \<and>
         1 \<le> sint d \<and> sint d \<le> 1827 \<and>
         (sint days < 1 \<or> sint days > 1827 \<or> d = days)
     | CceReq (ShowClusterReq c) \<Rightarrow> c = clusterID
     | _ \<Rightarrow> False) (GetClusterKubeconfig cd s clusterID days)"
proof -
  have "sint days < 1 \<or> sint days > 1827 \<or> clamp_days days = days"
    using clamp_days_id[of days] by linarith
  then show ?thesis
    unfolding GetClusterKubeconfig_def using clamp_days_bounds[of days]
    by (intro sends_intros) (auto intro!: sends_intros)
qed

text \<open>The preferred endpoint is the first public one with an address, otherwise the first internal
  one with an address, otherwise none.\<close>

theorem preferredEndpoint_spec:
  "preferredEndpoint eps =
     (case find (\<lambda>e. ep_Type e = ''External'' \<and> ep_URL e \<noteq> '''') eps of
        Some e \<Rightarrow> (ep_URL e, ''External'')
      | None \<Rightarrow> (case find (\<lambda>e. ep_Type e = ''Internal'' \<and> ep_URL e \<noteq> '''') eps of
            Some e \<Rightarrow> (ep_URL e, ''Internal'') | None \<Rightarrow> ('''', '''')))"
  by (simp add: preferredEndpoint_def preferred_loop_spec)

text \<open>The kubeconfig uses the chosen address. When some cluster entry matches the endpoint type and
  a context selects the rewritten entry, the current context of the result leads to a cluster entry
  whose server is the chosen address; entries that do not match keep theirs.\<close>

theorem rewrite_server_uses_endpoint:
  assumes "distinct (map fst (kf_Clusters cfg))"
    and "mark_servers (to_lower epType) server (kf_Clusters cfg) '''' = (cs, target)"
    and "target \<noteq> ''''" and "context_of target (kf_Contexts cfg) = Some name"
  shows "kf_CurrentContext (rewrite_server cfg server epType) = name \<and>
    (\<exists>x c. (name, Some x) \<in> set (kf_Contexts (rewrite_server cfg server epType)) \<and>
       map_of (kf_Clusters (rewrite_server cfg server epType)) (kx_Cluster x) = Some (Some c) \<and>
       kc_Server c = server) \<and>
    (\<forall>n. \<not> contains_sub (to_lower n) (to_lower epType) \<longrightarrow>
       map_of (kf_Clusters (rewrite_server cfg server epType)) n = map_of (kf_Clusters cfg) n)"
proof -
  let ?ms = "mark_servers (to_lower epType) server (kf_Clusters cfg) ''''"
  let ?f = "\<lambda>n c. if contains_sub (to_lower n) (to_lower epType)
       then map_option (\<lambda>c. c \<lparr> kc_Server := server \<rparr>) c else c"
  have cs: "cs = map (\<lambda>(n, c). (n, ?f n c)) (kf_Clusters cfg)"
    using mark_servers_fst[of "to_lower epType" server "kf_Clusters cfg" "''''"] assms(2) by simp
  have lookup: "map_of cs n = map_option (?f n) (map_of (kf_Clusters cfg) n)" for n
    unfolding cs by (rule map_of_map_key)
  obtain c where "(target, Some c) \<in> set (kf_Clusters cfg)" "contains_sub (to_lower target) (to_lower epType)"
    using mark_servers_target[of "to_lower epType" server "kf_Clusters cfg" "''''"] assms(2,3) by auto
  then have tgt: "map_of cs target = Some (Some (c \<lparr> kc_Server := server \<rparr>))"
    using lookup[of target] assms(1) by (simp add: distinct_map_of_iff)
  obtain x where x: "(name, Some x) \<in> set (kf_Contexts cfg)" "kx_Cluster x = target"
    using context_of_Some[OF assms(4)] by blast
  have eq: "rewrite_server cfg server epType =
      cfg \<lparr> kf_Clusters := cs, kf_CurrentContext := name \<rparr>"
    using assms(2-4) by (simp add: rewrite_server_def)
  have "\<exists>x c. (name, Some x) \<in> set (kf_Contexts cfg) \<and> map_of cs (kx_Cluster x) = Some (Some c) \<and>
      kc_Server c = server"
    using x tgt by (intro exI[of _ x] exI[of _ "c \<lparr> kc_Server := server \<rparr>"]) simp
  moreover have "map_of cs n = map_of (kf_Clusters cfg) n"
    if "\<not> contains_sub (to_lower n) (to_lower epType)" for n
    using that by (simp add: lookup option.map_ident)
  ultimately show ?thesis by (simp add: eq)
qed

definition example_config :: KubeConfig where
  "example_config = \<lparr>
     kf_Clusters = [(''internalCluster'', Some \<lparr> kc_Server = ''https://10.0.1.17'',
         kc_CertificateAuthorityData = [], kc_InsecureSkipTLSVerify = False \<rparr>),
       (''externalCluster'', Some \<lparr> kc_Server = ''https://old'',
         kc_CertificateAuthorityData = [], kc_InsecureSkipTLSVerify = True \<rparr>)],
     kf_AuthInfos = [],
     kf_Contexts = [(''internal'', Some \<lparr> kx_Cluster = ''internalCluster'', kx_AuthInfo = ''user'' \<rparr>),
       (''external'', Some \<lparr> kx_Cluster = ''externalCluster'', kx_AuthInfo = ''user'' \<rparr>)],
     kf_CurrentContext = ''internal'' \<rparr>"

theorem rewrite_server_uses_endpoint_witness:
  "kf_CurrentContext (rewrite_server example_config ''https://1.2.3.4'' ''External'') = ''external''"
proof -
  have low: "to_lower ''External'' = ''external''" by code_simp
  have con: "contains_sub (to_lower ''internalCluster'') ''external'' = False"
    "contains_sub (to_lower ''externalCluster'') ''external'' = True" by code_simp+
  have "snd (mark_servers (to_lower ''External'') ''https://1.2.3.4'' (kf_Clusters example_config) '''') =
      ''externalCluster''"
    by (simp add: example_config_def low con del: to_lower.simps contains_sub.simps)
  then have "mark_servers (to_lower ''External'') ''https://1.2.3.4'' (kf_Clusters example_config) '''' =
      (fst (mark_servers (to_lower ''External'') ''https://1.2.3.4'' (kf_Clusters example_config) ''''),
       ''externalCluster'')"
    by (simp only: prod_eq_iff fst_conv snd_conv)
  moreover have "context_of ''externalCluster'' (kf_Contexts example_config) = Some ''external''"
    by (simp add: example_config_def)
  moreover have "distinct (map fst (kf_Clusters example_config))" by (simp add: example_config_def)
  ultimately show ?thesis using rewrite_server_uses_endpoint by blast
qed

end
