(* ===== verification/Hwsdk.thy ===== *)
theory Hwsdk
  imports Cloud
begin

text \<open>
  \<open>internal/hwsdk/sdk.go\<close>: the list and delete primitives shared by the garbage collector's service
  operations and the managed-network teardown, in particular the one implementation of the rule that
  the SNAT rules of a NAT gateway are deleted before the gateway.
\<close>

section \<open>Definitions\<close>

record SnatRule =
  snr_ID :: string
  snr_NetworkID :: string
  snr_FloatingIPID :: string

definition ListSnatRules :: "cloud \<Rightarrow> string \<Rightarrow> (history, SnatRule list) go" where
  "ListSnatRules cl gatewayID =
     tryE (send (NatReq (ListSnatRulesReq gatewayID)) (ans_ListSnatRules cl))
       (\<lambda>resp. ok (case resp of
           None \<Rightarrow> []
         | Some rules \<Rightarrow> map (\<lambda>r. \<lparr> snr_ID = sn_Id r, snr_NetworkID = sn_NetworkId r,
                                  snr_FloatingIPID = sn_FloatingIpId r \<rparr>) rules))"

definition DeleteSnatRule :: "cloud \<Rightarrow> string \<Rightarrow> string \<Rightarrow> (history, unit) go" where
  "DeleteSnatRule cl gatewayID ruleID = send (NatReq (DeleteSnatRuleReq gatewayID ruleID)) (ack cl)"

text \<open>The loop of \<open>DeleteSnatRules\<close>: stops at the first rule whose deletion fails for another reason
  than NotFound.\<close>

fun delete_rules_loop :: "cloud \<Rightarrow> string \<Rightarrow> SnatRule list \<Rightarrow>
    (history, string \<times> go_error option \<times> go_error option) state" where
  "delete_rules_loop cl gatewayID [] = State_Monad.return ('''', None, None)"
| "delete_rules_loop cl gatewayID (r # rs) = do {
     d \<leftarrow> DeleteSnatRule cl gatewayID (snr_ID r);
     case d of
       Inl derr \<Rightarrow> if \<not> IsNotFound derr then State_Monad.return (snr_ID r, None, Some derr)
                   else delete_rules_loop cl gatewayID rs
     | Inr _ \<Rightarrow> delete_rules_loop cl gatewayID rs }"

definition DeleteSnatRules :: "cloud \<Rightarrow> string \<Rightarrow>
    (history, string \<times> go_error option \<times> go_error option) state" where
  "DeleteSnatRules cl gatewayID = do {
     r \<leftarrow> ListSnatRules cl gatewayID;
     case r of
       Inl err \<Rightarrow> State_Monad.return ('''', if IsNotFound err then None else Some err, None)
     | Inr rules \<Rightarrow> delete_rules_loop cl gatewayID rules }"

definition hw_DeleteNatGateway :: "cloud \<Rightarrow> string \<Rightarrow> (history, unit) go" where
  "hw_DeleteNatGateway cl gatewayID = send (NatReq (DeleteNatGatewayReq gatewayID)) (ack cl)"

definition err_of :: "go_error + 'a \<Rightarrow> go_error option" where
  "err_of r = (case r of Inl e \<Rightarrow> Some e | Inr _ \<Rightarrow> None)"

definition DeleteNatGatewayOrdered :: "('w, unit) go \<Rightarrow> ('w, unit) go \<Rightarrow> bool \<Rightarrow>
    ('w, go_error option \<times> go_error option) state" where
  "DeleteNatGatewayOrdered deleteRules deleteGateway failFast = do {
     rulesErr \<leftarrow> deleteRules;
     if err_of rulesErr \<noteq> None \<and> failFast then State_Monad.return (err_of rulesErr, None)
     else do {
       gatewayErr \<leftarrow> deleteGateway;
       State_Monad.return (err_of rulesErr, err_of gatewayErr) } }"

definition hw_DeletePublicip :: "cloud \<Rightarrow> string \<Rightarrow> (history, unit) go" where
  "hw_DeletePublicip cl eipID = send (EipReq (DeletePublicipReq eipID)) (ack cl)"

definition hw_DeleteVpc :: "cloud \<Rightarrow> string \<Rightarrow> (history, unit) go" where
  "hw_DeleteVpc cl vpcID = send (VpcReq (DeleteVpcReq vpcID)) (ack cl)"

section \<open>Facts\<close>

lemma wp_hw_deletes [wp_simps]:
  "wp (hw_DeleteNatGateway c g) Q = (\<lambda>tr. Q (ack c (tr @ [NatReq (DeleteNatGatewayReq g)])) (tr @ [NatReq (DeleteNatGatewayReq g)]))"
  "wp (hw_DeletePublicip c e) Q = (\<lambda>tr. Q (ack c (tr @ [EipReq (DeletePublicipReq e)])) (tr @ [EipReq (DeletePublicipReq e)]))"
  "wp (hw_DeleteVpc c v) Q = (\<lambda>tr. Q (ack c (tr @ [VpcReq (DeleteVpcReq v)])) (tr @ [VpcReq (DeleteVpcReq v)]))"
  by (simp_all add: hw_DeleteNatGateway_def hw_DeletePublicip_def hw_DeleteVpc_def wp_simps)

lemma sends_hw_deletes [sends_intros]:
  "P (NatReq (DeleteNatGatewayReq g)) \<Longrightarrow> sends P (hw_DeleteNatGateway c g)"
  "P (EipReq (DeletePublicipReq e)) \<Longrightarrow> sends P (hw_DeletePublicip c e)"
  "P (VpcReq (DeleteVpcReq v)) \<Longrightarrow> sends P (hw_DeleteVpc c v)"
  "P (NatReq (DeleteSnatRuleReq g r)) \<Longrightarrow> sends P (DeleteSnatRule c g r)"
  by (simp_all add: hw_DeleteNatGateway_def hw_DeletePublicip_def hw_DeleteVpc_def DeleteSnatRule_def
      sends_send)

lemma sends_ListSnatRules [sends_intros]:
  "P (NatReq (ListSnatRulesReq g)) \<Longrightarrow> sends P (ListSnatRules c g)"
  unfolding ListSnatRules_def by (intro sends_intros)

lemma sends_delete_rules_loop:
  "(\<And>r. P (NatReq (DeleteSnatRuleReq g r))) \<Longrightarrow> sends P (delete_rules_loop c g rs)"
  by (induction rs) (auto intro!: sends_intros)

lemma sends_DeleteSnatRules [sends_intros]:
  "P (NatReq (ListSnatRulesReq g)) \<Longrightarrow> (\<And>r. P (NatReq (DeleteSnatRuleReq g r))) \<Longrightarrow>
     sends P (DeleteSnatRules c g)"
  unfolding DeleteSnatRules_def by (intro sends_intros sends_delete_rules_loop) auto

lemma sends_DeleteNatGatewayOrdered [sends_intros]:
  "sends P m \<Longrightarrow> sends P n \<Longrightarrow> sends P (DeleteNatGatewayOrdered m n ff)"
  unfolding DeleteNatGatewayOrdered_def by (intro sends_intros)

text \<open>A rule delete counts as done when the platform accepted it or no longer knows the rule.\<close>

definition answered_gone :: "cloud \<Rightarrow> history \<Rightarrow> bool" where
  "answered_gone c tr \<longleftrightarrow> (case ack c tr of Inr _ \<Rightarrow> True | Inl e \<Rightarrow> IsNotFound e)"

text \<open>\<open>rules_cleared c g ids tr0 tr\<close>: after \<open>tr0\<close> the rules \<open>ids\<close> were deleted one after the other, each
  successfully, and nothing else happened.\<close>

fun rules_cleared :: "cloud \<Rightarrow> string \<Rightarrow> string list \<Rightarrow> history \<Rightarrow> history \<Rightarrow> bool" where
  "rules_cleared c g [] tr0 tr \<longleftrightarrow> tr = tr0"
| "rules_cleared c g (i # ids) tr0 tr \<longleftrightarrow>
     answered_gone c (tr0 @ [NatReq (DeleteSnatRuleReq g i)]) \<and>
     rules_cleared c g ids (tr0 @ [NatReq (DeleteSnatRuleReq g i)]) tr"

lemma rules_cleared_trace:
  "rules_cleared c g ids tr0 tr \<Longrightarrow> tr = tr0 @ map (\<lambda>i. NatReq (DeleteSnatRuleReq g i)) ids"
  by (induction ids arbitrary: tr0) (simp, fastforce)

lemma delete_rules_loop_cleared:
  "wp (delete_rules_loop c g rs) (\<lambda>(_, le, re) tr. le = None \<and>
      (re = None \<longrightarrow> rules_cleared c g (map snr_ID rs) tr0 tr)) tr0"
proof (induction rs arbitrary: tr0)
  case (Cons r rs)
  show ?case
    using Cons.IH[of "tr0 @ [NatReq (DeleteSnatRuleReq g (snr_ID r))]"]
    by (auto simp: DeleteSnatRule_def wp_simps answered_gone_def split: sum.splits
        elim!: wp_mono)
qed (simp add: wp_simps)

definition listed_rule_ids :: "cloud \<Rightarrow> history \<Rightarrow> string \<Rightarrow> string list" where
  "listed_rule_ids c tr g = (case ans_ListSnatRules c (tr @ [NatReq (ListSnatRulesReq g)]) of
      Inr (Some rules) \<Rightarrow> map sn_Id rules | _ \<Rightarrow> [])"

lemma DeleteSnatRules_cleared:
  "wp (DeleteSnatRules c g) (\<lambda>(_, le, re) tr. le = None \<and> re = None \<longrightarrow>
      rules_cleared c g (listed_rule_ids c tr0 g) (tr0 @ [NatReq (ListSnatRulesReq g)]) tr) tr0"
proof (cases "ans_ListSnatRules c (tr0 @ [NatReq (ListSnatRulesReq g)])")
  case (Inl e)
  then show ?thesis by (simp add: DeleteSnatRules_def ListSnatRules_def wp_simps listed_rule_ids_def)
next
  case (Inr resp)
  define rs where "rs = (case resp of None \<Rightarrow> []
      | Some rules \<Rightarrow> map (\<lambda>r. \<lparr> snr_ID = sn_Id r, snr_NetworkID = sn_NetworkId r,
                               snr_FloatingIPID = sn_FloatingIpId r \<rparr>) rules)"
  have ids: "map snr_ID rs = listed_rule_ids c tr0 g"
    using Inr by (simp add: rs_def listed_rule_ids_def comp_def split: option.split)
  show ?thesis
    using delete_rules_loop_cleared[of c g rs "tr0 @ [NatReq (ListSnatRulesReq g)]"]
    by (auto simp: DeleteSnatRules_def ListSnatRules_def wp_simps Inr rs_def[symmetric] ids
        elim!: wp_mono)
qed

end
