(* ===== verification/CceResources.thy ===== *)
theory CceResources
  imports CceCluster Hwsdk
begin

text \<open>
  The listing and deletion operations of \<open>internal/services/cce/cce.go\<close> the garbage collector uses.
  The pagination loop of \<open>paginateAll\<close> may run forever against a platform that never ends a listing, so
  it takes fuel: the number of pages it may fetch; \<open>OutOfFuel\<close> is its result when that is too small.
\<close>

section \<open>Pagination\<close>

fun paginateAll :: "nat \<Rightarrow> int32 \<Rightarrow> (string option \<Rightarrow> ('w, 'a list \<times> string option) go) \<Rightarrow>
    string option \<Rightarrow> 'a list \<Rightarrow> ('w, 'a list) go" where
  "paginateAll 0 pageSize fetch marker all = fail OutOfFuel"
| "paginateAll (Suc fuel) pageSize fetch marker all =
     tryE (fetch marker) (\<lambda>(items, lastID).
       let all' = all @ items in
       if items = [] \<or> lastID = None \<or> word_of_nat (length items) <s pageSize then ok all'
       else paginateAll fuel pageSize fetch lastID all')"

section \<open>Operations\<close>

definition cluster_ref :: "Cluster \<Rightarrow> ClusterRef" where
  "cluster_ref c = \<lparr>
     clr_ClusterID = (case cl_Metadata c of Some m \<Rightarrow> deref (cm_Uid m) | None \<Rightarrow> ''''),
     clr_Name = (case cl_Metadata c of Some m \<Rightarrow> cm_Name m | None \<Rightarrow> ''''),
     clr_Tags = (case cl_Spec c of Some sp \<Rightarrow> show_tags (cs_ClusterTags sp) | None \<Rightarrow> []) \<rparr>"

definition ListClusters :: "Client \<Rightarrow> (history, ClusterRef list) go" where
  "ListClusters s =
     tryE (wrapE ''ListClusters failed'' (send (CceReq ListClustersReq) (ans_ListClusters (cli_cloud s))))
       (\<lambda>items. ok (case items of None \<Rightarrow> [] | Some cs \<Rightarrow> map cluster_ref cs))"

text \<open>\<open>parseKVTags\<close>: \<open>strings.Cut(t, "=")\<close> on every tag string.\<close>

fun parseKV_loop :: "string list \<Rightarrow> (string, string) gomap \<Rightarrow> (string, string) gomap" where
  "parseKV_loop [] out = out"
| "parseKV_loop (t # ts) out = parseKV_loop ts (case split2 CHR ''='' t of
      (k, Some v) \<Rightarrow> AList.update k v out | (_, None) \<Rightarrow> out)"

definition parseKVTags :: "string list option \<Rightarrow> (string, string) gomap" where
  "parseKVTags tags = (case tags of None \<Rightarrow> [] | Some ts \<Rightarrow> parseKV_loop ts [])"

definition eip_ref :: "PublicipResp \<Rightarrow> EipRef" where
  "eip_ref p = \<lparr> er_ID = deref (pi_Id p), er_Address = deref (pi_PublicIpAddress p),
                 er_Tags = parseKVTags (pi_Tags p) \<rparr>"

definition last_of :: "'a list \<Rightarrow> 'a option" where
  "last_of xs = (if xs = [] then None else Some (last xs))"

definition fetch_eips :: "Client \<Rightarrow> string option \<Rightarrow> (history, EipRef list \<times> string option) go" where
  "fetch_eips s marker =
     tryE (wrapE ''ListPublicips failed''
             (send (EipReq (ListPublicipsReq marker 1000)) (ans_ListPublicips (cli_cloud s))))
       (\<lambda>resp. ok (case resp of None \<Rightarrow> ([], None)
          | Some ps \<Rightarrow> (map eip_ref ps, case last_of ps of Some p \<Rightarrow> pi_Id p | None \<Rightarrow> None)))"

definition ListEips :: "nat \<Rightarrow> Client \<Rightarrow> (history, EipRef list) go" where
  "ListEips fuel s = paginateAll fuel 1000 (fetch_eips s) None []"

definition DeleteEip :: "Client \<Rightarrow> string \<Rightarrow> (history, unit) go" where
  "DeleteEip s eipID =
     tolerate_missing (msgf [''DeletePublicip '', eipID, '' failed'']) (hw_DeletePublicip (cli_cloud s) eipID)"

definition fetch_volumes :: "Client \<Rightarrow> string option \<Rightarrow> (history, ResourceRef list \<times> string option) go" where
  "fetch_volumes s marker =
     tryE (wrapE ''ListVolumes failed''
             (send (EvsReq (ListVolumesReq marker 1000)) (ans_ListVolumes (cli_cloud s))))
       (\<lambda>resp. ok (case resp of None \<Rightarrow> ([], None)
          | Some vs \<Rightarrow> (map (\<lambda>v. \<lparr> rr_ID = vd_Id v, rr_Name = vd_Name v, rr_Tags = vd_Tags v \<rparr>) vs,
                        map_option vd_Id (last_of vs))))"

definition ListVolumes :: "nat \<Rightarrow> Client \<Rightarrow> (history, ResourceRef list) go" where
  "ListVolumes fuel s = paginateAll fuel 1000 (fetch_volumes s) None []"

definition DeleteVolume :: "Client \<Rightarrow> string \<Rightarrow> (history, unit) go" where
  "DeleteVolume s volumeID =
     tolerate_missing (msgf [''DeleteVolume '', volumeID, '' failed''])
       (send (EvsReq (DeleteVolumeReq volumeID)) (ack (cli_cloud s)))"

text \<open>\<open>for _, t := range *tags.Tags { ref.Tags[t.Key] = t.Value }\<close>\<close>

fun put_pairs :: "(string \<times> string) list \<Rightarrow> (string, string) gomap \<Rightarrow> (string, string) gomap" where
  "put_pairs [] m = m"
| "put_pairs ((k, v) # ts) m = put_pairs ts (AList.update k v m)"

text \<open>A tag query whose failure leaves the tags empty.\<close>

definition tags_or_empty :: "go_error + (string \<times> string) list option \<Rightarrow> (string, string) gomap" where
  "tags_or_empty r = (case r of Inr (Some ts) \<Rightarrow> put_pairs ts [] | _ \<Rightarrow> [])"

fun vpc_refs :: "Client \<Rightarrow> SdkVpc list \<Rightarrow> (history, ResourceRef list) state" where
  "vpc_refs s [] = State_Monad.return []"
| "vpc_refs s (v # vs) = do {
     t \<leftarrow> send (VpcReq (ShowVpcTagsReq (sv_Id v))) (ans_ShowVpcTags (cli_cloud s));
     refs \<leftarrow> vpc_refs s vs;
     State_Monad.return (\<lparr> rr_ID = sv_Id v, rr_Name = sv_Name v, rr_Tags = tags_or_empty t \<rparr> # refs) }"

definition fetch_vpcs :: "Client \<Rightarrow> string option \<Rightarrow> (history, ResourceRef list \<times> string option) go" where
  "fetch_vpcs s marker =
     tryE (wrapE ''ListVpcs failed''
             (send (VpcReq (ListVpcsReq None marker (Some 1000))) (ans_ListVpcs (cli_cloud s))))
       (\<lambda>resp. case resp of None \<Rightarrow> ok ([], None)
          | Some vs \<Rightarrow> do {
              refs \<leftarrow> vpc_refs s vs;
              ok (refs, map_option sv_Id (last_of vs)) })"

definition ListVpcs :: "nat \<Rightarrow> Client \<Rightarrow> (history, ResourceRef list) go" where
  "ListVpcs fuel s = paginateAll fuel 1000 (fetch_vpcs s) None []"

definition DeleteVpc :: "Client \<Rightarrow> string \<Rightarrow> (history, unit) go" where
  "DeleteVpc s vpcID =
     tolerate_missing (msgf [''DeleteVpc '', vpcID, '' failed'']) (hw_DeleteVpc (cli_cloud s) vpcID)"

text \<open>Gateways without an ID are skipped; the marker is the last ID seen.\<close>

fun nat_refs :: "Client \<Rightarrow> SdkNatGateway list \<Rightarrow> string option \<Rightarrow>
    (history, ResourceRef list \<times> string option) state" where
  "nat_refs s [] lastID = State_Monad.return ([], lastID)"
| "nat_refs s (g # gs) lastID = (case ng_Id g of
      None \<Rightarrow> nat_refs s gs lastID
    | Some gid \<Rightarrow> do {
        t \<leftarrow> send (NatReq (ShowNatGatewayTagReq gid)) (ans_ShowNatGatewayTag (cli_cloud s));
        (refs, l) \<leftarrow> nat_refs s gs (Some gid);
        State_Monad.return
          (\<lparr> rr_ID = gid, rr_Name = deref (ng_Name g), rr_Tags = tags_or_empty t \<rparr> # refs, l) })"

definition fetch_nats :: "Client \<Rightarrow> string option \<Rightarrow> (history, ResourceRef list \<times> string option) go" where
  "fetch_nats s marker =
     tryE (wrapE ''ListNatGateways failed''
             (send (NatReq (ListNatGatewaysReq None marker (Some 2000))) (ans_ListNatGateways (cli_cloud s))))
       (\<lambda>resp. case resp of None \<Rightarrow> ok ([], None)
          | Some gs \<Rightarrow> do {
              r \<leftarrow> nat_refs s gs None;
              ok r })"

definition ListNatGateways :: "nat \<Rightarrow> Client \<Rightarrow> (history, ResourceRef list) go" where
  "ListNatGateways fuel s = paginateAll fuel 2000 (fetch_nats s) None []"

text \<open>\<open>DeleteNatGateway\<close>: the two closures it hands to \<open>DeleteNatGatewayOrdered\<close>, then the choice of the error.\<close>

definition gc_delete_rules :: "Client \<Rightarrow> string \<Rightarrow> (history, unit) go" where
  "gc_delete_rules s gatewayID = do {
     (ruleID, listErr, ruleErr) \<leftarrow> DeleteSnatRules (cli_cloud s) gatewayID;
     case listErr of
       Some e \<Rightarrow> fail (WrapErr ''ListNatGatewaySnatRules failed'' e)
     | None \<Rightarrow> (case ruleErr of
         Some e \<Rightarrow> fail (WrapErr (msgf [''DeleteNatGatewaySnatRule '', ruleID, '' failed'']) e)
       | None \<Rightarrow> ok ()) }"

definition gc_delete_gateway :: "Client \<Rightarrow> string \<Rightarrow> (history, unit) go" where
  "gc_delete_gateway s gatewayID =
     tolerate_missing (msgf [''DeleteNatGateway '', gatewayID, '' failed''])
       (hw_DeleteNatGateway (cli_cloud s) gatewayID)"

definition DeleteNatGateway :: "Client \<Rightarrow> string \<Rightarrow> (history, unit) go" where
  "DeleteNatGateway s gatewayID = do {
     (rulesErr, gatewayErr) \<leftarrow>
        DeleteNatGatewayOrdered (gc_delete_rules s gatewayID) (gc_delete_gateway s gatewayID) True;
     case rulesErr of
       Some e \<Rightarrow> fail e
     | None \<Rightarrow> (case gatewayErr of Some e \<Rightarrow> fail e | None \<Rightarrow> ok ()) }"

interpretation de: idempotent_delete DeleteEip "\<lambda>e. EipReq (DeletePublicipReq e)"
  "\<lambda>e. msgf [''DeletePublicip '', e, '' failed'']"
  by unfold_locales (simp only: DeleteEip_def hw_DeletePublicip_def run_tolerate_missing)

interpretation dv: idempotent_delete DeleteVolume "\<lambda>v. EvsReq (DeleteVolumeReq v)"
  "\<lambda>v. msgf [''DeleteVolume '', v, '' failed'']"
  by unfold_locales (simp only: DeleteVolume_def run_tolerate_missing)

interpretation dvpc: idempotent_delete DeleteVpc "\<lambda>v. VpcReq (DeleteVpcReq v)"
  "\<lambda>v. msgf [''DeleteVpc '', v, '' failed'']"
  by unfold_locales (simp only: DeleteVpc_def hw_DeleteVpc_def run_tolerate_missing)

section \<open>Pagination collects everything\<close>

text \<open>
  Marker pagination as the platform documents it: the page after a marker holds the next \<open>n\<close> elements of
  the listing after the element with that key.
\<close>

fun after :: "('a \<Rightarrow> string) \<Rightarrow> string option \<Rightarrow> 'a list \<Rightarrow> 'a list" where
  "after key None xs = xs"
| "after key (Some k) xs = tl (dropWhile (\<lambda>x. key x \<noteq> k) xs)"

lemma after_split:
  assumes "distinct (map key (pre @ x # ys))"
  shows "after key (Some (key x)) (pre @ x # ys) = ys"
proof -
  have "key x \<notin> key ` set pre" using assms by simp
  then have "\<forall>y \<in> set pre. key y \<noteq> key x" by (metis imageI)
  then have "dropWhile (\<lambda>y. key y \<noteq> key x) (pre @ x # ys) = x # ys"
    by (simp add: dropWhile_append2)
  then show ?thesis by simp
qed

locale paged_listing =
  fixes fetch :: "string option \<Rightarrow> ('w, 'b list \<times> string option) go"
    and key :: "'a \<Rightarrow> string" and view :: "'a \<Rightarrow> 'b" and xs :: "'a list" and n :: nat and ok_world :: "'w \<Rightarrow> bool"
  assumes n: "0 < n" "n < 2 ^ 31"
    and fetch_page: "ok_world w \<Longrightarrow> \<exists>w'. ok_world w' \<and> run_state (fetch m) w =
      (Inr (map view (take n (after key m xs)), map_option key (last_of (take n (after key m xs)))), w')"
begin

lemma short_page: "length ys \<le> n \<Longrightarrow> (word_of_nat (length ys) <s (word_of_nat n :: int32)) = (length ys < n)"
proof -
  assume "length ys \<le> n"
  moreover have "sint (word_of_nat k :: int32) = int k" if "k \<le> n" for k
    using that n by (simp add: signed_of_nat signed_take_bit_int_eq_self)
  ultimately show ?thesis by (simp add: word_sless_alt)
qed

lemma run_pages:
  assumes keys: "distinct (map key xs)"
    and "xs = pre @ ys" "after key m xs = ys" "length ys < fuel * n" "ok_world w"
  shows "\<exists>w'. ok_world w' \<and>
    run_state (paginateAll fuel (word_of_nat n) fetch m acc) w = (Inr (acc @ map view ys), w')"
  using assms(2-)
proof (induction fuel arbitrary: pre ys m acc w)
  case (Suc fuel)
  let ?page = "take n ys"
  obtain w' where w': "ok_world w'"
    and run: "run_state (fetch m) w = (Inr (map view ?page, map_option key (last_of ?page)), w')"
    using fetch_page[OF Suc.prems(4), of m] Suc.prems(2) by auto
  show ?case
  proof (cases "length ys < n")
    case True
    then show ?thesis using run w' short_page[of "map view ?page"]
      by (auto simp: tryE_def ok_def Let_def)
  next
    case False
    then have ne: "?page \<noteq> []" and len: "length ?page = n" using n by auto
    let ?x = "last ?page"
    have xs: "xs = (pre @ butlast ?page) @ ?x # drop n ys"
      using Suc.prems(1) ne by (metis append.assoc append_butlast_last_id append_Cons append_Nil
          append_take_drop_id)
    have after: "after key (Some (key ?x)) xs = drop n ys"
      using after_split[of key "pre @ butlast ?page" ?x "drop n ys"] keys xs by metis
    have rest: "xs = (pre @ ?page) @ drop n ys" using Suc.prems(1) by simp
    have "length (drop n ys) < fuel * n" using Suc.prems(3) False by simp
    from Suc.IH[OF rest after this w', of "acc @ map view ?page"] obtain w'' where
      "ok_world w''" and "run_state (paginateAll fuel (word_of_nat n) fetch (Some (key ?x))
         (acc @ map view ?page)) w' = (Inr ((acc @ map view ?page) @ map view (drop n ys)), w'')" by blast
    moreover have "(acc @ map view ?page) @ map view (drop n ys) = acc @ map view ys"
      by (metis append.assoc append_take_drop_id map_append)
    moreover have "\<not> word_of_nat (length (map view ?page)) <s (word_of_nat n :: int32)"
      using short_page[of "map view ?page"] len by simp
    moreover have "last_of ?page = Some ?x" using ne by (simp add: last_of_def)
    ultimately show ?thesis using run ne by (auto simp: tryE_def Let_def)
  qed
qed simp

lemma run_listing:
  assumes "distinct (map key xs)" "length xs < fuel * n" "ok_world w"
  shows "fst (run_state (paginateAll fuel (word_of_nat n) fetch None []) w) = Inr (map view xs)"
  using run_pages[of "[]" xs None fuel w "[]"] assms by auto

end

text \<open>A cloud that serves the given EIPs and volumes page by page.\<close>

definition last_marker :: "history \<Rightarrow> string option" where
  "last_marker tr = (case last tr of
      EipReq (ListPublicipsReq m _) \<Rightarrow> m | EvsReq (ListVolumesReq m _) \<Rightarrow> m | _ \<Rightarrow> None)"

definition paged_cloud :: "PublicipResp list \<Rightarrow> VolumeDetail list \<Rightarrow> cloud" where
  "paged_cloud eips vols = empty_cloud \<lparr>
     ans_ListPublicips := (\<lambda>tr. Inr (Some (take 1000 (after (deref \<circ> pi_Id) (last_marker tr) eips)))),
     ans_ListVolumes := (\<lambda>tr. Inr (Some (take 1000 (after vd_Id (last_marker tr) vols)))) \<rparr>"

lemma set_tl_subset: "set (tl l) \<subseteq> set l"
  by (cases l) auto

lemma after_subset: "set (after key m xs) \<subseteq> set xs"
  by (cases m) (auto dest!: subsetD[OF set_tl_subset] set_dropWhileD)

lemma fetch_eips_page:
  assumes "\<And>tr m. ans_ListPublicips (cli_cloud s) (tr @ [EipReq (ListPublicipsReq m 1000)]) =
             Inr (Some (take 1000 (after (deref \<circ> pi_Id) m eips)))"
    and "\<forall>p \<in> set eips. pi_Id p \<noteq> None"
  shows "\<exists>w'. run_state (fetch_eips s m) w =
      (Inr (map eip_ref (take 1000 (after (deref \<circ> pi_Id) m eips)),
            map_option (deref \<circ> pi_Id) (last_of (take 1000 (after (deref \<circ> pi_Id) m eips)))), w')"
proof -
  let ?page = "take 1000 (after (deref \<circ> pi_Id) m eips)"
  have "pi_Id (last ?page) = Some ((deref \<circ> pi_Id) (last ?page))" if "?page \<noteq> []"
  proof -
    have "last ?page \<in> set eips"
      using that after_subset[of _ m eips] by (meson in_set_takeD last_in_set subsetD)
    then show ?thesis using assms(2) by (auto simp: deref_def split: option.splits)
  qed
  then show ?thesis
    by (auto simp: fetch_eips_def tryE_def wrapE_def ok_def assms(1) last_of_def)
qed

lemma fetch_volumes_page:
  assumes "\<And>tr m. ans_ListVolumes (cli_cloud s) (tr @ [EvsReq (ListVolumesReq m 1000)]) =
             Inr (Some (take 1000 (after vd_Id m vols)))"
  shows "\<exists>w'. run_state (fetch_volumes s m) w =
      (Inr (map (\<lambda>v. \<lparr> rr_ID = vd_Id v, rr_Name = vd_Name v, rr_Tags = vd_Tags v \<rparr>)
              (take 1000 (after vd_Id m vols)),
            map_option vd_Id (last_of (take 1000 (after vd_Id m vols)))), w')"
  by (simp add: fetch_volumes_def tryE_def wrapE_def ok_def assms)

interpretation pv: paged_listing "fetch_volumes (example_client (paged_cloud eips vols))" vd_Id
  "\<lambda>v. \<lparr> rr_ID = vd_Id v, rr_Name = vd_Name v, rr_Tags = vd_Tags v \<rparr>" vols 1000 "\<lambda>_. True"
proof unfold_locales
  show "\<exists>w'. True \<and> run_state (fetch_volumes (example_client (paged_cloud eips vols)) m) w =
      (Inr (map (\<lambda>v. \<lparr> rr_ID = vd_Id v, rr_Name = vd_Name v, rr_Tags = vd_Tags v \<rparr>)
              (take 1000 (after vd_Id m vols)),
            map_option vd_Id (last_of (take 1000 (after vd_Id m vols)))), w')" for w m
    using fetch_volumes_page[of "example_client (paged_cloud eips vols)" vols m w]
    by (simp add: example_client_def paged_cloud_def last_marker_def)
qed simp_all

section \<open>Properties\<close>

text \<open>C32: Listing is complete. When the platform serves its EIPs page by page after the marker, as it
  documents, \<open>ListEips\<close> returns every one of them, once, in order, however many pages it takes.\<close>

theorem ListEips_complete:
  assumes "\<And>tr m. ans_ListPublicips (cli_cloud s) (tr @ [EipReq (ListPublicipsReq m 1000)]) =
             Inr (Some (take 1000 (after (deref \<circ> pi_Id) m eips)))"
    and "\<forall>p \<in> set eips. pi_Id p \<noteq> None" and "distinct (map (deref \<circ> pi_Id) eips)"
    and "length eips < fuel * 1000"
  shows "fst (run_state (ListEips fuel s) tr) = Inr (map eip_ref eips)"
proof -
  have "paged_listing (fetch_eips s) (deref \<circ> pi_Id) eip_ref eips 1000 (\<lambda>_. True)"
    using fetch_eips_page[OF assms(1,2)] by unfold_locales auto
  from paged_listing.run_listing[OF this assms(3,4)] show ?thesis
    by (simp add: ListEips_def)
qed

theorem ListEips_complete_witness:
  "fst (run_state (ListEips 2 (example_client (paged_cloud
     [\<lparr> pi_Id = Some ''e1'', pi_PublicIpAddress = None, pi_Tags = Some [''k=v''] \<rparr>] []))) []) =
   Inr [\<lparr> er_ID = ''e1'', er_Address = '''', er_Tags = [(''k'', ''v'')] \<rparr>]"
  using ListEips_complete[of "example_client (paged_cloud
     [\<lparr> pi_Id = Some ''e1'', pi_PublicIpAddress = None, pi_Tags = Some [''k=v''] \<rparr>] [])"
     "[\<lparr> pi_Id = Some ''e1'', pi_PublicIpAddress = None, pi_Tags = Some [''k=v''] \<rparr>]" 2 "[]"]
  by (simp add: example_client_def paged_cloud_def last_marker_def eip_ref_def deref_def parseKVTags_def)

lemma wp_DeleteNatGatewayOrdered [wp_simps]:
  "wp (DeleteNatGatewayOrdered m n ff) Q =
     wp m (\<lambda>r. if err_of r \<noteq> None \<and> ff then Q (err_of r, None)
              else wp n (\<lambda>g. Q (err_of r, err_of g)))"
  by (simp add: DeleteNatGatewayOrdered_def wp_simps cong: if_cong)

text \<open>SNAT rules go first. If \<open>DeleteNatGateway\<close> sends the delete of the gateway at all, it is its
  last request, and before it every SNAT rule the platform listed was deleted, one by one, each accepted or
  already gone.\<close>

theorem DeleteNatGateway_rules_first:
  assumes "run_state (DeleteNatGateway s g) tr = (r, tr')"
    and "tr' = tr @ new" "NatReq (DeleteNatGatewayReq g) \<in> set new"
  shows "\<exists>mid. rules_cleared (cli_cloud s) g (listed_rule_ids (cli_cloud s) tr g)
            (tr @ [NatReq (ListSnatRulesReq g)]) mid \<and>
          tr' = mid @ [NatReq (DeleteNatGatewayReq g)]"
proof -
  let ?c = "cli_cloud s"
  let ?Q = "\<lambda>tr'. extends (\<lambda>q. q \<noteq> NatReq (DeleteNatGatewayReq g)) tr tr' \<or>
      (\<exists>mid. rules_cleared ?c g (listed_rule_ids ?c tr g) (tr @ [NatReq (ListSnatRulesReq g)]) mid \<and>
          tr' = mid @ [NatReq (DeleteNatGatewayReq g)])"
  have ext: "wp (DeleteSnatRules ?c g) (\<lambda>_. extends (\<lambda>q. q \<noteq> NatReq (DeleteNatGatewayReq g)) tr) tr"
    using sends_DeleteSnatRules[of "\<lambda>q. q \<noteq> NatReq (DeleteNatGatewayReq g)" g ?c]
    by (simp add: sends_def keeps_def)
  have "wp (DeleteNatGateway s g) (\<lambda>_. ?Q) tr"
    unfolding DeleteNatGateway_def gc_delete_rules_def gc_delete_gateway_def
    by (simp add: wp_simps, rule wp_mono[OF wp_conj[OF DeleteSnatRules_cleared[of ?c g tr] ext]])
       (auto simp: wp_simps err_of_def split: option.splits sum.splits)
  then have "?Q tr'" using assms(1) by (simp add: wp_run)
  moreover have "\<not> extends (\<lambda>q. q \<noteq> NatReq (DeleteNatGatewayReq g)) tr tr'"
    using assms(2,3) by (auto simp: extends_def list_all_iff)
  ultimately show ?thesis by blast
qed

definition nat_cloud :: cloud where
  "nat_cloud = empty_cloud \<lparr>
     ans_ListSnatRules := (\<lambda>_. Inr (Some [\<lparr> sn_Id = ''r1'', sn_NetworkId = ''n'', sn_FloatingIpId = ''e'' \<rparr>])) \<rparr>"

theorem DeleteNatGateway_rules_first_witness:
  "\<exists>mid. rules_cleared nat_cloud ''g'' (listed_rule_ids nat_cloud [] ''g'')
     [NatReq (ListSnatRulesReq ''g'')] mid \<and>
   snd (run_state (DeleteNatGateway (example_client nat_cloud) ''g'') []) =
     mid @ [NatReq (DeleteNatGatewayReq ''g'')]"
proof -
  let ?m = "DeleteNatGateway (example_client nat_cloud) ''g''"
  have "NatReq (DeleteNatGatewayReq ''g'') \<in> set (snd (run_state ?m []))"
    by (simp add: DeleteNatGateway_def DeleteNatGatewayOrdered_def gc_delete_rules_def gc_delete_gateway_def
        DeleteSnatRules_def ListSnatRules_def DeleteSnatRule_def hw_DeleteNatGateway_def tolerate_missing_def
        tryE_def ok_def fail_def err_of_def example_client_def nat_cloud_def empty_cloud_def)
  from DeleteNatGateway_rules_first[OF prod.collapse[symmetric], of "example_client nat_cloud" "''g''" "[]", OF _ this]
  show ?thesis by (simp add: example_client_def)
qed

end
