(* ===== verification/CceNodePool.thy ===== *)
theory CceNodePool
  imports CceCluster CceResources
begin

text \<open>
  The node pool and node operations of \<open>internal/services/cce/cce.go\<close>: taints, the create request and
  its adoption on a conflict, scaling, updating (attributes or tags, never both), and the node listings.
\<close>

section \<open>Taints\<close>

definition taintEffect :: "string \<Rightarrow> go_error + TaintEffect" where
  "taintEffect effect =
     (if effect = ''PreferNoSchedule'' then Inr PREFER_NO_SCHEDULE
      else if effect = ''NoExecute'' then Inr NO_EXECUTE
      else if effect = ''NoSchedule'' then Inr NO_SCHEDULE
      else Inl (PlainErr (msgf [''unsupported taint effect '', effect,
             '' (want NoSchedule|PreferNoSchedule|NoExecute)''])))"

text \<open>\<open>lastIndexByte\<close>: the loop from the end of the string; \<open>n\<close> is \<open>i + 1\<close>. Cutting a string there is
  \<open>split_last\<close>, which the models use.\<close>

fun last_index_loop :: "string \<Rightarrow> char \<Rightarrow> nat \<Rightarrow> int" where
  "last_index_loop s b 0 = - 1"
| "last_index_loop s b (Suc n) = (if s ! n = b then int n else last_index_loop s b n)"

definition lastIndexByte :: "string \<Rightarrow> char \<Rightarrow> int" where
  "lastIndexByte s b = last_index_loop s b (length s)"

lemma last_index_loop_absent: "(\<And>i. i < n \<Longrightarrow> s ! i \<noteq> b) \<Longrightarrow> last_index_loop s b n = - 1"
  by (induction n) auto

lemma last_index_loop_found:
  "k < n \<Longrightarrow> s ! k = b \<Longrightarrow> (\<And>i. k < i \<Longrightarrow> i < n \<Longrightarrow> s ! i \<noteq> b) \<Longrightarrow> last_index_loop s b n = int k"
  by (induction n) (auto simp: less_Suc_eq)

lemma split_last_lastIndexByte:
  "split_last b s = (let i = lastIndexByte s b in if i \<ge> 0 then Some (take (nat i) s, drop (nat i + 1) s) else None)"
proof (cases "b \<in> set s")
  case True
  then obtain xs ys where s: "s = xs @ b # ys" "b \<notin> set ys" by (meson split_list_last)
  then have "lastIndexByte s b = int (length xs)"
    unfolding lastIndexByte_def by (intro last_index_loop_found) (auto simp: nth_append nth_Cons')
  then show ?thesis using split_last_append[OF s(2), of xs] by (simp add: s(1))
next
  case False
  then have "lastIndexByte s b = - 1"
    unfolding lastIndexByte_def by (intro last_index_loop_absent) (auto simp: in_set_conv_nth)
  moreover have "split_last b s = None"
    using False split_last_SomeD[of b s] by (cases "split_last b s") auto
  ultimately show ?thesis by simp
qed

text \<open>\<open>parseTaint\<close>: the effect follows the last colon, the value the last equals sign before it.\<close>

definition parseTaint :: "string \<Rightarrow> string \<times> string \<times> string" where
  "parseTaint s = (case split_last CHR '':'' s of
      None \<Rightarrow> (case split_last CHR ''='' s of
          None \<Rightarrow> (s, '''', ''NoSchedule'') | Some (k, v) \<Rightarrow> (k, v, ''NoSchedule''))
    | Some (rest, e) \<Rightarrow> (let effect = (if e = '''' then ''NoSchedule'' else e) in
        case split_last CHR ''='' rest of
          None \<Rightarrow> (rest, '''', effect) | Some (k, v) \<Rightarrow> (k, v, effect)))"

fun parseTaints :: "string list \<Rightarrow> go_error + Taint list" where
  "parseTaints [] = Inr []"
| "parseTaints (t # ts) = (case parseTaint t of (key, value, effect) \<Rightarrow>
     if key = '''' then Inl (PlainErr (msgf [''invalid taint '', t, '': key is required'']))
     else case taintEffect effect of
         Inl e \<Rightarrow> Inl (WrapErr (msgf [''invalid taint '', t]) e)
       | Inr te \<Rightarrow> (case parseTaints ts of
             Inl e \<Rightarrow> Inl e
           | Inr out \<Rightarrow> Inr (\<lparr> ta_Key = key, ta_Value = ptr_or_nil value, ta_Effect = te \<rparr> # out)))"

section \<open>Creating\<close>

definition defaultVolumeType :: string where "defaultVolumeType = ''GPSSD''"

definition defaultString :: "string \<Rightarrow> string \<Rightarrow> string" where
  "defaultString v def = (if v = '''' then def else v)"

definition toNodePoolAutoscaling :: "NodePoolAutoscaling option \<Rightarrow> NodePoolNodeAutoscaling option" where
  "toNodePoolAutoscaling p = (case p of None \<Rightarrow> None
    | Some a \<Rightarrow> Some \<lparr> nna_Enable = Some (npa_Enable a), nna_MinNodeCount = Some (npa_MinNodeCount a),
                      nna_MaxNodeCount = Some (npa_MaxNodeCount a) \<rparr>)"

definition node_extend_param :: "CreateNodePoolInput \<Rightarrow> NodeExtendParam option" where
  "node_extend_param i =
     (if cni_Spot i \<or> cni_PreInstall i \<noteq> '''' \<or> cni_PostInstall i \<noteq> ''''
      then Some \<lparr> ne_MarketType = (if cni_Spot i then Some SPOT else None),
                  ne_SpotPrice = (if cni_Spot i then ptr_or_nil (cni_SpotPrice i) else None),
                  ne_PreInstall = ptr_or_nil (cni_PreInstall i),
                  ne_PostInstall = ptr_or_nil (cni_PostInstall i) \<rparr>
      else None)"

definition node_template :: "CreateNodePoolInput \<Rightarrow> Taint list option \<Rightarrow> NodeTemplate" where
  "node_template i taints = \<lparr>
     nt_Flavor = Some (cni_Flavor i),
     nt_BillingMode = Some E_0,
     nt_RootVolume = Some \<lparr> vo_Size = cni_RootVolumeSize i,
        vo_Type = defaultString (cni_RootVolumeType i) defaultVolumeType \<rparr>,
     nt_Os = ptr_or_nil (cni_OS i),
     nt_Az = ptr_or_nil (cni_AvailabilityZone i),
     nt_DataVolumes = list_or_nil (map (\<lambda>v. \<lparr> vo_Size = nvi_Size v,
        vo_Type = defaultString (nvi_Type v) defaultVolumeType \<rparr>) (cni_DataVolumes i)),
     nt_SshKey = ptr_or_nil (cni_SSHKey i),
     nt_EcsGroupId = ptr_or_nil (cni_EcsGroupID i),
     nt_FaultDomain = ptr_or_nil (cni_FaultDomain i),
     nt_DedicatedHostId = ptr_or_nil (cni_DedicatedHostID i),
     nt_Taints = taints,
     nt_K8sTags = cni_Labels i,
     nt_UserTags = Some (toUserTags (cni_ClusterName i) (cni_Tags i)),
     nt_ExtendParam = node_extend_param i,
     nt_WaitPostInstallFinish = cni_WaitPostInstallFinish i,
     nt_PublicIP = (if cni_PublicIP i then Some (DefaultEIPType,
          \<lparr> nb_Size = Some (cni_PublicIPBandwidthSize i),
            nb_Sharetype = Some (defaultString (cni_PublicIPShareType i) ''PER''),
            nb_Chargemode = Some (defaultString (cni_PublicIPChargeMode i) ''bandwidth'') \<rparr>) else None) \<rparr>"

definition node_pool_spec :: "CreateNodePoolInput \<Rightarrow> Taint list option \<Rightarrow> NodePoolSpec" where
  "node_pool_spec i taints = \<lparr>
     nps_NodeTemplate = Some (node_template i taints),
     nps_InitialNodeCount = Some (cni_InitialNodeCount i),
     nps_CustomSecurityGroups =
        (if cni_SecurityGroups i \<noteq> [] \<or> cni_CustomSecurityGroups i \<noteq> []
         then Some (if cni_CustomSecurityGroups i \<noteq> [] then cni_CustomSecurityGroups i
                    else cni_SecurityGroups i)
         else None),
     nps_Autoscaling = toNodePoolAutoscaling (cni_Autoscaling i),
     nps_ExtensionScaleGroups = list_or_nil (map (\<lambda>g. (esg_Name g, esg_Flavor g, esg_AvailabilityZone g))
        (cni_ExtensionScaleGroups i)) \<rparr>"

text \<open>The checks of \<open>CreateNodePool\<close> before the request, and the pool it sends.\<close>

definition build_node_pool :: "CreateNodePoolInput \<Rightarrow> go_error + NodePool" where
  "build_node_pool i =
     (if cni_Flavor i = '''' then Inl (PlainErr ''CreateNodePool: flavor is required'')
      else if cni_RootVolumeSize i \<le>s 0
      then Inl (PlainErr ''CreateNodePool: rootVolume size must be >= 40 GiB'')
      else case (if cni_Taints i \<noteq> [] then map_sum (\<lambda>e. e) Some (parseTaints (cni_Taints i)) else Inr None) of
          Inl e \<Rightarrow> Inl e
        | Inr taints \<Rightarrow> Inr \<lparr> np_Uid = None, np_Name = cni_Name i, np_Spec = Some (node_pool_spec i taints) \<rparr>)"

definition node_pool_info :: "NodePoolResp \<Rightarrow> NodePoolInfo" where
  "node_pool_info p = \<lparr>
     npi_NodePoolID = (case npr_Metadata p of Some (u, _) \<Rightarrow> deref u | None \<Rightarrow> ''''),
     npi_Name = (case npr_Metadata p of Some (_, n) \<Rightarrow> n | None \<Rightarrow> ''''),
     npi_NodeCount = (case npr_Status p of
        Some st \<Rightarrow> (case npt_CurrentNode st of Some n \<Rightarrow> n | None \<Rightarrow> 0) | None \<Rightarrow> 0),
     npi_ActiveNodeCount = (case npr_Status p of
        Some st \<Rightarrow> (case npt_ActiveNode st of Some n \<Rightarrow> n | None \<Rightarrow> 0) | None \<Rightarrow> 0),
     npi_Tags = show_tags (npr_UserTags p) \<rparr>"

definition ListNodePools :: "Client \<Rightarrow> string \<Rightarrow> (history, NodePoolInfo list) go" where
  "ListNodePools s clusterID =
     tryE (wrapE ''ListNodePools failed''
             (send (CceReq (ListNodePoolsReq clusterID)) (ans_ListNodePools (cli_cloud s))))
       (\<lambda>items. ok (case items of Some ps \<Rightarrow> map node_pool_info ps | None \<Rightarrow> []))"

definition findNodePoolIDByName :: "Client \<Rightarrow> string \<Rightarrow> string \<Rightarrow> (history, NodePoolInfo) go" where
  "findNodePoolIDByName s clusterID name =
     tryE (wrapE ''ListNodePools failed'' (ListNodePools s clusterID))
       (\<lambda>pools. case find (\<lambda>p. npi_Name p = name) pools of
           Some p \<Rightarrow> ok p
         | None \<Rightarrow> fail (PlainErr (msgf [''node pool '', name, '' not found in cluster '', clusterID])))"

definition CreateNodePool :: "Client \<Rightarrow> CreateNodePoolInput \<Rightarrow> (history, string) go" where
  "CreateNodePool s i = (case build_node_pool i of
      Inl e \<Rightarrow> fail e
    | Inr pool \<Rightarrow> do {
        r \<leftarrow> send (CceReq (CreateNodePoolReq (cni_ClusterID i) pool)) (ans_CreateNodePool (cli_cloud s));
        case r of
          Inl err \<Rightarrow>
            if IsConflict err then do {
              f \<leftarrow> findNodePoolIDByName s (cni_ClusterID i) (cni_Name i);
              case f of
                Inr p \<Rightarrow>
                  if npi_NodePoolID p \<noteq> ''''
                  then State_Monad.return (adoptConflictCandidate ''node pool'' (cni_Name i)
                         (npi_NodePoolID p) (npi_Tags p) (cni_ClusterName i))
                  else fail (WrapErr ''CreateNodePool failed'' err)
              | Inl _ \<Rightarrow> fail (WrapErr ''CreateNodePool failed'' err)
            } else fail (WrapErr ''CreateNodePool failed'' err)
        | Inr uid \<Rightarrow> (case uid of
              None \<Rightarrow> fail (PlainErr ''CreateNodePool returned no node pool ID'')
            | Some u \<Rightarrow> ok u) })"

section \<open>Scaling, updating, deleting\<close>

definition ScaleNodePool :: "Client \<Rightarrow> string \<Rightarrow> string \<Rightarrow> int32 \<Rightarrow> (history, unit) go" where
  "ScaleNodePool s clusterID nodePoolID desiredCount =
     (if desiredCount <s 0
      then fail (PlainErr ''ScaleNodePool: desired node count must be >= 0'')
      else do {
        r \<leftarrow> send (CceReq (ScaleNodePoolReq clusterID nodePoolID desiredCount [''default'']))
               (ack (cli_cloud s));
        case r of
          Inl err \<Rightarrow> if IsScaleNoOp err then ok ()
                     else fail (WrapErr (msgf [''ScaleNodePool '', nodePoolID, '' failed'']) err)
        | Inr _ \<Rightarrow> ok () })"

definition node_pool_update :: "UpdateNodePoolInput \<Rightarrow> NodePoolSpecUpdate" where
  "node_pool_update i = (let tagOnly = (uni_UserTags i \<noteq> None) in \<lparr>
     npu_InitialNodeCount = uni_InitialNodeCount i,
     npu_IgnoreInitialNodeCount = (if uni_IgnoreInitialNodeCount i then Some True else None),
     npu_UserTags = map_option (toUserTags (uni_ClusterName i)) (uni_UserTags i),
     npu_UserTagsPolicyOnExistingNodes =
        (if tagOnly then Some (uni_UserTagsPolicyOnExistingNodes i) else None),
     npu_CustomSecurityGroups = (if tagOnly then None else Some (uni_CustomSecurityGroups i)),
     npu_Autoscaling = (if tagOnly then None else toNodePoolAutoscaling (uni_Autoscaling i)),
     npu_TaintPolicyOnExistingNodes =
        (if tagOnly then None else ptr_or_nil (uni_TaintPolicyOnExistingNodes i)),
     npu_LabelPolicyOnExistingNodes =
        (if tagOnly then None else ptr_or_nil (uni_LabelPolicyOnExistingNodes i)) \<rparr>)"

definition UpdateNodePool :: "Client \<Rightarrow> UpdateNodePoolInput \<Rightarrow> (history, unit) go" where
  "UpdateNodePool s i =
     wrapE (msgf [''UpdateNodePool '', uni_NodePoolID i, '' failed''])
       (send (CceReq (UpdateNodePoolReq (uni_ClusterID i) (uni_NodePoolID i) (node_pool_update i)))
          (ack (cli_cloud s)))"

definition nodePoolTagUpdateNeeded :: "NodePoolInfo list \<Rightarrow> string \<Rightarrow> (string, string) gomap \<Rightarrow> bool \<times> bool" where
  "nodePoolTagUpdateNeeded pools nodePoolID want =
     (case find (\<lambda>p. npi_NodePoolID p = nodePoolID) pools of
        Some p \<Rightarrow> (True, \<not> tagsEqual (npi_Tags p) want)
      | None \<Rightarrow> (False, False))"

definition tag_update_input :: "string \<Rightarrow> string \<Rightarrow> string \<Rightarrow> (string, string) gomap option \<Rightarrow> UpdateNodePoolInput" where
  "tag_update_input clusterID nodePoolID clusterName userTags = \<lparr>
     uni_ClusterID = clusterID, uni_NodePoolID = nodePoolID, uni_InitialNodeCount = 0,
     uni_IgnoreInitialNodeCount = True, uni_CustomSecurityGroups = [], uni_Autoscaling = None,
     uni_TaintPolicyOnExistingNodes = '''', uni_LabelPolicyOnExistingNodes = '''',
     uni_UserTagsPolicyOnExistingNodes = ''refresh'', uni_UserTags = userTags,
     uni_ClusterName = clusterName \<rparr>"

text \<open>\<open>userTags\<close> is the caller's map, possibly nil (\<open>None\<close>).\<close>

definition ReconcileNodePoolTags :: "Client \<Rightarrow> string \<Rightarrow> string \<Rightarrow> string \<Rightarrow>
    (string, string) gomap option \<Rightarrow> NodePoolInfo list \<Rightarrow> (history, bool) go" where
  "ReconcileNodePoolTags s clusterID nodePoolID clusterName userTags pools =
     (let want = put_tags (toUserTags clusterName (case userTags of Some u \<Rightarrow> u | None \<Rightarrow> [])) [] in
      case nodePoolTagUpdateNeeded pools nodePoolID want of (found, drifted) \<Rightarrow>
        if \<not> found \<or> \<not> drifted then ok False
        else tryE (UpdateNodePool s (tag_update_input clusterID nodePoolID clusterName userTags))
               (\<lambda>_. ok True))"

definition DeleteNodePool :: "Client \<Rightarrow> string \<Rightarrow> string \<Rightarrow> (history, unit) go" where
  "DeleteNodePool s clusterID nodePoolID = do {
     r \<leftarrow> send (CceReq (DeleteNodePoolReq clusterID nodePoolID)) (ack (cli_cloud s));
     case r of
       Inl err \<Rightarrow>
         if IsNotFound err then ok ()
         else if IsNodePoolDeleting err then ok ()
         else fail (WrapErr (msgf [''DeleteNodePool '', nodePoolID, '' failed'']) err)
     | Inr _ \<Rightarrow> ok () }"

definition UpgradeNodePool :: "Client \<Rightarrow> string \<Rightarrow> string \<Rightarrow> int32 \<Rightarrow> (history, unit) go" where
  "UpgradeNodePool s clusterID nodePoolID maxUnavailable =
     (if maxUnavailable <s 1 \<or> 20 <s maxUnavailable
      then fail (PlainErr ''UpgradeNodePool: maxUnavailable must be in [1,20]'')
      else wrapE (msgf [''UpgradeNodePool '', nodePoolID, '' failed''])
             (send (CceReq (UpgradeNodePoolReq clusterID nodePoolID maxUnavailable)) (ack (cli_cloud s))))"

section \<open>Nodes\<close>

definition fetch_nodes :: "Client \<Rightarrow> string \<Rightarrow> string option \<Rightarrow> (history, Node list \<times> string option) go" where
  "fetch_nodes s clusterID marker =
     tryE (wrapE ''ListNodes failed''
             (send (CceReq (ListNodesReq clusterID marker 2000)) (ans_ListNodes (cli_cloud s))))
       (\<lambda>(items, nextMarker). ok (case items of None \<Rightarrow> ([], None) | Some ns \<Rightarrow> (ns, nextMarker)))"

definition listAllNodes :: "nat \<Rightarrow> Client \<Rightarrow> string \<Rightarrow> (history, Node list) go" where
  "listAllNodes fuel s clusterID = paginateAll fuel 2000 (fetch_nodes s clusterID) None []"

definition pool_provider_ids :: "string \<Rightarrow> Node list \<Rightarrow> string list" where
  "pool_provider_ids nodePoolID nodes =
     [''huaweicloud:///'' @ the (no_ServerId n). n \<leftarrow> nodes,
        no_NodepoolID n = Some nodePoolID \<and> no_ServerId n \<noteq> None]"

definition ListNodes :: "nat \<Rightarrow> Client \<Rightarrow> string \<Rightarrow> string \<Rightarrow> (history, string list) go" where
  "ListNodes fuel s clusterID nodePoolID =
     tryE (listAllNodes fuel s clusterID) (\<lambda>nodes. ok (pool_provider_ids nodePoolID nodes))"

definition ListNodesWithStatus :: "nat \<Rightarrow> Client \<Rightarrow> string \<Rightarrow> (history, NodeInfo list) go" where
  "ListNodesWithStatus fuel s clusterID =
     tryE (listAllNodes fuel s clusterID) (\<lambda>nodes. ok (map (\<lambda>n. \<lparr> ni_UID = deref (no_Uid n),
        ni_NodePoolID = deref (no_NodepoolID n), ni_Phase = deref (no_Phase n) \<rparr>) nodes))"

definition ResetNode :: "Client \<Rightarrow> string \<Rightarrow> string list \<Rightarrow> (history, unit) go" where
  "ResetNode s clusterID nodeIDs =
     wrapE ''ResetNode failed''
       (send (CceReq (ResetNodeReq clusterID nodeIDs)) (ack (cli_cloud s)))"

section \<open>Facts\<close>

lemma find_NodePool: "find P xs = Some x \<Longrightarrow> x \<in> set xs \<and> P x"
  by (auto simp: find_Some_iff)

lemma run_ListNodePools:
  "run_state (ListNodePools s clusterID) tr =
     (case ans_ListNodePools (cli_cloud s) (tr @ [CceReq (ListNodePoolsReq clusterID)]) of
        Inl e \<Rightarrow> Inl (WrapErr ''ListNodePools failed'' e)
      | Inr None \<Rightarrow> Inr [] | Inr (Some ps) \<Rightarrow> Inr (map node_pool_info ps),
      tr @ [CceReq (ListNodePoolsReq clusterID)])"
  by (simp add: ListNodePools_def tryE_def wrapE_def ok_def fail_def split: sum.splits option.splits)

lemma wp_ListNodePools [wp_simps]:
  "wp (ListNodePools s clusterID) Q = (\<lambda>tr. Q
     (case ans_ListNodePools (cli_cloud s) (tr @ [CceReq (ListNodePoolsReq clusterID)]) of
        Inl e \<Rightarrow> Inl (WrapErr ''ListNodePools failed'' e)
      | Inr None \<Rightarrow> Inr [] | Inr (Some ps) \<Rightarrow> Inr (map node_pool_info ps))
      (tr @ [CceReq (ListNodePoolsReq clusterID)]))"
  by (simp add: wp_def run_ListNodePools fun_eq_iff)

lemma wp_UpdateNodePool [wp_simps]:
  "wp (UpdateNodePool s i) Q = (\<lambda>tr.
     let req = CceReq (UpdateNodePoolReq (uni_ClusterID i) (uni_NodePoolID i) (node_pool_update i)) in
     Q (case ack (cli_cloud s) (tr @ [req]) of
          Inl e \<Rightarrow> Inl (WrapErr (msgf [''UpdateNodePool '', uni_NodePoolID i, '' failed'']) e)
        | Inr v \<Rightarrow> Inr v) (tr @ [req]))"
  by (simp add: UpdateNodePool_def wp_simps Let_def fun_eq_iff split: sum.splits)

section \<open>Properties\<close>

text \<open>C26: A refused node pool create never adopts a pool of somebody else: an ID returned after a
  failed create is the ID of a pool the platform lists in this cluster under the requested name, with
  the owned tag of the owning cluster.\<close>

theorem CreateNodePool_adopts_only_owned:
  assumes "build_node_pool i = Inr pool"
    and "ans_CreateNodePool (cli_cloud s) (tr @ [CceReq (CreateNodePoolReq (cni_ClusterID i) pool)]) = Inl err"
    and "run_state (CreateNodePool s i) tr = (Inr pid, tr')"
  shows "IsConflict err \<and> (\<exists>ps p. last tr' = CceReq (ListNodePoolsReq (cni_ClusterID i)) \<and>
           ans_ListNodePools (cli_cloud s) tr' = Inr (Some ps) \<and> p \<in> set ps \<and>
           npi_NodePoolID (node_pool_info p) = pid \<and> npi_Name (node_pool_info p) = cni_Name i \<and>
           IsOwned (npi_Tags (node_pool_info p)) (cni_ClusterName i))"
proof -
  have "wp (CreateNodePool s i) (\<lambda>r tr'. \<forall>pid. r = Inr pid \<longrightarrow> IsConflict err \<and>
      (\<exists>ps p. last tr' = CceReq (ListNodePoolsReq (cni_ClusterID i)) \<and>
           ans_ListNodePools (cli_cloud s) tr' = Inr (Some ps) \<and> p \<in> set ps \<and>
           npi_NodePoolID (node_pool_info p) = pid \<and> npi_Name (node_pool_info p) = cni_Name i \<and>
           IsOwned (npi_Tags (node_pool_info p)) (cni_ClusterName i))) tr"
    using assms(1,2)
    by (auto simp: CreateNodePool_def findNodePoolIDByName_def wp_simps split: sum.splits option.splits
        dest!: find_NodePool)
  then show ?thesis using assms(3) by (simp add: wp_run)
qed

text \<open>Tag reconciliation of a node pool touches nothing else. Called with a (non-nil) tag map it
  returns true exactly when the pool is listed and its tags differ from the desired set; it then sent
  one update, which leaves the node count and the security groups alone and carries exactly the desired
  tags; otherwise it sent nothing.\<close>

theorem ReconcileNodePoolTags_tags_only:
  assumes "distinct (map fst u)" and "\<forall>p \<in> set pools. distinct (map fst (npi_Tags p))"
    and "run_state (ReconcileNodePoolTags s c np n (Some u) pools) tr = (Inr b, tr')"
  shows "(b \<longleftrightarrow> (\<exists>p. find (\<lambda>p. npi_NodePoolID p = np) pools = Some p \<and>
                    map_of (npi_Tags p) \<noteq> desired_tags RoleNode n u)) \<and>
    (if b then \<exists>upd. tr' = tr @ [CceReq (UpdateNodePoolReq c np upd)] \<and>
            npu_IgnoreInitialNodeCount upd = Some True \<and> npu_CustomSecurityGroups upd = None \<and>
            npu_Autoscaling upd = None \<and>
            (\<exists>ts. npu_UserTags upd = Some ts \<and> map_of (put_tags ts []) = desired_tags RoleNode n u)
     else tr' = tr)"
proof -
  let ?want = "put_tags (toUserTags n u) []"
  have want: "map_of ?want = desired_tags RoleNode n u" "distinct (map fst ?want)"
    using put_toUserTags[OF assms(1)] by (simp_all add: put_tags_distinct)
  have eq: "tagsEqual (npi_Tags p) ?want \<longleftrightarrow> map_of (npi_Tags p) = desired_tags RoleNode n u"
    if "find (\<lambda>p. npi_NodePoolID p = np) pools = Some p" for p
    using tagsEqual_iff[of "npi_Tags p" ?want] find_NodePool[OF that] assms(2) want by auto
  have "wp (ReconcileNodePoolTags s c np n (Some u) pools) (\<lambda>r tr'. \<forall>b. r = Inr b \<longrightarrow>
     (b \<longleftrightarrow> (\<exists>p. find (\<lambda>p. npi_NodePoolID p = np) pools = Some p \<and>
                    map_of (npi_Tags p) \<noteq> desired_tags RoleNode n u)) \<and>
    (if b then \<exists>upd. tr' = tr @ [CceReq (UpdateNodePoolReq c np upd)] \<and>
            npu_IgnoreInitialNodeCount upd = Some True \<and> npu_CustomSecurityGroups upd = None \<and>
            npu_Autoscaling upd = None \<and>
            (\<exists>ts. npu_UserTags upd = Some ts \<and> map_of (put_tags ts []) = desired_tags RoleNode n u)
     else tr' = tr)) tr"
    by (auto simp: ReconcileNodePoolTags_def nodePoolTagUpdateNeeded_def wp_simps Let_def eq want(1)
        tag_update_input_def node_pool_update_def split: option.splits sum.splits)
  then show ?thesis using assms(3) by (simp add: wp_run)
qed

text \<open>C33: A taint written \<open>key=value:effect\<close> is read back, even when the value contains colons or the
  key contains equals signs.\<close>

theorem parseTaint_roundtrip:
  assumes "CHR '':'' \<notin> set e" "e \<noteq> ''''" "CHR ''='' \<notin> set v"
  shows "parseTaint (k @ ''='' @ v @ '':'' @ e) = (k, v, e)"
proof -
  have "split_last CHR '':'' ((k @ ''='' @ v) @ CHR '':'' # e) = Some (k @ ''='' @ v, e)"
    using assms(1) by (rule split_last_append)
  moreover have "split_last CHR ''='' (k @ CHR ''='' # v) = Some (k, v)"
    using assms(3) by (rule split_last_append)
  ultimately show ?thesis using assms(2) by (simp add: parseTaint_def Let_def)
qed

text \<open>Scaling never shrinks a pool by accident: \<open>ScaleNodePool\<close> sends at most one request, for the
  requested non-negative count, and treats the platform's "already at that size" as success.\<close>

theorem ScaleNodePool_exact:
  "run_state (ScaleNodePool s c np d) tr =
     (if sint d < 0 then (Inl (PlainErr ''ScaleNodePool: desired node count must be >= 0''), tr)
      else let tr' = tr @ [CceReq (ScaleNodePoolReq c np d [''default''])] in
        (case ack (cli_cloud s) tr' of
           Inr _ \<Rightarrow> Inr ()
         | Inl e \<Rightarrow> if fst (ServiceResponseError e) = ''CCE_CM.0004'' then Inr ()
             else if fst (ServiceResponseError e) = '''' \<and>
                     contains_sub (snd (ServiceResponseError e)) ''No scale task needed'' then Inr ()
             else Inl (WrapErr (msgf [''ScaleNodePool '', np, '' failed'']) e), tr'))"
  by (auto simp: ScaleNodePool_def IsScaleNoOp_def ErrCodeScaleNoOp_def word_sless_alt ok_def fail_def Let_def
      split: sum.splits prod.splits)

section \<open>Witnesses\<close>

definition pool_cloud :: cloud where
  "pool_cloud = empty_cloud \<lparr>
     ans_CreateNodePool := (\<lambda>_. Inl (SdkErr 409 ''CCE.01409001'' ''exists'')),
     ans_ListNodePools := (\<lambda>_. Inr (Some [\<lparr> npr_Metadata = Some (Some ''p1'', ''np''),
        npr_UserTags = Some [mk_tag (OwnedTagKey ''demo'') ''owned''], npr_Status = None \<rparr>])) \<rparr>"

definition example_pool :: CreateNodePoolInput where
  "example_pool = \<lparr> cni_ClusterID = ''c1'', cni_Name = ''np'', cni_Flavor = ''c7.large'', cni_OS = '''',
     cni_RootVolumeSize = 40, cni_RootVolumeType = '''', cni_DataVolumes = [], cni_SSHKey = '''',
     cni_AvailabilityZone = '''', cni_InitialNodeCount = 2, cni_BillingMode = 0, cni_Spot = False,
     cni_SpotPrice = '''', cni_ExtensionScaleGroups = [], cni_Taints = [''a=b:NoExecute''], cni_Labels = [],
     cni_SecurityGroups = [], cni_CustomSecurityGroups = [], cni_Autoscaling = None,
     cni_ClusterName = ''demo'', cni_Tags = [], cni_EcsGroupID = '''', cni_FaultDomain = '''',
     cni_DedicatedHostID = '''', cni_PreInstall = '''', cni_PostInstall = '''',
     cni_WaitPostInstallFinish = None, cni_PublicIP = False, cni_PublicIPBandwidthSize = 0,
     cni_PublicIPShareType = '''', cni_PublicIPChargeMode = '''' \<rparr>"

lemma example_pool_builds: "\<exists>pool. build_node_pool example_pool = Inr pool"
  by (simp add: build_node_pool_def example_pool_def parseTaint_def split_last_def taintEffect_def Let_def
      word_sle_eq)

theorem CreateNodePool_adopts_only_owned_witness:
  "fst (run_state (CreateNodePool (example_client pool_cloud) example_pool) []) = Inr ''p1'' \<and>
   IsConflict (SdkErr 409 ''CCE.01409001'' ''exists'')"
proof -
  let ?m = "CreateNodePool (example_client pool_cloud) example_pool"
  obtain pool where pool: "build_node_pool example_pool = Inr pool" using example_pool_builds by blast
  have r: "fst (run_state ?m []) = Inr ''p1''"
    by (simp add: CreateNodePool_def pool findNodePoolIDByName_def tryE_def wrapE_def ok_def fail_def
        run_ListNodePools example_client_def pool_cloud_def empty_cloud_def IsConflict_def node_pool_info_def
        show_tags_def mk_tag_def deref_def adoptConflictCandidate_def IsOwned_def get_str_def)
       (simp add: example_pool_def)
  then have run: "run_state ?m [] = (Inr ''p1'', snd (run_state ?m []))" by (simp add: prod_eq_iff)
  have "IsConflict (SdkErr 409 ''CCE.01409001'' ''exists'')"
    using CreateNodePool_adopts_only_owned[OF pool _ run, of "SdkErr 409 ''CCE.01409001'' ''exists''"]
    by (simp add: example_client_def pool_cloud_def)
  with r show ?thesis by simp
qed

theorem ReconcileNodePoolTags_tags_only_witness:
  "fst (run_state (ReconcileNodePoolTags (example_client empty_cloud) ''c1'' ''p1'' ''demo'' (Some []) []) []) =
     Inr False \<and> snd (run_state (ReconcileNodePoolTags (example_client empty_cloud) ''c1'' ''p1'' ''demo'' (Some []) []) []) = []"
proof -
  let ?m = "ReconcileNodePoolTags (example_client empty_cloud) ''c1'' ''p1'' ''demo'' (Some []) []"
  have r: "fst (run_state ?m []) = Inr False"
    by (simp add: ReconcileNodePoolTags_def nodePoolTagUpdateNeeded_def ok_def Let_def)
  then have "run_state ?m [] = (Inr False, snd (run_state ?m []))" by (simp add: prod_eq_iff)
  from ReconcileNodePoolTags_tags_only[OF _ _ this] r show ?thesis by simp
qed

theorem parseTaint_roundtrip_witness:
  "parseTaint ''a=b=http://x:NoSchedule'' = (''a=b'', ''http://x'', ''NoSchedule'')"
  using parseTaint_roundtrip[of "''NoSchedule''" "''http://x''" "''a=b''"] by simp

end
