(* ===== verification/CceMisc.thy ===== *)
theory CceMisc
  imports CceCluster
begin

text \<open>
  The remaining operations of \<open>internal/services/cce/cce.go\<close>: cluster upgrades, addons, pod identity
  associations, control plane logging and access policies.
\<close>

section \<open>Upgrades\<close>

definition GetUpgradeInfo :: "Client \<Rightarrow> string \<Rightarrow> (history, UpgradeInfo) go" where
  "GetUpgradeInfo s clusterID =
     tryE (wrapE ''ShowClusterUpgradeInfo failed''
             (send (CceReq (ShowClusterUpgradeInfoReq clusterID)) (ans_ShowClusterUpgradeInfo (cli_cloud s))))
       (\<lambda>resp. ok (case resp of
           None \<Rightarrow> \<lparr> ui_CurrentVersion = '''', ui_Patch = '''', ui_SuggestPatch = '''', ui_TargetVersions = [] \<rparr>
         | Some vi \<Rightarrow> \<lparr> ui_CurrentVersion = deref (vi_Release vi), ui_Patch = deref (vi_Patch vi),
             ui_SuggestPatch = deref (vi_SuggestPatch vi),
             ui_TargetVersions = (case vi_TargetVersions vi of Some ts \<Rightarrow> ts | None \<Rightarrow> []) \<rparr>))"

text \<open>The full current version, \<open>release-patch\<close>.\<close>

definition full_version :: "VersionInfo option \<Rightarrow> string" where
  "full_version resp = (case resp of
      Some vi \<Rightarrow> (case vi_Release vi of
          Some r \<Rightarrow> (case vi_Patch vi of Some p \<Rightarrow> if p \<noteq> '''' then r @ ''-'' @ p else r | None \<Rightarrow> r)
        | None \<Rightarrow> '''')
    | None \<Rightarrow> '''')"

definition StartUpgrade :: "Client \<Rightarrow> string \<Rightarrow> string \<Rightarrow> (history, string) go" where
  "StartUpgrade s clusterID targetVersion = (let cl = cli_cloud s in
     tryE (wrapE ''ShowClusterUpgradeInfo failed''
             (send (CceReq (ShowClusterUpgradeInfoReq clusterID)) (ans_ShowClusterUpgradeInfo cl)))
       (\<lambda>up. let currentVersion = full_version up in
        tryE (wrapE ''CreateUpgradeWorkFlow failed''
                (send (CceReq (CreateUpgradeWorkFlowReq clusterID currentVersion targetVersion)) (ack cl)))
       (\<lambda>_. tryE (wrapE ''CreatePreCheck failed''
                (send (CceReq (CreatePreCheckReq clusterID currentVersion targetVersion)) (ack cl)))
       (\<lambda>_. tryE (wrapE ''UpgradeCluster failed''
                (send (CceReq (UpgradeClusterReq clusterID targetVersion 20)) (ans_UpgradeCluster cl)))
       (\<lambda>uid. case uid of
          None \<Rightarrow> fail (PlainErr ''UpgradeCluster returned no task ID'')
        | Some u \<Rightarrow> ok u)))))"

definition ShowUpgradeTask :: "Client \<Rightarrow> string \<Rightarrow> string \<Rightarrow> (history, string) go" where
  "ShowUpgradeTask s clusterID taskID = do {
     r \<leftarrow> send (CceReq (ShowUpgradeClusterTaskReq clusterID taskID)) (ans_ShowUpgradeClusterTask (cli_cloud s));
     case r of
       Inl err \<Rightarrow> if IsNotFound err then fail (WrapErr ''upgrade task not found'' err)
                  else fail (WrapErr ''ShowUpgradeClusterTask failed'' err)
     | Inr phase \<Rightarrow> (case phase of
           None \<Rightarrow> fail (PlainErr ''ShowUpgradeClusterTask returned no status phase'')
         | Some p \<Rightarrow> ok p) }"

section \<open>Addons\<close>

definition CreateAddonInstance :: "Client \<Rightarrow> AddonInput \<Rightarrow> (history, string) go" where
  "CreateAddonInstance s i =
     tryE (wrapE (msgf [''CreateAddonInstance '', adi_Name i, '' failed''])
             (send (CceReq (CreateAddonInstanceReq \<lparr> ir_Name = adi_Name i, ir_ClusterID = adi_ClusterID i,
                  ir_AddonTemplateName = adi_Name i, ir_Version = ptr_or_nil (adi_Version i) \<rparr>))
                (ans_CreateAddonInstance (cli_cloud s))))
       (\<lambda>uid. case uid of
          None \<Rightarrow> fail (PlainErr ''CreateAddonInstance returned no addon ID'')
        | Some u \<Rightarrow> ok u)"

definition UpdateAddonInstance :: "Client \<Rightarrow> AddonInput \<Rightarrow> (history, unit) go" where
  "UpdateAddonInstance s i =
     wrapE (msgf [''UpdateAddonInstance '', adi_Name i, '' failed''])
       (send (CceReq (UpdateAddonInstanceReq (adi_AddonID i) \<lparr> ir_Name = adi_Name i,
            ir_ClusterID = adi_ClusterID i, ir_AddonTemplateName = adi_Name i,
            ir_Version = Some (adi_Version i) \<rparr>)) (ack (cli_cloud s)))"

definition ListAddonInstances :: "Client \<Rightarrow> string \<Rightarrow> (history, AddonInfo list) go" where
  "ListAddonInstances s clusterID =
     tryE (wrapE ''ListAddonInstances failed''
             (send (CceReq (ListAddonInstancesReq clusterID)) (ans_ListAddonInstances (cli_cloud s))))
       (\<lambda>items. ok (case items of None \<Rightarrow> [] | Some as \<Rightarrow> map (\<lambda>a. \<lparr>
          ad_ID = (case ai_Metadata a of Some (u, _) \<Rightarrow> deref u | None \<Rightarrow> ''''),
          ad_Name = (case ai_Metadata a of Some (_, n) \<Rightarrow> deref n | None \<Rightarrow> ''''),
          ad_Version = deref (ai_Version a), ad_Status = deref (ai_Status a) \<rparr>) as))"

definition DeleteAddonInstance :: "Client \<Rightarrow> string \<Rightarrow> string \<Rightarrow> (history, unit) go" where
  "DeleteAddonInstance s clusterID addonID =
     tolerate_missing (msgf [''DeleteAddonInstance '', addonID, '' failed''])
       (send (CceReq (DeleteAddonInstanceReq addonID)) (ack (cli_cloud s)))"

section \<open>Pod identity associations\<close>

definition toResourceTags :: "(string, string) gomap \<Rightarrow> ResourceTag list option" where
  "toResourceTags tags = (if tags = [] then None else Some (map (\<lambda>(k, v). mk_tag k v) tags))"

definition parseResourceTags :: "ResourceTag list option \<Rightarrow> (string, string) gomap" where
  "parseResourceTags tags = (case tags of None \<Rightarrow> [] | Some ts \<Rightarrow> put_tags ts [])"

definition CreatePodIdentityAssociation :: "Client \<Rightarrow> PodIdentityAssociationInput \<Rightarrow> (history, string) go" where
  "CreatePodIdentityAssociation s i =
     tryE (wrapE (msgf [''CreatePodIdentityAssociation '', pii_Namespace i, ''/'', pii_ServiceAccount i, '' failed''])
             (send (CceReq (CreatePodIdentityReq (pii_ClusterID i) \<lparr> pia_Uid = None,
                  pia_Namespace = Some (pii_Namespace i), pia_ServiceAccount = Some (pii_ServiceAccount i),
                  pia_AgencyName = Some (pii_AgencyName i), pia_Tags = toResourceTags (pii_Tags i) \<rparr>))
                (ans_CreatePodIdentity (cli_cloud s))))
       (\<lambda>uid. case uid of
          None \<Rightarrow> fail (PlainErr ''CreatePodIdentityAssociation returned no association ID'')
        | Some u \<Rightarrow> ok u)"

definition ListPodIdentityAssociations :: "Client \<Rightarrow> string \<Rightarrow> (history, PodIdentityAssociationInfo list) go" where
  "ListPodIdentityAssociations s clusterID =
     tryE (wrapE ''ListPodIdentityAssociations failed''
             (send (CceReq (ListPodIdentityReq clusterID)) (ans_ListPodIdentity (cli_cloud s))))
       (\<lambda>items. ok (case items of None \<Rightarrow> [] | Some as \<Rightarrow> map (\<lambda>a. \<lparr>
          pai_ID = deref (pia_Uid a), pai_Namespace = deref (pia_Namespace a),
          pai_ServiceAccount = deref (pia_ServiceAccount a), pai_AgencyName = deref (pia_AgencyName a),
          pai_Tags = parseResourceTags (pia_Tags a) \<rparr>) as))"

definition DeletePodIdentityAssociation :: "Client \<Rightarrow> string \<Rightarrow> string \<Rightarrow> (history, unit) go" where
  "DeletePodIdentityAssociation s clusterID associationID =
     tolerate_missing (msgf [''DeletePodIdentityAssociation '', associationID, '' failed''])
       (send (CceReq (DeletePodIdentityReq clusterID associationID)) (ack (cli_cloud s)))"

section \<open>Logging\<close>

definition logConfigType :: "string \<Rightarrow> LogTypeEnum" where
  "logConfigType t = (if t = ''audit'' then LOG_AUDIT
     else if t = ''system-addon'' then LOG_SYSTEM_ADDON else LOG_CONTROL)"

definition UpdateClusterLogConfig :: "Client \<Rightarrow> string \<Rightarrow> int32 \<Rightarrow> LogConfigInput list \<Rightarrow> (history, unit) go" where
  "UpdateClusterLogConfig s clusterID ttlInDays logs =
     (if ttlInDays <s 0 \<or> 30 <s ttlInDays
      then fail (PlainErr ''UpdateClusterLogConfig: ttlInDays must be in [0,30]'')
      else wrapE (msgf [''UpdateClusterLogConfig for '', clusterID, '' failed''])
             (send (CceReq (UpdateClusterLogConfigReq clusterID ttlInDays
                (map (\<lambda>l. (lci_Name l, lci_Enable l,
                   logConfigType (if lci_Type l = '''' then ''control'' else lci_Type l))) logs)))
                (ack (cli_cloud s))))"

definition ShowClusterLogConfig :: "Client \<Rightarrow> string \<Rightarrow> (history, LogConfigInfo) go" where
  "ShowClusterLogConfig s clusterID =
     tryE (wrapE (msgf [''ShowClusterConfig for '', clusterID, '' failed''])
             (send (CceReq (ShowClusterConfigReq clusterID)) (ans_ShowClusterConfig (cli_cloud s))))
       (\<lambda>(ttl, logs). ok \<lparr>
          lcf_TTLInDays = (case ttl of Some t \<Rightarrow> t | None \<Rightarrow> 0),
          lcf_Logs = (case logs of None \<Rightarrow> [] | Some ls \<Rightarrow> map (\<lambda>(n, e, t).
             \<lparr> lci_Name = deref n, lci_Type = deref t,
               lci_Enable = (case e of Some b \<Rightarrow> b | None \<Rightarrow> False) \<rparr>) ls) \<rparr>)"

section \<open>Access policies\<close>

definition toAccessPolicyModel :: "AccessPolicyInput \<Rightarrow> AccessPolicy" where
  "toAccessPolicyModel i = \<lparr>
     apo_Name = acp_Name i,
     apo_Clusters = [acp_ClusterID i],
     apo_Namespaces = (if acp_Namespaces i = [] then [''*''] else acp_Namespaces i),
     apo_PolicyType = acp_PolicyType i,
     apo_PrincipalType = (if acp_PrincipalType i = ''group'' then GROUP
        else if acp_PrincipalType i = ''agency'' then AGENCY else USER),
     apo_PrincipalIds = acp_PrincipalIDs i \<rparr>"

definition toAccessPolicyInfo :: "AccessPolicyResp \<Rightarrow> AccessPolicyInfo" where
  "toAccessPolicyInfo p = \<lparr>
     acf_PolicyID = deref (apr_PolicyId p),
     acf_Name = deref (apr_Name p),
     acf_ClusterIDs = (case apr_Clusters p of Some cs \<Rightarrow> cs | None \<Rightarrow> []),
     acf_PolicyType = deref (apr_PolicyType p),
     acf_PrincipalType = (case apr_Principal p of Some (t, _) \<Rightarrow> t | None \<Rightarrow> ''''),
     acf_PrincipalIDs = (case apr_Principal p of Some (_, ids) \<Rightarrow> ids | None \<Rightarrow> []),
     acf_Namespaces = (case apr_AccessScope p of Some ns \<Rightarrow> ns | None \<Rightarrow> []) \<rparr>"

definition CreateAccessPolicy :: "Client \<Rightarrow> AccessPolicyInput \<Rightarrow> (history, string) go" where
  "CreateAccessPolicy s i =
     tryE (wrapE ''CreateAccessPolicy failed''
             (send (CceReq (CreateAccessPolicyReq (toAccessPolicyModel i))) (ans_CreateAccessPolicy (cli_cloud s))))
       (\<lambda>pid. case pid of
          None \<Rightarrow> fail (PlainErr ''CreateAccessPolicy returned no policy id'')
        | Some p \<Rightarrow> ok p)"

definition UpdateAccessPolicy :: "Client \<Rightarrow> string \<Rightarrow> AccessPolicyInput \<Rightarrow> (history, unit) go" where
  "UpdateAccessPolicy s policyID i =
     wrapE ''UpdateAccessPolicy failed''
       (send (CceReq (UpdateAccessPolicyReq policyID (toAccessPolicyModel i))) (ack (cli_cloud s)))"

definition ListAccessPolicies :: "Client \<Rightarrow> (history, AccessPolicyInfo list) go" where
  "ListAccessPolicies s =
     tryE (wrapE ''ListAccessPolicy failed''
             (send (CceReq ListAccessPolicyReq) (ans_ListAccessPolicy (cli_cloud s))))
       (\<lambda>ps. ok (case ps of None \<Rightarrow> [] | Some l \<Rightarrow> map toAccessPolicyInfo l))"

definition DeleteAccessPolicy :: "Client \<Rightarrow> string \<Rightarrow> (history, unit) go" where
  "DeleteAccessPolicy s policyID =
     tolerate_missing ''DeleteAccessPolicy failed''
       (send (CceReq (DeleteAccessPolicyReq policyID)) (ack (cli_cloud s)))"

section \<open>Facts\<close>

interpretation dadd: idempotent_delete "\<lambda>s (c, a). DeleteAddonInstance s c a"
  "\<lambda>(c, a). CceReq (DeleteAddonInstanceReq a)" "\<lambda>(c, a). msgf [''DeleteAddonInstance '', a, '' failed'']"
  by unfold_locales (simp only: split_paired_all case_prod_conv DeleteAddonInstance_def run_tolerate_missing)

interpretation dpia: idempotent_delete "\<lambda>s (c, a). DeletePodIdentityAssociation s c a"
  "\<lambda>(c, a). CceReq (DeletePodIdentityReq c a)"
  "\<lambda>(c, a). msgf [''DeletePodIdentityAssociation '', a, '' failed'']"
  by unfold_locales
    (simp only: split_paired_all case_prod_conv DeletePodIdentityAssociation_def run_tolerate_missing)

interpretation dap: idempotent_delete DeleteAccessPolicy "\<lambda>p. CceReq (DeleteAccessPolicyReq p)"
  "\<lambda>p. ''DeleteAccessPolicy failed''"
  by unfold_locales (simp only: DeleteAccessPolicy_def run_tolerate_missing)

text \<open>Tags written and read back through the SDK representation are the same map.\<close>

lemma parse_toResourceTags:
  assumes "distinct (map fst tags)"
  shows "map_of (parseResourceTags (toResourceTags tags)) = map_of tags"
  using assms map_of_rev_distinct[OF assms]
  by (auto simp: parseResourceTags_def toResourceTags_def put_tags_mk map_add_def fun_eq_iff split: option.splits)

section \<open>Properties\<close>

text \<open>An upgrade is started in the platform's order and with consistent versions. The requests of
  \<open>StartUpgrade\<close> are a prefix of: read the version, create the workflow, pre-check, upgrade; workflow and
  pre-check carry the same full current version and the same target; a task ID is returned only after all
  four.\<close>

theorem StartUpgrade_sequence:
  fixes clusterID target
  defines "calls cur \<equiv> [CceReq (ShowClusterUpgradeInfoReq clusterID),
      CceReq (CreateUpgradeWorkFlowReq clusterID cur target),
      CceReq (CreatePreCheckReq clusterID cur target),
      CceReq (UpgradeClusterReq clusterID target 20)]"
  shows "\<exists>cur k. snd (run_state (StartUpgrade s clusterID target) tr) = tr @ take k (calls cur) \<and>
    (case ans_ShowClusterUpgradeInfo (cli_cloud s) (tr @ take 1 (calls cur)) of
       Inr up \<Rightarrow> cur = full_version up | Inl _ \<Rightarrow> k = 1) \<and>
    (case fst (run_state (StartUpgrade s clusterID target) tr) of Inr _ \<Rightarrow> k = 4 | Inl _ \<Rightarrow> 1 \<le> k)"
proof -
  let ?m = "StartUpgrade s clusterID target"
  let ?r = "ans_ShowClusterUpgradeInfo (cli_cloud s) (tr @ [CceReq (ShowClusterUpgradeInfoReq clusterID)])"
  define cur where "cur = (case ?r of Inr up \<Rightarrow> full_version up | Inl _ \<Rightarrow> '''')"
  have "wp ?m (\<lambda>r tr'. \<exists>k. tr' = tr @ take k (calls cur) \<and>
      (case ?r of Inr up \<Rightarrow> cur = full_version up | Inl _ \<Rightarrow> k = 1) \<and>
      (case r of Inr _ \<Rightarrow> k = 4 | Inl _ \<Rightarrow> 1 \<le> k)) tr"
  proof (cases ?r)
    case (Inl e)
    have "wp ?m (\<lambda>r tr'. tr' = tr @ take 1 (calls cur) \<and> (\<exists>e. r = Inl e)) tr"
      by (simp add: StartUpgrade_def wp_simps Let_def calls_def Inl)
    then show ?thesis
      by (rule wp_mono) (auto simp: Inl intro!: exI[of _ "1 :: nat"])
  next
    case (Inr up)
    have cur: "cur = full_version up" by (simp add: cur_def Inr)
    have tk: "take 1 (calls cur) = [calls cur ! 0]" "take 2 (calls cur) = [calls cur ! 0, calls cur ! 1]"
      "take 3 (calls cur) = [calls cur ! 0, calls cur ! 1, calls cur ! 2]" "take 4 (calls cur) = calls cur"
      by (simp_all add: calls_def)
    have "wp ?m (\<lambda>r tr'. (tr' = tr @ take 2 (calls cur) \<and> (\<exists>e. r = Inl e)) \<or>
        (tr' = tr @ take 3 (calls cur) \<and> (\<exists>e. r = Inl e)) \<or> tr' = tr @ take 4 (calls cur)) tr"
      unfolding tk by (auto simp: StartUpgrade_def wp_simps Let_def calls_def Inr cur split: sum.splits option.splits)
    then show ?thesis
    proof (rule wp_mono)
      fix r tr'
      assume "(tr' = tr @ take 2 (calls cur) \<and> (\<exists>e. r = Inl e)) \<or>
        (tr' = tr @ take 3 (calls cur) \<and> (\<exists>e. r = Inl e)) \<or> tr' = tr @ take 4 (calls cur)"
      then obtain k where "tr' = tr @ take k (calls cur)" "k = 4 \<or> (1 \<le> k \<and> (\<exists>e. r = Inl e))"
        by (elim disjE conjE) auto
      then show "\<exists>k. tr' = tr @ take k (calls cur) \<and>
          (case ?r of Inr up \<Rightarrow> cur = full_version up | Inl _ \<Rightarrow> k = 1) \<and>
          (case r of Inr _ \<Rightarrow> k = 4 | Inl _ \<Rightarrow> 1 \<le> k)"
        by (intro exI[of _ k]) (auto simp: Inr cur split: sum.splits)
    qed
  qed
  moreover have one: "take 1 (calls c) = [CceReq (ShowClusterUpgradeInfoReq clusterID)]" for c
    by (simp add: calls_def)
  ultimately obtain k where
    "snd (run_state ?m tr) = tr @ take k (calls cur)"
    "case ?r of Inr up \<Rightarrow> cur = full_version up | Inl _ \<Rightarrow> k = 1"
    "case fst (run_state ?m tr) of Inr _ \<Rightarrow> k = 4 | Inl _ \<Rightarrow> 1 \<le> k"
    unfolding wp_run by blast
  then show ?thesis unfolding one by (intro exI[of _ cur] exI[of _ k] conjI)
qed

end
