(* ===== verification/CceService.thy ===== *)
theory CceService
  imports Kubeconfig CceResources CceNodePool CceMisc
begin

text \<open>
  The SDK-backed implementation of the \<open>Service\<close> interface: the operations of
  \<open>internal/services/cce/cce.go\<close> as one record. \<open>fuel\<close> bounds the pages of a listing.
\<close>

definition client_service :: "nat \<Rightarrow> codec \<Rightarrow> Client \<Rightarrow> history service" where
  "client_service fuel cd s = \<lparr>
     svc_ListClusters = ListClusters s,
     svc_DeleteCluster = DeleteCluster s,
     svc_ListEips = ListEips fuel s,
     svc_DeleteEip = DeleteEip s,
     svc_ListVolumes = ListVolumes fuel s,
     svc_DeleteVolume = DeleteVolume s,
     svc_ListVpcs = ListVpcs fuel s,
     svc_DeleteVpc = DeleteVpc s,
     svc_ListNatGateways = ListNatGateways fuel s,
     svc_DeleteNatGateway = DeleteNatGateway s,
     svc_ShowCluster = ShowCluster s,
     svc_ReconcileClusterTags = ReconcileClusterTags s,
     svc_CreateCluster = CreateCluster s,
     svc_GetClusterKubeconfig = GetClusterKubeconfig cd s,
     svc_BindClusterEip = BindClusterEip s,
     svc_UnbindClusterEip = UnbindClusterEip s,
     svc_GetUpgradeInfo = GetUpgradeInfo s,
     svc_StartUpgrade = StartUpgrade s,
     svc_ShowUpgradeTask = ShowUpgradeTask s,
     svc_CreateAddonInstance = CreateAddonInstance s,
     svc_UpdateAddonInstance = UpdateAddonInstance s,
     svc_ListAddonInstances = ListAddonInstances s,
     svc_DeleteAddonInstance = DeleteAddonInstance s,
     svc_CreatePodIdentityAssociation = CreatePodIdentityAssociation s,
     svc_ListPodIdentityAssociations = ListPodIdentityAssociations s,
     svc_DeletePodIdentityAssociation = DeletePodIdentityAssociation s,
     svc_UpdateClusterLogConfig = UpdateClusterLogConfig s,
     svc_ShowClusterLogConfig = ShowClusterLogConfig s,
     svc_CreateAccessPolicy = CreateAccessPolicy s,
     svc_UpdateAccessPolicy = UpdateAccessPolicy s,
     svc_ListAccessPolicies = ListAccessPolicies s,
     svc_DeleteAccessPolicy = DeleteAccessPolicy s,
     svc_CreateNodePool = CreateNodePool s,
     svc_ScaleNodePool = ScaleNodePool s,
     svc_UpdateNodePool = UpdateNodePool s,
     svc_DeleteNodePool = DeleteNodePool s,
     svc_ListNodePools = ListNodePools s,
     svc_ReconcileNodePoolTags = ReconcileNodePoolTags s,
     svc_ListNodes = ListNodes fuel s,
     svc_ListNodesWithStatus = ListNodesWithStatus fuel s,
     svc_ResetNode = ResetNode s,
     svc_UpgradeNodePool = UpgradeNodePool s \<rparr>"

lemma client_service_gc [simp]:
  "svc_ListClusters (client_service fuel cd s) = ListClusters s"
  "svc_DeleteCluster (client_service fuel cd s) = DeleteCluster s"
  "svc_ListEips (client_service fuel cd s) = ListEips fuel s"
  "svc_DeleteEip (client_service fuel cd s) = DeleteEip s"
  "svc_ListVolumes (client_service fuel cd s) = ListVolumes fuel s"
  "svc_DeleteVolume (client_service fuel cd s) = DeleteVolume s"
  "svc_ListVpcs (client_service fuel cd s) = ListVpcs fuel s"
  "svc_DeleteVpc (client_service fuel cd s) = DeleteVpc s"
  "svc_ListNatGateways (client_service fuel cd s) = ListNatGateways fuel s"
  "svc_DeleteNatGateway (client_service fuel cd s) = DeleteNatGateway s"
  by (simp_all add: client_service_def)

end
