(* ===== verification/GarbageCollector.thy ===== *)
theory GarbageCollector
  imports CceService
begin

text \<open>
  \<open>controllers/gc.go\<close>: the periodic sweep for resources whose Cluster object is gone. The sweep runs
  against any \<open>Service\<close> over any world. What it reads from outside the service are parameters of one
  sweep: whether the controller credentials resolve, whether the service can be built for the configured region
  (\<open>ServiceFactory\<close>), and the Cluster objects the Kubernetes client lists. The ticker loop of \<open>Start\<close> only
  repeats the sweep; log lines are not modelled.
\<close>

section \<open>Definitions\<close>

text \<open>A CAPI Cluster, as the sweep reads it.\<close>

record ClusterCR =
  ccr_Name :: string
  ccr_Namespace :: string
  ccr_Annotations :: "(string, string) gomap"

record 'w GarbageCollector =
  gc_Region :: string
  gc_ResourceTypes :: "string list"
  gc_ServiceFactory :: "string \<Rightarrow> go_error + 'w service"

definition skipGCAnnotationKey :: string where
  "skipGCAnnotationKey = ''capi-cce/skip-gc''"

definition skipGCAnnotation :: "ClusterCR \<Rightarrow> bool" where
  "skipGCAnnotation c = (case map_of (ccr_Annotations c) skipGCAnnotationKey of
      None \<Rightarrow> False
    | Some v \<Rightarrow> to_lower (trim_space v) \<in> {''true'', ''yes'', ''1'', ''on''})"

definition serviceForRegion :: "'w GarbageCollector \<Rightarrow> go_error + 'w service" where
  "serviceForRegion g =
     (if gc_Region g = ''''
      then Inl (PlainErr ''garbage collector: no GC region configured (set --gc-region)'')
      else gc_ServiceFactory g (gc_Region g))"

text \<open>The index of the Cluster objects by name; a later object of the same name replaces an earlier one.\<close>

fun wanted_index :: "ClusterCR list \<Rightarrow> (string, ClusterCR) gomap \<Rightarrow> (string, ClusterCR) gomap" where
  "wanted_index [] m = m"
| "wanted_index (c # cs) m = wanted_index cs (AList.update (ccr_Name c) c m)"

text \<open>A resource the sweep acts on: owned by a cluster that has no Cluster object.\<close>

definition orphan :: "(string, ClusterCR) gomap \<Rightarrow> (string, string) gomap \<Rightarrow> bool" where
  "orphan wanted tags \<longleftrightarrow> (let name = OwnedClusterName tags in
     name \<noteq> '''' \<and> map_of wanted name = None)"

definition gc_delete_input :: "string \<Rightarrow> DeleteClusterInput" where
  "gc_delete_input clusterID = \<lparr> dci_ClusterID = clusterID, dci_DeleteEVS = True, dci_DeleteENI = True,
     dci_DeleteELB = True, dci_OnDemandNodePolicy = ''delete'', dci_PeriodicNodePolicy = ''reset'' \<rparr>"

text \<open>The body of the cluster loop. Both continues of a tracked cluster (opted out or not) skip it.\<close>

definition sweep_cluster :: "('w, 'z) gc_service_scheme \<Rightarrow> (string, ClusterCR) gomap \<Rightarrow> ClusterRef \<Rightarrow>
    ('w, unit) state" where
  "sweep_cluster svc wanted c = (let name = OwnedClusterName (clr_Tags c) in
     if name = '''' then State_Monad.return ()
     else case map_of wanted name of
       Some w \<Rightarrow> if skipGCAnnotation w then State_Monad.return () else State_Monad.return ()
     | None \<Rightarrow> ignoreE (svc_DeleteCluster svc (gc_delete_input (clr_ClusterID c))))"

text \<open>The four phase-2 sweeps share their shape: enabled by a resource type, list, delete the orphans.\<close>

definition sweep_type :: "string list \<Rightarrow> string \<Rightarrow> ('w, 'r list) go \<Rightarrow> ('r \<Rightarrow> (string, string) gomap) \<Rightarrow>
    ('r \<Rightarrow> string) \<Rightarrow> (string \<Rightarrow> ('w, unit) go) \<Rightarrow> (string, ClusterCR) gomap \<Rightarrow> ('w, unit) state" where
  "sweep_type types ty list_all_of tags_of id_of delete_one wanted =
     (if ty \<notin> set types then State_Monad.return ()
      else do {
        r \<leftarrow> list_all_of;
        case r of
          Inl _ \<Rightarrow> State_Monad.return ()
        | Inr xs \<Rightarrow> for_each (\<lambda>x. let name = OwnedClusterName (tags_of x) in
            if name = '''' then State_Monad.return ()
            else case map_of wanted name of
              Some _ \<Rightarrow> State_Monad.return ()
            | None \<Rightarrow> ignoreE (delete_one (id_of x))) xs })"

definition sweepEips where
  "sweepEips types svc = sweep_type types ''eip'' (svc_ListEips svc) er_Tags er_ID (svc_DeleteEip svc)"

definition sweepVolumes where
  "sweepVolumes types svc =
     sweep_type types ''evs'' (svc_ListVolumes svc) rr_Tags rr_ID (svc_DeleteVolume svc)"

definition sweepVpcs where
  "sweepVpcs types svc = sweep_type types ''vpc'' (svc_ListVpcs svc) rr_Tags rr_ID (svc_DeleteVpc svc)"

definition sweepNatGateways where
  "sweepNatGateways types svc =
     sweep_type types ''nat'' (svc_ListNatGateways svc) rr_Tags rr_ID (svc_DeleteNatGateway svc)"

definition sweep_account :: "string list \<Rightarrow> ('w, 'z) gc_service_scheme \<Rightarrow> ('w, ClusterCR list) go \<Rightarrow>
    ('w, unit) state" where
  "sweep_account types svc list_crs = do {
     cl \<leftarrow> svc_ListClusters svc;
     case cl of
       Inl _ \<Rightarrow> State_Monad.return ()
     | Inr clusters \<Rightarrow> do {
         crs \<leftarrow> list_crs;
         case crs of
           Inl _ \<Rightarrow> State_Monad.return ()
         | Inr items \<Rightarrow> (let wanted = wanted_index items [] in do {
             _ \<leftarrow> for_each (sweep_cluster svc wanted) clusters;
             _ \<leftarrow> sweepEips types svc wanted;
             _ \<leftarrow> sweepVolumes types svc wanted;
             _ \<leftarrow> sweepVpcs types svc wanted;
             sweepNatGateways types svc wanted }) } }"

text \<open>\<open>creds_ok\<close>: whether \<open>ResolveCredentials\<close> found the controller credentials.\<close>

definition sweep :: "'w GarbageCollector \<Rightarrow> bool \<Rightarrow> ('w, ClusterCR list) go \<Rightarrow> ('w, unit) state" where
  "sweep g creds_ok list_crs =
     (if \<not> creds_ok then State_Monad.return ()
      else case serviceForRegion g of
        Inl _ \<Rightarrow> State_Monad.return ()
      | Inr svc \<Rightarrow> sweep_account (gc_ResourceTypes g) svc list_crs)"

text \<open>\<open>Start\<close>: a sweep at once and one per tick until the context ends; each sweep resolves the credentials anew
  (\<open>creds_ok\<close> for the first one, \<open>ticks\<close> for the others).\<close>

definition Start :: "'w GarbageCollector \<Rightarrow> ('w, ClusterCR list) go \<Rightarrow> bool \<Rightarrow> bool list \<Rightarrow> ('w, unit) state" where
  "Start g list_crs creds_ok ticks = do {
     _ \<leftarrow> sweep g creds_ok list_crs;
     for_each (\<lambda>b. sweep g b list_crs) ticks }"

section \<open>The index of tracked clusters\<close>

lemma wanted_index_iff:
  "map_of (wanted_index cs m) n = None \<longleftrightarrow> map_of m n = None \<and> (\<forall>c \<in> set cs. ccr_Name c \<noteq> n)"
  by (induction cs arbitrary: m) (auto simp: update_conv')

lemma sweep_cluster_orphan:
  "sweep_cluster svc wanted c =
     (if orphan wanted (clr_Tags c)
      then ignoreE (svc_DeleteCluster svc (gc_delete_input (clr_ClusterID c)))
      else State_Monad.return ())"
  by (auto simp: sweep_cluster_def orphan_def Let_def split: option.splits)

lemma sweep_type_orphan:
  "sweep_type types ty l tags_of id_of d wanted =
     (if ty \<notin> set types then State_Monad.return ()
      else do { r \<leftarrow> l; case r of Inl _ \<Rightarrow> State_Monad.return ()
        | Inr xs \<Rightarrow> for_each (\<lambda>x. if orphan wanted (tags_of x) then ignoreE (d (id_of x))
                                   else State_Monad.return ()) xs })"
proof -
  have "(\<lambda>x. let name = OwnedClusterName (tags_of x) in
            if name = '''' then State_Monad.return ()
            else case map_of wanted name of
              Some _ \<Rightarrow> State_Monad.return ()
            | None \<Rightarrow> ignoreE (d (id_of x))) =
        (\<lambda>x. if orphan wanted (tags_of x) then ignoreE (d (id_of x)) else State_Monad.return ())"
    by (rule ext) (auto simp: orphan_def Let_def split: option.splits)
  then show ?thesis unfolding sweep_type_def by simp
qed

section \<open>Every orphan cluster is deleted\<close>

text \<open>One failing deletion does not block the others. The cluster phase of a sweep over the
  SDK-backed service sends exactly one delete per orphaned cluster of the listing, in listing order,
  whatever the platform answers, and nothing else.\<close>

theorem sweep_clusters_complete:
  "snd (run_state (for_each (sweep_cluster (client_service fuel cd s) wanted) clusters) tr) =
     tr @ map (\<lambda>c. CceReq (DeleteClusterReq (delete_cluster_request (gc_delete_input (clr_ClusterID c)))))
            (filter (\<lambda>c. orphan wanted (clr_Tags c)) clusters)"
proof -
  have "wp (for_each (sweep_cluster (client_service fuel cd s) wanted) clusters) (\<lambda>_ tr'. tr' = tr @
      map (\<lambda>c. CceReq (DeleteClusterReq (delete_cluster_request (gc_delete_input (clr_ClusterID c)))))
            (filter (\<lambda>c. orphan wanted (clr_Tags c)) clusters)) tr"
  proof (induction clusters arbitrary: tr)
    case (Cons a clusters)
    show ?case
      using Cons.IH[of tr] Cons.IH[of "tr @ [CceReq (DeleteClusterReq
          (delete_cluster_request (gc_delete_input (clr_ClusterID a))))]"]
      by (simp add: wp_simps sweep_cluster_orphan dc.wp_del)
  qed (simp add: wp_simps)
  then show ?thesis by (simp add: wp_run)
qed

section \<open>Nothing but orphans is deleted\<close>

text \<open>What the requests of a sweep are about: \<open>target_tags c w q ts\<close> says that \<open>q\<close> deletes a resource
  (or a SNAT rule of a gateway) that the cloud \<open>c\<close> reported, within the history \<open>w\<close>, with the tags \<open>ts\<close>.\<close>

definition target_tags :: "cloud \<Rightarrow> history \<Rightarrow> request \<Rightarrow> (string, string) gomap \<Rightarrow> bool" where
  "target_tags c w q ts = (case q of
      CceReq (DeleteClusterReq d) \<Rightarrow> (\<exists>items cl. answered w (CceReq ListClustersReq) (ans_ListClusters c) (Inr (Some items)) \<and>
          cl \<in> set items \<and> dcr_ClusterId d = clr_ClusterID (cluster_ref cl) \<and> ts = clr_Tags (cluster_ref cl))
    | EipReq (DeletePublicipReq e) \<Rightarrow> (\<exists>m ps p. answered w (EipReq (ListPublicipsReq m 1000)) (ans_ListPublicips c) (Inr (Some ps)) \<and>
          p \<in> set ps \<and> e = er_ID (eip_ref p) \<and> ts = er_Tags (eip_ref p))
    | EvsReq (DeleteVolumeReq v) \<Rightarrow> (\<exists>m vs d. answered w (EvsReq (ListVolumesReq m 1000)) (ans_ListVolumes c) (Inr (Some vs)) \<and>
          d \<in> set vs \<and> v = vd_Id d \<and> ts = vd_Tags d)
    | VpcReq (DeleteVpcReq v) \<Rightarrow> (\<exists>r. answered w (VpcReq (ShowVpcTagsReq v)) (ans_ShowVpcTags c) r \<and> ts = tags_or_empty r)
    | NatReq (DeleteNatGatewayReq g) \<Rightarrow> (\<exists>r. answered w (NatReq (ShowNatGatewayTagReq g)) (ans_ShowNatGatewayTag c) r \<and> ts = tags_or_empty r)
    | NatReq (DeleteSnatRuleReq g _) \<Rightarrow> (\<exists>r. answered w (NatReq (ShowNatGatewayTagReq g)) (ans_ShowNatGatewayTag c) r \<and> ts = tags_or_empty r)
    | _ \<Rightarrow> False)"

text \<open>The read requests of the listings.\<close>

definition gc_read :: "request \<Rightarrow> bool" where
  "gc_read q = (case q of
      CceReq ListClustersReq \<Rightarrow> True
    | EipReq (ListPublicipsReq _ _) \<Rightarrow> True
    | EvsReq (ListVolumesReq _ _) \<Rightarrow> True
    | VpcReq (ListVpcsReq _ _ _) \<Rightarrow> True
    | VpcReq (ShowVpcTagsReq _) \<Rightarrow> True
    | NatReq (ListNatGatewaysReq _ _ _) \<Rightarrow> True
    | NatReq (ShowNatGatewayTagReq _) \<Rightarrow> True
    | NatReq (ListSnatRulesReq _) \<Rightarrow> True
    | _ \<Rightarrow> False)"

text \<open>A request of a sweep is fine when it reads, or deletes something whose reported owner has no
  Cluster object.\<close>

definition gc_fine :: "cloud \<Rightarrow> (string, ClusterCR) gomap \<Rightarrow> history \<Rightarrow> request \<Rightarrow> bool" where
  "gc_fine c wanted w q \<longleftrightarrow> gc_read q \<or> (\<exists>ts. target_tags c w q ts \<and> orphan wanted ts)"

lemma target_tags_mono: "target_tags c w q ts \<Longrightarrow> target_tags c (w @ z) q ts"
  unfolding target_tags_def
  by (auto split: request.splits cce_request.splits eip_request.splits evs_request.splits vpc_request.splits
      nat_request.splits) (blast intro: answered_mono)+

lemma gc_fine_mono: "gc_fine c wanted w q \<Longrightarrow> gc_fine c wanted (w @ z) q"
  unfolding gc_fine_def using target_tags_mono by blast

text \<open>The invariant of a sweep from the point \<open>ws\<close> of its history on.\<close>

definition gc_inv :: "cloud \<Rightarrow> (string, ClusterCR) gomap \<Rightarrow> history \<Rightarrow> history \<Rightarrow> bool" where
  "gc_inv c wanted ws w \<longleftrightarrow> (\<exists>z. w = ws @ z) \<and> list_all (gc_fine c wanted w) w"

lemma gc_inv_sends:
  assumes "sends P m" and "\<And>q z. P q \<Longrightarrow> gc_fine c wanted (ws @ z) q"
  shows "keeps (gc_inv c wanted ws) m"
proof (unfold keeps_def wp_run, intro allI impI)
  fix w assume inv: "gc_inv c wanted ws w"
  obtain new where new: "snd (run_state m w) = w @ new" "list_all P new"
    using sendsD[OF assms(1), of w] by (auto simp: extends_def)
  obtain z where "w = ws @ z" using inv by (auto simp: gc_inv_def)
  then have "list_all (gc_fine c wanted (w @ new)) (w @ new)"
    using inv new(2) assms(2)[of _ "z @ new"] gc_fine_mono[of c wanted w _ new]
    by (auto simp: gc_inv_def list_all_iff)
  then show "gc_inv c wanted ws (snd (run_state m w))"
    using inv new(1) by (auto simp: gc_inv_def)
qed

lemma gc_inv_send:
  assumes "\<And>z. gc_fine c wanted (ws @ z) q"
  shows "keeps (gc_inv c wanted ws) (send q ans)"
  using assms by (intro gc_inv_sends[of "\<lambda>q'. q' = q"] sends_send) auto

lemma gc_inv_snoc:
  assumes "gc_inv c wanted ws w" "gc_fine c wanted (w @ [q]) q"
  shows "gc_inv c wanted ws (w @ [q])"
proof -
  have "list_all (gc_fine c wanted (w @ [q])) w"
    using assms(1) gc_fine_mono by (auto simp: gc_inv_def list_all_iff)
  then show ?thesis using assms by (auto simp: gc_inv_def)
qed

lemma gc_inv_start: "gc_inv c wanted ws w \<Longrightarrow> gc_inv c wanted w w"
  by (simp add: gc_inv_def)

lemma gc_inv_back: "gc_inv c wanted w w' \<Longrightarrow> gc_inv c wanted ws w \<Longrightarrow> gc_inv c wanted ws w'"
  by (auto simp: gc_inv_def)

subsection \<open>The listings report what the cloud answered\<close>

lemma wp_paginate:
  assumes step: "\<And>m w. K w \<Longrightarrow> wp (fetch m) (\<lambda>r w'. K w' \<and> (\<exists>z. w' = w @ z) \<and>
        (case r of Inr (items, _) \<Rightarrow> list_all (R w') items | Inl _ \<Rightarrow> True)) w"
    and mono: "\<And>x w z. R w x \<Longrightarrow> R (w @ z) x"
  shows "K w \<Longrightarrow> list_all (R w) acc \<Longrightarrow> wp (paginateAll fuel n fetch m acc)
      (\<lambda>r w'. K w' \<and> (case r of Inr xs \<Rightarrow> list_all (R w') xs | Inl _ \<Rightarrow> True)) w"
proof (induction fuel arbitrary: m acc w)
  case (Suc fuel)
  define Q where "Q r w' \<longleftrightarrow> K w' \<and> (case r of Inr xs \<Rightarrow> list_all (R w') xs | Inl _ \<Rightarrow> True)"
    for r :: "go_error + 'b list" and w'
  have IH: "K w' \<Longrightarrow> list_all (R w') acc' \<Longrightarrow> wp (paginateAll fuel n fetch m' acc') Q w'" for m' acc' w'
    using Suc.IH[of w' acc' m'] unfolding Q_def[abs_def] by simp
  have "wp (fetch m) (\<lambda>r w'. K w' \<and> list_all (R w') acc \<and>
      (case r of Inr (items, _) \<Rightarrow> list_all (R w') items | Inl _ \<Rightarrow> True)) w"
    using step[OF Suc.prems(1), of m] Suc.prems(2)
    by (elim wp_mono) (auto simp: list_all_iff intro: mono split: sum.splits)
  then have "wp (paginateAll (Suc fuel) n fetch m acc) Q w"
    unfolding paginateAll.simps wp_tryE
    by (elim wp_mono) (auto simp: Let_def wp_simps Q_def[of "Inl _"] Q_def[of "Inr _"] intro!: IH split: sum.splits)
  then show ?case by (simp add: Q_def[abs_def])
qed (simp add: wp_simps)

definition eip_reported :: "cloud \<Rightarrow> history \<Rightarrow> EipRef \<Rightarrow> bool" where
  "eip_reported c w x \<longleftrightarrow> (\<exists>m ps p. answered w (EipReq (ListPublicipsReq m 1000)) (ans_ListPublicips c)
      (Inr (Some ps)) \<and> p \<in> set ps \<and> x = eip_ref p)"

definition volume_reported :: "cloud \<Rightarrow> history \<Rightarrow> ResourceRef \<Rightarrow> bool" where
  "volume_reported c w x \<longleftrightarrow> (\<exists>m vs d. answered w (EvsReq (ListVolumesReq m 1000)) (ans_ListVolumes c)
      (Inr (Some vs)) \<and> d \<in> set vs \<and> rr_ID x = vd_Id d \<and> rr_Tags x = vd_Tags d)"

definition vpc_reported :: "cloud \<Rightarrow> history \<Rightarrow> ResourceRef \<Rightarrow> bool" where
  "vpc_reported c w x \<longleftrightarrow> (\<exists>r. answered w (VpcReq (ShowVpcTagsReq (rr_ID x))) (ans_ShowVpcTags c) r \<and>
      rr_Tags x = tags_or_empty r)"

definition nat_reported :: "cloud \<Rightarrow> history \<Rightarrow> ResourceRef \<Rightarrow> bool" where
  "nat_reported c w x \<longleftrightarrow> (\<exists>r. answered w (NatReq (ShowNatGatewayTagReq (rr_ID x))) (ans_ShowNatGatewayTag c) r \<and>
      rr_Tags x = tags_or_empty r)"

lemmas reported_defs = eip_reported_def volume_reported_def vpc_reported_def nat_reported_def

lemma reported_mono:
  "eip_reported c w e \<Longrightarrow> eip_reported c (w @ z) e"
  "volume_reported c w x \<Longrightarrow> volume_reported c (w @ z) x"
  "vpc_reported c w x \<Longrightarrow> vpc_reported c (w @ z) x"
  "nat_reported c w x \<Longrightarrow> nat_reported c (w @ z) x"
  unfolding reported_defs by (blast intro: answered_mono)+

lemma gc_fine_read: "gc_read q \<Longrightarrow> gc_fine c wanted w q"
  by (simp add: gc_fine_def)

lemma wp_fetch_eips:
  assumes "gc_inv (cli_cloud s) wanted ws w"
  shows "wp (fetch_eips s m) (\<lambda>r w'. gc_inv (cli_cloud s) wanted ws w' \<and> (\<exists>z. w' = w @ z) \<and>
      (case r of Inr (items, _) \<Rightarrow> list_all (eip_reported (cli_cloud s) w') items | Inl _ \<Rightarrow> True)) w"
  using gc_inv_snoc[OF assms gc_fine_read, of "EipReq (ListPublicipsReq m 1000)"]
    answered_now[of w "EipReq (ListPublicipsReq m 1000)" "ans_ListPublicips (cli_cloud s)"]
  by (auto simp: fetch_eips_def wp_simps gc_read_def eip_reported_def list_all_iff split: sum.splits option.splits)
     metis+

lemma wp_fetch_volumes:
  assumes "gc_inv (cli_cloud s) wanted ws w"
  shows "wp (fetch_volumes s m) (\<lambda>r w'. gc_inv (cli_cloud s) wanted ws w' \<and> (\<exists>z. w' = w @ z) \<and>
      (case r of Inr (items, _) \<Rightarrow> list_all (volume_reported (cli_cloud s) w') items | Inl _ \<Rightarrow> True)) w"
  using gc_inv_snoc[OF assms gc_fine_read, of "EvsReq (ListVolumesReq m 1000)"]
    answered_now[of w "EvsReq (ListVolumesReq m 1000)" "ans_ListVolumes (cli_cloud s)"]
  by (auto simp: fetch_volumes_def wp_simps gc_read_def volume_reported_def list_all_iff
      split: sum.splits option.splits) metis+

lemma wp_vpc_refs:
  "gc_inv (cli_cloud s) wanted ws w \<Longrightarrow> wp (vpc_refs s vs) (\<lambda>xs w'. gc_inv (cli_cloud s) wanted ws w' \<and>
      (\<exists>z. w' = w @ z) \<and> list_all (vpc_reported (cli_cloud s) w') xs) w"
proof (induction vs arbitrary: w)
  case (Cons v vs)
  let ?q = "VpcReq (ShowVpcTagsReq (sv_Id v))" and ?c = "cli_cloud s"
  have inv: "gc_inv ?c wanted ws (w @ [?q])"
    using Cons.prems by (intro gc_inv_snoc gc_fine_read) (auto simp: gc_read_def)
  have rep: "vpc_reported ?c ((w @ [?q]) @ z) \<lparr> rr_ID = sv_Id v, rr_Name = sv_Name v,
      rr_Tags = tags_or_empty (ans_ShowVpcTags ?c (w @ [?q])) \<rparr>" for z
    by (rule reported_mono) (auto simp: vpc_reported_def intro: answered_now)
  show ?case
    using Cons.IH[OF inv]
    by (simp add: wp_simps, elim wp_mono) (use rep in \<open>auto simp: wp_simps\<close>)
qed (simp add: wp_simps)

lemma wp_nat_refs:
  "gc_inv (cli_cloud s) wanted ws w \<Longrightarrow> wp (nat_refs s gs l) (\<lambda>(xs, _) w'. gc_inv (cli_cloud s) wanted ws w' \<and>
      (\<exists>z. w' = w @ z) \<and> list_all (nat_reported (cli_cloud s) w') xs) w"
proof (induction gs arbitrary: w l)
  case (Cons g gs)
  show ?case
  proof (cases "ng_Id g")
    case None
    then show ?thesis using Cons.IH[OF Cons.prems] by simp
  next
    case (Some gid)
    let ?q = "NatReq (ShowNatGatewayTagReq gid)" and ?c = "cli_cloud s"
    have inv: "gc_inv ?c wanted ws (w @ [?q])"
      using Cons.prems by (intro gc_inv_snoc gc_fine_read) (auto simp: gc_read_def)
    have rep: "nat_reported ?c ((w @ [?q]) @ z) \<lparr> rr_ID = gid, rr_Name = deref (ng_Name g),
        rr_Tags = tags_or_empty (ans_ShowNatGatewayTag ?c (w @ [?q])) \<rparr>" for z
      by (rule reported_mono) (auto simp: nat_reported_def intro: answered_now)
    show ?thesis
      using Cons.IH[OF inv, of "Some gid"]
      by (simp add: wp_simps Some, elim wp_mono) (use rep in \<open>auto simp: wp_simps\<close>)
  qed
qed (simp add: wp_simps)

lemma wp_fetch_vpcs:
  assumes "gc_inv (cli_cloud s) wanted ws w"
  shows "wp (fetch_vpcs s m) (\<lambda>r w'. gc_inv (cli_cloud s) wanted ws w' \<and> (\<exists>z. w' = w @ z) \<and>
      (case r of Inr (items, _) \<Rightarrow> list_all (vpc_reported (cli_cloud s) w') items | Inl _ \<Rightarrow> True)) w"
proof -
  have inv: "gc_inv (cli_cloud s) wanted ws (w @ [VpcReq (ListVpcsReq None m (Some 1000))])"
    using assms by (intro gc_inv_snoc gc_fine_read) (auto simp: gc_read_def)
  show ?thesis
    by (auto simp: fetch_vpcs_def wp_simps inv split: sum.splits option.splits
        intro!: wp_mono[OF wp_vpc_refs[OF inv]])
qed

lemma wp_fetch_nats:
  assumes "gc_inv (cli_cloud s) wanted ws w"
  shows "wp (fetch_nats s m) (\<lambda>r w'. gc_inv (cli_cloud s) wanted ws w' \<and> (\<exists>z. w' = w @ z) \<and>
      (case r of Inr (items, _) \<Rightarrow> list_all (nat_reported (cli_cloud s) w') items | Inl _ \<Rightarrow> True)) w"
proof -
  have inv: "gc_inv (cli_cloud s) wanted ws (w @ [NatReq (ListNatGatewaysReq None m (Some 2000))])"
    using assms by (intro gc_inv_snoc gc_fine_read) (auto simp: gc_read_def)
  show ?thesis
    by (auto simp: fetch_nats_def wp_simps inv split: sum.splits option.splits
        intro!: wp_mono[OF wp_nat_refs[OF inv]])
qed

subsection \<open>The sweeps\<close>

lemma sweep_type_inv:
  assumes list: "\<And>w. gc_inv c wanted ws w \<Longrightarrow> wp l (\<lambda>r w'. gc_inv c wanted ws w' \<and>
        (case r of Inr xs \<Rightarrow> list_all (R w') xs | Inl _ \<Rightarrow> True)) w"
    and del: "\<And>x w. R w x \<Longrightarrow> orphan wanted (tags_of x) \<Longrightarrow>
        keeps (gc_inv c wanted w) (ignoreE (d (id_of x)))"
  shows "keeps (gc_inv c wanted ws) (sweep_type types ty l tags_of id_of d wanted)"
proof -
  let ?f = "\<lambda>x. if orphan wanted (tags_of x) then ignoreE (d (id_of x)) else State_Monad.return ()"
  have "wp (for_each ?f xs) (\<lambda>_. gc_inv c wanted ws) w'"
    if "gc_inv c wanted ws w'" "list_all (R w') xs" for xs w'
  proof -
    have "keeps (gc_inv c wanted w') (for_each ?f xs)"
      using that(2) by (intro keeps_for_each keeps_if del keeps_return) (auto simp: list_all_iff)
    then show ?thesis
      using gc_inv_start[OF that(1)] gc_inv_back[OF _ that(1)] by (auto simp: keeps_def elim!: wp_mono)
  qed
  then show ?thesis
    unfolding sweep_type_orphan keeps_def
    by (auto simp: wp_simps split: sum.splits elim!: wp_mono[OF list])
qed

lemma keeps_targeted:
  assumes "sends P m" and "\<And>q. P q \<Longrightarrow> gc_read q \<or> (\<exists>ts. target_tags c w q ts \<and> orphan wanted ts)"
  shows "keeps (gc_inv c wanted w) (ignoreE m)"
  using assms(2) target_tags_mono
  by (intro keeps_ignoreE gc_inv_sends[OF assms(1)]) (auto simp: gc_fine_def, blast)

lemma sends_DeleteNatGateway:
  "sends (\<lambda>q. q = NatReq (ListSnatRulesReq g) \<or> (\<exists>r. q = NatReq (DeleteSnatRuleReq g r)) \<or>
      q = NatReq (DeleteNatGatewayReq g)) (DeleteNatGateway s g)"
  unfolding DeleteNatGateway_def gc_delete_rules_def gc_delete_gateway_def
  by (intro sends_intros) auto

lemma sweepEips_inv:
  "keeps (gc_inv (cli_cloud s) wanted ws) (sweepEips types (client_service fuel cd s) wanted)"
  unfolding sweepEips_def client_service_gc
proof (rule sweep_type_inv[where R = "eip_reported (cli_cloud s)"])
  show "wp (ListEips fuel s) (\<lambda>r w'. gc_inv (cli_cloud s) wanted ws w' \<and>
      (case r of Inr xs \<Rightarrow> list_all (eip_reported (cli_cloud s) w') xs | Inl _ \<Rightarrow> True)) w"
    if "gc_inv (cli_cloud s) wanted ws w" for w
    unfolding ListEips_def using that by (intro wp_paginate wp_fetch_eips reported_mono) auto
  show "keeps (gc_inv (cli_cloud s) wanted w) (ignoreE (DeleteEip s (er_ID x)))"
    if "eip_reported (cli_cloud s) w x" "orphan wanted (er_Tags x)" for x w
    using that by (intro keeps_targeted[OF de.sends_del[of "\<lambda>q. q = EipReq (DeletePublicipReq (er_ID x))"]])
      (auto simp: target_tags_def eip_reported_def)
qed

lemma sweepVolumes_inv:
  "keeps (gc_inv (cli_cloud s) wanted ws) (sweepVolumes types (client_service fuel cd s) wanted)"
  unfolding sweepVolumes_def client_service_gc
proof (rule sweep_type_inv[where R = "volume_reported (cli_cloud s)"])
  show "wp (ListVolumes fuel s) (\<lambda>r w'. gc_inv (cli_cloud s) wanted ws w' \<and>
      (case r of Inr xs \<Rightarrow> list_all (volume_reported (cli_cloud s) w') xs | Inl _ \<Rightarrow> True)) w"
    if "gc_inv (cli_cloud s) wanted ws w" for w
    unfolding ListVolumes_def using that by (intro wp_paginate wp_fetch_volumes reported_mono) auto
  show "keeps (gc_inv (cli_cloud s) wanted w) (ignoreE (DeleteVolume s (rr_ID x)))"
    if "volume_reported (cli_cloud s) w x" "orphan wanted (rr_Tags x)" for x w
    using that by (intro keeps_targeted[OF dv.sends_del[of "\<lambda>q. q = EvsReq (DeleteVolumeReq (rr_ID x))"]])
      (auto simp: target_tags_def volume_reported_def)
qed

lemma sweepVpcs_inv:
  "keeps (gc_inv (cli_cloud s) wanted ws) (sweepVpcs types (client_service fuel cd s) wanted)"
  unfolding sweepVpcs_def client_service_gc
proof (rule sweep_type_inv[where R = "vpc_reported (cli_cloud s)"])
  show "wp (ListVpcs fuel s) (\<lambda>r w'. gc_inv (cli_cloud s) wanted ws w' \<and>
      (case r of Inr xs \<Rightarrow> list_all (vpc_reported (cli_cloud s) w') xs | Inl _ \<Rightarrow> True)) w"
    if "gc_inv (cli_cloud s) wanted ws w" for w
    unfolding ListVpcs_def using that by (intro wp_paginate wp_fetch_vpcs reported_mono) auto
  show "keeps (gc_inv (cli_cloud s) wanted w) (ignoreE (DeleteVpc s (rr_ID x)))"
    if "vpc_reported (cli_cloud s) w x" "orphan wanted (rr_Tags x)" for x w
    using that by (intro keeps_targeted[OF dvpc.sends_del[of "\<lambda>q. q = VpcReq (DeleteVpcReq (rr_ID x))"]])
      (auto simp: target_tags_def vpc_reported_def)
qed

lemma sweepNatGateways_inv:
  "keeps (gc_inv (cli_cloud s) wanted ws) (sweepNatGateways types (client_service fuel cd s) wanted)"
  unfolding sweepNatGateways_def client_service_gc
proof (rule sweep_type_inv[where R = "nat_reported (cli_cloud s)"])
  show "wp (ListNatGateways fuel s) (\<lambda>r w'. gc_inv (cli_cloud s) wanted ws w' \<and>
      (case r of Inr xs \<Rightarrow> list_all (nat_reported (cli_cloud s) w') xs | Inl _ \<Rightarrow> True)) w"
    if "gc_inv (cli_cloud s) wanted ws w" for w
    unfolding ListNatGateways_def using that by (intro wp_paginate wp_fetch_nats reported_mono) auto
  show "keeps (gc_inv (cli_cloud s) wanted w) (ignoreE (DeleteNatGateway s (rr_ID x)))"
    if "nat_reported (cli_cloud s) w x" "orphan wanted (rr_Tags x)" for x w
    using that by (intro keeps_targeted[OF sends_DeleteNatGateway])
      (auto simp: target_tags_def nat_reported_def gc_read_def, blast+)
qed

lemma sweep_clusters_inv:
  assumes "answered w (CceReq ListClustersReq) (ans_ListClusters (cli_cloud s)) (Inr (Some items))"
  shows "keeps (gc_inv (cli_cloud s) wanted w)
    (for_each (sweep_cluster (client_service fuel cd s) wanted) (map cluster_ref items))"
proof (intro keeps_for_each)
  fix x assume x: "x \<in> set (map cluster_ref items)"
  let ?q = "CceReq (DeleteClusterReq (delete_cluster_request (gc_delete_input (clr_ClusterID x))))"
  have "keeps (gc_inv (cli_cloud s) wanted w)
      (ignoreE (DeleteCluster s (gc_delete_input (clr_ClusterID x))))" if "orphan wanted (clr_Tags x)"
  proof (rule keeps_targeted[OF dc.sends_del[of "\<lambda>q. q = ?q"]])
    show "gc_read q \<or> (\<exists>ts. target_tags (cli_cloud s) w q ts \<and> orphan wanted ts)" if q: "q = ?q" for q
      using x assms \<open>orphan wanted (clr_Tags x)\<close>
      by (auto simp: q target_tags_def delete_cluster_request_def gc_delete_input_def)
  qed simp
  then show "keeps (gc_inv (cli_cloud s) wanted w) (sweep_cluster (client_service fuel cd s) wanted x)"
    unfolding sweep_cluster_orphan client_service_gc by (intro keeps_if keeps_return)
qed

lemma sweep_account_inv:
  fixes s crs
  defines "w1 \<equiv> [CceReq ListClustersReq]"
  shows "wp (sweep_account types (client_service fuel cd s) (State (\<lambda>tr. (crs tr, tr))))
    (\<lambda>_ w. w = w1 \<or> (\<exists>items. crs w1 = Inr items \<and> gc_inv (cli_cloud s) (wanted_index items []) w1 w)) []"
proof -
  let ?c = "cli_cloud s" and ?svc = "client_service fuel cd s"
  have wp_crs: "wp (State (\<lambda>tr. (crs tr, tr))) Q = (\<lambda>tr. Q (crs tr) tr)" for Q
    by (simp add: wp_def fun_eq_iff)
  have inv: "gc_inv ?c wanted w1 w1" for wanted
    by (simp add: gc_inv_def w1_def gc_fine_read gc_read_def)
  have phase2: "keeps (gc_inv ?c wanted w1) (do {
       _ \<leftarrow> sweepEips types ?svc wanted; _ \<leftarrow> sweepVolumes types ?svc wanted;
       _ \<leftarrow> sweepVpcs types ?svc wanted; sweepNatGateways types ?svc wanted })" for wanted
    by (intro keeps_bind sweepEips_inv sweepVolumes_inv sweepVpcs_inv sweepNatGateways_inv)
  have all: "wp (do { _ \<leftarrow> for_each (sweep_cluster ?svc wanted) cs;
       _ \<leftarrow> sweepEips types ?svc wanted; _ \<leftarrow> sweepVolumes types ?svc wanted;
       _ \<leftarrow> sweepVpcs types ?svc wanted; sweepNatGateways types ?svc wanted })
       (\<lambda>_. gc_inv ?c wanted w1) w1"
    if "keeps (gc_inv ?c wanted w1) (for_each (sweep_cluster ?svc wanted) cs)" for wanted cs
    using keeps_wp[OF keeps_bind[OF that phase2] inv] .
  have start: "keeps (gc_inv ?c wanted w1) (for_each (sweep_cluster ?svc wanted)
      (case items of None \<Rightarrow> [] | Some cs \<Rightarrow> map cluster_ref cs))"
    if "ans_ListClusters ?c w1 = Inr items" for wanted items
  proof (cases items)
    case (Some cs)
    have "answered w1 (CceReq ListClustersReq) (ans_ListClusters ?c) (Inr (Some cs))"
      using that Some unfolding answered_def w1_def by (intro exI[of _ "[]"]) simp
    from sweep_clusters_inv[OF this] show ?thesis using Some by simp
  qed (simp add: keeps_return)
  define Q where "Q w \<longleftrightarrow> w = w1 \<or> (\<exists>items. crs w1 = Inr items \<and> gc_inv ?c (wanted_index items []) w1 w)" for w
  have Qstop: "Q w1" by (simp add: Q_def)
  have Qrun: "wp (do { _ \<leftarrow> for_each (sweep_cluster ?svc (wanted_index items [])) cs;
       _ \<leftarrow> sweepEips types ?svc (wanted_index items []); _ \<leftarrow> sweepVolumes types ?svc (wanted_index items []);
       _ \<leftarrow> sweepVpcs types ?svc (wanted_index items []); sweepNatGateways types ?svc (wanted_index items []) })
       (\<lambda>_. Q) w1"
    if "crs w1 = Inr items" "keeps (gc_inv ?c (wanted_index items []) w1)
        (for_each (sweep_cluster ?svc (wanted_index items [])) cs)" for items cs
    using all[OF that(2)] by (rule wp_mono) (auto simp: Q_def that(1))
  have "wp (sweep_account types ?svc (State (\<lambda>tr. (crs tr, tr)))) (\<lambda>_. Q) []"
  proof (cases "ans_ListClusters ?c w1")
    case (Inl e)
    then show ?thesis
      using Qstop by (simp add: sweep_account_def ListClusters_def wp_simps w1_def)
  next
    case (Inr items)
    then show ?thesis
      using Qstop Qrun[OF _ start[OF Inr]]
      by (auto simp: sweep_account_def ListClusters_def wp_bind wp_tryE wp_wrapE wp_send wp_ok wp_return wp_sum
          wp_crs Let_def w1_def split: sum.splits)
  qed
  then show ?thesis by (simp add: Q_def[abs_def])
qed

text \<open>C6: The sweep deletes nothing but orphans. For every cloud and every list of Cluster objects, each
  request of a sweep either reads, or deletes a resource the cloud reported during this sweep with the
  owned tag of a cluster name that none of the Cluster objects, listed after the clusters, has.\<close>

theorem sweep_deletes_only_orphans:
  assumes "gc_ServiceFactory g (gc_Region g) = Inr (client_service fuel cd s)"
    and "w = snd (run_state (sweep g creds_ok (State (\<lambda>tr. (crs tr, tr)))) [])"
    and "q \<in> set w" and "\<not> gc_read q"
  shows "\<exists>ts n items. target_tags (cli_cloud s) w q ts \<and> (OwnedTagKey n, ''owned'') \<in> set ts \<and> n \<noteq> '''' \<and>
     crs [CceReq ListClustersReq] = Inr items \<and> (\<forall>cr \<in> set items. ccr_Name cr \<noteq> n)"
proof -
  let ?w1 = "[CceReq ListClustersReq]"
  have "w = [] \<or> w = snd (run_state (sweep_account (gc_ResourceTypes g) (client_service fuel cd s)
      (State (\<lambda>tr. (crs tr, tr)))) [])"
    using assms(1,2) by (auto simp: sweep_def serviceForRegion_def)
  then have "w = [] \<or> w = ?w1 \<or>
      (\<exists>items. crs ?w1 = Inr items \<and> gc_inv (cli_cloud s) (wanted_index items []) ?w1 w)"
    using sweep_account_inv[of "gc_ResourceTypes g" fuel cd s crs] by (auto simp: wp_run)
  then obtain items where items: "crs ?w1 = Inr items"
    and inv: "gc_inv (cli_cloud s) (wanted_index items []) ?w1 w"
    using assms(3,4) by (auto simp: gc_read_def)
  then have "gc_fine (cli_cloud s) (wanted_index items []) w q"
    using assms(3) by (simp add: gc_inv_def list_all_iff)
  then obtain ts where ts: "target_tags (cli_cloud s) w q ts" "orphan (wanted_index items []) ts"
    using assms(4) by (auto simp: gc_fine_def)
  then show ?thesis
    using items OwnedClusterName_entry[of ts] by (auto simp: orphan_def Let_def wanted_index_iff)
qed

text \<open>An account with one orphaned cluster.\<close>

definition orphan_cloud :: cloud where
  "orphan_cloud = empty_cloud \<lparr> ans_ListClusters := (\<lambda>_. Inr (Some [\<lparr>
     cl_Metadata = Some \<lparr> cm_Uid = Some ''c1'', cm_Name = ''demo'' \<rparr>,
     cl_Spec = Some (example_spec \<lparr> cs_ClusterTags := Some [mk_tag (OwnedTagKey ''demo'') ''owned''] \<rparr>),
     cl_Status = None \<rparr>])) \<rparr>"

definition example_gc :: "codec \<Rightarrow> history GarbageCollector" where
  "example_gc cd = \<lparr> gc_Region = ''cn-north-4'', gc_ResourceTypes = [],
     gc_ServiceFactory = (\<lambda>_. Inr (client_service 1 cd (example_client orphan_cloud))) \<rparr>"

definition example_codec :: codec where
  "example_codec = \<lparr> kc_Write = (\<lambda>_. Inr ''kubeconfig''), kc_Load = (\<lambda>_. Inl (PlainErr ''parse'')) \<rparr>"

theorem sweep_deletes_only_orphans_witness:
  "\<exists>q ts n items. q = CceReq (DeleteClusterReq (delete_cluster_request (gc_delete_input ''c1''))) \<and>
     q \<in> set (snd (run_state (sweep (example_gc example_codec) True (State (\<lambda>tr. (Inr [], tr)))) [])) \<and>
     (OwnedTagKey n, ''owned'') \<in> set ts \<and>
     target_tags orphan_cloud (snd (run_state (sweep (example_gc example_codec) True (State (\<lambda>tr. (Inr [], tr)))) [])) q ts"
proof -
  let ?w = "snd (run_state (sweep (example_gc example_codec) True (State (\<lambda>tr. (Inr [], tr)))) [])"
  let ?q = "CceReq (DeleteClusterReq (delete_cluster_request (gc_delete_input ''c1'')))"
  have "orphan [] [(OwnedTagKey ''demo'', ''owned'')]"
    by (simp add: orphan_def)
  then have q: "?q \<in> set ?w"
    by (simp add: sweep_def serviceForRegion_def example_gc_def sweep_account_def ListClusters_def tryE_def
        wrapE_def ok_def fail_def Let_def example_client_def orphan_cloud_def cluster_ref_def example_spec_def
        show_tags_def mk_tag_def sweep_cluster_orphan dc.del_run ignoreE_def empty_cloud_def deref_def
        sweepEips_def sweepVolumes_def sweepVpcs_def sweepNatGateways_def sweep_type_orphan)
  have "\<not> gc_read ?q" by (simp add: gc_read_def)
  from sweep_deletes_only_orphans[OF _ refl q this, of 1 example_codec "example_client orphan_cloud"]
  show ?thesis using q by (auto simp: example_gc_def example_client_def)
qed

section \<open>The opt-out annotation\<close>

lemma sweep_account_names:
  assumes "ccr_Name ` set items = ccr_Name ` set items'"
  shows "orphan (wanted_index items []) = orphan (wanted_index items' [])"
proof -
  have *: "orphan (wanted_index cs []) ts \<longleftrightarrow> OwnedClusterName ts \<noteq> '''' \<and> OwnedClusterName ts \<notin> ccr_Name ` set cs"
    for cs ts
    by (auto simp: orphan_def Let_def wanted_index_iff image_iff)
  have "orphan (wanted_index items []) ts = orphan (wanted_index items' []) ts" for ts
    by (simp only: * assms)
  then show ?thesis by blast
qed

lemma sweep_cluster_cong:
  "orphan w = orphan w' \<Longrightarrow> sweep_cluster svc w = sweep_cluster svc w'"
  by (rule ext) (simp only: sweep_cluster_orphan)

lemma sweep_type_cong:
  "orphan w = orphan w' \<Longrightarrow> sweep_type types ty l d tg i w = sweep_type types ty l d tg i w'"
  by (simp only: sweep_type_orphan)

text \<open>The skip annotation changes nothing. Two lists of Cluster objects with the same names lead to
  the same sweep, whatever annotations the objects carry: a tracked cluster is skipped with or without
  the annotation, so \<open>capi-cce/skip-gc\<close> never keeps a resource the sweep would delete.\<close>

theorem skip_annotation_has_no_effect:
  assumes "ccr_Name ` set items = ccr_Name ` set items'"
  shows "sweep_account types svc (ok items) = sweep_account types svc (ok items')"
proof -
  note o = sweep_account_names[OF assms]
  show ?thesis
    unfolding sweep_account_def ok_def
    by (simp add: sweep_cluster_cong[OF o] sweep_type_cong[OF o] sweepEips_def sweepVolumes_def sweepVpcs_def
        sweepNatGateways_def Let_def)
qed

theorem skip_annotation_has_no_effect_witness:
  "sweep_account [] (client_service 1 example_codec (example_client orphan_cloud))
     (ok [\<lparr> ccr_Name = ''demo'', ccr_Namespace = ''ns'', ccr_Annotations = [(skipGCAnnotationKey, ''true'')] \<rparr>]) =
   sweep_account [] (client_service 1 example_codec (example_client orphan_cloud))
     (ok [\<lparr> ccr_Name = ''demo'', ccr_Namespace = ''ns'', ccr_Annotations = [] \<rparr>])"
  by (rule skip_annotation_has_no_effect) simp

end
