(* ===== verification/Cidr.thy ===== *)
theory Cidr
  imports Prelude
begin

text \<open>
  \<open>api/common/cidr.go\<close> and the part of the standard library's \<open>net/netip\<close> it rests on: parsing,
  masking, containment and printing of IPv4 and IPv6 prefixes, after the algorithms of that package.
  An address is a word of its family's width; zones are always rejected in prefixes.
\<close>

section \<open>Decimal fields\<close>

definition digit_val :: "char \<Rightarrow> nat option" where
  "digit_val c = (let n = of_char c in if 48 \<le> n \<and> n \<le> 57 then Some (n - 48) else None)"

definition digit_char :: "nat \<Rightarrow> char" where
  "digit_char n = char_of (48 + n)"

fun dec_value :: "string \<Rightarrow> nat \<Rightarrow> nat option" where
  "dec_value [] acc = Some acc"
| "dec_value (c # s) acc = (case digit_val c of Some d \<Rightarrow> dec_value s (acc * 10 + d) | None \<Rightarrow> None)"

text \<open>A decimal number without sign or leading zeros, at most \<open>bound\<close>.\<close>

definition dec_field :: "nat \<Rightarrow> string \<Rightarrow> nat option" where
  "dec_field bound s =
     (if s = [] \<or> (length s > 1 \<and> hd s = CHR ''0'') then None
      else case dec_value s 0 of Some n \<Rightarrow> if n \<le> bound then Some n else None | None \<Rightarrow> None)"

fun dec_string :: "nat \<Rightarrow> string" where
  "dec_string n = (if n < 10 then [digit_char n] else dec_string (n div 10) @ [digit_char (n mod 10)])"

declare dec_string.simps [simp del]

section \<open>Addresses\<close>

datatype IPAddr = V4 "32 word" | V6 "128 word" | InvalidIP

definition parse4 :: "string \<Rightarrow> 32 word option" where
  "parse4 s = (case map (dec_field 255) (split_on CHR ''.'' s) of
      [Some a, Some b, Some c, Some d] \<Rightarrow>
        Some (word_of_nat (((a * 256 + b) * 256 + c) * 256 + d))
    | _ \<Rightarrow> None)"

definition hex_val :: "char \<Rightarrow> nat option" where
  "hex_val c = (let n = of_char c in
     if 48 \<le> n \<and> n \<le> 57 then Some (n - 48)
     else if 97 \<le> n \<and> n \<le> 102 then Some (n - 87)
     else if 65 \<le> n \<and> n \<le> 70 then Some (n - 55) else None)"

fun take_hex :: "string \<Rightarrow> nat \<Rightarrow> nat \<times> nat \<times> string" where
  "take_hex [] acc = (acc, 0, [])"
| "take_hex (c # s) acc = (case hex_val c of
      Some d \<Rightarrow> (case take_hex s (acc * 16 + d) of (v, n, r) \<Rightarrow> (v, Suc n, r))
    | None \<Rightarrow> (acc, 0, c # s))"

text \<open>The loop of \<open>parseIPv6\<close>: \<open>left\<close> groups may still come, \<open>gs\<close> are the groups read (an embedded IPv4
  address is two), \<open>e\<close> is the position of the ellipsis.\<close>

fun parse6_loop :: "nat \<Rightarrow> nat list \<Rightarrow> nat option \<Rightarrow> string \<Rightarrow> (nat list \<times> nat option \<times> string) option" where
  "parse6_loop 0 gs e s = Some (gs, e, s)"
| "parse6_loop (Suc left) gs e s = (case take_hex s 0 of (v, off, rest) \<Rightarrow>
     if off = 0 \<or> off > 4 then None
     else if rest \<noteq> [] \<and> hd rest = CHR ''.'' then
       (if (e = None \<and> length gs \<noteq> 6) \<or> length gs > 6 then None
        else case parse4 s of
            Some w \<Rightarrow> Some (gs @ [unat w div 65536, unat w mod 65536], e, [])
          | None \<Rightarrow> None)
     else let gs' = gs @ [v] in case rest of
         [] \<Rightarrow> Some (gs', e, [])
       | c # r \<Rightarrow> if c \<noteq> CHR '':'' \<or> r = [] then None
           else if hd r = CHR '':'' then
             (if e \<noteq> None then None
              else if tl r = [] then Some (gs', Some (length gs'), [])
              else parse6_loop left gs' (Some (length gs')) (tl r))
           else parse6_loop left gs' e r)"

fun groups_value :: "nat list \<Rightarrow> nat \<Rightarrow> nat" where
  "groups_value [] acc = acc"
| "groups_value (g # gs) acc = groups_value gs (acc * 65536 + g)"

definition parse6 :: "string \<Rightarrow> 128 word option" where
  "parse6 s =
     (case (if has_prefix s ''::'' then
              (if drop 2 s = [] then Some ([], Some 0, []) else parse6_loop 8 [] (Some 0) (drop 2 s))
            else parse6_loop 8 [] None s) of
        None \<Rightarrow> None
      | Some (gs, e, rest) \<Rightarrow>
          if rest \<noteq> [] then None
          else if length gs < 8 then
            (case e of None \<Rightarrow> None
             | Some k \<Rightarrow> Some (word_of_nat (groups_value
                 (take k gs @ replicate (8 - length gs) 0 @ drop k gs) 0)))
          else if e \<noteq> None then None
          else Some (word_of_nat (groups_value gs 0)))"

text \<open>\<open>ParseAddr\<close>: the first dot, colon or percent sign decides; a zone never survives in a prefix.\<close>

fun addr_kind :: "string \<Rightarrow> char option" where
  "addr_kind [] = None"
| "addr_kind (c # s) = (if c = CHR ''.'' \<or> c = CHR '':'' \<or> c = CHR ''%'' then Some c else addr_kind s)"

definition parse_addr :: "string \<Rightarrow> IPAddr option" where
  "parse_addr s = (case addr_kind s of
      Some c \<Rightarrow> if c = CHR ''.'' then map_option V4 (parse4 s)
        else if c = CHR '':'' \<and> CHR ''%'' \<notin> set s then map_option V6 (parse6 s) else None
    | None \<Rightarrow> None)"

text \<open>\<open>Addr.Next\<close>: the invalid address after the last one.\<close>

fun addr_next :: "IPAddr \<Rightarrow> IPAddr" where
  "addr_next (V4 w) = (if w + 1 = 0 then InvalidIP else V4 (w + 1))"
| "addr_next (V6 w) = (if w + 1 = 0 then InvalidIP else V6 (w + 1))"
| "addr_next InvalidIP = InvalidIP"

definition print4 :: "32 word \<Rightarrow> string" where
  "print4 w = (let n = unat w in
     dec_string (n div 16777216) @ ''.'' @ dec_string (n div 65536 mod 256) @ ''.'' @
     dec_string (n div 256 mod 256) @ ''.'' @ dec_string (n mod 256))"

definition hex_char :: "nat \<Rightarrow> char" where
  "hex_char n = (if n < 10 then char_of (48 + n) else char_of (87 + n))"

fun hex_string :: "nat \<Rightarrow> string" where
  "hex_string n = (if n < 16 then [hex_char n] else hex_string (n div 16) @ [hex_char (n mod 16)])"

declare hex_string.simps [simp del]

definition groups6 :: "128 word \<Rightarrow> nat list" where
  "groups6 w = map (\<lambda>i. unat w div 65536 ^ (7 - i) mod 65536) [0 ..< 8]"

text \<open>The run of zero groups to compress: the first of the longest ones, of length at least two.\<close>

definition zero_run :: "nat list \<Rightarrow> nat \<Rightarrow> nat" where
  "zero_run gs i = length (takeWhile (\<lambda>g. g = 0) (drop i gs))"

definition best_run :: "nat list \<Rightarrow> (nat \<times> nat) option" where
  "best_run gs = fold (\<lambda>i best. let l = zero_run gs i in
     if l \<ge> 2 \<and> (case best of None \<Rightarrow> True | Some (_, m) \<Rightarrow> l > m) then Some (i, l) else best)
     [0 ..< 8] None"

definition print6 :: "128 word \<Rightarrow> string" where
  "print6 w = (let gs = groups6 w in
     if take 6 gs = [0, 0, 0, 0, 0, 65535]
     then ''::ffff:'' @ print4 (word_of_nat (gs ! 6 * 65536 + gs ! 7))
     else case best_run gs of
         None \<Rightarrow> join_with '':'' (map hex_string gs)
       | Some (i, l) \<Rightarrow> join_with '':'' (map hex_string (take i gs)) @ ''::'' @
                        join_with '':'' (map hex_string (drop (i + l) gs)))"

fun print_addr :: "IPAddr \<Rightarrow> string" where
  "print_addr (V4 w) = print4 w"
| "print_addr (V6 w) = print6 w"
| "print_addr InvalidIP = ''invalid IP''"

section \<open>Prefixes\<close>

record Prefix =
  px_Addr :: IPAddr
  px_Bits :: nat

fun addr_bits :: "IPAddr \<Rightarrow> nat" where
  "addr_bits (V4 _) = 32" | "addr_bits (V6 _) = 128" | "addr_bits InvalidIP = 0"

definition ParsePrefix :: "string \<Rightarrow> Prefix option" where
  "ParsePrefix s = (case split_last CHR ''/'' s of
      None \<Rightarrow> None
    | Some (a, bits) \<Rightarrow> (case parse_addr a of
        None \<Rightarrow> None
      | Some ip \<Rightarrow> (case dec_field (addr_bits ip) bits of
            None \<Rightarrow> None
          | Some b \<Rightarrow> Some \<lparr> px_Addr = ip, px_Bits = b \<rparr>)))"

definition ParseCIDR :: "string \<Rightarrow> Prefix option" where
  "ParseCIDR s = (if s = '''' then None else ParsePrefix s)"

definition keep_high :: "nat \<Rightarrow> 'a::len word \<Rightarrow> 'a word" where
  "keep_high b w = push_bit (LENGTH('a) - b) (drop_bit (LENGTH('a) - b) w)"

fun mask_addr :: "nat \<Rightarrow> IPAddr \<Rightarrow> IPAddr" where
  "mask_addr b (V4 w) = V4 (keep_high b w)"
| "mask_addr b (V6 w) = V6 (keep_high b w)"
| "mask_addr b InvalidIP = InvalidIP"

definition Masked :: "Prefix \<Rightarrow> Prefix" where
  "Masked p = p \<lparr> px_Addr := mask_addr (px_Bits p) (px_Addr p) \<rparr>"

definition same_high :: "nat \<Rightarrow> 'a::len word \<Rightarrow> 'a word \<Rightarrow> bool" where
  "same_high b v w \<longleftrightarrow> drop_bit (LENGTH('a) - b) v = drop_bit (LENGTH('a) - b) w"

definition Contains :: "Prefix \<Rightarrow> IPAddr \<Rightarrow> bool" where
  "Contains p ip = (case (px_Addr p, ip) of
      (V4 v, V4 w) \<Rightarrow> same_high (px_Bits p) v w
    | (V6 v, V6 w) \<Rightarrow> same_high (px_Bits p) v w
    | _ \<Rightarrow> False)"

definition print_prefix :: "Prefix \<Rightarrow> string" where
  "print_prefix p = (if px_Addr p = InvalidIP then ''invalid Prefix''
     else print_addr (px_Addr p) @ ''/'' @ dec_string (px_Bits p))"

section \<open>Printing an IPv4 prefix and parsing it back\<close>

lemma digit_val_char [simp]: "d < 10 \<Longrightarrow> digit_val (digit_char d) = Some d"
  by (simp add: digit_val_def digit_char_def)

lemma digit_char_neq [simp]:
  assumes "d < 10"
  shows "digit_char d \<noteq> CHR ''.''" "digit_char d \<noteq> CHR ''/''" "digit_char d \<noteq> CHR '':''" "digit_char d \<noteq> CHR ''%''"
proof -
  have "digit_val (CHR ''.'') = None" "digit_val (CHR ''/'') = None" "digit_val (CHR '':'') = None"
    "digit_val (CHR ''%'') = None"
    by (simp_all add: digit_val_def)
  then show "digit_char d \<noteq> CHR ''.''" "digit_char d \<noteq> CHR ''/''" "digit_char d \<noteq> CHR '':''" "digit_char d \<noteq> CHR ''%''"
    using digit_val_char[OF assms] by (metis option.distinct(1))+
qed

lemma digit_char_zero: "d < 10 \<Longrightarrow> digit_char d = CHR ''0'' \<longleftrightarrow> d = 0"
proof -
  assume d: "d < 10"
  have "digit_val (CHR ''0'') = Some 0" "digit_char 0 = CHR ''0''"
    by (simp add: digit_val_def, simp add: digit_char_def char_of_eq_iff)
  then show ?thesis using digit_val_char[OF d] by (metis option.inject)
qed

lemma dec_value_string: "dec_value (dec_string n @ s) acc =
    dec_value s (acc * 10 ^ length (dec_string n) + n)"
proof (induction n arbitrary: s acc rule: dec_string.induct)
  case (1 n)
  show ?case
  proof (cases "n < 10")
    case False
    then have "dec_string n = dec_string (n div 10) @ [digit_char (n mod 10)]"
      by (simp add: dec_string.simps[of n])
    then show ?thesis using 1[OF False] by (simp add: algebra_simps)
  qed (simp add: dec_string.simps[of n])
qed

lemma dec_string_digits: "c \<in> set (dec_string n) \<Longrightarrow> \<exists>d < 10. c = digit_char d"
proof (induction n rule: dec_string.induct)
  case (1 n)
  show ?case
  proof (cases "n < 10")
    case True
    then show ?thesis using 1(2) by (auto simp: dec_string.simps[of n])
  next
    case False
    then show ?thesis using 1(1)[OF False] 1(2) mod_less_divisor[of 10 n]
      by (auto simp: dec_string.simps[of n] simp del: mod_less_divisor)
  qed
qed

lemma dec_string_no_sep [simp]:
  "CHR ''.'' \<notin> set (dec_string n)" "CHR ''/'' \<notin> set (dec_string n)"
  "CHR '':'' \<notin> set (dec_string n)" "CHR ''%'' \<notin> set (dec_string n)"
  using dec_string_digits[of _ n] digit_char_neq by metis+

lemma dec_string_head: "dec_string n \<noteq> [] \<and> (n \<noteq> 0 \<longrightarrow> hd (dec_string n) \<noteq> CHR ''0'')"
proof (induction n rule: dec_string.induct)
  case (1 n)
  then show ?case by (cases "n < 10") (auto simp: dec_string.simps[of n] digit_char_zero)
qed

lemma dec_field_string [simp]: "n \<le> bound \<Longrightarrow> dec_field bound (dec_string n) = Some n"
proof -
  assume "n \<le> bound"
  moreover have "\<not> (length (dec_string n) > 1 \<and> hd (dec_string n) = CHR ''0'')"
    using dec_string_head[of n] by (cases "n = 0") (auto simp: dec_string.simps[of 0])
  ultimately show ?thesis
    using dec_string_head[of n] dec_value_string[of n "[]" 0] by (simp add: dec_field_def)
qed

lemma bytes_of_nat:
  "((n div 16777216 * 256 + n div 65536 mod 256) * 256 + n div 256 mod 256) * 256 + n mod 256 = (n :: nat)"
proof -
  have "n div 65536 = n div 256 div 256" "n div 16777216 = n div 256 div 256 div 256"
    by (simp_all add: div_mult2_eq[symmetric])
  then show ?thesis by simp
qed

lemma parse4_print4 [simp]: "parse4 (print4 w) = Some w"
proof -
  have "unat w < 2 ^ LENGTH(32)" by (rule unsigned_less)
  then have "unat w div 16777216 \<le> 255" by simp
  moreover have "word_of_nat (((unat w div 16777216 * 256 + unat w div 65536 mod 256) * 256
      + unat w div 256 mod 256) * 256 + unat w mod 256) = w"
    unfolding bytes_of_nat by simp
  ultimately show ?thesis
    by (simp add: parse4_def print4_def Let_def split_on_sep split_on_free)
qed

lemma addr_kind_sep: "c \<in> {CHR ''.'', CHR '':'', CHR ''%''} \<Longrightarrow>
    CHR ''.'' \<notin> set a \<Longrightarrow> CHR '':'' \<notin> set a \<Longrightarrow> CHR ''%'' \<notin> set a \<Longrightarrow> addr_kind (a @ c # s) = Some c"
  by (induction a) auto

lemma parse_addr_print4 [simp]: "parse_addr (print4 w) = Some (V4 w)"
proof -
  have "addr_kind (print4 w) = Some (CHR ''.'')"
    by (simp add: print4_def Let_def addr_kind_sep)
  then show ?thesis by (simp add: parse_addr_def)
qed

lemma ParsePrefix_print4 [simp]:
  "px_Addr p = V4 w \<Longrightarrow> px_Bits p \<le> 32 \<Longrightarrow> ParsePrefix (print_prefix p) = Some p"
  by (simp add: ParsePrefix_def print_prefix_def split_last_append)

section \<open>Masking and containment\<close>

lemma same_high_refl [simp]: "same_high b w w"
  by (simp add: same_high_def)

lemma same_high_sym: "same_high b v w \<longleftrightarrow> same_high b w v"
  by (auto simp: same_high_def)

lemma same_high_trans: "same_high b u v \<Longrightarrow> same_high b v w \<Longrightarrow> same_high b u w"
  by (simp add: same_high_def)

lemma same_high_le:
  fixes v w :: "'a::len word"
  assumes "same_high n v w" "m \<le> n"
  shows "same_high m v w"
proof -
  have "drop_bit (LENGTH('a) - m) x = drop_bit (LENGTH('a) - m - (LENGTH('a) - n)) (drop_bit (LENGTH('a) - n) x)"
    for x :: "'a word"
    using assms(2) by (cases "n \<le> LENGTH('a)") (simp_all add: drop_bit_drop_bit)
  from this[of v] this[of w] assms(1) show ?thesis by (simp only: same_high_def)
qed

lemma same_high_keep [simp]:
  "same_high b (keep_high b v) w \<longleftrightarrow> same_high b v w" "same_high b v (keep_high b w) \<longleftrightarrow> same_high b v w"
proof -
  have "drop_bit (LENGTH('a) - b) (keep_high b x) = drop_bit (LENGTH('a) - b) x" for x :: "'a::len word"
    by (rule bit_word_eqI) (auto simp: keep_high_def bit_simps dest: bit_imp_le_length)
  then show "same_high b (keep_high b v) w \<longleftrightarrow> same_high b v w" "same_high b v (keep_high b w) \<longleftrightarrow> same_high b v w"
    by (simp_all add: same_high_def)
qed

text \<open>Two aligned blocks meet exactly when one of them contains the base of the other.\<close>

lemma blocks_meet:
  fixes v w :: "'a::len word"
  shows "same_high m v (keep_high n w) \<or> same_high n w (keep_high m v) \<longleftrightarrow>
    (\<exists>x. same_high m v x \<and> same_high n w x)"
proof
  show "\<exists>x. same_high m v x \<and> same_high n w x"
    if "same_high m v (keep_high n w) \<or> same_high n w (keep_high m v)"
    using that by (metis same_high_keep(2) same_high_refl)
next
  assume "\<exists>x. same_high m v x \<and> same_high n w x"
  then obtain x where x: "same_high m v x" "same_high n w x" by blast
  have sub: "same_high i a (keep_high j b)"
    if "i \<le> j" "same_high i a x" "same_high j b x" for i j and a b :: "'a word"
  proof -
    have "same_high i b x" "same_high i (keep_high j b) b"
      using that same_high_le same_high_keep(1)[of j b b] by (blast, simp add: same_high_le[of j])
    then show ?thesis using that(2) same_high_trans same_high_sym by metis
  qed
  show "same_high m v (keep_high n w) \<or> same_high n w (keep_high m v)"
    using sub[of m n v w] sub[of n m w v] x by (meson nle_le)
qed

end
