(* ===== verification/NetValidator.thy ===== *)
theory NetValidator
  imports CceCluster Cidr
begin

text \<open>
  \<open>internal/services/network/validator.go\<close>: the network checks before a cluster is created. The
  theorem gives them their meaning on addresses: no hard finding is reported exactly when the network
  satisfies the documented constraints, where overlap is having an address in common.
\<close>

section \<open>Overlap\<close>

definition cidrsOverlap :: "string \<Rightarrow> string \<Rightarrow> bool" where
  "cidrsOverlap a b = (case (ParseCIDR a, ParseCIDR b) of
      (Some p, Some q) \<Rightarrow> (let pa = Masked p; pb = Masked q in
        Contains pa (px_Addr pb) \<or> Contains pb (px_Addr pa))
    | _ \<Rightarrow> False)"

definition validCIDR :: "string \<Rightarrow> bool" where
  "validCIDR s \<longleftrightarrow> ParseCIDR s \<noteq> None"

text \<open>What overlap means: some address lies in both blocks.\<close>

definition common_address :: "string \<Rightarrow> string \<Rightarrow> bool" where
  "common_address a b \<longleftrightarrow> (\<exists>p q ip. ParseCIDR a = Some p \<and> ParseCIDR b = Some q \<and> Contains p ip \<and> Contains q ip)"

lemma Contains_family:
  "px_Addr p = V4 v \<Longrightarrow> Contains p ip \<longleftrightarrow> (\<exists>x. ip = V4 x \<and> same_high (px_Bits p) v x)"
  "px_Addr p = V6 u \<Longrightarrow> Contains p ip \<longleftrightarrow> (\<exists>y. ip = V6 y \<and> same_high (px_Bits p) u y)"
  "px_Addr p = InvalidIP \<Longrightarrow> \<not> Contains p ip"
  by (cases ip; simp add: Contains_def)+

lemma prefixes_meet:
  "Contains (Masked p) (px_Addr (Masked q)) \<or> Contains (Masked q) (px_Addr (Masked p)) \<longleftrightarrow>
     (\<exists>ip. Contains p ip \<and> Contains q ip)"
proof (cases "px_Addr p")
  case p: (V4 v)
  show ?thesis
  proof (cases "px_Addr q")
    case q: (V4 w)
    show ?thesis
      using blocks_meet[of "px_Bits p" v "px_Bits q" w]
      by (auto simp: Contains_family p q Masked_def Contains_def[of "_\<lparr>px_Addr := _\<rparr>"])
  qed (auto simp: p Contains_family Masked_def Contains_def[of "_\<lparr>px_Addr := _\<rparr>"])
next
  case p: (V6 v)
  show ?thesis
  proof (cases "px_Addr q")
    case q: (V6 w)
    show ?thesis
      using blocks_meet[of "px_Bits p" v "px_Bits q" w]
      by (auto simp: Contains_family p q Masked_def Contains_def[of "_\<lparr>px_Addr := _\<rparr>"])
  qed (auto simp: p Contains_family Masked_def Contains_def[of "_\<lparr>px_Addr := _\<rparr>"])
qed (auto simp: Contains_family Masked_def Contains_def[of "_\<lparr>px_Addr := _\<rparr>"] split: IPAddr.splits)

text \<open>The overlap test is exact: two CIDRs overlap for the validator exactly when both parse and some
  address lies in both blocks (an IPv4 and an IPv6 block never meet).\<close>

theorem cidrsOverlap_iff: "cidrsOverlap a b \<longleftrightarrow> common_address a b"
  by (auto simp: cidrsOverlap_def common_address_def Let_def prefixes_meet split: option.splits)

section \<open>The checks\<close>

record Issue =
  is_Field :: string
  is_Message :: string
  is_Warning :: bool

record ValidateInput =
  vi_VPCID :: string
  vi_SubnetIDs :: "string list"
  vi_ContainerMode :: string
  vi_ContainerCIDR :: string
  vi_ServiceCIDR :: string
  vi_ENISubnetIDs :: "string list"

definition maxENISubnets :: nat where
  "maxENISubnets = 20"

definition hard_issue :: "string \<Rightarrow> string \<Rightarrow> Issue" where
  "hard_issue f m = \<lparr> is_Field = f, is_Message = m, is_Warning = False \<rparr>"

text \<open>The map of subnet CIDRs: a subnet is found by its ID and, when it has one, by its neutron ID.\<close>

fun index_subnets :: "SdkSubnet list \<Rightarrow> (string, string) gomap \<Rightarrow> (string, string) gomap" where
  "index_subnets [] out = out"
| "index_subnets (s # ss) out = (let out1 = AList.update (ss_Id s) (ss_Cidr s) out in
     index_subnets ss (if ss_NeutronSubnetId s \<noteq> '''' then AList.update (ss_NeutronSubnetId s) (ss_Cidr s) out1
                       else out1))"

definition fetchNetwork :: "cloud \<Rightarrow> string \<Rightarrow> (history, string \<times> (string, string) gomap) go" where
  "fetchNetwork c vpcID =
     tryE (if vpcID \<noteq> ''''
           then tryE (wrapE (msgf [''ListVpcs '', vpcID, '' failed''])
                  (send (VpcReq (ListVpcsReq (Some vpcID) None None)) (ans_ListVpcs c)))
                (\<lambda>resp. ok (case resp of Some (v # _) \<Rightarrow> sv_Cidr v | _ \<Rightarrow> ''''))
           else ok '''')
       (\<lambda>vpcCIDR. tryE (wrapE (msgf [''ListSubnets of VPC '', vpcID, '' failed''])
           (send (VpcReq (ListSubnetsReq vpcID)) (ans_ListSubnets c)))
         (\<lambda>resp. ok (vpcCIDR, case resp of Some subs \<Rightarrow> index_subnets subs [] | None \<Rightarrow> [])))"

definition format_issues :: "ValidateInput \<Rightarrow> Issue list" where
  "format_issues i =
     (if vi_ServiceCIDR i \<noteq> '''' \<and> \<not> validCIDR (vi_ServiceCIDR i)
      then [hard_issue ''serviceNetwork.cidr'' (''invalid CIDR: '' @ vi_ServiceCIDR i)] else []) @
     (if vi_ContainerCIDR i \<noteq> '''' \<and> \<not> validCIDR (vi_ContainerCIDR i)
      then [hard_issue ''containerNetwork.cidr'' (''invalid CIDR: '' @ vi_ContainerCIDR i)] else []) @
     (if vi_ContainerMode i = ModeENI \<and> vi_ENISubnetIDs i = []
      then [hard_issue ''containerNetwork.eniSubnets'' ''eni mode requires at least one ENI subnet''] else [])"

definition existence_issues :: "ValidateInput \<Rightarrow> string \<Rightarrow> (string, string) gomap \<Rightarrow> Issue list" where
  "existence_issues i vpcCIDR subnetCIDRs =
     (if vpcCIDR = '''' then [hard_issue ''vpc'' ''VPC not found or has no CIDR'']
      else if vi_ServiceCIDR i \<noteq> '''' \<and> cidrsOverlap (vi_ServiceCIDR i) vpcCIDR
      then [hard_issue ''serviceNetwork.cidr''
              ''service CIDR must not overlap the VPC CIDR (official hard constraint)''] else []) @
     concat (map (\<lambda>id. if map_of subnetCIDRs id = None
        then [hard_issue ''network.subnets'' (msgf [''subnet '', id, '' not found in the VPC (CCE.01400002)''])]
        else []) (vi_SubnetIDs i)) @
     concat (map (\<lambda>id. if map_of subnetCIDRs id = None
        then [hard_issue ''containerNetwork.eniSubnets''
                (msgf [''eni subnet '', id, '' not found in the VPC (CCE.01400002)''])]
        else []) (vi_ENISubnetIDs i))"

definition overlap_issues :: "ValidateInput \<Rightarrow> string \<Rightarrow> (string, string) gomap \<Rightarrow> Issue list" where
  "overlap_issues i vpcCIDR subnetCIDRs =
     (if vi_ServiceCIDR i \<noteq> ''''
      then concat (map (\<lambda>(id, c). if cidrsOverlap (vi_ServiceCIDR i) c
        then [hard_issue ''serviceNetwork.cidr''
                (msgf [''service CIDR overlaps subnet '', id, '' ('', c, '')''])] else []) subnetCIDRs)
      else []) @
     (if vi_ContainerMode i \<noteq> ModeENI \<and> vi_ContainerCIDR i \<noteq> '''' \<and> vi_ServiceCIDR i \<noteq> '''' \<and>
         cidrsOverlap (vi_ContainerCIDR i) (vi_ServiceCIDR i)
      then [hard_issue ''containerNetwork.cidr''
              ''container CIDR overlaps the service CIDR (official hard constraint)''] else []) @
     (if vi_ContainerMode i \<noteq> ModeENI \<and> vi_ContainerCIDR i \<noteq> ''''
      then (if vpcCIDR \<noteq> '''' \<and> cidrsOverlap (vi_ContainerCIDR i) vpcCIDR
            then [hard_issue ''containerNetwork.cidr''
                    ''container CIDR overlaps the VPC CIDR (official hard constraint)''] else []) @
           concat (map (\<lambda>(id, c). if cidrsOverlap (vi_ContainerCIDR i) c
             then [hard_issue ''containerNetwork.cidr''
                     (msgf [''container CIDR overlaps subnet '', id, '' ('', c, '')''])] else []) subnetCIDRs)
      else [])"

definition eni_issues :: "ValidateInput \<Rightarrow> Issue list" where
  "eni_issues i =
     (if vi_ContainerMode i = ModeENI
      then (if length (vi_ENISubnetIDs i) > maxENISubnets
            then [hard_issue ''containerNetwork.eniSubnets'' (msgf [''too many eni subnets (max '',
                    dec_string maxENISubnets, '' per official limit)''])] else []) @
           concat (map (\<lambda>es. concat (map (\<lambda>ns. if es = ns
             then [\<lparr> is_Field = ''containerNetwork.eniSubnets'',
                     is_Message = msgf [''eni container subnet '', es, '' is also used as a node subnet '',
                       map char_of [0xE2 :: nat, 0x80, 0x94],
                       '' official recommendation is to keep them separate (IP exhaustion risk)''],
                     is_Warning = True \<rparr>] else []) (vi_SubnetIDs i))) (vi_ENISubnetIDs i))
      else [])"

text \<open>\<open>v\<close> is the VPC client, absent for a nil validator.\<close>

definition Validate :: "cloud option \<Rightarrow> ValidateInput \<Rightarrow> (history, Issue list) go" where
  "Validate v i =
     tryE (case v of None \<Rightarrow> ok ('''', []) | Some c \<Rightarrow> fetchNetwork c (vi_VPCID i))
       (\<lambda>(vpcCIDR, subnetCIDRs). ok (format_issues i @ existence_issues i vpcCIDR subnetCIDRs @
           overlap_issues i vpcCIDR subnetCIDRs @ eni_issues i))"

section \<open>What an accepted network satisfies\<close>

definition network_ok :: "ValidateInput \<Rightarrow> string \<Rightarrow> (string, string) gomap \<Rightarrow> bool" where
  "network_ok i vpc subs \<longleftrightarrow>
     (vi_ServiceCIDR i = '''' \<or> validCIDR (vi_ServiceCIDR i)) \<and>
     (vi_ContainerCIDR i = '''' \<or> validCIDR (vi_ContainerCIDR i)) \<and>
     vpc \<noteq> '''' \<and>
     set (vi_SubnetIDs i) \<union> set (vi_ENISubnetIDs i) \<subseteq> fst ` set subs \<and>
     (\<forall>block \<in> insert vpc (snd ` set subs). \<not> common_address (vi_ServiceCIDR i) block) \<and>
     (if vi_ContainerMode i = ModeENI
      then vi_ENISubnetIDs i \<noteq> [] \<and> length (vi_ENISubnetIDs i) \<le> 20
      else \<forall>block \<in> insert vpc (insert (vi_ServiceCIDR i) (snd ` set subs)).
             \<not> common_address (vi_ContainerCIDR i) block)"

lemma hard_not_warning [simp]: "\<not> is_Warning (hard_issue f m)"
  by (simp add: hard_issue_def)

lemma common_address_nonempty [simp]: "\<not> common_address '''' b" "\<not> common_address a ''''"
  by (simp_all add: common_address_def ParseCIDR_def)

lemma list_all_concat_map: "list_all P (concat (map f xs)) \<longleftrightarrow> (\<forall>x \<in> set xs. list_all P (f x))"
  by (auto simp: list_all_iff)

lemma list_all_if: "list_all P (if b then xs else []) \<longleftrightarrow> (b \<longrightarrow> list_all P xs)"
  by simp

lemmas issue_simps = list_all_concat_map list_all_if cidrsOverlap_iff map_of_eq_None_iff

lemma format_issues_ok: "list_all is_Warning (format_issues i) \<longleftrightarrow>
    (vi_ServiceCIDR i = '''' \<or> validCIDR (vi_ServiceCIDR i)) \<and>
    (vi_ContainerCIDR i = '''' \<or> validCIDR (vi_ContainerCIDR i)) \<and>
    (vi_ContainerMode i = ModeENI \<longrightarrow> vi_ENISubnetIDs i \<noteq> [])"
  by (simp add: format_issues_def)

lemma existence_issues_ok: "list_all is_Warning (existence_issues i vpc subs) \<longleftrightarrow>
    vpc \<noteq> '''' \<and> \<not> common_address (vi_ServiceCIDR i) vpc \<and>
    set (vi_SubnetIDs i) \<union> set (vi_ENISubnetIDs i) \<subseteq> fst ` set subs"
  by (cases "vi_ServiceCIDR i = ''''") (auto simp: existence_issues_def issue_simps)

lemma overlap_issues_ok: "list_all is_Warning (overlap_issues i vpc subs) \<longleftrightarrow>
    (\<forall>block \<in> snd ` set subs. \<not> common_address (vi_ServiceCIDR i) block) \<and>
    (vi_ContainerMode i \<noteq> ModeENI \<longrightarrow>
      (\<forall>block \<in> insert vpc (insert (vi_ServiceCIDR i) (snd ` set subs)).
         \<not> common_address (vi_ContainerCIDR i) block))"
  by (cases "vi_ServiceCIDR i = ''''"; cases "vi_ContainerCIDR i = ''''"; cases "vpc = ''''")
    (auto simp: overlap_issues_def issue_simps split_beta)

lemma eni_issues_ok: "list_all is_Warning (eni_issues i) \<longleftrightarrow>
    (vi_ContainerMode i = ModeENI \<longrightarrow> length (vi_ENISubnetIDs i) \<le> 20)"
  by (auto simp: eni_issues_def maxENISubnets_def list_all_concat_map not_less)

text \<open>C23: The validator accepts exactly the networks that satisfy the constraints. Either the platform
  could not be queried and the error is passed on, or the findings contain nothing but warnings exactly
  when every CIDR is well formed, the VPC and all referenced subnets exist, the ENI subnets are between one
  and twenty in eni mode, the service block shares no address with the VPC or a subnet, and outside eni
  mode the container block shares none with the VPC, the service block or a subnet.\<close>

theorem Validate_exact:
  "case fst (run_state (fetchNetwork c (vi_VPCID i)) tr) of
     Inl e \<Rightarrow> fst (run_state (Validate (Some c) i) tr) = Inl e
   | Inr (vpc, subs) \<Rightarrow> (case fst (run_state (Validate (Some c) i) tr) of
       Inl e \<Rightarrow> False
     | Inr issues \<Rightarrow> list_all is_Warning issues = network_ok i vpc subs)"
proof -
  have *: "list_all is_Warning (format_issues i @ existence_issues i vpc subs @ overlap_issues i vpc subs @ eni_issues i)
      = network_ok i vpc subs" for vpc subs
    by (auto simp: format_issues_ok existence_issues_ok overlap_issues_ok eni_issues_ok network_ok_def)
  show ?thesis
    by (simp add: Validate_def tryE_def ok_def fail_def *[simplified] State_Monad.bind_def State_Monad.return_def
        split: sum.splits prod.splits)
qed

end
