(* ===== verification/NetTypes.thy ===== *)
theory NetTypes
  imports CceCluster Cidr
begin

text \<open>
  The network part of \<open>api/common/types.go\<close> and the pure helpers of
  \<open>internal/services/network/manager.go\<close>: which networks the provider manages, which subnet anchors
  the NAT gateway, and the addresses derived from a CIDR.
\<close>

section \<open>The network spec\<close>

record VPC =
  vpc_ID :: string
  vpc_Name :: string
  vpc_CIDR :: string
  vpc_ResourceID :: string
  vpc_Description :: string
  vpc_Tags :: "(string, string) gomap"

definition SubnetTypeNode :: string where "SubnetTypeNode = ''node''"
definition SubnetTypeENI :: string where "SubnetTypeENI = ''eni''"

record Subnet =
  sub_ID :: string
  sub_Name :: string
  sub_CIDR :: string
  sub_AvailabilityZone :: string
  sub_Type :: string
  sub_NeutronSubnetID :: string
  sub_ResourceID :: string

record NatGatewaySpec =
  nat_Spec :: string
  nat_ResourceID :: string
  nat_EIPResourceID :: string

record SecurityGroupRuleSpec =
  sgr_Description :: string
  sgr_Protocol :: string
  sgr_PortRangeMin :: int32
  sgr_PortRangeMax :: int32
  sgr_RemoteIPPrefix :: string
  sgr_RemoteGroupID :: string

record SecurityGroupSpec =
  sgs_Name :: string
  sgs_Ingress :: "SecurityGroupRuleSpec list"
  sgs_Egress :: "SecurityGroupRuleSpec list"
  sgs_ResourceID :: string

record NetworkSpec =
  ns_VPC :: VPC
  ns_Subnets :: "Subnet list"
  ns_NatGateway :: "NatGatewaySpec option"
  ns_SecurityGroup :: "SecurityGroupSpec option"

section \<open>Pure helpers\<close>

definition defaultVPCCIDR :: string where "defaultVPCCIDR = ''10.0.0.0/16''"
definition eipBandwidthSize :: int32 where "eipBandwidthSize = 5"

text \<open>A nil spec is \<open>None\<close>.\<close>

definition IsManaged :: "NetworkSpec option \<Rightarrow> string \<Rightarrow> bool" where
  "IsManaged spec clusterName \<longleftrightarrow> (case spec of
      None \<Rightarrow> False
    | Some s \<Rightarrow> if vpc_ID (ns_VPC s) = ''''
        then vpc_ResourceID (ns_VPC s) \<noteq> '''' \<or> vpc_CIDR (ns_VPC s) \<noteq> ''''
        else IsOwned (vpc_Tags (ns_VPC s)) clusterName)"

fun first_subnet :: "Subnet list \<Rightarrow> string" where
  "first_subnet [] = ''''"
| "first_subnet (s # ss) =
     (if sub_ID s = '''' \<and> sub_Type s \<noteq> SubnetTypeENI \<and> sub_ResourceID s \<noteq> '''' then sub_ResourceID s
      else first_subnet ss)"

definition firstManagedNodeSubnet :: "NetworkSpec \<Rightarrow> string" where
  "firstManagedNodeSubnet spec = first_subnet (ns_Subnets spec)"

definition firstSlash24 :: "string \<Rightarrow> string" where
  "firstSlash24 vpcCIDR = (let cidr = (if vpcCIDR = '''' then defaultVPCCIDR else vpcCIDR) in
     case ParseCIDR cidr of
       None \<Rightarrow> cidr
     | Some p0 \<Rightarrow> (let p = Masked p0 in
         if px_Bits p \<ge> 24 then print_prefix p
         else print_prefix (Masked \<lparr> px_Addr = px_Addr p, px_Bits = 24 \<rparr>)))"

definition gatewayIP :: "string \<Rightarrow> string" where
  "gatewayIP cidr = (case ParseCIDR cidr of
      None \<Rightarrow> ''''
    | Some p \<Rightarrow> print_addr (addr_next (px_Addr (Masked p))))"

definition natSpecEnum :: "string \<Rightarrow> NatSpecEnum" where
  "natSpecEnum spec = (if spec = ''2'' then NAT_2 else if spec = ''3'' then NAT_3
     else if spec = ''4'' then NAT_4 else NAT_1)"

definition joinErrors :: "go_error list \<Rightarrow> go_error option" where
  "joinErrors errs = (case errs of [] \<Rightarrow> None | [e] \<Rightarrow> Some e | _ \<Rightarrow> Some (JoinErr errs))"

definition strPtrOrNil :: "string \<Rightarrow> string option" where
  "strPtrOrNil s = (if s = '''' then None else Some s)"

definition ensureDefaultSubnet :: "NetworkSpec \<Rightarrow> string \<Rightarrow> NetworkSpec" where
  "ensureDefaultSubnet spec clusterName =
     (if ns_Subnets spec \<noteq> [] then spec
      else spec \<lparr> ns_Subnets := [\<lparr> sub_ID = '''', sub_Name = clusterName @ ''-subnet-node'',
        sub_CIDR = firstSlash24 (vpc_CIDR (ns_VPC spec)), sub_AvailabilityZone = '''',
        sub_Type = SubnetTypeNode, sub_NeutronSubnetID = '''', sub_ResourceID = '''' \<rparr>] \<rparr>)"

lemma joinErrors_iff: "joinErrors errs = None \<longleftrightarrow> errs = []"
  by (simp add: joinErrors_def split: list.splits)

lemma first_subnet_spec:
  "first_subnet ss = r \<Longrightarrow> r \<noteq> '''' \<Longrightarrow>
     \<exists>s \<in> set ss. sub_ID s = '''' \<and> sub_Type s \<noteq> SubnetTypeENI \<and> sub_ResourceID s = r"
  by (induction ss) (auto split: if_splits)

lemma keep_high_idem: "b \<le> b' \<Longrightarrow> keep_high b' (keep_high b w) = keep_high b (w :: 'a::len word)"
  by (rule bit_word_eqI) (auto simp: keep_high_def bit_simps)

lemma ParsePrefix_bits: "ParsePrefix s = Some p \<Longrightarrow> px_Bits p \<le> addr_bits (px_Addr p)"
  by (auto simp: ParsePrefix_def dec_field_def split: option.splits if_splits prod.splits)

text \<open>The default subnet lies in the VPC. For an IPv4 VPC block the derived CIDR parses, has at least
  24 prefix bits, and every address of it is an address of the VPC block; the gateway derived from it is
  the address after the network address.\<close>

theorem firstSlash24_inside:
  assumes "ParseCIDR c = Some p" and "px_Addr p = V4 v"
  shows "\<exists>q. ParseCIDR (firstSlash24 c) = Some q \<and> px_Bits q = max 24 (px_Bits p) \<and>
    (\<forall>ip. Contains q ip \<longrightarrow> Contains p ip) \<and>
    gatewayIP (firstSlash24 c) = print_addr (addr_next (px_Addr (Masked p)))"
proof -
  have c: "c \<noteq> ''''" "ParsePrefix c = Some p" using assms by (auto simp: ParseCIDR_def split: if_splits)
  have b: "px_Bits p \<le> 32" using ParsePrefix_bits[OF c(2)] assms(2) by simp
  define q where "q = \<lparr> px_Addr = V4 (keep_high (px_Bits p) v), px_Bits = max 24 (px_Bits p) \<rparr>"
  have f: "firstSlash24 c = print_prefix q"
    using assms c by (cases p) (auto simp: firstSlash24_def Masked_def Let_def q_def max_def keep_high_idem)
  have ne: "print_prefix q \<noteq> ''''" by (simp add: print_prefix_def q_def)
  have parse: "ParseCIDR (firstSlash24 c) = Some q"
    using b ne by (simp add: f ParseCIDR_def q_def)
  have "Contains p ip" if "Contains q ip" for ip
    using that same_high_le[of "max 24 (px_Bits p)" "keep_high (px_Bits p) v" _ "px_Bits p"]
    by (auto simp: Contains_def q_def assms(2) split: IPAddr.splits)
  moreover have "Masked q = q" by (simp add: Masked_def q_def keep_high_idem)
  ultimately show ?thesis
    using parse by (auto simp: gatewayIP_def q_def Masked_def assms(2))
qed

theorem firstSlash24_inside_witness:
  "\<exists>p q. ParseCIDR ''192.168.4.1/20'' = Some p \<and> firstSlash24 ''192.168.4.1/20'' = ''192.168.0.0/24'' \<and>
     ParseCIDR (firstSlash24 ''192.168.4.1/20'') = Some q \<and> (\<forall>ip. Contains q ip \<longrightarrow> Contains p ip)"
proof -
  have p: "ParseCIDR ''192.168.4.1/20'' = Some \<lparr> px_Addr = V4 3232236545, px_Bits = 20 \<rparr>"
    by (simp add: ParseCIDR_def ParsePrefix_def split_last_def parse_addr_def parse4_def dec_field_def digit_val_def)
  have k: "keep_high 20 (3232236545 :: 32 word) = 3232235520" "keep_high 24 (3232235520 :: 32 word) = 3232235520"
    by (simp_all add: keep_high_def)
  have "unat (3232235520 :: 32 word) = 3232235520" by simp
  then have s: "firstSlash24 ''192.168.4.1/20'' = ''192.168.0.0/24''"
    by (simp add: firstSlash24_def p Masked_def k print_prefix_def print4_def Let_def dec_string.simps digit_char_def
        char_of_eq_iff)
  show ?thesis using firstSlash24_inside[OF p, of 3232236545] p s by auto
qed

end
