(* ===== verification/NetManager.thy ===== *)
theory NetManager
  imports NetTypes Hwsdk CceResources
begin

text \<open>
  \<open>internal/services/network/manager.go\<close>: creation, re-discovery and teardown of the provider-managed
  network, and the polling loop of \<open>internal/wait/wait.go\<close>. The methods mutate the spec they are given
  and may return an error after having done so; here they return the new spec together with the error.
\<close>

section \<open>Waiting\<close>

text \<open>\<open>wait.Backoff\<close>: the duration in nanoseconds, factor and jitter in hundredths.\<close>

record Backoff =
  bo_Duration :: int
  bo_Factor :: int
  bo_Steps :: int
  bo_Jitter :: int

definition NewBackoff :: Backoff where
  "NewBackoff = \<lparr> bo_Duration = 1000000000, bo_Factor = 171, bo_Steps = 10, bo_Jitter = 40 \<rparr>"

text \<open>\<open>wait.ExponentialBackoff\<close> of \<open>k8s.io/apimachinery\<close> is a parameter: given a backoff and a condition it
  runs the condition some number of times. The closure \<open>WaitForWithRetryable\<close> passes to it keeps the last
  error of the condition in a variable, the second component of the world here.\<close>

type_synonym backoff_fn = "Backoff \<Rightarrow> (history \<times> go_error option, bool) go \<Rightarrow> (history \<times> go_error option, unit) go"

definition retryable :: "(history, bool) go \<Rightarrow> (history \<times> go_error option, bool) go" where
  "retryable condition = State (\<lambda>(w, lastErr). case run_state condition w of
      (Inr b, w') \<Rightarrow> (Inr b, (w', None))
    | (Inl err, w') \<Rightarrow> (Inl err, (w', Some err)))"

definition WaitForWithRetryable :: "backoff_fn \<Rightarrow> Backoff \<Rightarrow> (history, bool) go \<Rightarrow> (history, unit) go" where
  "WaitForWithRetryable exponentialBackoff backoff condition = State (\<lambda>w.
     case run_state (exponentialBackoff backoff (retryable condition)) (w, None) of
       (Inr _, (w', _)) \<Rightarrow> (Inr (), w')
     | (Inl waitErr, (w', Some lastErr)) \<Rightarrow> (Inl lastErr, w')
     | (Inl waitErr, (w', None)) \<Rightarrow> (Inl waitErr, w'))"

section \<open>The manager\<close>

record Manager =
  mgr_cloud :: cloud
  mgr_additionalTags :: "(string, string) gomap"
  mgr_ExponentialBackoff :: backoff_fn

definition SetAdditionalTags :: "Manager \<Rightarrow> (string, string) gomap \<Rightarrow> Manager" where
  "SetAdditionalTags m tags = m \<lparr> mgr_additionalTags := tags \<rparr>"

definition resourceTagList :: "Manager \<Rightarrow> string \<Rightarrow> string list" where
  "resourceTagList m clusterName = (OwnedTagKey clusterName @ ''*owned'') #
     map (\<lambda>(k, v). k @ ''*'' @ v) (filter (\<lambda>(k, _). k \<noteq> OwnedTagKey clusterName) (mgr_additionalTags m))"

text \<open>\<open>tagsFromResourceTag\<close> and \<open>tagsFromTagBody\<close>; a nil list gives a nil map.\<close>

definition tagsFromResourceTag :: "(string \<times> string) list option \<Rightarrow> (string, string) gomap" where
  "tagsFromResourceTag l = (case l of None \<Rightarrow> [] | Some ts \<Rightarrow> put_pairs ts [])"

definition tagsFromTagBody :: "(string \<times> string) list option \<Rightarrow> (string, string) gomap" where
  "tagsFromTagBody l = (case l of None \<Rightarrow> [] | Some ts \<Rightarrow> put_pairs ts [])"

text \<open>\<open>requireOwned\<close> on the result of the tag query.\<close>

definition requireOwned :: "string \<Rightarrow> string \<Rightarrow> string \<Rightarrow> (string, string) gomap \<Rightarrow> go_error option \<Rightarrow> string \<Rightarrow>
    go_error option" where
  "requireOwned resourceType name i resourceTags readErr clusterName = (case readErr of
      Some e \<Rightarrow> Some (WrapErr (msgf [resourceType, '' '', name, '' ('', i,
        '') already exists but its ownership tags could not be read; refusing to adopt'']) e)
    | None \<Rightarrow> if \<not> IsOwned resourceTags clusterName
        then Some (PlainErr (msgf [resourceType, '' '', name, '' ('', i,
          '') already exists but is not owned by this provider; refusing to adopt'']))
        else None)"

definition verifyVpcOwned :: "Manager \<Rightarrow> string \<Rightarrow> string \<Rightarrow> string \<Rightarrow> (history, go_error option) state" where
  "verifyVpcOwned m i name clusterName = do {
     r \<leftarrow> send (VpcReq (ShowVpcTagsReq i)) (ans_ShowVpcTags (mgr_cloud m));
     State_Monad.return (case r of
       Inl e \<Rightarrow> requireOwned ''VPC'' name i [] (Some e) clusterName
     | Inr resp \<Rightarrow> requireOwned ''VPC'' name i (tagsFromResourceTag resp) None clusterName) }"

definition verifySubnetOwned :: "Manager \<Rightarrow> string \<Rightarrow> string \<Rightarrow> string \<Rightarrow> (history, go_error option) state" where
  "verifySubnetOwned m i name clusterName = do {
     r \<leftarrow> send (VpcReq (ShowSubnetTagsReq i)) (ans_ShowSubnetTags (mgr_cloud m));
     State_Monad.return (case r of
       Inl e \<Rightarrow> requireOwned ''subnet'' name i [] (Some e) clusterName
     | Inr resp \<Rightarrow> requireOwned ''subnet'' name i (tagsFromResourceTag resp) None clusterName) }"

definition verifySecurityGroupOwned :: "Manager \<Rightarrow> string \<Rightarrow> string \<Rightarrow> string \<Rightarrow> (history, go_error option) state" where
  "verifySecurityGroupOwned m i name clusterName = do {
     r \<leftarrow> send (VpcReq (ShowSecurityGroupTagsReq i)) (ans_ShowSecurityGroupTags (mgr_cloud m));
     State_Monad.return (case r of
       Inl e \<Rightarrow> requireOwned ''security group'' name i [] (Some e) clusterName
     | Inr resp \<Rightarrow> requireOwned ''security group'' name i (tagsFromResourceTag resp) None clusterName) }"

definition verifyNatGatewayOwned :: "Manager \<Rightarrow> string \<Rightarrow> string \<Rightarrow> string \<Rightarrow> (history, go_error option) state" where
  "verifyNatGatewayOwned m i name clusterName = do {
     r \<leftarrow> send (NatReq (ShowNatGatewayTagReq i)) (ans_ShowNatGatewayTag (mgr_cloud m));
     State_Monad.return (case r of
       Inl e \<Rightarrow> requireOwned ''NAT gateway'' name i [] (Some e) clusterName
     | Inr resp \<Rightarrow> requireOwned ''NAT gateway'' name i (tagsFromTagBody resp) None clusterName) }"

section \<open>Cloud queries\<close>

text \<open>The loops over a listing return the ID of the first entry with the wanted name, else "".\<close>

definition findVpcByName :: "Manager \<Rightarrow> string \<Rightarrow> (history, string) state" where
  "findVpcByName m name = do {
     r \<leftarrow> send (VpcReq (ListVpcsReq None None None)) (ans_ListVpcs (mgr_cloud m));
     State_Monad.return (case r of
       Inr (Some vpcs) \<Rightarrow> (case find (\<lambda>v. sv_Name v = name) vpcs of Some v \<Rightarrow> sv_Id v | None \<Rightarrow> '''')
     | _ \<Rightarrow> '''') }"

definition listSubnets :: "Manager \<Rightarrow> string \<Rightarrow> (history, SdkSubnet list) state" where
  "listSubnets m vpcID = do {
     r \<leftarrow> send (VpcReq (ListSubnetsReq vpcID)) (ans_ListSubnets (mgr_cloud m));
     State_Monad.return (case r of Inr (Some subs) \<Rightarrow> subs | _ \<Rightarrow> []) }"

definition findSecurityGroupByName :: "Manager \<Rightarrow> string \<Rightarrow> string \<Rightarrow> (history, string) state" where
  "findSecurityGroupByName m name vpcID = do {
     r \<leftarrow> send (VpcReq (ListSecurityGroupsReq (strPtrOrNil vpcID))) (ans_ListSecurityGroups (mgr_cloud m));
     State_Monad.return (case r of
       Inr (Some sgs) \<Rightarrow> (case find (\<lambda>g. sg_GroupName g = name) sgs of Some g \<Rightarrow> sg_Id g | None \<Rightarrow> '''')
     | _ \<Rightarrow> '''') }"

definition listSecurityGroupRules :: "Manager \<Rightarrow> string \<Rightarrow> (history, SdkSecurityGroupRule list) state" where
  "listSecurityGroupRules m sgID = do {
     r \<leftarrow> send (VpcReq (ListSecurityGroupRulesReq sgID)) (ans_ListSecurityGroupRules (mgr_cloud m));
     State_Monad.return (case r of Inr (Some rules) \<Rightarrow> rules | _ \<Rightarrow> []) }"

definition findNatGateway :: "Manager \<Rightarrow> string \<Rightarrow> (history, string option) go" where
  "findNatGateway m name =
     tryE (wrapE (msgf [''ListNatGateways '', name, '' failed''])
         (send (NatReq (ListNatGatewaysReq (Some name) None None)) (ans_ListNatGateways (mgr_cloud m))))
       (\<lambda>resp. ok (case resp of
           None \<Rightarrow> None
         | Some gws \<Rightarrow> (case find (\<lambda>g. ng_Id g \<noteq> None \<and> ng_Name g = Some name) gws of
               Some g \<Rightarrow> ng_Id g | None \<Rightarrow> None)))"

definition findNatGatewayByName :: "Manager \<Rightarrow> string \<Rightarrow> (history, string) state" where
  "findNatGatewayByName m name = do {
     r \<leftarrow> findNatGateway m name;
     State_Monad.return (case r of Inr (Some g) \<Rightarrow> g | _ \<Rightarrow> '''') }"

definition net_listSnatRules :: "Manager \<Rightarrow> string \<Rightarrow> (history, SnatRule list) state" where
  "net_listSnatRules m gatewayID = do {
     r \<leftarrow> ListSnatRules (mgr_cloud m) gatewayID;
     State_Monad.return (case r of Inr rules \<Rightarrow> rules | Inl _ \<Rightarrow> []) }"

definition findEipBySnatRules :: "Manager \<Rightarrow> string \<Rightarrow> (history, string) state" where
  "findEipBySnatRules m gatewayID = do {
     rules \<leftarrow> net_listSnatRules m gatewayID;
     State_Monad.return (case find (\<lambda>r. snr_FloatingIPID r \<noteq> '''') rules of
       Some r \<Rightarrow> snr_FloatingIPID r | None \<Rightarrow> '''') }"

section \<open>Creation\<close>

text \<open>Every step returns the spec it leaves behind and the error, if any.\<close>

type_synonym 'a upd = "(history, 'a \<times> go_error option) state"

definition ensureVpc :: "Manager \<Rightarrow> NetworkSpec \<Rightarrow> string \<Rightarrow> NetworkSpec upd" where
  "ensureVpc m spec clusterName =
     (let vpc = ns_VPC spec; name = (if vpc_Name vpc = '''' then clusterName @ ''-vpc'' else vpc_Name vpc);
          record_id = (\<lambda>i. spec \<lparr> ns_VPC := vpc \<lparr> vpc_ResourceID := i \<rparr> \<rparr>) in
      if vpc_ResourceID vpc \<noteq> '''' then State_Monad.return (spec, None)
      else do {
        found \<leftarrow> findVpcByName m name;
        if found \<noteq> '''' then do {
          err \<leftarrow> verifyVpcOwned m found name clusterName;
          State_Monad.return (if err \<noteq> None then (spec, err) else (record_id found, None)) }
        else do {
          r \<leftarrow> send (VpcReq (CreateVpcReq (strPtrOrNil name)
                 (strPtrOrNil (if vpc_CIDR vpc = '''' then defaultVPCCIDR else vpc_CIDR vpc))
                 (strPtrOrNil (vpc_Description vpc)) (resourceTagList m clusterName))) (ans_CreateVpc (mgr_cloud m));
          State_Monad.return (case r of
            Inl e \<Rightarrow> (spec, Some (WrapErr (msgf [''CreateVpc '', name, '' failed'']) e))
          | Inr None \<Rightarrow> (spec, Some (PlainErr (msgf [''CreateVpc '', name, '' returned no id''])))
          | Inr (Some v) \<Rightarrow> if sv_Id v = ''''
              then (spec, Some (PlainErr (msgf [''CreateVpc '', name, '' returned no id''])))
              else (record_id (sv_Id v), None)) } })"

definition ReconcileVpc :: "Manager \<Rightarrow> NetworkSpec \<Rightarrow> string \<Rightarrow> NetworkSpec upd" where
  "ReconcileVpc m spec clusterName = (let vpc = ns_VPC spec in
     if vpc_ID vpc \<noteq> '''' then
       (if \<not> IsOwned (vpc_Tags vpc) clusterName then State_Monad.return (spec, None)
        else State_Monad.return
          (ensureDefaultSubnet (spec \<lparr> ns_VPC := vpc \<lparr> vpc_ResourceID := vpc_ID vpc \<rparr> \<rparr>) clusterName, None))
     else do {
       (spec1, err) \<leftarrow> ensureVpc m spec clusterName;
       State_Monad.return (if err \<noteq> None then (spec1, err) else (ensureDefaultSubnet spec1 clusterName, None)) })"

text \<open>One round of the subnet loop, in its two halves: the search in the listing, and the creation.\<close>

definition adopt_subnet :: "Manager \<Rightarrow> SdkSubnet list \<Rightarrow> string \<Rightarrow> string \<Rightarrow> Subnet \<Rightarrow> Subnet upd" where
  "adopt_subnet m existing name clusterName s = (case find (\<lambda>x. ss_Name x = name) existing of
      None \<Rightarrow> State_Monad.return (s, None)
    | Some x \<Rightarrow> do {
        e \<leftarrow> verifySubnetOwned m (ss_Id x) name clusterName;
        State_Monad.return (if e \<noteq> None then (s, e)
          else (s \<lparr> sub_ResourceID := ss_Id x, sub_NeutronSubnetID := ss_NeutronSubnetId x \<rparr>, None)) })"

definition create_subnet :: "Manager \<Rightarrow> string \<Rightarrow> string \<Rightarrow> string \<Rightarrow> Subnet \<Rightarrow> Subnet upd" where
  "create_subnet m vpcID name clusterName s =
     (if sub_CIDR s = ''''
      then State_Monad.return (s, Some (PlainErr
             (msgf [''subnet '', name, '' has no cidr (managed subnets require one)''])))
      else do {
        r \<leftarrow> send (VpcReq (CreateSubnetReq \<lparr> cso_Name = name, cso_Cidr = sub_CIDR s, cso_VpcId = vpcID,
               cso_GatewayIp = gatewayIP (sub_CIDR s), cso_AvailabilityZone = strPtrOrNil (sub_AvailabilityZone s),
               cso_PrimaryDns = None, cso_SecondaryDns = None, cso_Tags = resourceTagList m clusterName \<rparr>)) (ans_CreateSubnet (mgr_cloud m));
        State_Monad.return (case r of
          Inl e \<Rightarrow> (s, Some (WrapErr (msgf [''CreateSubnet '', name, '' failed'']) e))
        | Inr None \<Rightarrow> (s, Some (PlainErr (msgf [''CreateSubnet '', name, '' returned no id''])))
        | Inr (Some x) \<Rightarrow> if ss_Id x = ''''
            then (s, Some (PlainErr (msgf [''CreateSubnet '', name, '' returned no id''])))
            else (s \<lparr> sub_ResourceID := ss_Id x, sub_NeutronSubnetID := ss_NeutronSubnetId x \<rparr>, None)) })"

text \<open>\<open>i\<close> is the index of the subnet in the spec.\<close>

definition ensure_subnet :: "Manager \<Rightarrow> string \<Rightarrow> SdkSubnet list \<Rightarrow> string \<Rightarrow> nat \<Rightarrow> Subnet \<Rightarrow> Subnet upd" where
  "ensure_subnet m vpcID existing clusterName i s =
     (let name = (if sub_Name s = '''' then msgf [clusterName, ''-subnet-'', dec_string i] else sub_Name s) in
      if sub_ID s \<noteq> '''' \<or> sub_ResourceID s \<noteq> '''' then State_Monad.return (s, None)
      else do {
        (s1, err) \<leftarrow> adopt_subnet m existing name clusterName s;
        if err \<noteq> None then State_Monad.return (s1, err)
        else if sub_ResourceID s1 \<noteq> '''' then State_Monad.return (s1, None)
        else create_subnet m vpcID name clusterName s1 })"

fun ensure_subnets_loop :: "Manager \<Rightarrow> string \<Rightarrow> SdkSubnet list \<Rightarrow> string \<Rightarrow> nat \<Rightarrow> Subnet list \<Rightarrow> Subnet list upd" where
  "ensure_subnets_loop m vpcID existing clusterName i [] = State_Monad.return ([], None)"
| "ensure_subnets_loop m vpcID existing clusterName i (s # ss) = do {
     (s1, err) \<leftarrow> ensure_subnet m vpcID existing clusterName i s;
     if err \<noteq> None then State_Monad.return (s1 # ss, err)
     else do {
       (ss1, err1) \<leftarrow> ensure_subnets_loop m vpcID existing clusterName (Suc i) ss;
       State_Monad.return (s1 # ss1, err1) } }"

definition ensureSubnets :: "Manager \<Rightarrow> NetworkSpec \<Rightarrow> string \<Rightarrow> NetworkSpec upd" where
  "ensureSubnets m spec clusterName =
     (if ns_Subnets spec = []
      then State_Monad.return (spec, Some (PlainErr ''managed network requires at least one subnet''))
      else do {
        existing \<leftarrow> listSubnets m (vpc_ResourceID (ns_VPC spec));
        (ss, err) \<leftarrow> ensure_subnets_loop m (vpc_ResourceID (ns_VPC spec)) existing clusterName 0 (ns_Subnets spec);
        State_Monad.return (spec \<lparr> ns_Subnets := ss \<rparr>, err) })"

definition ReconcileSubnets :: "Manager \<Rightarrow> NetworkSpec \<Rightarrow> string \<Rightarrow> NetworkSpec upd" where
  "ReconcileSubnets m spec clusterName = ensureSubnets m spec clusterName"

section \<open>The NAT gateway\<close>

text \<open>The shape shared by the deletions: look the resource up, tolerate NotFound from both calls.\<close>

definition show_then :: "(history, 'a) go \<Rightarrow> (history, unit) go \<Rightarrow> (history, unit) go" where
  "show_then shw del = do {
     r \<leftarrow> shw;
     case r of
       Inl e \<Rightarrow> if IsNotFound e then ok () else fail e
     | Inr _ \<Rightarrow> del }"

definition tolerant :: "(history, unit) go \<Rightarrow> (history, unit) go" where
  "tolerant del = do {
     d \<leftarrow> del;
     case d of Inl e \<Rightarrow> if IsNotFound e then ok () else fail e | Inr _ \<Rightarrow> ok () }"

definition deleteEip :: "Manager \<Rightarrow> string \<Rightarrow> (history, unit) go" where
  "deleteEip m eipID =
     show_then (send (EipReq (ShowPublicipReq eipID)) (ack (mgr_cloud m)))
       (tolerant (hw_DeletePublicip (mgr_cloud m) eipID))"

text \<open>The tags of a new EIP, one call each: the owned tag first.\<close>

definition eip_tag_list :: "Manager \<Rightarrow> string \<Rightarrow> (string \<times> string) list" where
  "eip_tag_list m clusterName = (OwnedTagKey clusterName, ''owned'') #
     filter (\<lambda>(k, _). k \<noteq> OwnedTagKey clusterName) (mgr_additionalTags m)"

fun tag_eip_loop :: "Manager \<Rightarrow> string \<Rightarrow> (string \<times> string) list \<Rightarrow> string upd" where
  "tag_eip_loop m eipID [] = State_Monad.return (eipID, None)"
| "tag_eip_loop m eipID ((k, v) # ts) = do {
     r \<leftarrow> send (EipReq (CreatePublicipTagReq eipID k v)) (ack (mgr_cloud m));
     case r of
       Inr _ \<Rightarrow> tag_eip_loop m eipID ts
     | Inl e \<Rightarrow> do {
         d \<leftarrow> deleteEip m eipID;
         State_Monad.return (case d of
           Inl _ \<Rightarrow> (eipID, Some (WrapErr (msgf [''CreatePublicipTag('', k, '') on '', eipID,
             '' failed; deleting the untagged EIP also failed (id returned for cleanup)'']) e))
         | Inr _ \<Rightarrow> ('''', Some (WrapErr (msgf [''CreatePublicipTag('', k, '') on '', eipID,
             '' failed; untagged EIP deleted to avoid a leak'']) e))) } }"

text \<open>\<open>createEip\<close> returns an ID even with an error, when the EIP exists and could not be removed.\<close>

definition createEip :: "Manager \<Rightarrow> string \<Rightarrow> string \<Rightarrow> string upd" where
  "createEip m name clusterName = do {
     r \<leftarrow> send (EipReq (CreatePublicipReq name eipBandwidthSize DefaultEIPType)) (ans_CreatePublicip (mgr_cloud m));
     case r of
       Inl e \<Rightarrow> State_Monad.return ('''', Some (WrapErr (msgf [''CreatePublicip '', name, '' failed'']) e))
     | Inr resp \<Rightarrow> (case (case resp of Some p \<Rightarrow> pi_Id p | None \<Rightarrow> None) of
         None \<Rightarrow> State_Monad.return ('''', Some (PlainErr (msgf [''CreatePublicip '', name, '' returned no id''])))
       | Some eipID \<Rightarrow> tag_eip_loop m eipID (eip_tag_list m clusterName)) }"

definition createNatGateway :: "Manager \<Rightarrow> string \<Rightarrow> string \<Rightarrow> string \<Rightarrow> string \<Rightarrow> string \<Rightarrow> (history, string) go" where
  "createNatGateway m name vpcID subnetID spec clusterName =
     tryE (wrapE (msgf [''CreateNatGateway '', name, '' failed''])
         (send (NatReq (CreateNatGatewayReq name vpcID subnetID (natSpecEnum spec) (resourceTagList m clusterName)))
            (ans_CreateNatGateway (mgr_cloud m))))
       (\<lambda>(gid, gw). case gid of
           Some g \<Rightarrow> ok g
         | None \<Rightarrow> (case (case gw of Some g \<Rightarrow> ng_Id g | None \<Rightarrow> None) of
               Some g \<Rightarrow> ok g
             | None \<Rightarrow> fail (PlainErr (msgf [''CreateNatGateway '', name, '' returned no id'']))))"

definition nat_active :: "Manager \<Rightarrow> string \<Rightarrow> (history, bool) go" where
  "nat_active m gatewayID =
     tryE (send (NatReq (ShowNatGatewayReq gatewayID)) (ans_ShowNatGateway (mgr_cloud m)))
       (\<lambda>resp. ok (case resp of Some g \<Rightarrow> ng_Status g = Some ''ACTIVE'' | None \<Rightarrow> False))"

definition waitNatGatewayActive :: "Manager \<Rightarrow> string \<Rightarrow> (history, unit) go" where
  "waitNatGatewayActive m gatewayID =
     WaitForWithRetryable (mgr_ExponentialBackoff m) NewBackoff (nat_active m gatewayID)"

text \<open>The subnets that get a SNAT rule: managed node subnets that have none yet.\<close>

definition wants_snat :: "string list \<Rightarrow> Subnet \<Rightarrow> bool" where
  "wants_snat existing s \<longleftrightarrow> \<not> (sub_ID s \<noteq> '''' \<or> sub_Type s = SubnetTypeENI \<or> sub_ResourceID s = '''' \<or>
     sub_ResourceID s \<in> set existing)"

definition ensureSnatRules :: "Manager \<Rightarrow> NetworkSpec \<Rightarrow> NatGatewaySpec \<Rightarrow> (history, unit) go" where
  "ensureSnatRules m spec ng = do {
     rules \<leftarrow> net_listSnatRules m (nat_ResourceID ng);
     forE (\<lambda>s. if \<not> wants_snat (map snr_NetworkID rules) s then ok ()
         else tryE (wrapE (msgf [''CreateNatGatewaySnatRule for subnet '', sub_ResourceID s, '' failed''])
             (send (NatReq (CreateSnatRuleReq (nat_ResourceID ng) (sub_ResourceID s) 0 (nat_EIPResourceID ng)))
                (ack (mgr_cloud m)))) (\<lambda>_. ok ()))
       (ns_Subnets spec) }"

text \<open>The three stages of \<open>ensureNatGateway\<close>: re-discovery by name, creation, and the rest.\<close>

definition discover_nat :: "Manager \<Rightarrow> string \<Rightarrow> NatGatewaySpec \<Rightarrow> NatGatewaySpec upd" where
  "discover_nat m clusterName ng =
     (if nat_ResourceID ng \<noteq> '''' then State_Monad.return (ng, None)
      else let name = clusterName @ ''-nat'' in do {
        found \<leftarrow> findNatGatewayByName m name;
        if found = '''' then State_Monad.return (ng, None)
        else do {
          err \<leftarrow> verifyNatGatewayOwned m found name clusterName;
          State_Monad.return (if err \<noteq> None then (ng, err) else (ng \<lparr> nat_ResourceID := found \<rparr>, None)) } })"

definition create_nat_eip :: "Manager \<Rightarrow> string \<Rightarrow> NatGatewaySpec \<Rightarrow> NatGatewaySpec upd" where
  "create_nat_eip m clusterName ng =
     (if nat_EIPResourceID ng \<noteq> '''' then State_Monad.return (ng, None)
      else do {
        (i, err) \<leftarrow> createEip m (clusterName @ ''-nat-eip'') clusterName;
        State_Monad.return (if i \<noteq> '''' then ng \<lparr> nat_EIPResourceID := i \<rparr> else ng, err) })"

definition create_nat :: "Manager \<Rightarrow> NetworkSpec \<Rightarrow> string \<Rightarrow> NatGatewaySpec \<Rightarrow> NatGatewaySpec upd" where
  "create_nat m spec clusterName ng =
     (if nat_ResourceID ng \<noteq> '''' then State_Monad.return (ng, None)
      else let subnetID = firstManagedNodeSubnet spec in
        if subnetID = '''' then State_Monad.return (ng, Some (PlainErr ''natGateway requires a managed node subnet''))
        else do {
          (ng1, err) \<leftarrow> create_nat_eip m clusterName ng;
          if err \<noteq> None then State_Monad.return (ng1, err)
          else do {
            g \<leftarrow> createNatGateway m (clusterName @ ''-nat'') (vpc_ResourceID (ns_VPC spec)) subnetID (nat_Spec ng1) clusterName;
            State_Monad.return (case g of Inl e \<Rightarrow> (ng1, Some e)
              | Inr gwID \<Rightarrow> (ng1 \<lparr> nat_ResourceID := gwID \<rparr>, None)) } })"

definition finish_nat :: "Manager \<Rightarrow> NetworkSpec \<Rightarrow> NatGatewaySpec \<Rightarrow> NatGatewaySpec upd" where
  "finish_nat m spec ng = do {
     w \<leftarrow> waitNatGatewayActive m (nat_ResourceID ng);
     case w of
       Inl e \<Rightarrow> State_Monad.return (ng, Some e)
     | Inr _ \<Rightarrow> do {
         ng1 \<leftarrow> (if nat_EIPResourceID ng \<noteq> '''' then State_Monad.return ng
                else do {
                  i \<leftarrow> findEipBySnatRules m (nat_ResourceID ng);
                  State_Monad.return (if i \<noteq> '''' then ng \<lparr> nat_EIPResourceID := i \<rparr> else ng) });
         r \<leftarrow> ensureSnatRules m spec ng1;
         State_Monad.return (ng1, err_of r) } }"

definition ensureNatGateway :: "Manager \<Rightarrow> NetworkSpec \<Rightarrow> string \<Rightarrow> NatGatewaySpec \<Rightarrow> NatGatewaySpec upd" where
  "ensureNatGateway m spec clusterName ng = do {
     (ng1, err1) \<leftarrow> discover_nat m clusterName ng;
     if err1 \<noteq> None then State_Monad.return (ng1, err1)
     else do {
       (ng2, err2) \<leftarrow> create_nat m spec clusterName ng1;
       if err2 \<noteq> None then State_Monad.return (ng2, err2)
       else finish_nat m spec ng2 } }"

definition ReconcileNatGateway :: "Manager \<Rightarrow> NetworkSpec \<Rightarrow> string \<Rightarrow> NetworkSpec upd" where
  "ReconcileNatGateway m spec clusterName = (case ns_NatGateway spec of
      None \<Rightarrow> State_Monad.return (spec, None)
    | Some ng \<Rightarrow> do {
        (ng1, err) \<leftarrow> ensureNatGateway m spec clusterName ng;
        State_Monad.return (spec \<lparr> ns_NatGateway := Some ng1 \<rparr>, err) })"

section \<open>The security group\<close>

definition securityGroupRuleExists :: "SdkSecurityGroupRule list \<Rightarrow> string \<Rightarrow> SecurityGroupRuleSpec \<Rightarrow> bool" where
  "securityGroupRuleExists existing direction rule \<longleftrightarrow> list_ex (\<lambda>e.
     sr_Direction e = direction \<and> sr_Protocol e = sgr_Protocol rule \<and>
     sr_PortRangeMin e = sgr_PortRangeMin rule \<and> sr_PortRangeMax e = sgr_PortRangeMax rule \<and>
     sr_RemoteIpPrefix e = sgr_RemoteIPPrefix rule \<and> sr_RemoteGroupId e = sgr_RemoteGroupID rule) existing"

definition rule_option :: "string \<Rightarrow> string \<Rightarrow> SecurityGroupRuleSpec \<Rightarrow> CreateRuleOption" where
  "rule_option sgID direction rule =
     (let ports = sgr_PortRangeMin rule \<noteq> 0 \<or> sgr_PortRangeMax rule \<noteq> 0 in
      \<lparr> cro_SecurityGroupId = sgID, cro_Direction = direction,
        cro_Description = strPtrOrNil (sgr_Description rule), cro_Protocol = strPtrOrNil (sgr_Protocol rule),
        cro_RemoteIpPrefix = strPtrOrNil (sgr_RemoteIPPrefix rule),
        cro_RemoteGroupId = strPtrOrNil (sgr_RemoteGroupID rule),
        cro_PortRangeMin = (if ports then Some (sgr_PortRangeMin rule) else None),
        cro_PortRangeMax = (if ports then Some (sgr_PortRangeMax rule) else None) \<rparr>)"

definition ensureSecurityGroupRule :: "Manager \<Rightarrow> string \<Rightarrow> string \<Rightarrow> SdkSecurityGroupRule list \<Rightarrow>
    SecurityGroupRuleSpec \<Rightarrow> (history, unit) go" where
  "ensureSecurityGroupRule m sgID direction existing rule =
     (if securityGroupRuleExists existing direction rule then ok ()
      else wrapE (msgf [''CreateSecurityGroupRule on '', sgID, '' ('', direction, '') failed''])
        (send (VpcReq (CreateSecurityGroupRuleReq (rule_option sgID direction rule))) (ack (mgr_cloud m))))"

definition ensureSecurityGroupRules :: "Manager \<Rightarrow> SecurityGroupSpec \<Rightarrow> (history, unit) go" where
  "ensureSecurityGroupRules m sg = do {
     existing \<leftarrow> listSecurityGroupRules m (sgs_ResourceID sg);
     tryE (forE (ensureSecurityGroupRule m (sgs_ResourceID sg) ''ingress'' existing) (sgs_Ingress sg))
       (\<lambda>_. forE (ensureSecurityGroupRule m (sgs_ResourceID sg) ''egress'' existing) (sgs_Egress sg)) }"

text \<open>Finding or creating the group; the create request carries no tags.\<close>

definition obtain_sg :: "Manager \<Rightarrow> string \<Rightarrow> string \<Rightarrow> string \<Rightarrow> SecurityGroupSpec \<Rightarrow> SecurityGroupSpec upd" where
  "obtain_sg m vpcID name clusterName sg =
     (if sgs_ResourceID sg \<noteq> '''' then State_Monad.return (sg, None)
      else do {
        found \<leftarrow> findSecurityGroupByName m name vpcID;
        if found \<noteq> '''' then do {
          err \<leftarrow> verifySecurityGroupOwned m found name clusterName;
          State_Monad.return (if err \<noteq> None then (sg, err) else (sg \<lparr> sgs_ResourceID := found \<rparr>, None)) }
        else do {
          r \<leftarrow> send (VpcReq (CreateSecurityGroupReq name (strPtrOrNil vpcID))) (ans_CreateSecurityGroup (mgr_cloud m));
          State_Monad.return (case r of
            Inl e \<Rightarrow> (sg, Some (WrapErr (msgf [''CreateSecurityGroup '', name, '' failed'']) e))
          | Inr None \<Rightarrow> (sg, Some (PlainErr (msgf [''CreateSecurityGroup '', name, '' returned no id''])))
          | Inr (Some g) \<Rightarrow> if sg_Id g = ''''
              then (sg, Some (PlainErr (msgf [''CreateSecurityGroup '', name, '' returned no id''])))
              else (sg \<lparr> sgs_ResourceID := sg_Id g \<rparr>, None)) } })"

definition ensureSecurityGroup :: "Manager \<Rightarrow> NetworkSpec \<Rightarrow> string \<Rightarrow> SecurityGroupSpec \<Rightarrow> SecurityGroupSpec upd" where
  "ensureSecurityGroup m spec clusterName sg =
     (let name = (if sgs_Name sg = '''' then clusterName @ ''-node'' else sgs_Name sg);
          vpcID = (if vpc_ResourceID (ns_VPC spec) = '''' then vpc_ID (ns_VPC spec) else vpc_ResourceID (ns_VPC spec))
      in do {
        (sg1, err) \<leftarrow> obtain_sg m vpcID name clusterName sg;
        if err \<noteq> None then State_Monad.return (sg1, err)
        else do {
          r \<leftarrow> ensureSecurityGroupRules m sg1;
          State_Monad.return (sg1, err_of r) } })"

definition ReconcileSecurityGroup :: "Manager \<Rightarrow> NetworkSpec \<Rightarrow> string \<Rightarrow> NetworkSpec upd" where
  "ReconcileSecurityGroup m spec clusterName = (case ns_SecurityGroup spec of
      None \<Rightarrow> State_Monad.return (spec, None)
    | Some sg \<Rightarrow> do {
        (sg1, err) \<leftarrow> ensureSecurityGroup m spec clusterName sg;
        State_Monad.return (spec \<lparr> ns_SecurityGroup := Some sg1 \<rparr>, err) })"

section \<open>Teardown\<close>

definition deleteSnatRules :: "Manager \<Rightarrow> string \<Rightarrow> (history, unit) go" where
  "deleteSnatRules m gatewayID = do {
     (_, _, ruleErr) \<leftarrow> DeleteSnatRules (mgr_cloud m) gatewayID;
     State_Monad.return (case ruleErr of Some e \<Rightarrow> Inl e | None \<Rightarrow> Inr ()) }"

definition deleteNatGateway :: "Manager \<Rightarrow> string \<Rightarrow> (history, unit) go" where
  "deleteNatGateway m gatewayID =
     show_then (send (NatReq (ShowNatGatewayReq gatewayID)) (ans_ShowNatGateway (mgr_cloud m)))
       (tolerant (hw_DeleteNatGateway (mgr_cloud m) gatewayID))"

definition deleteSecurityGroup :: "Manager \<Rightarrow> string \<Rightarrow> (history, unit) go" where
  "deleteSecurityGroup m sgID =
     show_then (send (VpcReq (ShowSecurityGroupReq sgID)) (ack (mgr_cloud m))) (do {
       rules \<leftarrow> listSecurityGroupRules m sgID;
       tryE (forE (\<lambda>r. tolerant (send (VpcReq (DeleteSecurityGroupRuleReq (sr_Id r))) (ack (mgr_cloud m)))) rules)
         (\<lambda>_. tolerant (send (VpcReq (DeleteSecurityGroupReq sgID)) (ack (mgr_cloud m)))) })"

definition deleteSubnet :: "Manager \<Rightarrow> string \<Rightarrow> string \<Rightarrow> (history, unit) go" where
  "deleteSubnet m vpcID subnetID =
     show_then (send (VpcReq (ShowSubnetReq subnetID)) (ack (mgr_cloud m)))
       (tolerant (send (VpcReq (DeleteSubnetReq vpcID subnetID)) (ack (mgr_cloud m))))"

definition net_deleteVpc :: "Manager \<Rightarrow> string \<Rightarrow> (history, unit) go" where
  "net_deleteVpc m vpcID =
     show_then (send (VpcReq (ShowVpcReq vpcID)) (ack (mgr_cloud m)))
       (tolerant (hw_DeleteVpc (mgr_cloud m) vpcID))"

text \<open>\<open>if err := del(); err != nil { errs = append(errs, errors.Wrap(err, msg)) }\<close>\<close>

definition collect :: "string \<Rightarrow> (history, unit) go \<Rightarrow> (history, go_error list) state" where
  "collect msg del = do {
     r \<leftarrow> del;
     State_Monad.return (case r of Inl e \<Rightarrow> [WrapErr msg e] | Inr _ \<Rightarrow> []) }"

definition wrap_opt :: "string \<Rightarrow> go_error option \<Rightarrow> go_error list" where
  "wrap_opt msg e = (case e of Some x \<Rightarrow> [WrapErr msg x] | None \<Rightarrow> [])"

definition delete_gateway_part :: "Manager \<Rightarrow> string \<Rightarrow> (history, go_error list) state" where
  "delete_gateway_part m gwID =
     (if gwID = '''' then State_Monad.return []
      else do {
        (rulesErr, gatewayErr) \<leftarrow> DeleteNatGatewayOrdered (deleteSnatRules m gwID) (deleteNatGateway m gwID) False;
        State_Monad.return (wrap_opt ''delete SNAT rules'' rulesErr @
          wrap_opt (msgf [''delete NAT gateway '', gwID]) gatewayErr) })"

definition delete_eip_part :: "Manager \<Rightarrow> string \<Rightarrow> (history, go_error list) state" where
  "delete_eip_part m eipID =
     (if eipID = '''' then State_Monad.return [] else collect (msgf [''delete EIP '', eipID]) (deleteEip m eipID))"

definition teardown_gateway :: "Manager \<Rightarrow> NetworkSpec \<Rightarrow> string \<Rightarrow> (history, string) state" where
  "teardown_gateway m spec clusterName = (case ns_NatGateway spec of
      None \<Rightarrow> State_Monad.return ''''
    | Some ng \<Rightarrow> if nat_ResourceID ng = '''' then findNatGatewayByName m (clusterName @ ''-nat'')
        else State_Monad.return (nat_ResourceID ng))"

definition teardown_eip :: "Manager \<Rightarrow> NatGatewaySpec \<Rightarrow> string \<Rightarrow> (history, string) state" where
  "teardown_eip m ng gwID =
     (if nat_EIPResourceID ng = '''' \<and> gwID \<noteq> '''' then findEipBySnatRules m gwID
      else State_Monad.return (nat_EIPResourceID ng))"

definition delete_nat_part :: "Manager \<Rightarrow> NetworkSpec \<Rightarrow> string \<Rightarrow> (history, go_error list) state" where
  "delete_nat_part m spec clusterName = (case ns_NatGateway spec of
      None \<Rightarrow> State_Monad.return []
    | Some ng \<Rightarrow>
        if nat_ResourceID ng \<noteq> '''' \<or> nat_EIPResourceID ng \<noteq> '''' then do {
          gwID \<leftarrow> teardown_gateway m spec clusterName;
          eipID \<leftarrow> teardown_eip m ng gwID;
          errs1 \<leftarrow> delete_gateway_part m gwID;
          errs2 \<leftarrow> delete_eip_part m eipID;
          State_Monad.return (errs1 @ errs2) }
        else State_Monad.return [])"

definition delete_sg_part :: "Manager \<Rightarrow> NetworkSpec \<Rightarrow> (history, go_error list) state" where
  "delete_sg_part m spec = (case ns_SecurityGroup spec of
      None \<Rightarrow> State_Monad.return []
    | Some sg \<Rightarrow> if sgs_ResourceID sg = '''' then State_Monad.return []
        else collect (msgf [''delete security group '', sgs_ResourceID sg]) (deleteSecurityGroup m (sgs_ResourceID sg)))"

fun delete_subnets_loop :: "Manager \<Rightarrow> string \<Rightarrow> Subnet list \<Rightarrow> (history, go_error list) state" where
  "delete_subnets_loop m vpcID [] = State_Monad.return []"
| "delete_subnets_loop m vpcID (s # ss) =
     (if sub_ResourceID s = '''' then delete_subnets_loop m vpcID ss
      else do {
        e \<leftarrow> collect (msgf [''delete subnet '', sub_ResourceID s]) (deleteSubnet m vpcID (sub_ResourceID s));
        es \<leftarrow> delete_subnets_loop m vpcID ss;
        State_Monad.return (e @ es) })"

definition network_vpc :: "NetworkSpec \<Rightarrow> string" where
  "network_vpc spec = (if vpc_ResourceID (ns_VPC spec) = '''' then vpc_ID (ns_VPC spec)
     else vpc_ResourceID (ns_VPC spec))"

definition is_byo :: "NetworkSpec \<Rightarrow> string \<Rightarrow> bool" where
  "is_byo spec clusterName \<longleftrightarrow>
     vpc_ID (ns_VPC spec) \<noteq> '''' \<and> \<not> IsOwned (vpc_Tags (ns_VPC spec)) clusterName"

definition DeleteNetwork :: "Manager \<Rightarrow> NetworkSpec \<Rightarrow> string \<Rightarrow> (history, go_error option) state" where
  "DeleteNetwork m spec clusterName =
     (if is_byo spec clusterName then State_Monad.return None
      else let vpcID = network_vpc spec in
        if vpcID = '''' then State_Monad.return None
        else do {
          e1 \<leftarrow> delete_nat_part m spec clusterName;
          e2 \<leftarrow> delete_sg_part m spec;
          e3 \<leftarrow> delete_subnets_loop m vpcID (ns_Subnets spec);
          e4 \<leftarrow> collect (msgf [''delete VPC '', vpcID]) (net_deleteVpc m vpcID);
          State_Monad.return (joinErrors (e1 @ e2 @ e3 @ e4)) })"

end
