(* ===== verification/NetTeardown.thy ===== *)
theory NetTeardown
  imports NetManager
begin

text \<open>
  Facts about the teardown of the managed network (\<open>DeleteNetwork\<close>): the order of the deletions, that
  one failure does not keep the others from being attempted, that success means everything recorded is
  gone, and that a referenced (BYO) network is never touched.
\<close>

section \<open>What a part of the teardown sends\<close>

text \<open>The position of a request in the dependency order; 0 for the lookups of the teardown, 99 for anything
  the teardown has no business sending.\<close>

definition del_rank :: "request \<Rightarrow> nat" where
  "del_rank q = (case q of
      NatReq (DeleteSnatRuleReq _ _) \<Rightarrow> 1
    | NatReq (DeleteNatGatewayReq _) \<Rightarrow> 2
    | EipReq (DeletePublicipReq _) \<Rightarrow> 3
    | VpcReq (DeleteSecurityGroupRuleReq _) \<Rightarrow> 4
    | VpcReq (DeleteSecurityGroupReq _) \<Rightarrow> 5
    | VpcReq (DeleteSubnetReq _ _) \<Rightarrow> 6
    | VpcReq (DeleteVpcReq _) \<Rightarrow> 7
    | NatReq (ListNatGatewaysReq _ _ _) \<Rightarrow> 0
    | NatReq (ListSnatRulesReq _) \<Rightarrow> 0
    | NatReq (ShowNatGatewayReq _) \<Rightarrow> 0
    | EipReq (ShowPublicipReq _) \<Rightarrow> 0
    | VpcReq (ShowSecurityGroupReq _) \<Rightarrow> 0
    | VpcReq (ListSecurityGroupRulesReq _) \<Rightarrow> 0
    | VpcReq (ShowSubnetReq _) \<Rightarrow> 0
    | VpcReq (ShowVpcReq _) \<Rightarrow> 0
    | _ \<Rightarrow> 99)"

text \<open>\<open>phase a b m\<close>: \<open>m\<close> only sends lookups and deletions of ranks \<open>a\<close> to \<open>b\<close>, in rank order.\<close>

definition in_phase :: "nat \<Rightarrow> nat \<Rightarrow> request list \<Rightarrow> bool" where
  "in_phase a b new \<longleftrightarrow> sorted (map del_rank (filter (\<lambda>q. del_rank q \<noteq> 0) new)) \<and>
     list_all (\<lambda>q. del_rank q = 0 \<or> a \<le> del_rank q \<and> del_rank q \<le> b) new"

definition phase :: "nat \<Rightarrow> nat \<Rightarrow> (history, 'a) state \<Rightarrow> bool" where
  "phase a b m \<longleftrightarrow> (\<forall>tr. \<exists>new. snd (run_state m tr) = tr @ new \<and> in_phase a b new)"

lemma in_phase_append:
  "in_phase a b xs \<Longrightarrow> in_phase b c ys \<Longrightarrow> a \<le> b \<Longrightarrow> b \<le> c \<Longrightarrow> in_phase a c (xs @ ys)"
  by (fastforce simp: in_phase_def sorted_append list_all_iff)

lemma in_phase_weaken: "in_phase a b xs \<Longrightarrow> a' \<le> a \<Longrightarrow> b \<le> b' \<Longrightarrow> in_phase a' b' xs"
  by (fastforce simp: in_phase_def list_all_iff)

lemma phase_weaken: "phase a b m \<Longrightarrow> a' \<le> a \<Longrightarrow> b \<le> b' \<Longrightarrow> phase a' b' m"
  unfolding phase_def using in_phase_weaken by blast

lemma phase_sends:
  assumes "sends (\<lambda>q. del_rank q = 0 \<or> del_rank q = a) m"
  shows "phase a a m"
proof -
  have same: "list_all (\<lambda>q. del_rank q = 0 \<or> del_rank q = a) new \<Longrightarrow> in_phase a a new" for new
    by (induction new) (auto simp: in_phase_def list_all_iff)
  show ?thesis
    unfolding phase_def using sendsD[OF assms] same by (auto simp: extends_def)
qed

lemma phase_bind:
  assumes "phase a b m" and "\<And>r. phase b c (k r)" and "a \<le> b" "b \<le> c"
  shows "phase a c (m \<bind> k)"
proof -
  have "\<exists>new. snd (run_state (m \<bind> k) tr) = tr @ new \<and> in_phase a c new" for tr
  proof -
    obtain r w where m: "run_state m tr = (r, w)" by fastforce
    obtain x where x: "w = tr @ x" "in_phase a b x" using assms(1) m unfolding phase_def by (metis snd_conv)
    obtain y where y: "snd (run_state (k r) w) = w @ y" "in_phase b c y"
      using assms(2) unfolding phase_def by metis
    show ?thesis
      using in_phase_append[OF x(2) y(2) assms(3,4)] x(1) y(1) by (simp add: State_Monad.bind_def m)
  qed
  then show ?thesis by (simp add: phase_def)
qed

lemma phase_return: "phase a b (State_Monad.return x)"
  by (simp add: phase_def in_phase_def)

lemma phase_wrap: "phase a b m \<Longrightarrow> phase a b (m \<bind> (\<lambda>r. State_Monad.return (f r)))"
  by (simp add: phase_def State_Monad.bind_def split: prod.splits) (metis snd_conv)

section \<open>The parts\<close>

lemma sends_listings [sends_intros]:
  "P (VpcReq (ListSecurityGroupRulesReq g)) \<Longrightarrow> sends P (listSecurityGroupRules m g)"
  "P (NatReq (ListSnatRulesReq gw)) \<Longrightarrow> sends P (net_listSnatRules m gw)"
  "P (NatReq (ListSnatRulesReq gw)) \<Longrightarrow> sends P (findEipBySnatRules m gw)"
  "P (NatReq (ListNatGatewaysReq (Some n) None None)) \<Longrightarrow> sends P (findNatGatewayByName m n)"
  unfolding listSecurityGroupRules_def findEipBySnatRules_def net_listSnatRules_def findNatGatewayByName_def
    findNatGateway_def
  by (intro sends_intros; assumption)+

lemma sends_show_then [sends_intros]: "sends P a \<Longrightarrow> sends P b \<Longrightarrow> sends P (show_then a b)"
  unfolding show_then_def by (intro sends_intros)

lemma sends_tolerant [sends_intros]: "sends P a \<Longrightarrow> sends P (tolerant a)"
  unfolding tolerant_def by (intro sends_intros)

lemma sends_collect [sends_intros]: "sends P a \<Longrightarrow> sends P (collect msg a)"
  unfolding collect_def by (intro sends_intros)

lemma sends_deletes [sends_intros]:
  "P (NatReq (ShowNatGatewayReq g)) \<Longrightarrow> P (NatReq (DeleteNatGatewayReq g)) \<Longrightarrow> sends P (deleteNatGateway m g)"
  "P (EipReq (ShowPublicipReq e)) \<Longrightarrow> P (EipReq (DeletePublicipReq e)) \<Longrightarrow> sends P (deleteEip m e)"
  "P (VpcReq (ShowSubnetReq s)) \<Longrightarrow> P (VpcReq (DeleteSubnetReq v s)) \<Longrightarrow> sends P (deleteSubnet m v s)"
  "P (VpcReq (ShowVpcReq v)) \<Longrightarrow> P (VpcReq (DeleteVpcReq v)) \<Longrightarrow> sends P (net_deleteVpc m v)"
  unfolding deleteNatGateway_def deleteEip_def deleteSubnet_def net_deleteVpc_def
  by (intro sends_intros; assumption)+

lemma sends_deleteSnatRules [sends_intros]:
  "P (NatReq (ListSnatRulesReq g)) \<Longrightarrow> (\<And>r. P (NatReq (DeleteSnatRuleReq g r))) \<Longrightarrow> sends P (deleteSnatRules m g)"
  unfolding deleteSnatRules_def by (intro sends_intros) auto

lemma sends_deleteSecurityGroup [sends_intros]:
  "P (VpcReq (ShowSecurityGroupReq g)) \<Longrightarrow> P (VpcReq (ListSecurityGroupRulesReq g)) \<Longrightarrow>
   (\<And>r. P (VpcReq (DeleteSecurityGroupRuleReq r))) \<Longrightarrow> P (VpcReq (DeleteSecurityGroupReq g)) \<Longrightarrow>
     sends P (deleteSecurityGroup m g)"
  unfolding deleteSecurityGroup_def by (intro sends_intros) auto

lemma phase_if: "(b \<Longrightarrow> phase i j m) \<Longrightarrow> (\<not> b \<Longrightarrow> phase i j n) \<Longrightarrow> phase i j (if b then m else n)"
  by simp

lemma phase_gateway: "phase 1 2 (delete_gateway_part m g)"
proof -
  have "phase 1 1 (deleteSnatRules m g)"
    by (intro phase_sends sends_intros) (auto simp: del_rank_def)
  moreover have "phase 2 2 (deleteNatGateway m g)"
    by (intro phase_sends sends_intros) (auto simp: del_rank_def)
  ultimately have "phase 1 2 (DeleteNatGatewayOrdered (deleteSnatRules m g) (deleteNatGateway m g) False)"
    unfolding DeleteNatGatewayOrdered_def
    by (intro phase_bind[of 1 1 "deleteSnatRules m g" 2] phase_if phase_return phase_wrap
        phase_weaken[of 2 2 "deleteNatGateway m g" 1 2]) simp_all
  then show ?thesis
    unfolding delete_gateway_part_def
    by (intro phase_if phase_return phase_bind[of 1 2 _ 2]) (auto intro: phase_return split: prod.splits)
qed

lemma phase_eip: "phase 3 3 (delete_eip_part m e)"
  unfolding delete_eip_part_def by (intro phase_sends sends_intros) (auto simp: del_rank_def)

lemma phase_nat: "phase 1 3 (delete_nat_part m spec n)"
proof -
  have g: "phase 1 1 (teardown_gateway m spec n)" for spec
    unfolding teardown_gateway_def by (intro phase_sends sends_intros) (auto simp: del_rank_def)
  have e: "phase 1 1 (teardown_eip m ng gw)" for ng gw
    unfolding teardown_eip_def by (intro phase_sends sends_intros) (auto simp: del_rank_def)
  show ?thesis
    unfolding delete_nat_part_def
    by (cases "ns_NatGateway spec"; simp only: option.case)
      (intro phase_if phase_return phase_bind[OF g, of 3] phase_bind[OF e, of 3] phase_bind[OF phase_gateway, of 3]
        phase_wrap phase_weaken[OF phase_eip, of 2 3]; simp)+
qed

lemma phase_sg: "phase 4 5 (delete_sg_part m spec)"
proof -
  have r: "phase 4 4 (listSecurityGroupRules m g)" for g
    by (intro phase_sends sends_intros) (auto simp: del_rank_def)
  have "phase 4 5 (deleteSecurityGroup m g)" for g
  proof -
    have "phase 4 4 (forE (\<lambda>r. tolerant (send (VpcReq (DeleteSecurityGroupRuleReq (sr_Id r))) (ack (mgr_cloud m)))) rules)" for rules
      by (intro phase_sends sends_intros) (auto simp: del_rank_def)
    then have l: "phase 4 5 (tryE (forE (\<lambda>r. tolerant (send (VpcReq (DeleteSecurityGroupRuleReq (sr_Id r))) (ack (mgr_cloud m)))) rules)
       (\<lambda>_. tolerant (send (VpcReq (DeleteSecurityGroupReq g)) (ack (mgr_cloud m)))))" for rules
      unfolding tryE_def fail_def
      by (rule phase_bind) (auto intro!: phase_return phase_weaken[of 5 5] phase_sends sends_intros
          simp: del_rank_def split: sum.split)
    have "phase 4 4 (send (VpcReq (ShowSecurityGroupReq g)) (ack (mgr_cloud m)))"
      by (intro phase_sends sends_intros) (auto simp: del_rank_def)
    then show ?thesis
      unfolding deleteSecurityGroup_def show_then_def ok_def fail_def
      by (rule phase_bind) (auto intro!: phase_return phase_bind[OF r] l split: sum.split)
  qed
  then show ?thesis
    unfolding delete_sg_part_def collect_def
    by (auto intro!: phase_return phase_wrap split: option.split)
qed

lemma sends_delete_subnets:
  "(\<And>s. P (VpcReq (ShowSubnetReq s)) \<and> P (VpcReq (DeleteSubnetReq v s))) \<Longrightarrow> sends P (delete_subnets_loop m v ss)"
  by (induction ss) (auto intro!: sends_intros)

text \<open>C9: The teardown respects the dependencies. Whatever the spec and the answers, \<open>DeleteNetwork\<close> only
  looks resources up and deletes, and its deletions come in the order SNAT rules, NAT gateway, EIP,
  security group rules, security group, subnets, VPC.\<close>

theorem DeleteNetwork_order:
  "\<exists>new. snd (run_state (DeleteNetwork m spec n) tr) = tr @ new \<and>
     sorted (map del_rank (filter (\<lambda>q. del_rank q \<noteq> 0) new)) \<and> list_all (\<lambda>q. del_rank q \<le> 7) new"
proof -
  have s: "phase 5 6 (delete_subnets_loop m v ss)" for v ss
    by (rule phase_weaken[OF phase_sends[of 6]]) (auto intro!: sends_delete_subnets simp: del_rank_def)
  have v: "phase 6 7 (collect msg (net_deleteVpc m v))" for msg v
    by (rule phase_weaken[OF phase_sends[of 7]]) (auto intro!: sends_intros simp: del_rank_def)
  have "phase 1 7 (DeleteNetwork m spec n)"
    unfolding DeleteNetwork_def Let_def
    by (intro phase_if phase_return phase_bind[OF phase_nat, of 7] phase_bind[OF phase_weaken[OF phase_sg, of 3 5], of 7]
        phase_bind[OF s, of 7] phase_wrap[OF v]) simp_all
  then obtain new where "snd (run_state (DeleteNetwork m spec n) tr) = tr @ new" "in_phase 1 7 new"
    unfolding phase_def by blast
  then show ?thesis by (auto simp: in_phase_def list_all_iff intro!: exI[of _ new])
qed

section \<open>Every resource is attempted\<close>

text \<open>\<open>attempt w z\<close> describes the requests \<open>z\<close> that follow the history \<open>w\<close>; a computation attempts it when that
  holds from some point of its requests on.\<close>

type_synonym attempt = "history \<Rightarrow> request list \<Rightarrow> bool"

definition occurs :: "attempt \<Rightarrow> history \<Rightarrow> history \<Rightarrow> bool" where
  "occurs A tr w \<longleftrightarrow> (\<exists>pre post. w = tr @ pre @ post \<and> A (tr @ pre) post)"

text \<open>A resource is looked up by \<open>q\<close>, and unless the lookup fails \<open>d\<close> asks for its deletion right away.\<close>

definition shown_and_deleted :: "request \<Rightarrow> 'a answer \<Rightarrow> request \<Rightarrow> attempt" where
  "shown_and_deleted q a d w z \<longleftrightarrow> (\<exists>post. z = q # post \<and>
     (case a (w @ [q]) of Inl _ \<Rightarrow> True | Inr _ \<Rightarrow> \<exists>rest. post = d # rest))"

text \<open>The deletions \<open>ds\<close> are sent one after the other and then \<open>fin\<close>, unless one of them fails for another reason
  than NotFound, which stops the list.\<close>

definition deletes_in_turn :: "request list \<Rightarrow> unit answer \<Rightarrow> request list \<Rightarrow> attempt" where
  "deletes_in_turn ds a fin w z \<longleftrightarrow>
     (\<exists>rest. z = ds @ fin @ rest) \<or>
     (\<exists>done d undone rest e. ds = done @ d # undone \<and> z = done @ d # rest \<and>
        a (w @ done @ [d]) = Inl e \<and> \<not> IsNotFound e)"

text \<open>The SNAT rules of a gateway, and a security group with its rules.\<close>

definition snat_attempt :: "Manager \<Rightarrow> string \<Rightarrow> attempt" where
  "snat_attempt m g w z \<longleftrightarrow> (\<exists>post. z = NatReq (ListSnatRulesReq g) # post \<and>
     deletes_in_turn
       (case ans_ListSnatRules (mgr_cloud m) (w @ [NatReq (ListSnatRulesReq g)]) of
          Inr (Some rules) \<Rightarrow> map (\<lambda>r. NatReq (DeleteSnatRuleReq g (sn_Id r))) rules | _ \<Rightarrow> [])
       (ack (mgr_cloud m)) [] (w @ [NatReq (ListSnatRulesReq g)]) post)"

definition sg_attempt :: "Manager \<Rightarrow> string \<Rightarrow> attempt" where
  "sg_attempt m g w z \<longleftrightarrow> (let shw = VpcReq (ShowSecurityGroupReq g); lst = VpcReq (ListSecurityGroupRulesReq g) in
     \<exists>post. z = shw # post \<and>
       (case ack (mgr_cloud m) (w @ [shw]) of Inl _ \<Rightarrow> True | Inr _ \<Rightarrow>
          \<exists>rest. post = lst # rest \<and> deletes_in_turn
            (case ans_ListSecurityGroupRules (mgr_cloud m) (w @ [shw, lst]) of
               Inr (Some rules) \<Rightarrow> map (\<lambda>r. VpcReq (DeleteSecurityGroupRuleReq (sr_Id r))) rules | _ \<Rightarrow> [])
            (ack (mgr_cloud m)) [VpcReq (DeleteSecurityGroupReq g)] (w @ [shw, lst]) rest))"

text \<open>What a teardown attempts: everything the spec records.\<close>

definition gateway_attempts :: "Manager \<Rightarrow> string \<Rightarrow> attempt list" where
  "gateway_attempts m g = (if g = '''' then [] else [snat_attempt m g,
     shown_and_deleted (NatReq (ShowNatGatewayReq g)) (ans_ShowNatGateway (mgr_cloud m)) (NatReq (DeleteNatGatewayReq g))])"

definition eip_attempts :: "Manager \<Rightarrow> string \<Rightarrow> attempt list" where
  "eip_attempts m e = (if e = '''' then [] else
     [shown_and_deleted (EipReq (ShowPublicipReq e)) (ack (mgr_cloud m)) (EipReq (DeletePublicipReq e))])"

definition sg_attempts :: "Manager \<Rightarrow> NetworkSpec \<Rightarrow> attempt list" where
  "sg_attempts m spec = (case ns_SecurityGroup spec of None \<Rightarrow> [] | Some sg \<Rightarrow>
     if sgs_ResourceID sg = '''' then [] else [sg_attempt m (sgs_ResourceID sg)])"

definition subnet_attempts :: "Manager \<Rightarrow> string \<Rightarrow> Subnet list \<Rightarrow> attempt list" where
  "subnet_attempts m v ss = map (\<lambda>s. shown_and_deleted (VpcReq (ShowSubnetReq (sub_ResourceID s))) (ack (mgr_cloud m))
     (VpcReq (DeleteSubnetReq v (sub_ResourceID s)))) (filter (\<lambda>s. sub_ResourceID s \<noteq> '''') ss)"

definition vpc_attempt :: "Manager \<Rightarrow> string \<Rightarrow> attempt" where
  "vpc_attempt m v = shown_and_deleted (VpcReq (ShowVpcReq v)) (ack (mgr_cloud m)) (VpcReq (DeleteVpcReq v))"

definition teardown_attempts :: "Manager \<Rightarrow> NetworkSpec \<Rightarrow> attempt list" where
  "teardown_attempts m spec =
     (case ns_NatGateway spec of None \<Rightarrow> [] | Some ng \<Rightarrow>
        gateway_attempts m (nat_ResourceID ng) @ eip_attempts m (nat_EIPResourceID ng)) @
     sg_attempts m spec @ subnet_attempts m (network_vpc spec) (ns_Subnets spec) @ [vpc_attempt m (network_vpc spec)]"

text \<open>\<open>visits A m\<close>: \<open>m\<close> attempts \<open>A\<close>, whatever the answers. All attempts are \<open>lasting\<close>: what is sent later does not
  undo them.\<close>

definition lasting :: "attempt \<Rightarrow> bool" where
  "lasting A \<longleftrightarrow> (\<forall>w z y. A w z \<longrightarrow> A w (z @ y))"

definition visits :: "attempt \<Rightarrow> (history, 'a) state \<Rightarrow> bool" where
  "visits A m \<longleftrightarrow> lasting A \<and> (\<forall>tr. occurs A tr (snd (run_state m tr)))"

definition grows :: "(history, 'a) state \<Rightarrow> bool" where
  "grows m \<longleftrightarrow> (\<forall>tr. \<exists>new. snd (run_state m tr) = tr @ new)"

lemma lasting_shown: "lasting (shown_and_deleted q a d)"
  by (fastforce simp: lasting_def shown_and_deleted_def split: sum.splits)

lemma deletes_in_turn_later: "deletes_in_turn ds a l w z \<Longrightarrow> deletes_in_turn ds a l w (z @ y)"
  unfolding deletes_in_turn_def by (metis append.assoc append_Cons)

lemma lasting_snat: "lasting (snat_attempt m g)"
  unfolding lasting_def snat_attempt_def by (auto intro: deletes_in_turn_later)

lemma lasting_sg: "lasting (sg_attempt m g)"
proof -
  have "sg_attempt m g w (z @ y)" if s: "sg_attempt m g w z" for w z y
  proof (cases "ack (mgr_cloud m) (w @ [VpcReq (ShowSecurityGroupReq g)])")
    case (Inl e)
    then show ?thesis using s by (auto simp: sg_attempt_def)
  next
    case (Inr x)
    then show ?thesis using s unfolding sg_attempt_def Let_def by (auto intro: deletes_in_turn_later)
  qed
  then show ?thesis by (simp add: lasting_def)
qed

lemma phase_grows: "phase a b m \<Longrightarrow> grows m"
  by (auto simp: phase_def grows_def)

lemma sends_grows: "sends P m \<Longrightarrow> grows m"
  using sendsD[of P m] by (auto simp: grows_def extends_def)

lemma occurs_later: "lasting A \<Longrightarrow> occurs A tr w \<Longrightarrow> occurs A tr (w @ y)"
  unfolding occurs_def lasting_def by (metis append.assoc)

lemma occurs_before: "occurs A (tr @ x) w \<Longrightarrow> occurs A tr w"
  unfolding occurs_def by (metis append.assoc)

lemma visits_bind1:
  assumes "visits A m" and "\<And>r. grows (k r)" shows "visits A (m \<bind> k)"
  using assms occurs_later[of A] unfolding visits_def grows_def State_Monad.bind_def
  by (auto split: prod.split) (metis snd_conv)

lemma visits_bind2:
  assumes "grows m" and "\<And>r. visits A (k r)" shows "visits A (m \<bind> k)"
  using assms occurs_before[of A] unfolding visits_def grows_def State_Monad.bind_def
  by (auto split: prod.split) (metis snd_conv)

lemma grows_bind: "grows m \<Longrightarrow> (\<And>r. grows (k r)) \<Longrightarrow> grows (m \<bind> k)"
  unfolding grows_def State_Monad.bind_def by (auto split: prod.splits) (metis append.assoc snd_conv)

lemma grows_return: "grows (State_Monad.return x)"
  by (simp add: grows_def)

lemma visits_wrap: "visits A m \<Longrightarrow> visits A (m \<bind> (\<lambda>r. State_Monad.return (f r)))"
  by (intro visits_bind1 grows_return)

lemma visits_collect: "visits A m \<Longrightarrow> visits A (collect msg m)"
  unfolding collect_def by (rule visits_wrap)

lemma visits_wp: "lasting A \<Longrightarrow> (\<And>tr. wp m (\<lambda>_. occurs A tr) tr) \<Longrightarrow> visits A m"
  by (simp add: visits_def wp_run)

text \<open>The deletions of the teardown, one lemma for each kind of attempt.\<close>

lemma visits_show_then: "visits (shown_and_deleted q a d) (show_then (send q a) (tolerant (send d da)))"
proof (rule visits_wp[OF lasting_shown])
  fix tr
  have "occurs (shown_and_deleted q a d) tr (tr @ z)" if "shown_and_deleted q a d tr z" for z
    using that unfolding occurs_def by (metis append_Nil append_Nil2)
  then show "wp (show_then (send q a) (tolerant (send d da))) (\<lambda>_. occurs (shown_and_deleted q a d) tr) tr"
    by (auto simp: show_then_def tolerant_def wp_simps shown_and_deleted_def split: sum.splits)
qed

lemma deletes_in_turn_Cons:
  assumes "deletes_in_turn ds a l (w @ [d]) z" shows "deletes_in_turn (d # ds) a l w (d # z)"
  using assms unfolding deletes_in_turn_def by (metis append.assoc append_Cons append_Nil)

lemma delete_rules_in_turn:
  "\<exists>z. snd (run_state (delete_rules_loop cl g rs) w) = w @ z \<and>
     deletes_in_turn (map (\<lambda>r. NatReq (DeleteSnatRuleReq g (snr_ID r))) rs) (ack cl) [] w z"
proof (induction rs arbitrary: w)
  case Nil
  show ?case by (simp add: deletes_in_turn_def)
next
  case (Cons r rs)
  let ?d = "NatReq (DeleteSnatRuleReq g (snr_ID r))" and ?ds = "map (\<lambda>r. NatReq (DeleteSnatRuleReq g (snr_ID r))) rs"
  obtain z where z: "snd (run_state (delete_rules_loop cl g rs) (w @ [?d])) = (w @ [?d]) @ z"
    "deletes_in_turn ?ds (ack cl) [] (w @ [?d]) z" using Cons by blast
  show ?case
  proof (cases "\<exists>e. ack cl (w @ [?d]) = Inl e \<and> \<not> IsNotFound e")
    case True
    then have "deletes_in_turn (?d # ?ds) (ack cl) [] w [?d]" unfolding deletes_in_turn_def by fastforce
    then show ?thesis using True by (auto simp: DeleteSnatRule_def)
  next
    case False
    then show ?thesis
      using z deletes_in_turn_Cons[OF z(2)] by (auto simp: DeleteSnatRule_def split: sum.split)
  qed
qed

lemma tolerant_goes_on:
  "\<nexists>e. a (w @ [d]) = Inl e \<and> \<not> IsNotFound e \<Longrightarrow> run_state (tolerant (send d a)) w = (Inr (), w @ [d])"
  by (auto simp: tolerant_def ok_def split: sum.split)

lemma delete_group_in_turn:
  "\<exists>z. snd (run_state (tryE (forE (\<lambda>r. tolerant (send (D r) a)) rs) (\<lambda>_. tolerant (send l a))) w) = w @ z \<and>
     deletes_in_turn (map D rs) a [l] w z"
proof (induction rs arbitrary: w)
  case Nil
  show ?case by (auto simp: deletes_in_turn_def tryE_def tolerant_def ok_def fail_def split: sum.split)
next
  case (Cons r rs)
  let ?k = "\<lambda>_. tolerant (send l a)"
  obtain z where z: "snd (run_state (tryE (forE (\<lambda>r. tolerant (send (D r) a)) rs) ?k) (w @ [D r])) = (w @ [D r]) @ z"
    "deletes_in_turn (map D rs) a [l] (w @ [D r]) z" using Cons by blast
  show ?case
  proof (cases "\<exists>e. a (w @ [D r]) = Inl e \<and> \<not> IsNotFound e")
    case True
    then have "deletes_in_turn (D r # map D rs) a [l] w [D r]" unfolding deletes_in_turn_def by fastforce
    then show ?thesis using True by (auto simp: tryE_def tolerant_def fail_def)
  next
    case False
    have "run_state (tryE (forE (\<lambda>r. tolerant (send (D r) a)) (r # rs)) ?k) w =
        run_state (tryE (forE (\<lambda>r. tolerant (send (D r) a)) rs) ?k) (w @ [D r])"
      using tolerant_goes_on[of a w "D r"] False by (simp add: tryE_def split: prod.split)
    then show ?thesis
      using z deletes_in_turn_Cons[OF z(2)] by auto
  qed
qed

lemma visits_subnets_loop:
  "A \<in> set (subnet_attempts m v ss) \<Longrightarrow> visits A (delete_subnets_loop m v ss)"
proof (induction ss)
  case (Cons s ss)
  have g: "grows (delete_subnets_loop m v ss)"
    by (intro sends_grows[of "\<lambda>_. True"] sends_delete_subnets) simp
  have d: "grows (collect msg (deleteSubnet m v i))" for msg i
    by (intro sends_grows[of "\<lambda>_. True"] sends_intros) simp_all
  have here: "visits (shown_and_deleted (VpcReq (ShowSubnetReq i)) (ack (mgr_cloud m)) (VpcReq (DeleteSubnetReq v i))) (do {
        e \<leftarrow> collect msg (deleteSubnet m v i); es \<leftarrow> delete_subnets_loop m v ss; State_Monad.return (e @ es) })" for msg i
    unfolding deleteSubnet_def
    by (intro visits_bind1 visits_collect visits_show_then grows_bind g grows_return)
  have later: "visits A (do { e \<leftarrow> collect msg (deleteSubnet m v i); es \<leftarrow> delete_subnets_loop m v ss; State_Monad.return (e @ es) })"
    if "A \<in> set (subnet_attempts m v ss)" for msg i
    by (intro visits_bind2[OF d] visits_wrap Cons.IH that)
  show ?case
    using Cons here later by (auto simp: subnet_attempts_def)
qed (simp add: subnet_attempts_def)

lemma visits_gateway: "A \<in> set (gateway_attempts m g) \<Longrightarrow> visits A (delete_gateway_part m g)"
proof -
  have "occurs (snat_attempt m g) tr (snd (run_state (deleteSnatRules m g) tr))" for tr
  proof -
    let ?q = "NatReq (ListSnatRulesReq g)"
    let ?run = "snd (run_state (deleteSnatRules m g) tr)"
    have "\<exists>z. ?run = tr @ z \<and> snat_attempt m g tr z"
    proof (cases "ans_ListSnatRules (mgr_cloud m) (tr @ [?q])")
      case (Inl e)
      then show ?thesis
        by (auto simp: snat_attempt_def deletes_in_turn_def deleteSnatRules_def DeleteSnatRules_def ListSnatRules_def
            tryE_def fail_def)
    next
      case (Inr resp)
      define rs where "rs = (case resp of None \<Rightarrow> [] | Some rules \<Rightarrow> map (\<lambda>r. \<lparr> snr_ID = sn_Id r, snr_NetworkID = sn_NetworkId r,
          snr_FloatingIPID = sn_FloatingIpId r \<rparr>) rules)"
      obtain z where z: "snd (run_state (delete_rules_loop (mgr_cloud m) g rs) (tr @ [?q])) = (tr @ [?q]) @ z"
        "deletes_in_turn (map (\<lambda>r. NatReq (DeleteSnatRuleReq g (snr_ID r))) rs) (ack (mgr_cloud m)) [] (tr @ [?q]) z"
        using delete_rules_in_turn by blast
      have "?run = tr @ ?q # z"
        using z(1) Inr unfolding rs_def
        by (cases resp) (auto simp: deleteSnatRules_def DeleteSnatRules_def ListSnatRules_def tryE_def ok_def split: prod.splits)
      moreover have "snat_attempt m g tr (?q # z)"
        using z(2) Inr by (cases resp) (simp_all add: snat_attempt_def rs_def comp_def)
      ultimately show ?thesis by blast
    qed
    then show ?thesis unfolding occurs_def by (metis append_Nil append_Nil2)
  qed
  then have r: "visits (snat_attempt m g) (deleteSnatRules m g)" by (simp add: visits_def lasting_snat)
  have d: "visits (shown_and_deleted (NatReq (ShowNatGatewayReq g)) (ans_ShowNatGateway (mgr_cloud m)) (NatReq (DeleteNatGatewayReq g)))
      (deleteNatGateway m g)"
    unfolding deleteNatGateway_def hw_DeleteNatGateway_def by (rule visits_show_then)
  have gr: "grows (deleteSnatRules m g)" "grows (deleteNatGateway m g)"
    by (intro sends_grows[of "\<lambda>_. True"] sends_intros; simp)+
  let ?both = "\<lambda>f. do { x \<leftarrow> deleteSnatRules m g; y \<leftarrow> deleteNatGateway m g; State_Monad.return (f x y) }"
  have "visits A (?both f)" if "A \<in> set (gateway_attempts m g)" for f
    using that visits_bind1[OF r, of "\<lambda>x. do { y \<leftarrow> deleteNatGateway m g; State_Monad.return (f x y) }"]
      visits_bind2[OF gr(1), of _ "\<lambda>x. do { y \<leftarrow> deleteNatGateway m g; State_Monad.return (f x y) }"]
    by (auto simp: gateway_attempts_def visits_wrap[OF d] grows_bind gr grows_return split: if_splits)
  then show "visits A (delete_gateway_part m g)" if "A \<in> set (gateway_attempts m g)"
    using that by (auto simp: delete_gateway_part_def DeleteNatGatewayOrdered_def gateway_attempts_def split: if_splits)
qed

lemma visits_eip: "A \<in> set (eip_attempts m e) \<Longrightarrow> visits A (delete_eip_part m e)"
  by (auto simp: eip_attempts_def delete_eip_part_def deleteEip_def hw_DeletePublicip_def split: if_splits
      intro!: visits_collect visits_show_then)

lemma visits_nat_part:
  assumes "ns_NatGateway spec = Some ng"
    and "A \<in> set (gateway_attempts m (nat_ResourceID ng)) \<or> A \<in> set (eip_attempts m (nat_EIPResourceID ng))"
  shows "visits A (delete_nat_part m spec n)"
proof -
  have gg: "grows (delete_gateway_part m g)" for g by (rule phase_grows[OF phase_gateway])
  have ge: "grows (delete_eip_part m e)" for e by (rule phase_grows[OF phase_eip])
  have gf: "grows (findEipBySnatRules m g)" "grows (findNatGatewayByName m k)" for g k
    by (intro sends_grows[of "\<lambda>_. True"] sends_intros; simp)+
  show ?thesis
  proof (cases "A \<in> set (gateway_attempts m (nat_ResourceID ng))")
    case True
    then have "nat_ResourceID ng \<noteq> ''''" by (auto simp: gateway_attempts_def split: if_splits)
    then show ?thesis
      using assms(1) by (auto simp: delete_nat_part_def teardown_gateway_def teardown_eip_def
        intro!: visits_bind2[OF gf(1)] visits_bind1[OF visits_gateway[OF True]] grows_bind ge grows_return)
  next
    case False
    with assms(2) have A: "A \<in> set (eip_attempts m (nat_EIPResourceID ng))" by blast
    then have "nat_EIPResourceID ng \<noteq> ''''" by (auto simp: eip_attempts_def split: if_splits)
    then show ?thesis
      using assms(1) by (auto simp: delete_nat_part_def teardown_gateway_def teardown_eip_def
        intro!: visits_bind2[OF gf(2)] visits_bind2[OF gg] visits_wrap visits_eip[OF A])
  qed
qed

lemma visits_sg_part: "A \<in> set (sg_attempts m spec) \<Longrightarrow> visits A (delete_sg_part m spec)"
proof -
  have "occurs (sg_attempt m g) tr (snd (run_state (deleteSecurityGroup m g) tr))" for tr g
  proof -
    let ?q = "VpcReq (ShowSecurityGroupReq g)" and ?l = "VpcReq (ListSecurityGroupRulesReq g)" and ?a = "ack (mgr_cloud m)"
    have "\<exists>z. snd (run_state (deleteSecurityGroup m g) tr) = tr @ z \<and> sg_attempt m g tr z"
    proof (cases "?a (tr @ [?q])")
      case (Inl e)
      then show ?thesis
        by (auto simp: sg_attempt_def deleteSecurityGroup_def show_then_def ok_def fail_def)
    next
      case (Inr x)
      define rs where "rs = (case ans_ListSecurityGroupRules (mgr_cloud m) (tr @ [?q, ?l]) of Inr (Some rules) \<Rightarrow> rules | _ \<Rightarrow> [])"
      obtain z where z: "snd (run_state (tryE (forE (\<lambda>r. tolerant (send (VpcReq (DeleteSecurityGroupRuleReq (sr_Id r))) ?a)) rs)
          (\<lambda>_. tolerant (send (VpcReq (DeleteSecurityGroupReq g)) ?a))) (tr @ [?q, ?l])) = (tr @ [?q, ?l]) @ z"
        "deletes_in_turn (map (\<lambda>r. VpcReq (DeleteSecurityGroupRuleReq (sr_Id r))) rs) ?a [VpcReq (DeleteSecurityGroupReq g)]
          (tr @ [?q, ?l]) z"
        using delete_group_in_turn[of "\<lambda>r. VpcReq (DeleteSecurityGroupRuleReq (sr_Id r))" ?a rs
            "VpcReq (DeleteSecurityGroupReq g)" "tr @ [?q, ?l]"] by blast
      have "snd (run_state (deleteSecurityGroup m g) tr) = tr @ ?q # ?l # z"
        using z(1) Inr by (simp add: deleteSecurityGroup_def show_then_def listSecurityGroupRules_def rs_def[symmetric])
      moreover have "sg_attempt m g tr (?q # ?l # z)"
        using z(2) Inr by (auto simp: sg_attempt_def rs_def Let_def split: sum.splits option.splits)
      ultimately show ?thesis by blast
    qed
    then show ?thesis unfolding occurs_def by (metis append_Nil append_Nil2)
  qed
  then have "visits (sg_attempt m g) (deleteSecurityGroup m g)" for g by (simp add: visits_def lasting_sg)
  then show "visits A (delete_sg_part m spec)" if "A \<in> set (sg_attempts m spec)"
    using that by (auto simp: sg_attempts_def delete_sg_part_def intro!: visits_collect split: option.splits if_splits)
qed

lemma visits_vpc: "visits (vpc_attempt m v) (net_deleteVpc m v)"
  unfolding net_deleteVpc_def hw_DeleteVpc_def vpc_attempt_def by (rule visits_show_then)

lemma teardown_cases:
  "A \<in> set (teardown_attempts m spec) \<Longrightarrow>
     visits A (delete_nat_part m spec n) \<or> visits A (delete_sg_part m spec) \<or>
     visits A (delete_subnets_loop m (network_vpc spec) (ns_Subnets spec)) \<or> A = vpc_attempt m (network_vpc spec)"
  by (cases "ns_NatGateway spec")
    (auto simp: teardown_attempts_def visits_nat_part visits_sg_part visits_subnets_loop)

text \<open>C28: A failure does not block the rest of the teardown. Whatever the cloud answers, a teardown of a managed
  network looks up the NAT gateway, the EIP, every subnet and the VPC that the spec records, and requests the
  deletion of each right after its lookup, unless that lookup fails; it lists the SNAT rules and deletes them
  in turn; and it looks up the security group, deletes its rules in turn and then the group. The only failures
  that keep a deletion from being requested are those of the resource itself: its lookup, or for a list of
  rules the deletion of an earlier rule (other than NotFound), which leaves the later SNAT rules, or the later
  security group rules and the group itself, to the next teardown.\<close>

theorem DeleteNetwork_attempts_all:
  "if is_byo spec n \<or> network_vpc spec = ''''
   then run_state (DeleteNetwork m spec n) tr = (None, tr)
   else list_all (\<lambda>A. occurs A tr (snd (run_state (DeleteNetwork m spec n) tr))) (teardown_attempts m spec)"
proof (cases "is_byo spec n \<or> network_vpc spec = ''''")
  case False
  let ?P = "\<lambda>f. do { e1 \<leftarrow> delete_nat_part m spec n; e2 \<leftarrow> delete_sg_part m spec;
      e3 \<leftarrow> delete_subnets_loop m (network_vpc spec) (ns_Subnets spec);
      e4 \<leftarrow> collect (msgf [''delete VPC '', network_vpc spec]) (net_deleteVpc m (network_vpc spec));
      State_Monad.return (f e1 e2 e3 e4) }"
  have g: "grows (delete_nat_part m spec n)" "grows (delete_sg_part m spec)"
    "grows (delete_subnets_loop m v ss)" "grows (collect msg (net_deleteVpc m v))" for v ss msg
    by (rule phase_grows[OF phase_nat], rule phase_grows[OF phase_sg])
      (intro sends_grows[of "\<lambda>_. True"] sends_delete_subnets sends_intros; simp)+
  have vis: "visits A (?P f)" if A: "A \<in> set (teardown_attempts m spec)" for A f
    using teardown_cases[OF A, of n]
  proof (elim disjE)
    assume v: "visits A (delete_nat_part m spec n)"
    show ?thesis by (intro visits_bind1[OF v] grows_bind g grows_return)
  next
    assume v: "visits A (delete_sg_part m spec)"
    show ?thesis by (intro visits_bind2[OF g(1)] visits_bind1[OF v] grows_bind g grows_return)
  next
    assume v: "visits A (delete_subnets_loop m (network_vpc spec) (ns_Subnets spec))"
    show ?thesis
      by (intro visits_bind2[OF g(1)] visits_bind2[OF g(2)] visits_bind1[OF v] grows_bind g grows_return)
  next
    assume "A = vpc_attempt m (network_vpc spec)"
    then show ?thesis
      by (intro visits_bind2[OF g(1)] visits_bind2[OF g(2)] visits_bind2[OF g(3)] visits_wrap visits_collect)
        (simp add: visits_vpc)
  qed
  have "DeleteNetwork m spec n = ?P (\<lambda>e1 e2 e3 e4. joinErrors (e1 @ e2 @ e3 @ e4))"
    using False by (simp add: DeleteNetwork_def Let_def)
  then have "visits A (DeleteNetwork m spec n)" if "A \<in> set (teardown_attempts m spec)" for A
    using vis[OF that, of "\<lambda>e1 e2 e3 e4. joinErrors (e1 @ e2 @ e3 @ e4)"] by simp
  then show ?thesis using False by (simp add: visits_def list_all_iff)
qed (auto simp: DeleteNetwork_def)

section \<open>Success means gone\<close>

text \<open>A resource is gone when its lookup was answered NotFound or its deletion was accepted or answered
  NotFound.\<close>

definition not_found :: "go_error + 'a \<Rightarrow> bool" where
  "not_found r \<longleftrightarrow> (case r of Inl e \<Rightarrow> IsNotFound e | Inr _ \<Rightarrow> False)"

definition accepted :: "go_error + 'a \<Rightarrow> bool" where
  "accepted r \<longleftrightarrow> (case r of Inl e \<Rightarrow> IsNotFound e | Inr _ \<Rightarrow> True)"

definition gone :: "history \<Rightarrow> request \<Rightarrow> 'a answer \<Rightarrow> request \<Rightarrow> unit answer \<Rightarrow> bool" where
  "gone w shw sa del da \<longleftrightarrow> (\<exists>r. answered w shw sa r \<and> not_found r) \<or> (\<exists>r. answered w del da r \<and> accepted r)"

lemma gone_mono: "gone w q sa d da \<Longrightarrow> gone (w @ z) q sa d da"
  unfolding gone_def using answered_mono[of w q sa _ z] answered_mono[of w d da _ z] by metis

lemma gone_missing: "sa (w @ [q]) = Inl e \<Longrightarrow> IsNotFound e \<Longrightarrow> gone (w @ [q]) q sa d da"
  unfolding gone_def not_found_def using answered_now[of w q sa] by auto

text \<open>The interface the teardown relies on: a deletion that reports success leaves its resource gone. Success
  is kept by whatever runs later, so the facts of several deletions add up.\<close>

locale confirmed_delete =
  fixes del :: "Manager \<Rightarrow> 'a \<Rightarrow> (history, unit) go"
    and removed :: "Manager \<Rightarrow> 'a \<Rightarrow> history \<Rightarrow> bool"
  assumes del_removed: "wp (del m x) (\<lambda>r w. r = Inr () \<longrightarrow> removed m x w) w0"
    and removed_mono: "removed m x w \<Longrightarrow> removed m x (w @ z)"
begin

lemma collect_removed: "wp (collect msg (del m x)) (\<lambda>e w. e = [] \<longrightarrow> removed m x w) w0"
  using del_removed[of m x w0] by (auto simp: collect_def wp_simps elim!: wp_mono split: sum.splits)

lemma removed_later:
  assumes "removed m x w" "grows k" shows "wp k (\<lambda>_. removed m x) w"
  using assms removed_mono unfolding grows_def wp_run by metis

end

lemma wp_show_then:
  "wp (show_then (send q sa) (tolerant (send d da))) (\<lambda>r w. r = Inr () \<longrightarrow> gone w q sa d da) w0"
proof -
  have "answered (w0 @ [q, d]) d da (da (w0 @ [q, d]))" "answered (w0 @ [q]) q sa (sa (w0 @ [q]))"
    using answered_now[of "w0 @ [q]" d da] answered_now[of w0 q sa] by simp_all
  then show ?thesis
    by (cases "sa (w0 @ [q])"; cases "da (w0 @ [q, d])")
      (auto simp: show_then_def tolerant_def wp_simps gone_def not_found_def accepted_def
        intro: exI[of _ "sa (w0 @ [q])"] exI[of _ "da (w0 @ [q, d])"] split: sum.splits)
qed

definition eip_gone :: "Manager \<Rightarrow> string \<Rightarrow> history \<Rightarrow> bool" where
  "eip_gone m e w = gone w (EipReq (ShowPublicipReq e)) (ack (mgr_cloud m)) (EipReq (DeletePublicipReq e)) (ack (mgr_cloud m))"

definition nat_gone :: "Manager \<Rightarrow> string \<Rightarrow> history \<Rightarrow> bool" where
  "nat_gone m g w = gone w (NatReq (ShowNatGatewayReq g)) (ans_ShowNatGateway (mgr_cloud m))
     (NatReq (DeleteNatGatewayReq g)) (ack (mgr_cloud m))"

definition subnet_gone :: "Manager \<Rightarrow> string \<times> string \<Rightarrow> history \<Rightarrow> bool" where
  "subnet_gone m p w = gone w (VpcReq (ShowSubnetReq (snd p))) (ack (mgr_cloud m))
     (VpcReq (DeleteSubnetReq (fst p) (snd p))) (ack (mgr_cloud m))"

definition vpc_gone :: "Manager \<Rightarrow> string \<Rightarrow> history \<Rightarrow> bool" where
  "vpc_gone m v w = gone w (VpcReq (ShowVpcReq v)) (ack (mgr_cloud m)) (VpcReq (DeleteVpcReq v)) (ack (mgr_cloud m))"

definition sg_gone :: "Manager \<Rightarrow> string \<Rightarrow> history \<Rightarrow> bool" where
  "sg_gone m g w = gone w (VpcReq (ShowSecurityGroupReq g)) (ack (mgr_cloud m))
     (VpcReq (DeleteSecurityGroupReq g)) (ack (mgr_cloud m))"

lemmas gone_defs = eip_gone_def nat_gone_def subnet_gone_def vpc_gone_def sg_gone_def

interpretation del_eip: confirmed_delete deleteEip eip_gone
  by unfold_locales (simp_all add: deleteEip_def hw_DeletePublicip_def gone_defs wp_show_then gone_mono)

interpretation del_nat: confirmed_delete deleteNatGateway nat_gone
  by unfold_locales (simp_all add: deleteNatGateway_def hw_DeleteNatGateway_def gone_defs wp_show_then gone_mono)

interpretation del_subnet: confirmed_delete "\<lambda>m p. deleteSubnet m (fst p) (snd p)" subnet_gone
  by unfold_locales (simp_all add: deleteSubnet_def gone_defs wp_show_then gone_mono)

interpretation del_vpc: confirmed_delete net_deleteVpc vpc_gone
  by unfold_locales (simp_all add: net_deleteVpc_def hw_DeleteVpc_def gone_defs wp_show_then gone_mono)

lemma wp_tolerant_send:
  "wp (tolerant (send d da)) (\<lambda>r w. r = Inr () \<longrightarrow> gone w q sa d da) w0"
  using answered_now[of w0 d da]
  by (auto simp: tolerant_def wp_simps gone_def accepted_def intro: exI[of _ "da (w0 @ [d])"] split: sum.splits)

interpretation del_sg: confirmed_delete deleteSecurityGroup sg_gone
proof unfold_locales
  fix m x w0
  have l: "wp (forE f rs) (case_sum (\<lambda>e w. True)
      (\<lambda>v. wp (tolerant (send d da)) (\<lambda>r w. r = Inr () \<longrightarrow> gone w q sa d da))) w1"
    for f :: "SdkSecurityGroupRule \<Rightarrow> (history, unit) go" and rs d da q and sa :: "unit answer" and w1
    using wp_tolerant_send[of d da q sa] by (simp add: wp_run split: sum.split)
  show "wp (deleteSecurityGroup m x) (\<lambda>r w. r = Inr () \<longrightarrow> sg_gone m x w) w0"
    by (auto simp: deleteSecurityGroup_def show_then_def listSecurityGroupRules_def wp_simps sg_gone_def l
        gone_missing split: sum.split)
qed (simp add: gone_defs gone_mono)

text \<open>What a spec records, and when all of it is gone.\<close>

definition nothing_left :: "Manager \<Rightarrow> NetworkSpec \<Rightarrow> history \<Rightarrow> bool" where
  "nothing_left m spec w \<longleftrightarrow>
     vpc_gone m (network_vpc spec) w \<and>
     (\<forall>s \<in> set (ns_Subnets spec). sub_ResourceID s \<noteq> '''' \<longrightarrow> subnet_gone m (network_vpc spec, sub_ResourceID s) w) \<and>
     (case ns_SecurityGroup spec of None \<Rightarrow> True
      | Some sg \<Rightarrow> sgs_ResourceID sg \<noteq> '''' \<longrightarrow> sg_gone m (sgs_ResourceID sg) w) \<and>
     (case ns_NatGateway spec of None \<Rightarrow> True
      | Some ng \<Rightarrow> (nat_ResourceID ng \<noteq> '''' \<longrightarrow> nat_gone m (nat_ResourceID ng) w) \<and>
          (nat_EIPResourceID ng \<noteq> '''' \<longrightarrow> eip_gone m (nat_EIPResourceID ng) w))"

text \<open>Carrying a fact established earlier through the rest of the teardown.\<close>

lemma wp_carry:
  assumes "wp m Q w" "K w" "grows m" "\<And>w z. K w \<Longrightarrow> K (w @ z)"
  shows "wp m (\<lambda>r w'. Q r w' \<and> K w') w"
  using assms unfolding grows_def wp_run by metis

lemma nat_part_gone:
  "wp (delete_nat_part m spec n) (\<lambda>e w. e = [] \<longrightarrow> (case ns_NatGateway spec of None \<Rightarrow> True
      | Some ng \<Rightarrow> (nat_ResourceID ng \<noteq> '''' \<longrightarrow> nat_gone m (nat_ResourceID ng) w) \<and>
          (nat_EIPResourceID ng \<noteq> '''' \<longrightarrow> eip_gone m (nat_EIPResourceID ng) w))) w0"
proof (cases "ns_NatGateway spec")
  case (Some ng)
  have gw: "wp (delete_gateway_part m g) (\<lambda>e w. e = [] \<longrightarrow> g \<noteq> '''' \<longrightarrow> nat_gone m g w) w1" for g w1
    using del_nat.del_removed[of m g]
    by (simp add: delete_gateway_part_def DeleteNatGatewayOrdered_def wp_simps)
      (auto simp: wp_run wrap_opt_def err_of_def split: option.splits sum.splits)
  have eip: "wp (delete_eip_part m x) (\<lambda>e w. e = [] \<longrightarrow> x \<noteq> '''' \<longrightarrow> eip_gone m x w) w1" for x w1
    using del_eip.collect_removed[of "msgf [''delete EIP '', x]" m x w1]
    by (auto simp: delete_eip_part_def wp_simps elim!: wp_mono)
  have both: "wp (do { e1 \<leftarrow> delete_gateway_part m g; e2 \<leftarrow> delete_eip_part m x; State_Monad.return (e1 @ e2) })
      (\<lambda>e w. e = [] \<longrightarrow> (g \<noteq> '''' \<longrightarrow> nat_gone m g w) \<and> (x \<noteq> '''' \<longrightarrow> eip_gone m x w)) w1" for g x w1
    unfolding wp_simps
  proof (rule wp_mono[OF gw[of g w1]])
    fix e1 :: "go_error list" and w assume e1: "e1 = [] \<longrightarrow> g \<noteq> '''' \<longrightarrow> nat_gone m g w"
    show "wp (delete_eip_part m x) (\<lambda>r w. e1 @ r = [] \<longrightarrow> (g \<noteq> '''' \<longrightarrow> nat_gone m g w) \<and> (x \<noteq> '''' \<longrightarrow> eip_gone m x w)) w"
      by (rule wp_mono[OF wp_carry[OF eip, where K = "\<lambda>w. e1 = [] \<longrightarrow> g \<noteq> [] \<longrightarrow> nat_gone m g w"]])
        (use e1 in \<open>auto intro: del_nat.removed_mono phase_grows[OF phase_eip]\<close>)
  qed
  show ?thesis
    using both
    by (auto simp: delete_nat_part_def Some teardown_gateway_def teardown_eip_def findEipBySnatRules_def
        net_listSnatRules_def findNatGatewayByName_def findNatGateway_def ListSnatRules_def wp_simps wp_run
        split: sum.splits option.splits)
qed (simp add: delete_nat_part_def wp_simps)

lemma sg_part_gone:
  "wp (delete_sg_part m spec) (\<lambda>e w. e = [] \<longrightarrow> (case ns_SecurityGroup spec of None \<Rightarrow> True
      | Some sg \<Rightarrow> sgs_ResourceID sg \<noteq> '''' \<longrightarrow> sg_gone m (sgs_ResourceID sg) w)) w0"
  using del_sg.collect_removed
  by (auto simp: delete_sg_part_def wp_simps elim!: wp_mono split: option.split)

lemma subnets_loop_gone:
  "wp (delete_subnets_loop m v ss) (\<lambda>e w. e = [] \<longrightarrow>
      (\<forall>s \<in> set ss. sub_ResourceID s \<noteq> '''' \<longrightarrow> subnet_gone m (v, sub_ResourceID s) w)) w0"
proof (induction ss arbitrary: w0)
  case (Cons a ss)
  let ?i = "sub_ResourceID a"
  have g: "grows (delete_subnets_loop m v ss)"
    by (intro sends_grows[of "\<lambda>_. True"] sends_delete_subnets) simp
  have rest: "wp (delete_subnets_loop m v ss) (\<lambda>es w. e @ es = [] \<longrightarrow> subnet_gone m (v, ?i) w \<and>
      (\<forall>s \<in> set ss. sub_ResourceID s \<noteq> '''' \<longrightarrow> subnet_gone m (v, sub_ResourceID s) w)) w"
    if "e = [] \<longrightarrow> subnet_gone m (v, ?i) w" for e :: "go_error list" and w
    by (rule wp_mono[OF wp_carry[OF Cons.IH, where K = "\<lambda>w. e = [] \<longrightarrow> subnet_gone m (v, ?i) w"]])
      (use that g in \<open>auto intro: del_subnet.removed_mono\<close>)
  have "wp (collect (msgf [''delete subnet '', ?i]) (deleteSubnet m v ?i)) (\<lambda>e. wp (delete_subnets_loop m v ss)
      (\<lambda>es w. e @ es = [] \<longrightarrow> subnet_gone m (v, ?i) w \<and>
        (\<forall>s \<in> set ss. sub_ResourceID s \<noteq> '''' \<longrightarrow> subnet_gone m (v, sub_ResourceID s) w))) w0"
    using del_subnet.collect_removed[of "msgf [''delete subnet '', ?i]" m "(v, ?i)" w0]
    unfolding fst_conv snd_conv by (elim wp_mono) (use rest in simp)
  then show ?case using Cons.IH by (simp add: wp_simps)
qed (simp add: wp_simps)

lemma wp_DeleteNetwork_gone:
  assumes "\<not> is_byo spec n" and "network_vpc spec \<noteq> ''''"
  shows "wp (DeleteNetwork m spec n) (\<lambda>r w. r = None \<longrightarrow> nothing_left m spec w) tr"
proof -
  let ?v = "network_vpc spec"
  let ?N = "\<lambda>w. case ns_NatGateway spec of None \<Rightarrow> True
      | Some ng \<Rightarrow> (nat_ResourceID ng \<noteq> '''' \<longrightarrow> nat_gone m (nat_ResourceID ng) w) \<and>
          (nat_EIPResourceID ng \<noteq> '''' \<longrightarrow> eip_gone m (nat_EIPResourceID ng) w)"
  let ?G = "\<lambda>w. case ns_SecurityGroup spec of None \<Rightarrow> True
      | Some sg \<Rightarrow> sgs_ResourceID sg \<noteq> '''' \<longrightarrow> sg_gone m (sgs_ResourceID sg) w"
  let ?S = "\<lambda>w. \<forall>s \<in> set (ns_Subnets spec). sub_ResourceID s \<noteq> '''' \<longrightarrow> subnet_gone m (?v, sub_ResourceID s) w"
  have mono: "?N (w @ z)" if "?N w" for w z
    using that by (auto intro: del_nat.removed_mono del_eip.removed_mono split: option.splits)
  have gmono: "?G (w @ z)" if "?G w" for w z
    using that by (auto intro: del_sg.removed_mono split: option.splits)
  have smono: "?S (w @ z)" if "?S w" for w z
    using that by (auto intro: del_subnet.removed_mono)
  have g: "grows (delete_sg_part m spec)" "grows (delete_subnets_loop m ?v (ns_Subnets spec))"
    "grows (collect msg (net_deleteVpc m ?v))" for msg
    by (rule phase_grows[OF phase_sg]) (intro sends_grows[of "\<lambda>_. True"] sends_delete_subnets sends_intros; simp)+
  show ?thesis
    unfolding DeleteNetwork_def Let_def if_not_P[OF assms(1)] if_not_P[OF assms(2)] wp_simps
  proof (rule wp_mono[OF nat_part_gone[of m spec n tr]])
    fix e1 :: "go_error list" and w1 assume 1: "e1 = [] \<longrightarrow> ?N w1"
    show "wp (delete_sg_part m spec) (\<lambda>e2. wp (delete_subnets_loop m ?v (ns_Subnets spec)) (\<lambda>e3.
        wp (collect (msgf [''delete VPC '', ?v]) (net_deleteVpc m ?v)) (\<lambda>e4 w.
          joinErrors (e1 @ e2 @ e3 @ e4) = None \<longrightarrow> nothing_left m spec w))) w1"
    proof (rule wp_mono[OF wp_carry[OF sg_part_gone[of m spec w1], where K = "\<lambda>w. e1 = [] \<longrightarrow> ?N w"]])
      fix e2 :: "go_error list" and w2 assume 2: "(e2 = [] \<longrightarrow> ?G w2) \<and> (e1 = [] \<longrightarrow> ?N w2)"
      show "wp (delete_subnets_loop m ?v (ns_Subnets spec)) (\<lambda>e3.
          wp (collect (msgf [''delete VPC '', ?v]) (net_deleteVpc m ?v)) (\<lambda>e4 w.
            joinErrors (e1 @ e2 @ e3 @ e4) = None \<longrightarrow> nothing_left m spec w)) w2"
      proof (rule wp_mono[OF wp_carry[OF subnets_loop_gone[of m ?v "ns_Subnets spec" w2],
            where K = "\<lambda>w. e1 @ e2 = [] \<longrightarrow> ?N w \<and> ?G w"]])
        fix e3 :: "go_error list" and w3 assume 3: "(e3 = [] \<longrightarrow> ?S w3) \<and> (e1 @ e2 = [] \<longrightarrow> ?N w3 \<and> ?G w3)"
        show "wp (collect (msgf [''delete VPC '', ?v]) (net_deleteVpc m ?v)) (\<lambda>e4 w.
            joinErrors (e1 @ e2 @ e3 @ e4) = None \<longrightarrow> nothing_left m spec w) w3"
          by (rule wp_mono[OF wp_carry[OF del_vpc.collect_removed[of _ m ?v w3],
                where K = "\<lambda>w. e1 @ e2 @ e3 = [] \<longrightarrow> ?N w \<and> ?G w \<and> ?S w"]])
            (use 3 g mono gmono smono in \<open>auto simp: joinErrors_iff nothing_left_def\<close>)
      qed (use 2 g mono gmono in auto)
    qed (use 1 g mono in auto)
  qed
qed

text \<open>C13: A successful teardown leaves nothing behind. If \<open>DeleteNetwork\<close> of a managed network reports no
  error, then the VPC, every recorded subnet, the security group, the NAT gateway and the EIP were each
  either not found or had their deletion accepted.\<close>

theorem DeleteNetwork_success:
  assumes "\<not> is_byo spec n" and "network_vpc spec \<noteq> ''''"
    and "fst (run_state (DeleteNetwork m spec n) tr) = None"
  shows "nothing_left m spec (snd (run_state (DeleteNetwork m spec n) tr))"
  using wp_DeleteNetwork_gone[OF assms(1,2), of m tr] assms(3) by (simp add: wp_run)

section \<open>An example\<close>

text \<open>\<open>ExponentialBackoff\<close> as its documentation describes it: the condition is checked at most \<open>Steps\<close> times, an
  error or success ends the loop, and the last failed check is a timeout.\<close>

fun poll_steps :: "nat \<Rightarrow> ('w, bool) go \<Rightarrow> ('w, unit) go" where
  "poll_steps 0 cond = fail (PlainErr ''timed out waiting for the condition'')"
| "poll_steps (Suc n) cond = tryE cond (\<lambda>done. if done then ok () else poll_steps n cond)"

definition poll_backoff :: backoff_fn where
  "poll_backoff b cond = poll_steps (nat (bo_Steps b)) cond"

definition example_manager :: "cloud \<Rightarrow> Manager" where
  "example_manager c = \<lparr> mgr_cloud = c, mgr_additionalTags = [], mgr_ExponentialBackoff = poll_backoff \<rparr>"

definition example_vpc :: VPC where
  "example_vpc = \<lparr> vpc_ID = '''', vpc_Name = '''', vpc_CIDR = ''10.0.0.0/16'', vpc_ResourceID = ''vpc-1'',
     vpc_Description = '''', vpc_Tags = [] \<rparr>"

definition example_subnet :: Subnet where
  "example_subnet = \<lparr> sub_ID = '''', sub_Name = '''', sub_CIDR = ''10.0.0.0/24'', sub_AvailabilityZone = '''',
     sub_Type = SubnetTypeNode, sub_NeutronSubnetID = ''n-1'', sub_ResourceID = ''sub-1'' \<rparr>"

definition example_network :: NetworkSpec where
  "example_network = \<lparr> ns_VPC = example_vpc, ns_Subnets = [example_subnet],
     ns_NatGateway = Some \<lparr> nat_Spec = '''', nat_ResourceID = ''nat-1'', nat_EIPResourceID = ''eip-1'' \<rparr>,
     ns_SecurityGroup = Some \<lparr> sgs_Name = '''', sgs_Ingress = [], sgs_Egress = [], sgs_ResourceID = ''sg-1'' \<rparr> \<rparr>"

theorem DeleteNetwork_success_witness:
  "nothing_left (example_manager empty_cloud) example_network
     (snd (run_state (DeleteNetwork (example_manager empty_cloud) example_network ''demo'') []))"
proof (rule DeleteNetwork_success)
  show "\<not> is_byo example_network ''demo''" "network_vpc example_network \<noteq> ''''"
    "fst (run_state (DeleteNetwork (example_manager empty_cloud) example_network ''demo'') []) = None"
    by code_simp+
qed

end
