(* ===== verification/NetOwnership.thy ===== *)
theory NetOwnership
  imports NetTeardown
begin

text \<open>
  Facts about the creation of the managed network: which resource IDs may enter the spec (never those of
  somebody else's resources), that a failed NAT gateway setup does not lose the EIP it allocated, which
  subnets get SNAT rules, and that repeating a successful reconcile changes nothing.
\<close>

lemma wp_prod [wp_simps]:
  "wp (case r of (a, b) \<Rightarrow> f a b) Q = (case r of (a, b) \<Rightarrow> wp (f a b) Q)"
  by (simp split: prod.split)

section \<open>Only created or owned resources are recorded\<close>

definition created_vpc :: "Manager \<Rightarrow> string \<Rightarrow> history \<Rightarrow> string \<Rightarrow> bool" where
  "created_vpc m n w i \<longleftrightarrow> (\<exists>nm cidr d v. answered w (VpcReq (CreateVpcReq nm cidr d (resourceTagList m n)))
     (ans_CreateVpc (mgr_cloud m)) (Inr (Some v)) \<and> sv_Id v = i)"

definition owned_vpc :: "Manager \<Rightarrow> string \<Rightarrow> history \<Rightarrow> string \<Rightarrow> bool" where
  "owned_vpc m n w i \<longleftrightarrow> (\<exists>ts. answered w (VpcReq (ShowVpcTagsReq i)) (ans_ShowVpcTags (mgr_cloud m)) (Inr ts) \<and>
     IsOwned (tagsFromResourceTag ts) n)"

definition created_subnet :: "Manager \<Rightarrow> string \<Rightarrow> history \<Rightarrow> string \<Rightarrow> bool" where
  "created_subnet m n w i \<longleftrightarrow> (\<exists>opt x. answered w (VpcReq (CreateSubnetReq opt)) (ans_CreateSubnet (mgr_cloud m))
     (Inr (Some x)) \<and> ss_Id x = i \<and> cso_Tags opt = resourceTagList m n)"

definition owned_subnet :: "Manager \<Rightarrow> string \<Rightarrow> history \<Rightarrow> string \<Rightarrow> bool" where
  "owned_subnet m n w i \<longleftrightarrow> (\<exists>ts. answered w (VpcReq (ShowSubnetTagsReq i)) (ans_ShowSubnetTags (mgr_cloud m))
     (Inr ts) \<and> IsOwned (tagsFromResourceTag ts) n)"

definition created_nat :: "Manager \<Rightarrow> string \<Rightarrow> history \<Rightarrow> string \<Rightarrow> bool" where
  "created_nat m n w i \<longleftrightarrow> (\<exists>nm r s sp gid gw. answered w (NatReq (CreateNatGatewayReq nm r s sp (resourceTagList m n)))
     (ans_CreateNatGateway (mgr_cloud m)) (Inr (gid, gw)) \<and> (gid = Some i \<or> (\<exists>g. gw = Some g \<and> ng_Id g = Some i)))"

definition owned_nat :: "Manager \<Rightarrow> string \<Rightarrow> history \<Rightarrow> string \<Rightarrow> bool" where
  "owned_nat m n w i \<longleftrightarrow> (\<exists>ts. answered w (NatReq (ShowNatGatewayTagReq i)) (ans_ShowNatGatewayTag (mgr_cloud m))
     (Inr ts) \<and> IsOwned (tagsFromTagBody ts) n)"

definition created_sg :: "Manager \<Rightarrow> string \<Rightarrow> history \<Rightarrow> string \<Rightarrow> bool" where
  "created_sg m n w i \<longleftrightarrow> (\<exists>nm v g. answered w (VpcReq (CreateSecurityGroupReq nm v))
     (ans_CreateSecurityGroup (mgr_cloud m)) (Inr (Some g)) \<and> sg_Id g = i)"

definition owned_sg :: "Manager \<Rightarrow> string \<Rightarrow> history \<Rightarrow> string \<Rightarrow> bool" where
  "owned_sg m n w i \<longleftrightarrow> (\<exists>ts. answered w (VpcReq (ShowSecurityGroupTagsReq i)) (ans_ShowSecurityGroupTags (mgr_cloud m))
     (Inr ts) \<and> IsOwned (tagsFromResourceTag ts) n)"

lemmas justification_defs = created_vpc_def owned_vpc_def created_subnet_def owned_subnet_def created_nat_def
  owned_nat_def created_sg_def owned_sg_def

lemma justified_mono:
  "created_subnet m n w i \<Longrightarrow> created_subnet m n (w @ z) i" "owned_subnet m n w i \<Longrightarrow> owned_subnet m n (w @ z) i"
  "created_nat m n w i \<Longrightarrow> created_nat m n (w @ z) i" "owned_nat m n w i \<Longrightarrow> owned_nat m n (w @ z) i"
  "created_sg m n w i \<Longrightarrow> created_sg m n (w @ z) i" "owned_sg m n w i \<Longrightarrow> owned_sg m n (w @ z) i"
  unfolding justification_defs by (blast intro: answered_mono)+

text \<open>The tag checks succeed only on the owned tag.\<close>

lemma requireOwned_None: "requireOwned ty name i ts e n = None \<longleftrightarrow> e = None \<and> IsOwned ts n"
  by (simp add: requireOwned_def split: option.split)

lemma wp_verify:
  "wp (verifyVpcOwned m i name n) (\<lambda>e w. e = None \<longrightarrow> owned_vpc m n w i) w0"
  "wp (verifySubnetOwned m i name n) (\<lambda>e w. e = None \<longrightarrow> owned_subnet m n w i) w0"
  "wp (verifySecurityGroupOwned m i name n) (\<lambda>e w. e = None \<longrightarrow> owned_sg m n w i) w0"
  "wp (verifyNatGatewayOwned m i name n) (\<lambda>e w. e = None \<longrightarrow> owned_nat m n w i) w0"
  using answered_now[of w0 "VpcReq (ShowVpcTagsReq i)" "ans_ShowVpcTags (mgr_cloud m)"]
    answered_now[of w0 "VpcReq (ShowSubnetTagsReq i)" "ans_ShowSubnetTags (mgr_cloud m)"]
    answered_now[of w0 "VpcReq (ShowSecurityGroupTagsReq i)" "ans_ShowSecurityGroupTags (mgr_cloud m)"]
    answered_now[of w0 "NatReq (ShowNatGatewayTagReq i)" "ans_ShowNatGatewayTag (mgr_cloud m)"]
  by (auto simp: verifyVpcOwned_def verifySubnetOwned_def verifySecurityGroupOwned_def verifyNatGatewayOwned_def
      wp_simps requireOwned_None owned_vpc_def owned_subnet_def owned_sg_def owned_nat_def split: sum.splits)

lemma answered_last: "a w = r \<Longrightarrow> w \<noteq> [] \<Longrightarrow> last w = q \<Longrightarrow> answered w q a r"
  using answered_now[of "butlast w" q a] by auto

lemma wp_ensureVpc:
  "wp (ensureVpc m spec n) (\<lambda>(spec', err) w. spec' = spec \<or>
      (\<exists>i. spec' = spec \<lparr> ns_VPC := ns_VPC spec \<lparr> vpc_ResourceID := i \<rparr> \<rparr> \<and>
        (created_vpc m n w i \<or> owned_vpc m n w i))) w0"
proof -
  let ?Q = "\<lambda>(spec', err) w. spec' = spec \<or> (\<exists>i. spec' = spec \<lparr> ns_VPC := ns_VPC spec \<lparr> vpc_ResourceID := i \<rparr> \<rparr> \<and>
        (created_vpc m n w i \<or> owned_vpc m n w i))"
  have adopt: "wp (verifyVpcOwned m i name n) (\<lambda>e w. ?Q (if e \<noteq> None then (spec, e)
      else (spec \<lparr> ns_VPC := ns_VPC spec \<lparr> vpc_ResourceID := i \<rparr> \<rparr>, None)) w) w1" for i name w1
    by (rule wp_mono[OF wp_verify(1)]) auto
  have create: "created_vpc m n w (sv_Id v)"
    if "ans_CreateVpc (mgr_cloud m) w = Inr (Some v)" "w \<noteq> []" "last w = VpcReq (CreateVpcReq nm c d (resourceTagList m n))"
    for v w nm c d
    using answered_last[where a = "ans_CreateVpc (mgr_cloud m)", OF that] by (auto simp: created_vpc_def)
  show ?thesis
  proof (cases "vpc_ResourceID (ns_VPC spec) = ''''")
    case True
    let ?name = "if vpc_Name (ns_VPC spec) = '''' then n @ ''-vpc'' else vpc_Name (ns_VPC spec)"
    define q where "q = VpcReq (CreateVpcReq (strPtrOrNil ?name)
      (strPtrOrNil (if vpc_CIDR (ns_VPC spec) = '''' then defaultVPCCIDR else vpc_CIDR (ns_VPC spec)))
      (strPtrOrNil (vpc_Description (ns_VPC spec))) (resourceTagList m n))"
    have c: "\<exists>i. spec \<lparr> ns_VPC := ns_VPC spec \<lparr> vpc_ResourceID := sv_Id v \<rparr> \<rparr> = spec \<lparr> ns_VPC := ns_VPC spec \<lparr> vpc_ResourceID := i \<rparr> \<rparr> \<and>
        (created_vpc m n (w @ [q]) i \<or> owned_vpc m n (w @ [q]) i)" if "ans_CreateVpc (mgr_cloud m) (w @ [q]) = Inr (Some v)" for v w
      using create[of "w @ [q]" v] that by (auto simp: q_def)
    show ?thesis
      unfolding ensureVpc_def Let_def wp_simps findVpcByName_def q_def[symmetric]
      using True adopt c by (simp del: append_assoc split: sum.split option.split)
  qed (simp add: ensureVpc_def Let_def wp_simps)
qed

lemma ensureDefaultSubnet_keeps [simp]:
  "ns_VPC (ensureDefaultSubnet spec n) = ns_VPC spec"
  "ns_NatGateway (ensureDefaultSubnet spec n) = ns_NatGateway spec"
  "ns_SecurityGroup (ensureDefaultSubnet spec n) = ns_SecurityGroup spec"
  by (simp_all add: ensureDefaultSubnet_def)

text \<open>The VPC step records nobody else's VPC. Whatever the cloud answers, the VPC ID that \<open>ReconcileVpc\<close>
  leaves in the spec is the one already there, the one of a VPC it created itself with the owned tag, one
  whose tags the platform reported to carry this cluster's owned tag, or the referenced ID of a spec whose
  VPC tags opt into adoption.\<close>

theorem ReconcileVpc_adopts_only_owned:
  "case run_state (ReconcileVpc m spec n) tr of ((spec', err), w) \<Rightarrow>
     vpc_ResourceID (ns_VPC spec') \<in> {i. i = vpc_ResourceID (ns_VPC spec) \<or> created_vpc m n w i \<or> owned_vpc m n w i \<or>
       i = vpc_ID (ns_VPC spec) \<and> IsOwned (vpc_Tags (ns_VPC spec)) n}"
proof -
  let ?ok = "\<lambda>s' w. vpc_ResourceID (ns_VPC s') = vpc_ResourceID (ns_VPC spec) \<or>
      created_vpc m n w (vpc_ResourceID (ns_VPC s')) \<or> owned_vpc m n w (vpc_ResourceID (ns_VPC s')) \<or>
      vpc_ResourceID (ns_VPC s') = vpc_ID (ns_VPC spec) \<and> IsOwned (vpc_Tags (ns_VPC spec)) n"
  have "wp (ReconcileVpc m spec n) (\<lambda>r. ?ok (fst r)) tr"
  proof (cases "vpc_ID (ns_VPC spec) = ''''")
    case True
    have "wp (ensureVpc m spec n) (\<lambda>r w. ?ok (fst r) w) tr"
      by (rule wp_mono[OF wp_ensureVpc[of m spec n tr]]) auto
    then show ?thesis
      by (simp add: ReconcileVpc_def Let_def True wp_simps split_beta) (auto simp: wp_run)
  qed (simp add: ReconcileVpc_def Let_def wp_simps)
  then show ?thesis by (auto simp: wp_run split: prod.splits)
qed

definition subnet_recorded :: "Manager \<Rightarrow> string \<Rightarrow> history \<Rightarrow> Subnet \<Rightarrow> Subnet \<Rightarrow> bool" where
  "subnet_recorded m n w s s' \<longleftrightarrow> sub_ResourceID s' = sub_ResourceID s \<or>
     created_subnet m n w (sub_ResourceID s') \<or> owned_subnet m n w (sub_ResourceID s')"

lemma subnet_recorded_mono: "subnet_recorded m n w s s' \<Longrightarrow> subnet_recorded m n (w @ z) s s'"
  unfolding subnet_recorded_def using justified_mono(1,2) by blast

lemma created_subnet_now:
  "ans_CreateSubnet (mgr_cloud m) (w @ [VpcReq (CreateSubnetReq opt)]) = Inr (Some x) \<Longrightarrow>
     cso_Tags opt = resourceTagList m n \<Longrightarrow> created_subnet m n (w @ [VpcReq (CreateSubnetReq opt)]) (ss_Id x)"
  using answered_now[of w "VpcReq (CreateSubnetReq opt)" "ans_CreateSubnet (mgr_cloud m)"]
  unfolding created_subnet_def by metis

lemma wp_adopt_subnet:
  "wp (adopt_subnet m existing name n s) (\<lambda>r w. subnet_recorded m n w s (fst r)) w0"
  by (simp add: adopt_subnet_def wp_simps split: option.split)
    (auto simp: subnet_recorded_def intro!: wp_mono[OF wp_verify(2)])

lemma wp_create_subnet:
  "subnet_recorded m n w0 s0 s \<Longrightarrow>
     wp (create_subnet m v name n s) (\<lambda>r w. subnet_recorded m n w s0 (fst r)) w0"
  using subnet_recorded_mono[of m n w0 s0 s] created_subnet_now[of m w0]
  by (auto simp: create_subnet_def wp_simps subnet_recorded_def split: sum.split option.split)

lemma wp_ensure_subnet:
  "wp (ensure_subnet m v existing n i s) (\<lambda>r w. subnet_recorded m n w s (fst r)) w0"
  unfolding ensure_subnet_def Let_def wp_simps
  by (auto simp: subnet_recorded_def[of _ _ _ s s] split_beta wp_simps wp_create_subnet
      intro!: wp_mono[OF wp_adopt_subnet])

lemma sends_ensure_subnet: "grows (ensure_subnet m v existing n i s)"
  unfolding ensure_subnet_def Let_def adopt_subnet_def create_subnet_def verifySubnetOwned_def
  by (rule sends_grows[of "\<lambda>_. True"]) (intro sends_intros; simp)

lemma grows_subnets_loop: "grows (ensure_subnets_loop m v existing n i ss)"
  by (induction ss arbitrary: i) (auto intro!: grows_return grows_bind sends_ensure_subnet split: prod.split)

lemma wp_ensure_subnets_loop:
  "wp (ensure_subnets_loop m v existing n i ss) (\<lambda>r w. list_all2 (subnet_recorded m n w) ss (fst r)) w0"
proof (induction ss arbitrary: i w0)
  case (Cons s ss)
  have same: "list_all2 (subnet_recorded m n w) ss ss" for w
    by (simp add: list_all2_same subnet_recorded_def)
  have rest: "wp (ensure_subnets_loop m v existing n j ss) (\<lambda>r w. list_all2 (subnet_recorded m n w) ss (fst r) \<and>
      subnet_recorded m n w s s1) w" if "subnet_recorded m n w s s1" for j s1 w
    using that grows_subnets_loop subnet_recorded_mono
    by (intro wp_carry[OF Cons.IH]) auto
  show ?case
    unfolding ensure_subnets_loop.simps wp_simps
    by (rule wp_mono[OF wp_ensure_subnet])
      (auto simp: wp_simps same split_beta intro!: wp_mono[OF rest])
qed (simp add: wp_simps)

text \<open>C27: The subnet step records nobody else's subnets. \<open>ReconcileSubnets\<close> keeps the list of subnets, and each
  resource ID it adds is one of a subnet it created with the owned tag or one whose tags were reported to
  carry this cluster's owned tag, also when it stops half way with an error.\<close>

theorem ReconcileSubnets_adopts_only_owned:
  "case run_state (ReconcileSubnets m spec n) tr of ((spec', err), w) \<Rightarrow>
     list_all2 (subnet_recorded m n w) (ns_Subnets spec) (ns_Subnets spec')"
proof -
  have "wp (ReconcileSubnets m spec n) (\<lambda>r w. list_all2 (subnet_recorded m n w) (ns_Subnets spec) (ns_Subnets (fst r))) tr"
    by (simp add: ReconcileSubnets_def ensureSubnets_def listSubnets_def wp_simps split_beta)
      (auto intro!: wp_mono[OF wp_ensure_subnets_loop])
  then show ?thesis by (auto simp: wp_run split: prod.splits)
qed

section \<open>Repeating a successful reconcile\<close>

lemma wp_trivial: "(\<And>r w. Q r w) \<Longrightarrow> wp m Q w"
  by (simp add: wp_run)

lemma ensureVpc_None:
  "wp (ensureVpc m spec n) (\<lambda>r _. snd r = None \<longrightarrow> vpc_ResourceID (ns_VPC (fst r)) \<noteq> '''' \<and>
      vpc_ID (ns_VPC (fst r)) = vpc_ID (ns_VPC spec)) w"
  unfolding ensureVpc_def Let_def wp_simps
  by (auto simp: wp_simps intro!: wp_trivial split: sum.split option.split if_splits)

definition settled :: "Subnet \<Rightarrow> bool" where
  "settled s \<longleftrightarrow> sub_ID s \<noteq> '''' \<or> sub_ResourceID s \<noteq> ''''"

lemma create_subnet_settled: "wp (create_subnet m v name n s) (\<lambda>r _. snd r = None \<longrightarrow> settled (fst r)) w"
  unfolding create_subnet_def wp_simps by (auto simp: settled_def split: sum.split option.split)

lemma ensure_subnet_settled: "wp (ensure_subnet m v existing n i s) (\<lambda>r _. snd r = None \<longrightarrow> settled (fst r)) w"
proof (cases "sub_ID s \<noteq> [] \<or> sub_ResourceID s \<noteq> []")
  case False
  show ?thesis
    unfolding ensure_subnet_def Let_def if_not_P[OF False] wp_bind
  proof (rule wp_trivial)
    fix r w
    show "wp (case r of (s1, err) \<Rightarrow> if err \<noteq> None then State_Monad.return (s1, err)
        else if sub_ResourceID s1 \<noteq> [] then State_Monad.return (s1, None) else create_subnet m v name n s1)
      (\<lambda>r _. snd r = None \<longrightarrow> settled (fst r)) w" for name
      using create_subnet_settled by (auto simp: wp_simps settled_def[of "fst _"] split_beta)
  qed
qed (auto simp: ensure_subnet_def Let_def wp_simps settled_def)

lemma ensure_subnets_loop_settled:
  "wp (ensure_subnets_loop m v existing n i ss) (\<lambda>r _. length (fst r) = length ss \<and>
      (snd r = None \<longrightarrow> list_all settled (fst r))) w"
proof (induction ss arbitrary: i w)
  case (Cons s ss)
  have "wp (ensure_subnets_loop m v existing n j ss) (\<lambda>(ss1, err) _. length ss1 = length ss \<and>
      (err = None \<longrightarrow> list_all settled ss1)) w" if "settled s1" for j w s1
    by (rule wp_mono[OF Cons.IH]) auto
  then show ?case
    unfolding ensure_subnets_loop.simps wp_simps
    by (intro wp_mono[OF ensure_subnet_settled]) auto
qed (simp add: wp_simps)

lemma settled_loop:
  "list_all settled ss \<Longrightarrow> ensure_subnets_loop m v existing n i ss = State_Monad.return (ss, None)"
proof (induction ss arbitrary: i)
  case (Cons s ss)
  then have "ensure_subnet m v existing n i s = State_Monad.return (s, None)"
    by (auto simp: settled_def ensure_subnet_def Let_def)
  then show ?case using Cons by (simp add: split_beta)
qed simp

text \<open>C29: Repeating the VPC and subnet steps changes nothing. After \<open>ReconcileVpc\<close> and \<open>ReconcileSubnets\<close> of a
  network without a referenced VPC succeeded, running these two again on the spec they left sends no create
  request (only the subnet listing), reports no error and leaves the spec as it is, whatever the cloud answers.
  The NAT gateway step is not covered: it does repeat itself when its listing fails, see
  \<open>failed_listing_repeats_rules\<close>.\<close>

theorem vpc_and_subnets_idempotent:
  assumes "vpc_ID (ns_VPC spec) = ''''"
    and "run_state (ReconcileVpc m spec n) w0 = ((s1, None), w1)"
    and "run_state (ReconcileSubnets m s1 n) w1 = ((s2, None), w2)"
  shows "run_state (ReconcileVpc m s2 n) w = ((s2, None), w) \<and>
    run_state (ReconcileSubnets m s2 n) w =
      ((s2, None), w @ [VpcReq (ListSubnetsReq (vpc_ResourceID (ns_VPC s2)))])"
proof -
  have "wp (ReconcileVpc m spec n) (\<lambda>r _. snd r = None \<longrightarrow> vpc_ResourceID (ns_VPC (fst r)) \<noteq> '''' \<and>
      vpc_ID (ns_VPC (fst r)) = '''') w0"
    unfolding ReconcileVpc_def Let_def wp_simps
    using assms(1) by (auto simp: split_beta split: if_splits intro!: wp_mono[OF ensureVpc_None])
  then have s1: "vpc_ResourceID (ns_VPC s1) \<noteq> ''''" "vpc_ID (ns_VPC s1) = ''''"
    using assms(2) by (simp_all add: wp_run)
  have "wp (ReconcileSubnets m s1 n) (\<lambda>r _. snd r = None \<longrightarrow> ns_VPC (fst r) = ns_VPC s1 \<and>
      ns_Subnets (fst r) \<noteq> [] \<and> list_all settled (ns_Subnets (fst r))) w1"
    by (auto simp: ReconcileSubnets_def ensureSubnets_def listSubnets_def wp_simps split_beta
        intro!: wp_mono[OF ensure_subnets_loop_settled])
  then have s2: "ns_VPC s2 = ns_VPC s1" "ns_Subnets s2 \<noteq> []" "list_all settled (ns_Subnets s2)"
    using assms(3) by (simp_all add: wp_run)
  have "run_state (ReconcileVpc m s2 n) w = ((s2, None), w)"
    using s1 s2 by (simp add: ReconcileVpc_def Let_def ensureVpc_def ensureDefaultSubnet_def)
  moreover have "run_state (ReconcileSubnets m s2 n) w =
      ((s2, None), w @ [VpcReq (ListSubnetsReq (vpc_ResourceID (ns_VPC s2)))])"
    using s2 by (simp add: ReconcileSubnets_def ensureSubnets_def listSubnets_def settled_loop)
  ultimately show ?thesis by blast
qed

text \<open>A cloud that creates what it is asked for.\<close>

definition creating_cloud :: cloud where
  "creating_cloud = empty_cloud \<lparr>
     ans_CreateVpc := (\<lambda>_. Inr (Some \<lparr> sv_Id = ''vpc-9'', sv_Name = ''v'', sv_Cidr = ''10.0.0.0/16'' \<rparr>)),
     ans_CreateSubnet := (\<lambda>_. Inr (Some \<lparr> ss_Id = ''sub-9'', ss_Name = ''s'', ss_Cidr = ''10.0.0.0/24'',
       ss_NeutronSubnetId = ''n-9'' \<rparr>)),
     ans_CreatePublicip := (\<lambda>_. Inr (Some \<lparr> pi_Id = Some ''eip-9'', pi_PublicIpAddress = None, pi_Tags = None \<rparr>)),
     ans_CreateNatGateway := (\<lambda>_. Inr (Some ''nat-9'', None)),
     ans_ShowNatGateway := (\<lambda>_. Inr (Some \<lparr> ng_Id = Some ''nat-9'', ng_Name = None, ng_Status = Some ''ACTIVE'' \<rparr>)) \<rparr>"

definition new_network :: NetworkSpec where
  "new_network = example_network \<lparr> ns_VPC := example_vpc \<lparr> vpc_ResourceID := '''' \<rparr>,
     ns_Subnets := [example_subnet \<lparr> sub_ResourceID := '''' \<rparr>],
     ns_NatGateway := Some \<lparr> nat_Spec = '''', nat_ResourceID = '''', nat_EIPResourceID = '''' \<rparr>,
     ns_SecurityGroup := None \<rparr>"

definition made_network :: NetworkSpec where
  "made_network = new_network \<lparr> ns_VPC := example_vpc \<lparr> vpc_ResourceID := ''vpc-9'' \<rparr>,
     ns_Subnets := [example_subnet \<lparr> sub_ResourceID := ''sub-9'', sub_NeutronSubnetID := ''n-9'' \<rparr>] \<rparr>"

theorem vpc_and_subnets_idempotent_witness:
  "run_state (ReconcileVpc (example_manager creating_cloud) made_network ''demo'') [] = ((made_network, None), []) \<and>
   run_state (ReconcileSubnets (example_manager creating_cloud) made_network ''demo'') [] =
     ((made_network, None), [VpcReq (ListSubnetsReq ''vpc-9'')])"
proof -
  define s1 where "s1 = new_network \<lparr> ns_VPC := example_vpc \<lparr> vpc_ResourceID := ''vpc-9'' \<rparr> \<rparr>"
  define w1 where "w1 = snd (run_state (ReconcileVpc (example_manager creating_cloud) new_network ''demo'') [])"
  have 1: "run_state (ReconcileVpc (example_manager creating_cloud) new_network ''demo'') [] = ((s1, None), w1)"
    by (simp add: w1_def s1_def prod_eq_iff ReconcileVpc_def ensureVpc_def Let_def new_network_def example_vpc_def
        example_network_def findVpcByName_def example_manager_def creating_cloud_def empty_cloud_def ensureDefaultSubnet_def)
  define w2 where "w2 = snd (run_state (ReconcileSubnets (example_manager creating_cloud) s1 ''demo'') w1)"
  have 2: "run_state (ReconcileSubnets (example_manager creating_cloud) s1 ''demo'') w1 = ((made_network, None), w2)"
    by (simp add: w2_def s1_def prod_eq_iff ReconcileSubnets_def ensureSubnets_def Let_def new_network_def example_vpc_def
        example_network_def listSubnets_def example_manager_def creating_cloud_def empty_cloud_def made_network_def
        example_subnet_def ensure_subnet_def adopt_subnet_def create_subnet_def)
  show ?thesis
    using vpc_and_subnets_idempotent[OF _ 1 2, of "[]"] by (simp add: new_network_def example_vpc_def made_network_def)
qed

section \<open>SNAT rules\<close>

lemma forE_sends_prefix:
  assumes "\<And>x w. run_state (f x) w = (if P x then (case a (w @ [q x]) of Inl e \<Rightarrow> Inl (g x e) | Inr _ \<Rightarrow> Inr (), w @ [q x]) else (Inr (), w))"
  shows "\<exists>k \<le> length (filter P xs). snd (run_state (forE f xs) w) = w @ map q (take k (filter P xs)) \<and>
     (fst (run_state (forE f xs) w) = Inr () \<longrightarrow> k = length (filter P xs))"
proof (induction xs arbitrary: w)
  case (Cons x xs)
  show ?case
  proof (cases "P x")
    case True
    show ?thesis
    proof (cases "a (w @ [q x])")
      case (Inl e)
      then show ?thesis using True by (auto simp: tryE_def fail_def assms intro!: exI[of _ 1])
    next
      case (Inr u)
      obtain k where "k \<le> length (filter P xs)"
        "snd (run_state (forE f xs) (w @ [q x])) = (w @ [q x]) @ map q (take k (filter P xs))"
        "fst (run_state (forE f xs) (w @ [q x])) = Inr () \<longrightarrow> k = length (filter P xs)"
        using Cons.IH by blast
      then show ?thesis using True Inr by (auto simp: tryE_def assms intro!: exI[of _ "Suc k"])
    qed
  next
    case False
    then show ?thesis using Cons.IH[of w] by (simp add: tryE_def assms)
  qed
qed (simp add: ok_def)

text \<open>SNAT rules exist for the managed node subnets only. \<open>ensureSnatRules\<close> lists the rules of the gateway and
  then asks, in spec order and stopping at the first failure, for one rule per subnet that is managed, is
  not a container (ENI) subnet, has been created and has no rule yet; on success for all of them.\<close>

theorem ensureSnatRules_exact:
  "let existing = map sn_NetworkId (case ans_ListSnatRules (mgr_cloud m)
          (tr @ [NatReq (ListSnatRulesReq (nat_ResourceID ng))]) of Inr (Some rules) \<Rightarrow> rules | _ \<Rightarrow> []);
       wanted = filter (wants_snat existing) (ns_Subnets spec)
   in \<exists>k \<le> length wanted. snd (run_state (ensureSnatRules m spec ng) tr) =
        tr @ NatReq (ListSnatRulesReq (nat_ResourceID ng)) # map (\<lambda>s. NatReq (CreateSnatRuleReq (nat_ResourceID ng)
          (sub_ResourceID s) 0 (nat_EIPResourceID ng))) (take k wanted) \<and>
      (if fst (run_state (ensureSnatRules m spec ng) tr) = Inr () then k = length wanted else k \<le> length wanted)"
proof -
  define w1 where "w1 = tr @ [NatReq (ListSnatRulesReq (nat_ResourceID ng))]"
  define existing where "existing = map sn_NetworkId (case ans_ListSnatRules (mgr_cloud m) w1 of Inr (Some rules) \<Rightarrow> rules | _ \<Rightarrow> [])"
  define q where "q s = NatReq (CreateSnatRuleReq (nat_ResourceID ng) (sub_ResourceID s) 0 (nat_EIPResourceID ng))" for s :: Subnet
  define f where "f s = (if \<not> wants_snat existing s then ok ()
         else tryE (wrapE (msgf [''CreateNatGatewaySnatRule for subnet '', sub_ResourceID s, '' failed''])
             (send (q s) (ack (mgr_cloud m)))) (\<lambda>_. ok ()))" for s :: Subnet
  have f_eq: "f = (\<lambda>s. if \<not> wants_snat existing s then ok ()
         else tryE (wrapE (msgf [''CreateNatGatewaySnatRule for subnet '', sub_ResourceID s, '' failed''])
             (send (NatReq (CreateSnatRuleReq (nat_ResourceID ng) (sub_ResourceID s) 0 (nat_EIPResourceID ng)))
               (ack (mgr_cloud m)))) (\<lambda>_. ok ()))"
    by (rule ext) (simp only: f_def q_def)
  have run: "run_state (ensureSnatRules m spec ng) tr = run_state (forE f (ns_Subnets spec)) w1"
    by (auto simp: ensureSnatRules_def net_listSnatRules_def ListSnatRules_def tryE_def ok_def fail_def w1_def[symmetric]
        existing_def comp_def f_eq split: sum.split option.split)
  have step: "run_state (f s) w = (if wants_snat existing s then (case ack (mgr_cloud m) (w @ [q s]) of
      Inl e \<Rightarrow> Inl (WrapErr (msgf [''CreateNatGatewaySnatRule for subnet '', sub_ResourceID s, '' failed'']) e) | Inr _ \<Rightarrow> Inr (), w @ [q s])
      else (Inr (), w))" for s w
    by (simp add: f_def tryE_def wrapE_def ok_def fail_def split: sum.split)
  show ?thesis
    using forE_sends_prefix[where f = f and P = "wants_snat existing" and a = "ack (mgr_cloud m)" and q = q, OF step,
        of "ns_Subnets spec" w1]
    unfolding Let_def run w1_def[symmetric] existing_def[symmetric] q_def[symmetric]
    by (auto simp: w1_def)
qed

text \<open>A listing that fails counts as an empty one, so a rule that exists is requested again.\<close>

lemma failed_listing_repeats_rules:
  assumes "ans_ListSnatRules (mgr_cloud m) (tr @ [NatReq (ListSnatRulesReq (nat_ResourceID ng))]) = Inl err"
    and "ns_Subnets spec = s # ss" "sub_ID s = ''''" "sub_Type s \<noteq> SubnetTypeENI" "sub_ResourceID s \<noteq> ''''"
  shows "\<exists>rest. snd (run_state (ensureSnatRules m spec ng) tr) =
    tr @ NatReq (ListSnatRulesReq (nat_ResourceID ng)) #
      NatReq (CreateSnatRuleReq (nat_ResourceID ng) (sub_ResourceID s) 0 (nat_EIPResourceID ng)) # rest"
proof -
  let ?q = "\<lambda>s. NatReq (CreateSnatRuleReq (nat_ResourceID ng) (sub_ResourceID s) 0 (nat_EIPResourceID ng))"
  let ?f = "\<lambda>s. if \<not> wants_snat [] s then ok ()
         else tryE (wrapE (msgf [''CreateNatGatewaySnatRule for subnet '', sub_ResourceID s, '' failed''])
             (send (?q s) (ack (mgr_cloud m)))) (\<lambda>_. ok ())"
  have s: "wants_snat [] s" using assms(3-) by (simp add: wants_snat_def)
  have "grows (forE ?f ss)"
    by (intro sends_grows[of "\<lambda>_. True"] sends_intros) simp_all
  then obtain rest where "snd (run_state (forE ?f ss) (tr @ [NatReq (ListSnatRulesReq (nat_ResourceID ng)), ?q s])) =
      (tr @ [NatReq (ListSnatRulesReq (nat_ResourceID ng)), ?q s]) @ rest"
    unfolding grows_def by blast
  then show ?thesis
    using assms(1,2) s
    by (cases "ack (mgr_cloud m) (tr @ [NatReq (ListSnatRulesReq (nat_ResourceID ng)), ?q s])")
      (auto simp: ensureSnatRules_def net_listSnatRules_def ListSnatRules_def tryE_def wrapE_def ok_def fail_def)
qed

section \<open>No EIP is lost\<close>

text \<open>The documented behaviour of \<open>ExponentialBackoff\<close> the code relies on: it does nothing but run the condition.\<close>

definition polls_only :: "backoff_fn \<Rightarrow> bool" where
  "polls_only eb \<longleftrightarrow> (\<forall>b cond I. keeps I cond \<longrightarrow> keeps I (eb b cond))"

lemma polls_only_poll_backoff: "polls_only poll_backoff"
proof -
  have "keeps I (poll_steps n cond)" if "keeps I cond" for n and I :: "history \<times> go_error option \<Rightarrow> bool" and cond
    using that by (induction n) (auto intro!: only_intros)
  then show ?thesis by (simp add: polls_only_def poll_backoff_def)
qed

lemma sends_WaitForWithRetryable:
  assumes "polls_only eb" "sends P cond"
  shows "sends P (WaitForWithRetryable eb b cond)"
  unfolding sends_def
proof
  fix tr0
  have "keeps (\<lambda>(w, _). extends P tr0 w) (retryable cond)"
    using assms(2) by (auto simp: sends_def keeps_def wp_def retryable_def split: sum.splits prod.splits)
  then have "keeps (\<lambda>(w, _). extends P tr0 w) (eb b (retryable cond))"
    using assms(1) unfolding polls_only_def by blast
  then show "keeps (extends P tr0) (WaitForWithRetryable eb b cond)"
    by (force simp: keeps_def wp_def WaitForWithRetryable_def split: sum.splits prod.splits option.splits)
qed

text \<open>The EIPs the platform allocated in answer to the requests \<open>qs\<close> that followed the history \<open>w\<close>.\<close>

definition new_eip :: "cloud \<Rightarrow> history \<Rightarrow> request \<Rightarrow> string list" where
  "new_eip c w q = (case q of
      EipReq (CreatePublicipReq _ _ _) \<Rightarrow> (case ans_CreatePublicip c (w @ [q]) of
        Inr (Some p) \<Rightarrow> (case pi_Id p of Some e \<Rightarrow> if e = '''' then [] else [e] | None \<Rightarrow> []) | _ \<Rightarrow> [])
    | _ \<Rightarrow> [])"

fun allocated_eips :: "cloud \<Rightarrow> history \<Rightarrow> request list \<Rightarrow> string list" where
  "allocated_eips c w [] = []"
| "allocated_eips c w (q # qs) = new_eip c w q @ allocated_eips c (w @ [q]) qs"

lemma allocated_append: "allocated_eips c w (xs @ ys) = allocated_eips c w xs @ allocated_eips c (w @ xs) ys"
  by (induction xs arbitrary: w) auto

lemma allocated_nonempty: "'''' \<notin> set (allocated_eips c w qs)"
  by (induction qs arbitrary: w)
    (auto simp: new_eip_def split: request.splits eip_request.splits sum.splits option.splits if_splits)

definition no_alloc :: "request \<Rightarrow> bool" where
  "no_alloc q \<longleftrightarrow> (case q of EipReq (CreatePublicipReq _ _ _) \<Rightarrow> False | _ \<Rightarrow> True)"

lemma no_alloc_allocated: "list_all no_alloc qs \<Longrightarrow> allocated_eips c w qs = []"
  by (induction qs arbitrary: w)
    (auto simp: no_alloc_def new_eip_def split: request.splits eip_request.splits)

text \<open>Every EIP allocated since \<open>tr\<close> is recorded or was given back.\<close>

definition accounted :: "Manager \<Rightarrow> history \<Rightarrow> string \<Rightarrow> history \<Rightarrow> bool" where
  "accounted m tr i w \<longleftrightarrow> (\<exists>new. w = tr @ new \<and>
     list_all (\<lambda>e. e = i \<or> eip_gone m e w) (allocated_eips (mgr_cloud m) tr new))"

lemma accounted_any: "accounted m tr '''' w \<Longrightarrow> accounted m tr i w"
proof -
  assume "accounted m tr '''' w"
  then obtain new where new: "w = tr @ new"
    "list_all (\<lambda>e. e = '''' \<or> eip_gone m e w) (allocated_eips (mgr_cloud m) tr new)"
    by (auto simp: accounted_def)
  then have "list_all (\<lambda>e. eip_gone m e w) (allocated_eips (mgr_cloud m) tr new)"
    using allocated_nonempty[of "mgr_cloud m" tr new] by (auto simp: list_all_iff)
  then show ?thesis using new(1) by (auto simp: accounted_def list_all_iff)
qed

lemma accounted_later:
  assumes "accounted m tr i w" "sends no_alloc k"
  shows "accounted m tr i (snd (run_state k w))"
proof -
  obtain new where new: "w = tr @ new" "list_all (\<lambda>e. e = i \<or> eip_gone m e w) (allocated_eips (mgr_cloud m) tr new)"
    using assms(1) by (auto simp: accounted_def)
  obtain more where more: "snd (run_state k w) = w @ more" "list_all no_alloc more"
    using sendsD[OF assms(2), of w] by (auto simp: extends_def)
  show ?thesis
    unfolding accounted_def more(1)
    using new no_alloc_allocated[OF more(2)] del_eip.removed_mono[of m _ w more]
    by (intro exI[of _ "new @ more"]) (auto simp: allocated_append list_all_iff)
qed

lemma wp_accounted: "accounted m tr i w \<Longrightarrow> sends no_alloc k \<Longrightarrow> wp k (\<lambda>_. accounted m tr i) w"
  by (simp add: wp_run accounted_later)

lemma wp_deleteEip: "wp (deleteEip m e) (\<lambda>r w. r = Inr () \<longrightarrow> eip_gone m e w) w0"
  by (rule del_eip.del_removed)

lemma wp_tag_eip_loop:
  "wp (tag_eip_loop m e ts) (\<lambda>r w. e = fst r \<or> eip_gone m e w) w0"
proof (induction ts arbitrary: w0)
  case (Cons t ts)
  obtain k v where t: "t = (k, v)" by fastforce
  show ?case
    by (simp add: t wp_simps)
      (auto simp: wp_simps intro!: wp_mono[OF wp_deleteEip] Cons.IH split: sum.split)
qed (simp add: wp_simps)

lemma sends_tag_eip_loop: "sends no_alloc (tag_eip_loop m e ts)"
  by (induction ts) (auto intro!: sends_intros simp: no_alloc_def)

lemma wp_createEip:
  "accounted m tr '''' w0 \<Longrightarrow> wp (createEip m name n) (\<lambda>r. accounted m tr (fst r)) w0"
proof -
  assume acc: "accounted m tr '''' w0"
  let ?q = "EipReq (CreatePublicipReq name eipBandwidthSize DefaultEIPType)"
  obtain new where new: "w0 = tr @ new" "list_all (\<lambda>e. e = '''' \<or> eip_gone m e w0) (allocated_eips (mgr_cloud m) tr new)"
    using acc by (auto simp: accounted_def)
  have gone: "\<forall>e \<in> set (allocated_eips (mgr_cloud m) tr new). eip_gone m e (w0 @ z)" for z
    using new(2) allocated_nonempty[of "mgr_cloud m" tr new] del_eip.removed_mono by (fastforce simp: list_all_iff)
  have tagged: "wp (tag_eip_loop m e ts) (\<lambda>r. accounted m tr (fst r)) (w0 @ [?q])"
    if e: "ans_CreatePublicip (mgr_cloud m) (w0 @ [?q]) = Inr (Some p)" "pi_Id p = Some e" for p e ts
  proof -
    obtain more where more: "snd (run_state (tag_eip_loop m e ts) (w0 @ [?q])) = (w0 @ [?q]) @ more" "list_all no_alloc more"
      using sendsD[OF sends_tag_eip_loop[of m e ts], of "w0 @ [?q]"] unfolding extends_def by blast
    have "e = fst (fst (run_state (tag_eip_loop m e ts) (w0 @ [?q]))) \<or> eip_gone m e ((w0 @ [?q]) @ more)"
      using wp_tag_eip_loop[of m e ts "w0 @ [?q]"] more(1) by (simp add: wp_run)
    then show ?thesis
      using new(1) gone[of "?q # more"] no_alloc_allocated[OF more(2)] more(1) e
      by (auto simp: wp_run accounted_def allocated_append list_all_iff new_eip_def intro!: exI[of _ "new @ ?q # more"])
  qed
  have no_new: "accounted m tr '''' (w0 @ [?q])" if "new_eip (mgr_cloud m) w0 ?q = []"
    using new(1) gone[of "[?q]"] that
    by (auto simp: accounted_def allocated_append list_all_iff intro!: exI[of _ "new @ [?q]"])
  show ?thesis
  proof (cases "ans_CreatePublicip (mgr_cloud m) (w0 @ [?q])")
    case (Inl e)
    then have "new_eip (mgr_cloud m) w0 ?q = []" by (simp add: new_eip_def)
    from no_new[OF this] show ?thesis using Inl by (simp add: createEip_def wp_simps)
  next
    case (Inr resp)
    show ?thesis
    proof (cases "case resp of Some p \<Rightarrow> pi_Id p | None \<Rightarrow> None")
      case None
      then have "new_eip (mgr_cloud m) w0 ?q = []" using Inr by (auto simp: new_eip_def split: option.splits)
      from no_new[OF this] show ?thesis using Inr None by (simp add: createEip_def wp_simps)
    next
      case (Some e)
      then obtain p where "resp = Some p" "pi_Id p = Some e" by (auto split: option.splits)
      then show ?thesis using tagged Inr by (simp add: createEip_def wp_simps)
    qed
  qed
qed

lemma sends_nat_steps:
  "sends no_alloc (discover_nat m n ng)"
  "sends no_alloc (createNatGateway m nm v s sp n)"
  "sends no_alloc (ensureSnatRules m spec ng)"
  "sends no_alloc (findEipBySnatRules m g)"
  unfolding discover_nat_def createNatGateway_def ensureSnatRules_def Let_def verifyNatGatewayOwned_def
  by (intro sends_intros; simp add: no_alloc_def)+

lemma sends_wait_nat: "polls_only (mgr_ExponentialBackoff m) \<Longrightarrow> sends no_alloc (waitNatGatewayActive m g)"
  unfolding waitNatGatewayActive_def nat_active_def
  by (intro sends_WaitForWithRetryable) (auto intro!: sends_intros simp: no_alloc_def)

lemma discover_nat_eip: "wp (discover_nat m n ng) (\<lambda>r _. nat_EIPResourceID (fst r) = nat_EIPResourceID ng) w"
  unfolding discover_nat_def Let_def wp_simps
  by (auto intro!: wp_trivial)

lemma wp_create_nat:
  assumes "accounted m tr (nat_EIPResourceID ng) w"
  shows "wp (create_nat m spec n ng) (\<lambda>r. accounted m tr (nat_EIPResourceID (fst r))) w"
proof -
  have eip: "wp (create_nat_eip m n ng) (\<lambda>r. accounted m tr (nat_EIPResourceID (fst r))) w"
    unfolding create_nat_eip_def wp_simps split_beta
    using assms by (auto intro!: wp_mono[OF wp_createEip[of m tr w]] split: if_splits)
  have gw: "wp (createNatGateway m nm v s sp n) (\<lambda>r w. accounted m tr i w) w'" if "accounted m tr i w'" for nm v s sp i w'
    by (rule wp_accounted[OF that sends_nat_steps(2)])
  show ?thesis
    unfolding create_nat_def Let_def wp_simps
    using assms by (auto simp: wp_simps split_beta intro!: wp_mono[OF eip] wp_mono[OF gw] split: sum.splits)
qed

text \<open>C10: A failing NAT gateway setup does not lose the EIP. If the wait loop only polls, then after
  \<open>ReconcileNatGateway\<close>, with an error or without, every EIP the platform allocated during the call is either
  the one recorded in the spec or was released again (its deletion accepted, or the platform no longer
  knows it).\<close>

theorem ReconcileNatGateway_no_eip_leak:
  assumes "polls_only (mgr_ExponentialBackoff m)"
  shows "case run_state (ReconcileNatGateway m spec n) tr of ((spec', err), w) \<Rightarrow>
    accounted m tr (case ns_NatGateway spec' of Some ng \<Rightarrow> nat_EIPResourceID ng | None \<Rightarrow> '''') w"
proof (cases "ns_NatGateway spec")
  case None
  then show ?thesis by (simp add: ReconcileNatGateway_def accounted_def)
next
  case (Some ng)
  have snat: "wp (ensureSnatRules m spec ng') (\<lambda>_. accounted m tr i) w" if "accounted m tr i w" for i w ng'
    by (rule wp_accounted[OF that sends_nat_steps(3)])
  have wait: "wp (waitNatGatewayActive m g) (\<lambda>_. accounted m tr i) w" if "accounted m tr i w" for g i w
    by (rule wp_accounted[OF that sends_wait_nat[OF assms]])
  have find: "wp (findEipBySnatRules m g) (\<lambda>r. accounted m tr '''') w" if "accounted m tr '''' w" for g w
    by (rule wp_accounted[OF that sends_nat_steps(4)])
  have finish: "wp (finish_nat m spec ng1) (\<lambda>r. accounted m tr (nat_EIPResourceID (fst r))) w"
    if acc: "accounted m tr (nat_EIPResourceID ng1) w" for ng1 w
    unfolding finish_nat_def wp_simps
  proof (rule wp_mono[OF wait[OF acc]])
    fix r w'
    have rest: "wp (findEipBySnatRules m g) (\<lambda>i. wp (ensureSnatRules m spec (if i \<noteq> '''' then ng1\<lparr>nat_EIPResourceID := i\<rparr> else ng1))
        (\<lambda>_. accounted m tr (nat_EIPResourceID (if i \<noteq> '''' then ng1\<lparr>nat_EIPResourceID := i\<rparr> else ng1)))) w'"
      if "nat_EIPResourceID ng1 = ''''" "accounted m tr (nat_EIPResourceID ng1) w'" for g w'
      by (rule wp_mono[OF find]) (use that in \<open>auto intro!: snat accounted_any\<close>)
    assume acc': "accounted m tr (nat_EIPResourceID ng1) w'"
    show "(case r of Inl e \<Rightarrow> (\<lambda>w. accounted m tr (nat_EIPResourceID (fst (ng1, Some e))) w)
      | Inr _ \<Rightarrow> if nat_EIPResourceID ng1 \<noteq> '''' then (\<lambda>w. wp (ensureSnatRules m spec ng1) (\<lambda>r. accounted m tr (nat_EIPResourceID (fst (ng1, err_of r)))) w)
        else wp (findEipBySnatRules m (nat_ResourceID ng1)) (\<lambda>i. wp (ensureSnatRules m spec (if i \<noteq> '''' then ng1\<lparr>nat_EIPResourceID := i\<rparr> else ng1))
          (\<lambda>r. accounted m tr (nat_EIPResourceID (fst (if i \<noteq> '''' then ng1\<lparr>nat_EIPResourceID := i\<rparr> else ng1, err_of r)))))) w'"
      using acc' rest[OF _ acc'] snat[OF acc'] by (cases r) simp_all
  qed
  have start: "accounted m tr i tr" for i
    by (auto simp: accounted_def)
  have "wp (ensureNatGateway m spec n ng) (\<lambda>r. accounted m tr (nat_EIPResourceID (fst r))) tr"
    unfolding ensureNatGateway_def wp_simps
    by (rule wp_mono[OF wp_accounted[OF start[of "''''"] sends_nat_steps(1)]])
      (auto simp: wp_simps intro: accounted_any intro!: wp_mono[OF wp_create_nat] finish)
  then show ?thesis
    by (auto simp: ReconcileNatGateway_def Some wp_def split: prod.splits)
qed

text \<open>A cloud that allocates an EIP but refuses to tag it: the EIP is released, the spec records nothing.\<close>

definition untaggable_cloud :: cloud where
  "untaggable_cloud = creating_cloud \<lparr>
     ack := (\<lambda>w. case last w of EipReq (CreatePublicipTagReq _ _ _) \<Rightarrow> Inl (SdkErr 500 '''' '''') | _ \<Rightarrow> Inr ()) \<rparr>"

theorem ReconcileNatGateway_no_eip_leak_witness:
  "case run_state (ReconcileNatGateway (example_manager untaggable_cloud) made_network ''demo'') [] of ((spec', err), w) \<Rightarrow>
     accounted (example_manager untaggable_cloud) [] (case ns_NatGateway spec' of Some ng \<Rightarrow> nat_EIPResourceID ng | None \<Rightarrow> '''') w"
  by (rule ReconcileNatGateway_no_eip_leak) (simp add: example_manager_def polls_only_poll_backoff)

end
