(* ===== verification/Controller.thy ===== *)
theory Controller
  imports Requeue SdkModel
begin

text \<open>
  What the reconcilers under \<open>controllers/\<close> share: the state one reconcile works on, the condition
  constants and setters of \<open>internal/conditions/conditions.go\<close>, and the functions of the Kubernetes and
  Cluster API libraries the reconcilers call, which are parameters (\<open>library\<close>).
\<close>

section \<open>Library code\<close>

record Condition =
  cond_Type :: string
  cond_Status :: bool
  cond_Reason :: string
  cond_Message :: string

text \<open>\<open>clusterv1.APIEndpoint\<close>.\<close>

record APIEndpoint =
  ae_Host :: string
  ae_Port :: int32

text \<open>
  \<open>capiconditions.Set\<close> and \<open>Has\<close>, \<open>controllerutil.AddFinalizer\<close> and \<open>RemoveFinalizer\<close>,
  \<open>APIEndpoint.IsZero\<close>, \<open>url.Parse\<close> as its host, \<open>Hostname()\<close> and \<open>Port()\<close>, and the text of an error
  (\<open>Error()\<close>, rendered by the SDK and the error libraries; it reaches only condition messages).
  \<open>annotations.IsPaused\<close> reads \<open>spec.paused\<close> of the Cluster and the annotations of the object,
  \<open>ReplicasManagedByExternalAutoscaler\<close> the annotations of a MachinePool; \<open>metav1.IsControlledBy\<close> and
  \<open>controllerutil.SetControllerReference\<close> work on owner references, given as UID and controller flag.
\<close>

record library =
  lib_SetCondition :: "Condition list \<Rightarrow> Condition \<Rightarrow> Condition list"
  lib_HasCondition :: "Condition list \<Rightarrow> string \<Rightarrow> bool"
  lib_AddFinalizer :: "string list \<Rightarrow> string \<Rightarrow> string list"
  lib_RemoveFinalizer :: "string list \<Rightarrow> string \<Rightarrow> string list"
  lib_IsZero :: "APIEndpoint \<Rightarrow> bool"
  lib_ParseURL :: "string \<Rightarrow> (string \<times> string \<times> string) option"
  lib_ErrorText :: "go_error \<Rightarrow> string"
  lib_IsPaused :: "bool option \<Rightarrow> (string, string) gomap \<Rightarrow> bool"
  lib_ReplicasManagedByExternalAutoscaler :: "(string, string) gomap \<Rightarrow> bool"
  lib_IsControlledBy :: "(string \<times> bool) list \<Rightarrow> string \<Rightarrow> bool"
  lib_SetControllerReference :: "string \<Rightarrow> (string \<times> bool) list \<Rightarrow> go_error + (string \<times> bool) list"

section \<open>Conditions\<close>

definition NetworkReadyCondition :: string where "NetworkReadyCondition = ''NetworkReady''"
definition VpcReadyCondition :: string where "VpcReadyCondition = ''VpcReady''"
definition SubnetsReadyCondition :: string where "SubnetsReadyCondition = ''SubnetsReady''"
definition NatGatewaysReadyCondition :: string where "NatGatewaysReadyCondition = ''NatGatewaysReady''"
definition SecurityGroupsReadyCondition :: string where "SecurityGroupsReadyCondition = ''SecurityGroupsReady''"
definition CredentialsReadyCondition :: string where "CredentialsReadyCondition = ''CredentialsReady''"
definition CCEClusterReadyCondition :: string where "CCEClusterReadyCondition = ''CCEClusterReady''"
definition KubeconfigReadyCondition :: string where "KubeconfigReadyCondition = ''KubeconfigReady''"
definition AddonsConfiguredCondition :: string where "AddonsConfiguredCondition = ''AddonsConfigured''"
definition PodIdentityAssociationsConfiguredCondition :: string where
  "PodIdentityAssociationsConfiguredCondition = ''PodIdentityAssociationsConfigured''"
definition LoggingConfiguredCondition :: string where "LoggingConfiguredCondition = ''LoggingConfigured''"
definition AccessPoliciesConfiguredCondition :: string where
  "AccessPoliciesConfiguredCondition = ''AccessPoliciesConfigured''"
definition UpgradeReadyCondition :: string where "UpgradeReadyCondition = ''UpgradeReady''"
definition NodePoolReadyCondition :: string where "NodePoolReadyCondition = ''NodePoolReady''"
definition NodePoolScalingCondition :: string where "NodePoolScalingCondition = ''NodePoolScaling''"

definition ReconciliationInProgressReason :: string where
  "ReconciliationInProgressReason = ''ReconciliationInProgress''"
definition ReconciliationFailedReason :: string where "ReconciliationFailedReason = ''ReconciliationFailed''"
definition WaitingForClusterInfrastructureReason :: string where
  "WaitingForClusterInfrastructureReason = ''WaitingForClusterInfrastructure''"
definition WaitingForControlPlaneReason :: string where "WaitingForControlPlaneReason = ''WaitingForControlPlane''"
definition UpgradeNotOfferedReason :: string where "UpgradeNotOfferedReason = ''UpgradeNotOffered''"
definition UpgradeInProgressReason :: string where "UpgradeInProgressReason = ''UpgradeInProgress''"
definition UpgradeTargetUnavailableReason :: string where
  "UpgradeTargetUnavailableReason = ''UpgradeTargetUnavailable''"
definition NetworkValidationFailedReason :: string where
  "NetworkValidationFailedReason = ''NetworkValidationFailed''"
definition NetworkReconciliationFailedReason :: string where
  "NetworkReconciliationFailedReason = ''NetworkReconciliationFailed''"
definition CredentialsResolutionFailedReason :: string where
  "CredentialsResolutionFailedReason = ''CredentialsResolutionFailed''"
definition AgencyCreationFailedReason :: string where "AgencyCreationFailedReason = ''AgencyCreationFailed''"
definition CCEClusterNotFoundReason :: string where "CCEClusterNotFoundReason = ''CCEClusterNotFound''"
definition CCEClusterNameMismatchReason :: string where "CCEClusterNameMismatchReason = ''InvalidClusterName''"
definition KubeconfigGenerationFailedReason :: string where
  "KubeconfigGenerationFailedReason = ''KubeconfigGenerationFailed''"
definition AddonInstallFailedReason :: string where "AddonInstallFailedReason = ''AddonInstallFailed''"
definition PodIdentityCreationFailedReason :: string where
  "PodIdentityCreationFailedReason = ''PodIdentityCreationFailed''"
definition LogConfigUpdateFailedReason :: string where "LogConfigUpdateFailedReason = ''LogConfigUpdateFailed''"
definition AccessPolicyCreateFailedReason :: string where
  "AccessPolicyCreateFailedReason = ''AccessPolicyCreateFailed''"
definition NodePoolCreationFailedReason :: string where
  "NodePoolCreationFailedReason = ''NodePoolCreationFailed''"
definition NodePoolScaleFailedReason :: string where "NodePoolScaleFailedReason = ''NodePoolScaleFailed''"

text \<open>\<open>MarkTrue\<close> and \<open>MarkFalse\<close>, on the condition list of an object.\<close>

definition MarkTrue :: "library \<Rightarrow> string \<Rightarrow> string \<Rightarrow> string \<Rightarrow> Condition list \<Rightarrow> Condition list" where
  "MarkTrue lib conditionType reason message cs = lib_SetCondition lib cs
     \<lparr> cond_Type = conditionType, cond_Status = True, cond_Reason = reason, cond_Message = message \<rparr>"

definition MarkFalse :: "library \<Rightarrow> string \<Rightarrow> string \<Rightarrow> string \<Rightarrow> Condition list \<Rightarrow> Condition list" where
  "MarkFalse lib conditionType reason message cs = lib_SetCondition lib cs
     \<lparr> cond_Type = conditionType, cond_Status = False, cond_Reason = reason, cond_Message = message \<rparr>"

section \<open>The state of a reconcile\<close>

text \<open>The Kubernetes API and the cloud as opaque worlds, the process-wide failure counter, and the object
  the reconciler holds in memory and mutates.\<close>

record ('k, 'c, 'o) rstate =
  rs_kube :: 'k
  rs_cloud :: 'c
  rs_backoff :: backoff
  rs_obj :: 'o

definition in_kube :: "('k, 'a) state \<Rightarrow> (('k, 'c, 'o) rstate, 'a) state" where
  "in_kube m = State (\<lambda>s. case run_state m (rs_kube s) of (r, k) \<Rightarrow> (r, s \<lparr> rs_kube := k \<rparr>))"

definition in_cloud :: "('c, 'a) state \<Rightarrow> (('k, 'c, 'o) rstate, 'a) state" where
  "in_cloud m = State (\<lambda>s. case run_state m (rs_cloud s) of (r, c) \<Rightarrow> (r, s \<lparr> rs_cloud := c \<rparr>))"

definition with_backoff :: "(backoff \<Rightarrow> 'a \<times> backoff) \<Rightarrow> (('k, 'c, 'o) rstate, 'a) state" where
  "with_backoff f = State (\<lambda>s. case f (rs_backoff s) of (r, b) \<Rightarrow> (r, s \<lparr> rs_backoff := b \<rparr>))"

definition get_obj :: "(('k, 'c, 'o) rstate, 'o) state" where
  "get_obj = State (\<lambda>s. (rs_obj s, s))"

definition modify_obj :: "('o \<Rightarrow> 'o) \<Rightarrow> (('k, 'c, 'o) rstate, unit) state" where
  "modify_obj f = State (\<lambda>s. ((), s \<lparr> rs_obj := f (rs_obj s) \<rparr>))"

text \<open>\<open>if v, err := m(); err != nil { handler } else { k }\<close>, where the handler returns.\<close>

definition onE :: "('s, 'a) go \<Rightarrow> (go_error \<Rightarrow> ('s, 'b) state) \<Rightarrow> ('a \<Rightarrow> ('s, 'b) state) \<Rightarrow> ('s, 'b) state" where
  "onE m handler k = do { r \<leftarrow> m; case r of Inl e \<Rightarrow> handler e | Inr v \<Rightarrow> k v }"

definition requeue :: "duration \<Rightarrow> ('s, reconcile_result) state" where
  "requeue d = State_Monad.return (\<lparr> RequeueAfter = d \<rparr>, None)"

definition done_ok :: "('s, reconcile_result) state" where
  "done_ok = State_Monad.return (noRequeue, None)"

definition return_err :: "go_error \<Rightarrow> ('s, reconcile_result) state" where
  "return_err e = State_Monad.return (noRequeue, Some e)"

section \<open>Deferred functions of Reconcile\<close>

text \<open>A deferred function that resets the failure counter after a clean reconcile.\<close>

definition reset_when_clean :: "NamespacedName \<Rightarrow> (('k, 'c, 'o) rstate, reconcile_result) state \<Rightarrow>
    (('k, 'c, 'o) rstate, reconcile_result) state" where
  "reset_when_clean key m = do {
     before \<leftarrow> with_backoff (\<lambda>b. (failures b key, b));
     r \<leftarrow> m;
     _ \<leftarrow> with_backoff (\<lambda>b. ((), if snd r = None \<and> failures b key = before then resetBackoff key b else b));
     State_Monad.return r }"

text \<open>A deferred \<open>scope.Close\<close>: the object is persisted whatever the result; its error is returned when there
  is none yet.\<close>

definition close_scope :: "('o \<Rightarrow> 'o \<Rightarrow> ('k, unit) go) \<Rightarrow> 'o \<Rightarrow> (('k, 'c, 'o) rstate, reconcile_result) state \<Rightarrow>
    (('k, 'c, 'o) rstate, reconcile_result) state" where
  "close_scope patch before m = do {
     r \<leftarrow> m;
     after_obj \<leftarrow> get_obj;
     c \<leftarrow> in_kube (patch before after_obj);
     State_Monad.return (case c of Inl err \<Rightarrow> (fst r, if snd r = None then Some err else snd r) | Inr _ \<Rightarrow> r) }"

section \<open>Rules\<close>

lemma wp_in_kube [wp_simps]: "wp (in_kube m) Q s = wp m (\<lambda>r k. Q r (s \<lparr> rs_kube := k \<rparr>)) (rs_kube s)"
  by (simp add: wp_def in_kube_def split: prod.splits)

lemma wp_in_cloud [wp_simps]: "wp (in_cloud m) Q s = wp m (\<lambda>r c. Q r (s \<lparr> rs_cloud := c \<rparr>)) (rs_cloud s)"
  by (simp add: wp_def in_cloud_def split: prod.splits)

lemma wp_with_backoff [wp_simps]:
  "wp (with_backoff f) Q s = Q (fst (f (rs_backoff s))) (s \<lparr> rs_backoff := snd (f (rs_backoff s)) \<rparr>)"
  by (simp add: wp_def with_backoff_def split: prod.splits)

lemma wp_get_obj [wp_simps]: "wp get_obj Q s = Q (rs_obj s) s"
  by (simp add: wp_def get_obj_def)

lemma wp_modify_obj [wp_simps]: "wp (modify_obj f) Q s = Q () (s \<lparr> rs_obj := f (rs_obj s) \<rparr>)"
  by (simp add: wp_def modify_obj_def)

lemma wp_onE [wp_simps]:
  "wp (onE m h k) Q = wp m (\<lambda>r. case r of Inl e \<Rightarrow> wp (h e) Q | Inr v \<Rightarrow> wp (k v) Q)"
  by (simp add: onE_def wp_simps cong: sum.case_cong)

lemma wp_requeue [wp_simps]: "wp (requeue d) Q = Q (\<lparr> RequeueAfter = d \<rparr>, None)"
  "wp done_ok Q = Q (noRequeue, None)" "wp (return_err e) Q = Q (noRequeue, Some e)"
  by (simp_all add: requeue_def done_ok_def return_err_def wp_simps)

lemma keeps_onE [only_intros]:
  "keeps I m \<Longrightarrow> (\<And>e. keeps I (h e)) \<Longrightarrow> (\<And>v. keeps I (k v)) \<Longrightarrow> keeps I (onE m h k)"
  unfolding onE_def by (intro keeps_bind) (auto split: sum.splits)

lemma keeps_results [only_intros]:
  "keeps I (requeue d)" "keeps I done_ok" "keeps I (return_err e)"
  by (simp_all add: keeps_def wp_simps)

lemma keeps_get_obj [only_intros]: "keeps I get_obj"
  by (simp add: keeps_def wp_simps)

section \<open>A library for examples\<close>

text \<open>The documented behaviour of the library functions, as far as the examples use it.\<close>

definition example_lib :: library where
  "example_lib = \<lparr>
     lib_SetCondition = (\<lambda>cs c. filter (\<lambda>d. cond_Type d \<noteq> cond_Type c) cs @ [c]),
     lib_HasCondition = (\<lambda>cs ty. list_ex (\<lambda>c. cond_Type c = ty) cs),
     lib_AddFinalizer = (\<lambda>fs f. if f \<in> set fs then fs else fs @ [f]),
     lib_RemoveFinalizer = (\<lambda>fs f. filter (\<lambda>g. g \<noteq> f) fs),
     lib_IsZero = (\<lambda>e. ae_Host e = '''' \<and> ae_Port e = 0),
     lib_ParseURL = (\<lambda>_. None),
     lib_ErrorText = (\<lambda>_. ''error''),
     lib_IsPaused = (\<lambda>p as. p = Some True),
     lib_ReplicasManagedByExternalAutoscaler = (\<lambda>as. map_of as ''cluster.x-k8s.io/replicas-managed-by'' \<noteq> None),
     lib_IsControlledBy = (\<lambda>refs uid. (uid, True) \<in> set refs),
     lib_SetControllerReference = (\<lambda>uid refs. Inr (refs @ [(uid, True)])) \<rparr>"

end
