(* ===== verification/CpTypes.thy ===== *)
theory CpTypes
  imports Controller CceService
begin

text \<open>
  \<open>api/controlplane/v1beta2/ccemanagedcontrolplane_types.go\<close>: the spec and the status of a
  \<open>CCEManagedControlPlane\<close>, with the metadata the controllers read. A pointer field is an \<open>option\<close>.
\<close>

record EncryptionConfigSpec =
  ecs_Mode :: string

record AuthenticatingProxySpec =
  aps_CA :: string
  aps_Cert :: string
  aps_PrivateKey :: string

record AuthenticationSpec =
  aus_Mode :: string
  aus_AuthenticatingProxy :: "AuthenticatingProxySpec option"

record ControlPlaneLogSpec =
  cls_Name :: string
  cls_Type :: string
  cls_Enable :: bool

record ControlPlaneLoggingSpec =
  clg_TTLInDays :: int32
  clg_Logs :: "ControlPlaneLogSpec list"

record AccessPolicySpec =
  apl_Name :: string
  apl_PolicyType :: string
  apl_PrincipalType :: string
  apl_PrincipalIds :: "string list"
  apl_Namespaces :: "string list"

record PodIdentityAssociationSpec =
  pis_Namespace :: string
  pis_ServiceAccount :: string
  pis_AgencyName :: string

record AddonSpec =
  ads_Name :: string
  ads_Version :: string

record ContainerNetworkSpec =
  cns_Mode :: string
  cns_CIDR :: string
  cns_CIDRs :: "string list"
  cns_ENISubnets :: "string list"

record ServiceNetworkSpec =
  sns_CIDR :: string
  sns_IPv6CIDR :: string

record EndpointAccessSpec =
  eas_Public :: bool
  eas_Private :: bool
  eas_CIDRs :: "string list"

record BillingSpec =
  bil_Mode :: int32

text \<open>\<open>corev1.ObjectReference\<close>, as far as an identity reference is read.\<close>

record ObjectReference =
  ref_Kind :: string
  ref_Name :: string

record CCEManagedControlPlaneSpec =
  cps_ClusterName :: string
  cps_Version :: string
  cps_Category :: string
  cps_Flavor :: string
  cps_ContainerNetwork :: ContainerNetworkSpec
  cps_ServiceNetwork :: ServiceNetworkSpec
  cps_Ipv6Enable :: "bool option"
  cps_EnableAutopilot :: "bool option"
  cps_EnableDataPlaneV2 :: "bool option"
  cps_CustomSan :: "string list"
  cps_EndpointAccess :: EndpointAccessSpec
  cps_AgencyName :: string
  cps_AgencyTrustPolicy :: string
  cps_IdentityRef :: "ObjectReference option"
  cps_Billing :: BillingSpec
  cps_Addons :: "AddonSpec list"
  cps_PodIdentityAssociations :: "PodIdentityAssociationSpec list"
  cps_Logging :: "ControlPlaneLoggingSpec option"
  cps_AccessPolicies :: "AccessPolicySpec list"
  cps_EncryptionConfig :: "EncryptionConfigSpec option"
  cps_Authentication :: "AuthenticationSpec option"
  cps_ControlPlaneEndpoint :: "APIEndpoint option"
  cps_AdditionalTags :: "(string, string) gomap"

record CCEManagedControlPlaneStatus =
  cpt_Ready :: bool
  cpt_ControlPlaneInitialized :: bool
  cpt_Initialized :: bool
  cpt_ClusterID :: string
  cpt_ControlPlaneEndpoint :: "APIEndpoint option"
  cpt_KubeconfigSecretName :: string
  cpt_ControlPlaneEIPID :: string
  cpt_Version :: string
  cpt_UpgradeTaskID :: string
  cpt_ObservedGeneration :: int
  cpt_Addons :: "string list"
  cpt_AccessPolicies :: "string list"
  cpt_Conditions :: "Condition list"

record CCEManagedControlPlane =
  cp_Name :: string
  cp_Namespace :: string
  cp_UID :: string
  cp_Generation :: int
  cp_Annotations :: "(string, string) gomap"
  cp_Finalizers :: "string list"
  cp_Deleting :: bool
  cp_Spec :: CCEManagedControlPlaneSpec
  cp_Status :: CCEManagedControlPlaneStatus

definition on_status :: "(CCEManagedControlPlaneStatus \<Rightarrow> CCEManagedControlPlaneStatus) \<Rightarrow>
    CCEManagedControlPlane \<Rightarrow> CCEManagedControlPlane" where
  "on_status f cp = cp \<lparr> cp_Status := f (cp_Status cp) \<rparr>"

lemma on_status_simps [simp]:
  "cp_Spec (on_status f cp) = cp_Spec cp" "cp_Status (on_status f cp) = f (cp_Status cp)"
  "cp_Name (on_status f cp) = cp_Name cp" "cp_Namespace (on_status f cp) = cp_Namespace cp"
  "cp_Finalizers (on_status f cp) = cp_Finalizers cp" "cp_Annotations (on_status f cp) = cp_Annotations cp"
  "cp_UID (on_status f cp) = cp_UID cp" "cp_Generation (on_status f cp) = cp_Generation cp"
  "cp_Deleting (on_status f cp) = cp_Deleting cp"
  by (simp_all add: on_status_def)

section \<open>The service operations of the control plane controller\<close>

lemma client_service_cp [simp]:
  "svc_ShowCluster (client_service fuel cd s) = ShowCluster s"
  "svc_ReconcileClusterTags (client_service fuel cd s) = ReconcileClusterTags s"
  "svc_CreateCluster (client_service fuel cd s) = CreateCluster s"
  "svc_GetClusterKubeconfig (client_service fuel cd s) = GetClusterKubeconfig cd s"
  "svc_BindClusterEip (client_service fuel cd s) = BindClusterEip s"
  "svc_UnbindClusterEip (client_service fuel cd s) = UnbindClusterEip s"
  "svc_GetUpgradeInfo (client_service fuel cd s) = GetUpgradeInfo s"
  "svc_StartUpgrade (client_service fuel cd s) = StartUpgrade s"
  "svc_ShowUpgradeTask (client_service fuel cd s) = ShowUpgradeTask s"
  "svc_CreateAddonInstance (client_service fuel cd s) = CreateAddonInstance s"
  "svc_UpdateAddonInstance (client_service fuel cd s) = UpdateAddonInstance s"
  "svc_ListAddonInstances (client_service fuel cd s) = ListAddonInstances s"
  "svc_DeleteAddonInstance (client_service fuel cd s) = DeleteAddonInstance s"
  "svc_CreatePodIdentityAssociation (client_service fuel cd s) = CreatePodIdentityAssociation s"
  "svc_ListPodIdentityAssociations (client_service fuel cd s) = ListPodIdentityAssociations s"
  "svc_DeletePodIdentityAssociation (client_service fuel cd s) = DeletePodIdentityAssociation s"
  "svc_UpdateClusterLogConfig (client_service fuel cd s) = UpdateClusterLogConfig s"
  "svc_ShowClusterLogConfig (client_service fuel cd s) = ShowClusterLogConfig s"
  "svc_CreateAccessPolicy (client_service fuel cd s) = CreateAccessPolicy s"
  "svc_UpdateAccessPolicy (client_service fuel cd s) = UpdateAccessPolicy s"
  "svc_ListAccessPolicies (client_service fuel cd s) = ListAccessPolicies s"
  "svc_DeleteAccessPolicy (client_service fuel cd s) = DeleteAccessPolicy s"
  by (simp_all add: client_service_def)

section \<open>A control plane for examples\<close>

definition example_cp_spec :: CCEManagedControlPlaneSpec where
  "example_cp_spec = \<lparr> cps_ClusterName = ''demo'', cps_Version = ''v1.34.1-r0'', cps_Category = ''CCE'',
     cps_Flavor = ''cce.s1.small'',
     cps_ContainerNetwork = \<lparr> cns_Mode = ''overlay_l2'', cns_CIDR = ''172.16.0.0/16'', cns_CIDRs = [], cns_ENISubnets = [] \<rparr>,
     cps_ServiceNetwork = \<lparr> sns_CIDR = ''10.247.0.0/16'', sns_IPv6CIDR = '''' \<rparr>,
     cps_Ipv6Enable = None, cps_EnableAutopilot = None, cps_EnableDataPlaneV2 = None, cps_CustomSan = [],
     cps_EndpointAccess = \<lparr> eas_Public = False, eas_Private = True, eas_CIDRs = [] \<rparr>,
     cps_AgencyName = '''', cps_AgencyTrustPolicy = '''', cps_IdentityRef = None, cps_Billing = \<lparr> bil_Mode = 0 \<rparr>,
     cps_Addons = [], cps_PodIdentityAssociations = [], cps_Logging = None, cps_AccessPolicies = [],
     cps_EncryptionConfig = None, cps_Authentication = None, cps_ControlPlaneEndpoint = None,
     cps_AdditionalTags = [] \<rparr>"

definition example_cp_status :: CCEManagedControlPlaneStatus where
  "example_cp_status = \<lparr> cpt_Ready = False, cpt_ControlPlaneInitialized = False, cpt_Initialized = False,
     cpt_ClusterID = ''c1'', cpt_ControlPlaneEndpoint = None, cpt_KubeconfigSecretName = '''',
     cpt_ControlPlaneEIPID = '''', cpt_Version = '''', cpt_UpgradeTaskID = '''', cpt_ObservedGeneration = 0,
     cpt_Addons = [], cpt_AccessPolicies = [], cpt_Conditions = [] \<rparr>"

definition example_cp :: CCEManagedControlPlane where
  "example_cp = \<lparr> cp_Name = ''demo-cp'', cp_Namespace = ''default'', cp_UID = ''uid-1'', cp_Generation = 1,
     cp_Annotations = [], cp_Finalizers = [], cp_Deleting = False, cp_Spec = example_cp_spec,
     cp_Status = example_cp_status \<rparr>"

end
