(* ===== verification/CpSubresources.thy ===== *)
theory CpSubresources
  imports CpTypes GarbageCollector "HOL-Library.Multiset"
begin

text \<open>
  The declarative sets of \<open>controllers/ccemanagedcontrolplane_controller.go\<close>: addons, pod identity
  associations, control plane logging and access policies, each converged against what the service lists.
  Every function returns the control plane with the ledger it recorded; on an error the object is unchanged.
  The service is any \<open>Service\<close>; the properties are about the SDK-backed one.
\<close>

section \<open>Definitions\<close>

text \<open>A map filled in a loop: a later element of the same key replaces an earlier one.\<close>

definition index_by :: "('a \<Rightarrow> string) \<Rightarrow> 'a list \<Rightarrow> (string, 'a) gomap" where
  "index_by key xs = fold (\<lambda>x m. AList.update (key x) x m) xs []"

subsection \<open>Addons\<close>

definition addon_apply :: "('w, 'z) cp_service_scheme \<Rightarrow> string \<Rightarrow> (string, AddonInfo) gomap \<Rightarrow> AddonSpec \<Rightarrow>
    string list \<Rightarrow> ('w, string list) go" where
  "addon_apply svc clusterID cloudByName want created = (case map_of cloudByName (ads_Name want) of
      None \<Rightarrow> tryE (svc_CreateAddonInstance svc \<lparr> adi_ClusterID = clusterID, adi_AddonID = '''',
                 adi_Name = ads_Name want, adi_Version = ads_Version want \<rparr>)
               (\<lambda>_. ok (ads_Name want # created))
    | Some got \<Rightarrow>
        if ads_Version want \<noteq> '''' \<and> ads_Version want \<noteq> ad_Version got
        then tryE (svc_UpdateAddonInstance svc \<lparr> adi_ClusterID = clusterID, adi_AddonID = ad_ID got,
                 adi_Name = ads_Name want, adi_Version = ads_Version want \<rparr>) (\<lambda>_. ok created)
        else ok created)"

definition addon_remove :: "('w, 'z) cp_service_scheme \<Rightarrow> string \<Rightarrow> (string, AddonSpec) gomap \<Rightarrow> string list \<Rightarrow>
    AddonInfo \<Rightarrow> ('w, unit) go" where
  "addon_remove svc clusterID specByName managed got =
     (if map_of specByName (ad_Name got) \<noteq> None then ok ()
      else if ad_Name got \<notin> set managed then ok ()
      else svc_DeleteAddonInstance svc clusterID (ad_ID got))"

definition reconcileAddons :: "library \<Rightarrow> ('w, 'z) cp_service_scheme \<Rightarrow> string \<Rightarrow> CCEManagedControlPlane \<Rightarrow>
    ('w, CCEManagedControlPlane) go" where
  "reconcileAddons lib svc clusterID cp = (let spec = cps_Addons (cp_Spec cp);
       managed = cpt_Addons (cp_Status cp) in
     if spec = [] \<and> \<not> lib_HasCondition lib (cpt_Conditions (cp_Status cp)) AddonsConfiguredCondition then ok cp
     else tryE (svc_ListAddonInstances svc clusterID) (\<lambda>current.
       tryE (foldE (addon_apply svc clusterID (index_by ad_Name current)) spec []) (\<lambda>created.
       tryE (forE (addon_remove svc clusterID (index_by ads_Name spec) managed) current) (\<lambda>_.
         ok (on_status (\<lambda>st. st \<lparr> cpt_Addons := filter (\<lambda>n. n \<in> set managed \<or> n \<in> set created)
               (map ads_Name spec) \<rparr>) cp)))))"

subsection \<open>Pod identity associations\<close>

definition pod_key :: "string \<Rightarrow> string \<Rightarrow> string" where
  "pod_key ns sa = ns @ ''/'' @ sa"

definition info_key :: "PodIdentityAssociationInfo \<Rightarrow> string" where
  "info_key a = pod_key (pai_Namespace a) (pai_ServiceAccount a)"

definition spec_key :: "PodIdentityAssociationSpec \<Rightarrow> string" where
  "spec_key a = pod_key (pis_Namespace a) (pis_ServiceAccount a)"

definition pod_create :: "('w, 'z) cp_service_scheme \<Rightarrow> string \<Rightarrow> string \<Rightarrow>
    (string, PodIdentityAssociationInfo) gomap \<Rightarrow> (string, PodIdentityAssociationInfo) gomap \<Rightarrow>
    PodIdentityAssociationSpec \<Rightarrow> ('w, unit) go" where
  "pod_create svc clusterID ownedTag managedByKey presentByKey want = (let k = spec_key want in
     if map_of managedByKey k \<noteq> None then ok ()
     else if map_of presentByKey k \<noteq> None then ok ()
     else tryE (svc_CreatePodIdentityAssociation svc \<lparr> pii_ClusterID = clusterID,
            pii_Namespace = pis_Namespace want, pii_ServiceAccount = pis_ServiceAccount want,
            pii_AgencyName = pis_AgencyName want, pii_Tags = [(ownedTag, ''owned'')] \<rparr>) (\<lambda>_. ok ()))"

definition pod_delete :: "('w, 'z) cp_service_scheme \<Rightarrow> string \<Rightarrow> string list \<Rightarrow>
    string \<times> PodIdentityAssociationInfo \<Rightarrow> ('w, unit) go" where
  "pod_delete svc clusterID specKeys kg =
     (if fst kg \<in> set specKeys then ok ()
      else svc_DeletePodIdentityAssociation svc clusterID (pai_ID (snd kg)))"

text \<open>\<open>visit\<close> is the order in which the final \<open>range\<close> visits the map of managed associations.\<close>

definition reconcilePodIdentityAssociations :: "library \<Rightarrow> ('w, 'z) cp_service_scheme \<Rightarrow>
    ((string, PodIdentityAssociationInfo) gomap \<Rightarrow> (string, PodIdentityAssociationInfo) gomap) \<Rightarrow> string \<Rightarrow>
    CCEManagedControlPlane \<Rightarrow> ('w, unit) go" where
  "reconcilePodIdentityAssociations lib svc visit clusterID cp = (let spec = cps_PodIdentityAssociations (cp_Spec cp) in
     if spec = [] \<and> \<not> lib_HasCondition lib (cpt_Conditions (cp_Status cp)) PodIdentityAssociationsConfiguredCondition
     then ok ()
     else tryE (svc_ListPodIdentityAssociations svc clusterID) (\<lambda>current.
       let ownedTag = OwnedTagKey (cps_ClusterName (cp_Spec cp));
           presentByKey = index_by info_key current;
           managedByKey = index_by info_key (filter (\<lambda>a. get_str (pai_Tags a) ownedTag = ''owned'') current)
       in tryE (forE (pod_create svc clusterID ownedTag managedByKey presentByKey) spec) (\<lambda>_.
            forE (pod_delete svc clusterID (map spec_key spec)) (visit managedByKey))))"

subsection \<open>Logging\<close>

definition log_key :: "LogConfigInput \<Rightarrow> string" where
  "log_key l = (let t = (if lci_Type l = '''' then ''control'' else lci_Type l) in
     lci_Name l @ ''/'' @ t @ ''/'' @ (if lci_Enable l then ''true'' else ''false''))"

fun count_keys :: "LogConfigInput list \<Rightarrow> (string \<Rightarrow> nat) \<Rightarrow> (string \<Rightarrow> nat)" where
  "count_keys [] c = c"
| "count_keys (l # ls) c = count_keys ls (c(log_key l := c (log_key l) + 1))"

fun match_keys :: "LogConfigInput list \<Rightarrow> (string \<Rightarrow> nat) \<Rightarrow> bool" where
  "match_keys [] c \<longleftrightarrow> True"
| "match_keys (l # ls) c \<longleftrightarrow>
     (if c (log_key l) = 0 then False else match_keys ls (c(log_key l := c (log_key l) - 1)))"

definition logConfigEqual :: "LogConfigInfo \<Rightarrow> LogConfigInfo \<Rightarrow> bool" where
  "logConfigEqual a b \<longleftrightarrow>
     (if lcf_TTLInDays a \<noteq> lcf_TTLInDays b then False
      else if length (lcf_Logs a) \<noteq> length (lcf_Logs b) then False
      else match_keys (lcf_Logs b) (count_keys (lcf_Logs a) (\<lambda>_. 0)))"

definition wanted_logs :: "ControlPlaneLoggingSpec \<Rightarrow> LogConfigInfo" where
  "wanted_logs lg = \<lparr> lcf_TTLInDays = clg_TTLInDays lg,
     lcf_Logs = map (\<lambda>l. \<lparr> lci_Name = cls_Name l, lci_Type = cls_Type l, lci_Enable = cls_Enable l \<rparr>) (clg_Logs lg) \<rparr>"

definition reconcileLogging :: "('w, 'z) cp_service_scheme \<Rightarrow> string \<Rightarrow> CCEManagedControlPlane \<Rightarrow> ('w, unit) go" where
  "reconcileLogging svc clusterID cp = (case cps_Logging (cp_Spec cp) of
      None \<Rightarrow> ok ()
    | Some lg \<Rightarrow> tryE (svc_ShowClusterLogConfig svc clusterID) (\<lambda>got.
        if logConfigEqual got (wanted_logs lg) then ok ()
        else svc_UpdateClusterLogConfig svc clusterID (lcf_TTLInDays (wanted_logs lg)) (lcf_Logs (wanted_logs lg))))"

subsection \<open>Access policies\<close>

definition accessPolicyInScope :: "AccessPolicyInfo \<Rightarrow> string \<Rightarrow> bool" where
  "accessPolicyInScope p clusterID \<longleftrightarrow> list_ex (\<lambda>id. id = clusterID \<or> id = ''*'') (acf_ClusterIDs p)"

definition toAccessPolicyInput :: "string \<Rightarrow> AccessPolicySpec \<Rightarrow> AccessPolicyInput" where
  "toAccessPolicyInput clusterID p = \<lparr> acp_Name = apl_Name p, acp_ClusterID = clusterID,
     acp_PolicyType = apl_PolicyType p, acp_PrincipalType = apl_PrincipalType p,
     acp_PrincipalIDs = apl_PrincipalIds p, acp_Namespaces = apl_Namespaces p \<rparr>"

definition accessPolicyDrifted :: "AccessPolicyInfo \<Rightarrow> AccessPolicySpec \<Rightarrow> bool" where
  "accessPolicyDrifted got want \<longleftrightarrow>
     (if acf_PolicyType got \<noteq> apl_PolicyType want \<or> acf_PrincipalType got \<noteq> apl_PrincipalType want then True
      else if acf_PrincipalIDs got \<noteq> apl_PrincipalIds want then True
      else (let wantNS = (if apl_Namespaces want = [] then [''*''] else apl_Namespaces want) in
        acf_Namespaces got \<noteq> wantNS))"

definition policy_apply :: "('w, 'z) cp_service_scheme \<Rightarrow> string \<Rightarrow> (string, AccessPolicyInfo) gomap \<Rightarrow> string list \<Rightarrow>
    AccessPolicySpec \<Rightarrow> ('w, unit) go" where
  "policy_apply svc clusterID cloudByName managed want = (let input = toAccessPolicyInput clusterID want in
     case map_of cloudByName (apl_Name want) of
       None \<Rightarrow> tryE (svc_CreateAccessPolicy svc input) (\<lambda>_. ok ())
     | Some got \<Rightarrow>
         if apl_Name want \<notin> set managed
         then fail (PlainErr (msgf [''access policy '', apl_Name want, '' already exists in the scope of cluster '',
                clusterID, '' but is not managed by this provider; remove the conflicting policy or rename the declared one'']))
         else if accessPolicyDrifted got want then svc_UpdateAccessPolicy svc (acf_PolicyID got) input
         else ok ())"

definition policy_remove :: "('w, 'z) cp_service_scheme \<Rightarrow> string \<Rightarrow> (string, AccessPolicySpec) gomap \<Rightarrow> string list \<Rightarrow>
    AccessPolicyInfo \<Rightarrow> ('w, unit) go" where
  "policy_remove svc clusterID specByName managed got =
     (if map_of specByName (acf_Name got) \<noteq> None then ok ()
      else if acf_Name got \<notin> set managed \<or> \<not> accessPolicyInScope got clusterID then ok ()
      else svc_DeleteAccessPolicy svc (acf_PolicyID got))"

definition reconcileAccessPolicies :: "library \<Rightarrow> ('w, 'z) cp_service_scheme \<Rightarrow> string \<Rightarrow> CCEManagedControlPlane \<Rightarrow>
    ('w, CCEManagedControlPlane) go" where
  "reconcileAccessPolicies lib svc clusterID cp = (let spec = cps_AccessPolicies (cp_Spec cp);
       managed = cpt_AccessPolicies (cp_Status cp) in
     if spec = [] \<and> \<not> lib_HasCondition lib (cpt_Conditions (cp_Status cp)) AccessPoliciesConfiguredCondition
     then ok cp
     else tryE (svc_ListAccessPolicies svc) (\<lambda>current.
       let cloudByName = index_by acf_Name (filter (\<lambda>p. accessPolicyInScope p clusterID) current) in
       tryE (forE (policy_apply svc clusterID cloudByName managed) spec) (\<lambda>_.
       tryE (forE (policy_remove svc clusterID (index_by apl_Name spec) managed) current) (\<lambda>_.
         ok (on_status (\<lambda>st. st \<lparr> cpt_AccessPolicies := map apl_Name spec \<rparr>) cp)))))"

section \<open>Lookups in the index\<close>

lemma map_of_fold_update:
  "map_of (fold (\<lambda>x m. AList.update (key x) x m) xs m) k = Some v \<Longrightarrow>
     (v \<in> set xs \<and> key v = k) \<or> map_of m k = Some v"
  by (induction xs arbitrary: m) (fastforce simp: update_conv' split: if_splits)+

lemma index_by_Some: "map_of (index_by key xs) k = Some v \<Longrightarrow> v \<in> set xs \<and> key v = k"
  using map_of_fold_update[of key xs "[]" k v] by (simp add: index_by_def)

lemma dom_fold_update:
  "dom (map_of (fold (\<lambda>x m. AList.update (key x) x m) xs m)) = key ` set xs \<union> dom (map_of m)"
  by (induction xs arbitrary: m) (auto simp: update_conv' split: if_splits)

lemma index_by_None: "map_of (index_by key xs) k = None \<longleftrightarrow> k \<notin> key ` set xs"
proof -
  have "dom (map_of (index_by key xs)) = key ` set xs"
    using dom_fold_update[of key xs "[]"] by (simp add: index_by_def)
  then show ?thesis using domIff[of k "map_of (index_by key xs)"] by auto
qed

lemma set_fold_update:
  "p \<in> set (fold (\<lambda>x m. AList.update (key x) x m) xs m) \<Longrightarrow> (snd p \<in> set xs \<and> fst p = key (snd p)) \<or> p \<in> set m"
proof (induction xs arbitrary: m)
  case (Cons x xs)
  have "p \<in> set (AList.update (key x) x m) \<Longrightarrow> p = (key x, x) \<or> p \<in> set m"
    by (induction m) (auto split: if_splits)
  then show ?case using Cons.IH[of "AList.update (key x) x m"] Cons.prems by auto
qed simp

lemma set_index_by: "(k, v) \<in> set (index_by key xs) \<Longrightarrow> v \<in> set xs \<and> k = key v"
  using set_fold_update[of "(k, v)" key xs "[]"] by (simp add: index_by_def)


section \<open>What a pass sends\<close>

text \<open>A pass lists once and then sends only requests that are justified by the listing.\<close>

lemma listing_sends:
  assumes "run_state l tr = (r, tr @ [q])" and "\<And>x. r = Inr x \<Longrightarrow> sends (P x) (k x)"
  shows "\<exists>new. snd (run_state (tryE l k) tr) = tr @ q # new \<and>
    (case r of Inl _ \<Rightarrow> new = [] | Inr x \<Rightarrow> list_all (P x) new)"
proof (cases r)
  case (Inl e)
  then show ?thesis using assms(1) by (simp add: tryE_def fail_def)
next
  case (Inr x)
  have "snd (run_state (tryE l k) tr) = snd (run_state (k x) (tr @ [q]))"
    using assms(1) Inr by (simp add: tryE_def)
  then show ?thesis
    using sendsD[OF assms(2)[OF Inr], of "tr @ [q]"] Inr by (auto simp: extends_def)
qed

lemma run_ListAddonInstances: "\<exists>r. run_state (ListAddonInstances s cid) tr = (r, tr @ [CceReq (ListAddonInstancesReq cid)])"
  by (cases "ans_ListAddonInstances (cli_cloud s) (tr @ [CceReq (ListAddonInstancesReq cid)])")
     (auto simp: ListAddonInstances_def tryE_def wrapE_def ok_def fail_def)

lemma run_ListPodIdentityAssociations:
  "\<exists>r. run_state (ListPodIdentityAssociations s cid) tr = (r, tr @ [CceReq (ListPodIdentityReq cid)])"
  by (cases "ans_ListPodIdentity (cli_cloud s) (tr @ [CceReq (ListPodIdentityReq cid)])")
     (auto simp: ListPodIdentityAssociations_def tryE_def wrapE_def ok_def fail_def)

lemma run_ListAccessPolicies: "\<exists>r. run_state (ListAccessPolicies s) tr = (r, tr @ [CceReq ListAccessPolicyReq])"
  by (cases "ans_ListAccessPolicy (cli_cloud s) (tr @ [CceReq ListAccessPolicyReq])")
     (auto simp: ListAccessPolicies_def tryE_def wrapE_def ok_def fail_def)

definition create_addon_named :: "string \<Rightarrow> string \<Rightarrow> request \<Rightarrow> bool" where
  "create_addon_named cid n q \<longleftrightarrow> (\<exists>i. q = CceReq (CreateAddonInstanceReq i) \<and> ir_ClusterID i = cid \<and> ir_Name i = n)"

definition addon_fine :: "string \<Rightarrow> string list \<Rightarrow> string list \<Rightarrow> AddonInfo list \<Rightarrow> request \<Rightarrow> bool" where
  "addon_fine cid names managed current q \<longleftrightarrow> (case q of
      CceReq (CreateAddonInstanceReq i) \<Rightarrow> ir_ClusterID i = cid \<and> ir_Name i \<in> set names \<and> ir_Name i \<notin> ad_Name ` set current
    | CceReq (UpdateAddonInstanceReq a i) \<Rightarrow> ir_ClusterID i = cid \<and> ir_Name i \<in> set names \<and>
        (\<exists>got \<in> set current. ad_ID got = a \<and> ad_Name got = ir_Name i)
    | CceReq (DeleteAddonInstanceReq a) \<Rightarrow>
        (\<exists>got \<in> set current. ad_ID got = a \<and> ad_Name got \<in> set managed \<and> ad_Name got \<notin> set names)
    | _ \<Rightarrow> False)"

lemma addon_apply_sends:
  assumes "want \<in> set spec"
  shows "sends (addon_fine cid (map ads_Name spec) managed current)
    (addon_apply (client_service fuel cd s) cid (index_by ad_Name current) want created)"
proof -
  have "got \<in> set current \<and> ad_Name got = ads_Name want" if "map_of (index_by ad_Name current) (ads_Name want) = Some got" for got
    using index_by_Some[OF that] .
  then show ?thesis
    using assms unfolding addon_apply_def
    by (intro sends_intros) (auto simp: CreateAddonInstance_def UpdateAddonInstance_def addon_fine_def index_by_None
        intro!: sends_intros)
qed

lemma addon_remove_sends:
  assumes "got \<in> set current"
  shows "sends (addon_fine cid (map ads_Name spec) managed current)
    (addon_remove (client_service fuel cd s) cid (index_by ads_Name spec) managed got)"
  using assms by (auto simp: addon_remove_def index_by_None DeleteAddonInstance_def addon_fine_def intro!: sends_intros)

lemma addon_apply_created:
  "wp (addon_apply (client_service fuel cd s) cid m want created) (\<lambda>r tr'. (\<exists>z. tr' = tr @ z) \<and>
     (\<forall>c. r = Inr c \<longrightarrow> (\<forall>n \<in> set c. n \<in> set created \<or> list_ex (create_addon_named cid n) tr'))) tr"
  by (auto simp: addon_apply_def wp_simps CreateAddonInstance_def UpdateAddonInstance_def create_addon_named_def
      split: option.splits sum.splits)

lemma addon_fold_created:
  "\<forall>n \<in> set created. list_ex (create_addon_named cid n) tr \<Longrightarrow>
   wp (foldE (addon_apply (client_service fuel cd s) cid m) spec created) (\<lambda>r tr'. (\<exists>z. tr' = tr @ z) \<and>
     (\<forall>c. r = Inr c \<longrightarrow> (\<forall>n \<in> set c. list_ex (create_addon_named cid n) tr'))) tr"
proof (induction spec arbitrary: created tr)
  case (Cons want spec)
  have step: "wp (foldE (addon_apply (client_service fuel cd s) cid m) spec v) (\<lambda>r tr''. (\<exists>z. tr'' = tr @ z) \<and>
      (\<forall>c. r = Inr c \<longrightarrow> (\<forall>n \<in> set c. list_ex (create_addon_named cid n) tr''))) (tr @ z)"
    if "\<forall>n \<in> set v. n \<in> set created \<or> list_ex (create_addon_named cid n) (tr @ z)" for v z
    using that Cons.prems by (intro wp_mono[OF Cons.IH]) auto
  show ?case
    unfolding foldE.simps wp_tryE
    by (rule wp_mono[OF addon_apply_created[of fuel cd s cid m want created tr]])
       (auto split: sum.splits intro: step)
qed (simp add: wp_simps)


text \<open>One addon pass: it sends nothing, or the listing and then only fine requests.\<close>

lemma reconcileAddons_sends:
  "snd (run_state (reconcileAddons lib (client_service fuel cd s) cid cp) tr) = tr \<or>
   (\<exists>r new. snd (run_state (reconcileAddons lib (client_service fuel cd s) cid cp) tr) =
        tr @ CceReq (ListAddonInstancesReq cid) # new \<and>
      run_state (ListAddonInstances s cid) tr = (r, tr @ [CceReq (ListAddonInstancesReq cid)]) \<and>
      (case r of Inl _ \<Rightarrow> new = [] | Inr current \<Rightarrow> list_all (addon_fine cid
         (map ads_Name (cps_Addons (cp_Spec cp))) (cpt_Addons (cp_Status cp)) current) new))"
proof -
  obtain r where r: "run_state (ListAddonInstances s cid) tr = (r, tr @ [CceReq (ListAddonInstancesReq cid)])"
    using run_ListAddonInstances by blast
  have "sends (addon_fine cid (map ads_Name spec) managed current)
      (tryE (foldE (addon_apply (client_service fuel cd s) cid (index_by ad_Name current)) spec [])
        (\<lambda>created. tryE (forE (addon_remove (client_service fuel cd s) cid (index_by ads_Name spec) managed) current)
          (\<lambda>_. ok (f created))))" for spec managed current and f :: "string list \<Rightarrow> CCEManagedControlPlane"
    by (intro sends_intros addon_apply_sends addon_remove_sends)
  then have "\<exists>new. snd (run_state (tryE (ListAddonInstances s cid) (\<lambda>current.
       tryE (foldE (addon_apply (client_service fuel cd s) cid (index_by ad_Name current)) spec []) (\<lambda>created.
       tryE (forE (addon_remove (client_service fuel cd s) cid (index_by ads_Name spec) managed) current) (\<lambda>_.
         ok (f created))))) tr) = tr @ CceReq (ListAddonInstancesReq cid) # new \<and>
      (case r of Inl _ \<Rightarrow> new = [] | Inr current \<Rightarrow> list_all (addon_fine cid (map ads_Name spec) managed current) new)"
    for spec managed and f :: "string list \<Rightarrow> CCEManagedControlPlane"
    by (rule listing_sends[OF r])
  then show ?thesis
    using r unfolding reconcileAddons_def Let_def by (auto simp: ok_def)
qed

text \<open>What a pass records in the ledger was in it before or was created in this pass.\<close>

lemma reconcileAddons_ledger:
  "wp (reconcileAddons lib (client_service fuel cd s) cid cp) (\<lambda>r tr'. (\<exists>z. tr' = tr @ z) \<and>
     (\<forall>cp'. r = Inr cp' \<longrightarrow> (\<forall>n \<in> set (cpt_Addons (cp_Status cp')).
        n \<in> set (cpt_Addons (cp_Status cp)) \<or> list_ex (create_addon_named cid n) tr'))) tr"
proof -
  define Q where "Q r tr' \<longleftrightarrow> (\<exists>z. tr' = tr @ z) \<and>
     (\<forall>cp'. r = Inr cp' \<longrightarrow> (\<forall>n \<in> set (cpt_Addons (cp_Status cp')).
        n \<in> set (cpt_Addons (cp_Status cp)) \<or> list_ex (create_addon_named cid n) tr'))"
    for r :: "go_error + CCEManagedControlPlane" and tr'
  obtain r where r: "run_state (ListAddonInstances s cid) tr = (r, tr @ [CceReq (ListAddonInstancesReq cid)])"
    using run_ListAddonInstances by blast
  have remove: "wp (forE (addon_remove (client_service fuel cd s) cid m managed) xs)
      (\<lambda>_ tr'. \<exists>z. tr' = tr0 @ z) tr0" for m managed xs tr0
  proof -
    have "sends (\<lambda>_. True) (forE (addon_remove (client_service fuel cd s) cid m managed) xs)"
      by (auto simp: addon_remove_def DeleteAddonInstance_def intro!: sends_intros)
    from sendsD[OF this, of tr0] show ?thesis by (auto simp: wp_run extends_def)
  qed
  have rest: "wp (tryE (forE (addon_remove (client_service fuel cd s) cid m managed) xs) (\<lambda>_.
         ok (on_status (\<lambda>st. st \<lparr> cpt_Addons := filter (\<lambda>n. n \<in> set (cpt_Addons (cp_Status cp)) \<or> n \<in> set created)
               ns \<rparr>) cp))) Q tr0"
    if "\<exists>z. tr0 = tr @ z" "\<forall>n \<in> set created. list_ex (create_addon_named cid n) tr0" for m managed xs created ns tr0
    unfolding wp_tryE by (rule wp_mono[OF remove]) (use that in \<open>auto simp: Q_def wp_simps split: sum.splits\<close>)
  have fold: "wp (foldE (addon_apply (client_service fuel cd s) cid m) spec []) (\<lambda>r. case r of Inl e \<Rightarrow> Q (Inl e)
      | Inr created \<Rightarrow> wp (k created) Q) tr0"
    if "\<exists>z. tr0 = tr @ z" "\<And>created tr0. \<exists>z. tr0 = tr @ z \<Longrightarrow>
        \<forall>n \<in> set created. list_ex (create_addon_named cid n) tr0 \<Longrightarrow> wp (k created) Q tr0" for m spec k tr0
    by (rule wp_mono[OF addon_fold_created[of "[]"]])
       (use that in \<open>auto simp: Q_def[of "Inl _"] split: sum.splits\<close>)
  have "wp (reconcileAddons lib (client_service fuel cd s) cid cp) Q tr"
    unfolding reconcileAddons_def Let_def
    by (auto simp: wp_tryE[of "ListAddonInstances s cid"] wp_tryE[of "foldE _ _ _"] wp_run[of "ListAddonInstances s cid"] r
          wp_ok Q_def[of "Inl _"] Q_def[of "Inr cp"] split: sum.splits intro!: fold rest)
  then show ?thesis by (simp add: Q_def[abs_def])
qed


section \<open>Addons: only what the provider created is deleted\<close>

text \<open>
  The life of the addon ledger of one cluster: the requests the provider has sent, and the persisted
  \<open>status.addons\<close>. A pass runs with any spec, any conditions and the persisted ledger; what it recorded is
  persisted, or lost (a failed pass, a failed status patch). Between passes any other request may be sent,
  and whatever the platform installs or removes on its own is in the cloud's answers.
\<close>

definition other_request :: "request \<Rightarrow> bool" where
  "other_request q = (case q of CceReq (CreateAddonInstanceReq _) \<Rightarrow> False
     | CceReq (DeleteAddonInstanceReq _) \<Rightarrow> False | _ \<Rightarrow> True)"

inductive addon_passes :: "library \<Rightarrow> history service \<Rightarrow> string \<Rightarrow> history \<Rightarrow> string list \<Rightarrow> bool"
  for lib svc cid where
  start: "addon_passes lib svc cid [] []"
| other: "addon_passes lib svc cid tr led \<Longrightarrow> other_request q \<Longrightarrow> addon_passes lib svc cid (tr @ [q]) led"
| pass: "addon_passes lib svc cid tr (cpt_Addons (cp_Status cp)) \<Longrightarrow>
    run_state (reconcileAddons lib svc cid cp) tr = (Inr cp', tr') \<Longrightarrow>
    addon_passes lib svc cid tr' (cpt_Addons (cp_Status cp'))"
| lost: "addon_passes lib svc cid tr (cpt_Addons (cp_Status cp)) \<Longrightarrow>
    run_state (reconcileAddons lib svc cid cp) tr = (r, tr') \<Longrightarrow>
    addon_passes lib svc cid tr' (cpt_Addons (cp_Status cp))"

text \<open>A deletion of \<open>a\<close> after the requests \<open>pre\<close> is justified: a listing in \<open>pre\<close> reported \<open>a\<close> under a name for
  which \<open>pre\<close> holds a creation by the provider in the same cluster.\<close>

definition deletion_justified :: "Client \<Rightarrow> string \<Rightarrow> history \<Rightarrow> string \<Rightarrow> bool" where
  "deletion_justified s cid pre a \<longleftrightarrow> (\<exists>p z infos got. pre = p @ CceReq (ListAddonInstancesReq cid) # z \<and>
     fst (run_state (ListAddonInstances s cid) p) = Inr infos \<and> got \<in> set infos \<and> ad_ID got = a \<and>
     list_ex (create_addon_named cid (ad_Name got)) pre)"

lemma deletion_justified_mono: "deletion_justified s cid pre a \<Longrightarrow> deletion_justified s cid (pre @ z) a"
  unfolding deletion_justified_def by fastforce

definition deletions_justified :: "Client \<Rightarrow> string \<Rightarrow> history \<Rightarrow> bool" where
  "deletions_justified s cid tr \<longleftrightarrow>
     (\<forall>pre a post. tr = pre @ CceReq (DeleteAddonInstanceReq a) # post \<longrightarrow> deletion_justified s cid pre a)"

lemma deletions_justified_snoc:
  assumes "deletions_justified s cid tr"
    and "\<And>a. q = CceReq (DeleteAddonInstanceReq a) \<Longrightarrow> deletion_justified s cid tr a"
  shows "deletions_justified s cid (tr @ [q])"
  unfolding deletions_justified_def
proof (intro allI impI)
  fix pre a post
  assume eq: "tr @ [q] = pre @ CceReq (DeleteAddonInstanceReq a) # post"
  show "deletion_justified s cid pre a"
  proof (cases post rule: rev_cases)
    case Nil
    then show ?thesis using eq assms(2) by simp
  next
    case (snoc post' x)
    then have "tr = pre @ CceReq (DeleteAddonInstanceReq a) # post'" using eq by simp
    then show ?thesis using assms(1) by (simp add: deletions_justified_def)
  qed
qed

lemma deletions_justified_append:
  assumes "deletions_justified s cid tr"
    and "\<And>a z. CceReq (DeleteAddonInstanceReq a) \<in> set new \<Longrightarrow> deletion_justified s cid (tr @ z) a"
  shows "deletions_justified s cid (tr @ new)"
  using assms(2)
proof (induction new rule: rev_induct)
  case (snoc q new)
  have "deletions_justified s cid ((tr @ new) @ [q])"
    using snoc by (intro deletions_justified_snoc) auto
  then show ?case by simp
qed (use assms(1) in simp)

lemma pass_justified:
  assumes "deletions_justified s cid tr"
    and "\<forall>n \<in> set (cpt_Addons (cp_Status cp)). list_ex (create_addon_named cid n) tr"
  shows "deletions_justified s cid (snd (run_state (reconcileAddons lib (client_service fuel cd s) cid cp) tr))"
proof -
  let ?q = "CceReq (ListAddonInstancesReq cid)"
  consider "snd (run_state (reconcileAddons lib (client_service fuel cd s) cid cp) tr) = tr"
    | r new where "snd (run_state (reconcileAddons lib (client_service fuel cd s) cid cp) tr) = tr @ ?q # new"
      "run_state (ListAddonInstances s cid) tr = (r, tr @ [?q])"
      "case r of Inl _ \<Rightarrow> new = [] | Inr current \<Rightarrow> list_all (addon_fine cid
         (map ads_Name (cps_Addons (cp_Spec cp))) (cpt_Addons (cp_Status cp)) current) new"
    using reconcileAddons_sends[of lib fuel cd s cid cp tr] by blast
  then show ?thesis
  proof cases
    case 1
    then show ?thesis using assms(1) by simp
  next
    case 2
    have listed: "deletions_justified s cid (tr @ [?q])"
      using assms(1) by (rule deletions_justified_snoc) simp
    have "deletion_justified s cid ((tr @ [?q]) @ z) a" if del: "CceReq (DeleteAddonInstanceReq a) \<in> set new" for a z
    proof -
      obtain current where r: "r = Inr current" using 2(3) del by (cases r) auto
      then obtain got where got: "got \<in> set current" "ad_ID got = a" "ad_Name got \<in> set (cpt_Addons (cp_Status cp))"
        using 2(3) del by (auto simp: list_all_iff addon_fine_def dest!: bspec)
      then have "list_ex (create_addon_named cid (ad_Name got)) (tr @ ?q # z)"
        using assms(2) by auto
      then show ?thesis
        using 2(2) r got unfolding deletion_justified_def
        by (intro exI[of _ tr] exI[of _ z] exI[of _ current] exI[of _ got]) simp
    qed
    then have "deletions_justified s cid ((tr @ [?q]) @ new)"
      by (rule deletions_justified_append[OF listed])
    then show ?thesis using 2(1) by simp
  qed
qed

lemma create_addon_mono: "list_ex (create_addon_named cid n) tr \<Longrightarrow> list_ex (create_addon_named cid n) (tr @ z)"
  by simp

lemma addon_passes_inv:
  "addon_passes lib (client_service fuel cd s) cid tr led \<Longrightarrow>
     deletions_justified s cid tr \<and> (\<forall>n \<in> set led. list_ex (create_addon_named cid n) tr)"
proof (induction rule: addon_passes.induct)
  case start
  show ?case by (simp add: deletions_justified_def)
next
  case (other tr led q)
  then show ?case
    by (auto simp: other_request_def intro!: deletions_justified_snoc)
next
  case (pass tr cp cp' tr')
  then show ?case
    using pass_justified[of s cid tr cp lib fuel cd] reconcileAddons_ledger[of lib fuel cd s cid cp tr]
    by (fastforce simp: wp_run)
next
  case (lost tr cp r tr')
  then show ?case
    using pass_justified[of s cid tr cp lib fuel cd] reconcileAddons_ledger[of lib fuel cd s cid cp tr]
    by (fastforce simp: wp_run)
qed

text \<open>C17: No addon is deleted that the provider did not create. Over any number of reconciles of one
  cluster, with any specs, any answers of the platform, failed passes and lost status patches in between,
  every addon deletion the provider ever sends is of an addon the platform had listed under a name for which
  the provider had earlier sent a creation in this cluster.\<close>

theorem addons_deletes_only_created:
  assumes "addon_passes lib (client_service fuel cd s) cid tr led"
    and "tr = pre @ CceReq (DeleteAddonInstanceReq a) # post"
  shows "deletion_justified s cid pre a"
  using addon_passes_inv[OF assms(1)] assms(2) by (simp add: deletions_justified_def)


text \<open>Evaluating the examples.\<close>

lemmas example_eval = example_lib_def example_cp_def example_cp_spec_def example_cp_status_def MarkTrue_def
  index_by_def tolerate_missing_def tryE_def wrapE_def ok_def fail_def Let_def example_client_def
  empty_cloud_def on_status_def ptr_or_nil_def deref_def

text \<open>A cluster whose platform reports the addon under test once the provider has created it.\<close>

definition addon_cloud :: cloud where
  "addon_cloud = empty_cloud \<lparr> ans_CreateAddonInstance := (\<lambda>_. Inr (Some ''a1'')),
     ans_ListAddonInstances := (\<lambda>tr. if list_ex (create_addon_named ''c1'' ''dns'') tr
       then Inr (Some [\<lparr> ai_Metadata = Some (Some ''a1'', Some ''dns''), ai_Version = None, ai_Status = None \<rparr>])
       else Inr None) \<rparr>"

definition with_addons :: "string list \<Rightarrow> string list \<Rightarrow> CCEManagedControlPlane" where
  "with_addons names ledger = example_cp \<lparr>
     cp_Spec := example_cp_spec \<lparr> cps_Addons := map (\<lambda>n. \<lparr> ads_Name = n, ads_Version = '''' \<rparr>) names \<rparr>,
     cp_Status := example_cp_status \<lparr> cpt_Addons := ledger, cpt_Conditions :=
       MarkTrue example_lib AddonsConfiguredCondition ''AddonsConfigured'' '''' [] \<rparr> \<rparr>"

lemma addons_deletes_only_created_witness:
  "\<exists>pre. addon_passes example_lib (client_service 1 example_codec (example_client addon_cloud)) ''c1''
       (pre @ [CceReq (DeleteAddonInstanceReq ''a1'')]) [] \<and>
     deletion_justified (example_client addon_cloud) ''c1'' pre ''a1''"
proof -
  let ?svc = "client_service 1 example_codec (example_client addon_cloud)"
  let ?create = "CceReq (CreateAddonInstanceReq \<lparr> ir_Name = ''dns'', ir_ClusterID = ''c1'',
      ir_AddonTemplateName = ''dns'', ir_Version = None \<rparr>)"
  let ?list = "CceReq (ListAddonInstancesReq ''c1'')"
  have one: "run_state (reconcileAddons example_lib ?svc ''c1'' (with_addons [''dns''] [])) [] =
      (Inr (with_addons [''dns''] [''dns'']), [?list, ?create])"
    by (simp add: with_addons_def reconcileAddons_def addon_apply_def addon_remove_def addon_cloud_def
        ListAddonInstances_def CreateAddonInstance_def DeleteAddonInstance_def create_addon_named_def
        AddonsConfiguredCondition_def example_eval)
  have two: "run_state (reconcileAddons example_lib ?svc ''c1'' (with_addons [] [''dns''])) [?list, ?create] =
      (Inr (with_addons [] []), [?list, ?create, ?list] @ [CceReq (DeleteAddonInstanceReq ''a1'')])"
    by (simp add: with_addons_def reconcileAddons_def addon_apply_def addon_remove_def addon_cloud_def
        ListAddonInstances_def CreateAddonInstance_def DeleteAddonInstance_def create_addon_named_def
        AddonsConfiguredCondition_def example_eval)
  have st: "cpt_Addons (cp_Status (with_addons ns led)) = led" for ns led
    by (simp add: with_addons_def)
  have "addon_passes example_lib ?svc ''c1'' [?list, ?create] [''dns'']"
    using addon_passes.pass[OF _ one] addon_passes.start st by simp
  then have p: "addon_passes example_lib ?svc ''c1'' ([?list, ?create, ?list] @ [CceReq (DeleteAddonInstanceReq ''a1'')]) []"
    using addon_passes.pass[OF _ two] st by simp
  show ?thesis
    by (intro exI[of _ "[?list, ?create, ?list]"] conjI p addons_deletes_only_created[OF p refl])
qed


section \<open>Pod identity associations: only owned ones are deleted\<close>

definition pod_fine :: "string \<Rightarrow> string \<Rightarrow> PodIdentityAssociationSpec list \<Rightarrow> PodIdentityAssociationInfo list \<Rightarrow>
    request \<Rightarrow> bool" where
  "pod_fine cid owner spec current q \<longleftrightarrow> (case q of
      CceReq (CreatePodIdentityReq c a) \<Rightarrow> c = cid \<and>
        IsOwned (parseResourceTags (pia_Tags a)) owner \<and>
        (\<exists>want \<in> set spec. pia_Namespace a = Some (pis_Namespace want) \<and>
           pia_ServiceAccount a = Some (pis_ServiceAccount want) \<and> pia_AgencyName a = Some (pis_AgencyName want) \<and>
           spec_key want \<notin> info_key ` set current)
    | CceReq (DeletePodIdentityReq c a) \<Rightarrow> c = cid \<and>
        (\<exists>got \<in> set current. pai_ID got = a \<and> IsOwned (pai_Tags got) owner \<and> info_key got \<notin> spec_key ` set spec)
    | _ \<Rightarrow> False)"

lemma pod_create_sends:
  assumes "want \<in> set spec"
  shows "sends (pod_fine cid owner spec current)
    (pod_create (client_service fuel cd s) cid (OwnedTagKey owner) mk (index_by info_key current) want)"
  using assms
  by (auto simp: pod_create_def Let_def CreatePodIdentityAssociation_def pod_fine_def index_by_None IsOwned_def
      parseResourceTags_def toResourceTags_def mk_tag_def deref_def get_str_def intro!: sends_intros)

lemma pod_delete_sends:
  assumes "kg \<in> set (index_by info_key (filter (\<lambda>a. get_str (pai_Tags a) (OwnedTagKey owner) = ''owned'') current))"
  shows "sends (pod_fine cid owner spec current)
    (pod_delete (client_service fuel cd s) cid (map spec_key spec) kg)"
proof -
  have "snd kg \<in> set current \<and> IsOwned (pai_Tags (snd kg)) owner \<and> fst kg = info_key (snd kg)"
    using set_index_by[of "fst kg" "snd kg"] assms by (fastforce simp: IsOwned_def get_str_def)
  then show ?thesis
    by (auto simp: pod_delete_def DeletePodIdentityAssociation_def pod_fine_def intro!: sends_intros)
qed

text \<open>C35: Pod identity associations of others are left alone. Apart from its listing, a pass only creates
  declared associations, with the owned tag and only where the listing shows no association for that
  service account, and only deletes listed associations that carry the owned tag of this cluster and are no
  longer declared.\<close>

theorem pod_identities_touch_only_owned:
  assumes "\<And>m. set (visit m) \<subseteq> set m"
    and "snd (run_state (reconcilePodIdentityAssociations lib (client_service fuel cd s) visit cid cp) tr) = tr @ new"
    and "q \<in> set new" and "q \<noteq> CceReq (ListPodIdentityReq cid)"
  shows "\<exists>infos. fst (run_state (ListPodIdentityAssociations s cid) tr) = Inr infos \<and>
    pod_fine cid (cps_ClusterName (cp_Spec cp)) (cps_PodIdentityAssociations (cp_Spec cp)) infos q"
proof -
  let ?q = "CceReq (ListPodIdentityReq cid)" and ?owner = "cps_ClusterName (cp_Spec cp)"
  let ?spec = "cps_PodIdentityAssociations (cp_Spec cp)"
  obtain r where r: "run_state (ListPodIdentityAssociations s cid) tr = (r, tr @ [?q])"
    using run_ListPodIdentityAssociations by blast
  let ?mk = "\<lambda>current. index_by info_key (filter (\<lambda>a. get_str (pai_Tags a) (OwnedTagKey ?owner) = ''owned'') current)"
  let ?k = "\<lambda>current. tryE (forE (pod_create (client_service fuel cd s) cid (OwnedTagKey ?owner) (?mk current)
        (index_by info_key current)) ?spec)
        (\<lambda>_. forE (pod_delete (client_service fuel cd s) cid (map spec_key ?spec)) (visit (?mk current)))"
  have "sends (pod_fine cid ?owner ?spec current) (?k current)" for current
    using assms(1)[of "?mk current"] by (intro sends_intros pod_create_sends pod_delete_sends) auto
  then obtain new' where "snd (run_state (tryE (ListPodIdentityAssociations s cid) ?k) tr) = tr @ ?q # new'"
    and fine: "case r of Inl _ \<Rightarrow> new' = [] | Inr current \<Rightarrow> list_all (pod_fine cid ?owner ?spec current) new'"
    using listing_sends[OF r, of "\<lambda>current. pod_fine cid ?owner ?spec current" ?k] by auto
  then have "new = [] \<or> new = ?q # new'"
    using assms(2) by (auto simp: reconcilePodIdentityAssociations_def Let_def ok_def split: if_splits)
  then show ?thesis
    using assms(3,4) fine r
    by (cases r) (auto simp: list_all_iff)
qed

text \<open>Two listed associations, neither declared any more: only the owned one is deleted.\<close>

definition pod_cloud :: cloud where
  "pod_cloud = empty_cloud \<lparr> ans_ListPodIdentity := (\<lambda>_. Inr (Some [
     \<lparr> pia_Uid = Some ''p1'', pia_Namespace = Some ''ns'', pia_ServiceAccount = Some ''ours'',
       pia_AgencyName = Some ''ag'', pia_Tags = Some [mk_tag (OwnedTagKey ''demo'') ''owned''] \<rparr>,
     \<lparr> pia_Uid = Some ''p2'', pia_Namespace = Some ''ns'', pia_ServiceAccount = Some ''theirs'',
       pia_AgencyName = Some ''ag'', pia_Tags = None \<rparr>])) \<rparr>"

definition pod_cp :: CCEManagedControlPlane where
  "pod_cp = example_cp \<lparr> cp_Status := example_cp_status \<lparr> cpt_Conditions :=
       MarkTrue example_lib PodIdentityAssociationsConfiguredCondition '''' '''' [] \<rparr> \<rparr>"

lemma pod_identities_touch_only_owned_witness:
  "\<exists>infos. fst (run_state (ListPodIdentityAssociations (example_client pod_cloud) ''c1'') []) = Inr infos \<and>
     pod_fine ''c1'' ''demo'' [] infos (CceReq (DeletePodIdentityReq ''c1'' ''p1''))"
proof -
  let ?svc = "client_service 1 example_codec (example_client pod_cloud)"
  have run: "snd (run_state (reconcilePodIdentityAssociations example_lib ?svc (\<lambda>m. m) ''c1'' pod_cp) []) =
      [] @ [CceReq (ListPodIdentityReq ''c1''), CceReq (DeletePodIdentityReq ''c1'' ''p1'')]"
    by (simp add: reconcilePodIdentityAssociations_def pod_cp_def pod_cloud_def pod_create_def pod_delete_def
        info_key_def pod_key_def ListPodIdentityAssociations_def DeletePodIdentityAssociation_def
        parseResourceTags_def mk_tag_def get_str_def PodIdentityAssociationsConfiguredCondition_def example_eval)
  show ?thesis
    using pod_identities_touch_only_owned[OF _ run, of "CceReq (DeletePodIdentityReq ''c1'' ''p1'')"]
    by (simp add: pod_cp_def example_cp_def example_cp_spec_def)
qed

section \<open>Access policies: only managed ones in scope\<close>

definition policy_fine :: "string \<Rightarrow> string list \<Rightarrow> string list \<Rightarrow> AccessPolicyInfo list \<Rightarrow> request \<Rightarrow> bool" where
  "policy_fine cid names managed current q \<longleftrightarrow> (case q of
      CceReq (CreateAccessPolicyReq m) \<Rightarrow> apo_Clusters m = [cid] \<and> apo_Name m \<in> set names \<and>
        (\<forall>p \<in> set current. accessPolicyInScope p cid \<longrightarrow> acf_Name p \<noteq> apo_Name m)
    | CceReq (UpdateAccessPolicyReq pid m) \<Rightarrow> apo_Clusters m = [cid] \<and> apo_Name m \<in> set names \<inter> set managed \<and>
        (\<exists>p \<in> set current. accessPolicyInScope p cid \<and> acf_PolicyID p = pid \<and> acf_Name p = apo_Name m)
    | CceReq (DeleteAccessPolicyReq pid) \<Rightarrow>
        (\<exists>p \<in> set current. accessPolicyInScope p cid \<and> acf_PolicyID p = pid \<and> acf_Name p \<in> set managed - set names)
    | _ \<Rightarrow> False)"

lemma policy_model_simps [simp]:
  "apo_Name (toAccessPolicyModel (toAccessPolicyInput cid want)) = apl_Name want"
  "apo_Clusters (toAccessPolicyModel (toAccessPolicyInput cid want)) = [cid]"
  by (simp_all add: toAccessPolicyModel_def toAccessPolicyInput_def)

lemma policy_apply_sends:
  assumes "want \<in> set spec"
  shows "sends (policy_fine cid (map apl_Name spec) managed current)
    (policy_apply (client_service fuel cd s) cid
       (index_by acf_Name (filter (\<lambda>p. accessPolicyInScope p cid) current)) managed want)"
proof -
  let ?m = "index_by acf_Name (filter (\<lambda>p. accessPolicyInScope p cid) current)"
  have "got \<in> set current \<and> accessPolicyInScope got cid \<and> acf_Name got = apl_Name want"
    if "map_of ?m (apl_Name want) = Some got" for got
    using index_by_Some[OF that] by simp
  moreover have "acf_Name p \<noteq> apl_Name want"
    if "map_of ?m (apl_Name want) = None" "p \<in> set current" "accessPolicyInScope p cid" for p
    using that unfolding index_by_None by force
  ultimately show ?thesis
    using assms unfolding policy_apply_def Let_def
    by (intro sends_intros) (auto simp: CreateAccessPolicy_def UpdateAccessPolicy_def policy_fine_def
        intro!: sends_intros)
qed

lemma policy_remove_sends:
  assumes "got \<in> set current"
  shows "sends (policy_fine cid (map apl_Name spec) managed current)
    (policy_remove (client_service fuel cd s) cid (index_by apl_Name spec) managed got)"
  using assms by (auto simp: policy_remove_def index_by_None DeleteAccessPolicy_def policy_fine_def intro!: sends_intros)

lemma access_policies_fine:
  assumes "snd (run_state (reconcileAccessPolicies lib (client_service fuel cd s) cid cp) tr) = tr @ new"
    and "q \<in> set new" and "q \<noteq> CceReq ListAccessPolicyReq"
  shows "\<exists>infos. fst (run_state (ListAccessPolicies s) tr) = Inr infos \<and>
    policy_fine cid (map apl_Name (cps_AccessPolicies (cp_Spec cp))) (cpt_AccessPolicies (cp_Status cp)) infos q"
proof -
  let ?q = "CceReq ListAccessPolicyReq" and ?svc = "client_service fuel cd s"
  let ?spec = "cps_AccessPolicies (cp_Spec cp)" and ?managed = "cpt_AccessPolicies (cp_Status cp)"
  let ?m = "\<lambda>current. index_by acf_Name (filter (\<lambda>p. accessPolicyInScope p cid) current)"
  let ?done = "ok (on_status (\<lambda>st. st \<lparr> cpt_AccessPolicies := map apl_Name ?spec \<rparr>) cp) :: (history, CCEManagedControlPlane) go"
  obtain r where r: "run_state (ListAccessPolicies s) tr = (r, tr @ [?q])"
    using run_ListAccessPolicies by blast
  let ?k = "\<lambda>current. tryE (forE (policy_apply ?svc cid (?m current) ?managed) ?spec) (\<lambda>_.
       tryE (forE (policy_remove ?svc cid (index_by apl_Name ?spec) ?managed) current) (\<lambda>_. ?done))"
  have "sends (policy_fine cid (map apl_Name ?spec) ?managed current) (?k current)" for current
    by (intro sends_intros policy_apply_sends policy_remove_sends)
  then obtain new' where "snd (run_state (tryE (ListAccessPolicies s) ?k) tr) = tr @ ?q # new'"
    and fine: "case r of Inl _ \<Rightarrow> new' = []
      | Inr current \<Rightarrow> list_all (policy_fine cid (map apl_Name ?spec) ?managed current) new'"
    using listing_sends[OF r, of "\<lambda>current. policy_fine cid (map apl_Name ?spec) ?managed current" ?k] by auto
  then have "new = [] \<or> new = ?q # new'"
    using assms(1) by (auto simp: reconcileAccessPolicies_def Let_def ok_def split: if_splits)
  then show ?thesis
    using assms(2,3) fine r
    by (cases r) (auto simp: list_all_iff)
qed


text \<open>C36: Access policies of other clusters or owners are never touched. The list of policies is
  account-wide; apart from that listing, a pass only creates declared policies, scoped to this cluster and
  only when no policy in its scope has the name, and only updates or deletes listed policies that are in
  this cluster's scope and in the ledger of policies this provider applied (updating declared ones, deleting
  undeclared ones).\<close>

theorem access_policies_touch_only_managed:
  assumes "snd (run_state (reconcileAccessPolicies lib (client_service fuel cd s) cid cp) tr) = tr @ new"
    and "q \<in> set new" and "q \<noteq> CceReq ListAccessPolicyReq"
  shows "\<exists>infos. fst (run_state (ListAccessPolicies s) tr) = Inr infos \<and>
    policy_fine cid (map apl_Name (cps_AccessPolicies (cp_Spec cp))) (cpt_AccessPolicies (cp_Status cp)) infos q"
  by (rule access_policies_fine[OF assms])

section \<open>A policy created in a failed pass blocks every later pass\<close>

lemma policy_apply_unmanaged:
  assumes "map_of m (apl_Name want) = Some got" "apl_Name want \<notin> set managed"
  shows "\<exists>e. run_state (policy_apply svc cid m managed want) tr = (Inl e, tr)"
  using assms by (auto simp: policy_apply_def Let_def fail_def)

lemma forE_fails:
  assumes "x \<in> set xs" and "\<And>tr. \<exists>e tr'. run_state (f x) tr = (Inl e, tr')"
  shows "\<exists>e. fst (run_state (forE f xs) tr) = Inl e"
  using assms(1)
proof (induction xs arbitrary: tr)
  case (Cons y ys)
  show ?case
  proof (cases "fst (run_state (f y) tr)")
    case (Inr u)
    then have "y \<noteq> x" using assms(2)[of tr] by auto
    then have "x \<in> set ys" using Cons.prems by auto
    from Cons.IH[OF this, of "snd (run_state (f y) tr)"] Inr show ?thesis
      by (cases "run_state (f y) tr") (simp add: tryE_def)
  qed (cases "run_state (f y) tr", simp add: tryE_def fail_def)
qed simp

lemma reconcileAccessPolicies_blocked:
  assumes "fst (run_state (ListAccessPolicies s) tr) = Inr infos"
    and "p \<in> set infos" "accessPolicyInScope p cid"
    and "acf_Name p \<in> apl_Name ` set (cps_AccessPolicies (cp_Spec cp))"
    and "acf_Name p \<notin> set (cpt_AccessPolicies (cp_Status cp))"
  shows "\<exists>e. fst (run_state (reconcileAccessPolicies lib (client_service fuel cd s) cid cp) tr) = Inl e"
proof -
  let ?m = "index_by acf_Name (filter (\<lambda>p. accessPolicyInScope p cid) infos)"
  let ?spec = "cps_AccessPolicies (cp_Spec cp)" and ?managed = "cpt_AccessPolicies (cp_Status cp)"
  obtain tr' where l: "run_state (ListAccessPolicies s) tr = (Inr infos, tr')"
    using assms(1) by (cases "run_state (ListAccessPolicies s) tr") auto
  obtain want where want: "want \<in> set ?spec" "apl_Name want = acf_Name p" using assms(4) by auto
  obtain got where "map_of ?m (apl_Name want) = Some got"
    using assms(2,3) want(2) index_by_None[of acf_Name "filter (\<lambda>p. accessPolicyInScope p cid) infos" "apl_Name want"]
    by (cases "map_of ?m (apl_Name want)") auto
  then have "\<exists>e tr1. run_state (policy_apply (client_service fuel cd s) cid ?m ?managed want) tr0 = (Inl e, tr1)" for tr0
    using policy_apply_unmanaged[of ?m want got ?managed] want(2) assms(5) by metis
  then have "\<exists>e. fst (run_state (forE (policy_apply (client_service fuel cd s) cid ?m ?managed) ?spec) tr') = Inl e"
    using forE_fails[OF want(1)] by metis
  then obtain e tr'' where e: "run_state (forE (policy_apply (client_service fuel cd s) cid ?m ?managed) ?spec) tr' = (Inl e, tr'')"
    by (metis surjective_pairing)
  have "?spec \<noteq> []" using want(1) by auto
  then show ?thesis by (simp add: reconcileAccessPolicies_def Let_def tryE_def l e fail_def)
qed

text \<open>A partly failed pass over access policies does not heal. When a pass created a policy that is not
  in the ledger and then failed, the created policy is not recorded; every later pass for the same
  declaration in which the platform lists that policy in scope fails with the conflict error, whatever else
  the platform answers.\<close>

theorem policy_created_in_failed_pass_blocks:
  assumes "run_state (reconcileAccessPolicies lib (client_service fuel cd s) cid cp) tr = (Inl e, tr @ new)"
    and "CceReq (CreateAccessPolicyReq m) \<in> set new"
    and "apo_Name m \<notin> set (cpt_AccessPolicies (cp_Status cp))"
    and "fst (run_state (ListAccessPolicies s) later) = Inr infos"
    and "p \<in> set infos" and "accessPolicyInScope p cid" and "acf_Name p = apo_Name m"
  shows "\<exists>e'. fst (run_state (reconcileAccessPolicies lib (client_service fuel cd s) cid cp) later) = Inl e'"
proof -
  have "apo_Name m \<in> apl_Name ` set (cps_AccessPolicies (cp_Spec cp))"
    using access_policies_fine[of lib fuel cd s cid cp tr new "CceReq (CreateAccessPolicyReq m)"] assms(1,2)
    by (auto simp: policy_fine_def)
  then show ?thesis
    using assms(3-7) by (intro reconcileAccessPolicies_blocked) auto
qed

text \<open>A cluster whose declaration has two policies; the platform refuses the second one.\<close>

definition policy_named :: "string \<Rightarrow> AccessPolicySpec" where
  "policy_named n = \<lparr> apl_Name = n, apl_PolicyType = ''view'', apl_PrincipalType = ''user'',
     apl_PrincipalIds = [''u1''], apl_Namespaces = [] \<rparr>"

definition policy_request :: "string \<Rightarrow> AccessPolicy" where
  "policy_request n = toAccessPolicyModel (toAccessPolicyInput ''c1'' (policy_named n))"

definition policy_cloud :: cloud where
  "policy_cloud = empty_cloud \<lparr>
     ans_CreateAccessPolicy := (\<lambda>tr. if length tr = 2 then Inr (Some ''id-a'') else Inl (SdkErr 500 '''' '''')),
     ans_ListAccessPolicy := (\<lambda>tr. if length tr = 1 then Inr None else Inr (Some [\<lparr>
        apr_PolicyId = Some ''id-a'', apr_Name = Some ''a'', apr_PolicyType = Some ''view'',
        apr_Principal = Some (''user'', [''u1'']), apr_AccessScope = Some [''*''], apr_Clusters = Some [''c1''] \<rparr>])) \<rparr>"

definition policy_cp :: CCEManagedControlPlane where
  "policy_cp = example_cp \<lparr> cp_Spec := example_cp_spec \<lparr> cps_AccessPolicies := [policy_named ''a'', policy_named ''b''] \<rparr> \<rparr>"

lemma policy_first_pass:
  "run_state (reconcileAccessPolicies example_lib (client_service 1 example_codec (example_client policy_cloud)) ''c1'' policy_cp) [] =
     (Inl (WrapErr ''CreateAccessPolicy failed'' (SdkErr 500 '''' '''')), [] @ [CceReq ListAccessPolicyReq,
        CceReq (CreateAccessPolicyReq (policy_request ''a'')), CceReq (CreateAccessPolicyReq (policy_request ''b''))])"
  by (simp add: reconcileAccessPolicies_def policy_cp_def policy_cloud_def policy_apply_def policy_named_def policy_request_def
      ListAccessPolicies_def CreateAccessPolicy_def example_eval)

lemma access_policies_touch_only_managed_witness:
  "\<exists>infos. fst (run_state (ListAccessPolicies (example_client policy_cloud)) []) = Inr infos \<and>
     policy_fine ''c1'' [''a'', ''b''] [] infos (CceReq (CreateAccessPolicyReq (policy_request ''a'')))"
  using access_policies_touch_only_managed[OF arg_cong[OF policy_first_pass, of snd, unfolded snd_conv],
      of "CceReq (CreateAccessPolicyReq (policy_request ''a''))"]
  by (simp add: policy_cp_def policy_named_def example_cp_def example_cp_status_def)

lemma policy_created_in_failed_pass_blocks_witness:
  "\<exists>e'. fst (run_state (reconcileAccessPolicies example_lib
     (client_service 1 example_codec (example_client policy_cloud)) ''c1'' policy_cp)
     [CceReq ListAccessPolicyReq, CceReq (CreateAccessPolicyReq (policy_request ''a'')),
      CceReq (CreateAccessPolicyReq (policy_request ''b''))]) = Inl e'"
proof (rule policy_created_in_failed_pass_blocks[OF policy_first_pass, of "policy_request ''a''"])
  let ?later = "[CceReq ListAccessPolicyReq, CceReq (CreateAccessPolicyReq (policy_request ''a'')),
      CceReq (CreateAccessPolicyReq (policy_request ''b''))]"
  let ?p = "\<lparr> acf_PolicyID = ''id-a'', acf_Name = ''a'', acf_ClusterIDs = [''c1''], acf_PolicyType = ''view'',
      acf_PrincipalType = ''user'', acf_PrincipalIDs = [''u1''], acf_Namespaces = [''*''] \<rparr>"
  show "fst (run_state (ListAccessPolicies (example_client policy_cloud)) ?later) = Inr [?p]"
    by (simp add: ListAccessPolicies_def policy_cloud_def toAccessPolicyInfo_def example_eval)
  show "?p \<in> set [?p]" by simp
  show "accessPolicyInScope ?p ''c1''" by (simp add: accessPolicyInScope_def)
qed (simp_all add: policy_request_def policy_cp_def policy_named_def example_cp_def example_cp_status_def)

section \<open>Log configurations\<close>

text \<open>The item a log entry stands for: the empty type means \<open>control\<close>.\<close>

definition log_item :: "LogConfigInput \<Rightarrow> string \<times> string \<times> bool" where
  "log_item l = (lci_Name l, if lci_Type l = '''' then ''control'' else lci_Type l, lci_Enable l)"

lemma count_keys_count: "count_keys ls c k = c k + count (image_mset log_key (mset ls)) k"
  by (induction ls arbitrary: c) auto

lemma match_keys_subset: "match_keys ls c \<longleftrightarrow> (\<forall>k. count (image_mset log_key (mset ls)) k \<le> c k)"
proof (induction ls arbitrary: c)
  case (Cons l ls)
  let ?n = "count (image_mset log_key (mset ls))"
  have "(\<forall>k. count (image_mset log_key (mset (l # ls))) k \<le> c k) \<longleftrightarrow>
      Suc (?n (log_key l)) \<le> c (log_key l) \<and> (\<forall>k. k \<noteq> log_key l \<longrightarrow> ?n k \<le> c k)"
    by auto
  also have "\<dots> \<longleftrightarrow> c (log_key l) \<noteq> 0 \<and> (\<forall>k. ?n k \<le> (c(log_key l := c (log_key l) - 1)) k)"
    by (cases "c (log_key l)") auto
  finally show ?case using Cons.IH by simp
qed simp

lemma log_key_split:
  assumes "CHR ''/'' \<notin> set t" "CHR ''/'' \<notin> set t'" "CHR ''/'' \<notin> set b" "CHR ''/'' \<notin> set b'"
    and eq: "n @ ''/'' @ t @ ''/'' @ b = n' @ ''/'' @ t' @ ''/'' @ b'"
  shows "n = n' \<and> t = t' \<and> b = b'"
proof -
  have last: "split_last CHR ''/'' (x @ ''/'' @ y) = Some (x, y)" if "CHR ''/'' \<notin> set y" for x y
    using split_last_append[OF that, of x] by simp
  have "Some (n @ ''/'' @ t, b) = Some (n' @ ''/'' @ t', b')"
    using last[OF assms(3), of "n @ ''/'' @ t"] last[OF assms(4), of "n' @ ''/'' @ t'"] eq
    by (simp only: append_assoc)
  then have "n @ ''/'' @ t = n' @ ''/'' @ t'" "b = b'" by (simp_all only: option.inject prod.inject)
  then have "Some (n, t) = Some (n', t')" "b = b'"
    using last[OF assms(1), of n] last[OF assms(2), of n'] by (simp_all only:)
  then show ?thesis by simp
qed

definition bool_text :: "bool \<Rightarrow> string" where
  "bool_text b = (if b then ''true'' else ''false'')"

definition item_key :: "string \<times> string \<times> bool \<Rightarrow> string" where
  "item_key it = fst it @ ''/'' @ fst (snd it) @ ''/'' @ bool_text (snd (snd it))"

lemma log_key_item: "log_key l = item_key (log_item l)"
  by (simp add: log_key_def log_item_def item_key_def Let_def bool_text_def)

lemma bool_text_simps [simp]: "CHR ''/'' \<notin> set (bool_text b)" "bool_text b = bool_text b' \<longleftrightarrow> b = b'"
  by (auto simp: bool_text_def)

lemma item_key_inj: "inj_on item_key {it. CHR ''/'' \<notin> set (fst (snd it))}"
proof (rule inj_onI)
  fix x y :: "string \<times> string \<times> bool"
  assume "x \<in> {it. CHR ''/'' \<notin> set (fst (snd it))}" "y \<in> {it. CHR ''/'' \<notin> set (fst (snd it))}"
    and "item_key x = item_key y"
  then show "x = y"
    using log_key_split[of "fst (snd x)" "fst (snd y)" "bool_text (snd (snd x))" "bool_text (snd (snd y))" "fst x" "fst y"]
    by (simp add: item_key_def prod_eq_iff)
qed

lemma image_mset_inj_on:
  assumes "inj_on f S" "set_mset A \<subseteq> S" "set_mset B \<subseteq> S" "image_mset f A = image_mset f B"
  shows "A = B"
proof -
  have restored: "image_mset (inv_into S f) (image_mset f M) = M" if "set_mset M \<subseteq> S" for M
  proof -
    have "image_mset (inv_into S f) (image_mset f M) = image_mset (\<lambda>x. inv_into S f (f x)) M"
      by (simp add: multiset.map_comp comp_def)
    also have "\<dots> = image_mset (\<lambda>x. x) M"
      using that assms(1) by (intro image_mset_cong) (auto simp: inv_into_f_f)
    finally show ?thesis by simp
  qed
  show ?thesis by (metis restored assms(2-4))
qed

text \<open>The comparison of log configurations is equality of multisets of items. For log types without a slash
  (the platform's types have none) two configurations compare equal exactly when their retention agrees and
  they have the same items, with the same multiplicity and in any order, an empty type standing for
  \<open>control\<close>.\<close>

theorem logConfigEqual_iff:
  assumes "\<And>l. l \<in> set (lcf_Logs a) \<union> set (lcf_Logs b) \<Longrightarrow> CHR ''/'' \<notin> set (lci_Type l)"
  shows "logConfigEqual a b \<longleftrightarrow> lcf_TTLInDays a = lcf_TTLInDays b \<and>
    image_mset log_item (mset (lcf_Logs a)) = image_mset log_item (mset (lcf_Logs b))"
proof -
  let ?A = "image_mset log_key (mset (lcf_Logs a))" and ?B = "image_mset log_key (mset (lcf_Logs b))"
  let ?IA = "image_mset log_item (mset (lcf_Logs a))" and ?IB = "image_mset log_item (mset (lcf_Logs b))"
  have sub: "match_keys (lcf_Logs b) (count_keys (lcf_Logs a) (\<lambda>_. 0)) \<longleftrightarrow> ?B \<subseteq># ?A"
    by (simp add: match_keys_subset count_keys_count subseteq_mset_def)
  have "?A = ?B" if "?B \<subseteq># ?A" "size ?A = size ?B"
  proof (rule ccontr)
    assume "?A \<noteq> ?B"
    then have "?B \<subset># ?A" using that(1) by (simp add: subset_mset_def)
    then show False using mset_subset_size[of ?B ?A] that(2) by simp
  qed
  moreover have "length (lcf_Logs a) = length (lcf_Logs b)" if "?A = ?B"
    using arg_cong[OF that, of size] by (simp only: size_image_mset size_mset)
  ultimately have eq: "length (lcf_Logs a) = length (lcf_Logs b) \<and> ?B \<subseteq># ?A \<longleftrightarrow> ?A = ?B"
    by (metis size_image_mset size_mset subset_mset.order_refl)
  have "CHR ''/'' \<notin> set (fst (snd (log_item l)))" if "l \<in> set (lcf_Logs a) \<union> set (lcf_Logs b)" for l
    using assms[OF that] by (simp add: log_item_def)
  then have "?IA = ?IB" if "image_mset item_key ?IA = image_mset item_key ?IB"
    by (intro image_mset_inj_on[OF item_key_inj _ _ that]) auto
  moreover have "?A = image_mset item_key ?IA" "?B = image_mset item_key ?IB"
    by (simp_all add: multiset.map_comp comp_def log_key_item cong: image_mset_cong)
  ultimately have "?A = ?B \<longleftrightarrow> ?IA = ?IB" by metis
  then show ?thesis using sub eq by (auto simp: logConfigEqual_def)
qed

lemma logConfigEqual_iff_witness:
  "logConfigEqual
     \<lparr> lcf_TTLInDays = 7, lcf_Logs = [\<lparr> lci_Name = ''audit'', lci_Type = ''audit'', lci_Enable = True \<rparr>,
        \<lparr> lci_Name = ''kube-apiserver'', lci_Type = ''control'', lci_Enable = True \<rparr>] \<rparr>
     \<lparr> lcf_TTLInDays = 7, lcf_Logs = [\<lparr> lci_Name = ''kube-apiserver'', lci_Type = '''', lci_Enable = True \<rparr>,
        \<lparr> lci_Name = ''audit'', lci_Type = ''audit'', lci_Enable = True \<rparr>] \<rparr>"
  by (subst logConfigEqual_iff) (auto simp: log_item_def add_mset_commute)

end
