(* ===== verification/CpUpgrade.thy ===== *)
theory CpUpgrade
  imports CpSubresources
begin

text \<open>
  Cluster upgrades in \<open>controllers/ccemanagedcontrolplane_controller.go\<close>: polling the upgrade task in
  flight, deciding whether the platform offers the requested target, starting the upgrade, and the version
  comparisons. The functions mutate the control plane of the reconcile state and return a result together
  with whether the caller has to return it at once.
\<close>

section \<open>The control plane in the state\<close>

definition cp_key :: "CCEManagedControlPlane \<Rightarrow> NamespacedName" where
  "cp_key cp = (cp_Namespace cp, cp_Name cp)"

definition cp_status :: "(CCEManagedControlPlaneStatus \<Rightarrow> CCEManagedControlPlaneStatus) \<Rightarrow>
    (('k, 'c, CCEManagedControlPlane) rstate, unit) state" where
  "cp_status f = modify_obj (on_status f)"

definition cp_true :: "library \<Rightarrow> string \<Rightarrow> string \<Rightarrow> string \<Rightarrow> (('k, 'c, CCEManagedControlPlane) rstate, unit) state" where
  "cp_true lib ty reason message =
     cp_status (\<lambda>st. st \<lparr> cpt_Conditions := MarkTrue lib ty reason message (cpt_Conditions st) \<rparr>)"

definition cp_false :: "library \<Rightarrow> string \<Rightarrow> string \<Rightarrow> string \<Rightarrow> (('k, 'c, CCEManagedControlPlane) rstate, unit) state" where
  "cp_false lib ty reason message =
     cp_status (\<lambda>st. st \<lparr> cpt_Conditions := MarkFalse lib ty reason message (cpt_Conditions st) \<rparr>)"

lemma wp_cp_status [wp_simps]:
  "wp (cp_status f) Q s = Q () (s \<lparr> rs_obj := on_status f (rs_obj s) \<rparr>)"
  by (simp add: cp_status_def wp_simps)

lemma wp_cp_mark [wp_simps]:
  "wp (cp_true lib ty r m) Q s = Q () (s \<lparr> rs_obj := on_status (\<lambda>st. st \<lparr> cpt_Conditions :=
      MarkTrue lib ty r m (cpt_Conditions st) \<rparr>) (rs_obj s) \<rparr>)"
  "wp (cp_false lib ty r m) Q s = Q () (s \<lparr> rs_obj := on_status (\<lambda>st. st \<lparr> cpt_Conditions :=
      MarkFalse lib ty r m (cpt_Conditions st) \<rparr>) (rs_obj s) \<rparr>)"
  by (simp_all add: cp_true_def cp_false_def wp_simps)

section \<open>Versions\<close>

definition majorMinor :: "string \<Rightarrow> string" where
  "majorMinor v = (case split2 CHR ''.'' v of
      (_, None) \<Rightarrow> v
    | (major, Some rest) \<Rightarrow> major @ ''.'' @ fst (split2 CHR ''.'' rest))"

definition sameMajorMinor :: "string \<Rightarrow> string \<Rightarrow> bool" where
  "sameMajorMinor a b \<longleftrightarrow> majorMinor a = majorMinor b"

definition containsVersion :: "string list \<Rightarrow> string \<Rightarrow> bool" where
  "containsVersion targets requested \<longleftrightarrow>
     list_ex (\<lambda>t. t = requested \<or> has_prefix t (requested @ ''.'')) targets"

section \<open>The upgrade steps\<close>

definition requeue_step :: "duration \<Rightarrow> ('s, ctrl_Result \<times> bool) state" where
  "requeue_step d = State_Monad.return (\<lparr> RequeueAfter = d \<rparr>, True)"

definition pollUpgradeTask :: "library \<Rightarrow> ('c, 'z) cp_service_scheme \<Rightarrow> string \<Rightarrow>
    (('k, 'c, CCEManagedControlPlane) rstate, ctrl_Result \<times> bool) state" where
  "pollUpgradeTask lib svc clusterID = do {
     cp \<leftarrow> get_obj;
     onE (in_cloud (svc_ShowUpgradeTask svc clusterID (cpt_UpgradeTaskID (cp_Status cp))))
       (\<lambda>err. do {
          _ \<leftarrow> cp_false lib UpgradeReadyCondition ReconciliationFailedReason (lib_ErrorText lib err);
          d \<leftarrow> with_backoff (requeueAfterForError (cp_key cp) err);
          requeue_step d })
       (\<lambda>phase.
          if phase = UpgradeTaskPhaseSuccess then do {
            _ \<leftarrow> cp_status (\<lambda>st. st \<lparr> cpt_UpgradeTaskID := '''', cpt_Version := cps_Version (cp_Spec cp) \<rparr>);
            _ \<leftarrow> cp_true lib UpgradeReadyCondition ''UpgradeCompleted'' (''cluster upgraded to '' @ cps_Version (cp_Spec cp));
            requeue_step defaultRequeue }
          else if phase = UpgradeTaskPhaseFailed then do {
            _ \<leftarrow> cp_status (\<lambda>st. st \<lparr> cpt_UpgradeTaskID := '''' \<rparr>);
            _ \<leftarrow> cp_false lib UpgradeReadyCondition ReconciliationFailedReason ''upgrade task failed'';
            requeue_step defaultRequeue }
          else do {
            _ \<leftarrow> cp_false lib UpgradeReadyCondition UpgradeInProgressReason (''upgrade task phase: '' @ phase);
            requeue_step defaultRequeue }) }"

definition startUpgrade :: "library \<Rightarrow> ('c, 'z) cp_service_scheme \<Rightarrow> string \<Rightarrow>
    (('k, 'c, CCEManagedControlPlane) rstate, ctrl_Result \<times> bool) state" where
  "startUpgrade lib svc clusterID = do {
     cp \<leftarrow> get_obj;
     let failed = (\<lambda>err. do {
          _ \<leftarrow> cp_false lib UpgradeReadyCondition ReconciliationFailedReason (lib_ErrorText lib err);
          d \<leftarrow> with_backoff (requeueAfterForError (cp_key cp) err);
          requeue_step d });
     onE (in_cloud (svc_GetUpgradeInfo svc clusterID)) failed (\<lambda>info.
       if ui_TargetVersions info = [] then do {
         _ \<leftarrow> cp_false lib UpgradeReadyCondition UpgradeNotOfferedReason
           (''no upgrade targets offered from '' @ ui_CurrentVersion info @ ''; check Huawei Cloud upgrade policy'' @
            (if ui_SuggestPatch info \<noteq> '''' then ''; upgrade the patch to '' @ ui_SuggestPatch info @ '' first'' else ''''));
         requeue_step defaultRequeue }
       else if \<not> containsVersion (ui_TargetVersions info) (cps_Version (cp_Spec cp)) then do {
         _ \<leftarrow> cp_false lib UpgradeReadyCondition UpgradeTargetUnavailableReason
           (''target version '' @ cps_Version (cp_Spec cp) @ '' not offered; available: '' @
            join_with '', '' (ui_TargetVersions info));
         requeue_step defaultRequeue }
       else onE (in_cloud (svc_StartUpgrade svc clusterID (cps_Version (cp_Spec cp)))) failed (\<lambda>taskID. do {
         _ \<leftarrow> cp_status (\<lambda>st. st \<lparr> cpt_UpgradeTaskID := taskID \<rparr>);
         _ \<leftarrow> cp_false lib UpgradeReadyCondition UpgradeInProgressReason (''upgrading to '' @ cps_Version (cp_Spec cp));
         requeue_step defaultRequeue })) }"

text \<open>The upgrade block of \<open>reconcileNormal\<close>: a result to return at once, or None to go on.\<close>

definition reconcileUpgrade :: "library \<Rightarrow> ('c, 'z) cp_service_scheme \<Rightarrow> string \<Rightarrow> ClusterInfo \<Rightarrow>
    (('k, 'c, CCEManagedControlPlane) rstate, ctrl_Result option) state" where
  "reconcileUpgrade lib svc clusterID info = do {
     cp \<leftarrow> get_obj;
     polled \<leftarrow> (if cpt_UpgradeTaskID (cp_Status cp) \<noteq> '''' then do {
         rd \<leftarrow> pollUpgradeTask lib svc clusterID;
         State_Monad.return (if snd rd then Some (fst rd) else None) }
       else State_Monad.return None);
     case polled of
       Some res \<Rightarrow> State_Monad.return (Some res)
     | None \<Rightarrow>
         if cps_Version (cp_Spec cp) \<noteq> '''' \<and> ci_Version info \<noteq> '''' \<and>
            \<not> sameMajorMinor (cps_Version (cp_Spec cp)) (ci_Version info)
         then do {
           rd \<leftarrow> startUpgrade lib svc clusterID;
           State_Monad.return (if snd rd then Some (fst rd) else None) }
         else do {
           _ \<leftarrow> cp_true lib UpgradeReadyCondition ''VersionCurrent'' ''cluster version matches spec'';
           State_Monad.return None } }"

section \<open>Facts\<close>

lemma wp_requeue_step [wp_simps]: "wp (requeue_step d) Q = Q (\<lparr> RequeueAfter = d \<rparr>, True)"
  by (simp add: requeue_step_def wp_simps)

text \<open>Both steps always make the caller return.\<close>

lemma wp_GetUpgradeInfo:
  "wp (GetUpgradeInfo s cid) Q tr = Q (fst (run_state (GetUpgradeInfo s cid) tr)) (tr @ [CceReq (ShowClusterUpgradeInfoReq cid)])"
  by (auto simp: wp_run GetUpgradeInfo_def tryE_def wrapE_def ok_def fail_def split: sum.splits)

lemma wp_ShowUpgradeTask:
  "wp (ShowUpgradeTask s cid t) Q tr =
     Q (fst (run_state (ShowUpgradeTask s cid t) tr)) (tr @ [CceReq (ShowUpgradeClusterTaskReq cid t)])"
  by (auto simp: wp_run ShowUpgradeTask_def ok_def fail_def split: sum.splits option.splits)


section \<open>The upgrade as a state machine\<close>

text \<open>
  The abstract upgrade: a task in flight (or none, the empty ID) and the version recorded in the status.
  A pass makes one step, and which one is fixed by what the platform answers: with a task in flight the pass
  asks for its phase, which is reported or not; with none it finds the running version current, or the
  platform refuses the upgrade (no answer, target not offered, a request failed), or it starts a task. Every
  event has exactly one successor: a finished task is forgotten, a started one recorded, nothing else changes.
\<close>

datatype upgrade_event = Current | Refused | Started string | PollFailed | Polled string

inductive upgrade_step :: "string \<Rightarrow> string \<times> string \<Rightarrow> upgrade_event \<Rightarrow> string \<times> string \<Rightarrow> bool" for wanted where
  current: "upgrade_step wanted ('''', v) Current ('''', v)"
| refused: "upgrade_step wanted ('''', v) Refused ('''', v)"
| start: "upgrade_step wanted ('''', v) (Started t) (t, v)"
| unanswered: "t \<noteq> '''' \<Longrightarrow> upgrade_step wanted (t, v) PollFailed (t, v)"
| running: "t \<noteq> '''' \<Longrightarrow> p \<noteq> ''Success'' \<Longrightarrow> p \<noteq> ''Failed'' \<Longrightarrow> upgrade_step wanted (t, v) (Polled p) (t, v)"
| success: "t \<noteq> '''' \<Longrightarrow> upgrade_step wanted (t, v) (Polled ''Success'') ('''', wanted)"
| failure: "t \<noteq> '''' \<Longrightarrow> upgrade_step wanted (t, v) (Polled ''Failed'') ('''', v)"

inductive_simps upgrade_step_simps:
  "upgrade_step wanted (t, v) Current b" "upgrade_step wanted (t, v) Refused b" "upgrade_step wanted (t, v) (Started u) b"
  "upgrade_step wanted (t, v) PollFailed b" "upgrade_step wanted (t, v) (Polled p) b"

lemma upgrade_step_deterministic:
  "upgrade_step wanted a e b \<Longrightarrow> upgrade_step wanted a e c \<Longrightarrow> b = c"
  by (cases a; cases e) (auto simp: upgrade_step_simps)

definition task_version :: "CCEManagedControlPlane \<Rightarrow> string \<times> string" where
  "task_version cp = (cpt_UpgradeTaskID (cp_Status cp), cpt_Version (cp_Status cp))"

text \<open>Two versions name the same minor release when their first two dot-separated parts agree; the platform
  offers a release when it names it, or a version that begins with it and a dot.\<close>

definition same_release :: "string \<Rightarrow> string \<Rightarrow> bool" where
  "same_release a b \<longleftrightarrow> take 2 (split_on CHR ''.'' a) = take 2 (split_on CHR ''.'' b)"

definition offers :: "string list \<Rightarrow> string \<Rightarrow> bool" where
  "offers targets wanted \<longleftrightarrow> (\<exists>t \<in> set targets. t = wanted \<or> take (length wanted + 1) t = wanted @ ''.'')"

text \<open>The event of a pass over the control plane \<open>cp\<close>, by the answers of the platform to a history \<open>tr\<close>.\<close>

definition upgrade_answer :: "Client \<Rightarrow> string \<Rightarrow> CCEManagedControlPlane \<Rightarrow> ClusterInfo \<Rightarrow> history \<Rightarrow> upgrade_event" where
  "upgrade_answer s cid cp info tr =
     (let wanted = cps_Version (cp_Spec cp); task = cpt_UpgradeTaskID (cp_Status cp) in
      if task \<noteq> '''' then
        (case fst (run_state (ShowUpgradeTask s cid task) tr) of Inl _ \<Rightarrow> PollFailed | Inr p \<Rightarrow> Polled p)
      else if wanted = '''' \<or> ci_Version info = '''' \<or> same_release wanted (ci_Version info) then Current
      else case fst (run_state (GetUpgradeInfo s cid) tr) of
        Inl _ \<Rightarrow> Refused
      | Inr up \<Rightarrow>
          if \<not> offers (ui_TargetVersions up) wanted then Refused
          else (case fst (run_state (StartUpgrade s cid wanted) (tr @ [CceReq (ShowClusterUpgradeInfoReq cid)])) of
            Inl _ \<Rightarrow> Refused | Inr t \<Rightarrow> Started t))"

lemma split_on_majorMinor: "split_on CHR ''.'' (majorMinor v) = take 2 (split_on CHR ''.'' v)"
proof (cases "CHR ''.'' \<in> set v")
  case True
  then obtain a r where v: "v = a @ CHR ''.'' # r" "CHR ''.'' \<notin> set a"
    using split_list_first by metis
  show ?thesis
  proof (cases "CHR ''.'' \<in> set r")
    case True
    then obtain b q where "r = b @ CHR ''.'' # q" "CHR ''.'' \<notin> set b"
      using split_list_first by metis
    with v show ?thesis by (simp add: majorMinor_def split_on_sep split_on_free)
  next
    case False
    with v show ?thesis by (simp add: majorMinor_def split_on_sep split_on_free)
  qed
qed (simp add: majorMinor_def split_on_free)

lemma sameMajorMinor_iff: "sameMajorMinor a b \<longleftrightarrow> same_release a b"
  by (metis sameMajorMinor_def same_release_def split_on_majorMinor split_on_join)

lemma containsVersion_iff: "containsVersion ts w \<longleftrightarrow> offers ts w"
  by (auto simp: containsVersion_def offers_def list_ex_iff has_prefix_def)

lemma task_version_mark [simp]:
  "task_version (on_status (\<lambda>st. st \<lparr> cpt_Conditions := c st \<rparr>) cp) = task_version cp"
  by (simp add: task_version_def)

text \<open>With a task in flight the pass is one poll of it.\<close>

lemma poll_refines:
  fixes st :: "('k, history, CCEManagedControlPlane) rstate"
  defines "cp \<equiv> rs_obj st"
  assumes "cpt_UpgradeTaskID (cp_Status cp) \<noteq> ''''"
  shows "wp (pollUpgradeTask lib (client_service fuel cd s) cid) (\<lambda>r st'. snd r \<and>
     rs_cloud st' = rs_cloud st @ [CceReq (ShowUpgradeClusterTaskReq cid (cpt_UpgradeTaskID (cp_Status cp)))] \<and>
     upgrade_step (cps_Version (cp_Spec cp)) (task_version cp) (upgrade_answer s cid cp info (rs_cloud st))
       (task_version (rs_obj st'))) st"
  using assms(2)
  by (cases "fst (run_state (ShowUpgradeTask s cid (cpt_UpgradeTaskID (cp_Status cp))) (rs_cloud st))")
     (auto simp: pollUpgradeTask_def wp_simps wp_ShowUpgradeTask cp_def upgrade_answer_def task_version_def
        upgrade_step_simps UpgradeTaskPhaseSuccess_def UpgradeTaskPhaseFailed_def)

lemma start_refines:
  fixes st :: "('k, history, CCEManagedControlPlane) rstate"
  defines "cp \<equiv> rs_obj st"
  assumes "cpt_UpgradeTaskID (cp_Status cp) = ''''"
    and "cps_Version (cp_Spec cp) \<noteq> ''''" "ci_Version info \<noteq> ''''" "\<not> sameMajorMinor (cps_Version (cp_Spec cp)) (ci_Version info)"
  shows "wp (startUpgrade lib (client_service fuel cd s) cid) (\<lambda>r st'. snd r \<and>
     upgrade_answer s cid cp info (rs_cloud st) \<noteq> Current \<and>
     upgrade_step (cps_Version (cp_Spec cp)) (task_version cp) (upgrade_answer s cid cp info (rs_cloud st))
       (task_version (rs_obj st'))) st"
proof -
  let ?v = "cps_Version (cp_Spec cp)"
  have ans: "upgrade_answer s cid cp info (rs_cloud st) = (case fst (run_state (GetUpgradeInfo s cid) (rs_cloud st)) of
        Inl _ \<Rightarrow> Refused
      | Inr up \<Rightarrow> if \<not> containsVersion (ui_TargetVersions up) ?v then Refused
          else (case fst (run_state (StartUpgrade s cid ?v) (rs_cloud st @ [CceReq (ShowClusterUpgradeInfoReq cid)])) of
            Inl _ \<Rightarrow> Refused | Inr t \<Rightarrow> Started t))"
    using assms(2-) unfolding containsVersion_iff by (simp add: upgrade_answer_def Let_def sameMajorMinor_iff)
  have none: "\<not> containsVersion [] ?v" by (simp add: containsVersion_def)
  show ?thesis
    using assms(2) none unfolding ans unfolding cp_def
    by (auto simp: startUpgrade_def wp_simps wp_GetUpgradeInfo Let_def wp_run[of "StartUpgrade s cid v" for v]
        task_version_def upgrade_step_simps split: sum.splits)
qed

text \<open>C11: The upgrade block refines the upgrade state machine. In every pass the recorded task and version make
  exactly the step of the event that the platform's answers determine: a task reported as succeeded is
  forgotten and the wanted version recorded, a failed one is forgotten so that the next pass can retry, a task
  that is still running or whose poll failed stays recorded, a started one is recorded, and nothing changes
  when the version is current or the platform refuses. A pass that finds the version current sends nothing and
  lets the reconcile go on; every other pass ends it. While a task is in flight its poll is the only request.
  A poll that fails because the platform no longer knows the task is no exception: see
  \<open>expired_task_polled_forever\<close>.\<close>

theorem upgrade_pass_refines:
  assumes "run_state (reconcileUpgrade lib (client_service fuel cd s) cid info) st = (r, st')"
  shows "upgrade_step (cps_Version (cp_Spec (rs_obj st))) (task_version (rs_obj st))
      (upgrade_answer s cid (rs_obj st) info (rs_cloud st)) (task_version (rs_obj st')) \<and>
    (r = None \<longleftrightarrow> upgrade_answer s cid (rs_obj st) info (rs_cloud st) = Current) \<and>
    (r = None \<longrightarrow> rs_cloud st' = rs_cloud st) \<and>
    (cpt_UpgradeTaskID (cp_Status (rs_obj st)) \<noteq> '''' \<longrightarrow>
       rs_cloud st' = rs_cloud st @ [CceReq (ShowUpgradeClusterTaskReq cid (cpt_UpgradeTaskID (cp_Status (rs_obj st))))])"
proof -
  let ?cp = "rs_obj st" and ?svc = "client_service fuel cd s"
  let ?e = "upgrade_answer s cid ?cp info (rs_cloud st)" and ?t = "cpt_UpgradeTaskID (cp_Status ?cp)"
  have "wp (reconcileUpgrade lib ?svc cid info) (\<lambda>r st'.
      upgrade_step (cps_Version (cp_Spec ?cp)) (task_version ?cp) ?e (task_version (rs_obj st')) \<and>
      (r = None \<longleftrightarrow> ?e = Current) \<and> (r = None \<longrightarrow> rs_cloud st' = rs_cloud st) \<and>
      (?t \<noteq> '''' \<longrightarrow> rs_cloud st' = rs_cloud st @ [CceReq (ShowUpgradeClusterTaskReq cid ?t)])) st"
  proof (cases "?t = ''''")
    case False
    then have "?e \<noteq> Current" by (simp add: upgrade_answer_def split: sum.splits)
    then show ?thesis
      using False by (auto simp: reconcileUpgrade_def wp_simps intro!: wp_mono[OF poll_refines[OF False]])
  next
    case True
    show ?thesis
    proof (cases "cps_Version (cp_Spec ?cp) \<noteq> '''' \<and> ci_Version info \<noteq> '''' \<and>
        \<not> sameMajorMinor (cps_Version (cp_Spec ?cp)) (ci_Version info)")
      case start: True
      show ?thesis
        using True start
        by (auto simp: reconcileUpgrade_def wp_simps intro!: wp_mono[OF start_refines[OF True]])
    next
      case False
      then have "?e = Current" using True by (auto simp: upgrade_answer_def Let_def sameMajorMinor_iff)
      then show ?thesis
        using True False by (auto simp: reconcileUpgrade_def wp_simps task_version_def upgrade_step_simps)
    qed
  qed
  then show ?thesis using assms by (simp add: wp_run)
qed

section \<open>A task the platform no longer knows\<close>

text \<open>The comment of \<open>ShowUpgradeTask\<close> says that a missing task is reported so that the controller clears the ID
  instead of polling it forever. The controller does not look at the error: it does poll it forever.\<close>

definition upgrade_passes :: "library \<Rightarrow> (history, 'z) cp_service_scheme \<Rightarrow> string \<Rightarrow> ClusterInfo \<Rightarrow> nat \<Rightarrow>
    ('k, history, CCEManagedControlPlane) rstate \<Rightarrow> ('k, history, CCEManagedControlPlane) rstate" where
  "upgrade_passes lib svc cid info n = (\<lambda>st. snd (run_state (reconcileUpgrade lib svc cid info) st)) ^^ n"

lemma expired_task_polled_forever:
  fixes passes :: "nat \<Rightarrow> ('k, history, CCEManagedControlPlane) rstate"
  assumes "\<And>tr. \<exists>err. ans_ShowUpgradeClusterTask (cli_cloud s) tr = Inl err \<and> IsNotFound err"
    and "cpt_UpgradeTaskID (cp_Status (rs_obj st)) = t" "t \<noteq> ''''"
    and passes_def: "\<And>n. passes n = upgrade_passes lib (client_service fuel cd s) cid info n st"
  shows "cpt_UpgradeTaskID (cp_Status (rs_obj (passes n))) = t \<and>
     rs_cloud (passes n) = rs_cloud st @ replicate n (CceReq (ShowUpgradeClusterTaskReq cid t))"
proof (induction n)
  case (Suc n)
  let ?st = "passes n"
  have step: "run_state (reconcileUpgrade lib (client_service fuel cd s) cid info) ?st =
      (fst (run_state (reconcileUpgrade lib (client_service fuel cd s) cid info) ?st), passes (Suc n))"
    by (simp add: passes_def upgrade_passes_def)
  obtain err where "ans_ShowUpgradeClusterTask (cli_cloud s) (rs_cloud ?st @ [CceReq (ShowUpgradeClusterTaskReq cid t)]) = Inl err"
    using assms(1) by blast
  then obtain err where "fst (run_state (ShowUpgradeTask s cid t) (rs_cloud ?st)) = Inl err"
    by (cases "IsNotFound err") (auto simp: ShowUpgradeTask_def fail_def)
  then have "upgrade_answer s cid (rs_obj ?st) info (rs_cloud ?st) = PollFailed"
    using Suc assms(3) by (simp add: upgrade_answer_def)
  then show ?case
    using upgrade_pass_refines[OF step] Suc assms(3)
    by (auto simp: task_version_def upgrade_step_simps replicate_append_same)
qed (simp add: passes_def upgrade_passes_def assms(2))

text \<open>A pass that starts an upgrade.\<close>

definition upgrade_cloud :: cloud where
  "upgrade_cloud = empty_cloud \<lparr>
     ans_ShowClusterUpgradeInfo := (\<lambda>_. Inr (Some \<lparr> vi_Release = Some ''v1.34'', vi_Patch = Some ''r1'',
        vi_SuggestPatch = None, vi_TargetVersions = Some [''v1.35.1-r0''] \<rparr>)),
     ans_UpgradeCluster := (\<lambda>_. Inr (Some ''t1'')) \<rparr>"

definition upgrade_state :: "(unit, history, CCEManagedControlPlane) rstate" where
  "upgrade_state = \<lparr> rs_kube = (), rs_cloud = [], rs_backoff = newBackoffTracker,
     rs_obj = example_cp \<lparr> cp_Spec := example_cp_spec \<lparr> cps_Version := ''v1.35.1-r0'' \<rparr> \<rparr> \<rparr>"

definition running_info :: ClusterInfo where
  "running_info = \<lparr> ci_ClusterID = ''c1'', ci_Phase = ''Available'', ci_Version = ''v1.34.1'', ci_Endpoints = [], ci_Tags = [] \<rparr>"

lemma upgrade_pass_refines_witness:
  "upgrade_answer (example_client upgrade_cloud) ''c1'' (rs_obj upgrade_state) running_info [] = Started ''t1'' \<and>
   task_version (rs_obj (snd (run_state (reconcileUpgrade example_lib
     (client_service 1 example_codec (example_client upgrade_cloud)) ''c1'' running_info) upgrade_state))) = (''t1'', '''')"
proof -
  let ?run = "run_state (reconcileUpgrade example_lib (client_service 1 example_codec (example_client upgrade_cloud)) ''c1''
      running_info) upgrade_state"
  have "upgrade_answer (example_client upgrade_cloud) ''c1'' (rs_obj upgrade_state) running_info [] = Started ''t1''"
    by (simp add: upgrade_answer_def GetUpgradeInfo_def StartUpgrade_def Let_def upgrade_cloud_def upgrade_state_def
        running_info_def same_release_def offers_def example_client_def empty_cloud_def example_cp_def example_cp_spec_def
        example_cp_status_def deref_def tryE_def wrapE_def ok_def send_def)
  then show ?thesis
    using upgrade_pass_refines[of example_lib 1 example_codec "example_client upgrade_cloud" "''c1''" running_info upgrade_state
        "fst ?run" "snd ?run"]
    by (auto simp: upgrade_state_def task_version_def example_cp_def example_cp_spec_def example_cp_status_def upgrade_step_simps)
qed

end
