(* ===== verification/InfraTypes.thy ===== *)
theory InfraTypes
  imports CpTypes NetTypes
begin

text \<open>
  The infrastructure objects of \<open>api/infrastructure/v1beta2\<close> (clusters, machine pools, identities), the
  fields of the Cluster API and core objects the controllers read, and the Kubernetes client, whose
  operations are parameters (\<open>kube_client\<close>).
\<close>

section \<open>CCECluster\<close>

record CCEClusterSpec =
  ics_Region :: string
  ics_Network :: NetworkSpec

record CCEClusterStatus =
  ict_Ready :: bool
  ict_Provisioned :: bool
  ict_ClusterID :: string
  ict_Conditions :: "Condition list"

record CCECluster =
  ic_Name :: string
  ic_Namespace :: string
  ic_Annotations :: "(string, string) gomap"
  ic_Finalizers :: "string list"
  ic_Deleting :: bool
  ic_Spec :: CCEClusterSpec
  ic_Status :: CCEClusterStatus

section \<open>CCEManagedMachinePool\<close>

record NodeVolume =
  nv_Size :: int32
  nv_Type :: string

record UpdateConfigSpec =
  ucs_MaxUnavailable :: int32

record NodeRepairSpec =
  nrs_Enabled :: bool

record ExtensionScaleGroupSpec =
  egs_Name :: string
  egs_Flavor :: string
  egs_AvailabilityZone :: string

record AutoscalingSpec =
  asc_Enable :: bool
  asc_MinNodeCount :: int32
  asc_MaxNodeCount :: int32

record CCEManagedMachinePoolSpec =
  mps_ClusterName :: string
  mps_NodePoolName :: string
  mps_Flavor :: string
  mps_OS :: string
  mps_RootVolume :: "NodeVolume option"
  mps_DataVolumes :: "NodeVolume list"
  mps_SSHKey :: string
  mps_AvailabilityZone :: string
  mps_Replicas :: int32
  mps_ProviderIDList :: "string list"
  mps_BillingMode :: int32
  mps_Spot :: bool
  mps_SpotPrice :: string
  mps_ExtensionScaleGroups :: "ExtensionScaleGroupSpec list"
  mps_Taints :: "string list"
  mps_Labels :: "(string, string) gomap"
  mps_SecurityGroups :: "string list"
  mps_Autoscaling :: AutoscalingSpec
  mps_UpdateConfig :: UpdateConfigSpec
  mps_NodeRepair :: "NodeRepairSpec option"
  mps_EcsGroupID :: string
  mps_FaultDomain :: string
  mps_DedicatedHostID :: string
  mps_PreInstall :: string
  mps_PostInstall :: string
  mps_WaitPostInstallFinish :: "bool option"
  mps_AdditionalTags :: "(string, string) gomap"

record CCEManagedMachinePoolStatus =
  mpt_Ready :: bool
  mpt_Replicas :: int32
  mpt_AvailableReplicas :: int32
  mpt_NodePoolID :: string
  mpt_LastAppliedSecurityGroups :: "string list"
  mpt_LastAppliedAutoscaling :: AutoscalingSpec
  mpt_ObservedGeneration :: int
  mpt_Conditions :: "Condition list"

record CCEManagedMachinePool =
  mp_Name :: string
  mp_Namespace :: string
  mp_Generation :: int
  mp_Annotations :: "(string, string) gomap"
  mp_Finalizers :: "string list"
  mp_Deleting :: bool
  mp_Spec :: CCEManagedMachinePoolSpec
  mp_Status :: CCEManagedMachinePoolStatus

section \<open>Identities\<close>

text \<open>\<open>metav1.LabelSelector\<close>: an expression is its key, operator and values.\<close>

record LabelSelector =
  sel_MatchLabels :: "(string, string) gomap"
  sel_MatchExpressions :: "(string \<times> string \<times> string list) list"

record AllowedNamespaces =
  aln_NamespaceList :: "string list"
  aln_Selector :: LabelSelector

record CCEClusterControllerIdentity =
  cid_Name :: string
  cid_AllowedNamespaces :: "AllowedNamespaces option"

record CCEClusterStaticIdentity =
  sid_Name :: string
  sid_SecretRef :: string
  sid_AllowedNamespaces :: "AllowedNamespaces option"

record CCEClusterRoleIdentity =
  rid_Name :: string
  rid_AgencyName :: string
  rid_AllowedNamespaces :: "AllowedNamespaces option"

section \<open>Objects of Cluster API and the core group\<close>

record CapiCluster =
  ccl_Name :: string
  ccl_Paused :: "bool option"
  ccl_InfrastructureRefName :: string
  ccl_ControlPlaneRefName :: string
  ccl_InfrastructureProvisioned :: "bool option"

record CapiMachinePool =
  cmp_Name :: string
  cmp_Namespace :: string
  cmp_Annotations :: "(string, string) gomap"
  cmp_Replicas :: "int32 option"
  cmp_InfrastructureRefKind :: string
  cmp_InfrastructureRefName :: string

record Secret =
  sec_Name :: string
  sec_Namespace :: string
  sec_Labels :: "(string, string) gomap"
  sec_Data :: "(string, string) gomap"
  sec_OwnerReferences :: "(string \<times> bool) list"

definition ClusterNameLabel :: string where "ClusterNameLabel = ''cluster.x-k8s.io/cluster-name''"

section \<open>The Kubernetes client\<close>

text \<open>
  \<open>client.Client\<close> (and the Cluster API lookups and patch helpers built on it), one field per call of the
  controllers. The operations act on an opaque world and answer an object or an error.
\<close>

record 'k kube_client =
  kb_GetCCECluster :: "NamespacedName \<Rightarrow> ('k, CCECluster) go"
  kb_GetControlPlane :: "NamespacedName \<Rightarrow> ('k, CCEManagedControlPlane) go"
  kb_GetMachinePool :: "NamespacedName \<Rightarrow> ('k, CCEManagedMachinePool) go"
  kb_GetSecret :: "NamespacedName \<Rightarrow> ('k, Secret) go"
  kb_GetNamespaceLabels :: "string \<Rightarrow> ('k, (string, string) gomap) go"
  kb_GetControllerIdentity :: "string \<Rightarrow> ('k, CCEClusterControllerIdentity) go"
  kb_GetStaticIdentity :: "string \<Rightarrow> ('k, CCEClusterStaticIdentity) go"
  kb_GetRoleIdentity :: "string \<Rightarrow> ('k, CCEClusterRoleIdentity) go"
  kb_CreateControllerIdentity :: "CCEClusterControllerIdentity \<Rightarrow> ('k, unit) go"
  kb_ListMachinePools :: "string \<Rightarrow> string \<Rightarrow> ('k, CapiMachinePool list) go"
  kb_ListControlPlanes :: "string \<Rightarrow> ('k, CCEManagedControlPlane list) go"
  kb_CreateSecret :: "Secret \<Rightarrow> ('k, unit) go"
  kb_UpdateSecret :: "Secret \<Rightarrow> ('k, unit) go"
  kb_DeleteSecret :: "Secret \<Rightarrow> ('k, unit) go"
  kb_UpdateControlPlane :: "CCEManagedControlPlane \<Rightarrow> ('k, CCEManagedControlPlane) go"
  kb_PatchControlPlane :: "CCEManagedControlPlane \<Rightarrow> CCEManagedControlPlane \<Rightarrow> ('k, CCEManagedControlPlane) go"
  kb_UpdateMachinePool :: "CCEManagedMachinePool \<Rightarrow> ('k, CCEManagedMachinePool) go"
  kb_UpdateMachinePoolStatus :: "CCEManagedMachinePool \<Rightarrow> ('k, CCEManagedMachinePool) go"
  kb_PatchMachinePool :: "CCEManagedMachinePool \<Rightarrow> CCEManagedMachinePool \<Rightarrow> ('k, CCEManagedMachinePool) go"
  kb_PatchCapiMachinePool :: "CapiMachinePool \<Rightarrow> CapiMachinePool \<Rightarrow> ('k, unit) go"
  kb_OwnerClusterOfCCECluster :: "CCECluster \<Rightarrow> ('k, CapiCluster option) go"
  kb_OwnerClusterOfControlPlane :: "CCEManagedControlPlane \<Rightarrow> ('k, CapiCluster option) go"
  kb_ClusterOfMachinePool :: "CCEManagedMachinePool \<Rightarrow> ('k, CapiCluster option) go"
  kb_CloseCCECluster :: "CCECluster \<Rightarrow> CCECluster \<Rightarrow> ('k, unit) go"
  kb_CloseControlPlane :: "CCEManagedControlPlane \<Rightarrow> CCEManagedControlPlane \<Rightarrow> ('k, unit) go"
  kb_CloseMachinePool :: "CCEManagedMachinePool \<Rightarrow> CCEManagedMachinePool \<Rightarrow> ('k, unit) go"

text \<open>\<open>apierrors.IsNotFound\<close> and \<open>IsAlreadyExists\<close>: the controllers test only errors the client returned.\<close>

fun is_kube :: "kube_reason \<Rightarrow> go_error \<Rightarrow> bool" where
  "is_kube reason (KubeErr r _) \<longleftrightarrow> r = reason"
| "is_kube reason (WrapErr _ e) \<longleftrightarrow> is_kube reason e"
| "is_kube reason _ \<longleftrightarrow> False"

section \<open>A Kubernetes client for examples\<close>

text \<open>A cluster without objects that accepts every write; the witnesses override the fields they need.\<close>

definition missing :: "('k, 'a) go" where
  "missing = fail (KubeErr KubeNotFound ''not found'')"

definition empty_kube :: "'k kube_client" where
  "empty_kube = \<lparr>
     kb_GetCCECluster = (\<lambda>_. missing),
     kb_GetControlPlane = (\<lambda>_. missing),
     kb_GetMachinePool = (\<lambda>_. missing),
     kb_GetSecret = (\<lambda>_. missing),
     kb_GetNamespaceLabels = (\<lambda>_. missing),
     kb_GetControllerIdentity = (\<lambda>_. missing),
     kb_GetStaticIdentity = (\<lambda>_. missing),
     kb_GetRoleIdentity = (\<lambda>_. missing),
     kb_CreateControllerIdentity = (\<lambda>_. ok ()),
     kb_ListMachinePools = (\<lambda>_ _. ok []),
     kb_ListControlPlanes = (\<lambda>_. ok []),
     kb_CreateSecret = (\<lambda>_. ok ()),
     kb_UpdateSecret = (\<lambda>_. ok ()),
     kb_DeleteSecret = (\<lambda>_. ok ()),
     kb_UpdateControlPlane = ok,
     kb_PatchControlPlane = (\<lambda>_. ok),
     kb_UpdateMachinePool = ok,
     kb_UpdateMachinePoolStatus = ok,
     kb_PatchMachinePool = (\<lambda>_. ok),
     kb_PatchCapiMachinePool = (\<lambda>_ _. ok ()),
     kb_OwnerClusterOfCCECluster = (\<lambda>_. ok None),
     kb_OwnerClusterOfControlPlane = (\<lambda>_. ok None),
     kb_ClusterOfMachinePool = (\<lambda>_. ok None),
     kb_CloseCCECluster = (\<lambda>_ _. ok ()),
     kb_CloseControlPlane = (\<lambda>_ _. ok ()),
     kb_CloseMachinePool = (\<lambda>_ _. ok ()) \<rparr>"

end
