(* ===== verification/Identity.thy ===== *)
theory Identity
  imports InfraTypes
begin

text \<open>
  Who the provider acts as: \<open>internal/scope/scope.go\<close> (credentials Secrets and identity objects with their
  allowed namespaces), \<open>controllers/credentials.go\<close> (the one resolution chain of all reconcilers),
  \<open>internal/credentials\<close> (assuming an agency), \<open>internal/services/iam\<close> (ensuring the agency exists) and
  \<open>controllers/cceclustercontrolleridentity_controller.go\<close> (the default identity singleton).
\<close>

section \<open>Definitions\<close>

subsection \<open>Credentials and identities\<close>

record Credentials =
  crd_AccessKey :: string
  crd_SecretKey :: string

text \<open>What the resolution reads besides the Kubernetes API: the environment, the controller namespace, and
  \<open>metav1.LabelSelectorAsSelector\<close> with \<open>Matches\<close>.\<close>

record scope_env =
  sce_Getenv :: "string \<Rightarrow> string"
  sce_ControllerNamespace :: string
  sce_SelectorMatches :: "LabelSelector \<Rightarrow> (string, string) gomap \<Rightarrow> go_error + bool"

definition credentialsFromEnv :: "scope_env \<Rightarrow> ('k, Credentials) go" where
  "credentialsFromEnv env = (let ak = sce_Getenv env ''CLOUD_SDK_AK''; sk = sce_Getenv env ''CLOUD_SDK_SK'' in
     if ak = '''' \<or> sk = ''''
     then fail (PlainErr ''no credentials found: set CLOUD_SDK_AK/CLOUD_SDK_SK or create a per-cluster credentials Secret'')
     else ok \<lparr> crd_AccessKey = ak, crd_SecretKey = sk \<rparr>)"

definition key_text :: "NamespacedName \<Rightarrow> string" where
  "key_text k = msgf [fst k, ''/'', snd k]"

definition ResolveCredentials :: "'k kube_client \<Rightarrow> scope_env \<Rightarrow> string \<Rightarrow> string \<Rightarrow> ('k, Credentials) go" where
  "ResolveCredentials c env namespace secretName =
     (if secretName = '''' then credentialsFromEnv env
      else let key = (namespace, secretName) in do {
        r \<leftarrow> kb_GetSecret c key;
        case r of
          Inl err \<Rightarrow>
            if is_kube KubeNotFound err
            then fail (PlainErr (msgf [''credentials Secret '', key_text key, '' not found (create it with keys accessKey/secretKey)'']))
            else fail (WrapErr (msgf [''failed to read credentials Secret '', key_text key]) err)
        | Inr secret \<Rightarrow> (let ak = get_str (sec_Data secret) ''accessKey''; sk = get_str (sec_Data secret) ''secretKey'' in
            if ak = '''' \<or> sk = ''''
            then fail (PlainErr (msgf [''credentials Secret '', key_text key, '' must contain accessKey and secretKey'']))
            else ok \<lparr> crd_AccessKey = ak, crd_SecretKey = sk \<rparr>) })"

definition checkAllowedNamespace :: "'k kube_client \<Rightarrow> scope_env \<Rightarrow> AllowedNamespaces option \<Rightarrow> string \<Rightarrow>
    string \<Rightarrow> ('k, unit) go" where
  "checkAllowedNamespace c env allowed namespace identityName = (case allowed of
      None \<Rightarrow> ok ()
    | Some al \<Rightarrow>
        let denied = fail (PlainErr (msgf [''namespace '', namespace, '' is not allowed to use identity '', identityName])) in
        if namespace \<in> set (aln_NamespaceList al) then ok ()
        else if sel_MatchLabels (aln_Selector al) \<noteq> [] \<or> sel_MatchExpressions (aln_Selector al) \<noteq> []
        then do {
          r \<leftarrow> kb_GetNamespaceLabels c namespace;
          case r of
            Inl _ \<Rightarrow> denied
          | Inr labels \<Rightarrow> (case sce_SelectorMatches env (aln_Selector al) labels of
                Inl err \<Rightarrow> fail (WrapErr ''invalid identity namespace selector'' err)
              | Inr matches \<Rightarrow> if matches then ok () else denied) }
        else denied)"

definition ResolveIdentity :: "'k kube_client \<Rightarrow> scope_env \<Rightarrow> string \<Rightarrow> ObjectReference option \<Rightarrow>
    ('k, Credentials \<times> string) go" where
  "ResolveIdentity c env namespace identityRef = (case identityRef of
      None \<Rightarrow> tryE (credentialsFromEnv env) (\<lambda>creds. ok (creds, ''''))
    | Some ref \<Rightarrow>
       if ref_Kind ref = ''CCEClusterControllerIdentity'' then
         tryE (wrapE (msgf [''failed to get CCEClusterControllerIdentity '', ref_Name ref]) (kb_GetControllerIdentity c (ref_Name ref)))
           (\<lambda>i. tryE (checkAllowedNamespace c env (cid_AllowedNamespaces i) namespace (ref_Name ref))
           (\<lambda>_. tryE (credentialsFromEnv env) (\<lambda>creds. ok (creds, ''''))))
       else if ref_Kind ref = ''CCEClusterStaticIdentity'' then
         tryE (wrapE (msgf [''failed to get CCEClusterStaticIdentity '', ref_Name ref]) (kb_GetStaticIdentity c (ref_Name ref)))
           (\<lambda>i. tryE (checkAllowedNamespace c env (sid_AllowedNamespaces i) namespace (ref_Name ref))
           (\<lambda>_. tryE (wrapE (msgf [''failed to read static identity Secret '', sid_SecretRef i])
                     (kb_GetSecret c (sce_ControllerNamespace env, sid_SecretRef i)))
           (\<lambda>secret. let ak = get_str (sec_Data secret) ''accessKey''; sk = get_str (sec_Data secret) ''secretKey'' in
              if ak = '''' \<or> sk = ''''
              then fail (PlainErr (msgf [''static identity Secret '', sid_SecretRef i, '' must contain accessKey and secretKey'']))
              else ok (\<lparr> crd_AccessKey = ak, crd_SecretKey = sk \<rparr>, ''''))))
       else if ref_Kind ref = ''CCEClusterRoleIdentity'' then
         tryE (wrapE (msgf [''failed to get CCEClusterRoleIdentity '', ref_Name ref]) (kb_GetRoleIdentity c (ref_Name ref)))
           (\<lambda>i. tryE (checkAllowedNamespace c env (rid_AllowedNamespaces i) namespace (ref_Name ref))
           (\<lambda>_. tryE (credentialsFromEnv env) (\<lambda>creds. ok (creds, rid_AgencyName i))))
       else fail (PlainErr (msgf [''unsupported identityRef kind '', ref_Kind ref])))"

definition resolveControlPlaneCredentials :: "'k kube_client \<Rightarrow> scope_env \<Rightarrow> CCEManagedControlPlane \<Rightarrow>
    ('k, Credentials \<times> string) go" where
  "resolveControlPlaneCredentials c env cp = (case cps_IdentityRef (cp_Spec cp) of
      Some ref \<Rightarrow> ResolveIdentity c env (cp_Namespace cp) (Some ref)
    | None \<Rightarrow> tryE (ResolveCredentials c env (cp_Namespace cp) (cps_ClusterName (cp_Spec cp) @ ''-credentials''))
        (\<lambda>creds. ok (creds, '''')))"

subsection \<open>Agencies\<close>

text \<open>\<open>credentials.Credentials\<close>, with the token of an assumed agency.\<close>

record CloudCredentials =
  ccr_AK :: string
  ccr_SK :: string
  ccr_SecurityToken :: string

text \<open>A \<open>credentials.Provider\<close>: region, agency name, access key and secret key.\<close>

type_synonym 'c provider = "string \<Rightarrow> string \<Rightarrow> string \<Rightarrow> string \<Rightarrow> ('c, CloudCredentials) go"

definition Resolve :: "'c provider option \<Rightarrow> string \<Rightarrow> string \<Rightarrow> string \<Rightarrow> string \<Rightarrow> ('c, CloudCredentials) go" where
  "Resolve p region agencyName accessKey secretKey =
     (if agencyName = ''''
      then ok \<lparr> ccr_AK = accessKey, ccr_SK = secretKey, ccr_SecurityToken = '''' \<rparr>
      else case p of
        None \<Rightarrow> fail (PlainErr ''cannot assume agency with a nil provider'')
      | Some assume_agency \<Rightarrow> assume_agency region agencyName accessKey secretKey)"

text \<open>\<open>provider.AssumeAgency\<close>, over the two STS calls it is built from.\<close>

definition AssumeAgency :: "(string \<Rightarrow> string \<Rightarrow> string \<Rightarrow> ('c, string) go) \<Rightarrow>
    (string \<Rightarrow> string \<Rightarrow> string \<Rightarrow> string \<Rightarrow> ('c, CloudCredentials) go) \<Rightarrow> 'c provider" where
  "AssumeAgency get_account assume_urn region agencyName accessKey secretKey =
     tryE (wrapE ''failed to resolve account ID for agency assumption'' (get_account region accessKey secretKey))
       (\<lambda>accountID. let agencyURN = (if has_prefix agencyName ''urn:'' then agencyName
            else msgf [''urn:stia:'', accountID, '':agency:'', agencyName]) in
        wrapE (msgf [''failed to assume agency '', agencyName]) (assume_urn region agencyURN accessKey secretKey))"

text \<open>\<open>ValidateTrustPolicy\<close>: \<open>json.Unmarshal\<close> is the parameter, which answers the \<open>Version\<close> field.\<close>

definition ValidateTrustPolicy :: "(string \<Rightarrow> go_error + string) \<Rightarrow> string \<Rightarrow> go_error option" where
  "ValidateTrustPolicy unmarshal policy = (case unmarshal policy of
      Inl err \<Rightarrow> Some (WrapErr ''agencyTrustPolicy is not valid JSON'' err)
    | Inr version \<Rightarrow> if version \<noteq> ''5.0''
        then Some (PlainErr (msgf [''agencyTrustPolicy Version must be 5.0, got '', version])) else None)"

text \<open>The IAM client: a page of agency names with the next marker, and the creation. \<open>fuel\<close> bounds the pages.\<close>

record 'c iam_api =
  iam_ListAgencies :: "string option \<Rightarrow> int32 \<Rightarrow> ('c, string list option \<times> string option) go"
  iam_CreateAgency :: "string \<Rightarrow> string \<Rightarrow> ('c, unit) go"

fun agencyExists :: "nat \<Rightarrow> 'c iam_api \<Rightarrow> string \<Rightarrow> string option \<Rightarrow> ('c, bool) go" where
  "agencyExists 0 c agencyName marker = fail OutOfFuel"
| "agencyExists (Suc fuel) c agencyName marker =
     tryE (wrapE ''ListAgenciesV5 failed'' (iam_ListAgencies c marker 200)) (\<lambda>(agencies, next_marker).
       if (case agencies of Some names \<Rightarrow> agencyName \<in> set names | None \<Rightarrow> False) then ok True
       else case next_marker of None \<Rightarrow> ok False | Some m \<Rightarrow> agencyExists fuel c agencyName (Some m))"

definition EnsureAgency :: "nat \<Rightarrow> 'c iam_api \<Rightarrow> string \<Rightarrow> string \<Rightarrow> ('c, unit) go" where
  "EnsureAgency fuel c agencyName trustPolicy =
     tryE (agencyExists fuel c agencyName None) (\<lambda>exists_already.
       if exists_already then ok ()
       else wrapE (msgf [''CreateAgencyV5 '', agencyName, '' failed'']) (iam_CreateAgency c agencyName trustPolicy))"

subsection \<open>The default identity\<close>

definition CCEClusterControllerIdentityName :: string where
  "CCEClusterControllerIdentityName = ''default''"

definition identity_Reconcile :: "'k kube_client \<Rightarrow> NamespacedName \<Rightarrow> ('k, reconcile_result) state" where
  "identity_Reconcile c req = do {
     r \<leftarrow> kb_GetControlPlane c req;
     case r of
       Inl err \<Rightarrow> if is_kube KubeNotFound err then done_ok else return_err err
     | Inr cp \<Rightarrow>
         if (case cps_IdentityRef (cp_Spec cp) of
               Some ref \<Rightarrow> ref_Kind ref \<in> {''CCEClusterStaticIdentity'', ''CCEClusterRoleIdentity''} | None \<Rightarrow> False)
         then done_ok
         else do {
           e \<leftarrow> kb_GetControllerIdentity c CCEClusterControllerIdentityName;
           case e of
             Inr _ \<Rightarrow> done_ok
           | Inl err \<Rightarrow>
               if \<not> is_kube KubeNotFound err then return_err err
               else do {
                 w \<leftarrow> kb_CreateControllerIdentity c
                   \<lparr> cid_Name = CCEClusterControllerIdentityName, cid_AllowedNamespaces = None \<rparr>;
                 case w of
                   Inl err \<Rightarrow> if is_kube KubeAlreadyExists err then done_ok else return_err err
                 | Inr _ \<Rightarrow> done_ok } } }"


section \<open>Allowed namespaces are enforced\<close>

text \<open>What the API promises: a nil restriction allows every namespace, an empty list with an empty selector
  none.\<close>

definition allows :: "scope_env \<Rightarrow> AllowedNamespaces option \<Rightarrow> string \<Rightarrow> go_error + (string, string) gomap \<Rightarrow> bool" where
  "allows env allowed namespace labels \<longleftrightarrow> (case allowed of
      None \<Rightarrow> True
    | Some al \<Rightarrow> namespace \<in> set (aln_NamespaceList al) \<or>
        ((sel_MatchLabels (aln_Selector al) \<noteq> [] \<or> sel_MatchExpressions (aln_Selector al) \<noteq> []) \<and>
         (case labels of Inr l \<Rightarrow> sce_SelectorMatches env (aln_Selector al) l = Inr True | Inl _ \<Rightarrow> False)))"

lemma checkAllowedNamespace_iff:
  "(fst (run_state (checkAllowedNamespace c env allowed namespace n) k) = Inr ()) =
     allows env allowed namespace (fst (run_state (kb_GetNamespaceLabels c namespace) k))"
  by (auto simp: checkAllowedNamespace_def allows_def ok_def fail_def Let_def
      split: option.splits sum.splits prod.splits)

text \<open>The restriction on the identity object a reference names.\<close>

definition identity_policy :: "'k kube_client \<Rightarrow> ObjectReference \<Rightarrow> ('k, AllowedNamespaces option) go" where
  "identity_policy c ref =
     (if ref_Kind ref = ''CCEClusterControllerIdentity''
      then tryE (kb_GetControllerIdentity c (ref_Name ref)) (\<lambda>i. ok (cid_AllowedNamespaces i))
      else if ref_Kind ref = ''CCEClusterStaticIdentity''
      then tryE (kb_GetStaticIdentity c (ref_Name ref)) (\<lambda>i. ok (sid_AllowedNamespaces i))
      else if ref_Kind ref = ''CCEClusterRoleIdentity''
      then tryE (kb_GetRoleIdentity c (ref_Name ref)) (\<lambda>i. ok (rid_AllowedNamespaces i))
      else fail (PlainErr ''unsupported''))"

lemma run_tryE_Inr: "fst (run_state (tryE m k) s) = Inr v \<Longrightarrow>
    \<exists>a s'. run_state m s = (Inr a, s') \<and> fst (run_state (k a) s') = Inr v"
  by (cases "run_state m s") (auto simp: tryE_def fail_def split: sum.splits)

lemma run_wrapE_Inr: "run_state (wrapE msg m) s = (Inr a, s') \<Longrightarrow> run_state m s = (Inr a, s')"
  by (cases "run_state m s") (auto simp: wrapE_def fail_def ok_def split: sum.splits)

lemma guarded_identity:
  assumes "fst (run_state (tryE (wrapE msg get) (\<lambda>i. tryE (checkAllowedNamespace c env (allowed_of i) ns n) (k i))) s) = Inr v"
  shows "\<exists>allowed s'. run_state (tryE get (\<lambda>i. ok (allowed_of i))) s = (Inr allowed, s') \<and>
    allows env allowed ns (fst (run_state (kb_GetNamespaceLabels c ns) s'))"
proof -
  obtain i s' where i: "run_state get s = (Inr i, s')"
    and "fst (run_state (tryE (checkAllowedNamespace c env (allowed_of i) ns n) (k i)) s') = Inr v"
    using run_tryE_Inr[OF assms] run_wrapE_Inr by metis
  then have "fst (run_state (checkAllowedNamespace c env (allowed_of i) ns n) s') = Inr ()"
    using run_tryE_Inr by fastforce
  then show ?thesis using i by (simp add: checkAllowedNamespace_iff tryE_def ok_def)
qed

text \<open>C14: No control plane runs on an identity its namespace may not use. When the credential chain of a
  control plane with an identity reference yields credentials, then the referenced identity object was read,
  and its restriction allows the control plane's namespace: there is none, or its list names the namespace,
  or its non-empty selector matches the labels the namespace has.\<close>

theorem identity_respects_allowed_namespaces:
  assumes "cps_IdentityRef (cp_Spec cp) = Some ref"
    and "fst (run_state (resolveControlPlaneCredentials c env cp) k) = Inr r"
  shows "\<exists>allowed k'. run_state (identity_policy c ref) k = (Inr allowed, k') \<and>
    allows env allowed (cp_Namespace cp) (fst (run_state (kb_GetNamespaceLabels c (cp_Namespace cp)) k'))"
proof -
  let ?kinds = "{''CCEClusterControllerIdentity'', ''CCEClusterStaticIdentity'', ''CCEClusterRoleIdentity''}"
  have run: "fst (run_state (ResolveIdentity c env (cp_Namespace cp) (Some ref)) k) = Inr r"
    using assms by (simp add: resolveControlPlaneCredentials_def)
  then have "ref_Kind ref \<in> ?kinds"
    by (auto simp: ResolveIdentity_def fail_def split: if_splits)
  then consider "ref_Kind ref = ''CCEClusterControllerIdentity''" | "ref_Kind ref = ''CCEClusterStaticIdentity''"
    | "ref_Kind ref = ''CCEClusterRoleIdentity''" by auto
  then show ?thesis
  proof cases
    case 1
    show ?thesis
      using run 1 by (simp add: ResolveIdentity_def identity_policy_def guarded_identity)
  next
    case 2
    show ?thesis
      using run 2 by (simp add: ResolveIdentity_def identity_policy_def guarded_identity)
  next
    case 3
    show ?thesis
      using run 3 by (simp add: ResolveIdentity_def identity_policy_def guarded_identity)
  qed
qed

text \<open>A static identity that only the namespace \<open>default\<close> may use.\<close>

definition identity_kube :: "unit kube_client" where
  "identity_kube = empty_kube \<lparr>
     kb_GetStaticIdentity := (\<lambda>n. ok \<lparr> sid_Name = n, sid_SecretRef = ''aksk'', sid_AllowedNamespaces = Some
        \<lparr> aln_NamespaceList = [''default''], aln_Selector = \<lparr> sel_MatchLabels = [], sel_MatchExpressions = [] \<rparr> \<rparr> \<rparr>),
     kb_GetSecret := (\<lambda>k. ok \<lparr> sec_Name = snd k, sec_Namespace = fst k, sec_Labels = [],
        sec_Data = [(''accessKey'', ''ak''), (''secretKey'', ''sk'')], sec_OwnerReferences = [] \<rparr>) \<rparr>"

definition example_env :: scope_env where
  "example_env = \<lparr> sce_Getenv = (\<lambda>_. ''''), sce_ControllerNamespace = ''capi-cce-system'',
     sce_SelectorMatches = (\<lambda>_ _. Inr False) \<rparr>"

definition identity_cp :: CCEManagedControlPlane where
  "identity_cp = example_cp \<lparr> cp_Spec := example_cp_spec \<lparr>
     cps_IdentityRef := Some \<lparr> ref_Kind = ''CCEClusterStaticIdentity'', ref_Name = ''team'' \<rparr> \<rparr> \<rparr>"

lemma identity_respects_allowed_namespaces_witness:
  "\<exists>allowed k'. run_state (identity_policy identity_kube
       \<lparr> ref_Kind = ''CCEClusterStaticIdentity'', ref_Name = ''team'' \<rparr>) () = (Inr allowed, k') \<and>
     allows example_env allowed ''default'' (fst (run_state (kb_GetNamespaceLabels identity_kube ''default'') k'))"
proof -
  have run: "fst (run_state (resolveControlPlaneCredentials identity_kube example_env identity_cp) ()) =
      Inr (\<lparr> crd_AccessKey = ''ak'', crd_SecretKey = ''sk'' \<rparr>, '''')"
    by (simp add: resolveControlPlaneCredentials_def ResolveIdentity_def identity_cp_def identity_kube_def example_env_def
        example_cp_def example_cp_spec_def checkAllowedNamespace_def tryE_def wrapE_def ok_def get_str_def Let_def)
  show ?thesis
    using identity_respects_allowed_namespaces[OF _ run] by (simp add: identity_cp_def example_cp_def example_cp_spec_def)
qed


end
