(* ===== verification/CpController.thy ===== *)
theory CpController
  imports CpUpgrade Identity
begin

text \<open>
  \<open>controllers/ccemanagedcontrolplane_controller.go\<close> and \<open>controllers/kubeconfig_rotation.go\<close>: the control
  plane reconciler over the Kubernetes client, the CCE service and the control plane object of the reconcile
  state. What it gets from outside is one record (\<open>cp_env\<close>).
\<close>

section \<open>The environment\<close>

text \<open>
  Besides the clients and factories: \<open>cpe_unmarshal\<close> reads the version of a trust policy (\<open>json.Unmarshal\<close>),
  \<open>cpe_visit\<close> is the iteration order of a map, \<open>cpe_codec\<close> parses kubeconfigs, \<open>cpe_pem\<close> and
  \<open>cpe_not_after\<close> are \<open>pem.Decode\<close> and \<open>x509.ParseCertificate\<close> (the end of validity), and \<open>cpe_now\<close> is the
  clock in nanoseconds since the epoch.
\<close>

record ('k, 'c) cp_env =
  cpe_kube :: "'k kube_client"
  cpe_scope :: scope_env
  cpe_lib :: library
  cpe_provider :: "'c provider option"
  cpe_ServiceFactory :: "string \<Rightarrow> CloudCredentials \<Rightarrow> go_error + 'c service"
  cpe_IAMServiceFactory :: "string \<Rightarrow> CloudCredentials \<Rightarrow> go_error + (string \<Rightarrow> string \<Rightarrow> ('c, unit) go)"
  cpe_unmarshal :: "string \<Rightarrow> go_error + string"
  cpe_visit :: "(string, PodIdentityAssociationInfo) gomap \<Rightarrow> (string, PodIdentityAssociationInfo) gomap"
  cpe_codec :: codec
  cpe_pem :: "string \<Rightarrow> string option"
  cpe_not_after :: "string \<Rightarrow> int option"
  cpe_now :: int

section \<open>Kubeconfig rotation\<close>

definition kubeconfigRefreshThresholdDays :: int where "kubeconfigRefreshThresholdDays = 30"
definition kubeconfigValidityDays :: int32 where "kubeconfigValidityDays = 365"

fun cert_expiry_loop :: "('k, 'c) cp_env \<Rightarrow> (string, KAuthInfo option) gomap \<Rightarrow> int option" where
  "cert_expiry_loop env [] = None"
| "cert_expiry_loop env ((_, None) # as) = cert_expiry_loop env as"
| "cert_expiry_loop env ((_, Some a) # as) =
     (if ka_ClientCertificateData a = '''' then cert_expiry_loop env as
      else let der = decodeCertData (ka_ClientCertificateData a);
               der' = (case cpe_pem env der of Some block \<Rightarrow> block | None \<Rightarrow> der)
           in case cpe_not_after env der' of
                None \<Rightarrow> cert_expiry_loop env as
              | Some t \<Rightarrow> Some t)"

definition kubeconfigClientCertExpiry :: "('k, 'c) cp_env \<Rightarrow> string \<Rightarrow> int option" where
  "kubeconfigClientCertExpiry env data = (case kc_Load (cpe_codec env) data of
      Inl _ \<Rightarrow> None
    | Inr cfg \<Rightarrow> cert_expiry_loop env (kf_AuthInfos cfg))"

definition kubeconfigNeedsRefresh :: "('k, 'c) cp_env \<Rightarrow> string \<Rightarrow> string \<Rightarrow> int \<Rightarrow> ('k, bool) state" where
  "kubeconfigNeedsRefresh env namespace secretName minDays =
     (if secretName = '''' then State_Monad.return True
      else do {
        r \<leftarrow> kb_GetSecret (cpe_kube env) (namespace, secretName);
        State_Monad.return (case r of
            Inl _ \<Rightarrow> True
          | Inr secret \<Rightarrow> (case map_of (sec_Data secret) ''value'' of
                None \<Rightarrow> True
              | Some value \<Rightarrow> if value = '''' then True
                  else (case kubeconfigClientCertExpiry env value of
                      None \<Rightarrow> True
                    | Some expiry \<Rightarrow> expiry - cpe_now env < minDays * 24 * 3600 * 1000000000))) })"

definition kubeconfigSecretHasServer :: "'k kube_client \<Rightarrow> string \<Rightarrow> string \<Rightarrow> string \<Rightarrow> ('k, bool) state" where
  "kubeconfigSecretHasServer c namespace secretName server =
     (if server = '''' then State_Monad.return True
      else do {
        r \<leftarrow> kb_GetSecret c (namespace, secretName);
        State_Monad.return (case r of
            Inl _ \<Rightarrow> False
          | Inr secret \<Rightarrow> contains_sub (get_str (sec_Data secret) ''value'') (''server: '' @ server)) })"

text \<open>\<open>strconv.Itoa\<close> and \<open>strconv.Atoi\<close> (on 64-bit integers).\<close>

definition itoa :: "int \<Rightarrow> string" where
  "itoa i = (if i < 0 then CHR ''-'' # dec_string (nat (- i)) else dec_string (nat i))"

definition atoi :: "string \<Rightarrow> int option" where
  "atoi s = (let (neg, ds) = (case s of
        CHR ''-'' # r \<Rightarrow> (True, r) | CHR ''+'' # r \<Rightarrow> (False, r) | _ \<Rightarrow> (False, s)) in
     if ds = [] then None
     else case dec_value ds 0 of
       None \<Rightarrow> None
     | Some n \<Rightarrow> (let i = (if neg then - int n else int n) in
         if - (2 ^ 63) \<le> i \<and> i < 2 ^ 63 then Some i else None))"

definition splitEndpointURL :: "library \<Rightarrow> string \<Rightarrow> string \<times> int32" where
  "splitEndpointURL lib raw = (case lib_ParseURL lib raw of
      None \<Rightarrow> ('''', 0)
    | Some (uhost, uhostname, uport) \<Rightarrow>
        if uhost = '''' then ('''', 0)
        else (if uhostname = '''' then uhost else uhostname,
              case atoi uport of Some p \<Rightarrow> word_of_int p | None \<Rightarrow> 0))"

text \<open>\<open>ensureKubeconfigSecret\<close>; the control plane is read from the state, not changed.\<close>

definition desired_server :: "library \<Rightarrow> CCEManagedControlPlane \<Rightarrow> string" where
  "desired_server lib cp = (case cpt_ControlPlaneEndpoint (cp_Status cp) of
      None \<Rightarrow> ''''
    | Some ep \<Rightarrow> if lib_IsZero lib ep then ''''
        else ''https://'' @ ae_Host ep @ '':'' @ itoa (sint (ae_Port ep)))"

definition write_secret :: "('k, 'c) cp_env \<Rightarrow> CCEManagedControlPlane \<Rightarrow> CapiCluster \<Rightarrow> string \<Rightarrow> Secret \<Rightarrow> ('k, unit) go" where
  "write_secret env cp cluster secretName secret = (let c = cpe_kube env in do {
     r \<leftarrow> kb_CreateSecret c secret;
     case r of
       Inr _ \<Rightarrow> ok ()
     | Inl err \<Rightarrow>
         if \<not> is_kube KubeAlreadyExists err then fail err
         else tryE (kb_GetSecret c (cp_Namespace cp, secretName)) (\<lambda>existing.
           if \<not> lib_IsControlledBy (cpe_lib env) (sec_OwnerReferences existing) (cp_UID cp) \<and>
              get_str (sec_Labels existing) ClusterNameLabel \<noteq> ccl_Name cluster
           then fail (PlainErr (msgf [''Secret '', secretName, '' exists and is not owned by this provider; refusing to overwrite'']))
           else kb_UpdateSecret c (existing \<lparr> sec_Data := sec_Data secret \<rparr>)) })"

definition ensureKubeconfigSecret :: "('k, 'c) cp_env \<Rightarrow> ('c, 'z) cp_service_scheme \<Rightarrow> CapiCluster \<Rightarrow> string \<Rightarrow> string \<Rightarrow>
    int32 \<Rightarrow> (('k, 'c, CCEManagedControlPlane) rstate, unit) go" where
  "ensureKubeconfigSecret env svc cluster clusterID secretName validityDays = do {
     cp \<leftarrow> get_obj;
     stale \<leftarrow> in_kube (kubeconfigNeedsRefresh env (cp_Namespace cp) secretName kubeconfigRefreshThresholdDays);
     current \<leftarrow> (if stale then State_Monad.return False
       else in_kube (kubeconfigSecretHasServer (cpe_kube env) (cp_Namespace cp) secretName (desired_server (cpe_lib env) cp)));
     if current then ok ()
     else tryE (in_cloud (svc_GetClusterKubeconfig svc clusterID validityDays)) (\<lambda>kubeconfig.
       case lib_SetControllerReference (cpe_lib env) (cp_UID cp) [] of
         Inl err \<Rightarrow> fail err
       | Inr refs \<Rightarrow> in_kube (write_secret env cp cluster secretName
           \<lparr> sec_Name = secretName, sec_Namespace = cp_Namespace cp,
             sec_Labels = [(ClusterNameLabel, ccl_Name cluster)], sec_Data = [(''value'', kubeconfig)],
             sec_OwnerReferences = refs \<rparr>)) }"

section \<open>The network and the create request\<close>

text \<open>The loop of \<open>clusterNetwork\<close>: the first node subnet and the ENI subnets in order.\<close>

fun network_subnets :: "Subnet list \<Rightarrow> string \<Rightarrow> string list \<Rightarrow> string \<times> string list" where
  "network_subnets [] subnetID enis = (subnetID, enis)"
| "network_subnets (s # ss) subnetID enis = (let sid = (if sub_ID s = '''' then sub_ResourceID s else sub_ID s) in
     if sub_Type s = SubnetTypeENI then
       (let neutron = (if sub_NeutronSubnetID s = '''' then sid else sub_NeutronSubnetID s) in
        network_subnets ss subnetID (if neutron \<noteq> '''' then enis @ [neutron] else enis))
     else network_subnets ss (if subnetID = '''' \<and> sid \<noteq> '''' then sid else subnetID) enis)"

definition clusterNetwork :: "'k kube_client \<Rightarrow> CapiCluster \<Rightarrow> CCEManagedControlPlane \<Rightarrow>
    ('k, string \<times> string \<times> string \<times> string list) go" where
  "clusterNetwork c cluster cp =
     (if ccl_InfrastructureRefName cluster = '''' then fail (PlainErr ''cluster has no infrastructureRef'')
      else let key = (cp_Namespace cp, ccl_InfrastructureRefName cluster) in
        tryE (wrapE (msgf [''failed to get CCECluster '', key_text key]) (kb_GetCCECluster c key)) (\<lambda>cce.
          if ics_Region (ic_Spec cce) = '''' then fail (PlainErr ''CCECluster spec.region is empty'')
          else let vpc = ns_VPC (ics_Network (ic_Spec cce)) in
            case network_subnets (ns_Subnets (ics_Network (ic_Spec cce))) '''' [] of (subnetID, enis) \<Rightarrow>
              ok (ics_Region (ic_Spec cce), if vpc_ID vpc = '''' then vpc_ResourceID vpc else vpc_ID vpc, subnetID, enis)))"

definition toEncryptionConfigInput :: "EncryptionConfigSpec option \<Rightarrow> EncryptionConfigInput option" where
  "toEncryptionConfigInput spec = (case spec of None \<Rightarrow> None | Some e \<Rightarrow> Some \<lparr> eci_Mode = ecs_Mode e \<rparr>)"

definition toAuthenticationInput :: "AuthenticationSpec option \<Rightarrow> AuthenticationInput option" where
  "toAuthenticationInput spec = (case spec of
      None \<Rightarrow> None
    | Some a \<Rightarrow> Some \<lparr> aui_Mode = aus_Mode a, aui_AuthenticatingProxy = (case aus_AuthenticatingProxy a of
          None \<Rightarrow> None
        | Some p \<Rightarrow> Some \<lparr> api_CA = aps_CA p, api_Cert = aps_Cert p, api_PrivateKey = aps_PrivateKey p \<rparr>) \<rparr>)"

definition toCreateClusterInput :: "CCEManagedControlPlane \<Rightarrow> string \<Rightarrow> string \<Rightarrow> string \<Rightarrow> string list \<Rightarrow> CreateClusterInput" where
  "toCreateClusterInput cp vpcID nodeSubnetID identityAgency eniSubnets = (let sp = cp_Spec cp in \<lparr>
     cci_Name = cps_ClusterName sp,
     cci_Category = cps_Category sp,
     cci_Flavor = cps_Flavor sp,
     cci_Version = cps_Version sp,
     cci_ContainerNetworkMode = cns_Mode (cps_ContainerNetwork sp),
     cci_ContainerNetworkCIDR = cns_CIDR (cps_ContainerNetwork sp),
     cci_ContainerNetworkCIDRs = cns_CIDRs (cps_ContainerNetwork sp),
     cci_ENISubnets = eniSubnets,
     cci_HostNetworkVpcID = vpcID,
     cci_HostNetworkSubnetID = nodeSubnetID,
     cci_ServiceCIDR = sns_CIDR (cps_ServiceNetwork sp),
     cci_ServiceIPv6CIDR = sns_IPv6CIDR (cps_ServiceNetwork sp),
     cci_Ipv6Enable = cps_Ipv6Enable sp,
     cci_EnableAutopilot = cps_EnableAutopilot sp,
     cci_CustomSAN = cps_CustomSan sp,
     cci_PublicAccess = eas_Public (cps_EndpointAccess sp),
     cci_PublicAccessCIDRs = eas_CIDRs (cps_EndpointAccess sp),
     cci_AgencyName = (if cps_AgencyName sp = '''' then identityAgency else cps_AgencyName sp),
     cci_BillingMode = bil_Mode (cps_Billing sp),
     cci_EnableDataPlaneV2 = (cps_EnableDataPlaneV2 sp = Some True),
     cci_Tags = cps_AdditionalTags sp,
     cci_EncryptionConfig = toEncryptionConfigInput (cps_EncryptionConfig sp),
     cci_Authentication = toAuthenticationInput (cps_Authentication sp) \<rparr>)"

section \<open>Providers\<close>

text \<open>Assuming an agency talks to STS only: no request of the modelled clients.\<close>

definition quiet_provider :: "history provider option \<Rightarrow> bool" where
  "quiet_provider p \<longleftrightarrow> (\<forall>prov. p = Some prov \<longrightarrow> (\<forall>r a k sk. sends (\<lambda>_. False) (prov r a k sk)))"

lemma sends_Resolve:
  assumes "quiet_provider p"
  shows "sends P (Resolve p r a k sk)"
proof (cases p)
  case (Some prov)
  then have "sends (\<lambda>_. False) (prov r a k sk)" using assms by (simp add: quiet_provider_def)
  then have "sends P (prov r a k sk)" by (rule sends_mono) simp
  then show ?thesis using Some by (simp add: Resolve_def sends_ok)
qed (simp add: Resolve_def sends_ok)

end
