(* ===== verification/CpReconcile.thy ===== *)
theory CpReconcile
  imports CpController
begin

text \<open>
  The reconcile loop of \<open>controllers/ccemanagedcontrolplane_controller.go\<close>: \<open>reconcileNormal\<close> in the parts
  the code runs one after the other (each gets the rest as its continuation, where the code may return
  early), \<open>reconcileDelete\<close>, and \<open>Reconcile\<close>. Events and log lines are not modelled.
\<close>

section \<open>Definitions\<close>

definition ControlPlaneFinalizer :: string where
  "ControlPlaneFinalizer = ''ccemanagedcontrolplane.controlplane.cluster.x-k8s.io''"

definition controlPlaneDeletePollAnnotation :: string where
  "controlPlaneDeletePollAnnotation = ''controlplane.cluster.x-k8s.io/last-cluster-delete-poll''"

definition reconciliationPeriod :: duration where "reconciliationPeriod = seconds 600"

type_synonym ('k, 'c) cp_run = "(('k, 'c, CCEManagedControlPlane) rstate, reconcile_result) state"

text \<open>\<open>MarkFalse\<close> with the error's text, and \<open>resultAfterError\<close> on the control plane's key.\<close>

definition cp_failed :: "library \<Rightarrow> string \<Rightarrow> string \<Rightarrow> go_error \<Rightarrow> (('k, 'c, CCEManagedControlPlane) rstate, unit) state" where
  "cp_failed lib ty reason err = cp_false lib ty reason (lib_ErrorText lib err)"

definition cp_after_error :: "go_error \<Rightarrow> ('k, 'c) cp_run" where
  "cp_after_error err = do { cp \<leftarrow> get_obj; with_backoff (resultAfterError (cp_key cp) err) }"

subsection \<open>Credentials and the service\<close>

text \<open>The agency of a role identity is created first, with static credentials, when a trust policy is declared.\<close>

definition ensure_agency :: "('k, 'c) cp_env \<Rightarrow> string \<Rightarrow> Credentials \<Rightarrow> string \<Rightarrow>
    (('k, 'c, CCEManagedControlPlane) rstate, unit) go" where
  "ensure_agency env region creds identityAgency = do {
     cp \<leftarrow> get_obj;
     if cps_AgencyTrustPolicy (cp_Spec cp) \<noteq> '''' \<and> identityAgency \<noteq> '''' then
       (let policy = cps_AgencyTrustPolicy (cp_Spec cp);
            failed = (\<lambda>err. do {
              _ \<leftarrow> cp_failed (cpe_lib env) CredentialsReadyCondition AgencyCreationFailedReason err; fail err })
        in case ValidateTrustPolicy (cpe_unmarshal env) policy of
          Some err \<Rightarrow> failed err
        | None \<Rightarrow>
           (case cpe_IAMServiceFactory env region \<lparr> ccr_AK = crd_AccessKey creds, ccr_SK = crd_SecretKey creds,
                ccr_SecurityToken = '''' \<rparr> of
              Inl err \<Rightarrow> failed err
            | Inr ensure \<Rightarrow> onE (in_cloud (ensure identityAgency policy)) failed (\<lambda>_. ok ())))
     else ok () }"

definition cp_service_for :: "('k, 'c) cp_env \<Rightarrow> string \<Rightarrow> Credentials \<Rightarrow> string \<Rightarrow>
    (('k, 'c, CCEManagedControlPlane) rstate, 'c service) go" where
  "cp_service_for env region creds identityAgency =
     tryE (in_cloud (Resolve (cpe_provider env) region identityAgency (crd_AccessKey creds) (crd_SecretKey creds)))
       (\<lambda>resolved. case cpe_ServiceFactory env region resolved of Inl err \<Rightarrow> fail err | Inr svc \<Rightarrow> ok svc)"

subsection \<open>The cluster\<close>

text \<open>Create the cluster when no ID is recorded (the ENI subnets of the spec win over the managed ones).\<close>

definition ensure_cluster :: "('k, 'c) cp_env \<Rightarrow> ('c, 'z) cp_service_scheme \<Rightarrow> string \<Rightarrow> string \<Rightarrow> string \<Rightarrow> string list \<Rightarrow>
    (string \<Rightarrow> ('k, 'c) cp_run) \<Rightarrow> ('k, 'c) cp_run" where
  "ensure_cluster env svc vpcID nodeSubnetID identityAgency eniSubnets k = do {
     cp \<leftarrow> get_obj;
     if cpt_ClusterID (cp_Status cp) \<noteq> '''' then k (cpt_ClusterID (cp_Status cp))
     else let eni = (if cns_ENISubnets (cps_ContainerNetwork (cp_Spec cp)) = [] then eniSubnets
                     else cns_ENISubnets (cps_ContainerNetwork (cp_Spec cp))) in
       onE (in_cloud (svc_CreateCluster svc (toCreateClusterInput cp vpcID nodeSubnetID identityAgency eni)))
         (\<lambda>err. do {
            _ \<leftarrow> cp_failed (cpe_lib env) CCEClusterReadyCondition CCEClusterNotFoundReason err;
            cp_after_error err })
         (\<lambda>cid. do { _ \<leftarrow> cp_status (\<lambda>st. st \<lparr> cpt_ClusterID := cid \<rparr>); k cid }) }"

definition await_available :: "('k, 'c) cp_env \<Rightarrow> ('c, 'z) cp_service_scheme \<Rightarrow> string \<Rightarrow>
    (ClusterInfo \<Rightarrow> ('k, 'c) cp_run) \<Rightarrow> ('k, 'c) cp_run" where
  "await_available env svc clusterID k =
     onE (in_cloud (svc_ShowCluster svc clusterID))
       (\<lambda>err. if IsNotFound err then do {
            _ \<leftarrow> cp_status (\<lambda>st. st \<lparr> cpt_ClusterID := '''' \<rparr>);
            _ \<leftarrow> cp_false (cpe_lib env) CCEClusterReadyCondition CCEClusterNotFoundReason ''CCE cluster not found, recreating'';
            requeue defaultRequeue }
          else do {
            _ \<leftarrow> cp_failed (cpe_lib env) CCEClusterReadyCondition CCEClusterNotFoundReason err;
            cp_after_error err })
       (\<lambda>info. if ci_Phase info \<noteq> ''Available'' then do {
            _ \<leftarrow> cp_false (cpe_lib env) CCEClusterReadyCondition ReconciliationInProgressReason
                   (''CCE cluster phase: '' @ ci_Phase info);
            requeue defaultRequeue }
          else k info)"

text \<open>The endpoint loop: the last external endpoint wins, an internal one fills an empty endpoint.\<close>

definition backfill_one :: "library \<Rightarrow> Endpoint \<Rightarrow> CCEManagedControlPlane \<Rightarrow> CCEManagedControlPlane" where
  "backfill_one lib ep cp = (case splitEndpointURL lib (ep_URL ep) of (host, port0) \<Rightarrow>
     let endpoint = \<lparr> ae_Host = host, ae_Port = (if port0 = 0 then 5443 else port0) \<rparr> in
     if ep_Type ep = ''External'' \<or> (ep_Type ep = ''Internal'' \<and>
          (case cpt_ControlPlaneEndpoint (cp_Status cp) of None \<Rightarrow> True | Some e \<Rightarrow> lib_IsZero lib e))
     then cp \<lparr> cp_Spec := (cp_Spec cp) \<lparr> cps_ControlPlaneEndpoint := Some endpoint \<rparr>,
               cp_Status := (cp_Status cp) \<lparr> cpt_ControlPlaneEndpoint := Some endpoint \<rparr> \<rparr>
     else cp)"

definition backfill_endpoints :: "library \<Rightarrow> Endpoint list \<Rightarrow> CCEManagedControlPlane \<Rightarrow> CCEManagedControlPlane" where
  "backfill_endpoints lib eps cp = fold (backfill_one lib) eps cp"

definition bind_eip :: "('k, 'c) cp_env \<Rightarrow> ('c, 'z) cp_service_scheme \<Rightarrow> string \<Rightarrow> ('k, 'c) cp_run \<Rightarrow> ('k, 'c) cp_run" where
  "bind_eip env svc clusterID k = do {
     cp \<leftarrow> get_obj;
     if eas_Public (cps_EndpointAccess (cp_Spec cp)) \<and> cpt_ControlPlaneEIPID (cp_Status cp) = '''' then
       onE (in_cloud (svc_BindClusterEip svc clusterID (cps_ClusterName (cp_Spec cp))))
         (\<lambda>err. do {
            _ \<leftarrow> cp_failed (cpe_lib env) CCEClusterReadyCondition CCEClusterNotFoundReason err;
            cp_after_error err })
         (\<lambda>(eipID, _). do {
            _ \<leftarrow> cp_status (\<lambda>st. st \<lparr> cpt_ControlPlaneEIPID := eipID \<rparr>);
            requeue defaultRequeue })
     else k }"

subsection \<open>The declarative parts\<close>

text \<open>A part that may replace the control plane, with its condition.\<close>

definition converge :: "('k, 'c) cp_env \<Rightarrow> string \<Rightarrow> string \<Rightarrow> string \<Rightarrow> string \<Rightarrow>
    (CCEManagedControlPlane \<Rightarrow> ('c, CCEManagedControlPlane) go) \<Rightarrow> ('k, 'c) cp_run \<Rightarrow> ('k, 'c) cp_run" where
  "converge env ty failed_reason true_reason true_message m k = do {
     cp \<leftarrow> get_obj;
     onE (in_cloud (m cp))
       (\<lambda>err. do { _ \<leftarrow> cp_failed (cpe_lib env) ty failed_reason err; cp_after_error err })
       (\<lambda>cp'. do {
          _ \<leftarrow> modify_obj (\<lambda>_. cp');
          _ \<leftarrow> cp_true (cpe_lib env) ty true_reason true_message;
          k }) }"

definition converge_all :: "('k, 'c) cp_env \<Rightarrow> ('c, 'z) cp_service_scheme \<Rightarrow> string \<Rightarrow> ('k, 'c) cp_run \<Rightarrow> ('k, 'c) cp_run" where
  "converge_all env svc clusterID k = do {
     cp \<leftarrow> get_obj;
     onE (in_cloud (svc_ReconcileClusterTags svc clusterID (cps_ClusterName (cp_Spec cp)) (cps_AdditionalTags (cp_Spec cp))))
       cp_after_error
       (\<lambda>_.
        converge env AddonsConfiguredCondition AddonInstallFailedReason ''AddonsConfigured'' ''CCE addons reconciled''
          (\<lambda>cp. reconcileAddons (cpe_lib env) svc clusterID cp)
       (converge env PodIdentityAssociationsConfiguredCondition PodIdentityCreationFailedReason
          ''PodIdentityAssociationsConfigured'' ''CCE pod-identity associations reconciled''
          (\<lambda>cp. tryE (reconcilePodIdentityAssociations (cpe_lib env) svc (cpe_visit env) clusterID cp) (\<lambda>_. ok cp))
       (converge env LoggingConfiguredCondition LogConfigUpdateFailedReason ''LoggingConfigured''
          ''CCE control-plane log config reconciled''
          (\<lambda>cp. tryE (reconcileLogging svc clusterID cp) (\<lambda>_. ok cp))
       (converge env AccessPoliciesConfiguredCondition AccessPolicyCreateFailedReason ''AccessPoliciesConfigured''
          ''CCE access policies reconciled''
          (\<lambda>cp. reconcileAccessPolicies (cpe_lib env) svc clusterID cp)
        k)))) }"

text \<open>The two kubeconfig Secrets, then the control plane is ready.\<close>

definition finish_ready :: "('k, 'c) cp_env \<Rightarrow> ('c, 'z) cp_service_scheme \<Rightarrow> CapiCluster \<Rightarrow> string \<Rightarrow> ('k, 'c) cp_run" where
  "finish_ready env svc cluster clusterID = do {
     cp \<leftarrow> get_obj;
     let name = cps_ClusterName (cp_Spec cp);
     let failed = (\<lambda>err. do {
           _ \<leftarrow> cp_failed (cpe_lib env) KubeconfigReadyCondition KubeconfigGenerationFailedReason err; return_err err });
     onE (ensureKubeconfigSecret env svc cluster clusterID (name @ ''-kubeconfig'') kubeconfigValidityDays) failed (\<lambda>_. do {
       _ \<leftarrow> cp_status (\<lambda>st. st \<lparr> cpt_KubeconfigSecretName := name @ ''-kubeconfig'' \<rparr>);
       onE (ensureKubeconfigSecret env svc cluster clusterID (name @ ''-user-kubeconfig'') kubeconfigValidityDays) failed (\<lambda>_. do {
         _ \<leftarrow> cp_true (cpe_lib env) KubeconfigReadyCondition ''KubeconfigGenerated'' ''kubeconfig Secrets generated'';
         _ \<leftarrow> cp_status (\<lambda>st. st \<lparr> cpt_Ready := True, cpt_Initialized := True, cpt_ControlPlaneInitialized := True \<rparr>);
         requeue reconciliationPeriod }) }) }"

subsection \<open>reconcileNormal\<close>

text \<open>From the service on.\<close>

definition reconcile_with_service :: "('k, 'c) cp_env \<Rightarrow> ('c, 'z) cp_service_scheme \<Rightarrow> CapiCluster \<Rightarrow>
    string \<Rightarrow> string \<Rightarrow> string \<Rightarrow> string list \<Rightarrow> ('k, 'c) cp_run" where
  "reconcile_with_service env svc cluster vpcID nodeSubnetID identityAgency eniSubnets =
     ensure_cluster env svc vpcID nodeSubnetID identityAgency eniSubnets (\<lambda>clusterID.
     await_available env svc clusterID (\<lambda>info. do {
       _ \<leftarrow> modify_obj (backfill_endpoints (cpe_lib env) (ci_Endpoints info));
       _ \<leftarrow> cp_true (cpe_lib env) CCEClusterReadyCondition ''ClusterAvailable'' ''CCE cluster is available'';
       bind_eip env svc clusterID
         (converge_all env svc clusterID (do {
            upgraded \<leftarrow> reconcileUpgrade (cpe_lib env) svc clusterID info;
            case upgraded of
              Some res \<Rightarrow> State_Monad.return (res, None)
            | None \<Rightarrow> finish_ready env svc cluster clusterID })) }))"

definition reconcileNormal :: "('k, 'c) cp_env \<Rightarrow> CapiCluster \<Rightarrow> ('k, 'c) cp_run" where
  "reconcileNormal env cluster = (let lib = cpe_lib env in do {
     cp \<leftarrow> get_obj;
     if cps_ClusterName (cp_Spec cp) \<noteq> ccl_Name cluster then do {
       _ \<leftarrow> cp_false lib CCEClusterReadyCondition CCEClusterNameMismatchReason
         (msgf [''spec.clusterName '', cps_ClusterName (cp_Spec cp), '' must equal the owning Cluster name '', ccl_Name cluster]);
       done_ok }
     else if ccl_InfrastructureProvisioned cluster \<noteq> Some True then do {
       _ \<leftarrow> cp_false lib CCEClusterReadyCondition WaitingForClusterInfrastructureReason '''';
       requeue defaultRequeue }
     else do {
       _ \<leftarrow> modify_obj (\<lambda>cp. cp \<lparr> cp_Finalizers := lib_AddFinalizer lib (cp_Finalizers cp) ControlPlaneFinalizer \<rparr>);
       onE (in_kube (clusterNetwork (cpe_kube env) cluster cp))
         (\<lambda>err. do { _ \<leftarrow> cp_failed lib CCEClusterReadyCondition CCEClusterNotFoundReason err; return_err err })
         (\<lambda>(region, vpcID, nodeSubnetID, eniSubnets).
       onE (in_kube (resolveControlPlaneCredentials (cpe_kube env) (cpe_scope env) cp))
         (\<lambda>err. do { _ \<leftarrow> cp_failed lib CredentialsReadyCondition CredentialsResolutionFailedReason err; return_err err })
         (\<lambda>(creds, identityAgency). do {
            _ \<leftarrow> cp_true lib CredentialsReadyCondition ''CredentialsResolved'' ''CCE credentials resolved'';
            onE (ensure_agency env region creds identityAgency) return_err (\<lambda>_.
            onE (cp_service_for env region creds identityAgency)
              (\<lambda>err. do { _ \<leftarrow> cp_failed lib CredentialsReadyCondition CredentialsResolutionFailedReason err; return_err err })
              (\<lambda>svc. reconcile_with_service env svc cluster vpcID nodeSubnetID identityAgency eniSubnets)) })) } })"


subsection \<open>reconcileDelete\<close>

definition delete_input :: "string \<Rightarrow> DeleteClusterInput" where
  "delete_input clusterID = \<lparr> dci_ClusterID = clusterID, dci_DeleteEVS = True, dci_DeleteENI = True,
     dci_DeleteELB = True, dci_OnDemandNodePolicy = ''delete'', dci_PeriodicNodePolicy = ''reset'' \<rparr>"

definition cp_after_delete_error :: "go_error \<Rightarrow> ('k, 'c) cp_run" where
  "cp_after_delete_error err = do { cp \<leftarrow> get_obj; with_backoff (resultAfterErrorForDelete (cp_key cp) err) }"

text \<open>\<open>time.Now().Unix()/60\<close>, with the truncating division of Go (the clock is past the epoch).\<close>

definition bumpDeletePollAnnotation :: "('k, 'c) cp_env \<Rightarrow> (('k, 'c, CCEManagedControlPlane) rstate, unit) go" where
  "bumpDeletePollAnnotation env = do {
     orig \<leftarrow> get_obj;
     let cp = orig \<lparr> cp_Annotations := AList.update controlPlaneDeletePollAnnotation
        (itoa (cpe_now env div 60000000000)) (cp_Annotations orig) \<rparr>;
     tryE (wrapE ''failed to bump control-plane delete poll annotation''
        (in_kube (kb_PatchControlPlane (cpe_kube env) orig cp)))
       (\<lambda>cp'. do { _ \<leftarrow> modify_obj (\<lambda>_. cp'); ok () }) }"

text \<open>The cluster part: go on only when there is no cluster (any more).\<close>

definition delete_cluster_part :: "('k, 'c) cp_env \<Rightarrow> ('c, 'z) cp_service_scheme \<Rightarrow> ('k, 'c) cp_run \<Rightarrow> ('k, 'c) cp_run" where
  "delete_cluster_part env svc k = do {
     cp \<leftarrow> get_obj;
     let clusterID = cpt_ClusterID (cp_Status cp);
     if clusterID = '''' then k
     else onE (in_cloud (svc_ShowCluster svc clusterID))
       (\<lambda>err. if \<not> IsNotFound err
          then cp_after_delete_error (WrapErr ''failed to check CCE cluster before deletion'' err)
          else k)
       (\<lambda>info. let poll = bumpDeletePollAnnotation env; waiting = onE poll return_err (\<lambda>_. requeue defaultRequeue) in
          if ci_Phase info = ''Deleting'' \<and> get_str (cp_Annotations cp) controlPlaneDeletePollAnnotation \<noteq> ''''
          then waiting
          else onE (in_cloud (svc_DeleteCluster svc (delete_input clusterID)))
            (\<lambda>err. if IsNotFound err then waiting
               else cp_after_delete_error (WrapErr ''failed to delete CCE cluster'' err))
            (\<lambda>_. waiting)) }"

definition release_eip :: "('c, 'z) cp_service_scheme \<Rightarrow> ('k, 'c) cp_run \<Rightarrow> ('k, 'c) cp_run" where
  "release_eip svc k = do {
     cp \<leftarrow> get_obj;
     if cpt_ControlPlaneEIPID (cp_Status cp) = '''' then k
     else onE (in_cloud (svc_UnbindClusterEip svc (cpt_ClusterID (cp_Status cp)) (cpt_ControlPlaneEIPID (cp_Status cp))))
       cp_after_delete_error
       (\<lambda>_. do { _ \<leftarrow> cp_status (\<lambda>st. st \<lparr> cpt_ControlPlaneEIPID := '''' \<rparr>); k }) }"

text \<open>The kubeconfig Secrets: only owned ones, a missing one is fine.\<close>

definition delete_secret :: "('k, 'c) cp_env \<Rightarrow> CCEManagedControlPlane \<Rightarrow> CapiCluster \<Rightarrow> string \<Rightarrow> ('k, unit) go" where
  "delete_secret env cp cluster name =
     (if name = '''' then ok ()
      else do {
        r \<leftarrow> kb_GetSecret (cpe_kube env) (cp_Namespace cp, name);
        case r of
          Inl _ \<Rightarrow> ok ()
        | Inr secret \<Rightarrow>
            if \<not> lib_IsControlledBy (cpe_lib env) (sec_OwnerReferences secret) (cp_UID cp) \<and>
               get_str (sec_Labels secret) ClusterNameLabel \<noteq> ccl_Name cluster
            then ok ()
            else do {
              d \<leftarrow> kb_DeleteSecret (cpe_kube env) secret;
              case d of Inl err \<Rightarrow> if is_kube KubeNotFound err then ok () else fail err | Inr _ \<Rightarrow> ok () } })"

definition release_control_plane :: "('k, 'c) cp_env \<Rightarrow> CapiCluster \<Rightarrow> ('k, 'c) cp_run" where
  "release_control_plane env cluster = do {
     cp \<leftarrow> get_obj;
     onE (in_kube (forE (delete_secret env cp cluster)
            [cpt_KubeconfigSecretName (cp_Status cp), cps_ClusterName (cp_Spec cp) @ ''-user-kubeconfig'']))
       return_err
       (\<lambda>_. do {
          _ \<leftarrow> modify_obj (\<lambda>cp. cp \<lparr> cp_Finalizers := lib_RemoveFinalizer (cpe_lib env) (cp_Finalizers cp) ControlPlaneFinalizer \<rparr>);
          cp' \<leftarrow> get_obj;
          onE (in_kube (kb_UpdateControlPlane (cpe_kube env) cp')) return_err
            (\<lambda>cp''. do { _ \<leftarrow> modify_obj (\<lambda>_. cp''); done_ok }) }) }"

definition delete_with_service :: "('k, 'c) cp_env \<Rightarrow> ('c, 'z) cp_service_scheme \<Rightarrow> CapiCluster \<Rightarrow> ('k, 'c) cp_run" where
  "delete_with_service env svc cluster =
     delete_cluster_part env svc (release_eip svc (release_control_plane env cluster))"

definition reconcileDelete :: "('k, 'c) cp_env \<Rightarrow> CapiCluster \<Rightarrow> ('k, 'c) cp_run" where
  "reconcileDelete env cluster = do {
     cp \<leftarrow> get_obj;
     onE (in_kube (clusterNetwork (cpe_kube env) cluster cp)) return_err (\<lambda>(region, _, _, _).
     onE (in_kube (resolveControlPlaneCredentials (cpe_kube env) (cpe_scope env) cp)) return_err (\<lambda>(creds, identityAgency).
     onE (cp_service_for env region creds identityAgency) return_err (\<lambda>svc.
       delete_with_service env svc cluster))) }"

subsection \<open>Reconcile\<close>

text \<open>After \<open>reconcileNormal\<close>: a spec change that arrived meanwhile is requeued, unless the pass ended in a
  tuned backoff. The generation and the observed generation are those at the start.\<close>

definition requeue_behind :: "NamespacedName \<Rightarrow> int \<Rightarrow> int \<Rightarrow> (('k, 'c, 'o) rstate, reconcile_result) state \<Rightarrow>
    (('k, 'c, 'o) rstate, reconcile_result) state" where
  "requeue_behind key observed generation m = do {
     before \<leftarrow> with_backoff (\<lambda>b. (failures b key, b));
     r \<leftarrow> m;
     case snd r of
       Some err \<Rightarrow> State_Monad.return (noRequeue, Some err)
     | None \<Rightarrow> do {
         n \<leftarrow> with_backoff (\<lambda>b. (failures b key, b));
         if \<not> (n \<noteq> before \<or> RequeueAfter (fst r) = permissionBackoff) \<and> observed < generation
         then requeue defaultRequeue
         else State_Monad.return r } }"

text \<open>\<open>NewCCEManagedControlPlaneScope\<close> can only fail in the patch helper, which is part of the client.\<close>

definition cp_Reconcile :: "('k, 'c) cp_env \<Rightarrow> NamespacedName \<Rightarrow> ('k, 'c) cp_run" where
  "cp_Reconcile env req = reset_when_clean req (do {
     r \<leftarrow> in_kube (kb_GetControlPlane (cpe_kube env) req);
     case r of
       Inl err \<Rightarrow> if is_kube KubeNotFound err then done_ok else return_err err
     | Inr cp \<Rightarrow> do {
         _ \<leftarrow> modify_obj (\<lambda>_. cp);
         onE (in_kube (wrapE (msgf [''failed to get owner cluster of control plane '', snd req])
                (kb_OwnerClusterOfControlPlane (cpe_kube env) cp))) return_err (\<lambda>owner.
           if cp_Deleting cp then
             (case owner of None \<Rightarrow> requeue reconciliationPeriod | Some cluster \<Rightarrow> reconcileDelete env cluster)
           else
             (case owner of
                None \<Rightarrow> done_ok
              | Some cluster \<Rightarrow> close_scope (kb_CloseControlPlane (cpe_kube env)) cp
                  (requeue_behind req (cpt_ObservedGeneration (cp_Status cp)) (cp_Generation cp)
                     (reconcileNormal env cluster)))) } })"

text \<open>\<open>credentialsSecretToControlPlane\<close>: the requests a change of a credentials Secret causes.\<close>

definition credentialsSecretToControlPlane :: "'k kube_client \<Rightarrow> Secret \<Rightarrow> ('k, NamespacedName list) state" where
  "credentialsSecretToControlPlane c secret =
     (if \<not> has_suffix (sec_Name secret) ''-credentials'' then State_Monad.return []
      else do {
        r \<leftarrow> kb_ListControlPlanes c (take (length (sec_Name secret) - length ''-credentials'') (sec_Name secret));
        State_Monad.return (case r of Inl _ \<Rightarrow> [] | Inr cps \<Rightarrow> map cp_key cps) })"


section \<open>The finalizer holds until the cloud resources are gone\<close>

lemma wp_ShowCluster_fst:
  "wp (ShowCluster s cid) Q tr = Q (fst (run_state (ShowCluster s cid) tr)) (tr @ [CceReq (ShowClusterReq cid)])"
  by (auto simp: wp_run ShowCluster_def tryE_def wrapE_def ok_def fail_def split: sum.splits)

text \<open>Within the history \<open>w\<close> the cluster was looked up and reported missing; the EIP was released.\<close>

definition seen_gone :: "Client \<Rightarrow> string \<Rightarrow> history \<Rightarrow> bool" where
  "seen_gone s cid w \<longleftrightarrow> (\<exists>pre post err. w = pre @ CceReq (ShowClusterReq cid) # post \<and>
     fst (run_state (ShowCluster s cid) pre) = Inl err \<and> IsNotFound err)"

definition seen_released :: "Client \<Rightarrow> string \<Rightarrow> string \<Rightarrow> history \<Rightarrow> bool" where
  "seen_released s cid eip w \<longleftrightarrow> (\<exists>pre post. w = pre @ post \<and>
     snd (run_state (UnbindClusterEip s cid eip) pre) = w \<and> fst (run_state (UnbindClusterEip s cid eip) pre) = Inr ())"

lemma seen_gone_mono: "seen_gone s cid w \<Longrightarrow> seen_gone s cid (w @ z)"
  unfolding seen_gone_def by (metis append.assoc append_Cons)

lemma Unbind_extends: "\<exists>z. snd (run_state (UnbindClusterEip s cid eip) tr) = tr @ z"
proof -
  have "sends (\<lambda>_. True) (UnbindClusterEip s cid eip)"
    by (auto simp: UnbindClusterEip_def hw_DeletePublicip_def intro!: sends_intros)
  then show ?thesis using sendsD[of "\<lambda>_. True" _ tr] by (auto simp: extends_def)
qed

lemma cloud_untouched:
  "keeps (\<lambda>st. rs_cloud st = c) (in_kube m)" "keeps (\<lambda>st. rs_cloud st = c) (modify_obj f)"
  by (auto simp: keeps_def wp_def in_kube_def modify_obj_def split: prod.splits)

lemma wp_release_control_plane:
  "wp (release_control_plane env cluster) (\<lambda>_ st'. rs_cloud st' = rs_cloud st) st"
proof -
  have "keeps (\<lambda>st'. rs_cloud st' = rs_cloud st) (release_control_plane env cluster)"
    unfolding release_control_plane_def by (intro keeps_bind keeps_onE keeps_results keeps_get_obj cloud_untouched)
  then show ?thesis by (rule keeps_wp) simp
qed

text \<open>The hypothesis about the Kubernetes client: the object a patch returns has the finalizers it was sent.\<close>

definition patch_keeps_finalizers :: "'k kube_client \<Rightarrow> bool" where
  "patch_keeps_finalizers c \<longleftrightarrow> (\<forall>orig cp k cp' k'. run_state (kb_PatchControlPlane c orig cp) k = (Inr cp', k') \<longrightarrow>
     cp_Finalizers cp' = cp_Finalizers cp)"

definition safe_release :: "Client \<Rightarrow> CCEManagedControlPlane \<Rightarrow> ('k, history, CCEManagedControlPlane) rstate \<Rightarrow> bool" where
  "safe_release s cp st \<longleftrightarrow> ControlPlaneFinalizer \<in> set (cp_Finalizers (rs_obj st)) \<or>
     ((cpt_ClusterID (cp_Status cp) = [] \<or> seen_gone s (cpt_ClusterID (cp_Status cp)) (rs_cloud st)) \<and>
      (cpt_ControlPlaneEIPID (cp_Status cp) = [] \<or>
         seen_released s (cpt_ClusterID (cp_Status cp)) (cpt_ControlPlaneEIPID (cp_Status cp)) (rs_cloud st)))"

lemma release_eip_safe:
  assumes "rs_obj st = cp" "ControlPlaneFinalizer \<in> set (cp_Finalizers cp)"
    and "cpt_ClusterID (cp_Status cp) = [] \<or> seen_gone s (cpt_ClusterID (cp_Status cp)) (rs_cloud st)"
  shows "wp (release_eip (client_service fuel cd s) (release_control_plane env cluster)) (\<lambda>_. safe_release s cp) st"
proof (cases "cpt_ControlPlaneEIPID (cp_Status cp) = []")
  case True
  then show ?thesis
    using assms by (auto simp: release_eip_def wp_simps safe_release_def intro!: wp_mono[OF wp_release_control_plane])
next
  case False
  let ?run = "run_state (UnbindClusterEip s (cpt_ClusterID (cp_Status cp)) (cpt_ControlPlaneEIPID (cp_Status cp))) (rs_cloud st)"
  obtain z where z: "snd ?run = rs_cloud st @ z" using Unbind_extends by blast
  show ?thesis
  proof (cases "fst ?run")
    case (Inl err)
    then show ?thesis
      using False assms
      by (auto simp: release_eip_def wp_simps wp_run[of "UnbindClusterEip _ _ _"] safe_release_def cp_after_delete_error_def)
  next
    case (Inr u)
    then have "seen_released s (cpt_ClusterID (cp_Status cp)) (cpt_ControlPlaneEIPID (cp_Status cp)) (rs_cloud st @ z)"
      using z unfolding seen_released_def by (intro exI[of _ "rs_cloud st"] exI[of _ z]) simp
    then show ?thesis
      using False assms Inr z seen_gone_mono
      by (auto simp: release_eip_def wp_simps wp_run[of "UnbindClusterEip _ _ _"] safe_release_def
          intro!: wp_mono[OF wp_release_control_plane])
  qed
qed

lemma poll_keeps:
  assumes "patch_keeps_finalizers (cpe_kube env)" "ControlPlaneFinalizer \<in> set (cp_Finalizers (rs_obj st))"
  shows "wp (onE (bumpDeletePollAnnotation env) return_err (\<lambda>_. requeue d))
    (\<lambda>_ st'. ControlPlaneFinalizer \<in> set (cp_Finalizers (rs_obj st'))) st"
proof -
  let ?cp = "rs_obj st \<lparr> cp_Annotations := AList.update controlPlaneDeletePollAnnotation
        (itoa (cpe_now env div 60000000000)) (cp_Annotations (rs_obj st)) \<rparr>"
  have "cp_Finalizers cp' = cp_Finalizers (rs_obj st)"
    if "fst (run_state (kb_PatchControlPlane (cpe_kube env) (rs_obj st) ?cp) (rs_kube st)) = Inr cp'" for cp'
  proof -
    let ?run = "run_state (kb_PatchControlPlane (cpe_kube env) (rs_obj st) ?cp) (rs_kube st)"
    have "?run = (Inr cp', snd ?run)" using that by (simp add: prod_eq_iff)
    then have "cp_Finalizers cp' = cp_Finalizers ?cp"
      using assms(1) unfolding patch_keeps_finalizers_def by blast
    then show ?thesis by simp
  qed
  then show ?thesis
    using assms(2)
    by (simp add: bumpDeletePollAnnotation_def wp_simps Let_def wp_run[of "kb_PatchControlPlane _ _ _"] split: sum.splits)
qed

lemma delete_with_service_safe:
  assumes "patch_keeps_finalizers (cpe_kube env)" "ControlPlaneFinalizer \<in> set (cp_Finalizers (rs_obj st))"
  shows "wp (delete_with_service env (client_service fuel cd s) cluster) (\<lambda>_. safe_release s (rs_obj st)) st"
proof (cases "cpt_ClusterID (cp_Status (rs_obj st)) = []")
  case True
  then show ?thesis
    using release_eip_safe[of st "rs_obj st" s fuel cd env cluster] assms(2)
    by (simp add: delete_with_service_def delete_cluster_part_def wp_simps Let_def)
next
  case False
  let ?cid = "cpt_ClusterID (cp_Status (rs_obj st))" and ?svc = "client_service fuel cd s"
  let ?q = "CceReq (ShowClusterReq ?cid)"
  let ?st1 = "st \<lparr> rs_cloud := rs_cloud st @ [?q] \<rparr>"
  let ?k = "release_eip ?svc (release_control_plane env cluster)"
  have wait: "wp (onE (bumpDeletePollAnnotation env) return_err (\<lambda>_. requeue d)) (\<lambda>_. safe_release s (rs_obj st)) st'"
    if "rs_obj st' = rs_obj st" for st' :: "('a, history, CCEManagedControlPlane) rstate" and d
    using poll_keeps[OF assms(1), of st' d] assms(2) that by (auto simp: safe_release_def elim!: wp_mono)
  have err: "wp (cp_after_delete_error e) (\<lambda>_. safe_release s (rs_obj st)) st'"
    if "rs_obj st' = rs_obj st" for st' :: "('a, history, CCEManagedControlPlane) rstate" and e
    using assms(2) that by (simp add: cp_after_delete_error_def wp_simps safe_release_def)
  show ?thesis
  proof (cases "fst (run_state (ShowCluster s ?cid) (rs_cloud st))")
    case (Inl e)
    have "wp ?k (\<lambda>_. safe_release s (rs_obj st)) ?st1" if "IsNotFound e"
    proof (rule release_eip_safe)
      have "seen_gone s ?cid (rs_cloud st @ [?q])"
        using Inl that unfolding seen_gone_def by blast
      then show "?cid = [] \<or> seen_gone s ?cid (rs_cloud ?st1)" by simp
    qed (use assms(2) in simp_all)
    then show ?thesis
      using False Inl err
      by (simp add: delete_with_service_def delete_cluster_part_def wp_simps Let_def wp_ShowCluster_fst del: wp_ShowCluster)
  next
    case (Inr info)
    then show ?thesis
      using False err wait
      by (simp add: delete_with_service_def delete_cluster_part_def wp_get_obj wp_bind wp_in_cloud wp_onE wp_if Let_def
          wp_ShowCluster_fst wp_run[of "DeleteCluster _ _"] split: sum.splits)
  qed
qed

text \<open>C3: The control plane object outlives its cloud resources. A deletion pass over the SDK-backed service
  removes the finalizer only when no cluster ID is recorded or the platform answered NotFound for the recorded
  cluster during the pass, and only after the recorded public IP, if any, was released successfully. (A patch
  returns an object with the finalizers it was sent.)\<close>

theorem finalizer_removed_only_when_gone:
  assumes "cpe_ServiceFactory env = (\<lambda>_ _. Inr (client_service fuel cd s))"
    and "patch_keeps_finalizers (cpe_kube env)"
    and "ControlPlaneFinalizer \<in> set (cp_Finalizers (rs_obj st))"
    and "run_state (reconcileDelete env cluster) st = (r, st')"
    and "ControlPlaneFinalizer \<notin> set (cp_Finalizers (rs_obj st'))"
  shows "(cpt_ClusterID (cp_Status (rs_obj st)) = [] \<or> seen_gone s (cpt_ClusterID (cp_Status (rs_obj st))) (rs_cloud st')) \<and>
    (cpt_ControlPlaneEIPID (cp_Status (rs_obj st)) = [] \<or>
       seen_released s (cpt_ClusterID (cp_Status (rs_obj st))) (cpt_ControlPlaneEIPID (cp_Status (rs_obj st))) (rs_cloud st'))"
proof -
  have safe: "safe_release s (rs_obj st) st1" if "rs_obj st1 = rs_obj st" for st1 :: "('a, history, CCEManagedControlPlane) rstate"
    using that assms(3) by (simp add: safe_release_def)
  have "wp (reconcileDelete env cluster) (\<lambda>_. safe_release s (rs_obj st)) st"
    unfolding reconcileDelete_def cp_service_for_def
    using assms(1)
    by (auto simp: wp_simps wp_run[of "clusterNetwork _ _ _"] wp_run[of "resolveControlPlaneCredentials _ _ _"]
        wp_run[of "Resolve _ _ _ _ _"] safe split: sum.splits prod.splits
        intro!: wp_mono[OF delete_with_service_safe[OF assms(2), of _ fuel cd s cluster]] simp: assms(3))
  then show ?thesis
    using assms(4,5) by (simp add: wp_run safe_release_def)
qed


text \<open>A deletion whose cluster is already gone and whose public IP is still recorded.\<close>

definition example_network_spec :: NetworkSpec where
  "example_network_spec = \<lparr> ns_VPC = \<lparr> vpc_ID = ''vpc-1'', vpc_Name = '''', vpc_CIDR = '''', vpc_ResourceID = '''',
       vpc_Description = '''', vpc_Tags = [] \<rparr>,
     ns_Subnets = [\<lparr> sub_ID = ''sn-1'', sub_Name = '''', sub_CIDR = '''', sub_AvailabilityZone = '''', sub_Type = ''node'',
       sub_NeutronSubnetID = '''', sub_ResourceID = '''' \<rparr>],
     ns_NatGateway = None, ns_SecurityGroup = None \<rparr>"

definition example_cce_cluster :: CCECluster where
  "example_cce_cluster = \<lparr> ic_Name = ''demo'', ic_Namespace = ''default'', ic_Annotations = [], ic_Finalizers = [],
     ic_Deleting = False, ic_Spec = \<lparr> ics_Region = ''cn-north-4'', ics_Network = example_network_spec \<rparr>,
     ic_Status = \<lparr> ict_Ready = False, ict_Provisioned = False, ict_ClusterID = '''', ict_Conditions = [] \<rparr> \<rparr>"

definition example_kube :: "unit kube_client" where
  "example_kube = identity_kube \<lparr> kb_GetCCECluster := (\<lambda>_. ok example_cce_cluster) \<rparr>"

definition example_capi_cluster :: CapiCluster where
  "example_capi_cluster = \<lparr> ccl_Name = ''demo'', ccl_Paused = None, ccl_InfrastructureRefName = ''demo'',
     ccl_ControlPlaneRefName = ''demo-cp'', ccl_InfrastructureProvisioned = Some True \<rparr>"

definition example_cp_env :: "cloud \<Rightarrow> (unit, history) cp_env" where
  "example_cp_env c = \<lparr> cpe_kube = example_kube, cpe_scope = example_env, cpe_lib = example_lib, cpe_provider = None,
     cpe_ServiceFactory = (\<lambda>_ _. Inr (client_service 1 example_codec (example_client c))),
     cpe_IAMServiceFactory = (\<lambda>_ _. Inl (PlainErr ''no IAM'')), cpe_unmarshal = (\<lambda>_. Inr ''5.0''),
     cpe_visit = (\<lambda>m. m), cpe_codec = example_codec, cpe_pem = (\<lambda>_. None), cpe_not_after = (\<lambda>_. None), cpe_now = 0 \<rparr>"

definition deleting_state :: "(unit, history, CCEManagedControlPlane) rstate" where
  "deleting_state = \<lparr> rs_kube = (), rs_cloud = [], rs_backoff = newBackoffTracker,
     rs_obj = example_cp \<lparr> cp_Finalizers := [ControlPlaneFinalizer],
       cp_Status := example_cp_status \<lparr> cpt_ControlPlaneEIPID := ''eip-1'' \<rparr> \<rparr> \<rparr>"

lemma finalizer_removed_only_when_gone_witness:
  "seen_gone (example_client empty_cloud) ''c1''
       (rs_cloud (snd (run_state (reconcileDelete (example_cp_env empty_cloud) example_capi_cluster) deleting_state))) \<and>
   seen_released (example_client empty_cloud) ''c1'' ''eip-1''
       (rs_cloud (snd (run_state (reconcileDelete (example_cp_env empty_cloud) example_capi_cluster) deleting_state)))"
proof -
  let ?m = "reconcileDelete (example_cp_env empty_cloud) example_capi_cluster"
  have patch: "patch_keeps_finalizers (cpe_kube (example_cp_env empty_cloud))"
    by (simp add: patch_keeps_finalizers_def example_cp_env_def example_kube_def identity_kube_def empty_kube_def ok_def)
  have "wp ?m (\<lambda>_ st'. ControlPlaneFinalizer \<notin> set (cp_Finalizers (rs_obj st'))) deleting_state"
    by (simp add: reconcileDelete_def wp_simps example_cp_env_def deleting_state_def example_capi_cluster_def clusterNetwork_def
        example_kube_def identity_kube_def empty_kube_def example_cce_cluster_def example_network_spec_def SubnetTypeENI_def
        resolveControlPlaneCredentials_def ResolveCredentials_def example_cp_def example_cp_spec_def example_cp_status_def
        get_str_def Let_def cp_service_for_def Resolve_def delete_with_service_def delete_cluster_part_def
        empty_cloud_def example_client_def IsNotFound_def release_eip_def UnbindClusterEip_def hw_DeletePublicip_def
        release_control_plane_def delete_secret_def example_lib_def missing_def ClusterNameLabel_def)
  then show ?thesis
    using finalizer_removed_only_when_gone[of "example_cp_env empty_cloud" 1 example_codec "example_client empty_cloud"
        deleting_state example_capi_cluster "fst (run_state ?m deleting_state)" "snd (run_state ?m deleting_state)"] patch
    by (simp add: wp_run example_cp_env_def deleting_state_def example_cp_def example_cp_status_def)
qed

end
