(* ===== verification/ClusterController.thy ===== *)
theory ClusterController
  imports CpReconcile NetValidator NetTeardown
begin

text \<open>
  \<open>controllers/ccecluster_controller.go\<close>: the reconciler of the \<open>CCECluster\<close> shell, which creates (or only
  checks) the network, reports the infrastructure as provisioned, and on deletion tears a managed network
  down after the control plane is gone. \<open>ManagerInterface\<close> of \<open>internal/services/network/manager.go\<close> is a
  record of operations; \<open>network_manager\<close> is the SDK-backed one.
\<close>

section \<open>The network services\<close>

record ('c, 'm) manager_interface =
  mi_SetAdditionalTags :: "'m \<Rightarrow> (string, string) gomap \<Rightarrow> 'm"
  mi_ReconcileVpc :: "'m \<Rightarrow> NetworkSpec \<Rightarrow> string \<Rightarrow> ('c, NetworkSpec \<times> go_error option) state"
  mi_ReconcileSubnets :: "'m \<Rightarrow> NetworkSpec \<Rightarrow> string \<Rightarrow> ('c, NetworkSpec \<times> go_error option) state"
  mi_ReconcileNatGateway :: "'m \<Rightarrow> NetworkSpec \<Rightarrow> string \<Rightarrow> ('c, NetworkSpec \<times> go_error option) state"
  mi_ReconcileSecurityGroup :: "'m \<Rightarrow> NetworkSpec \<Rightarrow> string \<Rightarrow> ('c, NetworkSpec \<times> go_error option) state"
  mi_DeleteNetwork :: "'m \<Rightarrow> NetworkSpec \<Rightarrow> string \<Rightarrow> ('c, go_error option) state"

definition network_manager :: "(history, Manager) manager_interface" where
  "network_manager = \<lparr>
     mi_SetAdditionalTags = SetAdditionalTags,
     mi_ReconcileVpc = ReconcileVpc,
     mi_ReconcileSubnets = ReconcileSubnets,
     mi_ReconcileNatGateway = ReconcileNatGateway,
     mi_ReconcileSecurityGroup = ReconcileSecurityGroup,
     mi_DeleteNetwork = DeleteNetwork \<rparr>"

text \<open>The reconciler: the clients and factories. A validator is its \<open>Validate\<close> method.\<close>

record ('k, 'c, 'm) cluster_env =
  cle_kube :: "'k kube_client"
  cle_scope :: scope_env
  cle_lib :: library
  cle_provider :: "'c provider option"
  cle_manager :: "('c, 'm) manager_interface"
  cle_NetworkServiceFactory :: "string \<Rightarrow> CloudCredentials \<Rightarrow> go_error + 'm"
  cle_NetworkValidatorFactory :: "string \<Rightarrow> CloudCredentials \<Rightarrow> go_error + (ValidateInput \<Rightarrow> ('c, Issue list) go)"

section \<open>Definitions\<close>

definition CCEClusterFinalizer :: string where
  "CCEClusterFinalizer = ''ccecluster.infrastructure.cluster.x-k8s.io''"

text \<open>\<open>clusterv1.ReadyCondition\<close>.\<close>

definition ReadyCondition :: string where "ReadyCondition = ''Ready''"

type_synonym ('k, 'c) cluster_run = "(('k, 'c, CCECluster) rstate, reconcile_result) state"

definition ic_key :: "CCECluster \<Rightarrow> NamespacedName" where
  "ic_key ic = (ic_Namespace ic, ic_Name ic)"

definition ic_status :: "(CCEClusterStatus \<Rightarrow> CCEClusterStatus) \<Rightarrow> (('k, 'c, CCECluster) rstate, unit) state" where
  "ic_status f = modify_obj (\<lambda>ic. ic \<lparr> ic_Status := f (ic_Status ic) \<rparr>)"

definition ic_true :: "library \<Rightarrow> string \<Rightarrow> string \<Rightarrow> string \<Rightarrow> (('k, 'c, CCECluster) rstate, unit) state" where
  "ic_true lib ty reason message =
     ic_status (\<lambda>st. st \<lparr> ict_Conditions := MarkTrue lib ty reason message (ict_Conditions st) \<rparr>)"

definition ic_false :: "library \<Rightarrow> string \<Rightarrow> string \<Rightarrow> string \<Rightarrow> (('k, 'c, CCECluster) rstate, unit) state" where
  "ic_false lib ty reason message =
     ic_status (\<lambda>st. st \<lparr> ict_Conditions := MarkFalse lib ty reason message (ict_Conditions st) \<rparr>)"

definition effectiveVPCID :: "CCECluster \<Rightarrow> string" where
  "effectiveVPCID ic = (let vpc = ns_VPC (ics_Network (ic_Spec ic)) in
     if vpc_ID vpc \<noteq> '''' then vpc_ID vpc else vpc_ResourceID vpc)"

definition subnetIDs :: "CCECluster \<Rightarrow> string list" where
  "subnetIDs ic = filter (\<lambda>i. i \<noteq> '''') (map (\<lambda>s. if sub_ID s = '''' then sub_ResourceID s else sub_ID s)
     (filter (\<lambda>s. sub_Type s \<noteq> SubnetTypeENI) (ns_Subnets (ics_Network (ic_Spec ic)))))"

definition errStr :: "library \<Rightarrow> go_error option \<Rightarrow> string" where
  "errStr lib err = (case err of None \<Rightarrow> ''none'' | Some e \<Rightarrow> lib_ErrorText lib e)"

text \<open>The control plane's chain when its object can be read, else the Secret named after the cluster.\<close>

definition resolveClusterCredentials :: "('k, 'c, 'm) cluster_env \<Rightarrow> CapiCluster \<Rightarrow> CCECluster \<Rightarrow>
    ('k, Credentials \<times> string) go" where
  "resolveClusterCredentials env cluster ic = (let
     own = tryE (ResolveCredentials (cle_kube env) (cle_scope env) (ic_Namespace ic) (ccl_Name cluster @ ''-credentials''))
       (\<lambda>creds. ok (creds, '''')) in
     if ccl_ControlPlaneRefName cluster \<noteq> '''' then do {
       r \<leftarrow> kb_GetControlPlane (cle_kube env) (ic_Namespace ic, ccl_ControlPlaneRefName cluster);
       case r of
         Inr cp \<Rightarrow> resolveControlPlaneCredentials (cle_kube env) (cle_scope env) cp
       | Inl _ \<Rightarrow> own }
     else own)"

subsection \<open>reconcileManagedNetwork\<close>

text \<open>One step: the service changes the network spec in place, also when it returns an error.\<close>

definition network_step :: "library \<Rightarrow> string \<Rightarrow> string \<Rightarrow> string \<Rightarrow>
    (NetworkSpec \<Rightarrow> ('c, NetworkSpec \<times> go_error option) state) \<Rightarrow> (('k, 'c, CCECluster) rstate, unit) go" where
  "network_step lib ty reason message step = do {
     ic \<leftarrow> get_obj;
     r \<leftarrow> in_cloud (step (ics_Network (ic_Spec ic)));
     _ \<leftarrow> modify_obj (\<lambda>ic. ic \<lparr> ic_Spec := (ic_Spec ic) \<lparr> ics_Network := fst r \<rparr> \<rparr>);
     case snd r of
       Some err \<Rightarrow> do {
         _ \<leftarrow> ic_false lib ty NetworkReconciliationFailedReason (lib_ErrorText lib err);
         fail err }
     | None \<Rightarrow> do {
         _ \<leftarrow> ic_true lib ty reason message;
         ok () } }"

definition reconcileManagedNetwork :: "library \<Rightarrow> ('c, 'm) manager_interface \<Rightarrow> string \<Rightarrow> 'm \<Rightarrow>
    (('k, 'c, CCECluster) rstate, unit) go" where
  "reconcileManagedNetwork lib mi clusterName svc =
     tryE (network_step lib VpcReadyCondition ''VpcReconciled'' ''managed VPC reconciled''
             (\<lambda>spec. mi_ReconcileVpc mi svc spec clusterName)) (\<lambda>_.
     tryE (network_step lib SubnetsReadyCondition ''SubnetsReconciled'' ''managed subnets reconciled''
             (\<lambda>spec. mi_ReconcileSubnets mi svc spec clusterName)) (\<lambda>_. do {
     ic \<leftarrow> get_obj;
     tryE (if ns_NatGateway (ics_Network (ic_Spec ic)) \<noteq> None
           then network_step lib NatGatewaysReadyCondition ''NatGatewayReconciled'' ''managed NAT gateway reconciled''
             (\<lambda>spec. mi_ReconcileNatGateway mi svc spec clusterName)
           else ok ()) (\<lambda>_. do {
     ic \<leftarrow> get_obj;
     if ns_SecurityGroup (ics_Network (ic_Spec ic)) \<noteq> None
     then network_step lib SecurityGroupsReadyCondition ''SecurityGroupsReconciled'' ''managed security group reconciled''
       (\<lambda>spec. mi_ReconcileSecurityGroup mi svc spec clusterName)
     else ok () }) }))"


subsection \<open>reconcileNormal\<close>

text \<open>A failure that is reported in the network condition and retried with the tuned backoff.\<close>

definition network_failed :: "('k, 'c, 'm) cluster_env \<Rightarrow> go_error \<Rightarrow> ('k, 'c) cluster_run" where
  "network_failed env err = do {
     ic \<leftarrow> get_obj;
     _ \<leftarrow> ic_false (cle_lib env) NetworkReadyCondition NetworkValidationFailedReason (lib_ErrorText (cle_lib env) err);
     d \<leftarrow> with_backoff (requeueAfterForError (ic_key ic) err);
     requeue d }"

definition find_control_plane :: "('k, 'c, 'm) cluster_env \<Rightarrow> CapiCluster \<Rightarrow> CCECluster \<Rightarrow>
    ('k, CCEManagedControlPlane option) state" where
  "find_control_plane env cluster ic =
     (if ccl_ControlPlaneRefName cluster = '''' then State_Monad.return None
      else do {
        r \<leftarrow> kb_GetControlPlane (cle_kube env) (ic_Namespace ic, ccl_ControlPlaneRefName cluster);
        State_Monad.return (case r of Inl _ \<Rightarrow> None | Inr cp \<Rightarrow> Some cp) })"

text \<open>The managed network, when the spec asks for one.\<close>

definition ensure_network :: "('k, 'c, 'm) cluster_env \<Rightarrow> CapiCluster \<Rightarrow> CCEManagedControlPlane option \<Rightarrow>
    CloudCredentials \<Rightarrow> ('k, 'c) cluster_run \<Rightarrow> ('k, 'c) cluster_run" where
  "ensure_network env cluster cp resolved k = do {
     ic \<leftarrow> get_obj;
     if IsManaged (Some (ics_Network (ic_Spec ic))) (ccl_Name cluster) then
       (case cle_NetworkServiceFactory env (ics_Region (ic_Spec ic)) resolved of
          Inl err \<Rightarrow> network_failed env err
        | Inr svc \<Rightarrow>
            let cpTags = (case cp of Some c \<Rightarrow> cps_AdditionalTags (cp_Spec c) | None \<Rightarrow> []);
                svc' = mi_SetAdditionalTags (cle_manager env) svc cpTags in
            onE (reconcileManagedNetwork (cle_lib env) (cle_manager env) (ccl_Name cluster) svc')
              (network_failed env) (\<lambda>_. k))
     else k }"

text \<open>The validation; only hard findings block.\<close>

definition validate_input :: "CCECluster \<Rightarrow> CCEManagedControlPlane option \<Rightarrow> ValidateInput" where
  "validate_input ic cp = \<lparr>
     vi_VPCID = effectiveVPCID ic,
     vi_SubnetIDs = subnetIDs ic,
     vi_ContainerMode = (case cp of Some c \<Rightarrow> cns_Mode (cps_ContainerNetwork (cp_Spec c)) | None \<Rightarrow> ''''),
     vi_ContainerCIDR = (case cp of Some c \<Rightarrow> cns_CIDR (cps_ContainerNetwork (cp_Spec c)) | None \<Rightarrow> ''''),
     vi_ServiceCIDR = (case cp of Some c \<Rightarrow> sns_CIDR (cps_ServiceNetwork (cp_Spec c)) | None \<Rightarrow> ''''),
     vi_ENISubnetIDs = (case cp of Some c \<Rightarrow> cns_ENISubnets (cps_ContainerNetwork (cp_Spec c)) | None \<Rightarrow> []) \<rparr>"

definition hard_messages :: "Issue list \<Rightarrow> string list" where
  "hard_messages issues = map (\<lambda>i. is_Field i @ '': '' @ is_Message i) (filter (\<lambda>i. \<not> is_Warning i) issues)"

definition validate_network :: "('k, 'c, 'm) cluster_env \<Rightarrow> CCEManagedControlPlane option \<Rightarrow> CloudCredentials \<Rightarrow>
    ('k, 'c) cluster_run \<Rightarrow> ('k, 'c) cluster_run" where
  "validate_network env cp resolved k = do {
     ic \<leftarrow> get_obj;
     case cle_NetworkValidatorFactory env (ics_Region (ic_Spec ic)) resolved of
       Inl err \<Rightarrow> network_failed env err
     | Inr validator \<Rightarrow> onE (in_cloud (validator (validate_input ic cp))) (network_failed env) (\<lambda>issues.
         if hard_messages issues \<noteq> [] then do {
           _ \<leftarrow> ic_false (cle_lib env) NetworkReadyCondition NetworkValidationFailedReason
             (join_with ''; '' (hard_messages issues));
           requeue (seconds 120) }
         else k) }"

definition infrastructure_ready :: "('k, 'c, 'm) cluster_env \<Rightarrow> CCEManagedControlPlane option \<Rightarrow> ('k, 'c) cluster_run" where
  "infrastructure_ready env cp = do {
     _ \<leftarrow> ic_true (cle_lib env) NetworkReadyCondition ''NetworkValidated'' ''network references validated'';
     _ \<leftarrow> ic_true (cle_lib env) ReadyCondition ''InfrastructureReady'' ''CCE infrastructure is ready'';
     _ \<leftarrow> ic_status (\<lambda>st. st \<lparr> ict_Provisioned := True \<rparr>);
     _ \<leftarrow> (case cp of
         Some c \<Rightarrow> if cpt_ClusterID (cp_Status c) \<noteq> ''''
           then ic_status (\<lambda>st. st \<lparr> ict_ClusterID := cpt_ClusterID (cp_Status c) \<rparr>) else State_Monad.return ()
       | None \<Rightarrow> State_Monad.return ());
     _ \<leftarrow> ic_status (\<lambda>st. st \<lparr> ict_Ready := True \<rparr>);
     done_ok }"

text \<open>A resolution without an error yields credentials (\<open>creds != nil\<close>).\<close>

definition ic_reconcileNormal :: "('k, 'c, 'm) cluster_env \<Rightarrow> CapiCluster \<Rightarrow> ('k, 'c) cluster_run" where
  "ic_reconcileNormal env cluster = (let lib = cle_lib env in do {
     _ \<leftarrow> modify_obj (\<lambda>ic. ic \<lparr> ic_Finalizers := lib_AddFinalizer lib (ic_Finalizers ic) CCEClusterFinalizer \<rparr>);
     ic \<leftarrow> get_obj;
     if ics_Region (ic_Spec ic) = '''' then do {
       _ \<leftarrow> ic_false lib NetworkReadyCondition NetworkValidationFailedReason ''spec.region is required'';
       return_err (PlainErr ''spec.region is required'') }
     else onE (in_kube (resolveClusterCredentials env cluster ic))
       (\<lambda>err. do {
          _ \<leftarrow> ic_false lib NetworkReadyCondition NetworkValidationFailedReason (lib_ErrorText lib err);
          requeue defaultRequeue })
       (\<lambda>(creds, agency). do {
          cp \<leftarrow> in_kube (find_control_plane env cluster ic);
          onE (in_cloud (Resolve (cle_provider env) (ics_Region (ic_Spec ic)) agency (crd_AccessKey creds) (crd_SecretKey creds)))
            (network_failed env)
            (\<lambda>resolved. ensure_network env cluster cp resolved
               (validate_network env cp resolved
                 (infrastructure_ready env cp))) }) })"


subsection \<open>reconcileDelete and Reconcile\<close>

definition release_shell :: "('k, 'c, 'm) cluster_env \<Rightarrow> ('k, 'c) cluster_run" where
  "release_shell env = do {
     _ \<leftarrow> modify_obj (\<lambda>ic. ic \<lparr> ic_Finalizers := lib_RemoveFinalizer (cle_lib env) (ic_Finalizers ic) CCEClusterFinalizer \<rparr>);
     done_ok }"

definition delete_network :: "('k, 'c, 'm) cluster_env \<Rightarrow> CapiCluster \<Rightarrow> ('k, 'c) cluster_run \<Rightarrow> ('k, 'c) cluster_run" where
  "delete_network env cluster k = (let lib = cle_lib env in do {
     ic \<leftarrow> get_obj;
     let spec = ics_Network (ic_Spec ic);
     if \<not> (IsManaged (Some spec) (ccl_Name cluster) \<and> vpc_ResourceID (ns_VPC spec) \<noteq> '''') then k
     else onE (in_kube (resolveClusterCredentials env cluster ic))
       (\<lambda>err. do {
          _ \<leftarrow> ic_false lib NetworkReadyCondition NetworkValidationFailedReason
            (''managed network deletion requires credentials: '' @ errStr lib (Some err));
          return_err (PlainErr ''managed network deletion requires credentials'') })
       (\<lambda>(creds, agency).
          onE (in_cloud (Resolve (cle_provider env) (ics_Region (ic_Spec ic)) agency (crd_AccessKey creds) (crd_SecretKey creds)))
            (\<lambda>_. requeue defaultRequeue)
            (\<lambda>resolved. case cle_NetworkServiceFactory env (ics_Region (ic_Spec ic)) resolved of
                Inl _ \<Rightarrow> requeue defaultRequeue
              | Inr svc \<Rightarrow> do {
                  r \<leftarrow> in_cloud (mi_DeleteNetwork (cle_manager env) svc spec (ccl_Name cluster));
                  case r of
                    Some err \<Rightarrow> do {
                      _ \<leftarrow> ic_false lib NetworkReadyCondition NetworkValidationFailedReason (lib_ErrorText lib err);
                      requeue defaultRequeue }
                  | None \<Rightarrow> k })) })"

definition ic_reconcileDelete :: "('k, 'c, 'm) cluster_env \<Rightarrow> CapiCluster \<Rightarrow> ('k, 'c) cluster_run" where
  "ic_reconcileDelete env cluster = do {
     ic \<leftarrow> get_obj;
     if ccl_ControlPlaneRefName cluster \<noteq> '''' then do {
       r \<leftarrow> in_kube (kb_GetControlPlane (cle_kube env) (ic_Namespace ic, ccl_ControlPlaneRefName cluster));
       case r of
         Inr _ \<Rightarrow> requeue defaultRequeue
       | Inl err \<Rightarrow> if is_kube KubeNotFound err then delete_network env cluster (release_shell env)
           else return_err err }
     else delete_network env cluster (release_shell env) }"

definition ic_Reconcile :: "('k, 'c, 'm) cluster_env \<Rightarrow> NamespacedName \<Rightarrow> ('k, 'c) cluster_run" where
  "ic_Reconcile env req = reset_when_clean req (do {
     r \<leftarrow> in_kube (kb_GetCCECluster (cle_kube env) req);
     case r of
       Inl err \<Rightarrow> if is_kube KubeNotFound err then done_ok else return_err err
     | Inr ic \<Rightarrow> do {
         _ \<leftarrow> modify_obj (\<lambda>_. ic);
         onE (in_kube (wrapE (msgf [''failed to get owner cluster of CCECluster '', snd req])
                (kb_OwnerClusterOfCCECluster (cle_kube env) ic))) return_err (\<lambda>owner. case owner of
             None \<Rightarrow> done_ok
           | Some cluster \<Rightarrow> close_scope (kb_CloseCCECluster (cle_kube env)) ic
               (if lib_IsPaused (cle_lib env) (ccl_Paused cluster) (ic_Annotations ic) then done_ok
                else if ic_Deleting ic then ic_reconcileDelete env cluster
                else ic_reconcileNormal env cluster)) } })"


section \<open>The shell outlives its network\<close>

lemma wp_ic_status [wp_simps]:
  "wp (ic_status f) Q s = Q () (s \<lparr> rs_obj := (rs_obj s) \<lparr> ic_Status := f (ic_Status (rs_obj s)) \<rparr> \<rparr>)"
  by (simp add: ic_status_def wp_simps)

lemma wp_ic_mark [wp_simps]:
  "wp (ic_true lib ty r m) Q s = Q () (s \<lparr> rs_obj := (rs_obj s) \<lparr> ic_Status := (ic_Status (rs_obj s)) \<lparr> ict_Conditions :=
      MarkTrue lib ty r m (ict_Conditions (ic_Status (rs_obj s))) \<rparr> \<rparr> \<rparr>)"
  "wp (ic_false lib ty r m) Q s = Q () (s \<lparr> rs_obj := (rs_obj s) \<lparr> ic_Status := (ic_Status (rs_obj s)) \<lparr> ict_Conditions :=
      MarkFalse lib ty r m (ict_Conditions (ic_Status (rs_obj s))) \<rparr> \<rparr> \<rparr>)"
  by (simp_all add: ic_true_def ic_false_def wp_simps)

lemma wp_release_shell [wp_simps]:
  "wp (release_shell env) Q s = Q (noRequeue, None) (s \<lparr> rs_obj := (rs_obj s) \<lparr> ic_Finalizers :=
     lib_RemoveFinalizer (cle_lib env) (ic_Finalizers (rs_obj s)) CCEClusterFinalizer \<rparr> \<rparr>)"
  by (simp add: release_shell_def wp_simps)

lemma managed_not_byo:
  "IsManaged (Some spec) n \<Longrightarrow> \<not> is_byo spec n"
  "IsManaged (Some spec) n \<Longrightarrow> vpc_ResourceID (ns_VPC spec) \<noteq> [] \<Longrightarrow> network_vpc spec \<noteq> []"
  by (auto simp: IsManaged_def is_byo_def network_vpc_def Let_def split: if_splits)

definition network_gone :: "Manager \<Rightarrow> NetworkSpec \<Rightarrow> string \<Rightarrow> history \<Rightarrow> bool" where
  "network_gone m spec n w \<longleftrightarrow> (IsManaged (Some spec) n \<and> vpc_ResourceID (ns_VPC spec) \<noteq> [] \<longrightarrow> nothing_left m spec w)"

lemma delete_network_safe:
  assumes "cle_manager env = network_manager" "cle_NetworkServiceFactory env = (\<lambda>_ _. Inr m)"
    and "CCEClusterFinalizer \<in> set (ic_Finalizers (rs_obj st))"
  shows "wp (delete_network env cluster (release_shell env)) (\<lambda>_ st'. CCEClusterFinalizer \<in> set (ic_Finalizers (rs_obj st')) \<or>
     network_gone m (ics_Network (ic_Spec (rs_obj st))) (ccl_Name cluster) (rs_cloud st')) st"
proof -
  let ?spec = "ics_Network (ic_Spec (rs_obj st))" and ?n = "ccl_Name cluster"
  have gone: "nothing_left m ?spec w" if "IsManaged (Some ?spec) ?n" "vpc_ResourceID (ns_VPC ?spec) \<noteq> []"
      "run_state (DeleteNetwork m ?spec ?n) tr = (None, w)" for tr w
    using wp_DeleteNetwork_gone[OF managed_not_byo(1)[OF that(1)] managed_not_byo(2)[OF that(1,2)], of m tr] that(3)
    by (simp add: wp_run)
  show ?thesis
    using assms gone unfolding network_gone_def
    by (auto simp: delete_network_def wp_simps Let_def network_manager_def wp_run[of "resolveClusterCredentials _ _ _"]
        wp_run[of "Resolve _ _ _ _ _"] wp_run[of "DeleteNetwork _ _ _"] prod_eq_iff split: sum.splits prod.splits option.splits)
qed

text \<open>C15: The CCECluster shell outlives the control plane and the managed network. A deletion pass over the
  SDK-backed network manager removes the shell's finalizer only when the control plane object was reported
  missing (or none is referenced) and, for a managed network with a recorded VPC, when the VPC, every recorded
  subnet, the security group, the NAT gateway and the EIP were each found missing or had their deletion
  accepted in this pass.\<close>

theorem shell_removed_only_when_network_gone:
  assumes "cle_manager env = network_manager" and "cle_NetworkServiceFactory env = (\<lambda>_ _. Inr m)"
    and "CCEClusterFinalizer \<in> set (ic_Finalizers (rs_obj st))"
    and "run_state (ic_reconcileDelete env cluster) st = (r, st')"
    and "CCEClusterFinalizer \<notin> set (ic_Finalizers (rs_obj st'))"
  shows "(ccl_ControlPlaneRefName cluster \<noteq> [] \<longrightarrow> (\<exists>err. is_kube KubeNotFound err \<and>
        fst (run_state (kb_GetControlPlane (cle_kube env) (ic_Namespace (rs_obj st), ccl_ControlPlaneRefName cluster)) (rs_kube st)) = Inl err)) \<and>
    (IsManaged (Some (ics_Network (ic_Spec (rs_obj st)))) (ccl_Name cluster) \<and>
       vpc_ResourceID (ns_VPC (ics_Network (ic_Spec (rs_obj st)))) \<noteq> [] \<longrightarrow>
     nothing_left m (ics_Network (ic_Spec (rs_obj st))) (rs_cloud st'))"
proof -
  let ?get = "run_state (kb_GetControlPlane (cle_kube env) (ic_Namespace (rs_obj st), ccl_ControlPlaneRefName cluster)) (rs_kube st)"
  let ?gone = "\<lambda>st'. network_gone m (ics_Network (ic_Spec (rs_obj st))) (ccl_Name cluster) (rs_cloud st')"
  have "wp (ic_reconcileDelete env cluster) (\<lambda>_ st'. CCEClusterFinalizer \<in> set (ic_Finalizers (rs_obj st')) \<or>
      (ccl_ControlPlaneRefName cluster \<noteq> [] \<longrightarrow> (\<exists>err. is_kube KubeNotFound err \<and> fst ?get = Inl err)) \<and> ?gone st') st"
    unfolding ic_reconcileDelete_def
    using assms(3) delete_network_safe[OF assms(1,2), of _ cluster]
    by (auto simp: wp_simps wp_run[of "kb_GetControlPlane _ _"] split: sum.splits intro!: wp_mono[OF delete_network_safe[OF assms(1,2), of _ cluster]])
  then show ?thesis
    using assms(4,5) by (simp add: wp_run network_gone_def)
qed


text \<open>A managed network, recorded in full, of a cluster whose control plane object is gone.\<close>

definition example_cluster_env :: "unit kube_client \<Rightarrow> cloud \<Rightarrow> (unit, history, Manager) cluster_env" where
  "example_cluster_env kube c = \<lparr> cle_kube = kube, cle_scope = example_env, cle_lib = example_lib, cle_provider = None,
     cle_manager = network_manager, cle_NetworkServiceFactory = (\<lambda>_ _. Inr (example_manager c)),
     cle_NetworkValidatorFactory = (\<lambda>_ _. Inr (Validate (Some c))) \<rparr>"

definition managed_shell :: CCECluster where
  "managed_shell = example_cce_cluster \<lparr> ic_Finalizers := [CCEClusterFinalizer],
     ic_Spec := \<lparr> ics_Region = ''cn-north-4'', ics_Network = example_network \<rparr> \<rparr>"

definition shell_state :: "(unit, history, CCECluster) rstate" where
  "shell_state = \<lparr> rs_kube = (), rs_cloud = [], rs_backoff = newBackoffTracker, rs_obj = managed_shell \<rparr>"

lemma managed_example: "IsManaged (Some example_network) ''demo''" "vpc_ResourceID (ns_VPC example_network) \<noteq> []"
  "fst (run_state (DeleteNetwork (example_manager empty_cloud) example_network ''demo'') []) = None"
  by code_simp+

lemma shell_removed_only_when_network_gone_witness:
  "nothing_left (example_manager empty_cloud) example_network
     (rs_cloud (snd (run_state (ic_reconcileDelete (example_cluster_env identity_kube empty_cloud) example_capi_cluster) shell_state)))"
proof -
  let ?m = "ic_reconcileDelete (example_cluster_env identity_kube empty_cloud) example_capi_cluster"
  have obj: "rs_obj shell_state = managed_shell" "ics_Network (ic_Spec managed_shell) = example_network"
    by (simp_all add: shell_state_def managed_shell_def)
  have "wp ?m (\<lambda>_ st'. CCEClusterFinalizer \<notin> set (ic_Finalizers (rs_obj st'))) shell_state"
    using managed_example
    by (simp add: ic_reconcileDelete_def wp_simps example_cluster_env_def shell_state_def managed_shell_def
        example_capi_cluster_def example_cce_cluster_def identity_kube_def empty_kube_def missing_def delete_network_def Let_def
        resolveClusterCredentials_def ResolveCredentials_def get_str_def Resolve_def network_manager_def
        wp_run[of "DeleteNetwork _ _ _"] example_lib_def)
  then show ?thesis
    using shell_removed_only_when_network_gone[of "example_cluster_env identity_kube empty_cloud" "example_manager empty_cloud"
        shell_state example_capi_cluster "fst (run_state ?m shell_state)" "snd (run_state ?m shell_state)"] managed_example obj
    by (simp add: wp_run example_cluster_env_def managed_shell_def example_capi_cluster_def)
qed

text \<open>C40: The identity of the cluster is lost before the network is torn down. \<open>reconcileDelete\<close> waits until the
  control plane object is gone and only then resolves credentials, through a chain that needs the control plane
  for its identity reference and falls back to the per-cluster Secret. Without that Secret the deletion of a
  managed network fails at every pass, without a request to the cloud, and the finalizer stays.\<close>

theorem network_delete_needs_cluster_secret:
  assumes "ccl_ControlPlaneRefName cluster \<noteq> []"
    and gone: "\<And>k. \<exists>err. is_kube KubeNotFound err \<and> fst (run_state
        (kb_GetControlPlane (cle_kube env) (ic_Namespace (rs_obj st), ccl_ControlPlaneRefName cluster)) k) = Inl err"
    and no_secret: "\<And>k. \<exists>err. fst (run_state
        (kb_GetSecret (cle_kube env) (ic_Namespace (rs_obj st), ccl_Name cluster @ ''-credentials'')) k) = Inl err"
    and "IsManaged (Some (ics_Network (ic_Spec (rs_obj st)))) (ccl_Name cluster)"
    and "vpc_ResourceID (ns_VPC (ics_Network (ic_Spec (rs_obj st)))) \<noteq> []"
  shows "case run_state (ic_reconcileDelete env cluster) st of (r, st') \<Rightarrow>
    r = (noRequeue, Some (PlainErr ''managed network deletion requires credentials'')) \<and>
    rs_cloud st' = rs_cloud st \<and> ic_Finalizers (rs_obj st') = ic_Finalizers (rs_obj st)"
proof -
  have creds: "\<exists>err. fst (run_state (resolveClusterCredentials env cluster (rs_obj st)) k) = Inl err" for k
  proof -
    obtain e1 k1 where 1: "run_state (kb_GetControlPlane (cle_kube env)
        (ic_Namespace (rs_obj st), ccl_ControlPlaneRefName cluster)) k = (Inl e1, k1)"
      using gone[of k] by (metis prod.collapse)
    obtain e2 k2 where "run_state (kb_GetSecret (cle_kube env)
        (ic_Namespace (rs_obj st), ccl_Name cluster @ ''-credentials'')) k1 = (Inl e2, k2)"
      using no_secret[of k1] by (metis prod.collapse)
    then show ?thesis
      using assms(1) 1 by (simp add: resolveClusterCredentials_def ResolveCredentials_def Let_def tryE_def fail_def)
  qed
  obtain e where e: "is_kube KubeNotFound e" "fst (run_state
      (kb_GetControlPlane (cle_kube env) (ic_Namespace (rs_obj st), ccl_ControlPlaneRefName cluster)) (rs_kube st)) = Inl e"
    using gone by blast
  obtain e' where e': "fst (run_state (resolveClusterCredentials env cluster (rs_obj st)) (snd (run_state
      (kb_GetControlPlane (cle_kube env) (ic_Namespace (rs_obj st), ccl_ControlPlaneRefName cluster)) (rs_kube st)))) = Inl e'"
    using creds by blast
  have "wp (ic_reconcileDelete env cluster) (\<lambda>r st'.
      r = (noRequeue, Some (PlainErr ''managed network deletion requires credentials'')) \<and>
      rs_cloud st' = rs_cloud st \<and> ic_Finalizers (rs_obj st') = ic_Finalizers (rs_obj st)) st"
    using assms(1,4,5) e e'
    by (simp add: ic_reconcileDelete_def delete_network_def Let_def wp_simps wp_run[of "kb_GetControlPlane _ _"]
        wp_run[of "resolveClusterCredentials _ _ _"])
  then show ?thesis by (simp add: wp_def)
qed

text \<open>The control plane used a static identity, so the per-cluster Secret never existed: with the control plane
  present the credentials resolve, after its deletion the network cannot be deleted.\<close>

definition no_secret_kube :: "bool \<Rightarrow> unit kube_client" where
  "no_secret_kube present = identity_kube \<lparr>
     kb_GetControlPlane := (\<lambda>_. if present then ok identity_cp else missing),
     kb_GetSecret := (\<lambda>k. if k = (''capi-cce-system'', ''aksk'') then kb_GetSecret identity_kube k else missing) \<rparr>"

lemma network_delete_needs_cluster_secret_witness:
  "fst (run_state (resolveClusterCredentials (example_cluster_env (no_secret_kube True) empty_cloud) example_capi_cluster managed_shell) ()) =
     Inr (\<lparr> crd_AccessKey = ''ak'', crd_SecretKey = ''sk'' \<rparr>, '''') \<and>
   fst (run_state (ic_reconcileDelete (example_cluster_env (no_secret_kube False) empty_cloud) example_capi_cluster) shell_state) =
     (noRequeue, Some (PlainErr ''managed network deletion requires credentials''))"
proof
  show "fst (run_state (resolveClusterCredentials (example_cluster_env (no_secret_kube True) empty_cloud) example_capi_cluster managed_shell) ()) =
     Inr (\<lparr> crd_AccessKey = ''ak'', crd_SecretKey = ''sk'' \<rparr>, '''')"
    by (simp add: resolveClusterCredentials_def example_cluster_env_def no_secret_kube_def example_capi_cluster_def identity_kube_def
        resolveControlPlaneCredentials_def ResolveIdentity_def identity_cp_def example_env_def managed_shell_def
        example_cp_def example_cp_spec_def checkAllowedNamespace_def tryE_def wrapE_def ok_def get_str_def Let_def)
  have "case run_state (ic_reconcileDelete (example_cluster_env (no_secret_kube False) empty_cloud) example_capi_cluster) shell_state of
      (r, st') \<Rightarrow> r = (noRequeue, Some (PlainErr ''managed network deletion requires credentials'')) \<and>
        rs_cloud st' = rs_cloud shell_state \<and> ic_Finalizers (rs_obj st') = ic_Finalizers (rs_obj shell_state)"
    by (rule network_delete_needs_cluster_secret)
      (use managed_example in \<open>simp_all add: example_capi_cluster_def example_cluster_env_def no_secret_kube_def missing_def
         fail_def shell_state_def managed_shell_def example_cce_cluster_def\<close>)
  then show "fst (run_state (ic_reconcileDelete (example_cluster_env (no_secret_kube False) empty_cloud) example_capi_cluster) shell_state) =
     (noRequeue, Some (PlainErr ''managed network deletion requires credentials''))"
    by (simp split: prod.splits)
qed

end
