(* ===== verification/TagsValidate.thy ===== *)
theory TagsValidate
  imports CceTags
begin

text \<open>
  \<open>api/common/tags_validate.go\<close>: the admission rules for user tags, of clusters and of node pools, with the
  errors of \<open>field.ErrorList\<close>. Strings are byte strings; characters (\<open>utf8.RuneCountInString\<close> and the regular
  expressions) are the runes of their UTF-8 decoding. The Unicode tables of letters and numbers
  (\<open>\p{L}\<close>, \<open>\p{N}\<close>) are a parameter for the runes beyond ASCII.
\<close>

section \<open>Field errors\<close>

text \<open>\<open>field.Error\<close> with the path as text. The offending value is left out; it only appears in the message.\<close>

datatype field_error =
  FeInvalid string string
| FeRequired string string
| FeForbidden string string
| FeTooMany string nat nat
| FeNotSupported string "string list"

text \<open>\<open>field.Path\<close>: \<open>NewPath\<close> and \<open>Child\<close> join with dots, \<open>Key\<close> and \<open>Index\<close> use brackets.\<close>

definition new_path :: "string list \<Rightarrow> string" where
  "new_path names = join_with ''.'' names"

definition path_child :: "string \<Rightarrow> string \<Rightarrow> string" where
  "path_child p name = p @ ''.'' @ name"

definition path_key :: "string \<Rightarrow> string \<Rightarrow> string" where
  "path_key p key = p @ ''['' @ key @ '']''"

section \<open>Runes\<close>

text \<open>The multi-byte sequences of \<open>unicode/utf8\<close>: no overlong forms, no surrogates, nothing past U+10FFFF.\<close>

definition cont_byte :: "nat \<Rightarrow> bool" where
  "cont_byte b \<longleftrightarrow> 128 \<le> b \<and> b \<le> 191"

definition rune2 :: "nat \<Rightarrow> nat \<Rightarrow> nat option" where
  "rune2 a b = (if 194 \<le> a \<and> a \<le> 223 \<and> cont_byte b then Some ((a - 192) * 64 + (b - 128)) else None)"

definition rune3 :: "nat \<Rightarrow> nat \<Rightarrow> nat \<Rightarrow> nat option" where
  "rune3 a b c = (if 224 \<le> a \<and> a \<le> 239 \<and> cont_byte b \<and> (a = 224 \<longrightarrow> 160 \<le> b) \<and> (a = 237 \<longrightarrow> b \<le> 159) \<and> cont_byte c
     then Some ((a - 224) * 4096 + (b - 128) * 64 + (c - 128)) else None)"

definition rune4 :: "nat \<Rightarrow> nat \<Rightarrow> nat \<Rightarrow> nat \<Rightarrow> nat option" where
  "rune4 a b c d = (if 240 \<le> a \<and> a \<le> 244 \<and> cont_byte b \<and> (a = 240 \<longrightarrow> 144 \<le> b) \<and> (a = 244 \<longrightarrow> b \<le> 143) \<and>
      cont_byte c \<and> cont_byte d
     then Some ((a - 240) * 262144 + (b - 128) * 4096 + (c - 128) * 64 + (d - 128)) else None)"

definition RuneError :: nat where "RuneError = 65533"

fun decode_runes :: "nat list \<Rightarrow> nat list" where
  "decode_runes [] = []"
| "decode_runes (a # s) =
     (if a < 128 then a # decode_runes s
      else case s of
        b # s2 \<Rightarrow> (case rune2 a b of Some r \<Rightarrow> r # decode_runes s2
          | None \<Rightarrow> (case s2 of
              c # s3 \<Rightarrow> (case rune3 a b c of Some r \<Rightarrow> r # decode_runes s3
                | None \<Rightarrow> (case s3 of
                    d # s4 \<Rightarrow> (case rune4 a b c d of Some r \<Rightarrow> r # decode_runes s4
                      | None \<Rightarrow> RuneError # decode_runes s)
                  | [] \<Rightarrow> RuneError # decode_runes s))
            | [] \<Rightarrow> RuneError # decode_runes s))
      | [] \<Rightarrow> [RuneError])"

definition runes :: "string \<Rightarrow> nat list" where
  "runes s = decode_runes (map of_char s)"

text \<open>\<open>unicode.IsSpace\<close>; \<open>s != strings.TrimSpace(s)\<close> says that the first or the last rune is a space.\<close>

definition is_space_rune :: "nat \<Rightarrow> bool" where
  "is_space_rune r \<longleftrightarrow> r \<in> {9, 10, 11, 12, 13, 32, 133, 160, 5760, 8232, 8233, 8239, 8287, 12288} \<or> (8192 \<le> r \<and> r \<le> 8202)"

definition needs_trim :: "string \<Rightarrow> bool" where
  "needs_trim s \<longleftrightarrow> (let rs = runes s in rs \<noteq> [] \<and> (is_space_rune (hd rs) \<or> is_space_rune (last rs)))"

section \<open>Definitions\<close>

definition MaxTagKeyLength :: nat where "MaxTagKeyLength = 128"
definition MaxTagValueLength :: nat where "MaxTagValueLength = 255"
definition MaxResourceTags :: nat where "MaxResourceTags = 20"
definition MaxAdditionalTags :: nat where "MaxAdditionalTags = MaxResourceTags - 2"
definition MaxNodePoolTags :: nat where "MaxNodePoolTags = 8"
definition MaxNodePoolAdditionalTags :: nat where "MaxNodePoolAdditionalTags = MaxNodePoolTags - 2"

text \<open>The character class \<open>[\p{L}\p{N}\s_.:=+@\-]\<close>, \<open>u\<close> being the tables beyond ASCII.\<close>

definition ascii_alnum :: "nat \<Rightarrow> bool" where
  "ascii_alnum r \<longleftrightarrow> (48 \<le> r \<and> r \<le> 57) \<or> (65 \<le> r \<and> r \<le> 90) \<or> (97 \<le> r \<and> r \<le> 122)"

definition key_rune :: "(nat \<Rightarrow> bool) \<Rightarrow> nat \<Rightarrow> bool" where
  "key_rune u r \<longleftrightarrow> (if r < 128 then ascii_alnum r else u r) \<or> r \<in> {9, 10, 12, 13, 32} \<or>
     r \<in> set (map of_char ''_.:=+@-'')"

definition tagKeyRe :: "(nat \<Rightarrow> bool) \<Rightarrow> string \<Rightarrow> bool" where
  "tagKeyRe u s \<longleftrightarrow> s \<noteq> '''' \<and> list_all (key_rune u) (runes s)"

definition tagValueRe :: "(nat \<Rightarrow> bool) \<Rightarrow> string \<Rightarrow> bool" where
  "tagValueRe u s \<longleftrightarrow> list_all (\<lambda>r. key_rune u r \<or> r = 47) (runes s)"

text \<open>The quotes of the messages.\<close>

definition dquote :: string where "dquote = [CHR 0x22]"
definition squote :: string where "squote = [CHR 0x27]"

text \<open>The body of the loop of \<open>Validate\<close>.\<close>

definition tag_errors :: "(nat \<Rightarrow> bool) \<Rightarrow> string \<Rightarrow> string \<times> string \<Rightarrow> field_error list" where
  "tag_errors u fldPath kv = (case kv of (k, v) \<Rightarrow> let p = path_key fldPath k in
     if k = '''' then [FeInvalid p ''tag key cannot be empty'']
     else
       (if length (runes k) > MaxTagKeyLength then [FeInvalid p ''tag key cannot be longer than 128 characters''] else []) @
       (if needs_trim k then [FeInvalid p ''tag key cannot have leading or trailing spaces''] else []) @
       (if has_prefix k ''_sys_'' then [FeInvalid p (''tag key cannot start with '' @ dquote @ ''_sys_'' @ dquote @ '' (reserved for system tags)'')] else []) @
       (if \<not> tagKeyRe u k then [FeInvalid p (''tag key may only contain letters, digits, spaces and _ . : = + - @ (no '' @ squote @ ''/'' @ squote @ '')'')] else []) @
       (if length (runes v) > MaxTagValueLength then [FeInvalid (path_child p ''value'') ''tag value cannot be longer than 255 characters''] else []) @
       (if \<not> tagValueRe u v then [FeInvalid (path_child p ''value'') ''tag value may only contain letters, digits, spaces and _ . : / = + - @''] else []))"

definition tags_Validate :: "(nat \<Rightarrow> bool) \<Rightarrow> string \<Rightarrow> (string, string) gomap \<Rightarrow> field_error list" where
  "tags_Validate u fldPath t =
     (if length t > MaxAdditionalTags then [FeTooMany fldPath (length t) MaxAdditionalTags] else []) @
     concat (map (tag_errors u fldPath) t)"

definition nodePoolReservedKeyPrefixes :: "string list" where
  "nodePoolReservedKeyPrefixes = [''CCE-'', ''__type_baremetal'']"

definition ValidateNodePool :: "(nat \<Rightarrow> bool) \<Rightarrow> string \<Rightarrow> (string, string) gomap \<Rightarrow> field_error list" where
  "ValidateNodePool u fldPath t =
     tags_Validate u fldPath t @
     (if length t > MaxNodePoolAdditionalTags then [FeTooMany fldPath (length t) MaxNodePoolAdditionalTags] else []) @
     concat (map (\<lambda>prefix. concat (map (\<lambda>(k, v). if has_prefix k prefix
        then [FeInvalid (path_key fldPath k) (''tag key cannot start with '' @ dquote @ prefix @ dquote @ '' (reserved by CCE for node pools)'')]
        else []) t)) nodePoolReservedKeyPrefixes)"

definition ValidateMergedTags :: "(nat \<Rightarrow> bool) \<Rightarrow> (string, string) gomap \<Rightarrow> string \<Rightarrow> field_error list" where
  "ValidateMergedTags u merged fldPath = ValidateNodePool u fldPath merged"

section \<open>Admitted tags fit the platform\<close>

text \<open>The conditions of the loop body of \<open>Validate\<close> in one place.\<close>

definition tag_passes :: "(nat \<Rightarrow> bool) \<Rightarrow> string \<times> string \<Rightarrow> bool" where
  "tag_passes u kv \<longleftrightarrow> (case kv of (k, v) \<Rightarrow> 1 \<le> length k \<and> length (runes k) \<le> 128 \<and> \<not> needs_trim k \<and>
     \<not> has_prefix k ''_sys_'' \<and> list_all (key_rune u) (runes k) \<and>
     length (runes v) \<le> 255 \<and> list_all (\<lambda>r. key_rune u r \<or> r = 47) (runes v))"

lemma tag_errors_iff: "tag_errors u p kv = [] \<longleftrightarrow> tag_passes u kv"
  by (cases kv) (auto simp: tag_errors_def tag_passes_def Let_def tagKeyRe_def tagValueRe_def
      MaxTagKeyLength_def MaxTagValueLength_def Suc_le_eq)

lemma tags_Validate_iff: "tags_Validate u p t = [] \<longleftrightarrow> length t \<le> 18 \<and> (\<forall>kv \<in> set t. tag_passes u kv)"
  by (auto simp: tags_Validate_def MaxAdditionalTags_def MaxResourceTags_def tag_errors_iff)

lemma ValidateNodePool_iff:
  "ValidateNodePool u p t = [] \<longleftrightarrow> length t \<le> 6 \<and> (\<forall>kv \<in> set t. tag_passes u kv \<and>
     \<not> has_prefix (fst kv) ''CCE-'' \<and> \<not> has_prefix (fst kv) ''__type_baremetal'')"
  by (auto simp: ValidateNodePool_def tags_Validate_iff MaxNodePoolAdditionalTags_def MaxNodePoolTags_def
      nodePoolReservedKeyPrefixes_def split: if_splits prod.splits; blast)

lemma composed_length:
  "length (toClusterTags n t) \<le> 2 + length t" "length (toUserTags n t) \<le> 2 + length t"
proof -
  have "length [mk_tag k v. (k, v) \<leftarrow> t, \<not> skipReservedTagKey k n] \<le> length t"
    by (induction t) auto
  then show "length (toClusterTags n t) \<le> 2 + length t" "length (toUserTags n t) \<le> 2 + length t"
    by (simp_all add: toClusterTags_def toUserTags_def)
qed

text \<open>
  The documented rules, independent of the code's own tests. A key has 1 to 128 characters, neither the first nor
  the last of them a space, and does not start with \<open>_sys_\<close>; it consists of letters, digits, spaces and the seven
  signs \<open>_ . : = + - @\<close>. A value has at most 255 characters, of the same kinds or a slash. Characters are code points:
  the ASCII letters and digits are listed here, \<open>u\<close> tells those beyond ASCII, and \<open>spaces\<close> are the characters that
  count as spaces.
\<close>

definition tag_char :: "nat set \<Rightarrow> (nat \<Rightarrow> bool) \<Rightarrow> nat \<Rightarrow> bool" where
  "tag_char spaces u r \<longleftrightarrow> r \<in> {48..57} \<union> {65..90} \<union> {97..122} \<or> 128 \<le> r \<and> u r \<or> r \<in> spaces \<or>
     r \<in> {95, 46, 58, 61, 43, 45, 64}"

definition tag_rules :: "nat set \<Rightarrow> (nat \<Rightarrow> bool) \<Rightarrow> string \<times> string \<Rightarrow> bool" where
  "tag_rules spaces u kv \<longleftrightarrow>
     length (runes (fst kv)) \<in> {1..128} \<and> hd (runes (fst kv)) \<notin> spaces \<and> last (runes (fst kv)) \<notin> spaces \<and>
     take 5 (fst kv) \<noteq> ''_sys_'' \<and> (\<forall>r \<in> set (runes (fst kv)). tag_char spaces u r) \<and>
     length (runes (snd kv)) \<le> 255 \<and> (\<forall>r \<in> set (runes (snd kv)). tag_char spaces u r \<or> r = 47)"

text \<open>What \<open>\s\<close> matches: tab, newline, form feed, carriage return and the space.\<close>

definition re_spaces :: "nat set" where
  "re_spaces = {9, 10, 12, 13, 32}"

text \<open>The white space beyond ASCII, which the tables of letters and numbers do not contain.\<close>

definition unicode_spaces :: "nat set" where
  "unicode_spaces = {133, 160, 5760, 8232, 8233, 8239, 8287, 12288} \<union> {8192..8202}"

lemma runes_empty [simp]: "runes s = [] \<longleftrightarrow> s = []"
  by (cases s) (auto simp: runes_def split: list.splits option.splits)

lemma reserved_prefixes:
  "has_prefix k ''_sys_'' \<longleftrightarrow> take 5 k = ''_sys_''" "has_prefix k ''CCE-'' \<longleftrightarrow> take 4 k = ''CCE-''"
  "has_prefix k ''__type_baremetal'' \<longleftrightarrow> take 16 k = ''__type_baremetal''"
  by (simp_all add: has_prefix_def eval_nat_numeral)

lemma key_rune_char: "key_rune u r \<longleftrightarrow> tag_char re_spaces u r"
  by (auto simp: key_rune_def tag_char_def re_spaces_def ascii_alnum_def)

lemma space_char:
  assumes "\<And>r. u r \<Longrightarrow> r \<notin> unicode_spaces" "tag_char re_spaces u r"
  shows "is_space_rune r \<longleftrightarrow> r \<in> re_spaces"
  using assms by (auto simp: is_space_rune_def tag_char_def re_spaces_def unicode_spaces_def)

lemma tag_passes_rules:
  assumes "\<And>r. u r \<Longrightarrow> r \<notin> unicode_spaces"
  shows "tag_passes u kv \<longleftrightarrow> tag_rules re_spaces u kv"
proof (cases "fst kv = ''''")
  case False
  then have "hd (runes (fst kv)) \<in> set (runes (fst kv))" "last (runes (fst kv)) \<in> set (runes (fst kv))" by simp_all
  then have trim: "needs_trim (fst kv) \<longleftrightarrow> hd (runes (fst kv)) \<in> re_spaces \<or> last (runes (fst kv)) \<in> re_spaces"
    if "\<forall>r \<in> set (runes (fst kv)). tag_char re_spaces u r"
    using that False space_char[OF assms, of u] by (simp add: needs_trim_def Let_def)
  show ?thesis
    using trim False
    by (cases kv) (auto simp: tag_passes_def tag_rules_def key_rune_char list_all_iff reserved_prefixes Suc_le_eq)
qed (cases kv; simp add: tag_passes_def tag_rules_def runes_def)

lemma documented_tag_passes: "tag_rules {32} u kv \<Longrightarrow> tag_rules re_spaces u kv"
proof -
  have c: "tag_char {32} u r \<Longrightarrow> tag_char re_spaces u r \<and> (r \<in> re_spaces \<longrightarrow> r = 32)" for r
    by (auto simp: tag_char_def re_spaces_def)
  assume r: "tag_rules {32} u kv"
  then have "hd (runes (fst kv)) \<in> set (runes (fst kv))" "last (runes (fst kv)) \<in> set (runes (fst kv))"
    by (auto simp: tag_rules_def intro!: hd_in_set last_in_set)
  then show ?thesis using r c by (auto simp: tag_rules_def)
qed

text \<open>C39: Admitted tags fit the platform, and documented tags are admitted. The checks accept a tag set exactly when
  every key and value follows the documented rules, with tab, newline, form feed and carriage return counted
  as spaces besides the space itself, and when the set is small enough that the one the service composes from
  it, with the ownership and the role tag, stays within the platform's limit: 20 tags of a cluster, 8 of a node
  pool (whose keys must not have one of two reserved prefixes). So 18 tags of a cluster are admitted, where the
  deployment guide and a comment of the webhook say 19; and tags that follow the rules with the space as the
  only space are admitted up to that number. The tables of letters and numbers must not contain white space.\<close>

theorem admitted_tags_fit:
  assumes "\<And>r. u r \<Longrightarrow> r \<notin> unicode_spaces"
  shows "(tags_Validate u p t = [] \<longleftrightarrow> length t + 2 \<le> 20 \<and> (\<forall>kv \<in> set t. tag_rules re_spaces u kv)) \<and>
   (ValidateMergedTags u t p = [] \<longleftrightarrow> length t + 2 \<le> 8 \<and> (\<forall>kv \<in> set t. tag_rules re_spaces u kv \<and>
      take 4 (fst kv) \<noteq> ''CCE-'' \<and> take 16 (fst kv) \<noteq> ''__type_baremetal'')) \<and>
   (length t + 2 \<le> 20 \<and> (\<forall>kv \<in> set t. tag_rules {32} u kv) \<longrightarrow> tags_Validate u p t = []) \<and>
   (tags_Validate u p t = [] \<longrightarrow> length (toClusterTags n t) \<le> 20) \<and>
   (ValidateMergedTags u t p = [] \<longrightarrow> length (toUserTags n t) \<le> 8)"
  using composed_length[of n t] documented_tag_passes[of u] tag_passes_rules[OF assms, of u]
  by (auto simp: tags_Validate_iff ValidateMergedTags_def ValidateNodePool_iff reserved_prefixes)

text \<open>A tab inside a key is admitted, though the documented rules and the comment of \<open>tagKeyRe\<close> name spaces only.\<close>

lemma tab_in_key_admitted:
  "tags_Validate u p [([CHR ''a'', CHR 0x09, CHR ''b''], '''')] = [] \<and>
   \<not> tag_rules {32} u ([CHR ''a'', CHR 0x09, CHR ''b''], '''')"
  by (simp add: tags_Validate_iff tag_passes_def tag_rules_def tag_char_def runes_def needs_trim_def is_space_rune_def
      Let_def key_rune_def ascii_alnum_def has_prefix_def)

text \<open>The German tag \<open>G\<close>, \<open>o-umlaut\<close>, \<open>e\<close> (bytes 71, 195, 182, 101) has three characters and is admitted when the
  tables know U+00F6 as a letter.\<close>

definition umlaut_key :: string where
  "umlaut_key = [CHR ''G'', CHR 0xC3, CHR 0xB6, CHR ''e'']"

lemma admitted_tags_fit_witness:
  "runes umlaut_key = [71, 246, 101] \<and> length (toUserTags ''demo'' [(umlaut_key, ''a/b'')]) \<le> 8"
proof -
  have key: "runes umlaut_key = [71, 246, 101]"
    by (simp add: umlaut_key_def runes_def rune2_def cont_byte_def)
  have "runes ''a/b'' = [97, 47, 98]"
    by (simp add: runes_def)
  then have "ValidateMergedTags (\<lambda>r. r = 246) [(umlaut_key, ''a/b'')] ''spec'' = []"
    using key
    by (simp add: ValidateMergedTags_def ValidateNodePool_iff tag_passes_def needs_trim_def is_space_rune_def Let_def
        key_rune_def ascii_alnum_def has_prefix_def umlaut_key_def)
  then have "length (toUserTags ''demo'' [(umlaut_key, ''a/b'')]) \<le> 8"
    using admitted_tags_fit[of "\<lambda>r. r = 246" "''spec''" "[(umlaut_key, ''a/b'')]" "''demo''"] by (simp add: unicode_spaces_def)
  then show ?thesis using key by blast
qed

end
