(* ===== verification/MachinePool.thy ===== *)
theory MachinePool
  imports CpReconcile TagsValidate "HOL-Library.List_Lexorder" "HOL-Library.Char_ord"
begin

text \<open>
  \<open>controllers/ccemanagedmachinepool_controller.go\<close>: the reconciler of machine pools, which creates, scales,
  updates, repairs and deletes a CCE node pool. As in the control plane reconciler, \<open>reconcileNormal\<close> is cut
  into the parts the code runs one after the other, each with the rest as its continuation.
\<close>

section \<open>Definitions\<close>

text \<open>The reconciler; \<open>mpe_NodePoolAutoscaling\<close> is the feature gate, \<open>mpe_unicode\<close> the tables of the tag
  check and \<open>mpe_now\<close> the clock in nanoseconds since the epoch.\<close>

record ('k, 'c) mp_env =
  mpe_kube :: "'k kube_client"
  mpe_scope :: scope_env
  mpe_lib :: library
  mpe_provider :: "'c provider option"
  mpe_ServiceFactory :: "string \<Rightarrow> CloudCredentials \<Rightarrow> go_error + 'c service"
  mpe_NodePoolAutoscaling :: bool
  mpe_unicode :: "nat \<Rightarrow> bool"
  mpe_now :: int

definition MachinePoolFinalizer :: string where
  "MachinePoolFinalizer = ''ccemanagedmachinepool.infrastructure.cluster.x-k8s.io''"

definition nodePoolDeletePollAnnotation :: string where
  "nodePoolDeletePollAnnotation = ''infrastructure.cluster.x-k8s.io/last-nodepool-delete-poll''"

type_synonym ('k, 'c) mp_state = "('k, 'c, CCEManagedMachinePool) rstate"
type_synonym ('k, 'c) mp_run = "(('k, 'c) mp_state, reconcile_result) state"

definition mp_status :: "(CCEManagedMachinePoolStatus \<Rightarrow> CCEManagedMachinePoolStatus) \<Rightarrow> (('k, 'c) mp_state, unit) state" where
  "mp_status f = modify_obj (\<lambda>mp. mp \<lparr> mp_Status := f (mp_Status mp) \<rparr>)"

definition mp_spec :: "(CCEManagedMachinePoolSpec \<Rightarrow> CCEManagedMachinePoolSpec) \<Rightarrow> (('k, 'c) mp_state, unit) state" where
  "mp_spec f = modify_obj (\<lambda>mp. mp \<lparr> mp_Spec := f (mp_Spec mp) \<rparr>)"

definition mp_true :: "library \<Rightarrow> string \<Rightarrow> string \<Rightarrow> string \<Rightarrow> (('k, 'c) mp_state, unit) state" where
  "mp_true lib ty reason message =
     mp_status (\<lambda>st. st \<lparr> mpt_Conditions := MarkTrue lib ty reason message (mpt_Conditions st) \<rparr>)"

definition mp_false :: "library \<Rightarrow> string \<Rightarrow> string \<Rightarrow> string \<Rightarrow> (('k, 'c) mp_state, unit) state" where
  "mp_false lib ty reason message =
     mp_status (\<lambda>st. st \<lparr> mpt_Conditions := MarkFalse lib ty reason message (mpt_Conditions st) \<rparr>)"

text \<open>The two ways a step fails: the condition is set and the error returned.\<close>

definition creation_failed :: "('k, 'c) mp_env \<Rightarrow> go_error \<Rightarrow> ('k, 'c) mp_run" where
  "creation_failed env err = do {
     _ \<leftarrow> mp_false (mpe_lib env) NodePoolReadyCondition NodePoolCreationFailedReason (lib_ErrorText (mpe_lib env) err);
     return_err err }"

definition scale_failed :: "('k, 'c) mp_env \<Rightarrow> go_error \<Rightarrow> ('k, 'c) mp_run" where
  "scale_failed env err = do {
     _ \<leftarrow> mp_false (mpe_lib env) NodePoolScalingCondition NodePoolScaleFailedReason (lib_ErrorText (mpe_lib env) err);
     return_err err }"

subsection \<open>Helpers\<close>

definition clusterRegion :: "'k kube_client \<Rightarrow> CapiCluster \<Rightarrow> CCEManagedMachinePool \<Rightarrow> ('k, string) go" where
  "clusterRegion c cluster pool =
     (if ccl_InfrastructureRefName cluster = '''' then fail (PlainErr ''cluster has no infrastructureRef'')
      else let key = (mp_Namespace pool, ccl_InfrastructureRefName cluster) in
        tryE (wrapE (msgf [''failed to get CCECluster '', key_text key]) (kb_GetCCECluster c key))
          (\<lambda>cce. ok (ics_Region (ic_Spec cce))))"

definition clusterNodeSecurityGroup :: "'k kube_client \<Rightarrow> CapiCluster \<Rightarrow> CCEManagedMachinePool \<Rightarrow> ('k, string) state" where
  "clusterNodeSecurityGroup c cluster pool =
     (if ccl_InfrastructureRefName cluster = '''' then State_Monad.return ''''
      else do {
        r \<leftarrow> kb_GetCCECluster c (mp_Namespace pool, ccl_InfrastructureRefName cluster);
        State_Monad.return (case r of
            Inl _ \<Rightarrow> ''''
          | Inr cce \<Rightarrow> (case ns_SecurityGroup (ics_Network (ic_Spec cce)) of
                None \<Rightarrow> '''' | Some sg \<Rightarrow> sgs_ResourceID sg)) })"

definition toProviderAutoscaling :: "AutoscalingSpec \<Rightarrow> NodePoolAutoscaling option" where
  "toProviderAutoscaling s = Some \<lparr> npa_Enable = asc_Enable s, npa_MinNodeCount = asc_MinNodeCount s,
     npa_MaxNodeCount = asc_MaxNodeCount s \<rparr>"

definition toCreateNodePoolInput :: "bool \<Rightarrow> string \<Rightarrow> CCEManagedMachinePool \<Rightarrow> string list \<Rightarrow> CreateNodePoolInput" where
  "toCreateNodePoolInput gate clusterID pool securityGroups = (let sp = mp_Spec pool in \<lparr>
     cni_ClusterID = clusterID,
     cni_Name = mps_NodePoolName sp,
     cni_Flavor = mps_Flavor sp,
     cni_OS = mps_OS sp,
     cni_RootVolumeSize = (case mps_RootVolume sp of Some v \<Rightarrow> nv_Size v | None \<Rightarrow> 0),
     cni_RootVolumeType = (case mps_RootVolume sp of Some v \<Rightarrow> nv_Type v | None \<Rightarrow> ''''),
     cni_DataVolumes = map (\<lambda>v. \<lparr> nvi_Size = nv_Size v, nvi_Type = nv_Type v \<rparr>) (mps_DataVolumes sp),
     cni_SSHKey = mps_SSHKey sp,
     cni_AvailabilityZone = mps_AvailabilityZone sp,
     cni_InitialNodeCount = mps_Replicas sp,
     cni_BillingMode = mps_BillingMode sp,
     cni_Spot = mps_Spot sp,
     cni_SpotPrice = mps_SpotPrice sp,
     cni_ExtensionScaleGroups = map (\<lambda>g. \<lparr> esg_Name = egs_Name g, esg_Flavor = egs_Flavor g,
        esg_AvailabilityZone = egs_AvailabilityZone g \<rparr>) (mps_ExtensionScaleGroups sp),
     cni_Taints = mps_Taints sp,
     cni_Labels = mps_Labels sp,
     cni_SecurityGroups = securityGroups,
     cni_CustomSecurityGroups = [],
     cni_Autoscaling = (if gate then toProviderAutoscaling (mps_Autoscaling sp) else None),
     cni_ClusterName = mps_ClusterName sp,
     cni_Tags = mps_AdditionalTags sp,
     cni_EcsGroupID = mps_EcsGroupID sp,
     cni_FaultDomain = mps_FaultDomain sp,
     cni_DedicatedHostID = mps_DedicatedHostID sp,
     cni_PreInstall = mps_PreInstall sp,
     cni_PostInstall = mps_PostInstall sp,
     cni_WaitPostInstallFinish = mps_WaitPostInstallFinish sp,
     cni_PublicIP = False,
     cni_PublicIPBandwidthSize = 0,
     cni_PublicIPShareType = '''',
     cni_PublicIPChargeMode = '''' \<rparr>)"

definition mergedTags :: "(string, string) gomap \<Rightarrow> (string, string) gomap \<Rightarrow> (string, string) gomap" where
  "mergedTags clusterTags poolTags =
     fold (\<lambda>(k, v). AList.update k v) poolTags (fold (\<lambda>(k, v). AList.update k v) clusterTags [])"

definition findOwnerMachinePool :: "'k kube_client \<Rightarrow> CCEManagedMachinePool \<Rightarrow> ('k, CapiMachinePool option) go" where
  "findOwnerMachinePool c pool =
     tryE (wrapE ''failed to list MachinePools'' (kb_ListMachinePools c (mp_Namespace pool) (mps_ClusterName (mp_Spec pool))))
       (\<lambda>mps. ok (find (\<lambda>m. cmp_InfrastructureRefName m = mp_Name pool) mps))"

definition syncReplicasFromOwner :: "CapiMachinePool option \<Rightarrow> CCEManagedMachinePoolSpec \<Rightarrow> CCEManagedMachinePoolSpec" where
  "syncReplicasFromOwner owner sp = (case owner of
      None \<Rightarrow> sp
    | Some m \<Rightarrow> (case cmp_Replicas m of
          None \<Rightarrow> sp
        | Some n \<Rightarrow> if n \<noteq> mps_Replicas sp then sp \<lparr> mps_Replicas := n \<rparr> else sp))"

definition abnormal_nodes :: "string \<Rightarrow> NodeInfo list \<Rightarrow> string list" where
  "abnormal_nodes poolID nodes = [ni_UID n. n \<leftarrow> nodes, ni_NodePoolID n = poolID \<and>
     (ni_Phase n = ''Abnormal'' \<or> ni_Phase n = ''Error'')]"

definition reconcileNodeRepair :: "'c service \<Rightarrow> string \<Rightarrow> CCEManagedMachinePool \<Rightarrow> ('c, unit) go" where
  "reconcileNodeRepair svc clusterID pool =
     tryE (svc_ListNodesWithStatus svc clusterID) (\<lambda>nodes.
       let abnormal = abnormal_nodes (mpt_NodePoolID (mp_Status pool)) nodes in
       if abnormal = [] then ok () else svc_ResetNode svc clusterID abnormal)"

definition machinePoolToInfraPool :: "CapiMachinePool \<Rightarrow> NamespacedName list" where
  "machinePoolToInfraPool m =
     (if cmp_InfrastructureRefKind m \<noteq> ''CCEManagedMachinePool'' \<or> cmp_InfrastructureRefName m = '''' then []
      else [(cmp_Namespace m, cmp_InfrastructureRefName m)])"


subsection \<open>reconcileNormal\<close>

text \<open>The security groups to bind: those of the spec, else the cluster's managed one.\<close>

definition effective_groups :: "('k, 'c) mp_env \<Rightarrow> CapiCluster \<Rightarrow> CCEManagedMachinePool \<Rightarrow> ('k, string list) state" where
  "effective_groups env cluster pool =
     (if mps_SecurityGroups (mp_Spec pool) \<noteq> [] then State_Monad.return (mps_SecurityGroups (mp_Spec pool))
      else do {
        sg \<leftarrow> clusterNodeSecurityGroup (mpe_kube env) cluster pool;
        State_Monad.return (if sg \<noteq> '''' then [sg] else mps_SecurityGroups (mp_Spec pool)) })"

definition ensure_pool :: "('k, 'c) mp_env \<Rightarrow> 'c service \<Rightarrow> CCEManagedControlPlane \<Rightarrow> string list \<Rightarrow>
    ('k, 'c) mp_run \<Rightarrow> ('k, 'c) mp_run" where
  "ensure_pool env svc cp groups k = do {
     pool \<leftarrow> get_obj;
     if mpt_NodePoolID (mp_Status pool) \<noteq> '''' then k
     else let
         in0 = toCreateNodePoolInput (mpe_NodePoolAutoscaling env) (cpt_ClusterID (cp_Status cp)) pool groups;
         in1 = in0 \<lparr> cni_Tags := mergedTags (cps_AdditionalTags (cp_Spec cp)) (mps_AdditionalTags (mp_Spec pool)) \<rparr> in
       if ValidateMergedTags (mpe_unicode env) (cni_Tags in1) (new_path [''spec'', ''additionalTags'']) \<noteq> []
       then creation_failed env (PlainErr ''the merged additionalTags are invalid'')
       else onE (in_cloud (svc_CreateNodePool svc in1)) (creation_failed env) (\<lambda>i. do {
         _ \<leftarrow> mp_status (\<lambda>st. st \<lparr> mpt_NodePoolID := i, mpt_Replicas := mps_Replicas (mp_Spec pool),
               mpt_LastAppliedSecurityGroups := groups, mpt_LastAppliedAutoscaling := mps_Autoscaling (mp_Spec pool) \<rparr>);
         k }) }"

text \<open>The size: from the owning MachinePool, unless an external autoscaler manages it.\<close>

definition externally_managed :: "library \<Rightarrow> CapiMachinePool option \<Rightarrow> bool" where
  "externally_managed lib owner \<longleftrightarrow> (case owner of
      None \<Rightarrow> False | Some m \<Rightarrow> lib_ReplicasManagedByExternalAutoscaler lib (cmp_Annotations m))"

definition scale_pool :: "('k, 'c) mp_env \<Rightarrow> 'c service \<Rightarrow> string \<Rightarrow> bool \<Rightarrow> ('k, 'c) mp_run \<Rightarrow> ('k, 'c) mp_run" where
  "scale_pool env svc clusterID external k = do {
     pool \<leftarrow> get_obj;
     if \<not> external \<and> mpt_Replicas (mp_Status pool) \<noteq> mps_Replicas (mp_Spec pool) then do {
       _ \<leftarrow> mp_false (mpe_lib env) NodePoolScalingCondition ReconciliationInProgressReason ''scaling node pool'';
       onE (in_cloud (svc_ScaleNodePool svc clusterID (mpt_NodePoolID (mp_Status pool)) (mps_Replicas (mp_Spec pool))))
         (scale_failed env) (\<lambda>_. do {
           _ \<leftarrow> mp_true (mpe_lib env) NodePoolScalingCondition ''ScalingCompleted'' ''node pool scaled'';
           k }) }
     else k }"

text \<open>Security groups and autoscaling, rolled onto the existing nodes.\<close>

definition attrs_changed :: "bool \<Rightarrow> string list \<Rightarrow> CCEManagedMachinePool \<Rightarrow> bool" where
  "attrs_changed gate groups pool \<longleftrightarrow> mpt_LastAppliedSecurityGroups (mp_Status pool) \<noteq> groups \<or>
     (gate \<and> mps_Autoscaling (mp_Spec pool) \<noteq> mpt_LastAppliedAutoscaling (mp_Status pool))"

definition attrs_update :: "bool \<Rightarrow> string \<Rightarrow> string list \<Rightarrow> CCEManagedMachinePool \<Rightarrow> UpdateNodePoolInput" where
  "attrs_update gate clusterID groups pool = \<lparr>
     uni_ClusterID = clusterID,
     uni_NodePoolID = mpt_NodePoolID (mp_Status pool),
     uni_InitialNodeCount = 0,
     uni_IgnoreInitialNodeCount = True,
     uni_CustomSecurityGroups = groups,
     uni_Autoscaling = (if gate then toProviderAutoscaling (mps_Autoscaling (mp_Spec pool)) else None),
     uni_TaintPolicyOnExistingNodes = (if mps_Taints (mp_Spec pool) \<noteq> [] then ''refresh'' else ''''),
     uni_LabelPolicyOnExistingNodes = (if mps_Labels (mp_Spec pool) \<noteq> [] then ''refresh'' else ''''),
     uni_UserTagsPolicyOnExistingNodes = '''',
     uni_UserTags = None,
     uni_ClusterName = '''' \<rparr>"

definition update_pool :: "('k, 'c) mp_env \<Rightarrow> 'c service \<Rightarrow> string \<Rightarrow> string list \<Rightarrow> ('k, 'c) mp_run \<Rightarrow> ('k, 'c) mp_run" where
  "update_pool env svc clusterID groups k = (let gate = mpe_NodePoolAutoscaling env in do {
     pool \<leftarrow> get_obj;
     if \<not> attrs_changed gate groups pool then k
     else onE (in_cloud (svc_UpdateNodePool svc (attrs_update gate clusterID groups pool))) (creation_failed env) (\<lambda>_.
       let mu = ucs_MaxUnavailable (mps_UpdateConfig (mp_Spec pool)) in
       onE (in_cloud (svc_UpgradeNodePool svc clusterID (mpt_NodePoolID (mp_Status pool)) (if mu = 0 then 1 else mu)))
         (scale_failed env) (\<lambda>_. do {
           _ \<leftarrow> mp_status (\<lambda>st. st \<lparr> mpt_LastAppliedSecurityGroups := groups,
                 mpt_LastAppliedAutoscaling := mps_Autoscaling (mp_Spec pool) \<rparr>);
           k })) })"

text \<open>One pool of the listing. The owning MachinePool is patched, in memory too, when it is reverse-synced.\<close>

definition refresh_one :: "('k, 'c) mp_env \<Rightarrow> bool \<Rightarrow> NodePoolInfo \<Rightarrow> bool \<times> CapiMachinePool option \<Rightarrow>
    (('k, 'c) mp_state, bool \<times> CapiMachinePool option) go" where
  "refresh_one env external p acc = do {
     pool \<leftarrow> get_obj;
     if npi_NodePoolID p \<noteq> mpt_NodePoolID (mp_Status pool) then ok acc
     else do {
       _ \<leftarrow> mp_status (\<lambda>st. st \<lparr> mpt_Replicas := npi_NodeCount p, mpt_AvailableReplicas := npi_ActiveNodeCount p \<rparr>);
       case snd acc of
         None \<Rightarrow> ok (True, None)
       | Some m \<Rightarrow>
           if external \<and> cmp_Replicas m \<noteq> Some (npi_NodeCount p) then
             let m' = m \<lparr> cmp_Replicas := Some (npi_NodeCount p) \<rparr> in
             tryE (wrapE ''failed to patch MachinePool replicas'' (in_kube (kb_PatchCapiMachinePool (mpe_kube env) m m')))
               (\<lambda>_. ok (True, Some m'))
           else ok (True, Some m) } }"

definition refresh_pool :: "('k, 'c) mp_env \<Rightarrow> bool \<Rightarrow> CapiMachinePool option \<Rightarrow> NodePoolInfo list \<Rightarrow>
    ('k, 'c) mp_run \<Rightarrow> ('k, 'c) mp_run" where
  "refresh_pool env external owner pools k =
     onE (foldE (refresh_one env external) pools (False, owner)) return_err (\<lambda>(found, _).
       if \<not> found then do {
         _ \<leftarrow> mp_false (mpe_lib env) NodePoolReadyCondition NodePoolCreationFailedReason
               ''node pool not found in cloud, recreating'';
         _ \<leftarrow> mp_status (\<lambda>st. st \<lparr> mpt_NodePoolID := '''' \<rparr>);
         requeue defaultRequeue }
       else k)"

text \<open>Provider IDs (sorted by bytes), node repair, and the end.\<close>

definition finish_pool :: "('k, 'c) mp_env \<Rightarrow> 'c service \<Rightarrow> string \<Rightarrow> ('k, 'c) mp_run" where
  "finish_pool env svc clusterID = do {
     pool \<leftarrow> get_obj;
     onE (in_cloud (svc_ListNodes svc clusterID (mpt_NodePoolID (mp_Status pool)))) (creation_failed env) (\<lambda>ids. do {
       _ \<leftarrow> mp_spec (\<lambda>sp. sp \<lparr> mps_ProviderIDList := sort ids \<rparr>);
       pool \<leftarrow> get_obj;
       onE (if (case mps_NodeRepair (mp_Spec pool) of Some nr \<Rightarrow> nrs_Enabled nr | None \<Rightarrow> False)
            then in_cloud (reconcileNodeRepair svc clusterID pool) else ok ()) (creation_failed env) (\<lambda>_. do {
         _ \<leftarrow> mp_true (mpe_lib env) NodePoolReadyCondition ''NodePoolReady'' ''node pool is ready'';
         _ \<leftarrow> mp_status (\<lambda>st. st \<lparr> mpt_Ready := True \<rparr>);
         pool \<leftarrow> get_obj;
         if mpt_Replicas (mp_Status pool) \<noteq> mps_Replicas (mp_Spec pool) \<or>
            mpt_AvailableReplicas (mp_Status pool) \<noteq> mps_Replicas (mp_Spec pool)
         then requeue defaultRequeue else done_ok }) }) }"


text \<open>From the node pool on.\<close>

definition converge_pool :: "('k, 'c) mp_env \<Rightarrow> 'c service \<Rightarrow> CCEManagedControlPlane \<Rightarrow> string list \<Rightarrow> ('k, 'c) mp_run" where
  "converge_pool env svc cp groups = (let clusterID = cpt_ClusterID (cp_Status cp) in
     ensure_pool env svc cp groups (do {
     pool \<leftarrow> get_obj;
     onE (in_kube (findOwnerMachinePool (mpe_kube env) pool)) return_err (\<lambda>owner. do {
       let external = externally_managed (mpe_lib env) owner;
       _ \<leftarrow> (if external then State_Monad.return () else mp_spec (syncReplicasFromOwner owner));
       scale_pool env svc clusterID external
       (update_pool env svc clusterID groups
       (onE (in_cloud (svc_ListNodePools svc clusterID)) (creation_failed env) (\<lambda>pools. do {
          pool \<leftarrow> get_obj;
          onE (in_cloud (svc_ReconcileNodePoolTags svc clusterID (mpt_NodePoolID (mp_Status pool)) (mps_ClusterName (mp_Spec pool))
                 (Some (mergedTags (cps_AdditionalTags (cp_Spec cp)) (mps_AdditionalTags (mp_Spec pool)))) pools))
            (creation_failed env) (\<lambda>_.
          refresh_pool env external owner pools
          (finish_pool env svc clusterID)) }))) }) }))"

definition mp_service_for :: "('k, 'c) mp_env \<Rightarrow> CapiCluster \<Rightarrow> CCEManagedControlPlane \<Rightarrow> CCEManagedMachinePool \<Rightarrow>
    (('k, 'c) mp_state, 'c service) go" where
  "mp_service_for env cluster cp pool =
     tryE (in_kube (clusterRegion (mpe_kube env) cluster pool)) (\<lambda>region.
     tryE (in_kube (resolveControlPlaneCredentials (mpe_kube env) (mpe_scope env) cp)) (\<lambda>(creds, identityAgency).
     tryE (in_cloud (Resolve (mpe_provider env) region identityAgency (crd_AccessKey creds) (crd_SecretKey creds))) (\<lambda>resolved.
     case mpe_ServiceFactory env region resolved of Inl err \<Rightarrow> fail err | Inr svc \<Rightarrow> ok svc)))"

definition mp_reconcileNormal :: "('k, 'c) mp_env \<Rightarrow> CapiCluster \<Rightarrow> ('k, 'c) mp_run" where
  "mp_reconcileNormal env cluster = do {
     pool \<leftarrow> get_obj;
     if ccl_ControlPlaneRefName cluster = '''' then return_err (PlainErr ''cluster has no controlPlaneRef'')
     else onE (in_kube (wrapE ''failed to get control plane''
         (kb_GetControlPlane (mpe_kube env) (mp_Namespace pool, ccl_ControlPlaneRefName cluster)))) return_err (\<lambda>cp.
       if \<not> cpt_Ready (cp_Status cp) \<or> cpt_ClusterID (cp_Status cp) = '''' then do {
         _ \<leftarrow> mp_false (mpe_lib env) NodePoolReadyCondition WaitingForControlPlaneReason '''';
         requeue defaultRequeue }
       else do {
         _ \<leftarrow> modify_obj (\<lambda>p. p \<lparr> mp_Finalizers := lib_AddFinalizer (mpe_lib env) (mp_Finalizers p) MachinePoolFinalizer \<rparr>);
         onE (mp_service_for env cluster cp pool) (creation_failed env) (\<lambda>svc. do {
           groups \<leftarrow> in_kube (effective_groups env cluster pool);
           converge_pool env svc cp groups }) }) }"

subsection \<open>reconcileDelete and Reconcile\<close>

definition release_pool :: "('k, 'c) mp_env \<Rightarrow> ('k, 'c) mp_run" where
  "release_pool env = do {
     _ \<leftarrow> modify_obj (\<lambda>p. p \<lparr> mp_Finalizers := lib_RemoveFinalizer (mpe_lib env) (mp_Finalizers p) MachinePoolFinalizer \<rparr>);
     p \<leftarrow> get_obj;
     onE (in_kube (kb_UpdateMachinePool (mpe_kube env) p)) return_err (\<lambda>p'. do { _ \<leftarrow> modify_obj (\<lambda>_. p'); done_ok }) }"

definition mp_after_delete_error :: "go_error \<Rightarrow> ('k, 'c) mp_run" where
  "mp_after_delete_error err = do {
     p \<leftarrow> get_obj;
     with_backoff (resultAfterErrorForDelete (mp_Namespace p, mp_Name p) err) }"

text \<open>The deletion was requested: keep the object's watch alive with an annotation.\<close>

definition poll_pool :: "('k, 'c) mp_env \<Rightarrow> ('k, 'c) mp_run" where
  "poll_pool env = do {
     orig \<leftarrow> get_obj;
     let p = orig \<lparr> mp_Annotations := AList.update nodePoolDeletePollAnnotation (itoa (mpe_now env div 60000000000))
           (mp_Annotations orig) \<rparr>;
     _ \<leftarrow> modify_obj (\<lambda>_. p);
     onE (in_kube (kb_PatchMachinePool (mpe_kube env) orig p)) return_err (\<lambda>p'. do {
       _ \<leftarrow> modify_obj (\<lambda>_. p');
       requeue defaultRequeue }) }"

definition delete_pool_part :: "('k, 'c) mp_env \<Rightarrow> CapiCluster \<Rightarrow> CCEManagedControlPlane option \<Rightarrow> ('k, 'c) mp_run \<Rightarrow> ('k, 'c) mp_run" where
  "delete_pool_part env cluster found k = (case found of
      None \<Rightarrow> k
    | Some cp \<Rightarrow> if cpt_ClusterID (cp_Status cp) = '''' then k
        else do {
          pool \<leftarrow> get_obj;
          onE (mp_service_for env cluster cp pool) return_err (\<lambda>svc.
          onE (in_cloud (svc_ListNodePools svc (cpt_ClusterID (cp_Status cp)))) mp_after_delete_error (\<lambda>pools.
            if list_ex (\<lambda>p. npi_NodePoolID p = mpt_NodePoolID (mp_Status pool)) pools then
              onE (in_cloud (svc_DeleteNodePool svc (cpt_ClusterID (cp_Status cp)) (mpt_NodePoolID (mp_Status pool))))
                mp_after_delete_error (\<lambda>_. poll_pool env)
            else k)) })"

definition clear_pool_id :: "('k, 'c) mp_env \<Rightarrow> ('k, 'c) mp_run \<Rightarrow> ('k, 'c) mp_run" where
  "clear_pool_id env k = do {
     _ \<leftarrow> mp_status (\<lambda>st. st \<lparr> mpt_NodePoolID := '''' \<rparr>);
     p \<leftarrow> get_obj;
     onE (in_kube (wrapE ''failed to clear node pool ID'' (kb_UpdateMachinePoolStatus (mpe_kube env) p))) return_err
       (\<lambda>p'. do { _ \<leftarrow> modify_obj (\<lambda>_. p'); k }) }"

definition mp_reconcileDelete :: "('k, 'c) mp_env \<Rightarrow> CapiCluster \<Rightarrow> ('k, 'c) mp_run" where
  "mp_reconcileDelete env cluster = do {
     pool \<leftarrow> get_obj;
     if mpt_NodePoolID (mp_Status pool) = '''' then release_pool env
     else let rest = (\<lambda>found. delete_pool_part env cluster found (clear_pool_id env (release_pool env))) in
       if ccl_ControlPlaneRefName cluster = '''' then rest None
       else do {
         r \<leftarrow> in_kube (kb_GetControlPlane (mpe_kube env) (mp_Namespace pool, ccl_ControlPlaneRefName cluster));
         case r of
           Inr cp \<Rightarrow> rest (Some cp)
         | Inl err \<Rightarrow> if is_kube KubeNotFound err then rest None
             else return_err (WrapErr ''failed to get control plane'' err) } }"

text \<open>After \<open>reconcileNormal\<close>: an error becomes a tuned delay; else a coalesced spec change is requeued.\<close>

definition mp_finish :: "NamespacedName \<Rightarrow> int \<Rightarrow> int \<Rightarrow> ('k, 'c) mp_run \<Rightarrow> ('k, 'c) mp_run" where
  "mp_finish key observed generation m = do {
     before \<leftarrow> with_backoff (\<lambda>b. (failures b key, b));
     r \<leftarrow> m;
     case snd r of
       Some err \<Rightarrow> with_backoff (resultAfterError key err)
     | None \<Rightarrow> do {
         n \<leftarrow> with_backoff (\<lambda>b. (failures b key, b));
         if \<not> (n \<noteq> before \<or> RequeueAfter (fst r) = permissionBackoff) \<and> observed < generation
         then requeue defaultRequeue
         else State_Monad.return r } }"

definition mp_Reconcile :: "('k, 'c) mp_env \<Rightarrow> NamespacedName \<Rightarrow> ('k, 'c) mp_run" where
  "mp_Reconcile env req = reset_when_clean req (do {
     r \<leftarrow> in_kube (kb_GetMachinePool (mpe_kube env) req);
     case r of
       Inl err \<Rightarrow> if is_kube KubeNotFound err then done_ok else return_err err
     | Inr pool \<Rightarrow> do {
         _ \<leftarrow> modify_obj (\<lambda>_. pool);
         onE (in_kube (wrapE (msgf [''failed to get cluster of machine pool '', snd req])
                (kb_ClusterOfMachinePool (mpe_kube env) pool))) return_err (\<lambda>owner. case owner of
             None \<Rightarrow> done_ok
           | Some cluster \<Rightarrow>
               if lib_IsPaused (mpe_lib env) (ccl_Paused cluster) (mp_Annotations pool) then done_ok
               else if mp_Deleting pool then mp_reconcileDelete env cluster
               else close_scope (kb_CloseMachinePool (mpe_kube env)) pool
                 (mp_finish req (mpt_ObservedGeneration (mp_Status pool)) (mp_Generation pool)
                   (mp_reconcileNormal env cluster))) } })"


section \<open>What the reconciler may send\<close>

text \<open>The requests of a machine pool's normal reconcile. A pool is created with at most eight user tags, an
  update never touches the expected node count, nothing is deleted, and scaling is allowed only when
  \<open>scalable\<close>.\<close>

definition user_tag_count :: "NodePool \<Rightarrow> nat" where
  "user_tag_count np = (case np_Spec np of
      None \<Rightarrow> 0
    | Some sp \<Rightarrow> (case nps_NodeTemplate sp of
        None \<Rightarrow> 0 | Some t \<Rightarrow> (case nt_UserTags t of None \<Rightarrow> 0 | Some ts \<Rightarrow> length ts)))"

fun pool_request :: "bool \<Rightarrow> request \<Rightarrow> bool" where
  "pool_request scalable (CceReq (CreateNodePoolReq c np)) \<longleftrightarrow> user_tag_count np \<le> 8"
| "pool_request scalable (CceReq (UpdateNodePoolReq c p u)) \<longleftrightarrow> npu_IgnoreInitialNodeCount u = Some True"
| "pool_request scalable (CceReq (ScaleNodePoolReq c p n gs)) \<longleftrightarrow> scalable \<and> 0 \<le> sint n"
| "pool_request scalable (CceReq (ListNodePoolsReq c)) \<longleftrightarrow> True"
| "pool_request scalable (CceReq (UpgradeNodePoolReq c p n)) \<longleftrightarrow> 1 \<le> sint n \<and> sint n \<le> 20"
| "pool_request scalable (CceReq (ListNodesReq c m l)) \<longleftrightarrow> True"
| "pool_request scalable (CceReq (ResetNodeReq c ns)) \<longleftrightarrow> ns \<noteq> []"
| "pool_request scalable _ \<longleftrightarrow> False"

lemma wp_mp_obj [wp_simps]:
  "wp (mp_status f) Q s = Q () (s \<lparr> rs_obj := (rs_obj s) \<lparr> mp_Status := f (mp_Status (rs_obj s)) \<rparr> \<rparr>)"
  "wp (mp_spec g) Q s = Q () (s \<lparr> rs_obj := (rs_obj s) \<lparr> mp_Spec := g (mp_Spec (rs_obj s)) \<rparr> \<rparr>)"
  by (simp_all add: mp_status_def mp_spec_def wp_simps)

text \<open>Along a reconcile: the history grew by such requests only, and the object kept its name.\<close>

definition pool_inv :: "(request \<Rightarrow> bool) \<Rightarrow> history \<Rightarrow> string \<Rightarrow> ('k, history) mp_state \<Rightarrow> bool" where
  "pool_inv P tr nm st \<longleftrightarrow> extends P tr (rs_cloud st) \<and> mp_Name (rs_obj st) = nm"

lemma keeps_in_cloud: "sends P m \<Longrightarrow> keeps (pool_inv P tr nm) (in_cloud m)"
  by (auto simp: keeps_def wp_in_cloud sends_def pool_inv_def elim!: wp_mono)

lemma keeps_elsewhere:
  "keeps (pool_inv P tr nm) (in_kube k)" "keeps (pool_inv P tr nm) (with_backoff b)"
  "(\<And>p. mp_Name (f p) = mp_Name p) \<Longrightarrow> keeps (pool_inv P tr nm) (modify_obj f)"
  by (auto simp: keeps_def wp_def in_kube_def with_backoff_def modify_obj_def pool_inv_def split: prod.splits)

lemma keeps_mp_helpers:
  "keeps (pool_inv P tr nm) (mp_status f)" "keeps (pool_inv P tr nm) (mp_spec g)"
  "keeps (pool_inv P tr nm) (mp_true lib a b c)" "keeps (pool_inv P tr nm) (mp_false lib a b c)"
  "keeps (pool_inv P tr nm) (creation_failed env e)" "keeps (pool_inv P tr nm) (scale_failed env e)"
  unfolding mp_status_def mp_spec_def mp_true_def mp_false_def creation_failed_def scale_failed_def
  by (intro only_intros keeps_elsewhere; simp)+

lemma keeps_read:
  "(\<And>p. mp_Name p = nm \<Longrightarrow> keeps (pool_inv P tr nm) (k p)) \<Longrightarrow> keeps (pool_inv P tr nm) (get_obj \<bind> k)"
  by (simp add: keeps_def wp_simps pool_inv_def)

lemma sum_post:
  assumes "I s' \<and> (\<forall>v. r = Inr v \<longrightarrow> keeps I (k v))" "\<And>e. keeps I (h e)"
  shows "(case r of Inl e \<Rightarrow> wp (h e) (\<lambda>_. I) | Inr v \<Rightarrow> wp (k v) (\<lambda>_. I)) s'"
  using assms by (auto simp: keeps_def split: sum.splits)

lemma keeps_onE_result:
  assumes "keeps I m" "\<And>e. keeps I (h e)" "\<And>w v. fst (run_state m w) = Inr v \<Longrightarrow> keeps I (k v)"
  shows "keeps I (onE m h k)"
  unfolding keeps_def wp_onE
proof (intro allI impI)
  fix w assume "I w"
  then have "wp m (\<lambda>r s'. I s' \<and> (\<forall>v. r = Inr v \<longrightarrow> keeps I (k v))) w"
    using assms(1,3) by (simp add: keeps_def wp_run)
  then show "wp m (case_sum (\<lambda>e. wp (h e) (\<lambda>_. I)) (\<lambda>v. wp (k v) (\<lambda>_. I))) w"
    by (rule wp_mono) (rule sum_post[OF _ assms(2)])
qed

lemmas mp_keeps = only_intros keeps_elsewhere keeps_mp_helpers keeps_in_cloud

lemma sends_CreateNodePool:
  assumes "length (cni_Tags i) \<le> 6"
  shows "sends (pool_request b) (CreateNodePool s i)"
proof -
  have "pool_request b (CceReq (CreateNodePoolReq c np))" if "build_node_pool i = Inr np" for c np
    using that assms composed_length(2)[of "cni_ClusterName i" "cni_Tags i"]
    by (auto simp: build_node_pool_def user_tag_count_def node_pool_spec_def node_template_def split: if_splits sum.splits option.splits)
  then show ?thesis
    by (auto simp: CreateNodePool_def findNodePoolIDByName_def ListNodePools_def intro!: sends_intros)
qed

lemma sends_paginateAll:
  "(\<And>m. sends P (fetch m)) \<Longrightarrow> sends P (paginateAll fuel page fetch marker acc)"
  by (induction fuel arbitrary: marker acc) (auto simp: Let_def intro!: sends_intros)

lemma sends_pool_operations:
  "b \<Longrightarrow> sends (pool_request b) (ScaleNodePool s c p n)"
  "uni_IgnoreInitialNodeCount i \<Longrightarrow> sends (pool_request b) (UpdateNodePool s i)"
  "sends (pool_request b) (UpgradeNodePool s c p m)"
  "sends (pool_request b) (ListNodePools s c)"
  "sends (pool_request b) (ReconcileNodePoolTags s c p cl u pools)"
  "sends (pool_request b) (ListNodes fuel s c p)"
  "sends (pool_request b) (ListNodesWithStatus fuel s c)"
  "ns \<noteq> [] \<Longrightarrow> sends (pool_request b) (ResetNode s c ns)"
  by (auto simp: ScaleNodePool_def UpdateNodePool_def node_pool_update_def UpgradeNodePool_def ListNodePools_def
      ReconcileNodePoolTags_def tag_update_input_def ListNodes_def ListNodesWithStatus_def listAllNodes_def fetch_nodes_def
      ResetNode_def word_sless_alt Let_def intro!: sends_intros sends_paginateAll)

lemma client_service_pools [simp]:
  "svc_CreateNodePool (client_service fuel cd s) = CreateNodePool s"
  "svc_ScaleNodePool (client_service fuel cd s) = ScaleNodePool s"
  "svc_UpdateNodePool (client_service fuel cd s) = UpdateNodePool s"
  "svc_DeleteNodePool (client_service fuel cd s) = DeleteNodePool s"
  "svc_ListNodePools (client_service fuel cd s) = ListNodePools s"
  "svc_ReconcileNodePoolTags (client_service fuel cd s) = ReconcileNodePoolTags s"
  "svc_ListNodes (client_service fuel cd s) = ListNodes fuel s"
  "svc_ListNodesWithStatus (client_service fuel cd s) = ListNodesWithStatus fuel s"
  "svc_ResetNode (client_service fuel cd s) = ResetNode s"
  "svc_UpgradeNodePool (client_service fuel cd s) = UpgradeNodePool s"
  by (simp_all add: client_service_def)


text \<open>Every listing finds an owner that carries the external autoscaler's annotation.\<close>

definition owner_external :: "('k, 'c) mp_env \<Rightarrow> string \<Rightarrow> bool" where
  "owner_external env nm \<longleftrightarrow> (\<forall>ns cl w ms. fst (run_state (kb_ListMachinePools (mpe_kube env) ns cl) w) = Inr ms \<longrightarrow>
     externally_managed (mpe_lib env) (find (\<lambda>m. cmp_InfrastructureRefName m = nm) ms))"

lemma owner_external_found:
  assumes "owner_external env (mp_Name pool)" "fst (run_state (findOwnerMachinePool (mpe_kube env) pool) w) = Inr owner"
  shows "externally_managed (mpe_lib env) owner"
proof -
  obtain ms where "fst (run_state (kb_ListMachinePools (mpe_kube env) (mp_Namespace pool) (mps_ClusterName (mp_Spec pool))) w) = Inr ms"
    "owner = find (\<lambda>m. cmp_InfrastructureRefName m = mp_Name pool) ms"
    using assms(2) by (auto simp: findOwnerMachinePool_def tryE_def wrapE_def ok_def fail_def split: sum.splits prod.splits)
  then show ?thesis using assms(1) by (auto simp: owner_external_def)
qed

lemma keeps_finish_pool:
  "keeps (pool_inv (pool_request b) tr nm) (finish_pool env (client_service fuel cd s) c)"
  unfolding finish_pool_def client_service_pools reconcileNodeRepair_def Let_def
  by (intro mp_keeps sends_intros sends_pool_operations; assumption)

lemma keeps_refresh_pool:
  "keeps (pool_inv (pool_request b) tr nm) k \<Longrightarrow> keeps (pool_inv (pool_request b) tr nm) (refresh_pool env external owner pools k)"
  unfolding refresh_pool_def refresh_one_def Let_def
  by (auto intro!: mp_keeps split: prod.splits)

lemma keeps_update_pool:
  "keeps (pool_inv (pool_request b) tr nm) k \<Longrightarrow>
     keeps (pool_inv (pool_request b) tr nm) (update_pool env (client_service fuel cd s) c groups k)"
  unfolding update_pool_def Let_def client_service_pools
  by (intro mp_keeps sends_pool_operations) (simp_all add: attrs_update_def)

lemma keeps_scale_pool:
  "(\<not> external \<Longrightarrow> b) \<Longrightarrow> keeps (pool_inv (pool_request b) tr nm) k \<Longrightarrow>
     keeps (pool_inv (pool_request b) tr nm) (scale_pool env (client_service fuel cd s) c external k)"
  unfolding scale_pool_def Let_def client_service_pools
  by (auto intro!: mp_keeps sends_pool_operations)

lemma keeps_ensure_pool:
  "keeps (pool_inv (pool_request b) tr nm) k \<Longrightarrow>
     keeps (pool_inv (pool_request b) tr nm) (ensure_pool env (client_service fuel cd s) cp groups k)"
  unfolding ensure_pool_def Let_def client_service_pools
  by (intro mp_keeps sends_CreateNodePool) (auto simp: ValidateMergedTags_def ValidateNodePool_iff)


lemma keeps_converge_pool:
  assumes "owner_external env nm \<or> b"
  shows "keeps (pool_inv (pool_request b) tr nm) (converge_pool env (client_service fuel cd s) cp groups)"
proof -
  have scalable: "b" if "mp_Name p = nm" "fst (run_state (in_kube (findOwnerMachinePool (mpe_kube env) p)) w) = Inr owner"
      "\<not> externally_managed (mpe_lib env) owner" for p w owner
  proof -
    have "fst (run_state (findOwnerMachinePool (mpe_kube env) p) (rs_kube w)) = Inr owner"
      using that(2) by (simp add: in_kube_def split: prod.splits)
    then show ?thesis using owner_external_found[of env p] assms that(1,3) by blast
  qed
  show ?thesis
    unfolding converge_pool_def Let_def client_service_pools
    by (intro keeps_ensure_pool keeps_read keeps_onE_result keeps_bind keeps_scale_pool keeps_update_pool keeps_refresh_pool
        keeps_finish_pool keeps_if keeps_return keeps_results keeps_elsewhere keeps_mp_helpers keeps_in_cloud
        sends_pool_operations) (use scalable in blast)+
qed

lemma keeps_mp_service_for:
  assumes "quiet_provider (mpe_provider env)"
  shows "keeps (pool_inv P tr nm) (mp_service_for env cluster cp pool)"
  unfolding mp_service_for_def using sends_Resolve[OF assms] by (auto intro!: mp_keeps split: prod.splits)

lemma mp_service_client:
  assumes "mpe_ServiceFactory env = (\<lambda>_ _. Inr svc0)" "fst (run_state (mp_service_for env cluster cp pool) w) = Inr svc"
  shows "svc = svc0"
  using assms by (auto simp: mp_service_for_def tryE_def ok_def fail_def split: sum.splits prod.splits)

text \<open>C18: What a machine pool's reconcile may ask of the platform, whatever the platform and Kubernetes answer.
  Over the SDK-backed service, a pass sends only listings and: creates with at most eight user tags, updates
  that keep the expected node count, rolling syncs of 1 to 20 nodes, resets of named nodes, and scalings to a
  non-negative size. It deletes nothing, and it never scales a pool whose owner is managed by an external
  autoscaler.\<close>

theorem machine_pool_requests:
  assumes "mpe_ServiceFactory env = (\<lambda>_ _. Inr (client_service fuel cd s))"
    and "quiet_provider (mpe_provider env)"
    and "run_state (mp_reconcileNormal env cluster) st = (r, st')"
  shows "extends (pool_request (\<not> owner_external env (mp_Name (rs_obj st)))) (rs_cloud st) (rs_cloud st')"
proof -
  let ?I = "pool_inv (pool_request (\<not> owner_external env (mp_Name (rs_obj st)))) (rs_cloud st) (mp_Name (rs_obj st))"
  have "keeps ?I (mp_reconcileNormal env cluster)"
    unfolding mp_reconcileNormal_def
  proof (intro keeps_bind keeps_get_obj keeps_if keeps_results keeps_onE_result keeps_elsewhere keeps_mp_helpers
      keeps_mp_service_for[OF assms(2)])
    fix pool cp w svc groups
    assume "fst (run_state (mp_service_for env cluster cp pool) w) = Inr svc"
    then have "svc = client_service fuel cd s" by (rule mp_service_client[OF assms(1)])
    then show "keeps ?I (converge_pool env svc cp groups)"
      using keeps_converge_pool[of env "mp_Name (rs_obj st)" "\<not> owner_external env (mp_Name (rs_obj st))"] by simp
  qed simp_all
  moreover have "?I st" by (simp add: pool_inv_def)
  ultimately have "?I (snd (run_state (mp_reconcileNormal env cluster) st))" by (rule keepsD)
  then show ?thesis using assms(3) by (simp add: pool_inv_def)
qed


section \<open>The finalizer of a machine pool\<close>

lemma wp_mp_mark [wp_simps]:
  "wp (mp_true lib ty r m) Q s = Q () (s \<lparr> rs_obj := (rs_obj s) \<lparr> mp_Status := (mp_Status (rs_obj s)) \<lparr> mpt_Conditions :=
      MarkTrue lib ty r m (mpt_Conditions (mp_Status (rs_obj s))) \<rparr> \<rparr> \<rparr>)"
  "wp (mp_false lib ty r m) Q s = Q () (s \<lparr> rs_obj := (rs_obj s) \<lparr> mp_Status := (mp_Status (rs_obj s)) \<lparr> mpt_Conditions :=
      MarkFalse lib ty r m (mpt_Conditions (mp_Status (rs_obj s))) \<rparr> \<rparr> \<rparr>)"
  by (simp_all add: mp_true_def mp_false_def wp_simps)

text \<open>The history ends with a listing of the cluster's node pools that does not show the pool.\<close>

definition listed_gone :: "Client \<Rightarrow> string \<Rightarrow> string \<Rightarrow> history \<Rightarrow> bool" where
  "listed_gone s c pid w \<longleftrightarrow> (\<exists>pre ps. w = pre @ [CceReq (ListNodePoolsReq c)] \<and>
     fst (run_state (ListNodePools s c) pre) = Inr ps \<and> (\<forall>p \<in> set ps. npi_NodePoolID p \<noteq> pid))"

text \<open>The hypothesis about the Kubernetes client: the object a patch returns has the finalizers it was sent.\<close>

definition pool_patch_keeps :: "'k kube_client \<Rightarrow> bool" where
  "pool_patch_keeps c \<longleftrightarrow> (\<forall>orig p k p' k'. run_state (kb_PatchMachinePool c orig p) k = (Inr p', k') \<longrightarrow>
     mp_Finalizers p' = mp_Finalizers p)"

definition pool_safe :: "Client \<Rightarrow> string \<Rightarrow> string \<Rightarrow> ('k, history) mp_state \<Rightarrow> bool" where
  "pool_safe s c pid st \<longleftrightarrow> MachinePoolFinalizer \<in> set (mp_Finalizers (rs_obj st)) \<or> listed_gone s c pid (rs_cloud st)"

lemma wp_cloud_kept:
  "wp (release_pool env) (\<lambda>_ st'. rs_cloud st' = rs_cloud st) st"
  "wp (clear_pool_id env (release_pool env)) (\<lambda>_ st'. rs_cloud st' = rs_cloud st) st"
proof -
  have keep: "keeps (\<lambda>st. rs_cloud st = w) (in_kube m)" "keeps (\<lambda>st. rs_cloud st = w) (modify_obj f)"
    for w and m :: "('k, 'x) state" and f :: "CCEManagedMachinePool \<Rightarrow> CCEManagedMachinePool"
    by (auto simp: keeps_def wp_def in_kube_def modify_obj_def split: prod.splits)
  have "keeps (\<lambda>st'. rs_cloud st' = rs_cloud st) (release_pool env)"
    "keeps (\<lambda>st'. rs_cloud st' = rs_cloud st) (clear_pool_id env (release_pool env))"
    unfolding clear_pool_id_def release_pool_def mp_status_def
    by (intro keeps_bind keeps_onE keeps_results keeps_get_obj keep)+
  then show "wp (release_pool env) (\<lambda>_ st'. rs_cloud st' = rs_cloud st) st"
    "wp (clear_pool_id env (release_pool env)) (\<lambda>_ st'. rs_cloud st' = rs_cloud st) st"
    by (auto intro: keeps_wp)
qed

lemma poll_pool_keeps:
  assumes "pool_patch_keeps (mpe_kube env)" "MachinePoolFinalizer \<in> set (mp_Finalizers (rs_obj st))"
  shows "wp (poll_pool env) (\<lambda>_ st'. MachinePoolFinalizer \<in> set (mp_Finalizers (rs_obj st'))) st"
proof -
  let ?p = "rs_obj st \<lparr> mp_Annotations := AList.update nodePoolDeletePollAnnotation (itoa (mpe_now env div 60000000000))
      (mp_Annotations (rs_obj st)) \<rparr>"
  have "mp_Finalizers p' = mp_Finalizers (rs_obj st)"
    if "fst (run_state (kb_PatchMachinePool (mpe_kube env) (rs_obj st) ?p) (rs_kube st)) = Inr p'" for p'
  proof -
    let ?run = "run_state (kb_PatchMachinePool (mpe_kube env) (rs_obj st) ?p) (rs_kube st)"
    have "?run = (Inr p', snd ?run)" using that by (simp add: prod_eq_iff)
    then have "mp_Finalizers p' = mp_Finalizers ?p"
      using assms(1) unfolding pool_patch_keeps_def by blast
    then show ?thesis by simp
  qed
  then show ?thesis
    using assms(2) by (simp add: poll_pool_def wp_simps Let_def wp_run[of "kb_PatchMachinePool _ _ _"] split: sum.splits)
qed


lemma wp_mp_service_for:
  assumes "mpe_ServiceFactory env = (\<lambda>_ _. Inr svc0)"
  shows "wp (mp_service_for env cluster cp pool) (\<lambda>r st'. rs_obj st' = rs_obj st \<and> (\<forall>svc. r = Inr svc \<longrightarrow> svc = svc0)) st"
  using assms
  by (auto simp: mp_service_for_def wp_simps wp_run[of "clusterRegion _ _ _"] wp_run[of "resolveControlPlaneCredentials _ _ _"]
      wp_run[of "Resolve _ _ _ _ _"] split: sum.splits prod.splits)

lemma delete_pool_part_safe:
  fixes st :: "('k, history) mp_state"
  assumes "mpe_ServiceFactory env = (\<lambda>_ _. Inr (client_service fuel cd s))" "pool_patch_keeps (mpe_kube env)"
    and "MachinePoolFinalizer \<in> set (mp_Finalizers (rs_obj st))" "cpt_ClusterID (cp_Status cp) \<noteq> []"
  shows "wp (delete_pool_part env cluster (Some cp) (clear_pool_id env (release_pool env)))
    (\<lambda>_. pool_safe s (cpt_ClusterID (cp_Status cp)) (mpt_NodePoolID (mp_Status (rs_obj st)))) st"
proof -
  let ?c = "cpt_ClusterID (cp_Status cp)" and ?pid = "mpt_NodePoolID (mp_Status (rs_obj st))"
  let ?q = "CceReq (ListNodePoolsReq ?c)"
  let ?safe = "pool_safe s ?c ?pid"
  have err: "wp (mp_after_delete_error e) (\<lambda>_. ?safe) st'" if "rs_obj st' = rs_obj st" for e and st' :: "('k, history) mp_state"
    using that assms(3) by (simp add: mp_after_delete_error_def wp_simps pool_safe_def)
  have poll: "wp (poll_pool env) (\<lambda>_. ?safe) st'" if "rs_obj st' = rs_obj st" for st' :: "('k, history) mp_state"
    using poll_pool_keeps[OF assms(2), of st'] assms(3) that by (auto simp: pool_safe_def elim!: wp_mono)
  have rest: "wp (clear_pool_id env (release_pool env)) (\<lambda>_. ?safe) st'"
    if "rs_cloud st' = w @ [?q]" "fst (run_state (ListNodePools s ?c) w) = Inr ps"
      "\<not> list_ex (\<lambda>p. npi_NodePoolID p = ?pid) ps" for w ps and st' :: "('k, history) mp_state"
  proof -
    have "listed_gone s ?c ?pid (rs_cloud st')"
      using that by (auto simp: listed_gone_def list_ex_iff)
    then show ?thesis
      by (intro wp_mono[OF wp_cloud_kept(2)]) (simp add: pool_safe_def)
  qed
  have list: "wp (onE (in_cloud (ListNodePools s ?c)) mp_after_delete_error (\<lambda>pools.
      if list_ex (\<lambda>p. npi_NodePoolID p = ?pid) pools
      then onE (in_cloud (DeleteNodePool s ?c ?pid)) mp_after_delete_error (\<lambda>_. poll_pool env)
      else clear_pool_id env (release_pool env))) (\<lambda>_. ?safe) st'" if "rs_obj st' = rs_obj st" for st' :: "('k, history) mp_state"
  proof -
    have run: "snd (run_state (ListNodePools s ?c) (rs_cloud st')) = rs_cloud st' @ [?q]" by (simp add: run_ListNodePools)
    show ?thesis
      unfolding wp_onE wp_in_cloud wp_run[of "ListNodePools _ _"]
      using err poll rest that run
      by (auto simp: wp_simps wp_run[of "DeleteNodePool _ _ _"] split: sum.splits simp del: wp_ListNodePools)
  qed
  have "wp (onE (mp_service_for env cluster cp (rs_obj st)) return_err (\<lambda>svc.
      onE (in_cloud (svc_ListNodePools svc ?c)) mp_after_delete_error (\<lambda>pools.
        if list_ex (\<lambda>p. npi_NodePoolID p = ?pid) pools
        then onE (in_cloud (svc_DeleteNodePool svc ?c ?pid)) mp_after_delete_error (\<lambda>_. poll_pool env)
        else clear_pool_id env (release_pool env)))) (\<lambda>_. ?safe) st"
    unfolding wp_onE[of "mp_service_for _ _ _ _"]
    by (rule wp_mono[OF wp_mp_service_for[OF assms(1)]])
      (use assms(3) list in \<open>auto simp: wp_requeue pool_safe_def split: sum.splits cong: if_cong simp del: wp_onE wp_in_cloud\<close>)
  then show ?thesis
    using assms(4) by (simp add: delete_pool_part_def wp_bind wp_get_obj)
qed


text \<open>C16: A machine pool object outlives its node pool. A deletion pass over the SDK-backed service removes the
  finalizer only when no node pool is recorded, or no cluster is left that could hold one (no control plane is
  referenced, its object was reported missing, or it records no cluster), or when the last request of the pass
  was a successful listing of the cluster's node pools that no longer shows the recorded one. (A patch returns
  an object with the finalizers it was sent.)\<close>

theorem pool_finalizer_removed_only_when_gone:
  fixes st :: "('k, history) mp_state"
  assumes "mpe_ServiceFactory env = (\<lambda>_ _. Inr (client_service fuel cd s))" and "pool_patch_keeps (mpe_kube env)"
    and "MachinePoolFinalizer \<in> set (mp_Finalizers (rs_obj st))"
    and "run_state (mp_reconcileDelete env cluster) st = (r, st')"
    and "MachinePoolFinalizer \<notin> set (mp_Finalizers (rs_obj st'))"
    and "mpt_NodePoolID (mp_Status (rs_obj st)) \<noteq> []" and "ccl_ControlPlaneRefName cluster \<noteq> []"
  shows "case fst (run_state (kb_GetControlPlane (mpe_kube env) (mp_Namespace (rs_obj st), ccl_ControlPlaneRefName cluster)) (rs_kube st)) of
      Inl err \<Rightarrow> is_kube KubeNotFound err
    | Inr cp \<Rightarrow> cpt_ClusterID (cp_Status cp) \<noteq> [] \<longrightarrow>
        listed_gone s (cpt_ClusterID (cp_Status cp)) (mpt_NodePoolID (mp_Status (rs_obj st))) (rs_cloud st')"
proof -
  let ?get = "run_state (kb_GetControlPlane (mpe_kube env) (mp_Namespace (rs_obj st), ccl_ControlPlaneRefName cluster)) (rs_kube st)"
  have "wp (mp_reconcileDelete env cluster) (\<lambda>_ st'. case fst ?get of
      Inl err \<Rightarrow> MachinePoolFinalizer \<in> set (mp_Finalizers (rs_obj st')) \<or> is_kube KubeNotFound err
    | Inr cp \<Rightarrow> cpt_ClusterID (cp_Status cp) \<noteq> [] \<longrightarrow>
        pool_safe s (cpt_ClusterID (cp_Status cp)) (mpt_NodePoolID (mp_Status (rs_obj st))) st') st"
  proof (cases "fst ?get")
    case (Inl err)
    then show ?thesis
      using assms(3,6,7)
      by (cases "is_kube KubeNotFound err")
        (simp add: wp_run, simp add: mp_reconcileDelete_def wp_simps Let_def wp_run[of "kb_GetControlPlane _ _"])
  next
    case (Inr cp)
    show ?thesis
    proof (cases "cpt_ClusterID (cp_Status cp) = []")
      case True
      then show ?thesis using Inr by (simp add: wp_run)
    next
      case False
      then show ?thesis
        using Inr assms(6,7) delete_pool_part_safe[OF assms(1,2) _ False, of "st \<lparr> rs_kube := snd ?get \<rparr>" cluster] assms(3)
        by (simp add: mp_reconcileDelete_def wp_bind wp_get_obj wp_in_kube Let_def wp_run[of "kb_GetControlPlane _ _"])
    qed
  qed
  then show ?thesis
    using assms(4,5) by (simp add: wp_run pool_safe_def split: sum.splits)
qed


section \<open>Witnesses\<close>

definition example_mp_spec :: CCEManagedMachinePoolSpec where
  "example_mp_spec = \<lparr> mps_ClusterName = ''demo'', mps_NodePoolName = ''demo-np'', mps_Flavor = ''c7.large.2'',
     mps_OS = ''Ubuntu 22.04'', mps_RootVolume = Some \<lparr> nv_Size = 50, nv_Type = '''' \<rparr>, mps_DataVolumes = [], mps_SSHKey = '''',
     mps_AvailabilityZone = ''cn-north-4a'', mps_Replicas = 3, mps_ProviderIDList = [], mps_BillingMode = 0, mps_Spot = False,
     mps_SpotPrice = '''', mps_ExtensionScaleGroups = [], mps_Taints = [], mps_Labels = [], mps_SecurityGroups = [''sg-1''],
     mps_Autoscaling = \<lparr> asc_Enable = False, asc_MinNodeCount = 0, asc_MaxNodeCount = 0 \<rparr>,
     mps_UpdateConfig = \<lparr> ucs_MaxUnavailable = 1 \<rparr>, mps_NodeRepair = None, mps_EcsGroupID = '''', mps_FaultDomain = '''',
     mps_DedicatedHostID = '''', mps_PreInstall = '''', mps_PostInstall = '''', mps_WaitPostInstallFinish = None,
     mps_AdditionalTags = [(''team'', ''a'')] \<rparr>"

definition example_mp :: CCEManagedMachinePool where
  "example_mp = \<lparr> mp_Name = ''demo-mp'', mp_Namespace = ''default'', mp_Generation = 1, mp_Annotations = [],
     mp_Finalizers = [MachinePoolFinalizer], mp_Deleting = False, mp_Spec = example_mp_spec,
     mp_Status = \<lparr> mpt_Ready = False, mpt_Replicas = 2, mpt_AvailableReplicas = 2, mpt_NodePoolID = ''p1'',
       mpt_LastAppliedSecurityGroups = [''sg-1''],
       mpt_LastAppliedAutoscaling = \<lparr> asc_Enable = False, asc_MinNodeCount = 0, asc_MaxNodeCount = 0 \<rparr>,
       mpt_ObservedGeneration = 1, mpt_Conditions = [] \<rparr> \<rparr>"

text \<open>The control plane is ready; the owning MachinePool asks for three nodes but leaves the size to an external
  autoscaler.\<close>

definition mp_kube :: "unit kube_client" where
  "mp_kube = example_kube \<lparr>
     kb_GetControlPlane := (\<lambda>_. ok (example_cp \<lparr> cp_Status := example_cp_status \<lparr> cpt_Ready := True \<rparr> \<rparr>)),
     kb_ListMachinePools := (\<lambda>ns _. ok [\<lparr> cmp_Name = ''mp'', cmp_Namespace = ns,
        cmp_Annotations = [(''cluster.x-k8s.io/replicas-managed-by'', ''autoscaler'')], cmp_Replicas = Some 3,
        cmp_InfrastructureRefKind = ''CCEManagedMachinePool'', cmp_InfrastructureRefName = ''demo-mp'' \<rparr>]) \<rparr>"

definition example_mp_env :: "cloud \<Rightarrow> (unit, history) mp_env" where
  "example_mp_env c = \<lparr> mpe_kube = mp_kube, mpe_scope = example_env, mpe_lib = example_lib, mpe_provider = None,
     mpe_ServiceFactory = (\<lambda>_ _. Inr (client_service 1 example_codec (example_client c))),
     mpe_NodePoolAutoscaling = False, mpe_unicode = (\<lambda>_. False), mpe_now = 0 \<rparr>"

definition mp_start :: "(unit, history) mp_state" where
  "mp_start = \<lparr> rs_kube = (), rs_cloud = [], rs_backoff = newBackoffTracker, rs_obj = example_mp \<rparr>"

lemma machine_pool_requests_witness:
  "rs_cloud (snd (run_state (mp_reconcileNormal (example_mp_env empty_cloud) example_capi_cluster) mp_start)) \<noteq> [] \<and>
   list_all (pool_request False)
     (rs_cloud (snd (run_state (mp_reconcileNormal (example_mp_env empty_cloud) example_capi_cluster) mp_start)))"
proof -
  let ?m = "mp_reconcileNormal (example_mp_env empty_cloud) example_capi_cluster"
  have ext: "owner_external (example_mp_env empty_cloud) (mp_Name (rs_obj mp_start))"
    by (auto simp: owner_external_def example_mp_env_def mp_kube_def mp_start_def example_mp_def externally_managed_def
        example_lib_def ok_def)
  have "extends (pool_request (\<not> owner_external (example_mp_env empty_cloud) (mp_Name (rs_obj mp_start)))) (rs_cloud mp_start)
      (rs_cloud (snd (run_state ?m mp_start)))"
    by (rule machine_pool_requests[where r = "fst (run_state ?m mp_start)" and cluster = example_capi_cluster])
      (simp_all add: example_mp_env_def quiet_provider_def)
  then have "list_all (pool_request False) (rs_cloud (snd (run_state ?m mp_start)))"
    using ext by (simp add: extends_def mp_start_def)
  moreover have "wp ?m (\<lambda>_ st'. rs_cloud st' \<noteq> []) mp_start"
    by (simp add: mp_reconcileNormal_def wp_simps mp_start_def example_mp_env_def mp_kube_def example_kube_def identity_kube_def
        empty_kube_def example_capi_cluster_def mp_service_for_def clusterRegion_def Let_def key_text_def example_cce_cluster_def
        resolveControlPlaneCredentials_def ResolveCredentials_def example_cp_def example_cp_spec_def example_cp_status_def
        get_str_def Resolve_def effective_groups_def example_mp_def example_mp_spec_def converge_pool_def ensure_pool_def
        findOwnerMachinePool_def scale_pool_def update_pool_def attrs_changed_def externally_managed_def example_lib_def
        ReconcileNodePoolTags_def nodePoolTagUpdateNeeded_def empty_cloud_def example_client_def refresh_pool_def)
  ultimately show ?thesis by (simp add: wp_run)
qed

lemma pool_finalizer_removed_only_when_gone_witness:
  "listed_gone (example_client empty_cloud) ''c1'' ''p1''
     (rs_cloud (snd (run_state (mp_reconcileDelete (example_mp_env empty_cloud) example_capi_cluster) mp_start)))"
proof -
  let ?m = "mp_reconcileDelete (example_mp_env empty_cloud) example_capi_cluster"
  have patch: "pool_patch_keeps (mpe_kube (example_mp_env empty_cloud))"
    by (simp add: pool_patch_keeps_def example_mp_env_def mp_kube_def example_kube_def identity_kube_def empty_kube_def ok_def)
  have "wp ?m (\<lambda>_ st'. MachinePoolFinalizer \<notin> set (mp_Finalizers (rs_obj st'))) mp_start"
    by (simp add: mp_reconcileDelete_def wp_simps mp_start_def example_mp_env_def mp_kube_def example_kube_def identity_kube_def
        empty_kube_def example_capi_cluster_def mp_service_for_def clusterRegion_def Let_def key_text_def example_cce_cluster_def
        resolveControlPlaneCredentials_def ResolveCredentials_def example_cp_def example_cp_spec_def example_cp_status_def
        get_str_def Resolve_def example_mp_def delete_pool_part_def clear_pool_id_def release_pool_def empty_cloud_def
        example_client_def example_lib_def)
  then show ?thesis
    using pool_finalizer_removed_only_when_gone[of "example_mp_env empty_cloud" 1 example_codec "example_client empty_cloud"
        mp_start example_capi_cluster "fst (run_state ?m mp_start)" "snd (run_state ?m mp_start)"] patch
    by (simp add: wp_run example_mp_env_def mp_start_def example_mp_def example_capi_cluster_def mp_kube_def ok_def
        example_cp_status_def)
qed

end
