(* ===== verification/Webhooks.thy ===== *)
theory Webhooks
  imports TagsValidate CpController
begin

text \<open>
  The admission webhooks of \<open>api/controlplane/v1beta2\<close> and \<open>api/infrastructure/v1beta2\<close>: defaulting and
  validation of control planes, machine pools, clusters, identities and their ClusterClass templates. A
  validation answers the list of field errors; the empty list admits the object (\<open>apierrors.NewInvalid\<close> wraps
  a non-empty one). \<open>ParseSemantic\<close> and \<open>LessThan\<close> of the Kubernetes version library are parameters.
\<close>

section \<open>Definitions\<close>

record semver =
  sv_ParseSemantic :: "string \<Rightarrow> bool"
  sv_LessThan :: "string \<Rightarrow> string \<Rightarrow> bool"

definition immutable :: "string \<Rightarrow> field_error" where
  "immutable path = FeInvalid path ''field is immutable after creation''"

definition path_index :: "string \<Rightarrow> nat \<Rightarrow> string" where
  "path_index p i = p @ ''['' @ itoa (int i) @ '']''"

definition DefaultFlavor :: string where "DefaultFlavor = ''cce.s1.small''"
definition minKubeVersionForIPv6 :: string where "minKubeVersionForIPv6 = ''v1.21.0''"

subsection \<open>Control planes\<close>

definition ipv6Enabled :: "bool option \<Rightarrow> bool" where
  "ipv6Enabled b \<longleftrightarrow> b = Some True"

definition applyControlPlaneDefaults :: "CCEManagedControlPlaneSpec \<Rightarrow> CCEManagedControlPlaneSpec" where
  "applyControlPlaneDefaults sp = (let
     sp1 = (if cns_Mode (cps_ContainerNetwork sp) = ''''
            then sp \<lparr> cps_ContainerNetwork := (cps_ContainerNetwork sp) \<lparr> cns_Mode := ModeENI \<rparr> \<rparr> else sp);
     sp2 = (if cps_Category sp1 = ''''
            then sp1 \<lparr> cps_Category := (if cns_Mode (cps_ContainerNetwork sp1) = ModeENI then ''Turbo'' else ''CCE'') \<rparr> else sp1)
     in if cps_Flavor sp2 = '''' then sp2 \<lparr> cps_Flavor := DefaultFlavor \<rparr> else sp2)"

text \<open>\<open>cceFlavorRe\<close>: \<open>^cce\.s(\d+)\.([a-z0-9]+)$\<close>.\<close>

definition is_digit_char :: "char \<Rightarrow> bool" where
  "is_digit_char c \<longleftrightarrow> c \<in> set ''0123456789''"

definition is_lower_char :: "char \<Rightarrow> bool" where
  "is_lower_char c \<longleftrightarrow> c \<in> set ''abcdefghijklmnopqrstuvwxyz''"

definition cceFlavorSizes :: "(string \<times> int) list" where
  "cceFlavorSizes = [(''small'', 1), (''medium'', 2), (''large'', 3), (''xlarge'', 4),
     (''2xlarge'', 5), (''4xlarge'', 6), (''8xlarge'', 7), (''16xlarge'', 8)]"

definition cceFlavorMatch :: "string \<Rightarrow> (string \<times> string) option" where
  "cceFlavorMatch flavor = (case split_on CHR ''.'' flavor of
      [cce, s, sz] \<Rightarrow>
        if cce = ''cce'' \<and> has_prefix s ''s'' \<and> tl s \<noteq> [] \<and> list_all is_digit_char (tl s) \<and>
           sz \<noteq> [] \<and> list_all (\<lambda>c. is_lower_char c \<or> is_digit_char c) sz
        then Some (tl s, sz) else None
    | _ \<Rightarrow> None)"

text \<open>The rank is a Go \<open>int\<close>, 64 bits wide.\<close>

definition cceFlavorRank :: "string \<Rightarrow> 64 word option" where
  "cceFlavorRank flavor = (case cceFlavorMatch flavor of
      None \<Rightarrow> None
    | Some (scale, sz) \<Rightarrow> (case atoi scale of
        None \<Rightarrow> None
      | Some n \<Rightarrow> (case map_of cceFlavorSizes sz of
          None \<Rightarrow> None
        | Some k \<Rightarrow> Some (word_of_int n * 100 + word_of_int k))))"

text \<open>\<open>validate\<close>, one check after the other.\<close>

definition cidr_check :: "string \<Rightarrow> string \<Rightarrow> string \<Rightarrow> field_error list" where
  "cidr_check path cidr detail = (if ParseCIDR cidr = None then [FeInvalid path detail] else [])"

definition cp_mode_errors :: "CCEManagedControlPlaneSpec \<Rightarrow> field_error list" where
  "cp_mode_errors sp = (let mode = cns_Mode (cps_ContainerNetwork sp); cat = cps_Category sp in
     (if cat \<notin> {'''', ''CCE'', ''Turbo''} then [FeInvalid (new_path [''spec'', ''category'']) ''must be CCE or Turbo''] else []) @
     (if mode = ModeENI \<and> cat = ''CCE''
      then [FeInvalid (new_path [''spec'', ''containerNetwork'', ''mode'']) ''eni mode requires category Turbo''] else []) @
     (if mode = ModeVPCRouter \<and> cat = ''Turbo''
      then [FeInvalid (new_path [''spec'', ''containerNetwork'', ''mode'']) ''vpc-router mode requires category CCE''] else []) @
     (if mode = ModeENI \<and> cns_ENISubnets (cps_ContainerNetwork sp) = []
      then [FeRequired (new_path [''spec'', ''containerNetwork'', ''eniSubnets''])
        ''eni mode requires at least one ENI subnet (official eniNetwork.subnets)''] else []) @
     (if ipv6Enabled (cps_EnableDataPlaneV2 sp) \<and> mode \<noteq> ModeENI \<and> mode \<noteq> ModeVPCRouter
      then [FeInvalid (new_path [''spec'', ''enableDataPlaneV2''])
        ''DataPlane V2 requires containerNetwork.mode=eni (Turbo) or vpc-router (Standard)''] else []))"

definition cp_auth_errors :: "CCEManagedControlPlaneSpec \<Rightarrow> field_error list" where
  "cp_auth_errors sp =
     (if bil_Mode (cps_Billing sp) = 1
      then [FeInvalid (new_path [''spec'', ''billing'', ''mode''])
        ''subscription billing is not supported yet (periodType/periodNum not exposed)''] else []) @
     (case cps_Authentication sp of
        None \<Rightarrow> []
      | Some a \<Rightarrow> if aus_Mode a = ''authenticating_proxy'' \<and>
            (case aus_AuthenticatingProxy a of None \<Rightarrow> True
             | Some p \<Rightarrow> aps_CA p = '''' \<or> aps_Cert p = '''' \<or> aps_PrivateKey p = '''')
          then [FeRequired (new_path [''spec'', ''authentication'', ''authenticatingProxy''])
            ''authenticating_proxy mode requires ca, cert and privateKey''] else [])"

definition cp_version_errors :: "semver \<Rightarrow> CCEManagedControlPlaneSpec \<Rightarrow> field_error list" where
  "cp_version_errors sv sp = (let v = cps_Version sp in
     (if v \<noteq> '''' \<and> \<not> sv_ParseSemantic sv v
      then [FeInvalid (new_path [''spec'', ''version'']) ''must be a semver (e.g. v1.30.1 or v1.30.1-rc.1)''] else []) @
     (if ipv6Enabled (cps_Ipv6Enable sp) \<and> v \<noteq> '''' \<and> sv_ParseSemantic sv v \<and> sv_LessThan sv v minKubeVersionForIPv6
      then [FeInvalid (new_path [''spec'', ''version'']) ''IPv6 dual-stack requires Kubernetes v1.21.0 or later''] else []))"

definition cp_network_errors :: "CCEManagedControlPlaneSpec \<Rightarrow> field_error list" where
  "cp_network_errors sp = (let cn = cps_ContainerNetwork sp; sn = cps_ServiceNetwork sp in
     (if sns_CIDR sn \<noteq> '''' then cidr_check (new_path [''spec'', ''serviceNetwork'', ''cidr'']) (sns_CIDR sn)
        ''must be a valid IPv4/IPv6 CIDR (e.g. 10.247.0.0/16)'' else []) @
     (if ipv6Enabled (cps_Ipv6Enable sp) \<and> sns_IPv6CIDR sn = ''''
      then [FeRequired (new_path [''spec'', ''serviceNetwork'', ''ipv6CIDR'']) ''ipv6CIDR is required when ipv6enable is true''] else []) @
     (if sns_IPv6CIDR sn \<noteq> '''' then cidr_check (new_path [''spec'', ''serviceNetwork'', ''ipv6CIDR'']) (sns_IPv6CIDR sn)
        ''must be a valid IPv6 CIDR (e.g. fd00::/112)'' else []) @
     concat (map (\<lambda>(i, cidr). let p = path_index (new_path [''spec'', ''containerNetwork'', ''cidrs'']) i in
        cidr_check p cidr ''must be a valid IPv4/IPv6 CIDR'' @
        (if cns_CIDR cn \<noteq> '''' \<and> cidr = cns_CIDR cn
         then [FeInvalid p ''must not be equal to the primary container network CIDR''] else []))
       (List.enumerate 0 (cns_CIDRs cn))) @
     concat (map (\<lambda>(i, cidr). cidr_check (path_index (new_path [''spec'', ''endpointAccess'', ''cidrs'']) i) cidr
        ''must be a valid IPv4/IPv6 CIDR'') (List.enumerate 0 (eas_CIDRs (cps_EndpointAccess sp)))) @
     (if \<not> eas_Private (cps_EndpointAccess sp)
      then [FeForbidden (new_path [''spec'', ''endpointAccess'', ''private''])
        ''private cannot be disabled (CCE always exposes a VPC-internal endpoint)''] else []))"

definition cp_validate :: "(nat \<Rightarrow> bool) \<Rightarrow> semver \<Rightarrow> CCEManagedControlPlaneSpec \<Rightarrow> field_error list" where
  "cp_validate u sv sp =
     (if cps_ClusterName sp = '''' then [FeRequired (new_path [''spec'', ''clusterName'']) ''clusterName is required''] else []) @
     cp_mode_errors sp @
     cp_auth_errors sp @
     (if cns_CIDR (cps_ContainerNetwork sp) \<noteq> ''''
      then cidr_check (new_path [''spec'', ''containerNetwork'', ''cidr'']) (cns_CIDR (cps_ContainerNetwork sp))
        ''must be a valid IPv4/IPv6 CIDR (e.g. 10.0.0.0/16)'' else []) @
     cp_version_errors sv sp @
     cp_network_errors sp @
     tags_Validate u (new_path [''spec'', ''additionalTags'']) (cps_AdditionalTags sp)"


text \<open>\<open>ValidateUpdate\<close>: the errors of the new object alone are answered first.\<close>

definition cp_fixed_errors :: "CCEManagedControlPlaneSpec \<Rightarrow> CCEManagedControlPlaneSpec \<Rightarrow> field_error list" where
  "cp_fixed_errors old new =
     (if cps_ClusterName old \<noteq> cps_ClusterName new then [immutable (new_path [''spec'', ''clusterName''])] else []) @
     (if cns_CIDR (cps_ContainerNetwork old) \<noteq> cns_CIDR (cps_ContainerNetwork new)
      then [immutable (new_path [''spec'', ''containerNetwork'', ''cidr''])] else []) @
     (if cns_Mode (cps_ContainerNetwork old) \<noteq> cns_Mode (cps_ContainerNetwork new)
      then [immutable (new_path [''spec'', ''containerNetwork'', ''mode''])] else []) @
     (if cps_Category old \<noteq> cps_Category new then [immutable (new_path [''spec'', ''category''])] else []) @
     (case (cps_EncryptionConfig old, cps_EncryptionConfig new) of
        (Some a, Some b) \<Rightarrow> if ecs_Mode a \<noteq> ecs_Mode b then [immutable (new_path [''spec'', ''encryptionConfig'', ''mode''])] else []
      | _ \<Rightarrow> []) @
     (case (cps_Authentication old, cps_Authentication new) of
        (Some a, Some b) \<Rightarrow> if aus_Mode a \<noteq> aus_Mode b then [immutable (new_path [''spec'', ''authentication'', ''mode''])] else []
      | _ \<Rightarrow> [])"

definition cp_downgrade_errors :: "semver \<Rightarrow> CCEManagedControlPlaneSpec \<Rightarrow> CCEManagedControlPlaneSpec \<Rightarrow> field_error list" where
  "cp_downgrade_errors sv old new =
     (if cps_Version old \<noteq> '''' \<and> cps_Version new \<noteq> '''' \<and> sv_ParseSemantic sv (cps_Version old) \<and>
         sv_ParseSemantic sv (cps_Version new) \<and> sv_LessThan sv (cps_Version new) (cps_Version old)
      then [FeInvalid (new_path [''spec'', ''version'']) ''version cannot be downgraded''] else []) @
     (if cps_Flavor old \<noteq> '''' \<and> cps_Flavor new \<noteq> '''' \<and> cps_Flavor old \<noteq> cps_Flavor new then
        (case (cceFlavorRank (cps_Flavor old), cceFlavorRank (cps_Flavor new)) of
           (Some a, Some b) \<Rightarrow> if b <s a then [FeInvalid (new_path [''spec'', ''flavor''])
               ''flavor cannot be downgraded (cluster capacity can only be scaled up)''] else []
         | _ \<Rightarrow> [])
      else [])"

definition cp_removal_errors :: "CCEManagedControlPlaneSpec \<Rightarrow> CCEManagedControlPlaneSpec \<Rightarrow> field_error list" where
  "cp_removal_errors old new =
     (if cps_EncryptionConfig old \<noteq> None \<and> cps_EncryptionConfig new = None
      then [FeForbidden (new_path [''spec'', ''encryptionConfig'']) ''encryptionConfig cannot be removed once set''] else []) @
     (if cps_IdentityRef old \<noteq> None \<and> cps_IdentityRef new = None
      then [FeForbidden (new_path [''spec'', ''identityRef'']) ''identityRef cannot be removed once set''] else []) @
     (if ipv6Enabled (cps_EnableDataPlaneV2 old) \<noteq> ipv6Enabled (cps_EnableDataPlaneV2 new)
      then [immutable (new_path [''spec'', ''enableDataPlaneV2''])] else []) @
     (if ipv6Enabled (cps_Ipv6Enable old) \<noteq> ipv6Enabled (cps_Ipv6Enable new)
      then [immutable (new_path [''spec'', ''ipv6enable''])] else [])"

definition cp_ValidateUpdate :: "(nat \<Rightarrow> bool) \<Rightarrow> semver \<Rightarrow> CCEManagedControlPlaneSpec \<Rightarrow> CCEManagedControlPlaneSpec \<Rightarrow> field_error list" where
  "cp_ValidateUpdate u sv old new = (case cp_validate u sv new of
      [] \<Rightarrow> cp_fixed_errors old new @ cp_downgrade_errors sv old new @ cp_removal_errors old new
    | errs \<Rightarrow> errs)"

definition cp_ValidateCreate :: "(nat \<Rightarrow> bool) \<Rightarrow> semver \<Rightarrow> CCEManagedControlPlaneSpec \<Rightarrow> field_error list" where
  "cp_ValidateCreate u sv sp = cp_validate u sv sp"

subsection \<open>Machine pools\<close>

definition maxTaints :: nat where "maxTaints = 20"
definition maxSecurityGroups :: nat where "maxSecurityGroups = 5"
definition minRootVolumeGiB :: int32 where "minRootVolumeGiB = 40"
definition maxRootVolumeGiB :: int32 where "maxRootVolumeGiB = 1024"
definition maxUnavailableLimit :: int32 where "maxUnavailableLimit = 20"
definition defaultMaxUnavailable :: int32 where "defaultMaxUnavailable = 1"

text \<open>\<open>flavorPattern\<close>: \<open>^[a-z][a-z0-9]*(\.[a-z0-9]+)?\.[0-9]+(\.[0-9]+)?$\<close>, by its parts between dots.\<close>

definition flavorPattern :: "string \<Rightarrow> bool" where
  "flavorPattern s \<longleftrightarrow> (let
     word = (\<lambda>p. p \<noteq> [] \<and> list_all (\<lambda>c. is_lower_char c \<or> is_digit_char c) p);
     family = (\<lambda>p. word p \<and> is_lower_char (hd p));
     number = (\<lambda>p. p \<noteq> [] \<and> list_all is_digit_char p) in
     case split_on CHR ''.'' s of
       [a, b] \<Rightarrow> family a \<and> number b
     | [a, b, c] \<Rightarrow> family a \<and> word b \<and> number c
     | [a, b, c, d] \<Rightarrow> family a \<and> word b \<and> number c \<and> number d
     | _ \<Rightarrow> False)"

definition applyMachinePoolDefaults :: "CCEManagedMachinePoolSpec \<Rightarrow> CCEManagedMachinePoolSpec" where
  "applyMachinePoolDefaults sp =
     (if ucs_MaxUnavailable (mps_UpdateConfig sp) = 0
      then sp \<lparr> mps_UpdateConfig := \<lparr> ucs_MaxUnavailable = defaultMaxUnavailable \<rparr> \<rparr> else sp)"

definition mp_Default :: "CCEManagedMachinePool \<Rightarrow> CCEManagedMachinePool" where
  "mp_Default mp = (let sp = mp_Spec mp; sp1 = (if mps_NodePoolName sp = '''' then sp \<lparr> mps_NodePoolName := mp_Name mp \<rparr> else sp) in
     mp \<lparr> mp_Spec := applyMachinePoolDefaults sp1 \<rparr>)"

definition mp_flavor_errors :: "string list \<Rightarrow> CCEManagedMachinePoolSpec \<Rightarrow> field_error list" where
  "mp_flavor_errors validFlavors sp = (let p = new_path [''spec'', ''flavor''] in
     if mps_Flavor sp = '''' then [FeRequired p ''flavor is required'']
     else if \<not> flavorPattern (mps_Flavor sp) then [FeInvalid p ''flavor must match the ECS flavor naming pattern, e.g. c6.large.2'']
     else if validFlavors \<noteq> [] \<and> mps_Flavor sp \<notin> set validFlavors then [FeNotSupported p validFlavors] else [])"

definition mp_group_errors :: "nat \<times> ExtensionScaleGroupSpec \<Rightarrow> field_error list" where
  "mp_group_errors ig = (case ig of (i, g) \<Rightarrow> let p = path_index (new_path [''spec'', ''extensionScaleGroups'']) i in
     (if egs_Flavor g = '''' then [FeRequired (path_child p ''flavor'') ''flavor is required'']
      else if \<not> flavorPattern (egs_Flavor g)
      then [FeInvalid (path_child p ''flavor'') ''flavor must match the ECS flavor naming pattern, e.g. c6.large.2''] else []) @
     (if egs_AvailabilityZone g = '''' then [FeRequired (path_child p ''availabilityZone'') ''availabilityZone is required''] else []))"

definition mp_template_errors :: "CCEManagedMachinePoolSpec \<Rightarrow> field_error list" where
  "mp_template_errors sp =
     (if mps_AvailabilityZone sp = '''' then [FeRequired (new_path [''spec'', ''availabilityZone''])
        ''availabilityZone is required (CCE does not support random AZ via API)''] else []) @
     (if mps_OS sp = '''' then [FeRequired (new_path [''spec'', ''os''])
        (''os is required unless a private image is used; supported values include '' @
         dquote @ ''Huawei Cloud EulerOS 2.0'' @ dquote @ '', '' @ dquote @ ''EulerOS release 2.9'' @ dquote @ '', '' @
         dquote @ ''Ubuntu 22.04'' @ dquote @ '' (exact string, see the CCE node OS list)'')] else []) @
     (case mps_RootVolume sp of
        None \<Rightarrow> [FeRequired (new_path [''spec'', ''rootVolume'']) ''rootVolume is required (official size range 40-1024 GiB)'']
      | Some v \<Rightarrow> if nv_Size v <s minRootVolumeGiB \<or> maxRootVolumeGiB <s nv_Size v
          then [FeInvalid (new_path [''spec'', ''rootVolume'', ''size'']) ''root volume size must be within [40, 1024] GiB''] else [])"

definition mp_scaling_errors :: "CCEManagedMachinePoolSpec \<Rightarrow> field_error list" where
  "mp_scaling_errors sp = (let mu = ucs_MaxUnavailable (mps_UpdateConfig sp); a = mps_Autoscaling sp in
     (if mu \<noteq> 0 \<and> (mu <s defaultMaxUnavailable \<or> maxUnavailableLimit <s mu)
      then [FeInvalid (new_path [''spec'', ''updateConfig'', ''maxUnavailable'']) ''maxUnavailable must be within [1, 20]''] else []) @
     (if asc_Enable a then
        (if asc_MinNodeCount a <s 0 then [FeInvalid (new_path [''spec'', ''autoscaling'', ''minNodeCount'']) ''must be greater than or equal to 0''] else []) @
        (if asc_MaxNodeCount a <s 0 then [FeInvalid (new_path [''spec'', ''autoscaling'', ''maxNodeCount'']) ''must be greater than or equal to 0''] else []) @
        (if asc_MaxNodeCount a <s asc_MinNodeCount a
         then [FeInvalid (new_path [''spec'', ''autoscaling'', ''maxNodeCount'']) ''must be greater than or equal to minNodeCount''] else [])
      else []))"

definition mp_validate :: "(nat \<Rightarrow> bool) \<Rightarrow> string list \<Rightarrow> CCEManagedMachinePoolSpec \<Rightarrow> field_error list" where
  "mp_validate u validFlavors sp =
     (if mps_ClusterName sp = '''' then [FeRequired (new_path [''spec'', ''clusterName'']) ''clusterName is required''] else []) @
     mp_flavor_errors validFlavors sp @
     (if length (mps_Taints sp) > maxTaints
      then [FeTooMany (new_path [''spec'', ''taints'']) (length (mps_Taints sp)) maxTaints] else []) @
     (if length (mps_SecurityGroups sp) > maxSecurityGroups
      then [FeTooMany (new_path [''spec'', ''securityGroups'']) (length (mps_SecurityGroups sp)) maxSecurityGroups] else []) @
     (if mps_BillingMode sp = 1 then [FeInvalid (new_path [''spec'', ''billingMode''])
        ''subscription billing is not supported yet (periodType/periodNum not exposed)''] else []) @
     concat (map mp_group_errors (List.enumerate 0 (mps_ExtensionScaleGroups sp))) @
     mp_template_errors sp @
     mp_scaling_errors sp @
     ValidateNodePool u (new_path [''spec'', ''additionalTags'']) (mps_AdditionalTags sp)"

definition mp_ValidateCreate :: "(nat \<Rightarrow> bool) \<Rightarrow> string list \<Rightarrow> CCEManagedMachinePoolSpec \<Rightarrow> field_error list" where
  "mp_ValidateCreate u validFlavors sp = mp_validate u validFlavors sp"

definition mp_ValidateUpdate :: "(nat \<Rightarrow> bool) \<Rightarrow> string list \<Rightarrow> CCEManagedMachinePoolSpec \<Rightarrow> CCEManagedMachinePoolSpec \<Rightarrow> field_error list" where
  "mp_ValidateUpdate u validFlavors old new = (case mp_validate u validFlavors new of
      [] \<Rightarrow> (if mps_NodePoolName old \<noteq> mps_NodePoolName new then [immutable (new_path [''spec'', ''nodePoolName''])] else [])
    | errs \<Rightarrow> errs)"


subsection \<open>Clusters\<close>

definition ic_validate :: "CCEClusterSpec \<Rightarrow> field_error list" where
  "ic_validate sp = (let vpc = ns_VPC (ics_Network sp) in
     (if ics_Region sp = '''' then [FeRequired (new_path [''spec'', ''region'']) ''region is required''] else []) @
     (if vpc_CIDR vpc \<noteq> '''' then cidr_check (new_path [''spec'', ''network'', ''vpc'', ''cidr'']) (vpc_CIDR vpc)
        ''must be a valid IPv4/IPv6 CIDR (e.g. 10.0.0.0/16)'' else []) @
     concat (map (\<lambda>(i, s). if sub_CIDR s = '''' then []
         else cidr_check (path_child (path_index (new_path [''spec'', ''network'', ''subnets'']) i) ''cidr'') (sub_CIDR s)
           ''must be a valid IPv4/IPv6 CIDR'') (List.enumerate 0 (ns_Subnets (ics_Network sp)))))"

definition ic_ValidateCreate :: "CCEClusterSpec \<Rightarrow> field_error list" where
  "ic_ValidateCreate sp = ic_validate sp"

definition ic_ValidateUpdate :: "CCEClusterSpec \<Rightarrow> CCEClusterSpec \<Rightarrow> field_error list" where
  "ic_ValidateUpdate old new = (case ic_validate new of
      [] \<Rightarrow> (if ics_Region old \<noteq> ics_Region new then [immutable (new_path [''spec'', ''region''])] else []) @
        (if vpc_ID (ns_VPC (ics_Network old)) \<noteq> '''' \<and> vpc_ID (ns_VPC (ics_Network old)) \<noteq> vpc_ID (ns_VPC (ics_Network new))
         then [immutable (new_path [''spec'', ''network'', ''vpc'', ''id''])] else [])
    | errs \<Rightarrow> errs)"

subsection \<open>Identities\<close>

text \<open>\<open>metav1.LabelSelectorAsSelector\<close> is the parameter \<open>valid\<close>. \<open>reflect.DeepEqual\<close> compares label maps as maps
  (nil and empty lists are the same value here).\<close>

definition cid_validate :: "(LabelSelector \<Rightarrow> bool) \<Rightarrow> CCEClusterControllerIdentity \<Rightarrow> field_error list" where
  "cid_validate valid i = (case cid_AllowedNamespaces i of
      None \<Rightarrow> []
    | Some al \<Rightarrow> if valid (aln_Selector al) then []
        else [FeInvalid (new_path [''spec'', ''allowedNamespaces'', ''selector'']) ''invalid selector''])"

definition cid_ValidateCreate :: "(LabelSelector \<Rightarrow> bool) \<Rightarrow> CCEClusterControllerIdentity \<Rightarrow> field_error list" where
  "cid_ValidateCreate valid i =
     (if cid_Name i \<noteq> ''default''
      then [FeInvalid (new_path [''metadata'', ''name'']) ''CCEClusterControllerIdentity must be named default'']
      else cid_validate valid i)"

fun same_namespaces :: "AllowedNamespaces option \<Rightarrow> AllowedNamespaces option \<Rightarrow> bool" where
  "same_namespaces None None \<longleftrightarrow> True"
| "same_namespaces (Some a) (Some b) \<longleftrightarrow> aln_NamespaceList a = aln_NamespaceList b \<and>
     map_eq (sel_MatchLabels (aln_Selector a)) (sel_MatchLabels (aln_Selector b)) \<and>
     sel_MatchExpressions (aln_Selector a) = sel_MatchExpressions (aln_Selector b)"
| "same_namespaces _ _ \<longleftrightarrow> False"

definition cid_ValidateUpdate :: "(LabelSelector \<Rightarrow> bool) \<Rightarrow> CCEClusterControllerIdentity \<Rightarrow> CCEClusterControllerIdentity \<Rightarrow> field_error list" where
  "cid_ValidateUpdate valid old new =
     (if cid_Name new \<noteq> cid_Name old then [FeInvalid (new_path [''metadata'', ''name'']) ''name is immutable on update'']
      else if \<not> same_namespaces (cid_AllowedNamespaces new) (cid_AllowedNamespaces old)
      then [FeInvalid (new_path [''spec'']) ''spec is immutable on update'']
      else cid_validate valid new)"

definition rid_validate :: "CCEClusterRoleIdentity \<Rightarrow> field_error list" where
  "rid_validate i = (if rid_AgencyName i = '''' then [FeRequired (new_path [''spec'', ''agencyName'']) ''agencyName is required''] else [])"

definition rid_ValidateUpdate :: "CCEClusterRoleIdentity \<Rightarrow> CCEClusterRoleIdentity \<Rightarrow> field_error list" where
  "rid_ValidateUpdate old new =
     (if rid_AgencyName new \<noteq> rid_AgencyName old
      then [FeInvalid (new_path [''spec'', ''agencyName'']) ''agencyName is immutable on update''] else rid_validate new)"

definition sid_validate :: "CCEClusterStaticIdentity \<Rightarrow> field_error list" where
  "sid_validate i = (if sid_SecretRef i = '''' then [FeRequired (new_path [''spec'', ''secretRef'']) ''secretRef is required''] else [])"

definition sid_ValidateUpdate :: "CCEClusterStaticIdentity \<Rightarrow> CCEClusterStaticIdentity \<Rightarrow> field_error list" where
  "sid_ValidateUpdate old new =
     (if sid_SecretRef new \<noteq> sid_SecretRef old
      then [FeInvalid (new_path [''spec'', ''secretRef'']) ''secretRef is immutable on update''] else sid_validate new)"

subsection \<open>ClusterClass templates\<close>

text \<open>A template is its name and the wrapped spec (\<open>spec.template.spec\<close>).\<close>

record CCEClusterTemplate =
  ctp_Name :: string
  ctp_Spec :: CCEClusterSpec

record CCEManagedControlPlaneTemplate =
  cpp_Name :: string
  cpp_Spec :: CCEManagedControlPlaneSpec

record CCEManagedMachinePoolTemplate =
  mpp_Name :: string
  mpp_Spec :: CCEManagedMachinePoolSpec

definition ctp_validate :: "CCEClusterTemplate \<Rightarrow> field_error list" where
  "ctp_validate t = ic_validate (ctp_Spec t)"

definition cpp_Default :: "CCEManagedControlPlaneTemplate \<Rightarrow> CCEManagedControlPlaneTemplate" where
  "cpp_Default t = t \<lparr> cpp_Spec := applyControlPlaneDefaults (cpp_Spec t) \<rparr>"

definition cpp_validate :: "(nat \<Rightarrow> bool) \<Rightarrow> semver \<Rightarrow> CCEManagedControlPlaneTemplate \<Rightarrow> field_error list" where
  "cpp_validate u sv t = (let sp = cpp_Spec t in
     cp_validate u sv (if cps_ClusterName sp = '''' then sp \<lparr> cps_ClusterName := cpp_Name t \<rparr> else sp))"

definition mpp_Default :: "CCEManagedMachinePoolTemplate \<Rightarrow> CCEManagedMachinePoolTemplate" where
  "mpp_Default t = t \<lparr> mpp_Spec := applyMachinePoolDefaults (mpp_Spec t) \<rparr>"

definition mpp_validate :: "(nat \<Rightarrow> bool) \<Rightarrow> string list \<Rightarrow> CCEManagedMachinePoolTemplate \<Rightarrow> field_error list" where
  "mpp_validate u validFlavors t = (let sp = mpp_Spec t in
     mp_validate u validFlavors (if mps_ClusterName sp = '''' then sp \<lparr> mps_ClusterName := mpp_Name t \<rparr> else sp))"


section \<open>Admitted control planes\<close>

text \<open>What the platform cannot change on a live cluster, and what the update checks promise to keep.\<close>

definition same_identity :: "CCEManagedControlPlaneSpec \<Rightarrow> CCEManagedControlPlaneSpec \<Rightarrow> bool" where
  "same_identity a b \<longleftrightarrow>
     cps_ClusterName b = cps_ClusterName a \<and>
     cns_Mode (cps_ContainerNetwork b) = cns_Mode (cps_ContainerNetwork a) \<and>
     cns_CIDR (cps_ContainerNetwork b) = cns_CIDR (cps_ContainerNetwork a) \<and>
     cps_Category b = cps_Category a \<and>
     ipv6Enabled (cps_Ipv6Enable b) = ipv6Enabled (cps_Ipv6Enable a) \<and>
     ipv6Enabled (cps_EnableDataPlaneV2 b) = ipv6Enabled (cps_EnableDataPlaneV2 a) \<and>
     (cps_IdentityRef a \<noteq> None \<longrightarrow> cps_IdentityRef b \<noteq> None) \<and>
     (\<forall>e. cps_EncryptionConfig a = Some e \<longrightarrow> (\<exists>e'. cps_EncryptionConfig b = Some e' \<and> ecs_Mode e' = ecs_Mode e))"

lemma same_identity_refl: "same_identity a a"
  by (auto simp: same_identity_def)

lemma same_identity_trans: "same_identity a b \<Longrightarrow> same_identity b c \<Longrightarrow> same_identity a c"
  unfolding same_identity_def by fastforce

lemma cp_ValidateUpdate_iff:
  "cp_ValidateUpdate u sv old new = [] \<longleftrightarrow> cp_validate u sv new = [] \<and> cp_fixed_errors old new = [] \<and>
     cp_downgrade_errors sv old new = [] \<and> cp_removal_errors old new = []"
  by (simp add: cp_ValidateUpdate_def split: list.splits)

lemma update_same_identity: "cp_ValidateUpdate u sv old new = [] \<Longrightarrow> same_identity old new"
  unfolding cp_ValidateUpdate_iff
  by (auto simp: cp_fixed_errors_def cp_removal_errors_def same_identity_def split: if_splits option.splits)

text \<open>C37: No sequence of admitted updates changes what the platform fixed at creation. From any admitted control
  plane, however it is updated, the cluster name, the network mode and CIDR, the category, IPv6 and DataPlane V2
  stay what they were, an identity reference or encryption once set stays set with the same mode, and the
  object passes the creation checks.\<close>

theorem admitted_updates_keep_identity:
  assumes "(\<lambda>a b. cp_ValidateUpdate u sv a b = [])\<^sup>*\<^sup>* first latest" and "cp_ValidateCreate u sv first = []"
  shows "same_identity first latest \<and> cp_ValidateCreate u sv latest = []"
  using assms
proof (induction rule: rtranclp_induct)
  case base
  then show ?case by (simp add: same_identity_refl)
next
  case (step b c)
  then show ?case
    using update_same_identity[of u sv b c] same_identity_trans[of first b c]
    by (simp add: cp_ValidateUpdate_iff cp_ValidateCreate_def)
qed

text \<open>The checks of the fields compare only the two specs.\<close>

lemma fixed_errors_version [simp]:
  "cp_fixed_errors sp (sp \<lparr> cps_Version := v \<rparr>) = []" "cp_fixed_errors (sp \<lparr> cps_Version := v \<rparr>) (sp \<lparr> cps_Version := v' \<rparr>) = []"
  "cp_removal_errors sp (sp \<lparr> cps_Version := v \<rparr>) = []" "cp_removal_errors (sp \<lparr> cps_Version := v \<rparr>) (sp \<lparr> cps_Version := v' \<rparr>) = []"
  by (auto simp: cp_fixed_errors_def cp_removal_errors_def split: option.splits)

lemma version_only [simp]:
  "cp_mode_errors (sp \<lparr> cps_Version := v \<rparr>) = cp_mode_errors sp"
  "cp_auth_errors (sp \<lparr> cps_Version := v \<rparr>) = cp_auth_errors sp"
  "cp_network_errors (sp \<lparr> cps_Version := v \<rparr>) = cp_network_errors sp"
  by (simp_all add: cp_mode_errors_def cp_auth_errors_def cp_network_errors_def)

lemma validate_version:
  "cp_validate u sv (sp \<lparr> cps_Version := v \<rparr>) = [] \<longleftrightarrow>
     cp_validate u sv (sp \<lparr> cps_Version := [] \<rparr>) = [] \<and> cp_version_errors sv (sp \<lparr> cps_Version := v \<rparr>) = []"
  by (simp add: cp_validate_def cp_version_errors_def[of sv "sp \<lparr> cps_Version := [] \<rparr>"]) blast

lemma validate_without_version:
  "cp_validate u sv sp = [] \<Longrightarrow> cp_validate u sv (sp \<lparr> cps_Version := [] \<rparr>) = []"
  using validate_version[where sp = sp and v = "cps_Version sp"] by simp

text \<open>The version downgrade check is per update, not per sequence. A downgrade the webhook rejects is admitted
  in two updates, by clearing the version first.\<close>

theorem downgrade_in_two_updates:
  assumes "cp_validate u sv sp = []" "cp_validate u sv (sp \<lparr> cps_Version := v \<rparr>) = []"
    and "cps_Version sp \<noteq> ''''" "v \<noteq> ''''" "sv_LessThan sv v (cps_Version sp)"
  shows "cp_ValidateUpdate u sv sp (sp \<lparr> cps_Version := v \<rparr>) \<noteq> [] \<and>
    cp_ValidateUpdate u sv sp (sp \<lparr> cps_Version := '''' \<rparr>) = [] \<and>
    cp_ValidateUpdate u sv (sp \<lparr> cps_Version := '''' \<rparr>) (sp \<lparr> cps_Version := v \<rparr>) = []"
proof -
  have "sv_ParseSemantic sv (cps_Version sp)" "sv_ParseSemantic sv v"
    using assms by (auto simp: cp_validate_def cp_version_errors_def Let_def split: if_splits)
  then show ?thesis
    using assms validate_without_version[OF assms(1)]
    by (auto simp: cp_ValidateUpdate_iff cp_downgrade_errors_def)
qed


section \<open>Witnesses\<close>

definition example_semver :: semver where
  "example_semver = \<lparr> sv_ParseSemantic = (\<lambda>v. has_prefix v ''v1.''),
     sv_LessThan = (\<lambda>a b. a = ''v1.30.1'' \<and> b = ''v1.34.1-r0'') \<rparr>"

definition grown_spec :: CCEManagedControlPlaneSpec where
  "grown_spec = example_cp_spec \<lparr> cps_Flavor := ''cce.s2.small'', cps_AdditionalTags := [(''team'', ''a'')] \<rparr>"

lemma example_cidrs: "ParseCIDR ''172.16.0.0/16'' \<noteq> None" "ParseCIDR ''10.247.0.0/16'' \<noteq> None"
  by (simp_all add: ParseCIDR_def ParsePrefix_def split_last_def parse_addr_def parse4_def dec_field_def digit_val_def)

lemma example_admitted:
  "cp_validate (\<lambda>_. False) example_semver example_cp_spec = []"
  "cp_validate (\<lambda>_. False) example_semver (example_cp_spec \<lparr> cps_Version := ''v1.30.1'' \<rparr>) = []"
  "cp_validate (\<lambda>_. False) example_semver grown_spec = []"
  using example_cidrs
  by (simp_all add: cp_validate_def cp_mode_errors_def cp_auth_errors_def cp_version_errors_def cp_network_errors_def
      cidr_check_def example_cp_spec_def grown_spec_def example_semver_def ModeENI_def ModeVPCRouter_def ipv6Enabled_def
      has_prefix_def Let_def tags_Validate_iff tag_passes_def runes_def needs_trim_def is_space_rune_def key_rune_def ascii_alnum_def)

lemma example_ranks: "cceFlavorRank ''cce.s1.small'' = Some 101" "cceFlavorRank ''cce.s2.small'' = Some 201"
  by (simp_all add: cceFlavorRank_def cceFlavorMatch_def has_prefix_def is_digit_char_def is_lower_char_def atoi_def
      digit_val_def cceFlavorSizes_def)

lemma example_update: "cp_ValidateUpdate (\<lambda>_. False) example_semver example_cp_spec grown_spec = []"
  using example_admitted(3) example_ranks
  by (simp add: cp_ValidateUpdate_iff cp_fixed_errors_def cp_downgrade_errors_def cp_removal_errors_def example_cp_spec_def
      grown_spec_def example_semver_def word_sless_alt)

lemma admitted_updates_keep_identity_witness:
  "same_identity example_cp_spec grown_spec \<and> cp_ValidateCreate (\<lambda>_. False) example_semver grown_spec = []"
  by (rule admitted_updates_keep_identity)
    (use example_admitted example_update in \<open>auto simp: cp_ValidateCreate_def\<close>)

lemma downgrade_in_two_updates_witness:
  "cp_ValidateUpdate (\<lambda>_. False) example_semver example_cp_spec (example_cp_spec \<lparr> cps_Version := '''' \<rparr>) = [] \<and>
   cp_ValidateUpdate (\<lambda>_. False) example_semver (example_cp_spec \<lparr> cps_Version := '''' \<rparr>)
     (example_cp_spec \<lparr> cps_Version := ''v1.30.1'' \<rparr>) = []"
  using downgrade_in_two_updates[OF example_admitted(1,2)]
  by (simp add: example_cp_spec_def example_semver_def)

end
