(* ===== verification/Throttle.thy ===== *)
theory Throttle
  imports Effects
begin

text \<open>
  \<open>internal/services/throttle/throttle.go\<close>: the process-wide limiter of the SDK clients, with one token
  bucket for reads and one for writes. The token bucket (\<open>golang.org/x/time/rate\<close>) is a parameter: a bucket
  is any state \<open>'b\<close>, and \<open>Wait\<close> at a time either fails (the context ends first) or says when the caller may go
  on. Times are nanoseconds.
\<close>

section \<open>Definitions\<close>

type_synonym time = int

text \<open>\<open>NewLimiter\<close> by the time between two tokens and the burst; \<open>Wait\<close> by the caller's deadline, if any.\<close>

record 'b rate_lib =
  rl_NewLimiter :: "time \<Rightarrow> nat \<Rightarrow> 'b"
  rl_Wait :: "time \<Rightarrow> time option \<Rightarrow> ('b, time) go"

text \<open>\<open>readThrottleRate\<close> is 20 operations per second.\<close>

definition readThrottleInterval :: time where "readThrottleInterval = 50000000"
definition readThrottleBurst :: nat where "readThrottleBurst = 100"
definition writeThrottleInterval :: time where "writeThrottleInterval = 6000000000"
definition writeThrottleBurst :: nat where "writeThrottleBurst = 10"

record 'b OperationLimiter =
  ol_read :: 'b
  ol_write :: 'b

definition NewOperationLimiter :: "'b rate_lib \<Rightarrow> 'b OperationLimiter" where
  "NewOperationLimiter lib = \<lparr>
     ol_read = rl_NewLimiter lib readThrottleInterval readThrottleBurst,
     ol_write = rl_NewLimiter lib writeThrottleInterval writeThrottleBurst \<rparr>"

definition is_read :: "string \<Rightarrow> bool" where
  "is_read method \<longleftrightarrow> method = ''GET'' \<or> method = ''HEAD''"

definition wait :: "'b rate_lib \<Rightarrow> string \<Rightarrow> time \<Rightarrow> time option \<Rightarrow> ('b OperationLimiter, time) go" where
  "wait lib method now deadline = State (\<lambda>l.
     if is_read method
     then (case run_state (rl_Wait lib now deadline) (ol_read l) of (r, b) \<Rightarrow> (r, l \<lparr> ol_read := b \<rparr>))
     else (case run_state (rl_Wait lib now deadline) (ol_write l) of (r, b) \<Rightarrow> (r, l \<lparr> ol_write := b \<rparr>)))"

text \<open>\<open>RoundTrip\<close>: the transport below is called only after the wait, at the time the limiter lets the call go. It
  is any stateful \<open>http.RoundTripper\<close>: its answer may depend on every call passed to it before, so the state
  \<open>'w\<close> is threaded beside the limiter.\<close>

record http_call =
  hc_Method :: string
  hc_Now :: time
  hc_Deadline :: "time option"

type_synonym ('w, 'r) transport = "http_call \<Rightarrow> time \<Rightarrow> ('w, 'r) go"

definition on_limiter :: "('l, 'r) go \<Rightarrow> ('l \<times> 'w, 'r) go" where
  "on_limiter m = State (\<lambda>(l, w). case run_state m l of (r, l') \<Rightarrow> (r, (l', w)))"

definition on_transport :: "('w, 'r) go \<Rightarrow> ('l \<times> 'w, 'r) go" where
  "on_transport m = State (\<lambda>(l, w). case run_state m w of (r, w') \<Rightarrow> (r, (l, w')))"

definition RoundTrip :: "'b rate_lib \<Rightarrow> ('w, 'r) transport \<Rightarrow> http_call \<Rightarrow> ('b OperationLimiter \<times> 'w, 'r) go" where
  "RoundTrip lib base req =
     tryE (on_limiter (wait lib (hc_Method req) (hc_Now req) (hc_Deadline req))) (\<lambda>t. on_transport (base req t))"

text \<open>Every client draws from the one shared limiter, so the calls of the process are one sequence.\<close>

fun round_trips :: "'b rate_lib \<Rightarrow> ('w, 'r) transport \<Rightarrow> http_call list \<Rightarrow>
    ('b OperationLimiter \<times> 'w, (http_call \<times> (go_error + 'r)) list) state" where
  "round_trips lib base [] = State_Monad.return []"
| "round_trips lib base (c # cs) = do {
     r \<leftarrow> RoundTrip lib base c;
     rs \<leftarrow> round_trips lib base cs;
     State_Monad.return ((c, r) # rs) }"

section \<open>Reads and writes do not wait for each other\<close>

text \<open>A transport that also writes down which calls reach it and when, and what is written down for a sequence
  of calls. A call that the limiter refuses does not reach the transport.\<close>

definition recorded :: "('w, 'r) transport \<Rightarrow> ('w \<times> (http_call \<times> time) list, 'r) transport" where
  "recorded base c t = State (\<lambda>(w, log). case run_state (base c t) w of (r, w') \<Rightarrow> (r, (w', log @ [(c, t)])))"

definition departures :: "'b rate_lib \<Rightarrow> ('w, 'r) transport \<Rightarrow> http_call list \<Rightarrow> 'b OperationLimiter \<Rightarrow> 'w \<Rightarrow>
    (http_call \<times> time) list" where
  "departures lib base cs l w = snd (snd (snd (run_state (round_trips lib (recorded base) cs) (l, (w, [])))))"

text \<open>The limiter alone decides the departures.\<close>

fun let_go :: "'b rate_lib \<Rightarrow> http_call list \<Rightarrow> 'b OperationLimiter \<Rightarrow> (http_call \<times> time) list" where
  "let_go lib [] l = []"
| "let_go lib (c # cs) l = (case run_state (wait lib (hc_Method c) (hc_Now c) (hc_Deadline c)) l of
     (Inl _, l') \<Rightarrow> let_go lib cs l' | (Inr t, l') \<Rightarrow> (c, t) # let_go lib cs l')"

lemma run_RoundTrip:
  "run_state (RoundTrip lib base c) (l, w) =
     (case run_state (wait lib (hc_Method c) (hc_Now c) (hc_Deadline c)) l of
        (Inl e, l') \<Rightarrow> (Inl e, (l', w))
      | (Inr t, l') \<Rightarrow> (case run_state (base c t) w of (r, w') \<Rightarrow> (r, (l', w'))))"
  by (auto simp: RoundTrip_def on_limiter_def on_transport_def tryE_def fail_def split: prod.splits sum.splits)

lemma round_trips_log:
  "snd (run_state (round_trips lib base (c # cs)) s) =
     snd (run_state (round_trips lib base cs) (snd (run_state (RoundTrip lib base c) s)))"
  by (simp split: prod.splits)

lemma departures_eq: "departures lib base cs l w = let_go lib cs l"
proof -
  have "snd (snd (snd (run_state (round_trips lib (recorded base) cs) (l, (w, log))))) = log @ let_go lib cs l" for log
  proof (induction cs arbitrary: l w log)
    case (Cons c cs)
    obtain r l' where w: "run_state (wait lib (hc_Method c) (hc_Now c) (hc_Deadline c)) l = (r, l')" by fastforce
    show ?case
    proof (cases r)
      case (Inl e)
      with w have "run_state (RoundTrip lib (recorded base) c) (l, (w, log)) = (Inl e, (l', (w, log)))"
        by (simp add: run_RoundTrip)
      then show ?thesis using Cons.IH[of l' w log] w Inl by (simp add: round_trips_log del: round_trips.simps)
    next
      case (Inr t)
      obtain x w' where "run_state (base c t) w = (x, w')" by fastforce
      with w Inr have "run_state (RoundTrip lib (recorded base) c) (l, (w, log)) = (x, (l', (w', log @ [(c, t)])))"
        by (simp add: run_RoundTrip recorded_def)
      then show ?thesis using Cons.IH[of l' w' "log @ [(c, t)]"] w Inr by (simp add: round_trips_log del: round_trips.simps)
    qed
  qed simp
  from this[of "[]"] show ?thesis by (simp add: departures_def)
qed

lemma let_go_reads:
  "ol_read l = ol_read l' \<Longrightarrow>
     filter (\<lambda>x. is_read (hc_Method (fst x))) (let_go lib cs l) = let_go lib (filter (\<lambda>c. is_read (hc_Method c)) cs) l'"
  by (induction cs arbitrary: l l') (auto simp: wait_def split: prod.split sum.split)

lemma let_go_writes:
  "ol_write l = ol_write l' \<Longrightarrow>
     filter (\<lambda>x. \<not> is_read (hc_Method (fst x))) (let_go lib cs l) = let_go lib (filter (\<lambda>c. \<not> is_read (hc_Method c)) cs) l'"
  by (induction cs arbitrary: l l') (auto simp: wait_def split: prod.split sum.split)

text \<open>C25: The limiter never delays or refuses a read because of a write, nor a write because of a read. For any
  sequence of calls with given arrival times through the shared limiter, whatever the token bucket and the
  transport, the reads that reach the transport and the times at which they do are those of the same reads
  alone, and likewise for the writes. The transports of the three runs may differ and answer as they please:
  nothing is claimed of the answers, which in reality depend on the writes. Nor does the limiter order a caller's
  own calls: one that waits for its write before it reads arrives later.\<close>

theorem reads_never_wait_for_writes:
  "filter (\<lambda>x. is_read (hc_Method (fst x))) (departures lib base cs l w) =
     departures lib reads_base (filter (\<lambda>c. is_read (hc_Method c)) cs) l w1 \<and>
   filter (\<lambda>x. \<not> is_read (hc_Method (fst x))) (departures lib base cs l w) =
     departures lib writes_base (filter (\<lambda>c. \<not> is_read (hc_Method c)) cs) l w2"
  by (simp add: departures_eq let_go_reads let_go_writes)

section \<open>The write budget\<close>

text \<open>The bucket as the library documents it: it fills by one token per interval up to the burst, starts full,
  and \<open>Wait\<close> takes a token in advance and waits until it is there, unless the deadline comes first. A
  bucket is its interval, its burst and the time at which it will be full again.\<close>

definition documented_bucket :: "(time \<times> nat \<times> time) rate_lib" where
  "documented_bucket = \<lparr>
     rl_NewLimiter = (\<lambda>iv burst. (iv, burst, 0)),
     rl_Wait = (\<lambda>now deadline. State (\<lambda>(iv, burst, full).
       let full' = max full now + iv; t = max now (full' - int burst * iv) in
       case deadline of
         Some d \<Rightarrow> if d < t then (Inl (PlainErr ''rate: Wait(n=1) would exceed context deadline''), (iv, burst, full))
           else (Inr t, (iv, burst, full'))
       | None \<Rightarrow> (Inr t, (iv, burst, full')))) \<rparr>"

text \<open>The limiter does not keep the writes at ten per minute: ten at once and then one every six seconds are
  nineteen writes in the first minute, none of which waits.\<close>

definition post_at :: "time \<Rightarrow> http_call" where
  "post_at t = \<lparr> hc_Method = ''POST'', hc_Now = t, hc_Deadline = None \<rparr>"

definition first_minute :: "http_call list" where
  "first_minute = replicate 10 (post_at 0) @ map (\<lambda>k. post_at (int k * 6000000000)) [1..<10]"

lemma nineteen_writes_in_a_minute:
  "length first_minute = 19"
  "departures documented_bucket (\<lambda>c t. State_Monad.return (Inr ())) first_minute (NewOperationLimiter documented_bucket) () =
     map (\<lambda>c. (c, hc_Now c)) first_minute"
  "\<forall>c \<in> set first_minute. hc_Now c < 60000000000"
  by code_simp+

end
