(* ===== verification/Lifecycle.thy ===== *)
theory Lifecycle
  imports CpReconcile TagsValidate GarbageCollector
begin

text \<open>
  What a control plane's normal pass may ask of the platform, as a contract between the reconciler of
  \<open>controllers/ccemanagedcontrolplane_controller.go\<close> and the service it runs over, and how the ownership tag
  of the clusters it creates reads to the garbage collector of \<open>controllers/gc.go\<close>.
\<close>

section \<open>Requests of a normal pass\<close>

text \<open>Neither creates nor deletes a cluster.\<close>

fun quiet_request :: "request \<Rightarrow> bool" where
  "quiet_request (CceReq (CreateClusterReq _)) \<longleftrightarrow> False"
| "quiet_request (CceReq (DeleteClusterReq _)) \<longleftrightarrow> False"
| "quiet_request _ \<longleftrightarrow> True"

text \<open>A cluster body with this name and the tags the provider composes for it.\<close>

definition names_cluster :: "string \<Rightarrow> (string, string) gomap \<Rightarrow> Cluster \<Rightarrow> bool" where
  "names_cluster n userTags cl \<longleftrightarrow>
     (\<exists>m sp. cl_Metadata cl = Some m \<and> cm_Name m = n \<and> cl_Spec cl = Some sp \<and>
        cs_ClusterTags sp = Some (toClusterTags n userTags))"

definition normal_request :: "string \<Rightarrow> (string, string) gomap \<Rightarrow> request \<Rightarrow> bool" where
  "normal_request n userTags q \<longleftrightarrow> quiet_request q \<or>
     (\<exists>cl. q = CceReq (CreateClusterReq cl) \<and> names_cluster n userTags cl)"

lemma quiet_normal: "quiet_request q \<Longrightarrow> normal_request n ts q"
  by (simp add: normal_request_def)

section \<open>Invariants of a pass\<close>

text \<open>What a reconciler keeps of its cloud and of its object, and what it then keeps of its state.\<close>

definition pass_inv :: "('c \<Rightarrow> bool) \<Rightarrow> ('o \<Rightarrow> bool) \<Rightarrow> ('k, 'c, 'o) rstate \<Rightarrow> bool" where
  "pass_inv I G st \<longleftrightarrow> I (rs_cloud st) \<and> G (rs_obj st)"

abbreviation cloud_inv :: "('c \<Rightarrow> bool) \<Rightarrow> ('k, 'c, 'o) rstate \<Rightarrow> bool" where
  "cloud_inv I \<equiv> pass_inv I (\<lambda>_. True)"

abbreviation hist_inv :: "(request \<Rightarrow> bool) \<Rightarrow> history \<Rightarrow> ('k, history, 'o) rstate \<Rightarrow> bool" where
  "hist_inv P tr \<equiv> cloud_inv (extends P tr)"

lemma sends_keeps: "sends P m \<Longrightarrow> keeps (extends P tr) m"
  by (simp add: sends_def)

lemma keeps_pass:
  "keeps I m \<Longrightarrow> keeps (pass_inv I G) (in_cloud m)"
  "keeps (pass_inv I G) (in_kube k)" "keeps (pass_inv I G) (with_backoff b)"
  "(\<And>x. G x \<Longrightarrow> G (f x)) \<Longrightarrow> keeps (pass_inv I G) (modify_obj f)"
  by (auto simp: keeps_def pass_inv_def wp_simps elim!: wp_mono) (auto simp: wp_def split: prod.splits)

text \<open>What a control plane pass may change of its object: the status, the finalizers and the endpoint.\<close>

definition pass_frame :: "(CCEManagedControlPlane \<Rightarrow> bool) \<Rightarrow> bool" where
  "pass_frame G \<longleftrightarrow> (\<forall>cp. G cp \<longrightarrow> (\<forall>st. G (cp \<lparr> cp_Status := st \<rparr>)) \<and> (\<forall>fs. G (cp \<lparr> cp_Finalizers := fs \<rparr>)) \<and>
     (\<forall>e. G (cp \<lparr> cp_Spec := (cp_Spec cp) \<lparr> cps_ControlPlaneEndpoint := Some e \<rparr> \<rparr>)))"

lemma pass_frame_True [simp]: "pass_frame (\<lambda>_. True)"
  by (simp add: pass_frame_def)

lemma pass_frame_status: "pass_frame G \<Longrightarrow> G cp \<Longrightarrow> G (on_status f cp)"
  by (simp add: pass_frame_def on_status_def)

lemma pass_frame_one:
  assumes "pass_frame G" "G cp" shows "G (backfill_one lib e cp)"
proof -
  obtain host port where url: "splitEndpointURL lib (ep_URL e) = (host, port)" by force
  let ?e = "\<lparr> ae_Host = host, ae_Port = (if port = 0 then 5443 else port) \<rparr>"
  let ?cp = "cp \<lparr> cp_Spec := (cp_Spec cp) \<lparr> cps_ControlPlaneEndpoint := Some ?e \<rparr> \<rparr>"
  have "G ?cp" using assms by (simp add: pass_frame_def)
  then have "G (?cp \<lparr> cp_Status := (cp_Status cp) \<lparr> cpt_ControlPlaneEndpoint := Some ?e \<rparr> \<rparr>)"
    using assms(1) unfolding pass_frame_def by blast
  then show ?thesis using assms(2) by (simp add: backfill_one_def url Let_def)
qed

lemma pass_frame_backfill: "pass_frame G \<Longrightarrow> G cp \<Longrightarrow> G (backfill_endpoints lib eps cp)"
  unfolding backfill_endpoints_def by (induction eps arbitrary: cp) (simp_all add: pass_frame_one)

lemma pass_frame_obj:
  assumes "pass_frame G"
  shows "keeps (pass_inv I G) (cp_status g)" "keeps (pass_inv I G) (cp_true lib x y z)" "keeps (pass_inv I G) (cp_false lib x y z)"
    "keeps (pass_inv I G) (cp_failed lib x y e)" "keeps (pass_inv I G) (cp_after_error e)"
    "keeps (pass_inv I G) (modify_obj (backfill_endpoints lib eps))"
    "keeps (pass_inv I G) (modify_obj (\<lambda>cp. cp \<lparr> cp_Finalizers := fs cp \<rparr>))"
proof -
  show st: "keeps (pass_inv I G) (cp_status g)" for g
    unfolding cp_status_def by (rule keeps_pass) (rule pass_frame_status[OF assms])
  show "keeps (pass_inv I G) (cp_true lib x y z)" "keeps (pass_inv I G) (cp_false lib x y z)"
    "keeps (pass_inv I G) (cp_failed lib x y e)"
    unfolding cp_failed_def cp_true_def cp_false_def by (rule st)+
  show "keeps (pass_inv I G) (cp_after_error e)"
    unfolding cp_after_error_def by (intro only_intros keeps_pass(3) keeps_get_obj)
  show "keeps (pass_inv I G) (modify_obj (backfill_endpoints lib eps))"
    by (rule keeps_pass) (rule pass_frame_backfill[OF assms])
  show "keeps (pass_inv I G) (modify_obj (\<lambda>cp. cp \<lparr> cp_Finalizers := fs cp \<rparr>))"
    by (rule keeps_pass) (use assms in \<open>simp add: pass_frame_def\<close>)
qed

text \<open>The parts that may replace the control plane change its status only.\<close>

lemma replaced_status:
  "wp (reconcileAddons lib svc c cp) (\<lambda>r _. \<forall>cp'. r = Inr cp' \<longrightarrow> cp' = cp \<or> (\<exists>f. cp' = on_status f cp)) w"
  "wp (reconcileAccessPolicies lib svc c cp) (\<lambda>r _. \<forall>cp'. r = Inr cp' \<longrightarrow> cp' = cp \<or> (\<exists>f. cp' = on_status f cp)) w"
  by (auto simp: reconcileAddons_def reconcileAccessPolicies_def Let_def wp_simps wp_run split: sum.split)

section \<open>The contract with the service\<close>

text \<open>The operations a control plane uses once its cluster exists keep an invariant of the cloud; a fact of the
  object that the pass has no part in is kept along with it.\<close>

locale quiet_service =
  fixes svc :: "('c, 'z) cp_service_scheme" and I :: "'c \<Rightarrow> bool" and G :: "CCEManagedControlPlane \<Rightarrow> bool"
  assumes frame: "pass_frame G"
    and cluster: "keeps I (svc_ShowCluster svc c)" "keeps I (svc_BindClusterEip svc c n)"
      "keeps I (svc_ReconcileClusterTags svc c n ts)" "keeps I (svc_GetClusterKubeconfig svc c days)"
    and upgrade: "keeps I (svc_GetUpgradeInfo svc c)" "keeps I (svc_StartUpgrade svc c v)"
      "keeps I (svc_ShowUpgradeTask svc c t)"
    and addons: "keeps I (svc_ListAddonInstances svc c)" "keeps I (svc_CreateAddonInstance svc ai)"
      "keeps I (svc_UpdateAddonInstance svc ai)" "keeps I (svc_DeleteAddonInstance svc c a)"
    and pods: "keeps I (svc_ListPodIdentityAssociations svc c)" "keeps I (svc_CreatePodIdentityAssociation svc pi)"
      "keeps I (svc_DeletePodIdentityAssociation svc c a)"
    and logs: "keeps I (svc_ShowClusterLogConfig svc c)" "keeps I (svc_UpdateClusterLogConfig svc c ttl ls)"
    and policies: "keeps I (svc_ListAccessPolicies svc)" "keeps I (svc_CreateAccessPolicy svc ap)"
      "keeps I (svc_UpdateAccessPolicy svc i ap)" "keeps I (svc_DeleteAccessPolicy svc i)"
begin

lemmas ops = cluster upgrade addons pods logs policies

lemmas pass_intros = only_intros keeps_get_obj keeps_pass(1-3) pass_frame_obj[OF frame]

lemma keeps_sets:
  "keeps I (reconcileAddons lib svc c cp)"
  "keeps I (reconcilePodIdentityAssociations lib svc visit c cp)"
  "keeps I (reconcileLogging svc c cp)"
  "keeps I (reconcileAccessPolicies lib svc c cp)"
  by (auto simp: reconcileAddons_def addon_apply_def addon_remove_def reconcilePodIdentityAssociations_def pod_create_def
      pod_delete_def reconcileLogging_def reconcileAccessPolicies_def policy_apply_def policy_remove_def Let_def
      intro!: only_intros keeps_prod ops)

lemma keeps_upgrade: "keeps (pass_inv I G) (reconcileUpgrade lib svc c info)"
  unfolding reconcileUpgrade_def pollUpgradeTask_def startUpgrade_def requeue_step_def Let_def
  by (intro pass_intros ops)

lemma keeps_secret: "keeps (pass_inv I G) (ensureKubeconfigSecret env svc cluster c name days)"
  unfolding ensureKubeconfigSecret_def by (intro pass_intros ops)

lemma keeps_finish: "keeps (pass_inv I G) (finish_ready env svc cluster c)"
  unfolding finish_ready_def Let_def by (intro pass_intros keeps_secret)

lemma keeps_converge:
  assumes "\<And>cp. keeps I (m cp)" "\<And>cp w. wp (m cp) (\<lambda>r _. \<forall>cp'. r = Inr cp' \<longrightarrow> cp' = cp \<or> (\<exists>f. cp' = on_status f cp)) w"
    and "keeps (pass_inv I G) k"
  shows "keeps (pass_inv I G) (converge env ty fr tr' tm m k)"
proof -
  have failed: "keeps (pass_inv I G) (do { _ \<leftarrow> cp_failed (cpe_lib env) ty fr err; cp_after_error err })" for err
    by (intro pass_intros)
  have rest: "keeps (pass_inv I G) (do { _ \<leftarrow> cp_true (cpe_lib env) ty tr' tm; k })"
    by (intro pass_intros assms)
  have "wp (converge env ty fr tr' tm m k) (\<lambda>_. pass_inv I G) s" if inv: "pass_inv I G s" for s
  proof -
    let ?cp = "rs_obj s"
    have "wp (m ?cp) (\<lambda>r c. I c \<and> (\<forall>cp'. r = Inr cp' \<longrightarrow> G cp')) (rs_cloud s)"
      by (rule wp_mono[OF wp_conj[OF keeps_wp[OF assms(1)] assms(2)]])
         (use inv pass_frame_status[OF frame] in \<open>auto simp: pass_inv_def\<close>)
    then show ?thesis
      unfolding converge_def wp_bind wp_get_obj wp_onE wp_in_cloud
    proof (rule wp_mono)
      fix r :: "go_error + CCEManagedControlPlane" and c assume rc: "I c \<and> (\<forall>cp'. r = Inr cp' \<longrightarrow> G cp')"
      show "(case r of Inl e \<Rightarrow> wp (cp_failed (cpe_lib env) ty fr e) (\<lambda>_. wp (cp_after_error e) (\<lambda>_. pass_inv I G))
        | Inr v \<Rightarrow> wp (modify_obj (\<lambda>_. v)) (\<lambda>_. wp (cp_true (cpe_lib env) ty tr' tm) (\<lambda>_. wp k (\<lambda>_. pass_inv I G))))
          (s \<lparr> rs_cloud := c \<rparr>)"
      proof (cases r)
        case (Inl e)
        then show ?thesis using keeps_wp[OF failed[of e], of "s \<lparr> rs_cloud := c \<rparr>"] rc inv by (simp add: wp_bind pass_inv_def)
      next
        case (Inr v)
        then show ?thesis
          using keeps_wp[OF rest, of "s \<lparr> rs_cloud := c, rs_obj := v \<rparr>"] rc
          by (simp add: wp_bind wp_modify_obj pass_inv_def)
      qed
    qed
  qed
  then show ?thesis by (simp add: keeps_def)
qed

lemma keeps_converge_all: "keeps (pass_inv I G) k \<Longrightarrow> keeps (pass_inv I G) (converge_all env svc c k)"
  unfolding converge_all_def by (intro pass_intros keeps_converge keeps_sets ops replaced_status) (simp_all add: wp_simps wp_run split: sum.split)

lemma keeps_bind_eip: "keeps (pass_inv I G) k \<Longrightarrow> keeps (pass_inv I G) (bind_eip env svc c k)"
  unfolding bind_eip_def by (intro pass_intros ops) (auto intro!: pass_intros split: prod.splits)

lemma keeps_await: "(\<And>info. keeps (pass_inv I G) (k info)) \<Longrightarrow> keeps (pass_inv I G) (await_available env svc c k)"
  unfolding await_available_def by (intro pass_intros ops)

text \<open>From the moment the cluster exists, a pass keeps what these operations keep.\<close>

lemma after_creation:
  "keeps (pass_inv I G) (await_available env svc c (\<lambda>info. do {
     _ \<leftarrow> modify_obj (backfill_endpoints (cpe_lib env) (ci_Endpoints info));
     _ \<leftarrow> cp_true (cpe_lib env) CCEClusterReadyCondition ''ClusterAvailable'' ''CCE cluster is available'';
     bind_eip env svc c (converge_all env svc c (do {
        upgraded \<leftarrow> reconcileUpgrade (cpe_lib env) svc c info;
        case upgraded of Some res \<Rightarrow> State_Monad.return (res, None) | None \<Rightarrow> finish_ready env svc cluster c })) }))"
  by (intro keeps_await pass_intros keeps_bind_eip keeps_converge_all keeps_upgrade keeps_finish)

end

text \<open>The SDK-backed service keeps the contract: none of these operations creates or deletes a cluster.\<close>

lemma sends_reconcile_tags: "(\<And>q. quiet_request q \<Longrightarrow> P q) \<Longrightarrow> sends P (ReconcileClusterTags s c n ts)"
  unfolding ReconcileClusterTags_def Let_def
  by (intro sends_intros) (auto intro!: sends_intros split: clusterTagWrite.splits)

lemma quiet_client:
  assumes "\<And>q. quiet_request q \<Longrightarrow> P q" and "pass_frame G"
  shows "quiet_service (client_service fuel cd s) (extends P tr) G"
proof unfold_locales
  show "pass_frame G" by (rule assms(2))
  show "keeps (extends P tr) (svc_ReconcileClusterTags (client_service fuel cd s) c m us)" for c m us
    by (simp add: client_service_def sends_keeps sends_reconcile_tags assms)
qed (auto simp: client_service_def assms BindClusterEip_def GetClusterKubeconfig_def GetUpgradeInfo_def StartUpgrade_def
    ShowUpgradeTask_def ListAddonInstances_def CreateAddonInstance_def UpdateAddonInstance_def DeleteAddonInstance_def
    ListPodIdentityAssociations_def CreatePodIdentityAssociation_def DeletePodIdentityAssociation_def
    ShowClusterLogConfig_def UpdateClusterLogConfig_def ListAccessPolicies_def CreateAccessPolicy_def
    UpdateAccessPolicy_def DeleteAccessPolicy_def Let_def intro!: sends_intros sends_keeps)

interpretation cs: quiet_service "client_service fuel cd s" "extends (normal_request n ts) tr" "\<lambda>_. True" for fuel cd s n ts tr
  by (rule quiet_client) (simp_all add: quiet_normal)

section \<open>Creation\<close>

lemma names_built: "buildCreateClusterRequest i = Inr cl \<Longrightarrow> names_cluster (cci_Name i) (cci_Tags i) cl"
  by (auto simp: buildCreateClusterRequest_def names_cluster_def create_cluster_spec_def split: if_splits)

lemma sends_CreateCluster: "sends (normal_request (cci_Name i) (cci_Tags i)) (CreateCluster s i)"
  unfolding CreateCluster_def findClusterIDByName_def
  by (auto simp: normal_request_def dest: names_built intro!: sends_intros split: sum.splits)

lemma toCreateClusterInput_simps [simp]:
  "cci_Name (toCreateClusterInput cp v sn ia eni) = cps_ClusterName (cp_Spec cp)"
  "cci_Tags (toCreateClusterInput cp v sn ia eni) = cps_AdditionalTags (cp_Spec cp)"
  by (simp_all add: toCreateClusterInput_def Let_def)

text \<open>Before the cluster is created, the object keeps its spec.\<close>

abbreviation obj_inv :: "(request \<Rightarrow> bool) \<Rightarrow> history \<Rightarrow> (CCEManagedControlPlane \<Rightarrow> bool) \<Rightarrow>
    ('k, history, CCEManagedControlPlane) rstate \<Rightarrow> bool" where
  "obj_inv P tr J \<equiv> pass_inv (extends P tr) J"

abbreviation spec_inv :: "(request \<Rightarrow> bool) \<Rightarrow> history \<Rightarrow> CCEManagedControlPlaneSpec \<Rightarrow>
    ('k, history, CCEManagedControlPlane) rstate \<Rightarrow> bool" where
  "spec_inv P tr sp \<equiv> obj_inv P tr (\<lambda>cp. cp_Spec cp = sp)"

text \<open>Facts of the object that the conditions and the finalizers have no part in.\<close>

definition steady :: "(CCEManagedControlPlane \<Rightarrow> bool) \<Rightarrow> bool" where
  "steady J \<longleftrightarrow> (\<forall>cp cs fs. J cp \<longrightarrow> J (cp \<lparr> cp_Status := (cp_Status cp) \<lparr> cpt_Conditions := cs \<rparr> \<rparr>) \<and> J (cp \<lparr> cp_Finalizers := fs \<rparr>))"

lemma steady_spec: "steady (\<lambda>cp. cp_Spec cp = sp)"
  by (simp add: steady_def)

lemma steady_id: "steady (\<lambda>cp. cpt_ClusterID (cp_Status cp) \<noteq> '''')"
  by (simp add: steady_def)

definition leads :: "('s \<Rightarrow> bool) \<Rightarrow> ('s \<Rightarrow> bool) \<Rightarrow> ('s, 'a) state \<Rightarrow> bool" where
  "leads I J m \<longleftrightarrow> (\<forall>s. I s \<longrightarrow> wp m (\<lambda>_. J) s)"

lemma leads_onE:
  assumes "keeps I m" "\<And>e. leads I J (h e)" "\<And>w v. fst (run_state m w) = Inr v \<Longrightarrow> leads I J (k v)"
  shows "leads I J (onE m h k)"
  using assms by (auto simp: leads_def wp_onE wp_run keeps_def split: sum.splits)

lemma leads_bind: "keeps I m \<Longrightarrow> (\<And>v. leads I J (k v)) \<Longrightarrow> leads I J (m \<bind> k)"
  by (auto simp: leads_def wp_bind wp_run keeps_def)

lemma leads_if: "(b \<Longrightarrow> leads I J m) \<Longrightarrow> (\<not> b \<Longrightarrow> leads I J n) \<Longrightarrow> leads I J (if b then m else n)"
  by simp

lemma leads_prod: "(\<And>a b. p = (a, b) \<Longrightarrow> leads I J (f a b)) \<Longrightarrow> leads I J (case p of (a, b) \<Rightarrow> f a b)"
  by (cases p) simp

lemma keeps_leads: "keeps I m \<Longrightarrow> (\<And>s. I s \<Longrightarrow> J s) \<Longrightarrow> leads I J m"
  by (auto simp: leads_def keeps_def elim!: wp_mono)

lemma keeps_obj:
  "sends P m \<Longrightarrow> keeps (obj_inv P tr J) (in_cloud m)"
  "keeps (obj_inv P tr J) (in_kube k)" "keeps (obj_inv P tr J) (with_backoff b)"
  by (simp_all add: keeps_pass sends_keeps)

lemma keeps_mark:
  assumes "steady J"
  shows "keeps (obj_inv P tr J) (cp_true lib x y z)" "keeps (obj_inv P tr J) (cp_false lib x y z)"
    "keeps (obj_inv P tr J) (cp_failed lib x y e)"
    "keeps (obj_inv P tr J) (modify_obj (\<lambda>cp. cp \<lparr> cp_Finalizers := fs cp \<rparr>))"
  using assms by (auto simp: keeps_def pass_inv_def wp_simps cp_failed_def on_status_def steady_def)

lemma ensure_cluster_leads:
  fixes sp :: CCEManagedControlPlaneSpec
  defines "P \<equiv> normal_request (cps_ClusterName sp) (cps_AdditionalTags sp)"
  assumes "\<And>c. keeps (hist_inv P tr) (k c)"
  shows "leads (spec_inv P tr sp) (hist_inv P tr) (ensure_cluster env (client_service fuel cd s) v sn ia eni k)"
  unfolding leads_def
proof (intro allI impI)
  fix st :: "('a, history, CCEManagedControlPlane) rstate" assume inv: "spec_inv P tr sp st"
  let ?in = "\<lambda>e. toCreateClusterInput (rs_obj st) v sn ia e"
  have create: "sends P (CreateCluster s (?in e))" for e
    using sends_CreateCluster[of "?in e" s] inv by (simp add: P_def pass_inv_def)
  have "keeps (hist_inv P tr) (onE (in_cloud (CreateCluster s (?in e)))
      (\<lambda>err. do { _ \<leftarrow> cp_failed (cpe_lib env) CCEClusterReadyCondition CCEClusterNotFoundReason err; cp_after_error err })
      (\<lambda>cid. do { _ \<leftarrow> cp_status (\<lambda>st. st \<lparr> cpt_ClusterID := cid \<rparr>); k cid })
      :: (('a, history, CCEManagedControlPlane) rstate, _) state)" for e
    using assms(2) by (intro only_intros keeps_get_obj keeps_pass(1-3) pass_frame_obj[OF pass_frame_True] sends_keeps create)
  then show "wp (ensure_cluster env (client_service fuel cd s) v sn ia eni k) (\<lambda>_. hist_inv P tr) st"
    using inv assms(2) by (auto simp: ensure_cluster_def wp_bind wp_get_obj Let_def client_service_def keeps_def pass_inv_def)
qed


text \<open>The agencies the IAM service creates are none of the modelled requests.\<close>

definition quiet_iam :: "('k, history) cp_env \<Rightarrow> bool" where
  "quiet_iam env \<longleftrightarrow> (\<forall>region creds ensure a p. cpe_IAMServiceFactory env region creds = Inr ensure \<longrightarrow> sends (\<lambda>_. False) (ensure a p))"

lemma keeps_prefix:
  assumes "quiet_iam env" "quiet_provider (cpe_provider env)" "steady J"
  shows "keeps (obj_inv P tr J) (ensure_agency env region creds ia)"
    and "keeps (obj_inv P tr J) (cp_service_for env region creds ia)"
proof -
  have "sends P (ensure a p)" if "cpe_IAMServiceFactory env region c = Inr ensure" for c ensure a p
    using assms(1) that sends_mono[of "\<lambda>_. False" "ensure a p" P] by (auto simp: quiet_iam_def)
  then show "keeps (obj_inv P tr J) (ensure_agency env region creds ia)"
    unfolding ensure_agency_def Let_def
    by (auto intro!: only_intros keeps_obj(1-3) keeps_mark[OF assms(3)] split: option.splits sum.splits)
  show "keeps (obj_inv P tr J) (cp_service_for env region creds ia)"
    unfolding cp_service_for_def using sends_Resolve[OF assms(2)]
    by (auto intro!: only_intros keeps_obj(1-3) split: sum.splits)
qed

lemma cp_service_client:
  assumes "cpe_ServiceFactory env = (\<lambda>_ _. Inr svc0)" "fst (run_state (cp_service_for env region creds ia) w) = Inr svc"
  shows "svc = svc0"
  using assms by (auto simp: cp_service_for_def tryE_def ok_def fail_def split: sum.splits prod.splits)

lemma reconcile_leads:
  fixes sp :: CCEManagedControlPlaneSpec
  defines "P \<equiv> normal_request (cps_ClusterName sp) (cps_AdditionalTags sp)"
  shows "leads (spec_inv P tr sp) (hist_inv P tr)
     (reconcile_with_service env (client_service fuel cd s) cluster v sn ia eni)"
  unfolding reconcile_with_service_def P_def
  by (rule ensure_cluster_leads) (rule cs.after_creation)

lemma mismatch_sends_nothing:
  "cps_ClusterName (cp_Spec (rs_obj st)) \<noteq> ccl_Name cluster \<Longrightarrow>
     rs_cloud (snd (run_state (reconcileNormal env cluster) st)) = rs_cloud st"
proof -
  assume "cps_ClusterName (cp_Spec (rs_obj st)) \<noteq> ccl_Name cluster"
  then have "wp (reconcileNormal env cluster) (\<lambda>_ st'. rs_cloud st' = rs_cloud st) st"
    by (simp add: reconcileNormal_def Let_def wp_simps)
  then show ?thesis by (simp add: wp_run)
qed

lemma reconcileNormal_leads:
  assumes svc: "cpe_ServiceFactory env = (\<lambda>_ _. Inr (client_service fuel cd s))"
    and q: "quiet_iam env" "quiet_provider (cpe_provider env)" and J: "steady J"
    and go: "\<And>v sn ia eni. leads (obj_inv P tr J) (hist_inv P tr)
      (reconcile_with_service env (client_service fuel cd s) cluster v sn ia eni)"
  shows "leads (obj_inv P tr J) (hist_inv P tr) (reconcileNormal env cluster)"
proof -
  have stop: "leads (obj_inv P tr J) (hist_inv P tr) m" if "keeps (obj_inv P tr J) m"
    for m :: "(('a, history, CCEManagedControlPlane) rstate, 'b) state"
    using that by (rule keeps_leads) (simp add: pass_inv_def)
  have rest: "leads (obj_inv P tr J) (hist_inv P tr) (reconcile_with_service env svc' cluster v sn ia eni)"
    if "fst (run_state (cp_service_for env region creds ia') w) = Inr svc'" for svc' v sn ia eni region creds ia' w
    using go cp_service_client[OF svc that] by simp
  show ?thesis
    unfolding reconcileNormal_def Let_def
    by (intro leads_bind keeps_get_obj leads_if leads_onE leads_prod stop only_intros keeps_obj(1-3) keeps_mark[OF J]
        keeps_prefix[OF q J] rest) auto
qed

lemma normal_pass_leads:
  fixes sp :: CCEManagedControlPlaneSpec
  defines "P \<equiv> normal_request (cps_ClusterName sp) (cps_AdditionalTags sp)"
  assumes "cpe_ServiceFactory env = (\<lambda>_ _. Inr (client_service fuel cd s))"
    and "quiet_iam env" "quiet_provider (cpe_provider env)"
  shows "leads (spec_inv P tr sp) (hist_inv P tr) (reconcileNormal env cluster)"
  unfolding P_def by (rule reconcileNormal_leads[OF assms(2-) steady_spec reconcile_leads])

text \<open>C5: A recorded cluster is not created again. While the control plane's status names a cluster, a normal
  pass over the SDK-backed service neither creates nor deletes a cluster, whatever the platform answers: not
  even when the cluster is reported missing. That clears the recorded ID, so a pass after it may create the
  cluster anew.\<close>

theorem recorded_cluster_is_not_recreated:
  assumes "cpe_ServiceFactory env = (\<lambda>_ _. Inr (client_service fuel cd s))"
    and "quiet_iam env" "quiet_provider (cpe_provider env)"
    and "cpt_ClusterID (cp_Status (rs_obj st)) \<noteq> ''''"
    and "run_state (reconcileNormal env cluster) st = (r, st')"
  shows "\<exists>new. rs_cloud st' = rs_cloud st @ new \<and> list_all quiet_request new"
proof -
  let ?J = "\<lambda>cp. cpt_ClusterID (cp_Status cp) \<noteq> ''''"
  have "leads (obj_inv quiet_request (rs_cloud st) ?J) (hist_inv quiet_request (rs_cloud st))
      (reconcile_with_service env (client_service fuel cd s) cluster v sn ia eni)" for v sn ia eni
    using quiet_service.after_creation[OF quiet_client[of quiet_request "\<lambda>_. True" fuel cd s "rs_cloud st"]]
    by (auto simp: leads_def reconcile_with_service_def ensure_cluster_def wp_bind wp_get_obj pass_inv_def keeps_def)
  from reconcileNormal_leads[OF assms(1-3) steady_id this]
  have "wp (reconcileNormal env cluster) (\<lambda>_. hist_inv quiet_request (rs_cloud st)) st"
    using assms(4) by (auto simp: leads_def pass_inv_def)
  then show ?thesis using assms(5) by (simp add: wp_run pass_inv_def extends_def)
qed

definition later_pass_state :: "(unit, history, CCEManagedControlPlane) rstate" where
  "later_pass_state = \<lparr> rs_kube = (), rs_cloud = [], rs_backoff = newBackoffTracker, rs_obj = example_cp \<rparr>"

theorem recorded_cluster_is_not_recreated_witness:
  "list_all quiet_request (rs_cloud (snd (run_state (reconcileNormal (example_cp_env empty_cloud) example_capi_cluster) later_pass_state))) \<and>
   CceReq (ShowClusterReq ''c1'') \<in>
     set (rs_cloud (snd (run_state (reconcileNormal (example_cp_env empty_cloud) example_capi_cluster) later_pass_state)))"
proof -
  let ?m = "reconcileNormal (example_cp_env empty_cloud) example_capi_cluster"
  have "wp ?m (\<lambda>_ st'. CceReq (ShowClusterReq ''c1'') \<in> set (rs_cloud st')) later_pass_state"
    by (simp add: reconcileNormal_def Let_def wp_simps example_cp_env_def later_pass_state_def example_capi_cluster_def
        clusterNetwork_def key_text_def example_kube_def identity_kube_def empty_kube_def example_cce_cluster_def
        example_network_spec_def SubnetTypeENI_def resolveControlPlaneCredentials_def ResolveCredentials_def example_cp_def
        example_cp_spec_def example_cp_status_def get_str_def ensure_agency_def cp_service_for_def Resolve_def
        reconcile_with_service_def ensure_cluster_def client_service_def await_available_def
        empty_cloud_def example_client_def cp_failed_def cp_after_error_def IsNotFound_def)
  then show ?thesis
    using recorded_cluster_is_not_recreated[of "example_cp_env empty_cloud" 1 example_codec "example_client empty_cloud"
        later_pass_state example_capi_cluster "fst (run_state ?m later_pass_state)" "snd (run_state ?m later_pass_state)"]
    by (auto simp: wp_run example_cp_env_def quiet_iam_def quiet_provider_def later_pass_state_def example_cp_def example_cp_status_def)
qed

section \<open>What a pass writes to its object\<close>

lemma any_service: "pass_frame G \<Longrightarrow> quiet_service svc (\<lambda>_. True) G"
  by unfold_locales (auto simp: keeps_def wp_run)

lemma normal_keeps_frame:
  assumes G: "pass_frame G"
  shows "keeps (pass_inv (\<lambda>_. True) G) (reconcileNormal env cluster)"
proof -
  note intros = only_intros keeps_get_obj keeps_pass(1-3) pass_frame_obj[OF G]
  have cloud: "keeps (\<lambda>_. True) m" for m :: "('c, 'd) state" by (simp add: keeps_def wp_run)
  have service: "keeps (pass_inv (\<lambda>_. True) G) (reconcile_with_service env svc cluster v sn ia eni)" for svc v sn ia eni
    unfolding reconcile_with_service_def ensure_cluster_def Let_def
    by (intro intros cloud quiet_service.after_creation[OF any_service[OF G]])
  have "keeps (pass_inv (\<lambda>_. True) G) (ensure_agency env region creds ia)"
    "keeps (pass_inv (\<lambda>_. True) G) (cp_service_for env region creds ia)" for region creds ia
    unfolding ensure_agency_def cp_service_for_def Let_def
    by (auto intro!: intros cloud split: option.splits sum.splits)
  then show ?thesis
    unfolding reconcileNormal_def Let_def
    by (intro intros service keeps_onE keeps_prod) auto
qed

text \<open>C31: A normal pass writes only what is its own. Whatever the Kubernetes API, the cloud and the library answer,
  and also when the pass ends with an error, the object in memory differs from the one it started with at most in
  its status, its finalizers and the control plane endpoint of its spec: name, generation, annotations and
  every other field of the spec the user wrote are as they were. This is the pass of an object that is not
  being deleted; the deletion pass, which also writes an annotation, is not covered.\<close>

theorem normal_pass_writes_status_only:
  "let cp = rs_obj st; cp' = rs_obj (snd (run_state (reconcileNormal env cluster) st)) in
     cp' \<lparr> cp_Status := cp_Status cp, cp_Finalizers := cp_Finalizers cp,
           cp_Spec := (cp_Spec cp') \<lparr> cps_ControlPlaneEndpoint := cps_ControlPlaneEndpoint (cp_Spec cp) \<rparr> \<rparr> = cp"
proof -
  let ?cp = "rs_obj st"
  let ?G = "\<lambda>cp'. cp' \<lparr> cp_Status := cp_Status ?cp, cp_Finalizers := cp_Finalizers ?cp,
    cp_Spec := (cp_Spec cp') \<lparr> cps_ControlPlaneEndpoint := cps_ControlPlaneEndpoint (cp_Spec ?cp) \<rparr> \<rparr> = ?cp"
  have "pass_frame ?G" by (simp add: pass_frame_def)
  from keepsD[OF normal_keeps_frame[OF this], of st env cluster] show ?thesis
    by (simp add: pass_inv_def Let_def)
qed

section \<open>How the created tags read to the garbage collector\<close>

definition tag_pairs :: "Cluster \<Rightarrow> (string \<times> string) list" where
  "tag_pairs cl = (case cl_Spec cl of
      None \<Rightarrow> []
    | Some sp \<Rightarrow> (case cs_ClusterTags sp of
        None \<Rightarrow> [] | Some ts \<Rightarrow> map (\<lambda>t. (deref (rt_Key t), deref (rt_Value t))) ts))"

lemma names_tag_pairs:
  assumes "names_cluster n us cl"
  shows "tag_pairs cl = (OwnedTagKey n, ''owned'') # (RoleTagKey, RoleApiserver) # filter (\<lambda>(k, v). \<not> skipReservedTagKey k n) us"
proof -
  have "map (\<lambda>t. (deref (rt_Key t), deref (rt_Value t))) (concat (map (\<lambda>(k, v). if \<not> skipReservedTagKey k n then [mk_tag k v] else []) us)) =
      filter (\<lambda>(k, v). \<not> skipReservedTagKey k n) us"
    by (induction us) (auto simp: mk_tag_def deref_def)
  then show ?thesis
    using assms by (auto simp: names_cluster_def tag_pairs_def toClusterTags_def) (simp_all add: mk_tag_def deref_def)
qed

lemma role_not_owned: "(RoleTagKey, RoleApiserver) \<noteq> (OwnedTagKey n, ''owned'')"
  by (simp add: RoleApiserver_def)

text \<open>Unless a user tag claims another cluster, every order of the created tags names the cluster itself.\<close>

lemma created_owner:
  assumes "names_cluster n us cl" "set ts = set (tag_pairs cl)" "\<And>m. m \<noteq> n \<Longrightarrow> (OwnedTagKey m, ''owned'') \<notin> set us"
  shows "OwnedClusterName ts = n"
proof (rule OwnedClusterName_unique)
  show "(OwnedTagKey n, ''owned'') \<in> set ts" using assms(2) names_tag_pairs[OF assms(1)] by simp
  show "m = n" if "(OwnedTagKey m, ''owned'') \<in> set ts" for m
    using that assms(2,3) names_tag_pairs[OF assms(1)] role_not_owned[of m] by (auto simp: skipReservedTagKey_def)
qed

lemma tracked_not_orphan:
  assumes "OwnedClusterName ts = n" "cr \<in> set items" "ccr_Name cr = n"
  shows "\<not> orphan (wanted_index items []) ts"
  using assms by (auto simp: orphan_def Let_def wanted_index_iff)

text \<open>A user tag that claims an unknown cluster can come first.\<close>

lemma claimed_orphan:
  assumes "(OwnedTagKey other, ''owned'') \<in> set ts" "other \<noteq> ''''" "\<And>cr. cr \<in> set items \<Longrightarrow> ccr_Name cr \<noteq> other"
  shows "\<exists>ts'. mset ts' = mset ts \<and> orphan (wanted_index items []) ts'"
proof -
  let ?ts = "(OwnedTagKey other, ''owned'') # remove1 (OwnedTagKey other, ''owned'') ts"
  have "OwnedClusterName ?ts = other" by simp
  then have "orphan (wanted_index items []) ?ts"
    using assms(2,3) by (auto simp: orphan_def Let_def wanted_index_iff)
  moreover have "mset ?ts = mset ts" using assms(1) by simp
  ultimately show ?thesis by blast
qed

end
