(* ===== verification/SpecFilling.thy ===== *)
theory SpecFilling
  imports ClusterController
begin

text \<open>
  What the reconcilers may do to the network part of a \<open>CCECluster\<close> spec, which the user wrote: fill in
  the resource IDs of what was created or named, and add the default subnet to a spec without subnets. The contract is
  stated on \<open>ManagerInterface\<close>, proved for the manager of \<open>internal/services/network/manager.go\<close>, and carried
  through \<open>reconcileManagedNetwork\<close> and \<open>reconcileNormal\<close> of \<open>controllers/ccecluster_controller.go\<close>.
\<close>

section \<open>Filling in\<close>

definition id_fills :: "string \<Rightarrow> string \<Rightarrow> bool" where
  "id_fills a b \<longleftrightarrow> a = '''' \<or> b = a"

text \<open>A VPC that the user named by its ID, with the owned tag of the cluster, records that ID, also in place of
  another one.\<close>

definition vpc_fills :: "string \<Rightarrow> VPC \<Rightarrow> VPC \<Rightarrow> bool" where
  "vpc_fills n v v' \<longleftrightarrow> v' \<lparr> vpc_ResourceID := '''' \<rparr> = v \<lparr> vpc_ResourceID := '''' \<rparr> \<and>
     (id_fills (vpc_ResourceID v) (vpc_ResourceID v') \<or>
      vpc_ID v \<noteq> '''' \<and> IsOwned (vpc_Tags v) n \<and> vpc_ResourceID v' = vpc_ID v)"

text \<open>A subnet that is recorded, or that the user brought, is not touched.\<close>

definition subnet_fills :: "Subnet \<Rightarrow> Subnet \<Rightarrow> bool" where
  "subnet_fills s s' \<longleftrightarrow> s' = s \<or> sub_ID s = '''' \<and> sub_ResourceID s = '''' \<and>
     s' \<lparr> sub_ResourceID := '''', sub_NeutronSubnetID := '''' \<rparr> = s \<lparr> sub_ResourceID := '''', sub_NeutronSubnetID := '''' \<rparr>"

definition nat_fills :: "NatGatewaySpec \<Rightarrow> NatGatewaySpec \<Rightarrow> bool" where
  "nat_fills g g' \<longleftrightarrow> nat_Spec g' = nat_Spec g \<and> id_fills (nat_ResourceID g) (nat_ResourceID g') \<and>
     id_fills (nat_EIPResourceID g) (nat_EIPResourceID g')"

definition sg_fills :: "SecurityGroupSpec \<Rightarrow> SecurityGroupSpec \<Rightarrow> bool" where
  "sg_fills g g' \<longleftrightarrow> g' \<lparr> sgs_ResourceID := '''' \<rparr> = g \<lparr> sgs_ResourceID := '''' \<rparr> \<and> id_fills (sgs_ResourceID g) (sgs_ResourceID g')"

definition spec_fills :: "string \<Rightarrow> NetworkSpec \<Rightarrow> NetworkSpec \<Rightarrow> bool" where
  "spec_fills n s s' \<longleftrightarrow> vpc_fills n (ns_VPC s) (ns_VPC s') \<and>
     (list_all2 subnet_fills (ns_Subnets s) (ns_Subnets s') \<or>
      ns_Subnets s = [] \<and> list_all2 subnet_fills (ns_Subnets (ensureDefaultSubnet s n)) (ns_Subnets s')) \<and>
     rel_option nat_fills (ns_NatGateway s) (ns_NatGateway s') \<and>
     rel_option sg_fills (ns_SecurityGroup s) (ns_SecurityGroup s')"

lemmas fills_defs = vpc_fills_def subnet_fills_def nat_fills_def sg_fills_def id_fills_def

lemma fills_refl [simp, intro]: "vpc_fills n v v" "subnet_fills s s" "nat_fills g g" "sg_fills h h"
  by (simp_all add: fills_defs)

lemma vpc_trans: "vpc_fills n a b \<Longrightarrow> vpc_fills n b c \<Longrightarrow> vpc_fills n a c"
  by (cases a; cases b; cases c) (auto simp: fills_defs)

lemma subnet_trans: "subnet_fills a b \<Longrightarrow> subnet_fills b c \<Longrightarrow> subnet_fills a c"
  by (cases a; cases b; cases c) (auto simp: fills_defs)

lemma nat_trans: "nat_fills a b \<Longrightarrow> nat_fills b c \<Longrightarrow> nat_fills a c"
  by (cases a; cases b; cases c) (auto simp: fills_defs)

lemma sg_trans: "sg_fills a b \<Longrightarrow> sg_fills b c \<Longrightarrow> sg_fills a c"
  by (cases a; cases b; cases c) (auto simp: fills_defs)

lemma subnets_refl [simp, intro]: "list_all2 subnet_fills ss ss"
  by (simp add: list_all2_refl)

lemma option_refl [simp, intro]: "rel_option nat_fills o1 o1" "rel_option sg_fills o2 o2"
  by (simp_all add: option.rel_refl)

lemma spec_fills_refl [simp, intro]: "spec_fills n s s"
  by (simp add: spec_fills_def)

lemma default_subnets: "vpc_fills k v v' \<Longrightarrow> ns_VPC s = v \<Longrightarrow> ns_VPC s' = v' \<Longrightarrow> ns_Subnets s = [] \<Longrightarrow> ns_Subnets s' = [] \<Longrightarrow>
    ns_Subnets (ensureDefaultSubnet s' n) = ns_Subnets (ensureDefaultSubnet s n)"
  by (cases v; cases v') (simp add: ensureDefaultSubnet_def vpc_fills_def)

lemma subnets_trans: "list_all2 subnet_fills a b \<Longrightarrow> list_all2 subnet_fills b c \<Longrightarrow> list_all2 subnet_fills a c"
  by (rule list_all2_trans[OF subnet_trans])

lemma option_trans:
  "rel_option nat_fills p q \<Longrightarrow> rel_option nat_fills q r \<Longrightarrow> rel_option nat_fills p r"
  "rel_option sg_fills p' q' \<Longrightarrow> rel_option sg_fills q' r' \<Longrightarrow> rel_option sg_fills p' r'"
  by (cases p; cases q; cases r; simp add: nat_trans) (cases p'; cases q'; cases r'; simp add: sg_trans)

lemma spec_fills_trans:
  assumes ab: "spec_fills n a b" and bc: "spec_fills n b c" shows "spec_fills n a c"
proof -
  have "list_all2 subnet_fills (ns_Subnets a) (ns_Subnets c) \<or>
      ns_Subnets a = [] \<and> list_all2 subnet_fills (ns_Subnets (ensureDefaultSubnet a n)) (ns_Subnets c)"
  proof (cases "ns_Subnets b = []")
    case True
    have "ns_Subnets (ensureDefaultSubnet a n) \<noteq> []" by (simp add: ensureDefaultSubnet_def)
    then have a: "ns_Subnets a = []" using ab True by (auto simp: spec_fills_def)
    have "ns_Subnets (ensureDefaultSubnet b n) = ns_Subnets (ensureDefaultSubnet a n)"
      using default_subnets[of n, OF _ refl refl a True] ab by (simp add: spec_fills_def)
    then show ?thesis using bc a True by (simp add: spec_fills_def)
  next
    case False
    then have "list_all2 subnet_fills (ns_Subnets b) (ns_Subnets c)" using bc by (auto simp: spec_fills_def)
    then show ?thesis using ab unfolding spec_fills_def by (blast intro: subnets_trans)
  qed
  then show ?thesis using ab bc unfolding spec_fills_def by (blast intro: vpc_trans option_trans)
qed

section \<open>The results of a program\<close>

text \<open>\<open>yields P m\<close>: whatever the world, the result of \<open>m\<close> satisfies \<open>P\<close>.\<close>

definition yields :: "('a \<Rightarrow> bool) \<Rightarrow> ('w, 'a) state \<Rightarrow> bool" where
  "yields P m \<longleftrightarrow> (\<forall>w. P (fst (run_state m w)))"

lemma yields_return: "P x \<Longrightarrow> yields P (State_Monad.return x)"
  by (simp add: yields_def)

lemma yields_bind: "yields P m \<Longrightarrow> (\<And>r. P r \<Longrightarrow> yields Q (k r)) \<Longrightarrow> yields Q (m \<bind> k)"
  by (simp add: yields_def split: prod.split) (metis fst_conv)

lemma yields_any: "(\<And>r. yields Q (k r)) \<Longrightarrow> yields Q (m \<bind> k)"
  by (rule yields_bind[of "\<lambda>_. True"]) (auto simp: yields_def)

lemma yields_if: "(b \<Longrightarrow> yields P m) \<Longrightarrow> (\<not> b \<Longrightarrow> yields P k) \<Longrightarrow> yields P (if b then m else k)"
  by simp

lemma yields_mono: "yields P m \<Longrightarrow> (\<And>r. P r \<Longrightarrow> Q r) \<Longrightarrow> yields Q m"
  by (simp add: yields_def)

lemma yieldsD: "yields P m \<Longrightarrow> wp m (\<lambda>r _. P r) s"
  by (simp add: yields_def wp_run)

lemmas yields_basic = yields_return yields_if

section \<open>The manager fills in\<close>

lemma spec_fills_update:
  "vpc_fills n (ns_VPC s) v \<Longrightarrow> spec_fills n s (s \<lparr> ns_VPC := v \<rparr>)"
  "list_all2 subnet_fills (ns_Subnets s) ss \<Longrightarrow> spec_fills n s (s \<lparr> ns_Subnets := ss \<rparr>)"
  "rel_option nat_fills (ns_NatGateway s) g \<Longrightarrow> spec_fills n s (s \<lparr> ns_NatGateway := g \<rparr>)"
  "rel_option sg_fills (ns_SecurityGroup s) h \<Longrightarrow> spec_fills n s (s \<lparr> ns_SecurityGroup := h \<rparr>)"
  by (simp_all add: spec_fills_def)

lemma spec_fills_default: "spec_fills n s (ensureDefaultSubnet s n)"
  by (auto simp: spec_fills_def ensureDefaultSubnet_def)

lemma ensureVpc_fills: "yields (\<lambda>r. spec_fills n spec (fst r)) (ensureVpc m spec n)"
  unfolding ensureVpc_def Let_def
  by (auto intro!: yields_if yields_any yields_return spec_fills_update simp: vpc_fills_def id_fills_def split: sum.splits option.splits if_splits)

lemma ReconcileVpc_fills: "yields (\<lambda>r. spec_fills n spec (fst r)) (ReconcileVpc m spec n)"
proof -
  have "spec_fills n spec (ensureDefaultSubnet (spec \<lparr> ns_VPC := (ns_VPC spec) \<lparr> vpc_ResourceID := vpc_ID (ns_VPC spec) \<rparr> \<rparr>) n)"
    if "vpc_ID (ns_VPC spec) \<noteq> ''''" "IsOwned (vpc_Tags (ns_VPC spec)) n"
    by (rule spec_fills_trans[OF spec_fills_update(1) spec_fills_default]) (use that in \<open>simp add: vpc_fills_def\<close>)
  then show ?thesis
    unfolding ReconcileVpc_def Let_def
    by (auto intro!: yields_if yields_return yields_bind[OF ensureVpc_fills] intro: spec_fills_trans[OF _ spec_fills_default]
        split: prod.splits if_splits)
qed

lemma subnet_recorded:
  "sub_ID s = '''' \<Longrightarrow> sub_ResourceID s = '''' \<Longrightarrow> subnet_fills s (s \<lparr> sub_ResourceID := i, sub_NeutronSubnetID := j \<rparr>)"
  by (simp add: subnet_fills_def)

lemma adopt_fills: "sub_ID s = '''' \<Longrightarrow> sub_ResourceID s = '''' \<Longrightarrow>
    yields (\<lambda>r. subnet_fills s (fst r)) (adopt_subnet m existing name n s)"
  unfolding adopt_subnet_def
  by (auto intro!: yields_any yields_return subnet_recorded split: option.splits if_splits)

lemma create_fills: "sub_ID s = '''' \<Longrightarrow> sub_ResourceID s = '''' \<Longrightarrow>
    yields (\<lambda>r. subnet_fills s (fst r)) (create_subnet m vpcID name n s)"
  unfolding create_subnet_def
  by (auto intro!: yields_if yields_any yields_return subnet_recorded split: option.splits sum.splits if_splits)

lemma subnet_fills_keeps_ID: "subnet_fills s s' \<Longrightarrow> sub_ID s' = sub_ID s"
  by (cases s; cases s') (auto simp: subnet_fills_def)

lemma ensure_subnet_fills: "yields (\<lambda>r. subnet_fills s (fst r)) (ensure_subnet m vpcID existing n i s)"
proof (cases "sub_ID s \<noteq> '''' \<or> sub_ResourceID s \<noteq> ''''")
  case False
  have "yields (\<lambda>r. subnet_fills s (fst r)) (create_subnet m vpcID name n s1)"
    if "subnet_fills s s1" "sub_ResourceID s1 = ''''" for s1 name
    using that False subnet_fills_keeps_ID[OF that(1)]
    by (intro yields_mono[OF create_fills]) (auto intro: subnet_trans)
  then show ?thesis
    using False unfolding ensure_subnet_def Let_def
    by (auto intro!: yields_if yields_return yields_bind[OF adopt_fills] split: prod.splits if_splits)
qed (auto simp: ensure_subnet_def intro!: yields_return)

lemma subnets_loop_fills: "yields (\<lambda>r. list_all2 subnet_fills ss (fst r)) (ensure_subnets_loop m vpcID existing n i ss)"
proof (induction ss arbitrary: i)
  case (Cons s ss)
  show ?case
    by (auto intro!: yields_if yields_return yields_bind[OF ensure_subnet_fills] yields_bind[OF Cons.IH] split: prod.splits if_splits)
qed (auto intro!: yields_return)

lemma ReconcileSubnets_fills: "yields (\<lambda>r. spec_fills n spec (fst r)) (ReconcileSubnets m spec n)"
  unfolding ReconcileSubnets_def ensureSubnets_def
  by (auto intro!: yields_if yields_return yields_any yields_bind[OF subnets_loop_fills] spec_fills_update split: prod.splits if_splits)

lemma discover_fills: "yields (\<lambda>r. nat_fills g (fst r)) (discover_nat m n g)"
  unfolding discover_nat_def Let_def
  by (auto intro!: yields_if yields_any yields_return simp: nat_fills_def id_fills_def split: if_splits)

lemma create_nat_eip_fills: "yields (\<lambda>r. nat_fills g (fst r)) (create_nat_eip m n g)"
  unfolding create_nat_eip_def
  by (auto intro!: yields_if yields_any yields_return simp: nat_fills_def id_fills_def split: if_splits prod.splits)

lemma create_nat_fills: "yields (\<lambda>r. nat_fills g (fst r)) (create_nat m spec n g)"
proof (cases "nat_ResourceID g = ''''")
  case True
  have rest: "yields (\<lambda>r. nat_fills g (fst r)) (do {
      c \<leftarrow> createNatGateway m name vpc subnet sp n;
      State_Monad.return (case c of Inl e \<Rightarrow> (g1, Some e) | Inr gw \<Rightarrow> (g1 \<lparr> nat_ResourceID := gw \<rparr>, None)) })"
    if "nat_fills g g1" for g1 name vpc subnet sp
    using that True by (auto intro!: yields_any yields_return simp: nat_fills_def id_fills_def split: sum.splits)
  show ?thesis
    using True unfolding create_nat_def Let_def
    by (auto intro!: yields_if yields_return yields_bind[OF create_nat_eip_fills] rest split: prod.splits)
qed (auto simp: create_nat_def intro!: yields_return)

lemma finish_fills: "yields (\<lambda>r. nat_fills g (fst r)) (finish_nat m spec g)"
proof -
  have eip: "yields (nat_fills g) (if nat_EIPResourceID g \<noteq> '''' then State_Monad.return g
      else do { i \<leftarrow> findEipBySnatRules m (nat_ResourceID g);
        State_Monad.return (if i \<noteq> '''' then g \<lparr> nat_EIPResourceID := i \<rparr> else g) })"
    by (auto intro!: yields_if yields_any yields_return) (simp add: nat_fills_def id_fills_def)
  have rest: "yields (\<lambda>r. nat_fills g (fst r)) (do {
      g1 \<leftarrow> (if nat_EIPResourceID g \<noteq> '''' then State_Monad.return g
        else do { i \<leftarrow> findEipBySnatRules m (nat_ResourceID g);
          State_Monad.return (if i \<noteq> '''' then g \<lparr> nat_EIPResourceID := i \<rparr> else g) });
      r \<leftarrow> ensureSnatRules m spec g1;
      State_Monad.return (g1, err_of r) })"
    by (rule yields_bind[OF eip]) (auto intro!: yields_any yields_return)
  show ?thesis
    unfolding finish_nat_def
    by (rule yields_any, rename_tac w, case_tac w) (simp_all only: sum.case rest yields_return fst_conv fills_refl)
qed

lemma ReconcileNatGateway_fills: "yields (\<lambda>r. spec_fills n spec (fst r)) (ReconcileNatGateway m spec n)"
proof -
  have "yields (\<lambda>r. nat_fills g (fst r)) (ensureNatGateway m spec n g)" for g
    unfolding ensureNatGateway_def
    by (auto intro!: yields_bind[OF discover_fills] yields_if yields_return split: prod.splits)
      (auto intro!: yields_bind[OF create_nat_fills] yields_if yields_return yields_mono[OF finish_fills]
        intro: nat_trans split: prod.splits)
  then show ?thesis
    unfolding ReconcileNatGateway_def
    by (auto intro!: yields_return spec_fills_update split: option.splits prod.splits) (auto intro!: yields_bind yields_return spec_fills_update split: prod.splits)
qed

lemma ReconcileSecurityGroup_fills: "yields (\<lambda>r. spec_fills n spec (fst r)) (ReconcileSecurityGroup m spec n)"
proof -
  have obtained: "yields (\<lambda>r. sg_fills g (fst r)) (obtain_sg m vpcID name n g)" for g vpcID name
    unfolding obtain_sg_def
    by (auto intro!: yields_if yields_any yields_return simp: sg_fills_def id_fills_def split: sum.splits option.splits if_splits)
  have "yields (\<lambda>r. sg_fills g (fst r)) (ensureSecurityGroup m spec n g)" for g
    unfolding ensureSecurityGroup_def Let_def
    by (rule yields_bind[OF obtained[of g]]) (auto intro!: yields_if yields_any yields_return split: prod.splits)
  then show ?thesis
    unfolding ReconcileSecurityGroup_def
    by (auto intro!: yields_return spec_fills_update split: option.splits prod.splits) (auto intro!: yields_bind yields_return spec_fills_update split: prod.splits)
qed

section \<open>The contract and the reconciler\<close>

locale spec_filling =
  fixes mi :: "('c, 'm) manager_interface" and good :: "'m \<Rightarrow> bool"
  assumes vpc: "good m \<Longrightarrow> yields (\<lambda>r. spec_fills n spec (fst r)) (mi_ReconcileVpc mi m spec n)"
    and subnets: "good m \<Longrightarrow> yields (\<lambda>r. spec_fills n spec (fst r)) (mi_ReconcileSubnets mi m spec n)"
    and nat: "good m \<Longrightarrow> yields (\<lambda>r. spec_fills n spec (fst r)) (mi_ReconcileNatGateway mi m spec n)"
    and sg: "good m \<Longrightarrow> yields (\<lambda>r. spec_fills n spec (fst r)) (mi_ReconcileSecurityGroup mi m spec n)"
    and tags: "good m \<Longrightarrow> good (mi_SetAdditionalTags mi m ts)"

text \<open>The object's spec is that of \<open>ic\<close>, but for what was filled in.\<close>

definition fills_only :: "string \<Rightarrow> CCECluster \<Rightarrow> ('k, 'c, CCECluster) rstate \<Rightarrow> bool" where
  "fills_only n ic st \<longleftrightarrow> spec_fills n (ics_Network (ic_Spec ic)) (ics_Network (ic_Spec (rs_obj st))) \<and>
     (ic_Spec (rs_obj st)) \<lparr> ics_Network := ics_Network (ic_Spec ic) \<rparr> = ic_Spec ic"

lemma keeps_fills_only:
  "keeps (fills_only n ic) (in_cloud m)" "keeps (fills_only n ic) (in_kube k)" "keeps (fills_only n ic) (with_backoff b)"
  "(\<And>c. ic_Spec (f c) = ic_Spec c) \<Longrightarrow> keeps (fills_only n ic) (modify_obj f)"
  "keeps (fills_only n ic) (ic_status g)" "keeps (fills_only n ic) (ic_true lib ty r t)" "keeps (fills_only n ic) (ic_false lib ty r t)"
  by (auto simp: keeps_def wp_simps fills_only_def) (auto simp: wp_def split: prod.splits)

lemma keeps_network_step:
  fixes step :: "NetworkSpec \<Rightarrow> ('c, NetworkSpec \<times> go_error option) state"
  assumes "\<And>spec. yields (\<lambda>r. spec_fills n spec (fst r)) (step spec)"
  shows "keeps (fills_only n ic :: ('k, 'c, CCECluster) rstate \<Rightarrow> bool) (network_step lib ty reason message step)"
  unfolding keeps_def
proof (intro allI impI)
  fix s :: "('k, 'c, CCECluster) rstate" assume "fills_only n ic s"
  then show "wp (network_step lib ty reason message step) (\<lambda>_. fills_only n ic) s"
    by (simp add: network_step_def wp_simps, intro wp_mono[OF yieldsD[OF assms]])
      (auto simp: wp_simps fills_only_def intro: spec_fills_trans split: option.splits)
qed

context spec_filling begin

lemma keeps_managed_network: "good m \<Longrightarrow> keeps (fills_only n ic) (reconcileManagedNetwork lib mi n m)"
  unfolding reconcileManagedNetwork_def
  by (intro only_intros keeps_fills_only keeps_network_step vpc subnets nat sg)

lemma keeps_normal:
  assumes "cle_manager env = mi" "n = ccl_Name cluster"
    and "\<And>region creds m. cle_NetworkServiceFactory env region creds = Inr m \<Longrightarrow> good m"
  shows "keeps (fills_only n ic) (ic_reconcileNormal env cluster)"
  unfolding ic_reconcileNormal_def ensure_network_def validate_network_def infrastructure_ready_def network_failed_def Let_def assms(1,2)
  by (intro only_intros keeps_fills_only keeps_managed_network keeps_prod) (auto intro: tags assms(3))

end

interpretation nm: spec_filling network_manager "\<lambda>_. True"
  by unfold_locales (simp_all add: network_manager_def ReconcileVpc_fills ReconcileSubnets_fills ReconcileNatGateway_fills
      ReconcileSecurityGroup_fills)

text \<open>C30: The reconciler only fills in the network spec. Whatever the cloud, the credentials and the validator
  answer, and also when the pass ends with an error half way, a normal pass over the SDK-backed manager leaves
  every field of the object's spec as it was, with three exceptions: it records the resource IDs of the VPC, of
  managed subnets, of the NAT gateway and its EIP, and of the security group where none is recorded; it sets
  the recorded ID of a VPC that the user named and that carries the cluster's owned tag to the named one, also in
  place of another; and it adds the default subnet to a spec without subnets.\<close>

theorem reconcile_only_fills_spec:
  "let ic = rs_obj st;
       ic' = rs_obj (snd (run_state (ic_reconcileNormal (env \<lparr> cle_manager := network_manager \<rparr>) cluster) st)) in
     (ic_Spec ic') \<lparr> ics_Network := ics_Network (ic_Spec ic) \<rparr> = ic_Spec ic \<and>
     spec_fills (ccl_Name cluster) (ics_Network (ic_Spec ic)) (ics_Network (ic_Spec ic'))"
proof -
  have "keeps (fills_only (ccl_Name cluster) (rs_obj st)) (ic_reconcileNormal (env \<lparr> cle_manager := network_manager \<rparr>) cluster)"
    by (rule nm.keeps_normal) simp_all
  moreover have "fills_only (ccl_Name cluster) (rs_obj st) st" by (simp add: fills_only_def)
  ultimately show ?thesis using keepsD by (fastforce simp: fills_only_def Let_def)
qed

end
