(* ===== verification/Scopes.thy ===== *)
theory Scopes
  imports Lifecycle MachinePool
begin

text \<open>
  The per-reconcile scopes of \<open>internal/scope/{cluster,controlplane,machinepool}_scope.go\<close>: the constructors with
  their checks, the generations the control plane and pool reconcilers compare, and the deferred \<open>Close\<close>. The
  patch helper of cluster-api is a parameter: \<open>new_helper\<close> may refuse an object, and \<open>patch\<close> persists the
  difference between the object at the start and now, with the status's observed generation if asked to.
\<close>

section \<open>Definitions\<close>

text \<open>A scope keeps the object its helper was built from. The object itself is the one in memory, which the
  reconciler changes; it is read when a method is called.\<close>

record 'o scope =
  sp_helper :: 'o
  sp_Cluster :: CapiCluster

record 'o generation_scope = "'o scope" +
  sp_observedGenerationAtStart :: int

text \<open>The arguments of a constructor, any of which may be nil.\<close>

record ('k, 'o) scope_params =
  spp_Client :: "'k kube_client option"
  spp_Cluster :: "CapiCluster option"
  spp_Object :: "'o option"

definition new_scope :: "string \<Rightarrow> ('o \<Rightarrow> go_error option) \<Rightarrow> ('k, 'o) scope_params \<Rightarrow> (CapiCluster \<Rightarrow> 'o \<Rightarrow> 's) \<Rightarrow> go_error + 's" where
  "new_scope kind new_helper params mk = (case (spp_Cluster params, spp_Object params, spp_Client params) of
      (None, _, _) \<Rightarrow> Inl (PlainErr ''cluster is required'')
    | (_, None, _) \<Rightarrow> Inl (PlainErr (kind @ '' is required''))
    | (_, _, None) \<Rightarrow> Inl (PlainErr ''client is required'')
    | (Some cluster, Some obj, Some _) \<Rightarrow> (case new_helper obj of
          Some err \<Rightarrow> Inl (WrapErr ''failed to init patch helper'' err)
        | None \<Rightarrow> Inr (mk cluster obj)))"

subsection \<open>CCECluster\<close>

definition NewCCEClusterScope :: "(CCECluster \<Rightarrow> go_error option) \<Rightarrow> ('k, CCECluster) scope_params \<Rightarrow> go_error + CCECluster scope" where
  "NewCCEClusterScope new_helper params = new_scope ''CCECluster'' new_helper params
     (\<lambda>cluster ic. \<lparr> sp_helper = ic, sp_Cluster = cluster \<rparr>)"

definition ic_PatchObject :: "(bool \<Rightarrow> CCECluster \<Rightarrow> CCECluster \<Rightarrow> ('k, unit) go) \<Rightarrow> CCECluster scope \<Rightarrow> CCECluster \<Rightarrow> ('k, unit) go" where
  "ic_PatchObject patch s obj = patch False (sp_helper s) obj"

definition ic_Close :: "(bool \<Rightarrow> CCECluster \<Rightarrow> CCECluster \<Rightarrow> ('k, unit) go) \<Rightarrow> CCECluster scope \<Rightarrow> CCECluster \<Rightarrow> ('k, unit) go" where
  "ic_Close patch s obj = ic_PatchObject patch s obj"

subsection \<open>CCEManagedControlPlane\<close>

definition NewCCEManagedControlPlaneScope :: "(CCEManagedControlPlane \<Rightarrow> go_error option) \<Rightarrow>
    ('k, CCEManagedControlPlane) scope_params \<Rightarrow> go_error + CCEManagedControlPlane generation_scope" where
  "NewCCEManagedControlPlaneScope new_helper params = new_scope ''CCEManagedControlPlane'' new_helper params
     (\<lambda>cluster cp. \<lparr> sp_helper = cp, sp_Cluster = cluster, sp_observedGenerationAtStart = cpt_ObservedGeneration (cp_Status cp) \<rparr>)"

text \<open>\<open>GenerationAtStart\<close> reads the object in memory, \<open>ObservedGenerationAtStart\<close> the copy.\<close>

definition cp_GenerationAtStart :: "CCEManagedControlPlane generation_scope \<Rightarrow> CCEManagedControlPlane \<Rightarrow> int" where
  "cp_GenerationAtStart s obj = cp_Generation obj"

definition cp_ObservedGenerationAtStart :: "CCEManagedControlPlane generation_scope \<Rightarrow> int" where
  "cp_ObservedGenerationAtStart s = sp_observedGenerationAtStart s"

definition cp_PatchObject :: "(bool \<Rightarrow> CCEManagedControlPlane \<Rightarrow> CCEManagedControlPlane \<Rightarrow> ('k, unit) go) \<Rightarrow>
    CCEManagedControlPlane generation_scope \<Rightarrow> CCEManagedControlPlane \<Rightarrow> ('k, unit) go" where
  "cp_PatchObject patch s obj = patch True (sp_helper s) obj"

definition cp_Close :: "(bool \<Rightarrow> CCEManagedControlPlane \<Rightarrow> CCEManagedControlPlane \<Rightarrow> ('k, unit) go) \<Rightarrow>
    CCEManagedControlPlane generation_scope \<Rightarrow> CCEManagedControlPlane \<Rightarrow> ('k, unit) go" where
  "cp_Close patch s obj = cp_PatchObject patch s obj"

subsection \<open>CCEManagedMachinePool\<close>

definition NewCCEManagedMachinePoolScope :: "(CCEManagedMachinePool \<Rightarrow> go_error option) \<Rightarrow>
    ('k, CCEManagedMachinePool) scope_params \<Rightarrow> go_error + CCEManagedMachinePool generation_scope" where
  "NewCCEManagedMachinePoolScope new_helper params = new_scope ''CCEManagedMachinePool'' new_helper params
     (\<lambda>cluster mp. \<lparr> sp_helper = mp, sp_Cluster = cluster, sp_observedGenerationAtStart = mpt_ObservedGeneration (mp_Status mp) \<rparr>)"

definition mp_GenerationAtStart :: "CCEManagedMachinePool generation_scope \<Rightarrow> CCEManagedMachinePool \<Rightarrow> int" where
  "mp_GenerationAtStart s obj = mp_Generation obj"

definition mp_ObservedGenerationAtStart :: "CCEManagedMachinePool generation_scope \<Rightarrow> int" where
  "mp_ObservedGenerationAtStart s = sp_observedGenerationAtStart s"

definition mp_PatchObject :: "(bool \<Rightarrow> CCEManagedMachinePool \<Rightarrow> CCEManagedMachinePool \<Rightarrow> ('k, unit) go) \<Rightarrow>
    CCEManagedMachinePool generation_scope \<Rightarrow> CCEManagedMachinePool \<Rightarrow> ('k, unit) go" where
  "mp_PatchObject patch s obj = patch True (sp_helper s) obj"

definition mp_Close :: "(bool \<Rightarrow> CCEManagedMachinePool \<Rightarrow> CCEManagedMachinePool \<Rightarrow> ('k, unit) go) \<Rightarrow>
    CCEManagedMachinePool generation_scope \<Rightarrow> CCEManagedMachinePool \<Rightarrow> ('k, unit) go" where
  "mp_Close patch s obj = mp_PatchObject patch s obj"

section \<open>What a scope guarantees\<close>

lemma new_scope_ok: "(\<exists>s. new_scope kind new_helper params mk = Inr s) \<longleftrightarrow>
    spp_Client params \<noteq> None \<and> (\<exists>cluster obj. spp_Cluster params = Some cluster \<and> spp_Object params = Some obj \<and> new_helper obj = None)"
  by (auto simp: new_scope_def split: option.split)

text \<open>The name \<open>GenerationAtStart\<close> promises more than the method does: it follows the object, where
  \<open>ObservedGenerationAtStart\<close> does not.\<close>

lemma generations_of_a_scope:
  assumes "NewCCEManagedControlPlaneScope new_helper
    \<lparr> spp_Client = client, spp_Cluster = cluster, spp_Object = Some cp \<rparr> = Inr s"
  shows "cp_ObservedGenerationAtStart s = cpt_ObservedGeneration (cp_Status cp)"
    and "cp_GenerationAtStart s (cp \<lparr> cp_Generation := n \<rparr>) = n"
  using assms by (auto simp: NewCCEManagedControlPlaneScope_def new_scope_def cp_ObservedGenerationAtStart_def
      cp_GenerationAtStart_def split: option.splits)

text \<open>The reconcilers' pass with the scope they build: the part after \<open>reconcileNormal\<close> over the scope's getters.\<close>

definition cp_scoped_pass :: "(CCEManagedControlPlane \<Rightarrow> go_error option) \<Rightarrow> ('k, 'c) cp_env \<Rightarrow> NamespacedName \<Rightarrow> CapiCluster \<Rightarrow>
    CCEManagedControlPlane \<Rightarrow> ('k, 'c) cp_run" where
  "cp_scoped_pass new_helper env key cluster cp =
     (case NewCCEManagedControlPlaneScope new_helper
            \<lparr> spp_Client = Some (cpe_kube env), spp_Cluster = Some cluster, spp_Object = Some cp \<rparr> of
        Inl err \<Rightarrow> return_err (WrapErr ''failed to build CCM scope'' err)
      | Inr s \<Rightarrow> close_scope (\<lambda>_ obj. cp_Close (\<lambda>_. kb_CloseControlPlane (cpe_kube env)) s obj) cp
          (do {
             before \<leftarrow> with_backoff (\<lambda>b. (failures b key, b));
             r \<leftarrow> reconcileNormal env cluster;
             obj \<leftarrow> get_obj;
             case snd r of
               Some err \<Rightarrow> State_Monad.return (noRequeue, Some err)
             | None \<Rightarrow> do {
                 n \<leftarrow> with_backoff (\<lambda>b. (failures b key, b));
                 if \<not> (n \<noteq> before \<or> RequeueAfter (fst r) = permissionBackoff) \<and>
                    cp_ObservedGenerationAtStart s < cp_GenerationAtStart s obj
                 then requeue defaultRequeue
                 else State_Monad.return r } }))"


lemma cp_scope_built: "new_helper cp = None \<Longrightarrow>
    NewCCEManagedControlPlaneScope new_helper \<lparr> spp_Client = Some c, spp_Cluster = Some cluster, spp_Object = Some cp \<rparr> =
      Inr \<lparr> sp_helper = cp, sp_Cluster = cluster, sp_observedGenerationAtStart = cpt_ObservedGeneration (cp_Status cp) \<rparr>"
  by (simp add: NewCCEManagedControlPlaneScope_def new_scope_def)

text \<open>A pass leaves the generation alone, so the getter does what its name says after all: the pass over the scope is
  the one \<open>cp_Reconcile\<close> takes.\<close>

lemma cp_scoped_pass_is_Reconcile:
  assumes "new_helper cp = None" "rs_obj st = cp"
  shows "run_state (cp_scoped_pass new_helper env key cluster cp) st =
    run_state (close_scope (kb_CloseControlPlane (cpe_kube env)) cp
      (requeue_behind key (cpt_ObservedGeneration (cp_Status cp)) (cp_Generation cp) (reconcileNormal env cluster))) st"
proof -
  obtain r st' where run: "run_state (reconcileNormal env cluster) st = (r, st')"
    by (cases "run_state (reconcileNormal env cluster) st")
  have "keeps (pass_inv (\<lambda>_. True) (\<lambda>x. cp_Generation x = cp_Generation cp)) (reconcileNormal env cluster)"
    by (rule normal_keeps_frame) (simp add: pass_frame_def)
  from keepsD[OF this, of st] have gen: "cp_Generation (rs_obj st') = cp_Generation cp"
    using run assms(2) by (simp add: pass_inv_def)
  have read: "run_state (with_backoff (\<lambda>t. (failures t key, t))) w = (failures (rs_backoff w) key, w)" for w :: "('a, 'b, CCEManagedControlPlane) rstate"
    by (simp add: with_backoff_def)
  show ?thesis
    using assms by (simp add: cp_scoped_pass_def cp_scope_built requeue_behind_def close_scope_def cp_Close_def cp_PatchObject_def
        read run get_obj_def gen cp_ObservedGenerationAtStart_def cp_GenerationAtStart_def split: option.split prod.split)
qed

end
