(* ===== verification/Clients.thy ===== *)
theory Clients
  imports CceService NetValidator Identity ClusterController
begin

text \<open>
  How the provider builds its SDK clients: \<open>NewClient\<close> of \<open>internal/services/cce/cce.go\<close> with the process-wide
  cache of clients, \<open>NewManager\<close>, \<open>NewValidator\<close>, the IAM client, the STS calls of \<open>internal/credentials/sts.go\<close>
  and the factories of the reconcilers, which tests override. The builders of the SDK are parameters (\<open>sdk\<close>):
  pure functions of their arguments that may refuse. A client of one service is a handle \<open>'h\<close>.
\<close>

section \<open>The SDK\<close>

datatype sdk_service = SvcCCE | SvcEIP | SvcEVS | SvcVPC | SvcNAT | SvcIAM | SvcSTS

text \<open>\<open>config.DefaultHttpConfig()\<close>, alone or with the round tripper over \<open>throttle.Shared()\<close>.\<close>

datatype http_config = DefaultHttp | ThrottledHttp

text \<open>\<open>SafeValueOf\<close> of a service's regions; \<open>SafeBuild\<close> of basic and global credentials from an access key, a
  secret key and the security token if one is set; \<open>SafeBuild\<close> of a service's client.\<close>

record ('reg, 'cred, 'h) sdk =
  sdk_Region :: "sdk_service \<Rightarrow> string \<Rightarrow> go_error + 'reg"
  sdk_BasicCredentials :: "string \<Rightarrow> string \<Rightarrow> string option \<Rightarrow> go_error + 'cred"
  sdk_GlobalCredentials :: "string \<Rightarrow> string \<Rightarrow> string option \<Rightarrow> go_error + 'cred"
  sdk_Build :: "sdk_service \<Rightarrow> 'reg \<Rightarrow> 'cred \<Rightarrow> http_config \<Rightarrow> go_error + 'h"

text \<open>\<open>x, err := r; if err != nil { return errors.Wrap(err, msg) }\<close> without effects.\<close>

definition or_fail :: "go_error + 'a \<Rightarrow> string \<Rightarrow> ('a \<Rightarrow> go_error + 'b) \<Rightarrow> go_error + 'b" where
  "or_fail r msg k = (case r of Inl e \<Rightarrow> Inl (WrapErr msg e) | Inr x \<Rightarrow> k x)"

definition resolve_region :: "('reg, 'cred, 'h, 'z) sdk_scheme \<Rightarrow> sdk_service \<Rightarrow> string \<Rightarrow> string \<Rightarrow>
    ('reg \<Rightarrow> go_error + 'b) \<Rightarrow> go_error + 'b" where
  "resolve_region sdk svc name regionID =
     or_fail (sdk_Region sdk svc regionID) (msgf [''failed to resolve '', name, '' region '', regionID])"

definition token_of :: "CloudCredentials \<Rightarrow> string option" where
  "token_of creds = (if ccr_SecurityToken creds \<noteq> '''' then Some (ccr_SecurityToken creds) else None)"

definition basic_credentials :: "('reg, 'cred, 'h, 'z) sdk_scheme \<Rightarrow> CloudCredentials \<Rightarrow> go_error + 'cred" where
  "basic_credentials sdk creds = sdk_BasicCredentials sdk (ccr_AK creds) (ccr_SK creds) (token_of creds)"

section \<open>The CCE client\<close>

record 'h CceClient =
  cc_cce :: 'h
  cc_eip :: 'h
  cc_evs :: 'h
  cc_vpc :: 'h
  cc_nat :: 'h

text \<open>One block of \<open>buildAuxClients\<close>: the region, then the client, on the default HTTP configuration.\<close>

definition aux_client :: "('reg, 'cred, 'h, 'z) sdk_scheme \<Rightarrow> sdk_service \<Rightarrow> string \<Rightarrow> string \<Rightarrow> 'cred \<Rightarrow>
    ('h \<Rightarrow> go_error + 'b) \<Rightarrow> go_error + 'b" where
  "aux_client sdk svc name regionID cred k =
     resolve_region sdk svc name regionID (\<lambda>reg.
     or_fail (sdk_Build sdk svc reg cred DefaultHttp) (msgf [''failed to build '', name, '' client'']) k)"

definition buildAuxClients :: "('reg, 'cred, 'h, 'z) sdk_scheme \<Rightarrow> 'h \<Rightarrow> string \<Rightarrow> 'cred \<Rightarrow> go_error + 'h CceClient" where
  "buildAuxClients sdk cce regionID cred =
     aux_client sdk SvcEIP ''EIP'' regionID cred (\<lambda>eip.
     aux_client sdk SvcEVS ''EVS'' regionID cred (\<lambda>evs.
     aux_client sdk SvcVPC ''VPC'' regionID cred (\<lambda>vpc.
     aux_client sdk SvcNAT ''NAT'' regionID cred (\<lambda>nat.
     Inr \<lparr> cc_cce = cce, cc_eip = eip, cc_evs = evs, cc_vpc = vpc, cc_nat = nat \<rparr>))))"

text \<open>\<open>NewClient\<close> between the two uses of the cache.\<close>

definition build_client :: "('reg, 'cred, 'h, 'z) sdk_scheme \<Rightarrow> string \<Rightarrow> CloudCredentials \<Rightarrow> go_error + 'h CceClient" where
  "build_client sdk regionID creds =
     resolve_region sdk SvcCCE ''CCE'' regionID (\<lambda>region.
     or_fail (basic_credentials sdk creds) ''failed to build CCE credentials'' (\<lambda>cred.
     or_fail (sdk_Build sdk SvcCCE region cred ThrottledHttp) ''failed to build CCE HTTP client'' (\<lambda>cce.
     buildAuxClients sdk cce regionID cred)))"

subsection \<open>The cache\<close>

text \<open>\<open>clientCache\<close> is a \<open>sync.Map\<close>: every \<open>Load\<close> and \<open>Store\<close> is one atomic step.\<close>

type_synonym 'h client_cache = "(string, 'h CceClient) gomap"

definition cache_key :: "string \<Rightarrow> CloudCredentials \<Rightarrow> string" where
  "cache_key regionID creds = regionID @ CHR 0x00 # ccr_AK creds @ CHR 0x00 # ccr_SK creds"

definition cache_Load :: "string \<Rightarrow> ('h client_cache, 'h CceClient option) state" where
  "cache_Load key = State (\<lambda>cache. (map_of cache key, cache))"

definition cache_Store :: "string \<Rightarrow> 'h CceClient \<Rightarrow> ('h client_cache, unit) state" where
  "cache_Store key c = State (\<lambda>cache. ((), AList.update key c cache))"

definition NewClient :: "('reg, 'cred, 'h, 'z) sdk_scheme \<Rightarrow> string \<Rightarrow> CloudCredentials \<Rightarrow> ('h client_cache, 'h CceClient) go" where
  "NewClient sdk regionID creds = do {
     hit \<leftarrow> (if ccr_SecurityToken creds = '''' then cache_Load (cache_key regionID creds) else State_Monad.return None);
     case hit of
       Some c \<Rightarrow> ok c
     | None \<Rightarrow> (case build_client sdk regionID creds of
         Inl err \<Rightarrow> fail err
       | Inr c \<Rightarrow> do {
           _ \<leftarrow> (if ccr_SecurityToken creds = '''' then cache_Store (cache_key regionID creds) c else State_Monad.return ());
           ok c }) }"

section \<open>The other clients\<close>

record 'h ManagerClients =
  mcl_vpc :: 'h
  mcl_nat :: 'h
  mcl_eip :: 'h

text \<open>\<open>NewManager\<close>: all three clients are throttled.\<close>

definition NewManager :: "('reg, 'cred, 'h, 'z) sdk_scheme \<Rightarrow> string \<Rightarrow> CloudCredentials \<Rightarrow> go_error + 'h ManagerClients" where
  "NewManager sdk regionID creds =
     resolve_region sdk SvcVPC ''VPC'' regionID (\<lambda>region.
     or_fail (basic_credentials sdk creds) ''failed to build network credentials'' (\<lambda>cred.
     or_fail (sdk_Build sdk SvcVPC region cred ThrottledHttp) ''failed to build VPC client'' (\<lambda>vpc.
     resolve_region sdk SvcNAT ''NAT'' regionID (\<lambda>natRegion.
     or_fail (sdk_Build sdk SvcNAT natRegion cred ThrottledHttp) ''failed to build NAT client'' (\<lambda>nat.
     resolve_region sdk SvcEIP ''EIP'' regionID (\<lambda>eipRegion.
     or_fail (sdk_Build sdk SvcEIP eipRegion cred ThrottledHttp) ''failed to build EIP client'' (\<lambda>eip.
     Inr \<lparr> mcl_vpc = vpc, mcl_nat = nat, mcl_eip = eip \<rparr>)))))))"

definition NewValidator :: "('reg, 'cred, 'h, 'z) sdk_scheme \<Rightarrow> string \<Rightarrow> CloudCredentials \<Rightarrow> go_error + 'h" where
  "NewValidator sdk regionID creds =
     resolve_region sdk SvcVPC ''VPC'' regionID (\<lambda>region.
     or_fail (basic_credentials sdk creds) ''failed to build VPC credentials'' (\<lambda>cred.
     or_fail (sdk_Build sdk SvcVPC region cred DefaultHttp) ''failed to build VPC client'' Inr))"

definition iam_NewClient :: "('reg, 'cred, 'h, 'z) sdk_scheme \<Rightarrow> string \<Rightarrow> CloudCredentials \<Rightarrow> go_error + 'h" where
  "iam_NewClient sdk regionID creds =
     resolve_region sdk SvcIAM ''IAM'' regionID (\<lambda>region.
     or_fail (sdk_GlobalCredentials sdk (ccr_AK creds) (ccr_SK creds) (token_of creds)) ''failed to build IAM credentials'' (\<lambda>cred.
     or_fail (sdk_Build sdk SvcIAM region cred DefaultHttp) ''failed to build IAM HTTP client'' Inr))"

subsection \<open>STS\<close>

text \<open>The two calls of an STS client: the account ID of the caller, and the assumption of an agency by its URN, with
  the session name and duration.\<close>

record ('reg, 'cred, 'h, 'c) sts_sdk = "('reg, 'cred, 'h) sdk" +
  sts_GetCallerIdentity :: "'h \<Rightarrow> ('c, string option) go"
  sts_AssumeAgency :: "'h \<Rightarrow> string \<Rightarrow> string \<Rightarrow> int32 \<Rightarrow> ('c, CloudCredentials option) go"

definition agencySessionName :: string where "agencySessionName = ''cce-cluster-api''"
definition defaultSessionDuration :: int32 where "defaultSessionDuration = 3600"

definition sts_client :: "('reg, 'cred, 'h, 'z) sdk_scheme \<Rightarrow> string \<Rightarrow> string \<Rightarrow> string \<Rightarrow> go_error + 'h" where
  "sts_client sdk region accessKey secretKey =
     resolve_region sdk SvcSTS ''STS'' region (\<lambda>reg.
     or_fail (sdk_BasicCredentials sdk accessKey secretKey None) ''failed to build STS credentials'' (\<lambda>cred.
     or_fail (sdk_Build sdk SvcSTS reg cred DefaultHttp) ''failed to build STS client'' Inr))"

definition getAccountID :: "('reg, 'cred, 'h, 'c, 'z) sts_sdk_scheme \<Rightarrow> string \<Rightarrow> string \<Rightarrow> string \<Rightarrow> ('c, string) go" where
  "getAccountID sdk region accessKey secretKey =
     tryE (State_Monad.return (sts_client sdk region accessKey secretKey)) (\<lambda>h.
     tryE (wrapE ''GetCallerIdentity failed'' (sts_GetCallerIdentity sdk h)) (\<lambda>account. case account of
         None \<Rightarrow> fail (PlainErr ''GetCallerIdentity returned an empty account ID'')
       | Some a \<Rightarrow> if a = '''' then fail (PlainErr ''GetCallerIdentity returned an empty account ID'') else ok a))"

definition sts_assumeAgency :: "('reg, 'cred, 'h, 'c, 'z) sts_sdk_scheme \<Rightarrow> string \<Rightarrow> string \<Rightarrow> string \<Rightarrow> string \<Rightarrow>
    ('c, CloudCredentials) go" where
  "sts_assumeAgency sdk region agencyURN accessKey secretKey =
     tryE (State_Monad.return (sts_client sdk region accessKey secretKey)) (\<lambda>h.
     tryE (wrapE ''AssumeAgency failed'' (sts_AssumeAgency sdk h agencyURN agencySessionName defaultSessionDuration)) (\<lambda>resp.
       case resp of
         None \<Rightarrow> fail (PlainErr ''AssumeAgency returned no credentials'')
       | Some creds \<Rightarrow> ok creds))"

definition NewProvider :: "('reg, 'cred, 'h, 'c, 'z) sts_sdk_scheme \<Rightarrow> 'c provider" where
  "NewProvider sdk = AssumeAgency (getAccountID sdk) (sts_assumeAgency sdk)"

section \<open>The factories of the reconcilers\<close>

text \<open>What a built client is to the reconcilers: \<open>wrap\<close> turns the handles into the service interface.\<close>

definition newCCEService :: "('h CceClient \<Rightarrow> 'c service) \<Rightarrow> ('reg, 'cred, 'h, 'z) sdk_scheme \<Rightarrow>
    (string \<Rightarrow> CloudCredentials \<Rightarrow> go_error + 'c service) option \<Rightarrow> string \<Rightarrow> CloudCredentials \<Rightarrow> ('h client_cache, 'c service) go" where
  "newCCEService wrap sdk factory regionID creds = (case factory of
      Some f \<Rightarrow> State_Monad.return (f regionID creds)
    | None \<Rightarrow> tryE (NewClient sdk regionID creds) (\<lambda>c. ok (wrap c)))"

definition newIAMService :: "('h \<Rightarrow> 's) \<Rightarrow> ('reg, 'cred, 'h, 'z) sdk_scheme \<Rightarrow>
    (string \<Rightarrow> CloudCredentials \<Rightarrow> go_error + 's) option \<Rightarrow> string \<Rightarrow> CloudCredentials \<Rightarrow> go_error + 's" where
  "newIAMService wrap sdk factory regionID creds = (case factory of
      Some f \<Rightarrow> f regionID creds
    | None \<Rightarrow> map_sum id wrap (iam_NewClient sdk regionID creds))"

definition newNetworkValidator :: "('h \<Rightarrow> 'v) \<Rightarrow> ('reg, 'cred, 'h, 'z) sdk_scheme \<Rightarrow>
    (string \<Rightarrow> CloudCredentials \<Rightarrow> go_error + 'v) option \<Rightarrow> string \<Rightarrow> CloudCredentials \<Rightarrow> go_error + 'v" where
  "newNetworkValidator wrap sdk factory regionID creds = (case factory of
      Some f \<Rightarrow> f regionID creds
    | None \<Rightarrow> map_sum id wrap (NewValidator sdk regionID creds))"

definition newNetworkService :: "('h ManagerClients \<Rightarrow> 'm) \<Rightarrow> ('reg, 'cred, 'h, 'z) sdk_scheme \<Rightarrow>
    (string \<Rightarrow> CloudCredentials \<Rightarrow> go_error + 'm) option \<Rightarrow> string \<Rightarrow> CloudCredentials \<Rightarrow> go_error + 'm" where
  "newNetworkService wrap sdk factory regionID creds = (case factory of
      Some f \<Rightarrow> f regionID creds
    | None \<Rightarrow> map_sum id wrap (NewManager sdk regionID creds))"

section \<open>The cache under concurrent reconciles\<close>

type_synonym client_request = "string \<times> CloudCredentials"

abbreviation request_key :: "client_request \<Rightarrow> string" where
  "request_key r \<equiv> cache_key (fst r) (snd r)"

abbreviation built_for :: "('reg, 'cred, 'h, 'z) sdk_scheme \<Rightarrow> client_request \<Rightarrow> go_error + 'h CceClient" where
  "built_for sdk r \<equiv> build_client sdk (fst r) (snd r)"

definition static_keys :: "client_request \<Rightarrow> bool" where
  "static_keys r \<longleftrightarrow> ccr_SecurityToken (snd r) = ''''"

text \<open>A goroutine in \<open>NewClient\<close>: before the load, before the build, before the store, and after the return.\<close>

datatype 'h caller = Calling client_request | Building client_request | Storing client_request "'h CceClient"
  | Returned client_request "go_error + 'h CceClient"

inductive caller_step :: "('reg, 'cred, 'h, 'z) sdk_scheme \<Rightarrow> 'h client_cache \<times> 'h caller \<Rightarrow> 'h client_cache \<times> 'h caller \<Rightarrow> bool"
  for sdk where
  Hit: "static_keys r \<Longrightarrow> map_of cache (request_key r) = Some c \<Longrightarrow>
     caller_step sdk (cache, Calling r) (cache, Returned r (Inr c))"
| Miss: "\<not> static_keys r \<or> map_of cache (request_key r) = None \<Longrightarrow>
     caller_step sdk (cache, Calling r) (cache, Building r)"
| Refused: "built_for sdk r = Inl e \<Longrightarrow> caller_step sdk (cache, Building r) (cache, Returned r (Inl e))"
| Built: "built_for sdk r = Inr c \<Longrightarrow> static_keys r \<Longrightarrow> caller_step sdk (cache, Building r) (cache, Storing r c)"
| Temporary: "built_for sdk r = Inr c \<Longrightarrow> \<not> static_keys r \<Longrightarrow>
     caller_step sdk (cache, Building r) (cache, Returned r (Inr c))"
| Stored: "caller_step sdk (cache, Storing r c) (AList.update (request_key r) c cache, Returned r (Inr c))"

inductive_cases caller_stepE: "caller_step sdk (cache, p) q"

text \<open>Any goroutine may take the next step.\<close>

inductive callers_step :: "('reg, 'cred, 'h, 'z) sdk_scheme \<Rightarrow> 'h client_cache \<times> 'h caller list \<Rightarrow>
    'h client_cache \<times> 'h caller list \<Rightarrow> bool" for sdk where
  "i < length ps \<Longrightarrow> caller_step sdk (cache, ps ! i) (cache', p) \<Longrightarrow> callers_step sdk (cache, ps) (cache', ps[i := p])"

abbreviation calls_reach where "calls_reach sdk \<equiv> (callers_step sdk)\<^sup>*\<^sup>*"

subsection \<open>Every call of \<open>NewClient\<close> is such a run\<close>

lemma run_NewClient:
  "run_state (NewClient sdk regionID creds) cache =
     (let r = (regionID, creds); hit = (if static_keys r then map_of cache (request_key r) else None) in
      case hit of Some c \<Rightarrow> (Inr c, cache)
      | None \<Rightarrow> (built_for sdk r, case built_for sdk r of Inl e \<Rightarrow> cache
          | Inr c \<Rightarrow> if static_keys r then AList.update (request_key r) c cache else cache))"
  by (simp add: NewClient_def cache_Load_def cache_Store_def static_keys_def fail_def ok_def Let_def
      split: sum.split option.split)

lemma NewClient_steps:
  assumes "run_state (NewClient sdk (fst r) (snd r)) cache = (res, cache')"
  shows "(caller_step sdk)\<^sup>*\<^sup>* (cache, Calling r) (cache', Returned r res)"
proof (cases "static_keys r \<and> map_of cache (request_key r) \<noteq> None")
  case True
  then obtain c where c: "map_of cache (request_key r) = Some c" by auto
  with True assms have "res = Inr c" "cache' = cache"
    by (auto simp: run_NewClient)
  with True c show ?thesis by (auto intro: Hit)
next
  case False
  have miss: "(caller_step sdk)\<^sup>*\<^sup>* (cache, Calling r) (cache, Building r)"
    using False by (intro r_into_rtranclp Miss) auto
  have "(caller_step sdk)\<^sup>*\<^sup>* (cache, Building r) (cache', Returned r res)"
  proof (cases "built_for sdk r")
    case (Inl e)
    then have "res = Inl e" "cache' = cache"
      using False assms by (auto simp: run_NewClient Let_def split: option.splits if_splits)
    with Inl show ?thesis by (auto intro: Refused)
  next
    case (Inr c)
    then show ?thesis
    proof (cases "static_keys r")
      case True
      then have "res = Inr c" "cache' = AList.update (request_key r) c cache"
        using Inr False assms by (auto simp: run_NewClient)
      moreover have "caller_step sdk (cache, Building r) (cache, Storing r c)" using Inr True by (rule Built)
      ultimately show ?thesis using Stored[of sdk cache r c] by (simp add: rtranclp.rtrancl_into_rtrancl)
    next
      case F: False
      then have "res = Inr c" "cache' = cache" using Inr assms by (auto simp: run_NewClient)
      with F Inr show ?thesis by (auto intro: Temporary)
    qed
  qed
  with miss show ?thesis by simp
qed

lemma caller_among_callers:
  assumes "(caller_step sdk)\<^sup>*\<^sup>* a b" "i < length ps" "ps ! i = snd a"
  shows "calls_reach sdk (fst a, ps) (fst b, ps[i := snd b])"
  using assms(1)
proof (induction rule: rtranclp_induct)
  case base
  then show ?case using assms(2,3) by (metis list_update_id rtranclp.rtrancl_refl)
next
  case (step b c)
  have "callers_step sdk (fst b, ps[i := snd b]) (fst c, ps[i := snd b, i := snd c])"
    using step.hyps(2) assms(2) by (intro callers_step.intros) simp_all
  with step.IH show ?case by simp
qed

subsection \<open>The cache is transparent\<close>

definition nul_free :: "client_request \<Rightarrow> bool" where
  "nul_free r \<longleftrightarrow> CHR 0x00 \<notin> set (fst r) \<and> CHR 0x00 \<notin> set (ccr_AK (snd r))"

lemma split_at_first: "x \<notin> set a \<Longrightarrow> x \<notin> set b \<Longrightarrow> a @ x # u = b @ x # v \<Longrightarrow> a = b \<and> u = v"
proof (induction a arbitrary: b)
  case Nil
  then show ?case by (cases b) auto
next
  case (Cons y a)
  then show ?case by (cases b) auto
qed

lemma same_key:
  assumes "nul_free r" "nul_free r'" "static_keys r" "static_keys r'" "request_key r = request_key r'"
  shows "r = r'"
proof -
  have 1: "fst r = fst r' \<and> ccr_AK (snd r) @ CHR 0x00 # ccr_SK (snd r) = ccr_AK (snd r') @ CHR 0x00 # ccr_SK (snd r')"
    using assms(1,2,5) by (intro split_at_first[of "CHR 0x00"]) (auto simp: nul_free_def cache_key_def)
  then have "ccr_AK (snd r) = ccr_AK (snd r') \<and> ccr_SK (snd r) = ccr_SK (snd r')"
    using assms(1,2) by (intro split_at_first[of "CHR 0x00"]) (auto simp: nul_free_def)
  with 1 assms(3,4) show ?thesis
    by (auto simp: static_keys_def prod_eq_iff intro!: CloudCredentials.equality)
qed

text \<open>Everything in the cache was built for static keys, under the key it is stored by.\<close>

definition cache_ok :: "('reg, 'cred, 'h, 'z) sdk_scheme \<Rightarrow> 'h client_cache \<Rightarrow> bool" where
  "cache_ok sdk cache \<longleftrightarrow> (\<forall>key c. map_of cache key = Some c \<longrightarrow>
     (\<exists>r. nul_free r \<and> static_keys r \<and> key = request_key r \<and> built_for sdk r = Inr c))"

fun caller_ok :: "('reg, 'cred, 'h, 'z) sdk_scheme \<Rightarrow> client_request \<Rightarrow> 'h caller \<Rightarrow> bool" where
  "caller_ok sdk r (Calling q) \<longleftrightarrow> q = r"
| "caller_ok sdk r (Building q) \<longleftrightarrow> q = r"
| "caller_ok sdk r (Storing q c) \<longleftrightarrow> q = r \<and> static_keys r \<and> built_for sdk r = Inr c"
| "caller_ok sdk r (Returned q res) \<longleftrightarrow> q = r \<and> res = built_for sdk r"

lemma cache_ok_hit: "cache_ok sdk cache \<Longrightarrow> nul_free r \<Longrightarrow> static_keys r \<Longrightarrow> map_of cache (request_key r) = Some c \<Longrightarrow>
    built_for sdk r = Inr c"
  unfolding cache_ok_def using same_key by metis

lemma cache_ok_store: "cache_ok sdk cache \<Longrightarrow> nul_free r \<Longrightarrow> static_keys r \<Longrightarrow> built_for sdk r = Inr c \<Longrightarrow>
    cache_ok sdk (AList.update (request_key r) c cache)"
  unfolding cache_ok_def by (auto simp: update_conv' simp del: split_paired_Ex split: if_splits)

lemma caller_step_ok:
  "caller_step sdk (cache, p) (cache', p') \<Longrightarrow> nul_free r \<Longrightarrow> cache_ok sdk cache \<Longrightarrow> caller_ok sdk r p \<Longrightarrow>
     cache_ok sdk cache' \<and> caller_ok sdk r p'"
  by (erule caller_stepE) (auto simp: cache_ok_hit cache_ok_store)

lemma callers_step_ok:
  assumes "callers_step sdk s s'" "list_all nul_free rs" "cache_ok sdk (fst s)" "list_all2 (caller_ok sdk) rs (snd s)"
  shows "cache_ok sdk (fst s') \<and> list_all2 (caller_ok sdk) rs (snd s')"
  using assms
proof cases
  case (1 i ps cache cache' p)
  have i: "i < length rs" "caller_ok sdk (rs ! i) (ps ! i)" "nul_free (rs ! i)"
    using assms(2,4) 1 by (auto simp: list_all2_conv_all_nth list_all_length)
  from caller_step_ok[OF 1(4) i(3) _ i(2)] assms(3) 1 have ok: "cache_ok sdk cache'" "caller_ok sdk (rs ! i) p" by auto
  have "list_all2 (caller_ok sdk) (rs[i := rs ! i]) (ps[i := p])"
    using assms(4) 1 ok(2) by (intro list_all2_update_cong) auto
  with 1 ok show ?thesis by simp
qed

text \<open>C38: The client cache is transparent. However the calls of concurrent reconciles interleave, starting from an
  empty cache, a call that has returned has the result of building the client for its own region and
  credentials, so no caller ever acts with another's keys; and every cached client was built for long-lived keys,
  never for a security token. This holds for regions and access keys without NUL bytes, which separate the parts
  of a cache key.\<close>

theorem cached_clients_are_fresh:
  assumes "calls_reach sdk ([], map Calling rs) (cache, ps)" and "list_all nul_free rs"
  shows "length ps = length rs \<and>
    (\<forall>i < length rs. \<forall>r res. ps ! i = Returned r res \<longrightarrow> r = rs ! i \<and> res = build_client sdk (fst (rs ! i)) (snd (rs ! i))) \<and>
    (\<forall>key c. map_of cache key = Some c \<longrightarrow>
       (\<exists>region creds. ccr_SecurityToken creds = '''' \<and> key = cache_key region creds \<and> build_client sdk region creds = Inr c))"
proof -
  have "cache_ok sdk (fst (cache, ps)) \<and> list_all2 (caller_ok sdk) rs (snd (cache, ps))"
    using assms(1)
  proof (induction rule: rtranclp_induct)
    case base
    then show ?case by (simp add: cache_ok_def list_all2_conv_all_nth)
  next
    case (step s s')
    then show ?case using callers_step_ok[OF step.hyps(2) assms(2)] by blast
  qed
  then have ok: "cache_ok sdk cache" "list_all2 (caller_ok sdk) rs ps" by simp_all
  have "length ps = length rs" using ok(2) by (simp add: list_all2_lengthD)
  moreover have "r = rs ! i \<and> res = built_for sdk (rs ! i)" if "i < length rs" "ps ! i = Returned r res" for i r res
    using list_all2_nthD[OF ok(2) that(1)] that(2) by simp
  moreover have "\<exists>region creds. ccr_SecurityToken creds = '''' \<and> key = cache_key region creds \<and> build_client sdk region creds = Inr c"
    if cached: "map_of cache key = Some c" for key c
  proof -
    obtain r where "static_keys r" "key = request_key r" "built_for sdk r = Inr c"
      using ok(1) cached unfolding cache_ok_def by metis
    then show ?thesis by (intro exI[of _ "fst r"] exI[of _ "snd r"]) (simp add: static_keys_def)
  qed
  ultimately show ?thesis by blast
qed

text \<open>Two reconciles with the same keys: the second finds what the first stored.\<close>

definition example_sdk :: "(string, string \<times> string, string) sdk" where
  "example_sdk = \<lparr> sdk_Region = (\<lambda>_ r. Inr r), sdk_BasicCredentials = (\<lambda>ak sk _. Inr (ak, sk)),
     sdk_GlobalCredentials = (\<lambda>ak sk _. Inr (ak, sk)), sdk_Build = (\<lambda>_ r cred _. Inr (r @ fst cred @ snd cred)) \<rparr>"

definition example_keys :: client_request where
  "example_keys = (''r'', \<lparr> ccr_AK = ''a'', ccr_SK = ''s'', ccr_SecurityToken = '''' \<rparr>)"

lemma two_calls: "\<exists>cache p. calls_reach example_sdk ([], map Calling [example_keys, example_keys])
    (cache, [p, Returned example_keys (Inr \<lparr> cc_cce = ''ras'', cc_eip = ''ras'', cc_evs = ''ras'', cc_vpc = ''ras'', cc_nat = ''ras'' \<rparr>)])"
proof -
  let ?c = "\<lparr> cc_cce = ''ras'', cc_eip = ''ras'', cc_evs = ''ras'', cc_vpc = ''ras'', cc_nat = ''ras'' \<rparr>"
    and ?k = example_keys
  have run: "run_state (NewClient example_sdk (fst ?k) (snd ?k)) [] = (Inr ?c, [(request_key ?k, ?c)])"
    "run_state (NewClient example_sdk (fst ?k) (snd ?k)) [(request_key ?k, ?c)] = (Inr ?c, [(request_key ?k, ?c)])"
    by code_simp+
  have "calls_reach example_sdk ([], [Calling ?k, Calling ?k]) ([(request_key ?k, ?c)], [Returned ?k (Inr ?c), Calling ?k])"
    using caller_among_callers[OF NewClient_steps[OF run(1)], of 0 "[Calling ?k, Calling ?k]"] by simp
  moreover have "calls_reach example_sdk ([(request_key ?k, ?c)], [Returned ?k (Inr ?c), Calling ?k])
      ([(request_key ?k, ?c)], [Returned ?k (Inr ?c), Returned ?k (Inr ?c)])"
    using caller_among_callers[OF NewClient_steps[OF run(2)], of 1 "[Returned ?k (Inr ?c), Calling ?k]"] by simp
  ultimately have "calls_reach example_sdk ([], [Calling ?k, Calling ?k])
      ([(request_key ?k, ?c)], [Returned ?k (Inr ?c), Returned ?k (Inr ?c)])"
    by (rule rtranclp_trans)
  then show ?thesis unfolding list.map by (intro exI)
qed

theorem cached_clients_are_fresh_witness:
  "build_client example_sdk ''r'' (snd example_keys) =
     Inr \<lparr> cc_cce = ''ras'', cc_eip = ''ras'', cc_evs = ''ras'', cc_vpc = ''ras'', cc_nat = ''ras'' \<rparr>"
proof -
  have nul: "list_all nul_free [example_keys, example_keys]" by (simp add: nul_free_def example_keys_def)
  from two_calls obtain cache p where "calls_reach example_sdk ([], map Calling [example_keys, example_keys])
    (cache, [p, Returned example_keys (Inr \<lparr> cc_cce = ''ras'', cc_eip = ''ras'', cc_evs = ''ras'', cc_vpc = ''ras'', cc_nat = ''ras'' \<rparr>)])"
    by blast
  from cached_clients_are_fresh[OF this nul, THEN conjunct2, THEN conjunct1, rule_format, of 1]
  show ?thesis by (simp add: example_keys_def)
qed

text \<open>A call never waits for another one: whoever has not returned can go on.\<close>

lemma callers_never_block:
  assumes "i < length ps" "\<forall>r res. ps ! i \<noteq> Returned r res"
  shows "\<exists>cache' p. callers_step sdk (cache, ps) (cache', ps[i := p])"
proof -
  have "\<exists>cache' p. caller_step sdk (cache, ps ! i) (cache', p)"
  proof (cases "ps ! i")
    case (Calling r)
    then show ?thesis
      using Hit[of r cache _ sdk] Miss[of r cache sdk] by (cases "map_of cache (request_key r)"; cases "static_keys r") metis+
  next
    case (Building r)
    then show ?thesis
      using Refused[of sdk r _ cache] Built[of sdk r _ cache] Temporary[of sdk r _ cache]
      by (cases "built_for sdk r"; cases "static_keys r") metis+
  next
    case (Storing r c)
    then show ?thesis using Stored[of sdk cache r c] by metis
  qed (use assms(2) in auto)
  then show ?thesis using callers_step.intros[OF assms(1)] by metis
qed

text \<open>With a NUL byte in a key, two callers share an entry: the second is handed the client of the first.\<close>

lemma nul_byte_shares_client:
  "let one = (''r'', \<lparr> ccr_AK = ''a'', ccr_SK = [CHR ''b'', CHR 0x00, CHR ''c''], ccr_SecurityToken = '''' \<rparr>);
       two = (''r'', \<lparr> ccr_AK = [CHR ''a'', CHR 0x00, CHR ''b''], ccr_SK = ''c'', ccr_SecurityToken = '''' \<rparr>) in
   fst (run_state (NewClient example_sdk (fst two) (snd two))
     (snd (run_state (NewClient example_sdk (fst one) (snd one)) []))) = built_for example_sdk one \<and>
   built_for example_sdk one \<noteq> built_for example_sdk two"
  by code_simp

section \<open>The factories are pure functions of region and credentials\<close>

text \<open>Without an override, the service a reconciler gets is that of a fresh client, whatever was cached before:
  the factories of the reconcilers may be taken for pure functions.\<close>

lemma newCCEService_fresh:
  assumes "cache_ok sdk cache" "nul_free (regionID, creds)"
  shows "wp (newCCEService wrap sdk None regionID creds)
    (\<lambda>r cache'. r = map_sum id wrap (build_client sdk regionID creds) \<and> cache_ok sdk cache') cache"
proof -
  have "run_state (NewClient sdk regionID creds) cache = (build_client sdk regionID creds, snd (run_state (NewClient sdk regionID creds) cache))"
    using cache_ok_hit[OF assms] by (auto simp: run_NewClient Let_def split: option.split)
  moreover have "cache_ok sdk (snd (run_state (NewClient sdk regionID creds) cache))"
    using assms cache_ok_store[OF assms] by (auto simp: run_NewClient Let_def split: option.split sum.split)
  ultimately show ?thesis
    by (cases "build_client sdk regionID creds")
       (auto simp: newCCEService_def wp_def ok_def tryE_def fail_def split: prod.split)
qed

text \<open>\<open>throttle.Shared()\<close> is behind the CCE client and the network manager only: the auxiliary clients are the
  same whatever a throttled client would be.\<close>

lemma auxiliary_clients_unthrottled:
  assumes "sdk_Region sdk = sdk_Region sdk'"
    and "\<And>svc reg cred. sdk_Build sdk svc reg cred DefaultHttp = sdk_Build sdk' svc reg cred DefaultHttp"
  shows "buildAuxClients sdk cce regionID cred = buildAuxClients sdk' cce regionID cred"
  using assms by (simp add: buildAuxClients_def aux_client_def resolve_region_def)

section \<open>Temporary credentials\<close>

text \<open>A URN is assumed as it is, and a name is completed by the caller's account; both ask for the account first.\<close>

lemma provider_sends_urn:
  assumes "sts_client sdk region ak sk = Inr h" "sts_GetCallerIdentity sdk h = ok (Some account)" "account \<noteq> ''''"
  shows "NewProvider sdk region agency ak sk = wrapE (msgf [''failed to assume agency '', agency])
    (sts_assumeAgency sdk region
      (if has_prefix agency ''urn:'' then agency else msgf [''urn:stia:'', account, '':agency:'', agency]) ak sk)"
  using assms by (simp add: NewProvider_def AssumeAgency_def getAccountID_def Let_def tryE_def wrapE_def ok_def)

end
