(* ===== verification/Startup.thy ===== *)
theory Startup
  imports CpReconcile GarbageCollector
begin

text \<open>
  The start of the manager process: \<open>cmd/main.go\<close>, \<open>controllers/setup.go\<close>, the \<open>SetupWithManager\<close>
  methods of \<open>controllers/\<close>, \<open>internal/features/features.go\<close> and the setters of the two package
  variables the process configures (\<open>ValidFlavors\<close>, \<open>controllerNamespace\<close>). The controller-runtime manager and
  the feature gate registry are libraries, thus parameters: the manager answers each call with an error or not,
  and a process whose call is refused exits. Parsing of the command line is the library's; the one flag with
  a parser of its own is \<open>gc_resource_types\<close>.
\<close>

section \<open>Definitions\<close>

subsection \<open>Feature gates\<close>

datatype prerelease = Alpha | Beta | GA

record FeatureSpec =
  fs_Default :: bool
  fs_PreRelease :: prerelease

definition NodePoolAutoscalingGate :: string where "NodePoolAutoscalingGate = ''NodePoolAutoscaling''"
definition AutoControllerIdentityCreator :: string where "AutoControllerIdentityCreator = ''AutoControllerIdentityCreator''"
definition ExternalResourceGC :: string where "ExternalResourceGC = ''ExternalResourceGC''"

definition featureGates :: "(string, FeatureSpec) gomap" where
  "featureGates =
     [(NodePoolAutoscalingGate, \<lparr> fs_Default = False, fs_PreRelease = Alpha \<rparr>),
      (AutoControllerIdentityCreator, \<lparr> fs_Default = False, fs_PreRelease = Alpha \<rparr>),
      (ExternalResourceGC, \<lparr> fs_Default = False, fs_PreRelease = Alpha \<rparr>)]"

text \<open>The registry of \<open>k8s.io/component-base/featuregate\<close>.\<close>

record 'g featuregate =
  fg_Add :: "'g \<Rightarrow> (string, FeatureSpec) gomap \<Rightarrow> go_error + 'g"
  fg_Enabled :: "'g \<Rightarrow> string \<Rightarrow> bool"
  fg_SetFromMap :: "'g \<Rightarrow> (string, bool) gomap \<Rightarrow> go_error + 'g"

subsection \<open>The calls of the process on its manager\<close>

record controller_spec =
  ctl_Name :: string
  ctl_For :: string
  ctl_Watches :: "(string \<times> string) list"
  ctl_MaxConcurrent :: "int option"

record manager_options =
  mo_MetricsBindAddress :: string
  mo_HealthProbeBindAddress :: string
  mo_LeaderElection :: bool
  mo_LeaderElectionID :: string

record gc_options =
  gco_Region :: string
  gco_Interval :: int
  gco_ResourceTypes :: "string list"

datatype mgr_call =
    NewManager manager_options
  | RegisterMetrics
  | CompleteController controller_spec
  | AddGarbageCollector gc_options
  | WebhookFor string
  | AddHealthzCheck string
  | AddReadyzCheck string
  | StartManager

record 'g process =
  ps_gates :: 'g
  ps_calls :: "mgr_call list"
  ps_ValidFlavors :: "string list"
  ps_ControllerNamespace :: string

record 'g platform =
  pl_features :: "'g featuregate"
  pl_Getenv :: "string \<Rightarrow> string"
  pl_refuses :: "mgr_call list \<Rightarrow> mgr_call \<Rightarrow> go_error option"

definition register :: "'g platform \<Rightarrow> mgr_call \<Rightarrow> ('g process, unit) go" where
  "register pl c = State (\<lambda>p. case pl_refuses pl (ps_calls p) c of
     Some e \<Rightarrow> (Inl e, p)
   | None \<Rightarrow> (Inr (), p \<lparr> ps_calls := ps_calls p @ [c] \<rparr>))"

definition RegisterFeatureGates :: "'g platform \<Rightarrow> ('g process, unit) go" where
  "RegisterFeatureGates pl = State (\<lambda>p. case fg_Add (pl_features pl) (ps_gates p) featureGates of
     Inl e \<Rightarrow> (Inl e, p) | Inr g \<Rightarrow> (Inr (), p \<lparr> ps_gates := g \<rparr>))"

definition SetFromMap :: "'g platform \<Rightarrow> (string, bool) gomap \<Rightarrow> ('g process, unit) go" where
  "SetFromMap pl m = State (\<lambda>p. case fg_SetFromMap (pl_features pl) (ps_gates p) m of
     Inl e \<Rightarrow> (Inl e, p) | Inr g \<Rightarrow> (Inr (), p \<lparr> ps_gates := g \<rparr>))"

definition Enabled :: "'g platform \<Rightarrow> string \<Rightarrow> ('g process, bool) state" where
  "Enabled pl f = State (\<lambda>p. (fg_Enabled (pl_features pl) (ps_gates p) f, p))"

definition SetValidFlavors :: "string list \<Rightarrow> ('g process, unit) state" where
  "SetValidFlavors fs = State (\<lambda>p. ((), p \<lparr> ps_ValidFlavors := fs \<rparr>))"

definition SetControllerNamespace :: "string \<Rightarrow> ('g process, unit) state" where
  "SetControllerNamespace ns = State (\<lambda>p. ((), p \<lparr> ps_ControllerNamespace := ns \<rparr>))"

definition ControllerNamespace :: "'g process \<Rightarrow> string" where
  "ControllerNamespace p = ps_ControllerNamespace p"

definition defaultControllerNamespace :: string where "defaultControllerNamespace = ''capi-cce-system''"

definition new_process :: "'g \<Rightarrow> 'g process" where
  "new_process g = \<lparr> ps_gates = g, ps_calls = [], ps_ValidFlavors = [], ps_ControllerNamespace = defaultControllerNamespace \<rparr>"

subsection \<open>Flags\<close>

record main_flags =
  mf_metricsAddr :: string
  mf_probeAddr :: string
  mf_leaderElect :: bool
  mf_leaderElectionID :: string
  mf_featureGates :: string
  mf_validFlavors :: string
  mf_clusterConcurrency :: int
  mf_controlPlaneConcurrency :: int
  mf_machinePoolConcurrency :: int
  mf_gcRegion :: string
  mf_gcInterval :: int
  mf_gcResourceTypes :: string

definition default_flags :: main_flags where
  "default_flags = \<lparr> mf_metricsAddr = '':8080'', mf_probeAddr = '':8081'', mf_leaderElect = False,
     mf_leaderElectionID = ''capi-cce-leader-election'', mf_featureGates = '''', mf_validFlavors = '''',
     mf_clusterConcurrency = 1, mf_controlPlaneConcurrency = 1, mf_machinePoolConcurrency = 1,
     mf_gcRegion = '''', mf_gcInterval = 3600000000000, mf_gcResourceTypes = '''' \<rparr>"

definition gc_resource_types :: "string \<Rightarrow> string list" where
  "gc_resource_types v = (if v = '''' then [] else split_on CHR '','' v)"

definition main_splitCSV :: "string \<Rightarrow> string list" where
  "main_splitCSV s = filter (\<lambda>p. p \<noteq> '''') (map trim_space (split_on CHR '','' s))"

fun parse_gates :: "string list \<Rightarrow> (string, bool) gomap \<Rightarrow> go_error + (string, bool) gomap" where
  "parse_gates [] out = Inr out"
| "parse_gates (item # items) out = (case split2 CHR ''='' item of
     (_, None) \<Rightarrow> Inl (PlainErr (msgf [''invalid feature gate '', item, '', want Name=true|false'']))
   | (k, Some v) \<Rightarrow>
       if to_lower v = ''true'' then parse_gates items (AList.update k True out)
       else if to_lower v = ''false'' then parse_gates items (AList.update k False out)
       else Inl (PlainErr (msgf [''invalid feature gate value '', v, '', want true|false''])))"

definition parseFeatureGates :: "string \<Rightarrow> go_error + (string, bool) gomap" where
  "parseFeatureGates s = parse_gates (main_splitCSV s) []"

subsection \<open>Controllers\<close>

text \<open>\<open>SetupWithManager\<close>: what each controller is for, what else it watches (the kind and the predicate on its
  events) and its concurrency. The map function of a watch is \<open>credentialsSecretToControlPlane\<close> and
  \<open>machinePoolToInfraPool\<close>.\<close>

definition credentialsSecretSuffix :: string where "credentialsSecretSuffix = ''-credentials''"

definition secret_watch_predicate :: "string \<Rightarrow> bool" where
  "secret_watch_predicate name = has_suffix name credentialsSecretSuffix"

definition cluster_SetupWithManager :: "'g platform \<Rightarrow> int \<Rightarrow> ('g process, unit) go" where
  "cluster_SetupWithManager pl n = register pl (CompleteController
     \<lparr> ctl_Name = ''ccecluster'', ctl_For = ''CCECluster'', ctl_Watches = [], ctl_MaxConcurrent = Some n \<rparr>)"

definition cp_SetupWithManager :: "'g platform \<Rightarrow> int \<Rightarrow> ('g process, unit) go" where
  "cp_SetupWithManager pl n = register pl (CompleteController
     \<lparr> ctl_Name = ''ccemanagedcontrolplane'', ctl_For = ''CCEManagedControlPlane'',
       ctl_Watches = [(''Secret'', credentialsSecretSuffix)], ctl_MaxConcurrent = Some n \<rparr>)"

definition mp_SetupWithManager :: "'g platform \<Rightarrow> int \<Rightarrow> ('g process, unit) go" where
  "mp_SetupWithManager pl n = register pl (CompleteController
     \<lparr> ctl_Name = ''ccemanagedmachinepool'', ctl_For = ''CCEManagedMachinePool'',
       ctl_Watches = [(''MachinePool'', ''GenerationChangedPredicate'')], ctl_MaxConcurrent = Some n \<rparr>)"

definition ident_SetupWithManager :: "'g platform \<Rightarrow> ('g process, unit) go" where
  "ident_SetupWithManager pl = register pl (CompleteController
     \<lparr> ctl_Name = ''cceclustercontrolleridentity'', ctl_For = ''CCEManagedControlPlane'', ctl_Watches = [],
       ctl_MaxConcurrent = None \<rparr>)"

record ControllerConcurrency =
  cc_Cluster :: int
  cc_ControlPlane :: int
  cc_MachinePool :: int

definition SetupControllers :: "'g platform \<Rightarrow> ControllerConcurrency \<Rightarrow> ('g process, unit) go" where
  "SetupControllers pl c =
     tryE (cluster_SetupWithManager pl (cc_Cluster c)) (\<lambda>_.
     tryE (cp_SetupWithManager pl (cc_ControlPlane c)) (\<lambda>_.
     tryE (mp_SetupWithManager pl (cc_MachinePool c)) (\<lambda>_. do {
       on \<leftarrow> Enabled pl AutoControllerIdentityCreator;
       if on then ident_SetupWithManager pl else ok () })))"

subsection \<open>main\<close>

definition webhook_kinds :: "string list" where
  "webhook_kinds = [''CCECluster'', ''CCEManagedMachinePool'', ''CCEManagedControlPlane'', ''CCEClusterTemplate'',
     ''CCEManagedControlPlaneTemplate'', ''CCEManagedMachinePoolTemplate'', ''CCEClusterControllerIdentity'',
     ''CCEClusterStaticIdentity'', ''CCEClusterRoleIdentity'']"

definition flag_options :: "main_flags \<Rightarrow> manager_options" where
  "flag_options f = \<lparr> mo_MetricsBindAddress = mf_metricsAddr f, mo_HealthProbeBindAddress = mf_probeAddr f,
     mo_LeaderElection = mf_leaderElect f, mo_LeaderElectionID = mf_leaderElectionID f \<rparr>"

definition flag_concurrency :: "main_flags \<Rightarrow> ControllerConcurrency" where
  "flag_concurrency f = \<lparr> cc_Cluster = mf_clusterConcurrency f, cc_ControlPlane = mf_controlPlaneConcurrency f,
     cc_MachinePool = mf_machinePoolConcurrency f \<rparr>"

definition flag_gc :: "main_flags \<Rightarrow> gc_options" where
  "flag_gc f = \<lparr> gco_Region = mf_gcRegion f, gco_Interval = mf_gcInterval f,
     gco_ResourceTypes = gc_resource_types (mf_gcResourceTypes f) \<rparr>"

definition apply_gates :: "'g platform \<Rightarrow> string \<Rightarrow> ('g process, unit) go" where
  "apply_gates pl s = (if s = '''' then ok ()
     else case parseFeatureGates s of Inl e \<Rightarrow> fail e | Inr overrides \<Rightarrow> SetFromMap pl overrides)"

definition setup_webhooks :: "'g platform \<Rightarrow> ('g process, unit) go" where
  "setup_webhooks pl = (if pl_Getenv pl ''ENABLE_WEBHOOKS'' \<noteq> ''false''
     then forE (\<lambda>k. register pl (WebhookFor k)) webhook_kinds else ok ())"

text \<open>\<open>main\<close> from the construction of the manager on.\<close>

definition run_manager :: "'g platform \<Rightarrow> main_flags \<Rightarrow> ('g process, unit) go" where
  "run_manager pl f = tryE (register pl (NewManager (flag_options f))) (\<lambda>_.
       tryE (register pl RegisterMetrics) (\<lambda>_.
       tryE (SetupControllers pl (flag_concurrency f)) (\<lambda>_. do {
         gc \<leftarrow> Enabled pl ExternalResourceGC;
         tryE (if gc \<and> mf_gcRegion f \<noteq> '''' then register pl (AddGarbageCollector (flag_gc f)) else ok ()) (\<lambda>_.
         tryE (setup_webhooks pl) (\<lambda>_.
         tryE (register pl (AddHealthzCheck ''healthz'')) (\<lambda>_.
         tryE (register pl (AddReadyzCheck ''readyz'')) (\<lambda>_.
         register pl StartManager)))) })))"

definition main :: "'g platform \<Rightarrow> main_flags \<Rightarrow> ('g process, unit) go" where
  "main pl f =
     tryE (RegisterFeatureGates pl) (\<lambda>_.
     tryE (apply_gates pl (mf_featureGates f)) (\<lambda>_. do {
       _ \<leftarrow> (if mf_validFlavors f \<noteq> '''' then SetValidFlavors (main_splitCSV (mf_validFlavors f)) else State_Monad.return ());
       _ \<leftarrow> (if pl_Getenv pl ''POD_NAMESPACE'' \<noteq> '''' then SetControllerNamespace (pl_Getenv pl ''POD_NAMESPACE'')
            else State_Monad.return ());
       run_manager pl f }))"

section \<open>The start as a sequence of calls\<close>

definition controller_calls :: "('g \<Rightarrow> string \<Rightarrow> bool) \<Rightarrow> ControllerConcurrency \<Rightarrow> 'g \<Rightarrow> mgr_call list" where
  "controller_calls on c g =
     [CompleteController \<lparr> ctl_Name = ''ccecluster'', ctl_For = ''CCECluster'', ctl_Watches = [],
        ctl_MaxConcurrent = Some (cc_Cluster c) \<rparr>,
      CompleteController \<lparr> ctl_Name = ''ccemanagedcontrolplane'', ctl_For = ''CCEManagedControlPlane'',
        ctl_Watches = [(''Secret'', ''-credentials'')], ctl_MaxConcurrent = Some (cc_ControlPlane c) \<rparr>,
      CompleteController \<lparr> ctl_Name = ''ccemanagedmachinepool'', ctl_For = ''CCEManagedMachinePool'',
        ctl_Watches = [(''MachinePool'', ''GenerationChangedPredicate'')], ctl_MaxConcurrent = Some (cc_MachinePool c) \<rparr>] @
     (if on g AutoControllerIdentityCreator
      then [CompleteController \<lparr> ctl_Name = ''cceclustercontrolleridentity'', ctl_For = ''CCEManagedControlPlane'',
        ctl_Watches = [], ctl_MaxConcurrent = None \<rparr>] else [])"

definition startup_plan :: "'g platform \<Rightarrow> main_flags \<Rightarrow> 'g \<Rightarrow> mgr_call list" where
  "startup_plan pl f g = (let on = fg_Enabled (pl_features pl) in
     [NewManager (flag_options f), RegisterMetrics] @ controller_calls on (flag_concurrency f) g @
     (if on g ExternalResourceGC \<and> mf_gcRegion f \<noteq> '''' then [AddGarbageCollector (flag_gc f)] else []) @
     (if pl_Getenv pl ''ENABLE_WEBHOOKS'' \<noteq> ''false'' then map WebhookFor webhook_kinds else []) @
     [AddHealthzCheck ''healthz'', AddReadyzCheck ''readyz'', StartManager])"

text \<open>\<open>plays cs g m\<close>: from gates \<open>g\<close> the program makes the calls \<open>cs\<close> in their order, up to the first refused one.\<close>

definition follows :: "'g process \<Rightarrow> mgr_call list \<Rightarrow> go_error + unit \<Rightarrow> 'g process \<Rightarrow> bool" where
  "follows p cs r p' \<longleftrightarrow> (\<exists>k \<le> length cs. p' = p \<lparr> ps_calls := ps_calls p @ take k cs \<rparr> \<and>
     (if isl r then k < length cs else k = length cs))"

definition plays :: "mgr_call list \<Rightarrow> 'g \<Rightarrow> ('g process, unit) go \<Rightarrow> bool" where
  "plays cs g m \<longleftrightarrow> (\<forall>p. ps_gates p = g \<longrightarrow> wp m (follows p cs) p)"

lemma follows_stop: "follows p cs (Inl e) p' \<Longrightarrow> follows p (cs @ ds) (Inl e) p'"
  unfolding follows_def by (elim exE conjE, rename_tac k, rule_tac x = k in exI) simp

lemma follows_trans: "follows p cs (Inr u) p' \<Longrightarrow> follows p' ds r p'' \<Longrightarrow> follows p (cs @ ds) r p''"
  unfolding follows_def
  by (elim exE conjE, rename_tac k j, rule_tac x = "length cs + j" in exI) (simp split: if_splits)

lemma follows_gates: "follows p cs r p' \<Longrightarrow> ps_gates p' = ps_gates p"
  by (auto simp: follows_def)

lemma plays_register: "plays [c] g (register pl c)"
  by (auto simp: plays_def follows_def wp_def register_def split: option.splits intro: exI[of _ 0] exI[of _ 1])

lemma plays_ok: "plays [] g (ok ())"
  by (simp add: plays_def follows_def wp_simps)

lemma plays_tryE:
  assumes "plays cs g m" "plays ds g k"
  shows "plays (cs @ ds) g (tryE m (\<lambda>_. k))"
  unfolding plays_def wp_tryE
proof (intro allI impI)
  fix p :: "'a process" assume g: "ps_gates p = g"
  have k: "wp k (follows p (cs @ ds)) p'" if "follows p cs (Inr u) p'" for u p'
    using assms(2) g follows_gates[OF that]
    by (auto simp: plays_def elim!: wp_mono intro: follows_trans[OF that])
  have "wp m (follows p cs) p" using assms(1) g by (simp add: plays_def)
  then show "wp m (\<lambda>r. case r of Inl e \<Rightarrow> follows p (cs @ ds) (Inl e) | Inr v \<Rightarrow> wp k (follows p (cs @ ds))) p"
    by (rule wp_mono) (auto intro: follows_stop k split: sum.split)
qed

lemma plays_forE: "(\<And>x. x \<in> set xs \<Longrightarrow> plays [c x] g (f x)) \<Longrightarrow> plays (map c xs) g (forE f xs)"
proof (induction xs)
  case (Cons a xs)
  then have "plays ([c a] @ map c xs) g (tryE (f a) (\<lambda>_. forE f xs))" by (intro plays_tryE) auto
  then show ?case by simp
qed (simp add: plays_ok)

lemma plays_if: "(b \<Longrightarrow> plays cs g m) \<Longrightarrow> (\<not> b \<Longrightarrow> plays ds g k) \<Longrightarrow> plays (if b then cs else ds) g (if b then m else k)"
  by simp

lemma plays_Enabled:
  "plays cs g (k (fg_Enabled (pl_features pl) g f)) \<Longrightarrow> plays cs g (do { on \<leftarrow> Enabled pl f; k on })"
  by (simp add: plays_def wp_bind) (simp add: wp_def Enabled_def)

lemma plays_eq: "plays cs g m \<Longrightarrow> cs = ds \<Longrightarrow> plays ds g m"
  by simp

lemmas plays_intros = plays_tryE plays_register plays_Enabled plays_if plays_ok

lemma plays_SetupControllers: "plays (controller_calls (fg_Enabled (pl_features pl)) c g) g (SetupControllers pl c)"
  unfolding SetupControllers_def cluster_SetupWithManager_def cp_SetupWithManager_def mp_SetupWithManager_def
    ident_SetupWithManager_def
  by (rule plays_eq, (rule plays_intros)+) (simp add: controller_calls_def credentialsSecretSuffix_def)

lemma plays_run_manager: "plays (startup_plan pl f g) g (run_manager pl f)"
  unfolding run_manager_def setup_webhooks_def
  by (rule plays_eq, (rule plays_intros plays_SetupControllers plays_forE)+) (simp add: startup_plan_def Let_def)

lemma wp_setup [wp_simps]:
  "wp (RegisterFeatureGates pl) Q p = (case fg_Add (pl_features pl) (ps_gates p) featureGates of
     Inl e \<Rightarrow> Q (Inl e) p | Inr g \<Rightarrow> Q (Inr ()) (p \<lparr> ps_gates := g \<rparr>))"
  "wp (SetFromMap pl m) Q p = (case fg_SetFromMap (pl_features pl) (ps_gates p) m of
     Inl e \<Rightarrow> Q (Inl e) p | Inr g \<Rightarrow> Q (Inr ()) (p \<lparr> ps_gates := g \<rparr>))"
  "wp (SetValidFlavors fs) R p = R () (p \<lparr> ps_ValidFlavors := fs \<rparr>)"
  "wp (SetControllerNamespace ns) R p = R () (p \<lparr> ps_ControllerNamespace := ns \<rparr>)"
  by (simp_all add: wp_def RegisterFeatureGates_def SetFromMap_def SetValidFlavors_def SetControllerNamespace_def split: sum.splits)

lemma wp_run_manager:
  assumes "\<And>r p'. follows p (startup_plan pl f (ps_gates p)) r p' \<Longrightarrow> Q r p'"
  shows "wp (run_manager pl f) Q p"
proof -
  have "wp (run_manager pl f) (follows p (startup_plan pl f (ps_gates p))) p"
    using plays_run_manager[of pl f "ps_gates p"] by (simp add: plays_def)
  then show ?thesis by (rule wp_mono) (rule assms)
qed

lemma start_is_last:
  assumes "k < length (startup_plan pl f g)" shows "StartManager \<notin> set (take k (startup_plan pl f g))"
proof -
  obtain pre where "startup_plan pl f g = pre @ [StartManager]" "StartManager \<notin> set pre"
    by (auto simp: startup_plan_def controller_calls_def Let_def)
  then show ?thesis using assms by (auto dest: in_set_takeD)
qed

text \<open>C12: The start of the process is a fixed sequence of calls. Whatever the manager answers, the accepted calls
  are an initial part of the plan the flags, the environment and the feature gates determine: the manager first,
  then the metrics, the controllers, the garbage collector if it is on, the webhooks and the probes. The manager
  is started only when every one of them was accepted, and the process ends well only then.\<close>

theorem startup_follows_plan:
  "case run_state (main pl f) (new_process g0) of (r, p) \<Rightarrow>
     (let plan = startup_plan pl f (ps_gates p) in
        ps_calls p = take (length (ps_calls p)) plan \<and>
        (if isl r then StartManager \<notin> set (ps_calls p) else ps_calls p = plan))"
proof -
  define Q where "Q r p \<longleftrightarrow> ps_calls p = take (length (ps_calls p)) (startup_plan pl f (ps_gates p)) \<and>
     (if isl r then StartManager \<notin> set (ps_calls p) else ps_calls p = startup_plan pl f (ps_gates p))"
    for r :: "go_error + unit" and p :: "'a process"
  have early: "Q (Inl e) p" if "ps_calls p = []" for e p using that by (simp add: Q_def)
  have manager: "wp (run_manager pl f) Q p" if "ps_calls p = []" for p
    by (rule wp_run_manager) (use that in \<open>auto simp: Q_def follows_def le_less start_is_last split: if_splits\<close>)
  have "wp (main pl f) Q (new_process g0)"
    unfolding main_def apply_gates_def
    by (auto simp: wp_simps new_process_def manager early split: sum.split)
  then show ?thesis by (cases "run_state (main pl f) (new_process g0)") (simp add: wp_run Let_def Q_def)
qed

section \<open>Parsing the overrides\<close>

lemma map_of_gate_updates:
  "map_of (fold (\<lambda>(k, v). AList.update k (h v)) m g) = map_of g ++ (map_option h \<circ> map_of (rev m))"
proof (induction m arbitrary: g)
  case (Cons a m)
  have "map_of (fold (\<lambda>(k, v). AList.update k (h v)) (a # m) g) x = (map_of g ++ (map_option h \<circ> map_of (rev (a # m)))) x" for x
    using Cons.IH[of "AList.update (fst a) (h (snd a)) g"]
    by (cases a) (auto simp: update_conv' map_add_def split: option.splits)
  then show ?case by (rule ext)
qed (auto simp: map_add_def)

definition gate_char :: "char \<Rightarrow> bool" where
  "gate_char c = (let n = (of_char c :: nat) in 48 \<le> n \<and> n \<le> 57 \<or> 65 \<le> n \<and> n \<le> 90 \<or> 97 \<le> n \<and> n \<le> 122)"

definition gate_name :: "string \<Rightarrow> bool" where
  "gate_name k \<longleftrightarrow> k \<noteq> [] \<and> list_all gate_char k"

definition show_gate :: "string \<times> bool \<Rightarrow> string" where
  "show_gate kv = fst kv @ ''='' @ (if snd kv then ''true'' else ''false'')"

lemma strip_any_none: "(\<And>p. p \<in> set ps \<Longrightarrow> p \<noteq> [] \<Longrightarrow> hd p \<noteq> c) \<Longrightarrow> strip_any ps (c # s) = c # s"
proof -
  assume "\<And>p. p \<in> set ps \<Longrightarrow> p \<noteq> [] \<Longrightarrow> hd p \<noteq> c"
  then have "find (\<lambda>p. p \<noteq> [] \<and> has_prefix (c # s) p) ps = None"
    by (fastforce simp: find_None_iff has_prefix_def neq_Nil_conv)
  then show ?thesis by (subst strip_any.simps) simp
qed

lemma trim_space_gate:
  assumes "gate_char c" "gate_char d" shows "trim_space (c # s @ [d]) = c # s @ [d]"
proof -
  have first: "hd p \<noteq> c" if "p \<in> set space_encodings" "gate_char c" for p c
    using that by (auto simp: space_encodings_def gate_char_def Let_def upt_rec)
  have last: "hd p \<noteq> c" if "p \<in> set (map rev space_encodings)" "gate_char c" for p c
    using that by (auto simp: space_encodings_def gate_char_def Let_def upt_rec)
  have "strip_any space_encodings (c # s @ [d]) = c # s @ [d]"
    using first assms(1) by (intro strip_any_none) auto
  moreover have "strip_any (map rev space_encodings) (d # rev s @ [c]) = d # rev s @ [c]"
    using last assms(2) by (intro strip_any_none) auto
  ultimately show ?thesis by (simp add: trim_space_def)
qed

lemma split_on_join_with: "xs \<noteq> [] \<Longrightarrow> (\<And>x. x \<in> set xs \<Longrightarrow> c \<notin> set x) \<Longrightarrow> split_on c (join_with [c] xs) = xs"
  by (induction "[c]" xs rule: join_with.induct) (simp_all add: split_on_free split_on_sep)

lemma parse_gates_show:
  assumes "\<And>kv. kv \<in> set kvs \<Longrightarrow> gate_name (fst kv)"
  shows "parse_gates (map show_gate kvs) out = Inr (fold (\<lambda>(k, v). AList.update k v) kvs out)"
  using assms
proof (induction kvs arbitrary: out)
  case (Cons a kvs)
  have "\<not> gate_char CHR ''=''" by code_simp
  then have "CHR ''='' \<notin> set (fst a)"
    using Cons.prems[of a] by (auto simp: gate_name_def list_all_iff)
  then have split: "split2 CHR ''='' (show_gate a) = (fst a, Some (if snd a then ''true'' else ''false''))"
    using split2_first[of "CHR ''=''" "fst a"] by (simp add: show_gate_def)
  have low: "to_lower ''true'' = ''true''" "to_lower ''false'' = ''false''" by code_simp+
  show ?case
    using Cons.IH[of "AList.update (fst a) (snd a) out"] Cons.prems by (cases a; cases "snd a") (use split low in \<open>simp_all del: to_lower.simps\<close>)
qed simp

lemma parse_shown:
  assumes "\<And>k b. (k, b) \<in> set kvs \<Longrightarrow> gate_name k"
  shows "parseFeatureGates (join_with '','' (map show_gate kvs)) = Inr (fold (\<lambda>(k, v). AList.update k v) kvs [])"
proof (cases "kvs = []")
  case True
  have "parseFeatureGates [] = Inr []" by code_simp
  then show ?thesis using True by simp
next
  case False
  have item: "trim_space (show_gate kv) = show_gate kv \<and> show_gate kv \<noteq> [] \<and> CHR '','' \<notin> set (show_gate kv)"
    if kv: "kv \<in> set kvs" for kv
  proof -
    obtain c r where "fst kv = c # r" "gate_char c" "list_all gate_char r"
      using assms[of "fst kv" "snd kv"] kv by (cases kv; cases "fst kv") (simp_all add: gate_name_def)
    moreover have "gate_char CHR ''e''" "\<not> gate_char CHR '',''" by code_simp+
    ultimately show ?thesis
      using trim_space_gate[of c "CHR ''e''" "r @ ''=tru''"] trim_space_gate[of c "CHR ''e''" "r @ ''=fals''"]
      by (auto simp: show_gate_def list_all_iff)
  qed
  have "main_splitCSV (join_with '','' (map show_gate kvs)) = map show_gate kvs"
  proof -
    have "split_on CHR '','' (join_with '','' (map show_gate kvs)) = map show_gate kvs"
      using False item by (intro split_on_join_with) auto
    moreover have "map trim_space (map show_gate kvs) = map show_gate kvs" using item by simp
    moreover have "filter (\<lambda>p. p \<noteq> []) (map show_gate kvs) = map show_gate kvs" using item by (simp add: filter_id_conv)
    ultimately show ?thesis by (simp add: main_splitCSV_def del: map_map)
  qed
  then show ?thesis
    using assms by (auto simp: parseFeatureGates_def intro!: parse_gates_show)
qed

text \<open>C34: Printing overrides and parsing them gives them back, the last one of a repeated gate.\<close>

theorem parseFeatureGates_roundtrip:
  assumes "\<And>k b. (k, b) \<in> set kvs \<Longrightarrow> gate_name k"
  shows "\<exists>m. parseFeatureGates (join_with '','' (map show_gate kvs)) = Inr m \<and> map_of m = map_of (rev kvs)"
  using parse_shown[OF assms] map_of_gate_updates[of "\<lambda>v. v" kvs "[]"] by (auto simp: option.map_ident)

theorem parseFeatureGates_roundtrip_witness:
  "\<exists>m. parseFeatureGates ''A=true,B=false,A=false'' = Inr m \<and> map_of m = map_of [(''A'', False), (''B'', False), (''A'', True)]"
proof -
  have "gate_name ''A''" "gate_name ''B''" by code_simp+
  then show ?thesis
    using parseFeatureGates_roundtrip[of "[(''A'', True), (''B'', False), (''A'', False)]"] by (auto simp: show_gate_def)
qed

section \<open>The garbage collector runs only on request\<close>

definition gc_requested :: "(string, bool) gomap \<Rightarrow> bool" where
  "gc_requested m \<longleftrightarrow> map_of m ExternalResourceGC = Some True \<or>
     (map_of m ExternalResourceGC = None \<and> map_of m ''AllAlpha'' = Some True)"

text \<open>The garbage collector runs only on request. The registry is assumed to enable a feature that was just
  registered as off by default only when the overrides ask for it (\<open>registered\<close>, \<open>overridden\<close>). Then the
  process adds the collector only when \<open>--feature-gates\<close> parses to overrides that turn on \<open>ExternalResourceGC\<close>,
  by its name or through \<open>AllAlpha\<close>, and \<open>--gc-region\<close> is set; it then has the region and the types of the flags.\<close>

theorem gc_runs_only_on_request:
  assumes registered: "\<And>g. fg_Add (pl_features pl) g0 featureGates = Inr g \<Longrightarrow> \<not> fg_Enabled (pl_features pl) g ExternalResourceGC"
    and overridden: "\<And>g m g'. fg_SetFromMap (pl_features pl) g m = Inr g' \<Longrightarrow> fg_Enabled (pl_features pl) g' ExternalResourceGC \<Longrightarrow>
      \<not> fg_Enabled (pl_features pl) g ExternalResourceGC \<Longrightarrow> gc_requested m"
    and run: "run_state (main pl f) (new_process g0) = (r, p)" "AddGarbageCollector opts \<in> set (ps_calls p)"
  shows "opts = flag_gc f \<and> mf_gcRegion f \<noteq> '''' \<and> (\<exists>m. parseFeatureGates (mf_featureGates f) = Inr m \<and> gc_requested m)"
proof -
  define Q where "Q r p \<longleftrightarrow> (AddGarbageCollector opts \<in> set (ps_calls p) \<longrightarrow> opts = flag_gc f \<and> mf_gcRegion f \<noteq> '''' \<and>
     (\<exists>m. parseFeatureGates (mf_featureGates f) = Inr m \<and> gc_requested m))"
    for r :: "go_error + unit" and p :: "'a process"
  have early: "Q r p" if "ps_calls p = []" for r p using that by (simp add: Q_def)
  have manager: "wp (run_manager pl f) Q p"
    if "ps_calls p = []" "fg_Enabled (pl_features pl) (ps_gates p) ExternalResourceGC \<Longrightarrow>
      \<exists>m. parseFeatureGates (mf_featureGates f) = Inr m \<and> gc_requested m" for p
    by (rule wp_run_manager)
      (use that in \<open>auto simp: Q_def follows_def startup_plan_def controller_calls_def Let_def dest!: in_set_takeD split: if_splits\<close>)
  have "wp (main pl f) Q (new_process g0)"
    unfolding main_def apply_gates_def
    using registered overridden
    by (auto simp: wp_simps new_process_def early intro!: manager split: sum.split)
  then show ?thesis using run by (simp add: wp_run Q_def)
qed

subsection \<open>An example registry\<close>

text \<open>A registry that keeps the value of every gate and has no group gates.\<close>

definition simple_gates :: "(string, bool) gomap featuregate" where
  "simple_gates = \<lparr>
     fg_Add = (\<lambda>g specs. Inr (fold (\<lambda>(k, sp). AList.update k (fs_Default sp)) specs g)),
     fg_Enabled = (\<lambda>g f. map_of g f = Some True),
     fg_SetFromMap = (\<lambda>g m. Inr (fold (\<lambda>(k, v). AList.update k v) (rev m) g)) \<rparr>"

definition example_platform :: "(string, bool) gomap platform" where
  "example_platform = \<lparr> pl_features = simple_gates, pl_Getenv = (\<lambda>_. ''''), pl_refuses = (\<lambda>_ _. None) \<rparr>"

definition example_flags :: main_flags where
  "example_flags = default_flags \<lparr> mf_featureGates := ''ExternalResourceGC=true'',
     mf_gcRegion := ''cn-north-4'', mf_gcResourceTypes := ''eip, evs'' \<rparr>"

theorem gc_runs_only_on_request_witness:
  "AddGarbageCollector (flag_gc example_flags) \<in> set (ps_calls (snd (run_state (main example_platform example_flags) (new_process [])))) \<and>
   mf_gcRegion example_flags \<noteq> '''' \<and>
   (\<exists>m. parseFeatureGates (mf_featureGates example_flags) = Inr m \<and> gc_requested m)"
proof -
  let ?run = "run_state (main example_platform example_flags) (new_process [])"
  have "gate_name ExternalResourceGC" by code_simp
  then have parse: "parseFeatureGates ''ExternalResourceGC=true'' = Inr [(ExternalResourceGC, True)]"
    using parse_shown[of "[(ExternalResourceGC, True)]"] by (simp add: show_gate_def ExternalResourceGC_def)
  let ?g = "[(NodePoolAutoscalingGate, False), (AutoControllerIdentityCreator, False), (ExternalResourceGC, True)]"
  let ?Q = "\<lambda>_ p. AddGarbageCollector (flag_gc example_flags) \<in> set (ps_calls p)"
  have features: "fg_Add (pl_features example_platform) [] featureGates =
      Inr [(NodePoolAutoscalingGate, False), (AutoControllerIdentityCreator, False), (ExternalResourceGC, False)]"
    "fg_SetFromMap (pl_features example_platform) [(NodePoolAutoscalingGate, False), (AutoControllerIdentityCreator, False),
       (ExternalResourceGC, False)] [(ExternalResourceGC, True)] = Inr ?g" by code_simp+
  have simps: "mf_featureGates example_flags = ''ExternalResourceGC=true''" "mf_validFlavors example_flags = ''''"
    "pl_Getenv example_platform k = ''''" "ps_gates (new_process g) = g" for k g
    by (simp_all add: example_flags_def default_flags_def example_platform_def new_process_def)
  have "wp (run_manager example_platform example_flags) ?Q (new_process [] \<lparr> ps_gates := ?g \<rparr>)"
    unfolding wp_run by code_simp
  then have "wp (main example_platform example_flags) ?Q (new_process [])"
    by (simp add: main_def apply_gates_def wp_simps simps features parse)
  then have added: "AddGarbageCollector (flag_gc example_flags) \<in> set (ps_calls (snd ?run))" by (simp add: wp_run)
  have registered: "\<not> fg_Enabled (pl_features example_platform) g ExternalResourceGC"
    if "fg_Add (pl_features example_platform) [] featureGates = Inr g" for g
    using that by (auto simp: example_platform_def simple_gates_def featureGates_def map_of_gate_updates ExternalResourceGC_def
        NodePoolAutoscalingGate_def AutoControllerIdentityCreator_def)
  have overridden: "gc_requested m"
    if "fg_SetFromMap (pl_features example_platform) g m = Inr g'" "fg_Enabled (pl_features example_platform) g' ExternalResourceGC"
      "\<not> fg_Enabled (pl_features example_platform) g ExternalResourceGC" for g m g'
    using that map_of_gate_updates[of "\<lambda>v. v" "rev m" g]
    by (auto simp: example_platform_def simple_gates_def gc_requested_def option.map_ident map_add_def split: option.splits)
  show ?thesis
    using gc_runs_only_on_request[OF registered overridden prod.collapse[symmetric] added] added by simp
qed

section \<open>Resource types of the garbage collector\<close>

text \<open>Unlike the other lists of the command line, the resource types are not trimmed: a list written with spaces
  after the commas sweeps its first type only.\<close>

theorem spaced_gc_types_sweep_only_the_first:
  "sweep_account (gc_resource_types ''eip, evs, vpc, nat'') svc list_crs = sweep_account [''eip''] svc list_crs"
proof -
  have "gc_resource_types ''eip, evs, vpc, nat'' = [''eip'', '' evs'', '' vpc'', '' nat'']" by code_simp
  then show ?thesis
    by (simp add: sweep_account_def sweepEips_def sweepVolumes_def sweepVpcs_def sweepNatGateways_def sweep_type_def
        cong: sum.case_cong)
qed

end
