(* ===== verification/Tools.thy ===== *)
theory Tools
  imports Cloud Cidr Base64
begin

text \<open>
  The operator tools under \<open>hack/\<close>: the process they run in, and \<open>hack/internal/hwutil/hwutil.go\<close>. A tool
  is a Go program that reads the environment, sends requests, prints and sleeps; \<open>os.Exit(1)\<close> after an error
  message is the early return of that error from \<open>main\<close>. The cloud state \<open>'c\<close> is arbitrary (for the tools on
  the raw SDK it is the history of requests), as is the time a request takes. A nil pointer the program
  dereferences is the error \<open>nil_deref\<close>, which ends the process like the Go panic does.
\<close>

section \<open>The process\<close>

text \<open>\<open>tl_now\<close> is the clock in nanoseconds since the epoch, \<open>tl_out\<close> the lines printed so far. Progress lines of
  polling loops are not modelled.\<close>

record 'c tool =
  tl_cloud :: 'c
  tl_now :: int
  tl_out :: "string list"

type_synonym ('c, 'a) prog = "('c tool, 'a) go"

text \<open>What a process gets from outside: the environment variables, the duration of the last request of a
  cloud state, the SDK client of a service for a region and a key pair, and the text of an error.\<close>

record ('c, 'l) os =
  os_Getenv :: "string \<Rightarrow> string"
  os_CallTime :: "'c \<Rightarrow> nat"
  os_NewClient :: "string \<Rightarrow> string \<Rightarrow> string \<Rightarrow> string \<Rightarrow> go_error + 'l"
  os_ErrorText :: "go_error \<Rightarrow> string"

definition second :: int where "second = 1000000000"
definition minute :: int where "minute = 60 * second"

definition call :: "('c, 'l, 'z) os_scheme \<Rightarrow> ('c, 'a) state \<Rightarrow> ('c tool, 'a) state" where
  "call os m = State (\<lambda>s. case run_state m (tl_cloud s) of
     (r, c) \<Rightarrow> (r, s \<lparr> tl_cloud := c, tl_now := tl_now s + int (os_CallTime os c) \<rparr>))"

definition now :: "('c tool, int) state" where
  "now = State (\<lambda>s. (tl_now s, s))"

definition sleep :: "int \<Rightarrow> ('c tool, unit) state" where
  "sleep d = State (\<lambda>s. ((), s \<lparr> tl_now := tl_now s + max 0 d \<rparr>))"

definition println :: "string list \<Rightarrow> ('c tool, unit) state" where
  "println parts = State (\<lambda>s. ((), s \<lparr> tl_out := tl_out s @ [concat parts] \<rparr>))"

definition fatal :: "string \<Rightarrow> ('c, 'a) prog" where
  "fatal msg = fail (PlainErr msg)"

definition nil_deref :: go_error where
  "nil_deref = PlainErr ''panic: runtime error: invalid memory address or nil pointer dereference''"

text \<open>The clients of a tool. Credentials, region and HTTP client are built in one step; every tool exits when
  one of them fails.\<close>

definition new_client :: "('c, 'l, 'z) os_scheme \<Rightarrow> string \<Rightarrow> string \<Rightarrow> string \<Rightarrow> string \<Rightarrow> ('c, 'l) prog" where
  "new_client os service region ak sk = State_Monad.return (os_NewClient os service region ak sk)"

section \<open>The requests of the tools\<close>

record EcsFlavor =
  ef_Id :: string
  ef_Name :: string
  ef_Vcpus :: string
  ef_Ram :: int32
  ef_SubEni :: "string option option"

record EcsServer =
  es_Status :: string
  es_Addresses :: "(string \<times> (string option \<times> string) list) list"

record ImsImage =
  im_Id :: string
  im_Name :: string
  im_VirtualEnvType :: string

record OpsNode =
  on_Name :: "string option"
  on_Phase :: "string option"
  on_Runtime :: "(string option \<times> string option) option"
  on_Os :: "string option"

text \<open>The answers to the requests only the tools send, on top of those the provider sends. An endpoint status is
  the private and the public endpoint; a key pair its name and its private key; a server its ID and name; a
  credential of SWR the registry and the encoded login.\<close>

record ops_cloud = cloud +
  ans_ShowClusterEndpoints :: "(string option \<times> string option) option answer"
  ans_ListAllNodes :: "OpsNode list option answer"
  ans_NovaListKeypairs :: "string option list option answer"
  ans_NovaCreateKeypair :: "string option answer"
  ans_ListFlavors :: "EcsFlavor list option answer"
  ans_ListServers :: "(string \<times> string) list option answer"
  ans_CreateServers :: "string list option answer"
  ans_ShowServer :: "EcsServer option answer"
  ans_ListImages :: "ImsImage list option answer"
  ans_CreateSecret :: "(string \<times> string) list option answer"

definition empty_ops_cloud :: ops_cloud where
  "empty_ops_cloud = cloud.extend empty_cloud \<lparr>
     ans_ShowClusterEndpoints = (\<lambda>_. Inr None),
     ans_ListAllNodes = (\<lambda>_. Inr None),
     ans_NovaListKeypairs = (\<lambda>_. Inr None),
     ans_NovaCreateKeypair = (\<lambda>_. Inr None),
     ans_ListFlavors = (\<lambda>_. Inr None),
     ans_ListServers = (\<lambda>_. Inr None),
     ans_CreateServers = (\<lambda>_. Inr None),
     ans_ShowServer = (\<lambda>_. Inr None),
     ans_ListImages = (\<lambda>_. Inr None),
     ans_CreateSecret = (\<lambda>_. Inr None) \<rparr>"

section \<open>hwutil\<close>

fun EnvOr :: "(string \<Rightarrow> string) \<Rightarrow> string list \<Rightarrow> string" where
  "EnvOr getenv [] = ''''"
| "EnvOr getenv (k # ks) = (if getenv k \<noteq> '''' then getenv k else EnvOr getenv ks)"

definition envDefault :: "(string \<Rightarrow> string) \<Rightarrow> string \<Rightarrow> string \<Rightarrow> string" where
  "envDefault getenv key def = (if getenv key \<noteq> '''' then getenv key else def)"

text \<open>\<open>hwutil.IsThrottled\<close> looks at the HTTP status only.\<close>

definition hw_IsThrottled :: "go_error \<Rightarrow> bool" where
  "hw_IsThrottled err = (case as_sdk err of Some (st, _, _) \<Rightarrow> st = 429 | None \<Rightarrow> False)"

text \<open>The loop of \<open>RetryThrottled\<close>: \<open>left\<close> iterations remain, \<open>err\<close> is the error of the last one.\<close>

fun retry_loop :: "('c, 'a) prog \<Rightarrow> nat \<Rightarrow> nat \<Rightarrow> go_error \<Rightarrow> ('c, 'a) prog" where
  "retry_loop fn attempt 0 err = fail err"
| "retry_loop fn attempt (Suc left) _ = do {
     r \<leftarrow> fn;
     case r of
       Inr v \<Rightarrow> ok v
     | Inl err \<Rightarrow>
         if \<not> hw_IsThrottled err then fail err
         else do { _ \<leftarrow> sleep (60 * (int attempt + 1) * second); retry_loop fn (attempt + 1) left err } }"

definition RetryThrottled :: "nat \<Rightarrow> ('c, 'a) prog \<Rightarrow> ('c, 'a) prog" where
  "RetryThrottled maxRetries fn = retry_loop fn 0 (maxRetries + 1) (PlainErr '''')"

text \<open>\<open>CreatePublicIP\<close>: missing fields of the answer become empty strings.\<close>

definition str_or_empty :: "string option \<Rightarrow> string" where
  "str_or_empty p = (case p of Some s \<Rightarrow> s | None \<Rightarrow> '''')"

definition CreatePublicIP :: "(history, 'l, 'z) os_scheme \<Rightarrow> 'm cloud_scheme \<Rightarrow> string \<Rightarrow> (history, string \<times> string) prog" where
  "CreatePublicIP os c name =
     tryE (call os (send (EipReq (CreatePublicipReq name 5 ''5_bgp'')) (ans_CreatePublicip c)))
       (\<lambda>resp. ok (case resp of None \<Rightarrow> ('''', '''')
          | Some p \<Rightarrow> (str_or_empty (pi_Id p), str_or_empty (pi_PublicIpAddress p))))"

section \<open>Polling\<close>

text \<open>
  The loop all tools poll with: \<open>deadline := time.Now().Add(timeout); for time.Now().Before(deadline) { check;
  time.Sleep(interval) }\<close>. \<open>None\<close> is the end of the loop without a result. The number of rounds is bounded by
  \<open>poll_rounds\<close>, which is enough because every round sleeps.
\<close>

fun poll_loop :: "nat \<Rightarrow> int \<Rightarrow> int \<Rightarrow> ('c, 'a option) prog \<Rightarrow> ('c, 'a option) prog" where
  "poll_loop 0 deadline interval check = fail OutOfFuel"
| "poll_loop (Suc n) deadline interval check = do {
     t \<leftarrow> now;
     if \<not> t < deadline then ok None
     else tryE check (\<lambda>r. case r of
        Some v \<Rightarrow> ok (Some v)
      | None \<Rightarrow> do { _ \<leftarrow> sleep interval; poll_loop n deadline interval check }) }"

definition poll_rounds :: "int \<Rightarrow> int \<Rightarrow> nat" where
  "poll_rounds timeout interval = nat (timeout div interval) + 2"

definition poll :: "int \<Rightarrow> int \<Rightarrow> ('c, 'a option) prog \<Rightarrow> ('c, 'a option) prog" where
  "poll timeout interval check = do {
     t \<leftarrow> now;
     poll_loop (poll_rounds timeout interval) (t + timeout) interval check }"

section \<open>Rules\<close>

lemma not_isl_Inr: "\<not> isl r \<Longrightarrow> \<exists>c. r = Inr c"
  by (cases r) auto

lemma wp_call [wp_simps]:
  "wp (call os m) Q s = wp m (\<lambda>r c. Q r (s \<lparr> tl_cloud := c, tl_now := tl_now s + int (os_CallTime os c) \<rparr>)) (tl_cloud s)"
  by (simp add: wp_def call_def split: prod.splits)

lemma wp_now [wp_simps]: "wp now Q s = Q (tl_now s) s"
  by (simp add: wp_def now_def)

lemma wp_sleep [wp_simps]: "wp (sleep d) Q s = Q () (s \<lparr> tl_now := tl_now s + max 0 d \<rparr>)"
  by (simp add: wp_def sleep_def)

lemma wp_println [wp_simps]: "wp (println ps) Q s = Q () (s \<lparr> tl_out := tl_out s @ [concat ps] \<rparr>)"
  by (simp add: wp_def println_def)

lemma wp_fatal [wp_simps]: "wp (fatal msg) Q = Q (Inl (PlainErr msg))"
  by (simp add: fatal_def wp_simps)

lemma wp_new_client [wp_simps]:
  "wp (new_client os service region ak sk) Q = Q (os_NewClient os service region ak sk)"
  by (simp add: new_client_def wp_simps)

text \<open>Total correctness of a poll: when a check keeps the invariant, does not turn the clock back and leads to
  the postcondition whenever it ends the loop, the poll ends and leads to the postcondition.\<close>

lemma wp_poll_loop:
  assumes "interval > 0"
    and check: "\<And>s. I s \<Longrightarrow> wp check (\<lambda>r s'. tl_now s \<le> tl_now s' \<and> (case r of
        Inl e \<Rightarrow> Q (Inl e) s' | Inr None \<Rightarrow> I (s' \<lparr> tl_now := tl_now s' + interval \<rparr>) | Inr (Some v) \<Rightarrow> Q (Inr (Some v)) s')) s"
    and over: "\<And>s. I s \<Longrightarrow> Q (Inr None) s"
  shows "I s \<Longrightarrow> deadline - tl_now s \<le> int n * interval \<Longrightarrow> wp (poll_loop (Suc n) deadline interval check) Q s"
proof (induction n arbitrary: s)
  case 0
  then show ?case by (simp add: wp_simps over)
next
  case (Suc n)
  have "wp check (\<lambda>r. case r of Inl e \<Rightarrow> Q (Inl e) | Inr v \<Rightarrow> wp (case v of
      Some v \<Rightarrow> ok (Some v)
    | None \<Rightarrow> do { _ \<leftarrow> sleep interval; poll_loop (Suc n) deadline interval check }) Q) s"
    using check[OF Suc.prems(1)]
  proof (rule wp_mono)
    fix r s' assume r: "tl_now s \<le> tl_now s' \<and> (case r of
        Inl e \<Rightarrow> Q (Inl e) s' | Inr None \<Rightarrow> I (s' \<lparr> tl_now := tl_now s' + interval \<rparr>) | Inr (Some v) \<Rightarrow> Q (Inr (Some v)) s')"
    have "wp (poll_loop (Suc n) deadline interval check) Q (s' \<lparr> tl_now := tl_now s' + interval \<rparr>)"
      if "I (s' \<lparr> tl_now := tl_now s' + interval \<rparr>)"
      using Suc.IH[OF that] Suc.prems(2) r by (simp add: algebra_simps)
    then show "(case r of Inl e \<Rightarrow> Q (Inl e) | Inr v \<Rightarrow> wp (case v of
        Some v \<Rightarrow> ok (Some v)
      | None \<Rightarrow> do { _ \<leftarrow> sleep interval; poll_loop (Suc n) deadline interval check }) Q) s'"
      using r assms(1) by (cases r) (auto simp: wp_simps max_def simp del: poll_loop.simps split: option.splits)
  qed
  then show ?case
    using Suc.prems(1) by (simp only: poll_loop.simps wp_simps) (simp add: over)
qed

lemma wp_poll:
  assumes "interval > 0"
    and "\<And>s. I s \<Longrightarrow> wp check (\<lambda>r s'. tl_now s \<le> tl_now s' \<and> (case r of
        Inl e \<Rightarrow> Q (Inl e) s' | Inr None \<Rightarrow> I (s' \<lparr> tl_now := tl_now s' + interval \<rparr>) | Inr (Some v) \<Rightarrow> Q (Inr (Some v)) s')) s"
    and "\<And>s. I s \<Longrightarrow> Q (Inr None) s" and "I s"
  shows "wp (poll timeout interval check) Q s"
proof -
  have "timeout \<le> (timeout div interval + 1) * interval"
    using mult_div_mod_eq[of interval timeout] pos_mod_bound[OF assms(1), of timeout]
    unfolding distrib_right mult.commute[of "timeout div interval"] by linarith
  also have "\<dots> \<le> int (nat (timeout div interval) + 1) * interval"
    using assms(1) by (intro mult_right_mono) auto
  finally have "(tl_now s + timeout) - tl_now s \<le> int (nat (timeout div interval) + 1) * interval" by simp
  from wp_poll_loop[OF assms(1-3) assms(4) this] show ?thesis
    by (simp add: poll_def wp_simps poll_rounds_def)
qed

section \<open>Requests of a tool on the raw SDK\<close>

lemma extends_trans: "extends q a b \<Longrightarrow> extends q b c \<Longrightarrow> extends q a c"
  by (auto simp: extends_def)

text \<open>\<open>tool_sends P m\<close>: the requests of \<open>m\<close> satisfy \<open>P\<close>.\<close>

definition tool_sends :: "(request \<Rightarrow> bool) \<Rightarrow> (history tool, 'a) state \<Rightarrow> bool" where
  "tool_sends P m \<longleftrightarrow> (\<forall>s. wp m (\<lambda>_ s'. extends P (tl_cloud s) (tl_cloud s')) s)"

lemma tool_sends_D: "tool_sends P m \<Longrightarrow> wp m (\<lambda>_ s'. extends P (tl_cloud s) (tl_cloud s')) s"
  by (simp add: tool_sends_def)

lemma tool_sends_bind: "tool_sends P m \<Longrightarrow> (\<And>r. tool_sends P (k r)) \<Longrightarrow> tool_sends P (m \<bind> k)"
  unfolding tool_sends_def wp_bind by (blast intro: wp_mono extends_trans)

lemma tool_sends_fail: "tool_sends P (fail e)"
  by (simp add: tool_sends_def wp_simps)

lemma tool_sends_tryE: "tool_sends P m \<Longrightarrow> (\<And>r. tool_sends P (k r)) \<Longrightarrow> tool_sends P (tryE m k)"
  unfolding tryE_def by (erule tool_sends_bind) (auto split: sum.split simp: tool_sends_fail)

lemma tool_sends_basic:
  "tool_sends P (ok x)" "tool_sends P (fail e)" "tool_sends P (State_Monad.return y)" "tool_sends P (println ps)"
  "tool_sends P (sleep d)" "tool_sends P now" "tool_sends P (fatal msg)" "tool_sends P (new_client os service region ak sk)"
  by (auto simp: tool_sends_def wp_simps)

lemma tool_sends_call: "P req \<Longrightarrow> tool_sends P (call os (send req ans))"
  by (auto simp: tool_sends_def wp_simps extends_def)

lemma tool_sends_foldE: "(\<And>x a. x \<in> set xs \<Longrightarrow> tool_sends P (f x a)) \<Longrightarrow> tool_sends P (foldE f xs acc)"
  by (induction xs arbitrary: acc) (auto intro!: tool_sends_tryE tool_sends_basic)

lemma tool_sends_forE: "(\<And>x. x \<in> set xs \<Longrightarrow> tool_sends P (f x)) \<Longrightarrow> tool_sends P (forE f xs)"
  by (induction xs) (auto intro!: tool_sends_tryE tool_sends_basic)

lemma tool_sends_for_each: "(\<And>x. x \<in> set xs \<Longrightarrow> tool_sends P (f x)) \<Longrightarrow> tool_sends P (for_each f xs)"
  by (induction xs) (auto intro!: tool_sends_bind tool_sends_basic)

lemma tool_sends_wrapE: "tool_sends P m \<Longrightarrow> tool_sends P (wrapE msg m)"
  unfolding wrapE_def by (erule tool_sends_bind) (auto split: sum.split simp: tool_sends_basic)

lemma tool_sends_ignoreE: "tool_sends P m \<Longrightarrow> tool_sends P (ignoreE m)"
  unfolding ignoreE_def by (intro tool_sends_bind tool_sends_basic)

lemma tool_sends_run: "sends P m \<Longrightarrow> tool_sends P (call os m)"
  unfolding tool_sends_def wp_call by (auto simp: wp_run dest: sendsD)

lemma tool_sends_if: "(b \<Longrightarrow> tool_sends P m) \<Longrightarrow> (\<not> b \<Longrightarrow> tool_sends P k) \<Longrightarrow> tool_sends P (if b then m else k)"
  by simp

lemma tool_sends_retry_loop: "tool_sends P m \<Longrightarrow> tool_sends P (retry_loop m attempt left err)"
  by (induction left arbitrary: attempt err)
     (auto intro!: tool_sends_bind split: sum.split simp: tool_sends_basic)

lemma tool_sends_RetryThrottled: "tool_sends P m \<Longrightarrow> tool_sends P (RetryThrottled n m)"
  unfolding RetryThrottled_def by (rule tool_sends_retry_loop)

lemma tool_sends_poll_loop: "tool_sends P check \<Longrightarrow> tool_sends P (poll_loop n deadline interval check)"
  by (induction n) (auto intro!: tool_sends_bind tool_sends_tryE split: option.split simp: tool_sends_basic)

lemma tool_sends_poll: "tool_sends P check \<Longrightarrow> tool_sends P (poll timeout interval check)"
  unfolding poll_def by (intro tool_sends_bind tool_sends_basic tool_sends_poll_loop)

lemmas tool_sends_intros = tool_sends_if tool_sends_bind tool_sends_tryE tool_sends_basic tool_sends_call tool_sends_foldE
  tool_sends_forE tool_sends_for_each tool_sends_wrapE tool_sends_ignoreE tool_sends_RetryThrottled tool_sends_poll

end
