(* ===== verification/CleanupTools.thy ===== *)
theory CleanupTools
  imports Tools CceCluster
begin

text \<open>
  \<open>hack/cleanup-hw/main.go\<close> and \<open>hack/cleanup-smoke-clusters/main.go\<close>: the tools that tear down the resources of
  the smoke test.
\<close>

section \<open>cleanup-hw\<close>

definition pollInterval :: int where "pollInterval = 10 * second"
definition pollTimeout :: int where "pollTimeout = 20 * minute"

record cleanup_flags =
  cuf_cluster :: string
  cuf_nodepool :: string
  cuf_eip :: string
  cuf_subnet :: string
  cuf_vpc :: string
  cuf_region :: string

definition cu_fatal_usage :: string where
  "cu_fatal_usage = ''usage: go run ./hack/cleanup-hw -cluster <id> [-nodepool <id>] [-eip <id>] [-subnet <id> -vpc <id>]''"

text \<open>A check that never fails: it reports whether the resource is gone.\<close>

definition gone_when :: "('c, bool) prog \<Rightarrow> ('c, unit option) prog" where
  "gone_when m = tryE m (\<lambda>gone. ok (if gone then Some () else None))"

definition pollUntil :: "int \<Rightarrow> int \<Rightarrow> ('c, unit option) prog \<Rightarrow> ('c, unit) prog" where
  "pollUntil interval timeout check = tryE (poll timeout interval check)
     (\<lambda>r. case r of Some _ \<Rightarrow> ok () | None \<Rightarrow> fail (PlainErr ''timed out after 20m0s''))"

definition pollNodePoolGone :: "(history, 'l, 'z) os_scheme \<Rightarrow> 'm cloud_scheme \<Rightarrow> string \<Rightarrow> string \<Rightarrow> (history, unit) prog" where
  "pollNodePoolGone os c clusterID nodepoolID = pollUntil pollInterval pollTimeout (do {
     resp \<leftarrow> call os (send (CceReq (ListNodePoolsReq clusterID)) (ans_ListNodePools c));
     ok (case resp of
        Inl _ \<Rightarrow> None
      | Inr None \<Rightarrow> Some ()
      | Inr (Some items) \<Rightarrow>
          if list_ex (\<lambda>p. case npr_Metadata p of Some (Some uid, _) \<Rightarrow> uid = nodepoolID | _ \<Rightarrow> False) items
          then None else Some ()) })"

definition pollClusterGone :: "(history, 'l, 'z) os_scheme \<Rightarrow> 'm cloud_scheme \<Rightarrow> string \<Rightarrow> (history, unit) prog" where
  "pollClusterGone os c clusterID = pollUntil pollInterval pollTimeout (do {
     resp \<leftarrow> call os (send (CceReq ListClustersReq) (ans_ListClusters c));
     ok (case resp of
        Inl _ \<Rightarrow> None
      | Inr None \<Rightarrow> Some ()
      | Inr (Some items) \<Rightarrow>
          if list_ex (\<lambda>cl. case cl_Metadata cl of Some m \<Rightarrow> cm_Uid m = Some clusterID | None \<Rightarrow> False) items
          then None else Some ()) })"

text \<open>The three remaining checks take any error of the lookup for a missing resource.\<close>

definition gone_on_error :: "(history, 'l, 'z) os_scheme \<Rightarrow> 'm cloud_scheme \<Rightarrow> request \<Rightarrow> (history, unit option) prog" where
  "gone_on_error os c req = do {
     resp \<leftarrow> call os (send req (ack c));
     ok (case resp of Inl _ \<Rightarrow> Some () | Inr _ \<Rightarrow> None) }"

definition pollEipGone :: "(history, 'l, 'z) os_scheme \<Rightarrow> 'm cloud_scheme \<Rightarrow> string \<Rightarrow> (history, unit) prog" where
  "pollEipGone os c eipID = pollUntil pollInterval pollTimeout (gone_on_error os c (EipReq (ShowPublicipReq eipID)))"

definition pollSubnetGone :: "(history, 'l, 'z) os_scheme \<Rightarrow> 'm cloud_scheme \<Rightarrow> string \<Rightarrow> (history, unit) prog" where
  "pollSubnetGone os c subnetID = pollUntil pollInterval pollTimeout (gone_on_error os c (VpcReq (ShowSubnetReq subnetID)))"

definition pollVpcGone :: "(history, 'l, 'z) os_scheme \<Rightarrow> 'm cloud_scheme \<Rightarrow> string \<Rightarrow> (history, unit) prog" where
  "pollVpcGone os c vpcID = pollUntil pollInterval pollTimeout (gone_on_error os c (VpcReq (ShowVpcReq vpcID)))"

text \<open>One resource: a failing delete is reported and polled all the same, a poll that times out is reported and
  the tool goes on. A model run out of fuel is kept apart.\<close>

definition report_gone :: "(history, 'l, 'z) os_scheme \<Rightarrow> string \<Rightarrow> go_error + unit \<Rightarrow> (history, unit) prog" where
  "report_gone os what p = (case p of
       Inl err \<Rightarrow> if err = OutOfFuel then fail err
                  else do { _ \<leftarrow> println [what, '' still present after timeout: '', os_ErrorText os err]; ok () }
     | Inr _ \<Rightarrow> do { _ \<leftarrow> println [what, '' gone'']; ok () })"

definition tear_down :: "(history, 'l, 'z) os_scheme \<Rightarrow> 'm cloud_scheme \<Rightarrow> string \<Rightarrow> string \<Rightarrow> request \<Rightarrow>
    (history, unit) prog \<Rightarrow> (history, unit) prog" where
  "tear_down os c what operation req gone = do {
     d \<leftarrow> call os (send req (ack c));
     _ \<leftarrow> (case d of
        Inl err \<Rightarrow> println [operation, '': '', os_ErrorText os err, '' (continuing to poll)'']
      | Inr _ \<Rightarrow> State_Monad.return ());
     p \<leftarrow> gone;
     report_gone os what p }"

definition cu_delete_cluster_request :: "string \<Rightarrow> DeleteClusterRequest" where
  "cu_delete_cluster_request clusterID = \<lparr> dcr_ClusterId = clusterID, dcr_DeleteEvs = Some BLOCK, dcr_DeleteEni = Some BLOCK,
     dcr_DeleteNet = Some BLOCK, dcr_OndemandNodePolicy = Some OD_DELETE, dcr_PeriodicNodePolicy = Some PE_RESET \<rparr>"

definition cu_nodepool :: "(history, 'l, 'z) os_scheme \<Rightarrow> 'm cloud_scheme \<Rightarrow> cleanup_flags \<Rightarrow> (history, unit) prog" where
  "cu_nodepool os cc f = (if cuf_nodepool f \<noteq> '''' then
     tear_down os cc ''node pool'' ''DeleteNodePool'' (CceReq (DeleteNodePoolReq (cuf_cluster f) (cuf_nodepool f)))
       (pollNodePoolGone os cc (cuf_cluster f) (cuf_nodepool f))
   else ok ())"

definition cu_cluster :: "(history, 'l, 'z) os_scheme \<Rightarrow> 'm cloud_scheme \<Rightarrow> cleanup_flags \<Rightarrow> (history, unit) prog" where
  "cu_cluster os cc f = tear_down os cc ''cluster'' ''DeleteCluster''
     (CceReq (DeleteClusterReq (cu_delete_cluster_request (cuf_cluster f)))) (pollClusterGone os cc (cuf_cluster f))"

definition cu_eip :: "(history, 'l, 'z) os_scheme \<Rightarrow> 'm cloud_scheme \<Rightarrow> cleanup_flags \<Rightarrow> (history, unit) prog" where
  "cu_eip os ec f = (if cuf_eip f \<noteq> '''' then
     tear_down os ec ''EIP'' ''DeletePublicip'' (EipReq (DeletePublicipReq (cuf_eip f))) (pollEipGone os ec (cuf_eip f))
   else ok ())"

definition cu_network :: "(history, 'l, 'z) os_scheme \<Rightarrow> 'm cloud_scheme \<Rightarrow> cleanup_flags \<Rightarrow> (history, unit) prog" where
  "cu_network os vc f = (if cuf_subnet f \<noteq> '''' \<and> cuf_vpc f \<noteq> '''' then
     tryE (tear_down os vc ''subnet'' ''DeleteSubnet'' (VpcReq (DeleteSubnetReq (cuf_vpc f) (cuf_subnet f)))
             (pollSubnetGone os vc (cuf_subnet f)))
       (\<lambda>_. tear_down os vc ''VPC'' ''DeleteVpc'' (VpcReq (DeleteVpcReq (cuf_vpc f))) (pollVpcGone os vc (cuf_vpc f)))
   else ok ())"

definition cleanup_hw :: "(history, 'm cloud_scheme, 'z) os_scheme \<Rightarrow> cleanup_flags \<Rightarrow> (history, unit) prog" where
  "cleanup_hw os f = (
     let ak = EnvOr (os_Getenv os) [''CLOUD_SDK_AK'', ''CCE_DEPLOY_AK''];
         sk = EnvOr (os_Getenv os) [''CLOUD_SDK_SK'', ''CCE_DEPLOY_SK''] in
     if cuf_cluster f = '''' then fatal cu_fatal_usage
     else if ak = '''' \<or> sk = '''' then fatal ''CLOUD_SDK_AK and CLOUD_SDK_SK must be set''
     else tryE (new_client os ''cce'' (cuf_region f) ak sk) (\<lambda>cc.
          tryE (new_client os ''eip'' (cuf_region f) ak sk) (\<lambda>ec.
          tryE (new_client os ''vpc'' (cuf_region f) ak sk) (\<lambda>vc.
          tryE (cu_nodepool os cc f) (\<lambda>_.
          tryE (cu_cluster os cc f) (\<lambda>_.
          tryE (cu_eip os ec f) (\<lambda>_.
          tryE (cu_network os vc f) (\<lambda>_.
          do { _ \<leftarrow> println [''cleanup complete'']; ok () }))))))))"

section \<open>cleanup-smoke-clusters\<close>

text \<open>The errors of listing and deleting node pools are ignored. The SDK returns no response with an error, so
  the error of the listing ends in a nil dereference; so does a pool that has metadata without a UID.\<close>

fun smoke_pools :: "(history, 'l, 'z) os_scheme \<Rightarrow> 'm cloud_scheme \<Rightarrow> string \<Rightarrow> NodePoolResp list \<Rightarrow> (history, unit) prog" where
  "smoke_pools os c uid [] = ok ()"
| "smoke_pools os c uid (p # ps) = (case npr_Metadata p of
      None \<Rightarrow> smoke_pools os c uid ps
    | Some (None, _) \<Rightarrow> fail nil_deref
    | Some (Some pid, _) \<Rightarrow> do {
        _ \<leftarrow> call os (send (CceReq (DeleteNodePoolReq uid pid)) (ack c));
        smoke_pools os c uid ps })"

definition smoke_candidate :: "Cluster \<Rightarrow> (string \<times> string) option" where
  "smoke_candidate cl = (case cl_Metadata cl of
      None \<Rightarrow> None
    | Some m \<Rightarrow> (case cm_Uid m of
        None \<Rightarrow> None
      | Some uid \<Rightarrow> if \<not> has_prefix (cm_Name m) ''capi-'' \<or> has_prefix (cm_Name m) ''capi-mgmt-'' then None
                     else Some (cm_Name m, uid)))"

text \<open>One cluster of the listing; the number of deletions is counted.\<close>

definition smoke_cluster :: "(history, 'l, 'z) os_scheme \<Rightarrow> 'm cloud_scheme \<Rightarrow> Cluster \<Rightarrow> nat \<Rightarrow> (history, nat) prog" where
  "smoke_cluster os c cl n = (case smoke_candidate cl of
      None \<Rightarrow> ok n
    | Some (name, uid) \<Rightarrow> do {
        pools \<leftarrow> call os (send (CceReq (ListNodePoolsReq uid)) (ans_ListNodePools c));
        case pools of
          Inl _ \<Rightarrow> fail nil_deref
        | Inr items \<Rightarrow> tryE (case items of Some ps \<Rightarrow> smoke_pools os c uid ps | None \<Rightarrow> ok ()) (\<lambda>_. do {
            d \<leftarrow> call os (send (CceReq (DeleteClusterReq (cu_delete_cluster_request uid))) (ack c));
            _ \<leftarrow> println [''delete '', name, '' (uid='', uid, ''): '',
                 case d of Inl err \<Rightarrow> os_ErrorText os err | Inr _ \<Rightarrow> ''<nil>''];
            ok (n + 1) }) })"

definition cleanup_smoke :: "(history, 'm cloud_scheme, 'z) os_scheme \<Rightarrow> (history, unit) prog" where
  "cleanup_smoke os =
     tryE (new_client os ''cce'' ''cn-north-4'' (os_Getenv os ''CLOUD_SDK_AK'') (os_Getenv os ''CLOUD_SDK_SK'')) (\<lambda>c.
     tryE (call os (send (CceReq ListClustersReq) (ans_ListClusters c))) (\<lambda>items.
     tryE (case items of Some cls \<Rightarrow> foldE (smoke_cluster os c) cls 0 | None \<Rightarrow> ok 0) (\<lambda>n.
       if n = 0 then do { _ \<leftarrow> println [''no capi-* clusters'']; ok () } else ok ())))"


section \<open>The deletions of cleanup-hw\<close>

text \<open>\<open>appended q s s'\<close>: between the two states only requests that satisfy \<open>q\<close> were sent, and time went on.\<close>

definition appended :: "(request \<Rightarrow> bool) \<Rightarrow> history tool \<Rightarrow> history tool \<Rightarrow> bool" where
  "appended q s s' \<longleftrightarrow> tl_now s \<le> tl_now s' \<and> extends q (tl_cloud s) (tl_cloud s')"

lemma appended_refl [simp]: "appended q s s"
  by (simp add: appended_def)

lemma appended_trans: "appended q a b \<Longrightarrow> appended q b c \<Longrightarrow> appended q a c"
  by (auto simp: appended_def intro: extends_trans)

lemma appended_call: "q req \<Longrightarrow> appended q s (s \<lparr> tl_cloud := tl_cloud s @ [req], tl_now := tl_now s + int n \<rparr>)"
  by (auto simp: appended_def extends_def)

lemma appended_later: "0 \<le> d \<Longrightarrow> appended q s s' \<Longrightarrow> appended q s (s' \<lparr> tl_now := tl_now s' + d \<rparr>)"
  by (auto simp: appended_def)

text \<open>A poll that only looks up ends, without any other request.\<close>

lemma pollUntil_lookups:
  assumes "interval > 0"
    and check: "\<And>s. wp check (\<lambda>r s'. (\<exists>v. r = Inr v) \<and> appended q s s') s"
  shows "wp (pollUntil interval timeout check) (\<lambda>r s'. r \<noteq> Inl OutOfFuel \<and> appended q s s') s"
proof -
  have "wp (poll timeout interval check) (\<lambda>r s'. (\<exists>v. r = Inr v) \<and> appended q s s') s"
  proof (rule wp_poll[where I = "appended q s"])
    fix s1 assume s1: "appended q s s1"
    show "wp check (\<lambda>r s'. tl_now s1 \<le> tl_now s' \<and> (case r of
        Inl e \<Rightarrow> (\<exists>v. Inl e = Inr v) \<and> appended q s s'
      | Inr None \<Rightarrow> appended q s (s' \<lparr> tl_now := tl_now s' + interval \<rparr>)
      | Inr (Some v) \<Rightarrow> (\<exists>v'. Inr (Some v) = Inr v') \<and> appended q s s')) s1"
      using check[of s1]
      by (rule wp_mono) (use s1 assms(1) in \<open>auto simp: appended_def intro: extends_trans split: option.splits\<close>)
  qed (use assms in auto)
  then show ?thesis
    by (auto simp: pollUntil_def wp_simps split: option.splits elim!: wp_mono)
qed

fun is_lookup :: "request \<Rightarrow> bool" where
  "is_lookup (CceReq (ListNodePoolsReq _)) \<longleftrightarrow> True"
| "is_lookup (CceReq ListClustersReq) \<longleftrightarrow> True"
| "is_lookup (EipReq (ShowPublicipReq _)) \<longleftrightarrow> True"
| "is_lookup (VpcReq (ShowSubnetReq _)) \<longleftrightarrow> True"
| "is_lookup (VpcReq (ShowVpcReq _)) \<longleftrightarrow> True"
| "is_lookup _ \<longleftrightarrow> False"

lemma pollInterval_pos: "pollInterval > 0"
  by (simp add: pollInterval_def second_def)

lemma polls_lookup:
  "wp (pollNodePoolGone os c cid pid) (\<lambda>r s'. r \<noteq> Inl OutOfFuel \<and> appended is_lookup s s') s"
  "wp (pollClusterGone os c cid) (\<lambda>r s'. r \<noteq> Inl OutOfFuel \<and> appended is_lookup s s') s"
  "wp (pollEipGone os c eid) (\<lambda>r s'. r \<noteq> Inl OutOfFuel \<and> appended is_lookup s s') s"
  "wp (pollSubnetGone os c sid) (\<lambda>r s'. r \<noteq> Inl OutOfFuel \<and> appended is_lookup s s') s"
  "wp (pollVpcGone os c vid) (\<lambda>r s'. r \<noteq> Inl OutOfFuel \<and> appended is_lookup s s') s"
  unfolding pollNodePoolGone_def pollClusterGone_def pollEipGone_def pollSubnetGone_def pollVpcGone_def gone_on_error_def
  by (rule pollUntil_lookups[OF pollInterval_pos]; simp add: wp_simps appended_call)+

lemma tear_down_sends:
  assumes "\<And>s. wp gone (\<lambda>r s'. r \<noteq> Inl OutOfFuel \<and> appended is_lookup s s') s"
  shows "wp (tear_down os c what operation req gone) (\<lambda>r s'. r = Inr () \<and>
    (\<exists>polls. tl_cloud s' = tl_cloud s @ req # polls \<and> list_all is_lookup polls)) s"
proof -
  have "wp gone (\<lambda>p. wp (report_gone os what p) (\<lambda>r s'. r = Inr () \<and>
      (\<exists>polls. tl_cloud s' = tl_cloud s @ req # polls \<and> list_all is_lookup polls))) s1"
    if "tl_cloud s1 = tl_cloud s @ [req]" for s1 :: "history tool"
    using assms[of s1]
    by (rule wp_mono) (use that in \<open>auto simp: report_gone_def wp_simps appended_def extends_def split: sum.splits\<close>)
  then show ?thesis
    by (simp add: tear_down_def wp_simps split: sum.splits)
qed

text \<open>What the flags ask for, in the order of the dependencies.\<close>

definition planned_deletions :: "cleanup_flags \<Rightarrow> request list" where
  "planned_deletions f =
     (if cuf_nodepool f \<noteq> '''' then [CceReq (DeleteNodePoolReq (cuf_cluster f) (cuf_nodepool f))] else []) @
     [CceReq (DeleteClusterReq (cu_delete_cluster_request (cuf_cluster f)))] @
     (if cuf_eip f \<noteq> '''' then [EipReq (DeletePublicipReq (cuf_eip f))] else []) @
     (if cuf_subnet f \<noteq> '''' \<and> cuf_vpc f \<noteq> ''''
      then [VpcReq (DeleteSubnetReq (cuf_vpc f) (cuf_subnet f)), VpcReq (DeleteVpcReq (cuf_vpc f))] else [])"

text \<open>\<open>step_sends reqs m\<close>: \<open>m\<close> succeeds and, lookups aside, sends exactly \<open>reqs\<close>.\<close>

definition deletions :: "history \<Rightarrow> history" where
  "deletions h = filter (\<lambda>q. \<not> is_lookup q) h"

definition step_sends :: "request list \<Rightarrow> (history, unit) prog \<Rightarrow> bool" where
  "step_sends reqs m \<longleftrightarrow> (\<forall>s. wp m (\<lambda>r s'. r = Inr () \<and> deletions (tl_cloud s') = deletions (tl_cloud s) @ reqs) s)"

lemma step_sends_ok: "step_sends [] (ok ())"
  by (simp add: step_sends_def wp_simps)

lemma step_sends_seq: "step_sends a m \<Longrightarrow> step_sends b n \<Longrightarrow> step_sends (a @ b) (tryE m (\<lambda>_. n))"
  by (auto simp: step_sends_def wp_simps wp_run split: sum.splits)

lemma step_sends_print: "step_sends [] (do { _ \<leftarrow> println ps; ok () })"
  by (simp add: step_sends_def wp_simps)

lemma step_sends_tear_down:
  assumes "\<And>s. wp gone (\<lambda>r s'. r \<noteq> Inl OutOfFuel \<and> appended is_lookup s s') s" and "\<not> is_lookup req"
  shows "step_sends [req] (tear_down os c what operation req gone)"
proof -
  have "list_all is_lookup polls \<Longrightarrow> filter (\<lambda>q. \<not> is_lookup q) polls = []" for polls
    by (induction polls) auto
  then show ?thesis
    using assms(2) unfolding step_sends_def deletions_def
    by (auto intro!: wp_mono[OF tear_down_sends[OF assms(1)]])
qed

lemma step_sends_parts:
  "step_sends (if cuf_nodepool f \<noteq> '''' then [CceReq (DeleteNodePoolReq (cuf_cluster f) (cuf_nodepool f))] else []) (cu_nodepool os cc f)"
  "step_sends [CceReq (DeleteClusterReq (cu_delete_cluster_request (cuf_cluster f)))] (cu_cluster os cc f)"
  "step_sends (if cuf_eip f \<noteq> '''' then [EipReq (DeletePublicipReq (cuf_eip f))] else []) (cu_eip os ec f)"
  "step_sends (if cuf_subnet f \<noteq> '''' \<and> cuf_vpc f \<noteq> ''''
      then [VpcReq (DeleteSubnetReq (cuf_vpc f) (cuf_subnet f)), VpcReq (DeleteVpcReq (cuf_vpc f))] else []) (cu_network os vc f)"
proof -
  note down = step_sends_tear_down[OF polls_lookup(1)] step_sends_tear_down[OF polls_lookup(2)]
    step_sends_tear_down[OF polls_lookup(3)] step_sends_tear_down[OF polls_lookup(4)] step_sends_tear_down[OF polls_lookup(5)]
  show "step_sends (if cuf_nodepool f \<noteq> '''' then [CceReq (DeleteNodePoolReq (cuf_cluster f) (cuf_nodepool f))] else []) (cu_nodepool os cc f)"
    "step_sends [CceReq (DeleteClusterReq (cu_delete_cluster_request (cuf_cluster f)))] (cu_cluster os cc f)"
    "step_sends (if cuf_eip f \<noteq> '''' then [EipReq (DeletePublicipReq (cuf_eip f))] else []) (cu_eip os ec f)"
    by (auto simp: cu_nodepool_def cu_cluster_def cu_eip_def intro: down step_sends_ok)
  show "step_sends (if cuf_subnet f \<noteq> '''' \<and> cuf_vpc f \<noteq> ''''
      then [VpcReq (DeleteSubnetReq (cuf_vpc f) (cuf_subnet f)), VpcReq (DeleteVpcReq (cuf_vpc f))] else []) (cu_network os vc f)"
    using step_sends_seq[OF down(4)[of "VpcReq (DeleteSubnetReq (cuf_vpc f) (cuf_subnet f))"]
        down(5)[of "VpcReq (DeleteVpcReq (cuf_vpc f))"]]
    by (auto simp: cu_network_def step_sends_ok)
qed

text \<open>Whether the tool gets as far as its SDK clients.\<close>

definition cleanup_ready :: "(history, 'm cloud_scheme, 'z) os_scheme \<Rightarrow> cleanup_flags \<Rightarrow> bool" where
  "cleanup_ready os f \<longleftrightarrow> (
     let ak = EnvOr (os_Getenv os) [''CLOUD_SDK_AK'', ''CCE_DEPLOY_AK''];
         sk = EnvOr (os_Getenv os) [''CLOUD_SDK_SK'', ''CCE_DEPLOY_SK''] in
     cuf_cluster f \<noteq> '''' \<and> ak \<noteq> '''' \<and> sk \<noteq> '''' \<and>
     list_all (\<lambda>service. \<not> isl (os_NewClient os service (cuf_region f) ak sk)) [''cce'', ''eip'', ''vpc''])"

text \<open>C22: The teardown tool sends, in the order of the dependencies, exactly the deletions its flags name. Whatever
  the cloud answers and however long it takes, the tool ends; when it gets as far as its SDK clients it ends
  without an error, and lookups aside the requests it sent are, each once and in this order, the deletions of the
  node pool, the cluster, the public address, the subnet and the VPC, as far as the flags name them. Otherwise
  it ends with an error and has sent nothing.\<close>

theorem cleanup_hw_deletions:
  "wp (cleanup_hw os f) (\<lambda>r s'. if cleanup_ready os f
      then r = Inr () \<and> deletions (tl_cloud s') = deletions (tl_cloud s) @ planned_deletions f
      else (\<exists>e. r = Inl e) \<and> tl_cloud s' = tl_cloud s) s"
proof (cases "cleanup_ready os f")
  case True
  define ak where "ak = EnvOr (os_Getenv os) [''CLOUD_SDK_AK'', ''CCE_DEPLOY_AK'']"
  define sk where "sk = EnvOr (os_Getenv os) [''CLOUD_SDK_SK'', ''CCE_DEPLOY_SK'']"
  obtain cc ec vc where clients:
      "os_NewClient os ''cce'' (cuf_region f) ak sk = Inr cc" "os_NewClient os ''eip'' (cuf_region f) ak sk = Inr ec"
      "os_NewClient os ''vpc'' (cuf_region f) ak sk = Inr vc"
    using True by (auto simp: cleanup_ready_def Let_def ak_def[symmetric] sk_def[symmetric] simp del: EnvOr.simps
        dest!: not_isl_Inr)
  have "step_sends (planned_deletions f)
      (tryE (cu_nodepool os cc f) (\<lambda>_. tryE (cu_cluster os cc f) (\<lambda>_. tryE (cu_eip os ec f) (\<lambda>_.
        tryE (cu_network os vc f) (\<lambda>_. do { _ \<leftarrow> println [''cleanup complete'']; ok () })))))"
    using step_sends_seq[OF step_sends_parts(1)[of f os cc] step_sends_seq[OF step_sends_parts(2)[of f os cc]
        step_sends_seq[OF step_sends_parts(3)[of f os ec]
        step_sends_seq[OF step_sends_parts(4)[of f os vc] step_sends_print[of "[''cleanup complete'']"]]]]]
    by (simp add: planned_deletions_def cong: if_cong)
  then show ?thesis
    using True by (auto simp: step_sends_def cleanup_hw_def cleanup_ready_def clients Let_def wp_simps
        ak_def[symmetric] sk_def[symmetric] simp del: EnvOr.simps)
next
  case False
  then show ?thesis
    by (auto simp: cleanup_hw_def cleanup_ready_def Let_def wp_simps simp del: EnvOr.simps split: sum.splits)
qed

section \<open>What cleanup-smoke-clusters touches\<close>

text \<open>A deletion the name of the cluster allows.\<close>

definition smoke_request :: "Cluster list \<Rightarrow> request \<Rightarrow> bool" where
  "smoke_request cls q \<longleftrightarrow> is_lookup q \<or> (\<exists>cl \<in> set cls. \<exists>name uid. smoke_candidate cl = Some (name, uid) \<and>
     ((\<exists>pid. q = CceReq (DeleteNodePoolReq uid pid)) \<or> q = CceReq (DeleteClusterReq (cu_delete_cluster_request uid))))"

lemma smoke_candidate_name:
  "smoke_candidate cl = Some (name, uid) \<Longrightarrow>
     has_prefix name ''capi-'' \<and> \<not> has_prefix name ''capi-mgmt-'' \<and> (\<exists>m. cl_Metadata cl = Some m \<and> cm_Uid m = Some uid \<and> cm_Name m = name)"
  by (auto simp: smoke_candidate_def split: option.splits if_splits)

lemma tool_sends_smoke_pools:
  "(\<And>pid. P (CceReq (DeleteNodePoolReq uid pid))) \<Longrightarrow> tool_sends P (smoke_pools os c uid ps)"
  by (induction ps) (auto intro!: tool_sends_intros split: option.splits)

lemma tool_sends_smoke_cluster: "cl \<in> set cls \<Longrightarrow> tool_sends (smoke_request cls) (smoke_cluster os c cl n)"
  unfolding smoke_cluster_def
  by (auto intro!: tool_sends_intros tool_sends_smoke_pools split: option.split sum.split)
     (auto simp: smoke_request_def)

text \<open>The clusters the tool was shown.\<close>

definition smoke_listing :: "(history, 'm cloud_scheme, 'z) os_scheme \<Rightarrow> history \<Rightarrow> Cluster list" where
  "smoke_listing os h =
     (case os_NewClient os ''cce'' ''cn-north-4'' (os_Getenv os ''CLOUD_SDK_AK'') (os_Getenv os ''CLOUD_SDK_SK'') of
        Inr c \<Rightarrow> (case ans_ListClusters c (h @ [CceReq ListClustersReq]) of Inr (Some cls) \<Rightarrow> cls | _ \<Rightarrow> [])
      | Inl _ \<Rightarrow> [])"

lemma cleanup_smoke_requests:
  "wp (cleanup_smoke os) (\<lambda>_ s'. extends (smoke_request (smoke_listing os (tl_cloud s))) (tl_cloud s) (tl_cloud s')) s"
proof (cases "os_NewClient os ''cce'' ''cn-north-4'' (os_Getenv os ''CLOUD_SDK_AK'') (os_Getenv os ''CLOUD_SDK_SK'')")
  case (Inr c)
  let ?h = "tl_cloud s @ [CceReq ListClustersReq]"
  let ?s = "s \<lparr> tl_cloud := ?h, tl_now := tl_now s + int (os_CallTime os ?h) \<rparr>"
  show ?thesis
  proof (cases "ans_ListClusters c ?h")
    case (Inl e)
    then show ?thesis
      using Inr by (simp add: cleanup_smoke_def wp_simps extends_def smoke_request_def)
  next
    case (Inr items)
    define cls where "cls = (case items of Some cls \<Rightarrow> cls | None \<Rightarrow> [])"
    have cls: "smoke_listing os (tl_cloud s) = cls"
      using \<open>os_NewClient os _ _ _ _ = Inr c\<close> Inr by (simp add: smoke_listing_def cls_def split: option.splits)
    have "tool_sends (smoke_request cls) (case items of Some cls \<Rightarrow> foldE (smoke_cluster os c) cls 0 | None \<Rightarrow> ok 0)"
      by (auto simp: cls_def intro!: tool_sends_intros tool_sends_smoke_cluster split: option.split)
    then have "tool_sends (smoke_request cls) (tryE (case items of Some cls \<Rightarrow> foldE (smoke_cluster os c) cls 0 | None \<Rightarrow> ok 0)
        (\<lambda>n. if n = 0 then do { _ \<leftarrow> println [''no capi-* clusters'']; ok () } else ok ()))"
      by (intro tool_sends_tryE) (auto intro!: tool_sends_intros)
    then have "wp (tryE (case items of Some cls \<Rightarrow> foldE (smoke_cluster os c) cls 0 | None \<Rightarrow> ok 0)
        (\<lambda>n. if n = 0 then do { _ \<leftarrow> println [''no capi-* clusters'']; ok () } else ok ()))
        (\<lambda>_ s'. extends (smoke_request cls) ?h (tl_cloud s')) ?s"
      using tool_sends_D[of _ _ ?s] by simp
    moreover have "extends (smoke_request cls) (tl_cloud s) ?h"
      by (simp add: extends_def smoke_request_def)
    ultimately have "wp (tryE (case items of Some cls \<Rightarrow> foldE (smoke_cluster os c) cls 0 | None \<Rightarrow> ok 0)
        (\<lambda>n. if n = 0 then do { _ \<leftarrow> println [''no capi-* clusters'']; ok () } else ok ()))
        (\<lambda>_ s'. extends (smoke_request cls) (tl_cloud s) (tl_cloud s')) ?s"
      by (blast intro: wp_mono extends_trans)
    then show ?thesis
      using \<open>os_NewClient os _ _ _ _ = Inr c\<close> Inr unfolding cls cleanup_smoke_def
      by (simp only: wp_tryE wp_new_client sum.case wp_call wp_send)
  qed
qed (simp add: cleanup_smoke_def wp_simps)

text \<open>The smoke-test cleanup deletes nothing but smoke-test clusters. In every run, each request is a lookup or
  the deletion of a cluster or of its node pools, for a cluster the platform listed under a name that starts with
  \<open>capi-\<close> and not with \<open>capi-mgmt-\<close>.\<close>

theorem smoke_cleanup_touches_only_smoke_clusters:
  "wp (cleanup_smoke os) (\<lambda>_ s'. \<exists>new. tl_cloud s' = tl_cloud s @ new \<and>
      list_all (\<lambda>q. is_lookup q \<or> (\<exists>cl \<in> set (smoke_listing os (tl_cloud s)). \<exists>m uid.
         cl_Metadata cl = Some m \<and> cm_Uid m = Some uid \<and>
         has_prefix (cm_Name m) ''capi-'' \<and> \<not> has_prefix (cm_Name m) ''capi-mgmt-'' \<and>
         ((\<exists>pid. q = CceReq (DeleteNodePoolReq uid pid)) \<or> q = CceReq (DeleteClusterReq (cu_delete_cluster_request uid))))) new) s"
  using cleanup_smoke_requests
  by (rule wp_mono) (fastforce simp: extends_def smoke_request_def list_all_iff dest: smoke_candidate_name)

text \<open>The first cluster whose node pools cannot be listed ends the tool: the clusters after it are not deleted.\<close>

lemma smoke_cleanup_stops_at_listing_error:
  assumes "smoke_candidate cl = Some (name, uid)"
    and "ans_ListNodePools c (tl_cloud s @ [CceReq (ListNodePoolsReq uid)]) = Inl err"
  shows "run_state (foldE (smoke_cluster os c) (cl # cls) n) s =
    (Inl nil_deref, s \<lparr> tl_cloud := tl_cloud s @ [CceReq (ListNodePoolsReq uid)],
       tl_now := tl_now s + int (os_CallTime os (tl_cloud s @ [CceReq (ListNodePoolsReq uid)])) \<rparr>)"
  using assms by (simp add: smoke_cluster_def tryE_def fail_def call_def)

text \<open>Any failure of the lookup, a throttled one included, is taken for the end of the resource.\<close>

lemma any_lookup_error_means_gone:
  assumes "ack c (tl_cloud s @ [EipReq (ShowPublicipReq eipID)]) = Inl err"
  shows "fst (run_state (pollEipGone os c eipID) s) = Inr ()"
  using assms
  by (simp add: pollEipGone_def pollUntil_def poll_def poll_rounds_def gone_on_error_def pollTimeout_def minute_def
      second_def tryE_def ok_def fail_def call_def now_def)


end
