(* ===== verification/EgressTools.thy ===== *)
theory EgressTools
  imports Tools
begin

text \<open>
  \<open>hack/nat-egress/main.go\<close>, \<open>hack/bind-eip/main.go\<close> and \<open>hack/create-subnet/main.go\<close>: egress and public
  access for a management cluster. Of the listings the tools print, the gateways and nodes are modelled, the
  SNAT rules and progress lines are not.
\<close>

section \<open>nat-egress\<close>

definition natNamePrefix :: string where "natNamePrefix = ''capi-egress''"
definition eipNamePrefix :: string where "eipNamePrefix = ''capi-egress-eip''"

definition findGatewayByName :: "(history, 'l, 'z) os_scheme \<Rightarrow> 'm cloud_scheme \<Rightarrow> string \<Rightarrow>
    (history tool, SdkNatGateway option) state" where
  "findGatewayByName os c name = do {
     r \<leftarrow> call os (send (NatReq (ListNatGatewaysReq (Some name) None None)) (ans_ListNatGateways c));
     State_Monad.return (case r of Inr (Some (gw # _)) \<Rightarrow> Some gw | _ \<Rightarrow> None) }"

definition ne_createNatGateway :: "(history, 'l, 'z) os_scheme \<Rightarrow> 'm cloud_scheme \<Rightarrow> string \<Rightarrow> string \<Rightarrow> string \<Rightarrow>
    (history, string) prog" where
  "ne_createNatGateway os c name vpcID subnetID =
     tryE (call os (send (NatReq (CreateNatGatewayReq name vpcID subnetID NAT_1 [])) (ans_CreateNatGateway c)))
       (\<lambda>(gid, gw). case gid of
           Some g \<Rightarrow> ok g
         | None \<Rightarrow> (case (case gw of Some g \<Rightarrow> ng_Id g | None \<Rightarrow> None) of
               Some g \<Rightarrow> ok g
             | None \<Rightarrow> fail (PlainErr ''no NAT gateway ID in response'')))"

definition ne_waitNatGatewayActive :: "(history, 'l, 'z) os_scheme \<Rightarrow> 'm cloud_scheme \<Rightarrow> string \<Rightarrow> (history, unit) prog" where
  "ne_waitNatGatewayActive os c gid = tryE
     (poll (5 * minute) (10 * second)
        (tryE (call os (send (NatReq (ShowNatGatewayReq gid)) (ans_ShowNatGateway c))) (\<lambda>resp.
           ok (case resp of Some g \<Rightarrow> if ng_Status g = Some ''ACTIVE'' then Some () else None | None \<Rightarrow> None))))
     (\<lambda>r. case r of Some _ \<Rightarrow> ok () | None \<Rightarrow> fail (PlainErr ''timed out waiting for ACTIVE''))"

definition ne_listSnatRules :: "(history, 'l, 'z) os_scheme \<Rightarrow> 'm cloud_scheme \<Rightarrow> string \<Rightarrow>
    (history tool, SdkSnatRule list) state" where
  "ne_listSnatRules os c gid = do {
     r \<leftarrow> call os (send (NatReq (ListSnatRulesReq gid)) (ans_ListSnatRules c));
     case r of
       Inl err \<Rightarrow> do { _ \<leftarrow> println [''  WARN ListNatGatewaySnatRules: '', os_ErrorText os err]; State_Monad.return [] }
     | Inr None \<Rightarrow> State_Monad.return []
     | Inr (Some rules) \<Rightarrow> State_Monad.return rules }"

definition ensureSnatRuleWithEip :: "(history, 'l, 'z) os_scheme \<Rightarrow> 'm cloud_scheme \<Rightarrow> string \<Rightarrow> string \<Rightarrow> string \<Rightarrow>
    (history, unit) prog" where
  "ensureSnatRuleWithEip os c gid subnetID eipID = do {
     rules \<leftarrow> ne_listSnatRules os c gid;
     if list_ex (\<lambda>r. sn_NetworkId r = subnetID) rules then ok ()
     else wrapE ''CreateNatGatewaySnatRule''
       (call os (send (NatReq (CreateSnatRuleReq gid subnetID 0 eipID)) (ack c))) }"

text \<open>The first rule of the subnet ends the function, whatever rules come after it.\<close>

definition ensureSnatRule :: "(history, 'm cloud_scheme, 'z) os_scheme \<Rightarrow> string \<Rightarrow> string \<Rightarrow> string \<Rightarrow> 'm cloud_scheme \<Rightarrow>
    string \<Rightarrow> string \<Rightarrow> (history, unit) prog" where
  "ensureSnatRule os region ak sk c gid subnetID = do {
     rules \<leftarrow> ne_listSnatRules os c gid;
     if list_ex (\<lambda>r. sn_NetworkId r = subnetID) rules then ok ()
     else case find (\<lambda>r. sn_FloatingIpId r \<noteq> '''') rules of
       Some r \<Rightarrow> ensureSnatRuleWithEip os c gid subnetID (sn_FloatingIpId r)
     | None \<Rightarrow> tryE (new_client os ''eip'' region ak sk) (\<lambda>ec.
         tryE (wrapE ''create EIP'' (CreatePublicIP os ec eipNamePrefix)) (\<lambda>(eipID, _).
           ensureSnatRuleWithEip os c gid subnetID eipID)) }"

definition doCreate :: "(history, 'm cloud_scheme, 'z) os_scheme \<Rightarrow> string \<Rightarrow> string \<Rightarrow> string \<Rightarrow> 'm cloud_scheme \<Rightarrow>
    string \<Rightarrow> string \<Rightarrow> (history, unit) prog" where
  "doCreate os region ak sk natc vpcID subnetID = do {
     let natName = natNamePrefix @ ''-nat'';
     gw \<leftarrow> findGatewayByName os natc natName;
     case (case gw of Some g \<Rightarrow> ng_Id g | None \<Rightarrow> None) of
       Some gid \<Rightarrow> ensureSnatRule os region ak sk natc gid subnetID
     | None \<Rightarrow>
         tryE (new_client os ''eip'' region ak sk) (\<lambda>eipc.
         tryE (wrapE ''create EIP'' (CreatePublicIP os eipc eipNamePrefix)) (\<lambda>(eipID, eipAddr). do {
         _ \<leftarrow> println [''created EIP id='', eipID, '' addr='', eipAddr];
         tryE (wrapE ''create NAT gateway'' (ne_createNatGateway os natc natName vpcID subnetID)) (\<lambda>gwID.
         tryE (wrapE ''wait NAT gateway ACTIVE'' (ne_waitNatGatewayActive os natc gwID)) (\<lambda>_.
         tryE (ensureSnatRuleWithEip os natc gwID subnetID eipID) (\<lambda>_. do {
           _ \<leftarrow> println [''NAT_GATEWAY_ID='', gwID];
           _ \<leftarrow> println [''EIP_ID='', eipID];
           _ \<leftarrow> println [''EIP_ADDRESS='', eipAddr];
           _ \<leftarrow> println [''SUBNET_ID='', subnetID];
           ok () }))) })) }"

definition or_dash :: "string option \<Rightarrow> string" where
  "or_dash p = (case p of Some s \<Rightarrow> s | None \<Rightarrow> ''-'')"

definition doList :: "(history, 'l, 'z) os_scheme \<Rightarrow> 'm cloud_scheme \<Rightarrow> (history, unit) prog" where
  "doList os natc =
     tryE (wrapE ''ListNatGateways'' (call os (send (NatReq (ListNatGatewaysReq None None None)) (ans_ListNatGateways natc))))
       (\<lambda>resp. case resp of
          Some (g # gs) \<Rightarrow> forE (\<lambda>gw. do {
             _ \<leftarrow> println [''gateway id='', or_dash (ng_Id gw), '' name='', or_dash (ng_Name gw), '' status='', or_dash (ng_Status gw)];
             _ \<leftarrow> ne_listSnatRules os natc (or_dash (ng_Id gw));
             ok () }) (g # gs)
        | _ \<Rightarrow> do { _ \<leftarrow> println [''(no NAT gateways)'']; ok () })"

text \<open>\<open>deleteGateway\<close>. The addresses of the rules whose deletion was accepted are collected in a map, which is a
  list without duplicates here; \<open>visit\<close> is the order in which Go ranges over it.\<close>

fun delete_snat_rules :: "(history, 'l, 'z) os_scheme \<Rightarrow> 'm cloud_scheme \<Rightarrow> string \<Rightarrow> SdkSnatRule list \<Rightarrow> string list \<Rightarrow>
    (history tool, string list) state" where
  "delete_snat_rules os c gid [] eips = State_Monad.return eips"
| "delete_snat_rules os c gid (r # rs) eips = do {
     d \<leftarrow> call os (send (NatReq (DeleteSnatRuleReq gid (sn_Id r))) (ack c));
     case d of
       Inl err \<Rightarrow> do { _ \<leftarrow> println [''  WARN delete snat-rule '', sn_Id r, '': '', os_ErrorText os err];
                      delete_snat_rules os c gid rs eips }
     | Inr _ \<Rightarrow> delete_snat_rules os c gid rs (if sn_FloatingIpId r \<noteq> [] then List.insert (sn_FloatingIpId r) eips else eips) }"

definition deletePublicIP :: "(history, 'l, 'z) os_scheme \<Rightarrow> 'm cloud_scheme \<Rightarrow> string \<Rightarrow> (history, unit) prog" where
  "deletePublicIP os c eid = call os (send (EipReq (DeletePublicipReq eid)) (ack c))"

definition release_eips :: "(history, 'l, 'z) os_scheme \<Rightarrow> 'm cloud_scheme \<Rightarrow> string list \<Rightarrow> (history tool, unit) state" where
  "release_eips os c eips = for_each (\<lambda>eid. do {
     d \<leftarrow> deletePublicIP os c eid;
     println (case d of
        Inl err \<Rightarrow> [''  WARN delete EIP '', eid, '': '', os_ErrorText os err]
      | Inr _ \<Rightarrow> [''  deleted EIP id='', eid]) }) eips"

definition finish_gateway :: "(string list \<Rightarrow> string list) \<Rightarrow> (history, 'm cloud_scheme, 'z) os_scheme \<Rightarrow> string \<Rightarrow> string \<Rightarrow> string \<Rightarrow>
    'm cloud_scheme \<Rightarrow> string \<Rightarrow> string list \<Rightarrow> (history, unit) prog" where
  "finish_gateway visit os region ak sk natc gid eips = do {
     _ \<leftarrow> sleep (5 * second);
     d \<leftarrow> call os (send (NatReq (DeleteNatGatewayReq gid)) (ack natc));
     _ \<leftarrow> println (case d of
        Inl err \<Rightarrow> [''WARN DeleteNatGateway: '', os_ErrorText os err]
      | Inr _ \<Rightarrow> [''  NAT gateway id='', gid, '' delete request accepted'']);
     if eips = [] then ok ()
     else do {
       _ \<leftarrow> sleep (5 * second);
       tryE (new_client os ''eip'' region ak sk) (\<lambda>eipc. do { _ \<leftarrow> release_eips os eipc (visit eips); ok () }) } }"

definition deleteGateway :: "(string list \<Rightarrow> string list) \<Rightarrow> (history, 'm cloud_scheme, 'z) os_scheme \<Rightarrow> string \<Rightarrow> string \<Rightarrow> string \<Rightarrow>
    'm cloud_scheme \<Rightarrow> string \<Rightarrow> (history, unit) prog" where
  "deleteGateway visit os region ak sk natc gid = do {
     rules \<leftarrow> ne_listSnatRules os natc gid;
     eips \<leftarrow> delete_snat_rules os natc gid rules [];
     finish_gateway visit os region ak sk natc gid eips }"

definition doDeleteAll :: "(string list \<Rightarrow> string list) \<Rightarrow> (history, 'm cloud_scheme, 'z) os_scheme \<Rightarrow> string \<Rightarrow> string \<Rightarrow> string \<Rightarrow>
    'm cloud_scheme \<Rightarrow> (history, unit) prog" where
  "doDeleteAll visit os region ak sk natc =
     tryE (wrapE ''ListNatGateways'' (call os (send (NatReq (ListNatGatewaysReq None None None)) (ans_ListNatGateways natc))))
       (\<lambda>resp. case resp of
          Some (g # gs) \<Rightarrow> forE (\<lambda>gw. case (ng_Name gw, ng_Id gw) of
             (Some name, Some gid) \<Rightarrow>
               if has_prefix name natNamePrefix then deleteGateway visit os region ak sk natc gid else ok ()
           | _ \<Rightarrow> ok ()) (g # gs)
        | _ \<Rightarrow> do { _ \<leftarrow> println [''(no NAT gateways)'']; ok () })"

definition nat_egress :: "(string list \<Rightarrow> string list) \<Rightarrow> (history, 'm cloud_scheme, 'z) os_scheme \<Rightarrow> string \<Rightarrow> string \<Rightarrow>
    (history, unit) prog" where
  "nat_egress visit os mode gatewayID = (
     let ak = EnvOr (os_Getenv os) [''CCE_DEPLOY_AK'', ''CLOUD_SDK_AK''];
         sk = EnvOr (os_Getenv os) [''CCE_DEPLOY_SK'', ''CLOUD_SDK_SK''];
         region = EnvOr (os_Getenv os) [''CCE_DEPLOY_REGION'', ''cn-north-4''] in
     if ak = [] \<or> sk = []
     then fatal ''CCE_DEPLOY_AK (or CLOUD_SDK_AK) and CCE_DEPLOY_SK (or CLOUD_SDK_SK) must be set''
     else tryE (new_client os ''nat'' region ak sk) (\<lambda>natc.
       if mode = ''create'' then
         (let vpcID = EnvOr (os_Getenv os) [''CCE_DEPLOY_VPC'']; subnetID = EnvOr (os_Getenv os) [''CCE_DEPLOY_SUBNET''] in
          if vpcID = [] \<or> subnetID = [] then fatal ''create mode requires CCE_DEPLOY_VPC and CCE_DEPLOY_SUBNET''
          else doCreate os region ak sk natc vpcID subnetID)
       else if mode = ''list'' then doList os natc
       else if mode = ''delete'' then
         (if gatewayID = [] then fatal ''delete mode requires -id <nat-gateway-id>''
          else deleteGateway visit os region ak sk natc gatewayID)
       else if mode = ''delete-eip'' then
         (if gatewayID = [] then fatal ''delete-eip mode requires -id <eip-id>''
          else tryE (new_client os ''eip'' region ak sk) (\<lambda>eipc.
            wrapE (msgf [''delete EIP '', gatewayID]) (deletePublicIP os eipc gatewayID)))
       else if mode = ''delete-all'' then doDeleteAll visit os region ak sk natc
       else fatal (''unknown mode: '' @ mode)))"

section \<open>create-subnet\<close>

text \<open>\<open>net.ParseCIDR\<close>: the address and the prefix length, which may have leading zeros; zones are rejected.\<close>

definition net_ParseCIDR :: "string \<Rightarrow> (IPAddr \<times> nat) option" where
  "net_ParseCIDR s = (case split2 CHR ''/'' s of
      (addr, Some pl) \<Rightarrow> (case parse_addr addr of
          None \<Rightarrow> None
        | Some ip \<Rightarrow> if pl = [] then None
            else (case dec_value pl 0 of
              Some n \<Rightarrow> if n < 0xFFFFFF \<and> n \<le> addr_bits ip then Some (ip, n) else None
            | None \<Rightarrow> None))
    | (_, None) \<Rightarrow> None)"

text \<open>\<open>To4\<close> of the network address.\<close>

fun net_To4 :: "IPAddr \<Rightarrow> 32 word option" where
  "net_To4 (V4 w) = Some w"
| "net_To4 (V6 w) = (if drop_bit 32 w = 0xFFFF then Some (ucast w) else None)"
| "net_To4 InvalidIP = None"

text \<open>The first host address of a CIDR. The last byte wraps around, as the byte addition of Go does.\<close>

definition next_byte :: "32 word \<Rightarrow> 32 word" where
  "next_byte w = (let n = unat w in word_of_nat (n div 256 * 256 + (n mod 256 + 1) mod 256))"

definition firstHost :: "string \<Rightarrow> go_error + string" where
  "firstHost cidr = (case net_ParseCIDR cidr of
      None \<Rightarrow> Inl (PlainErr ''invalid CIDR address'')
    | Some (ip, n) \<Rightarrow> (case net_To4 (mask_addr n ip) of
        Some w \<Rightarrow> Inr (print4 (next_byte w))
      | None \<Rightarrow> Inl (PlainErr ''only IPv4 is supported'')))"

record subnet_flags =
  suf_vpc :: string
  suf_cidr :: string
  suf_name :: string
  suf_az :: string
  suf_gateway :: string

definition create_subnet_tool :: "(history, 'm cloud_scheme, 'z) os_scheme \<Rightarrow> subnet_flags \<Rightarrow> (history, unit) prog" where
  "create_subnet_tool os f = (
     let ak = EnvOr (os_Getenv os) [''CCE_DEPLOY_AK'', ''CLOUD_SDK_AK''];
         sk = EnvOr (os_Getenv os) [''CCE_DEPLOY_SK'', ''CLOUD_SDK_SK''];
         region = EnvOr (os_Getenv os) [''CCE_DEPLOY_REGION'', ''cn-north-4''] in
     if suf_vpc f = [] then fatal ''-vpc is required''
     else if ak = [] \<or> sk = []
     then fatal ''CCE_DEPLOY_AK (or CLOUD_SDK_AK) and CCE_DEPLOY_SK (or CLOUD_SDK_SK) must be set''
     else case (if suf_gateway f = [] then firstHost (suf_cidr f) else Inr (suf_gateway f)) of
       Inl err \<Rightarrow> fail (WrapErr (msgf [''invalid -cidr '', suf_cidr f]) err)
     | Inr gw \<Rightarrow> tryE (new_client os ''vpc'' region ak sk) (\<lambda>vc.
         tryE (wrapE ''CreateSubnet'' (call os (send (VpcReq (CreateSubnetReq \<lparr> cso_Name = suf_name f, cso_Cidr = suf_cidr f,
              cso_VpcId = suf_vpc f, cso_GatewayIp = gw, cso_AvailabilityZone = Some (suf_az f), cso_PrimaryDns = None,
              cso_SecondaryDns = None, cso_Tags = [] \<rparr>)) (ans_CreateSubnet vc)))) (\<lambda>resp. case resp of
            None \<Rightarrow> fatal ''CreateSubnet returned no subnet''
          | Some sub \<Rightarrow> do {
              _ \<leftarrow> println [''subnet created: name='', ss_Name sub];
              _ \<leftarrow> println [''  id='', ss_Id sub];
              _ \<leftarrow> println [''  neutron_subnet_id='', ss_NeutronSubnetId sub];
              _ \<leftarrow> println [''CCE_E2E_SUBNET_ID='', ss_Id sub];
              ok () })))"

section \<open>bind-eip\<close>

text \<open>\<open>probeHTTPS\<close> is the one effect outside the cloud; its result is only printed.\<close>

record ('c, 'l) probe_os = "('c, 'l) os" +
  os_ProbeHTTPS :: "string \<Rightarrow> int \<Rightarrow> ('c, bool) go"

definition show_endpoints :: "(history, 'l, 'z) os_scheme \<Rightarrow> 'm ops_cloud_scheme \<Rightarrow> string \<Rightarrow> (history, string \<times> string) prog" where
  "show_endpoints os cc clusterID =
     tryE (call os (send (OpsReq (ShowClusterEndpointsReq clusterID)) (ans_ShowClusterEndpoints cc)))
       (\<lambda>st. ok (case st of Some (pri, pub) \<Rightarrow> (str_or_empty pri, str_or_empty pub) | None \<Rightarrow> ([], [])))"

text \<open>The thirty rounds that wait for the public endpoint.\<close>

fun await_endpoint :: "(history, 'l, 'z) os_scheme \<Rightarrow> 'm ops_cloud_scheme \<Rightarrow> string \<Rightarrow> nat \<Rightarrow> (history tool, string) state" where
  "await_endpoint os cc clusterID 0 = State_Monad.return []"
| "await_endpoint os cc clusterID (Suc n) = do {
     _ \<leftarrow> sleep (20 * second);
     r \<leftarrow> show_endpoints os cc clusterID;
     case r of
       Inr (_, pub) \<Rightarrow> if pub \<noteq> [] then State_Monad.return pub else await_endpoint os cc clusterID n
     | Inl err \<Rightarrow> await_endpoint os cc clusterID n }"

definition bind_public :: "(history, 'm ops_cloud_scheme, 'z) os_scheme \<Rightarrow> 'm ops_cloud_scheme \<Rightarrow> string \<Rightarrow> string \<Rightarrow> string \<Rightarrow>
    string \<Rightarrow> (history, string) prog" where
  "bind_public os cc region ak sk clusterID =
     tryE (wrapE ''create EIP'' (new_client os ''eip'' region ak sk)) (\<lambda>eipc.
     tryE (wrapE ''create EIP'' (CreatePublicIP os eipc ''capi-ops-eip'')) (\<lambda>(eipID, eipAddr).
     tryE (wrapE ''UpdateClusterEip(bind)''
        (call os (send (CceReq (UpdateClusterEipReq clusterID BIND (Some eipID))) (ack cc)))) (\<lambda>_. do {
       public \<leftarrow> await_endpoint os cc clusterID 30;
       ok (if public = [] \<and> eipAddr \<noteq> [] then ''https://'' @ eipAddr @ '':5443'' else public) })))"

definition runtimeOf :: "(string option \<times> string option) option \<Rightarrow> string" where
  "runtimeOf r = (case r of None \<Rightarrow> ''-'' | Some (name, cls) \<Rightarrow> or_dash name @ ''/'' @ or_dash cls)"

text \<open>The node report. A response without items is dereferenced all the same.\<close>

definition report_nodes :: "(history, 'l, 'z) os_scheme \<Rightarrow> 'm ops_cloud_scheme \<Rightarrow> string \<Rightarrow> (history, unit) prog" where
  "report_nodes os cc clusterID =
     tryE (wrapE ''ListNodes'' (call os (send (OpsReq (ListAllNodesReq clusterID)) (ans_ListAllNodes cc)))) (\<lambda>items. do {
       _ \<leftarrow> (case items of Some (n # ns) \<Rightarrow> State_Monad.return () | _ \<Rightarrow> println [''(no nodes)'']);
       case items of
         None \<Rightarrow> fail nil_deref
       | Some ns \<Rightarrow> do {
           _ \<leftarrow> for_each (\<lambda>n. println [''node='', or_dash (on_Name n), '' phase='', or_dash (on_Phase n),
                '' runtime='', (case on_Runtime n of None \<Rightarrow> ''-'' | r \<Rightarrow> runtimeOf r), '' os='', or_dash (on_Os n)]) ns;
           _ \<leftarrow> println [if list_all (\<lambda>n. or_dash (on_Phase n) = ''Active'') ns \<and> ns \<noteq> []
                then ''RESULT: all nodes Active -> node container install OK''
                else ''RESULT: node container install NOT fully OK (see phase above)''];
           ok () } })"

definition bind_eip_tool :: "(history, 'm ops_cloud_scheme, 'z) probe_os_scheme \<Rightarrow> string \<Rightarrow> (history, unit) prog" where
  "bind_eip_tool os clusterID = (
     let ak = EnvOr (os_Getenv os) [''CCE_DEPLOY_AK'', ''CLOUD_SDK_AK''];
         sk = EnvOr (os_Getenv os) [''CCE_DEPLOY_SK'', ''CLOUD_SDK_SK''];
         region = EnvOr (os_Getenv os) [''CCE_DEPLOY_REGION'', ''cn-north-4''] in
     if clusterID = [] then fatal ''usage: go run ./hack/bind-eip -cluster <cluster-id>''
     else if ak = [] \<or> sk = []
     then fatal ''CCE_DEPLOY_AK (or CLOUD_SDK_AK) and CCE_DEPLOY_SK (or CLOUD_SDK_SK) must be set''
     else tryE (new_client os ''cce'' region ak sk) (\<lambda>cc.
       tryE (wrapE ''ShowClusterEndpoints'' (show_endpoints os cc clusterID)) (\<lambda>(private, public0).
       tryE (if public0 = [] then bind_public os cc region ak sk clusterID else ok public0) (\<lambda>public1.
         if public1 = [] then fatal ''no public endpoint after bind - check console''
         else let public = (if has_prefix public1 ''http'' then public1 else ''https://'' @ public1) in do {
           _ \<leftarrow> println [''public endpoint: '', public1];
           probe \<leftarrow> call os (os_ProbeHTTPS os public (15 * second));
           _ \<leftarrow> println (case probe of
                Inl err \<Rightarrow> [''probe '', public, '': error (may still be provisioning): '', os_ErrorText os err]
              | Inr reachable \<Rightarrow> [''probe '', public, '': reachable='', if reachable then ''true'' else ''false'']);
           report_nodes os cc clusterID }))))"

section \<open>The default region\<close>

text \<open>The default region of the tools is never used. \<open>EnvOr\<close> takes the names of variables only, so the
  \<open>cn-north-4\<close> the tools pass as a default is the name of a variable: with CCE_DEPLOY_REGION unset they ask
  for the clients of the empty region, and when the SDK refuses it, all three end with an error before any request,
  whatever their flags.\<close>

theorem default_region_is_never_used:
  fixes os :: "(history, 'm ops_cloud_scheme, 'z) probe_os_scheme"
  assumes "os_Getenv os ''CCE_DEPLOY_REGION'' = ''''" and "os_Getenv os ''cn-north-4'' = ''''"
    and "\<And>service ak sk. \<exists>e. os_NewClient os service '''' ak sk = Inl e"
  shows "(\<exists>e. run_state (nat_egress visit os mode gatewayID) s = (Inl e, s)) \<and>
    (\<exists>e. run_state (create_subnet_tool os flags) s = (Inl e, s)) \<and>
    (\<exists>e. run_state (bind_eip_tool os clusterID) s = (Inl e, s))"
proof -
  have region: "EnvOr (os_Getenv os) [''CCE_DEPLOY_REGION'', ''cn-north-4''] = ''''"
    using assms(1,2) by simp
  have client: "\<exists>e. run_state (tryE (new_client os service '''' ak sk) k) s = (Inl e, s)"
    for service ak sk and k :: "'m ops_cloud_scheme \<Rightarrow> (history, unit) prog"
    using assms(3)[of service ak sk] by (auto simp: tryE_def new_client_def fail_def)
  have stop: "\<exists>e. run_state (fatal msg :: (history, unit) prog) s = (Inl e, s)" "\<exists>e. run_state (fail err :: (history, unit) prog) s = (Inl e, s)"
    for msg err by (auto simp: fatal_def fail_def)
  show ?thesis
    unfolding nat_egress_def create_subnet_tool_def bind_eip_tool_def Let_def region
    by (auto intro: client stop simp del: EnvOr.simps split: sum.split)
qed

section \<open>Releasing addresses\<close>

text \<open>The address \<open>eid\<close> belongs to a rule of the gateway whose deletion was accepted within \<open>w\<close>.\<close>

definition freed :: "'m cloud_scheme \<Rightarrow> string \<Rightarrow> SdkSnatRule list \<Rightarrow> history \<Rightarrow> string \<Rightarrow> bool" where
  "freed c gid rules w eid \<longleftrightarrow> eid \<noteq> '''' \<and> (\<exists>r \<in> set rules. sn_FloatingIpId r = eid \<and>
     answered w (NatReq (DeleteSnatRuleReq gid (sn_Id r))) (ack c) (Inr ()))"

lemma freed_mono: "freed c gid rules w eid \<Longrightarrow> freed c gid rules (w @ z) eid"
  unfolding freed_def by (blast intro: answered_mono)

lemma delete_snat_rules_spec:
  assumes "set rs \<subseteq> set rules" and "\<forall>eid \<in> set eips. freed c gid rules (tl_cloud s) eid"
  shows "wp (delete_snat_rules os c gid rs eips) (\<lambda>eips' s'.
    tl_cloud s' = tl_cloud s @ map (\<lambda>r. NatReq (DeleteSnatRuleReq gid (sn_Id r))) rs \<and>
    (\<forall>eid \<in> set eips'. freed c gid rules (tl_cloud s') eid)) s"
  using assms
proof (induction rs arbitrary: eips s)
  case Nil
  then show ?case by (simp add: wp_simps)
next
  case (Cons r rs)
  let ?q = "NatReq (DeleteSnatRuleReq gid (sn_Id r))"
  let ?h = "tl_cloud s @ [?q]"
  have old: "\<forall>eid \<in> set eips. freed c gid rules ?h eid"
    using Cons.prems(2) freed_mono by blast
  have new: "freed c gid rules ?h (sn_FloatingIpId r)" if "ack c ?h = Inr ()" "sn_FloatingIpId r \<noteq> ''''"
    using that Cons.prems(1) answered_now[of "tl_cloud s" ?q "ack c"] by (auto simp: freed_def)
  have sub: "set rs \<subseteq> set rules" using Cons.prems(1) by simp
  show ?case
    by (auto simp: wp_simps old new split: sum.split intro!: wp_mono[OF Cons.IH[OF sub]])
qed

lemma wp_ne_listSnatRules:
  "wp (ne_listSnatRules os c gid) (\<lambda>rules s'. tl_cloud s' = tl_cloud s @ [NatReq (ListSnatRulesReq gid)] \<and>
     rules = (case ans_ListSnatRules c (tl_cloud s @ [NatReq (ListSnatRulesReq gid)]) of Inr (Some rs) \<Rightarrow> rs | _ \<Rightarrow> [])) s"
  by (auto simp: ne_listSnatRules_def wp_simps split: sum.splits option.splits)

lemma release_eips_spec:
  "wp (release_eips os c eips) (\<lambda>_ s'. tl_cloud s' = tl_cloud s @ map (\<lambda>e. EipReq (DeletePublicipReq e)) eips) s"
  unfolding release_eips_def deletePublicIP_def
proof (induction eips arbitrary: s)
  case (Cons e eips)
  show ?case
    by (auto simp: wp_simps deletePublicIP_def intro!: wp_mono[OF Cons.IH])
qed (simp add: wp_simps)

lemma finish_gateway_spec:
  assumes "\<And>xs. set (visit xs) \<subseteq> set xs"
  shows "wp (finish_gateway visit os region ak sk natc gid eips) (\<lambda>_ s'. \<exists>es. set es \<subseteq> set eips \<and>
    tl_cloud s' = tl_cloud s @ NatReq (DeleteNatGatewayReq gid) # map (\<lambda>e. EipReq (DeletePublicipReq e)) es) s"
proof -
  have none: "\<exists>es. set es \<subseteq> set eips \<and> tl_cloud s @ [NatReq (DeleteNatGatewayReq gid)] =
      tl_cloud s @ NatReq (DeleteNatGatewayReq gid) # map (\<lambda>e. EipReq (DeletePublicipReq e)) es"
    by (intro exI[of _ "[]"]) simp
  show ?thesis
    using assms[of eips] none
    by (auto simp: finish_gateway_def wp_simps split: sum.split intro!: wp_mono[OF release_eips_spec])
qed

text \<open>C21: Deleting an egress gateway sends its requests in the order of the dependencies and releases only
  addresses it freed. Started with an empty history, the tool lists the rules, deletes each listed rule once, then the
  gateway, then addresses; every address it releases belongs to a listed rule whose deletion the cloud accepted,
  in whatever order Go ranges over the addresses.\<close>

theorem nat_delete_releases_only_freed:
  assumes "\<And>xs. set (visit xs) \<subseteq> set xs"
    and "rules = (case ans_ListSnatRules natc [NatReq (ListSnatRulesReq gid)] of Inr (Some rs) \<Rightarrow> rs | _ \<Rightarrow> [])"
  shows "wp (deleteGateway visit os region ak sk natc gid) (\<lambda>r s'. \<exists>eips.
      tl_cloud s' = NatReq (ListSnatRulesReq gid) # map (\<lambda>r. NatReq (DeleteSnatRuleReq gid (sn_Id r))) rules @
        NatReq (DeleteNatGatewayReq gid) # map (\<lambda>e. EipReq (DeletePublicipReq e)) eips \<and>
      (\<forall>eid \<in> set eips. freed natc gid rules (tl_cloud s') eid)) \<lparr> tl_cloud = [], tl_now = t, tl_out = lines \<rparr>"
  unfolding deleteGateway_def wp_bind
  by (rule wp_mono[OF wp_ne_listSnatRules], simp add: assms(2)[symmetric],
      rule wp_mono[OF delete_snat_rules_spec[of _ rules]], simp, simp,
      rule wp_mono[OF finish_gateway_spec[OF assms(1)]], auto,
      metis append.assoc append_Cons freed_mono subsetD)


text \<open>A gateway with two rules; the second deletion is refused, so only the first address is released.\<close>

definition egress_cloud :: ops_cloud where
  "egress_cloud = empty_ops_cloud \<lparr>
     ans_ListSnatRules := (\<lambda>_. Inr (Some [\<lparr> sn_Id = ''r1'', sn_NetworkId = ''n1'', sn_FloatingIpId = ''e1'' \<rparr>,
        \<lparr> sn_Id = ''r2'', sn_NetworkId = ''n2'', sn_FloatingIpId = ''e2'' \<rparr>])),
     ack := (\<lambda>h. if last h = NatReq (DeleteSnatRuleReq ''g1'' ''r2'') then Inl (SdkErr 409 '''' ''in use'') else Inr ()) \<rparr>"

definition example_os :: "(history, ops_cloud) probe_os" where
  "example_os = \<lparr> os_Getenv = (\<lambda>k. if k = ''CLOUD_SDK_AK'' \<or> k = ''CLOUD_SDK_SK'' then ''key'' else ''''),
     os_CallTime = (\<lambda>_. 0),
     os_NewClient = (\<lambda>service region ak sk. if region = '''' then Inl (PlainErr ''unexpected empty region'') else Inr egress_cloud),
     os_ErrorText = (\<lambda>_. ''error''), os_ProbeHTTPS = (\<lambda>_ _. ok True) \<rparr>"

theorem default_region_is_never_used_witness:
  "\<exists>e. run_state (bind_eip_tool example_os ''c1'') s = (Inl e, s)"
proof -
  have "os_Getenv example_os ''CCE_DEPLOY_REGION'' = ''''" "os_Getenv example_os ''cn-north-4'' = ''''"
    "\<And>service ak sk. \<exists>e. os_NewClient example_os service '''' ak sk = Inl e"
    by (simp_all add: example_os_def)
  from default_region_is_never_used[OF this] show ?thesis by blast
qed

theorem nat_delete_releases_only_freed_witness:
  "wp (deleteGateway (\<lambda>xs. xs) example_os ''cn-north-4'' ''ak'' ''sk'' egress_cloud ''g1'')
     (\<lambda>_ s'. tl_cloud s' = [NatReq (ListSnatRulesReq ''g1''), NatReq (DeleteSnatRuleReq ''g1'' ''r1''),
        NatReq (DeleteSnatRuleReq ''g1'' ''r2''), NatReq (DeleteNatGatewayReq ''g1''), EipReq (DeletePublicipReq ''e1'')] \<and>
        (\<exists>rules. freed egress_cloud ''g1'' rules (tl_cloud s') ''e1''))
     \<lparr> tl_cloud = [], tl_now = 0, tl_out = [] \<rparr>"
proof -
  have "tl_cloud (snd (run_state (deleteGateway (\<lambda>xs. xs) example_os ''cn-north-4'' ''ak'' ''sk'' egress_cloud ''g1'')
      \<lparr> tl_cloud = [], tl_now = 0, tl_out = [] \<rparr>)) =
    [NatReq (ListSnatRulesReq ''g1''), NatReq (DeleteSnatRuleReq ''g1'' ''r1''),
     NatReq (DeleteSnatRuleReq ''g1'' ''r2''), NatReq (DeleteNatGatewayReq ''g1''), EipReq (DeletePublicipReq ''e1'')]"
    by code_simp
  then show ?thesis
    using nat_delete_releases_only_freed[OF subset_refl refl, of example_os "''cn-north-4''" "''ak''" "''sk''" egress_cloud "''g1''" 0 "[]"]
    by (auto simp: wp_run egress_cloud_def)
qed

section \<open>The first host address\<close>

lemma next_byte_plus:
  assumes "unat w mod 256 \<noteq> 255"
  shows "next_byte w = w + 1"
proof -
  have "unat w mod 256 + 1 < 256"
    using assms mod_less_divisor[of 256 "unat w"] by linarith
  then have sum: "unat w div 256 * 256 + (unat w mod 256 + 1) mod 256 = unat w + 1"
    using div_mult_mod_eq[of "unat w" 256] by simp
  show ?thesis unfolding next_byte_def Let_def sum by simp
qed

lemma keep_high_bit_0:
  assumes "n \<le> 31"
  shows "\<not> bit (keep_high n (w :: 32 word)) 0"
  using assms by (simp add: keep_high_def bit_push_bit_iff)

lemma even_mod_256: "even (m :: nat) \<Longrightarrow> m mod 256 \<noteq> 255"
proof -
  assume "even m"
  then have "even (m mod 256)" by (simp add: dvd_mod_iff)
  then show ?thesis by (metis odd_numeral)
qed

lemma drop_bit_or_1:
  fixes w :: "32 word"
  assumes "0 < j"
  shows "drop_bit j (or w 1) = drop_bit j w"
  using assms by simp

lemma keep_high_even:
  assumes "n \<le> 31"
  shows "even (unat (keep_high n (w :: 32 word)))"
  using keep_high_bit_0[OF assms, of w] bit_unsigned_iff[of "keep_high n w" 0, where 'a = nat] by (simp add: bit_0)

lemma keep_high_plus_1:
  assumes "n \<le> 31"
  shows "keep_high n (w :: 32 word) + 1 = or (keep_high n w) 1"
  using keep_high_bit_0[OF assms, of w] by (intro disjunctive_add) (metis bit_1_iff)

text \<open>The address is in its network, one above the network address, unless the network is a single address.\<close>

lemma firstHost_inside:
  assumes "net_ParseCIDR cidr = Some (V4 w, n)" and "n \<le> 31"
  shows "firstHost cidr = Inr (print4 (keep_high n w + 1)) \<and> same_high n w (keep_high n w + 1)"
proof
  show "firstHost cidr = Inr (print4 (keep_high n w + 1))"
    using assms(1) even_mod_256[OF keep_high_even[OF assms(2), of w]] by (simp add: firstHost_def next_byte_plus)
  have "same_high n (keep_high n w) (keep_high n w + 1)"
    using assms(2) by (simp add: same_high_def keep_high_plus_1 drop_bit_or_1)
  then show "same_high n w (keep_high n w + 1)" by simp
qed


end
