(* ===== verification/MgmtCluster.thy ===== *)
theory MgmtCluster
  imports CleanupTools Lifecycle
begin

text \<open>
  \<open>hack/deploy-mgmt-cluster/main.go\<close>: creating, listing and deleting the management cluster, over the same
  \<open>Service\<close> interface as the provider. What else the tool does outside, running \<open>hack/bind-eip\<close> and writing the
  kubeconfig file, are parameters. The last sections put the management cluster beside the smoke-test cleanup
  and the provider's garbage collector.
\<close>

section \<open>Definitions\<close>

subsection \<open>Environment\<close>

definition mgmtClusterWait :: int where "mgmtClusterWait = 30 * minute"
definition mgmtPoolWait :: int where "mgmtPoolWait = 30 * minute"
definition mgmtPollInterval :: int where "mgmtPollInterval = 15 * second"

text \<open>\<open>os_RunBindEip\<close> runs \<open>go run ./hack/bind-eip -cluster id\<close>, \<open>os_WriteFile\<close> writes a file.\<close>

record ('c, 'l) mgmt_os = "('c, 'l) os" +
  os_RunBindEip :: "string \<Rightarrow> ('c, unit) go"
  os_WriteFile :: "string \<Rightarrow> string \<Rightarrow> ('c, unit) go"

definition splitCSV :: "string \<Rightarrow> string list" where
  "splitCSV s = (if s = [] then [] else filter (\<lambda>t. t \<noteq> []) (map trim_space (split_on CHR '','' s)))"

text \<open>\<open>fmt.Sscanf(v, "%d", &n)\<close> on an \<open>int32\<close>: leading spaces, a sign, digits; what follows is ignored.\<close>

definition sscanf_int32 :: "string \<Rightarrow> int32 option" where
  "sscanf_int32 v = (
     let s = strip_any (filter (\<lambda>p. p \<noteq> [char_of (10 :: nat)]) space_encodings) v;
         (neg, r) = (case s of c # t \<Rightarrow> if c = CHR ''-'' then (True, t) else if c = CHR ''+'' then (False, t) else (False, s)
                     | [] \<Rightarrow> (False, s));
         ds = takeWhile (\<lambda>c. digit_val c \<noteq> None) r in
     case (if ds = [] then None else dec_value ds 0) of
       None \<Rightarrow> None
     | Some n \<Rightarrow> let i = (if neg then - int n else int n) in
         if - (2 ^ 31) \<le> i \<and> i < 2 ^ 31 then Some (word_of_int i) else None)"

definition int32Env :: "(string \<Rightarrow> string) \<Rightarrow> string \<Rightarrow> int32 \<Rightarrow> int32" where
  "int32Env getenv key def =
     (if getenv key \<noteq> [] then case sscanf_int32 (getenv key) of Some n \<Rightarrow> n | None \<Rightarrow> def else def)"

text \<open>\<open>strconv.ParseBool\<close>.\<close>

definition parse_bool :: "string \<Rightarrow> bool option" where
  "parse_bool v =
     (if v \<in> {''1'', ''t'', ''T'', ''true'', ''TRUE'', ''True''} then Some True
      else if v \<in> {''0'', ''f'', ''F'', ''false'', ''FALSE'', ''False''} then Some False
      else None)"

definition envBool :: "(string \<Rightarrow> string) \<Rightarrow> string \<Rightarrow> bool \<Rightarrow> bool" where
  "envBool getenv key def =
     (if getenv key = [] then def else case parse_bool (getenv key) of Some b \<Rightarrow> b | None \<Rightarrow> def)"

definition isTemporary :: "('c, 'l, 'z) os_scheme \<Rightarrow> go_error \<Rightarrow> bool" where
  "isTemporary os err = (let s = os_ErrorText os err in
     contains_sub s ''throttl'' \<or> contains_sub s ''lock'' \<or> contains_sub s ''concurrency'')"

subsection \<open>Waiting\<close>

definition waitForPhase :: "('c, 'l, 'z) os_scheme \<Rightarrow> 'c service \<Rightarrow> string \<Rightarrow> string \<Rightarrow> int \<Rightarrow> int \<Rightarrow> ('c, ClusterInfo) prog" where
  "waitForPhase os svc clusterID want timeout interval = tryE
     (poll timeout interval (do {
        r \<leftarrow> call os (svc_ShowCluster svc clusterID);
        case r of
          Inl err \<Rightarrow> if isTemporary os err then ok None else fail err
        | Inr info \<Rightarrow> ok (if ci_Phase info = want then Some info else None) }))
     (\<lambda>r. case r of Some info \<Rightarrow> ok info
        | None \<Rightarrow> fail (PlainErr (msgf [''cluster '', clusterID, '' not in phase '', want, '' in time''])))"

definition waitForActiveNodeCount :: "('c, 'l, 'z) os_scheme \<Rightarrow> 'c service \<Rightarrow> string \<Rightarrow> string \<Rightarrow> int32 \<Rightarrow> int \<Rightarrow> int \<Rightarrow>
    ('c, unit) prog" where
  "waitForActiveNodeCount os svc clusterID nodePoolID want timeout interval = tryE
     (poll timeout interval (do {
        r \<leftarrow> call os (svc_ListNodePools svc clusterID);
        ok (case r of
          Inr pools \<Rightarrow> if list_ex (\<lambda>p. npi_NodePoolID p = nodePoolID \<and> sint want \<le> sint (npi_ActiveNodeCount p)) pools
                       then Some () else None
        | Inl _ \<Rightarrow> None) }))
     (\<lambda>r. case r of Some _ \<Rightarrow> ok ()
        | None \<Rightarrow> fail (PlainErr (msgf [''node pool '', nodePoolID, '' did not reach the active nodes in time''])))"

text \<open>The two waits of the deletion end without a result, after the timeout as well as before.\<close>

definition waitForNodePoolGone :: "('c, 'l, 'z) os_scheme \<Rightarrow> 'c service \<Rightarrow> string \<Rightarrow> int \<Rightarrow> int \<Rightarrow> ('c, unit) prog" where
  "waitForNodePoolGone os svc clusterID timeout interval = tryE
     (poll timeout interval (do {
        r \<leftarrow> call os (svc_ListNodePools svc clusterID);
        ok (case r of Inl _ \<Rightarrow> Some () | Inr pools \<Rightarrow> if pools = [] then Some () else None) }))
     (\<lambda>_. ok ())"

definition waitForClusterGone :: "('c, 'l, 'z) os_scheme \<Rightarrow> 'c service \<Rightarrow> string \<Rightarrow> int \<Rightarrow> int \<Rightarrow> ('c, unit) prog" where
  "waitForClusterGone os svc clusterID timeout interval = tryE
     (poll timeout interval (do {
        r \<leftarrow> call os (svc_ShowCluster svc clusterID);
        ok (case r of Inl _ \<Rightarrow> Some () | Inr _ \<Rightarrow> None) }))
     (\<lambda>_. ok ())"

subsection \<open>Creating\<close>

definition pool_flavor :: "(string \<Rightarrow> string) \<Rightarrow> string" where
  "pool_flavor getenv = (let flavor = envDefault getenv ''CCE_DEPLOY_MGMT_FLAVOR'' [] in
     if flavor \<noteq> [] then flavor
     else if envDefault getenv ''CCE_DEPLOY_CATEGORY'' ''turbo'' = ''turbo'' then ''c7.large.2'' else ''c6.large.2'')"

text \<open>The pool's own zone and the extension groups of a multi-zone pool, numbered from two.\<close>

definition extension_groups :: "string \<Rightarrow> string list \<Rightarrow> ExtensionScaleGroupInput list" where
  "extension_groups flavor azs = map (\<lambda>(i, a). \<lparr> esg_Name = ''az-'' @ dec_string (i + 2), esg_Flavor = flavor,
     esg_AvailabilityZone = a \<rparr>) (enumerate 0 azs)"

definition pool_zones :: "(string \<Rightarrow> string) \<Rightarrow> string \<Rightarrow> string \<times> ExtensionScaleGroupInput list" where
  "pool_zones getenv flavor = (case splitCSV (EnvOr getenv [''CCE_DEPLOY_MGMT_AZS'']) of
      az # b # azs \<Rightarrow> (az, extension_groups flavor (b # azs))
    | _ \<Rightarrow> (envDefault getenv ''CCE_DEPLOY_AZ'' ''cn-north-4a'', []))"

definition mgmt_pool_input :: "(string \<Rightarrow> string) \<Rightarrow> string \<Rightarrow> CreateNodePoolInput" where
  "mgmt_pool_input getenv clusterID = (let flavor = pool_flavor getenv; (az, groups) = pool_zones getenv flavor in \<lparr>
     cni_ClusterID = clusterID, cni_Name = ''mgmt-pool-0'', cni_Flavor = flavor, cni_OS = ''Huawei Cloud EulerOS 2.0'',
     cni_RootVolumeSize = 40, cni_RootVolumeType = ''GPSSD'', cni_DataVolumes = [\<lparr> nvi_Size = 100, nvi_Type = ''GPSSD'' \<rparr>],
     cni_SSHKey = EnvOr getenv [''CCE_DEPLOY_KEYPAIR''], cni_AvailabilityZone = az,
     cni_InitialNodeCount = int32Env getenv ''CCE_DEPLOY_MGMT_NODES'' 2, cni_BillingMode = 0, cni_Spot = False,
     cni_SpotPrice = [], cni_ExtensionScaleGroups = groups, cni_Taints = [], cni_Labels = [], cni_SecurityGroups = [],
     cni_CustomSecurityGroups = [], cni_Autoscaling = None, cni_ClusterName = [], cni_Tags = [], cni_EcsGroupID = [],
     cni_FaultDomain = [], cni_DedicatedHostID = [], cni_PreInstall = [], cni_PostInstall = [],
     cni_WaitPostInstallFinish = None, cni_PublicIP = envBool getenv ''CCE_DEPLOY_PUBLIC_NODES'' True,
     cni_PublicIPBandwidthSize = int32Env getenv ''CCE_DEPLOY_PUBLIC_NODES_BANDWIDTH'' 5, cni_PublicIPShareType = [],
     cni_PublicIPChargeMode = [] \<rparr>)"

definition createPool :: "('c, 'l, 'z) mgmt_os_scheme \<Rightarrow> 'c service \<Rightarrow> string \<Rightarrow> string \<Rightarrow> ('c, unit) prog" where
  "createPool os svc clusterID kubeconfigPath = (let input = mgmt_pool_input (os_Getenv os) clusterID in
     if cni_SSHKey input = [] then fatal ''CCE_DEPLOY_KEYPAIR is required to create a node pool''
     else tryE (wrapE ''CreateNodePool'' (RetryThrottled 5 (call os (svc_CreateNodePool svc input)))) (\<lambda>poolID.
       tryE (wrapE ''node pool did not reach the active nodes''
          (waitForActiveNodeCount os svc clusterID poolID (cni_InitialNodeCount input) mgmtPoolWait mgmtPollInterval)) (\<lambda>_.
       tryE (wrapE ''GetClusterKubeconfig'' (call os (svc_GetClusterKubeconfig svc clusterID 30))) (\<lambda>kube.
       tryE (wrapE ''write kubeconfig'' (call os (os_WriteFile os kubeconfigPath kube))) (\<lambda>_. do {
         _ \<leftarrow> println [''MGMT_CLUSTER_ID='', clusterID];
         _ \<leftarrow> println [''MGMT_POOL_ID='', poolID];
         ok () })))))"

definition categoryName :: "string \<Rightarrow> string" where
  "categoryName category = (if category = ''turbo'' then ''Turbo'' else ''CCE'')"

text \<open>The name carries the seconds of the clock, modulo 100000.\<close>

definition mgmt_name :: "int \<Rightarrow> string" where
  "mgmt_name t = ''capi-mgmt-'' @ dec_string (nat (t div second mod 100000))"

definition mgmt_cluster_input :: "(string \<Rightarrow> string) \<Rightarrow> int \<Rightarrow> CreateClusterInput" where
  "mgmt_cluster_input getenv t = (let category = envDefault getenv ''CCE_DEPLOY_CATEGORY'' ''turbo''; turbo = (category = ''turbo'') in \<lparr>
     cci_Name = mgmt_name t, cci_Category = categoryName category, cci_Flavor = ''cce.s1.small'',
     cci_Version = EnvOr getenv [''CCE_DEPLOY_K8S_VERSION'', []],
     cci_ContainerNetworkMode = (if turbo then ''eni'' else ''vpc-router''),
     cci_ContainerNetworkCIDR = (if turbo then [] else envDefault getenv ''CCE_DEPLOY_CONTAINER_CIDR'' ''10.244.0.0/16''),
     cci_ContainerNetworkCIDRs = [],
     cci_ENISubnets = (if turbo then splitCSV (EnvOr getenv [''CCE_DEPLOY_ENI_SUBNET'']) else []),
     cci_HostNetworkVpcID = EnvOr getenv [''CCE_DEPLOY_VPC''], cci_HostNetworkSubnetID = EnvOr getenv [''CCE_DEPLOY_SUBNET''],
     cci_ServiceCIDR = envDefault getenv ''CCE_DEPLOY_SERVICE_CIDR'' ''10.247.0.0/16'', cci_ServiceIPv6CIDR = [],
     cci_Ipv6Enable = None, cci_EnableAutopilot = None, cci_CustomSAN = [],
     cci_PublicAccess = envBool getenv ''CCE_DEPLOY_PUBLIC'' True,
     cci_PublicAccessCIDRs = splitCSV (EnvOr getenv [''CCE_DEPLOY_PUBLIC_CIDRS'']), cci_AgencyName = [], cci_BillingMode = 0,
     cci_EnableDataPlaneV2 = False, cci_Tags = [], cci_EncryptionConfig = None, cci_Authentication = None \<rparr>)"

definition createMgmtCluster :: "('c, 'l, 'z) mgmt_os_scheme \<Rightarrow> 'c service \<Rightarrow> string \<Rightarrow> ('c, unit) prog" where
  "createMgmtCluster os svc kubeconfigPath = do {
     t \<leftarrow> now;
     let input = mgmt_cluster_input (os_Getenv os) t;
     if cci_HostNetworkVpcID input = [] \<or> cci_HostNetworkSubnetID input = [] \<or> EnvOr (os_Getenv os) [''CCE_DEPLOY_KEYPAIR''] = []
     then fatal ''CCE_DEPLOY_VPC, CCE_DEPLOY_SUBNET and CCE_DEPLOY_KEYPAIR are required to create''
     else if cci_ContainerNetworkMode input = ''eni'' \<and> cci_ENISubnets input = []
     then fatal ''CCE_DEPLOY_ENI_SUBNET is required when CCE_DEPLOY_CATEGORY=turbo''
     else tryE (wrapE ''CreateCluster'' (RetryThrottled 5 (call os (svc_CreateCluster svc input)))) (\<lambda>cid.
       tryE (wrapE ''cluster did not become Available''
          (waitForPhase os svc cid ''Available'' mgmtClusterWait mgmtPollInterval)) (\<lambda>info. do {
         _ \<leftarrow> (if cci_PublicAccess input then ignoreE (call os (os_RunBindEip os cid)) else State_Monad.return ());
         createPool os svc cid kubeconfigPath })) }"

subsection \<open>Listing and deleting\<close>

definition mgmt_listClusters :: "('c, 'l, 'z) os_scheme \<Rightarrow> 'c service \<Rightarrow> ('c, unit) prog" where
  "mgmt_listClusters os svc = tryE (wrapE ''ListClusters'' (call os (svc_ListClusters svc))) (\<lambda>refs.
     if refs = [] then do { _ \<leftarrow> println [''(no clusters)'']; ok () }
     else do { _ \<leftarrow> for_each (\<lambda>r. println [clr_ClusterID r, [char_of (9 :: nat)], clr_Name r]) refs; ok () })"

definition mgmt_deleteCluster :: "('c, 'l, 'z) os_scheme \<Rightarrow> 'c service \<Rightarrow> string \<Rightarrow> ('c, unit) prog" where
  "mgmt_deleteCluster os svc cid =
     tryE (wrapE (msgf [''ListNodePools('', cid, '')'']) (call os (svc_ListNodePools svc cid))) (\<lambda>pools.
     tryE (forE (\<lambda>p. wrapE (msgf [''DeleteNodePool('', npi_NodePoolID p, '')''])
             (call os (svc_DeleteNodePool svc cid (npi_NodePoolID p)))) pools) (\<lambda>_.
     tryE (if pools \<noteq> [] then waitForNodePoolGone os svc cid mgmtPoolWait mgmtPollInterval else ok ()) (\<lambda>_.
     tryE (wrapE ''DeleteCluster'' (call os (svc_DeleteCluster svc \<lparr> dci_ClusterID = cid, dci_DeleteEVS = True,
             dci_DeleteENI = True, dci_DeleteELB = True, dci_OnDemandNodePolicy = ''delete'', dci_PeriodicNodePolicy = ''reset'' \<rparr>))) (\<lambda>_.
     tryE (waitForClusterGone os svc cid mgmtClusterWait mgmtPollInterval) (\<lambda>_. do {
       _ \<leftarrow> println [''cluster '', cid, '' deleted''];
       ok () })))))"

definition deleteAllClusters :: "('c, 'l, 'z) os_scheme \<Rightarrow> 'c service \<Rightarrow> ('c, unit) prog" where
  "deleteAllClusters os svc = tryE (wrapE ''ListClusters'' (call os (svc_ListClusters svc))) (\<lambda>refs.
     if refs = [] then do { _ \<leftarrow> println [''no clusters to delete'']; ok () }
     else forE (\<lambda>r. mgmt_deleteCluster os svc (clr_ClusterID r)) refs)"

record mgmt_flags =
  mgf_cluster :: string
  mgf_list :: bool
  mgf_delete :: bool
  mgf_deleteAll :: bool
  mgf_pool :: bool
  mgf_kubeconfig :: string

definition deploy_mgmt_cluster :: "('c, 'c service, 'z) mgmt_os_scheme \<Rightarrow> mgmt_flags \<Rightarrow> ('c, unit) prog" where
  "deploy_mgmt_cluster os f = (
     let ak = EnvOr (os_Getenv os) [''CCE_DEPLOY_AK'', ''CLOUD_SDK_AK''];
         sk = EnvOr (os_Getenv os) [''CCE_DEPLOY_SK'', ''CLOUD_SDK_SK''];
         region = envDefault (os_Getenv os) ''CCE_DEPLOY_REGION'' ''cn-north-4'' in
     if ak = [] \<or> sk = []
     then fatal ''CCE_DEPLOY_AK (or CLOUD_SDK_AK) and CCE_DEPLOY_SK (or CLOUD_SDK_SK) must be set''
     else tryE (wrapE ''NewClient'' (new_client os ''cce'' region ak sk)) (\<lambda>svc.
       if mgf_list f then mgmt_listClusters os svc
       else if mgf_delete f then
         (if mgf_cluster f = [] then fatal ''-delete requires -cluster <id>'' else mgmt_deleteCluster os svc (mgf_cluster f))
       else if mgf_deleteAll f then deleteAllClusters os svc
       else if mgf_pool f then
         (if mgf_cluster f = [] then fatal ''-pool requires -cluster <id>'' else createPool os svc (mgf_cluster f) (mgf_kubeconfig f))
       else createMgmtCluster os svc (mgf_kubeconfig f)))"

section \<open>What the creation asks for\<close>

text \<open>The other effects of the tool send no create and no delete of a cluster.\<close>

definition quiet_os :: "(history, 'l, 'z) mgmt_os_scheme \<Rightarrow> bool" where
  "quiet_os os \<longleftrightarrow> (\<forall>cid. sends quiet_request (os_RunBindEip os cid)) \<and> (\<forall>p k. sends quiet_request (os_WriteFile os p k))"

lemma tool_sends_createPool:
  assumes "quiet_os os"
  shows "tool_sends (normal_request n ts) (createPool os (client_service fuel cd s) cid path)"
proof -
  have pools: "sends (normal_request n ts) (CreateNodePool s i)" "sends (normal_request n ts) (ListNodePools s c)" for i c
    by (auto simp: quiet_normal CreateNodePool_def ListNodePools_def findNodePoolIDByName_def Let_def
        intro!: sends_intros split: sum.splits)
  have written: "sends (normal_request n ts) (os_WriteFile os p k)" for p k
    using assms by (auto simp: quiet_os_def intro: sends_mono quiet_normal)
  have kube: "sends (normal_request n ts) (GetClusterKubeconfig cd s c 30)" for c
    using cs.cluster(4)[of n ts _ fuel cd s c 30] by (simp add: client_service_def sends_def)
  show ?thesis
    unfolding createPool_def waitForActiveNodeCount_def Let_def
    by (auto simp: client_service_def intro!: tool_sends_intros tool_sends_run pools written kube split: option.split)
qed

lemma createMgmtCluster_requests:
  assumes "quiet_os os"
  shows "wp (createMgmtCluster os (client_service fuel cd s) path)
    (\<lambda>_ st'. extends (normal_request (mgmt_name (tl_now st)) []) (tl_cloud st) (tl_cloud st')) st"
proof -
  let ?P = "normal_request (mgmt_name (tl_now st)) []" and ?in = "mgmt_cluster_input (os_Getenv os) (tl_now st)"
  have create: "sends ?P (CreateCluster s ?in)"
    using sends_CreateCluster[of ?in s] by (simp add: mgmt_cluster_input_def Let_def)
  have shown: "sends ?P (ShowCluster s c)" for c
    using cs.cluster(1)[of "mgmt_name (tl_now st)" "[]" _ fuel cd s c] by (simp add: client_service_def sends_def)
  have bound: "sends ?P (os_RunBindEip os c)" for c
    using assms by (auto simp: quiet_os_def intro: sends_mono quiet_normal)
  show ?thesis
    unfolding createMgmtCluster_def wp_bind wp_now Let_def waitForPhase_def
    by (rule tool_sends_D)
      (auto simp: client_service_def intro!: tool_sends_intros tool_sends_run tool_sends_createPool[OF assms, unfolded client_service_def]
         create shown bound split: option.split sum.split)
qed


section \<open>The garbage collector takes the management cluster for a leftover\<close>

lemma mgmt_name_nonempty: "mgmt_name t \<noteq> ''''"
  by (simp add: mgmt_name_def)

lemma mgmt_name_prefix: "has_prefix (mgmt_name t) ''capi-mgmt-''"
  by (simp add: mgmt_name_def has_prefix_def)

lemma smoke_spares_mgmt: "cl_Metadata cl = Some m \<Longrightarrow> cm_Name m = mgmt_name t \<Longrightarrow> smoke_candidate cl = None"
  by (simp add: smoke_candidate_def mgmt_name_prefix split: option.split)

text \<open>C8: The garbage collector deletes the management cluster. Every cluster body the tool sends carries the
  provider's ownership tag of its own name \<open>capi-mgmt-N\<close>. Whatever order the platform reports the tags in, a
  sweep over Cluster objects none of which has that name deletes the cluster, although the cleanup of the
  smoke-test clusters spares it by its name.\<close>

theorem management_cluster_is_swept:
  assumes "quiet_os os"
    and "run_state (createMgmtCluster os (client_service fuel cd s) path) st = (r, st')"
    and "tl_cloud st' = tl_cloud st @ new" "CceReq (CreateClusterReq cl) \<in> set new"
    and "set (clr_Tags c) = set (tag_pairs cl)"
    and "\<forall>cr \<in> set items. ccr_Name cr \<noteq> mgmt_name (tl_now st)"
  shows "sweep_cluster svc (wanted_index items []) c = ignoreE (svc_DeleteCluster svc (gc_delete_input (clr_ClusterID c)))
    \<and> smoke_candidate cl = None"
proof -
  let ?n = "mgmt_name (tl_now st)"
  have "extends (normal_request ?n []) (tl_cloud st) (tl_cloud st')"
    using createMgmtCluster_requests[OF assms(1), of fuel cd s path st] assms(2) by (simp add: wp_run)
  then have "normal_request ?n [] (CceReq (CreateClusterReq cl))"
    using assms(3,4) by (auto simp: extends_def list_all_iff)
  then have named: "names_cluster ?n [] cl" by (simp add: normal_request_def)
  have "OwnedClusterName (clr_Tags c) = ?n"
    using created_owner[OF named assms(5)] by simp
  then have "orphan (wanted_index items []) (clr_Tags c)"
    using assms(6) mgmt_name_nonempty[of "tl_now st"] by (auto simp: orphan_def Let_def wanted_index_iff)
  moreover have "smoke_candidate cl = None"
    using named by (auto simp: names_cluster_def intro: smoke_spares_mgmt)
  ultimately show ?thesis by (simp add: sweep_cluster_orphan)
qed

definition mgmt_cloud :: cloud where
  "mgmt_cloud = empty_cloud \<lparr>
     ans_CreateCluster := (\<lambda>_. Inr \<lparr> cl_Metadata = Some \<lparr> cm_Uid = Some ''m1'', cm_Name = ''capi-mgmt-7'' \<rparr>,
        cl_Spec = None, cl_Status = None \<rparr>),
     ans_ShowCluster := (\<lambda>_. Inl (PlainErr ''unavailable'')) \<rparr>"

definition mgmt_example_os :: "(history, history service) mgmt_os" where
  "mgmt_example_os = \<lparr> os_Getenv = (\<lambda>k. if k = ''CCE_DEPLOY_CATEGORY'' then ''cce'' else if k = ''CCE_DEPLOY_VPC'' then ''v1''
        else if k = ''CCE_DEPLOY_SUBNET'' then ''s1'' else if k = ''CCE_DEPLOY_KEYPAIR'' then ''k1'' else ''''),
     os_CallTime = (\<lambda>_. 0), os_NewClient = (\<lambda>_ _ _ _. Inl (PlainErr ''unused'')), os_ErrorText = (\<lambda>_. ''error''),
     os_RunBindEip = (\<lambda>_. ok ()), os_WriteFile = (\<lambda>_ _. ok ()) \<rparr>"

definition mgmt_body :: Cluster where
  "mgmt_body = projr (buildCreateClusterRequest (mgmt_cluster_input (os_Getenv mgmt_example_os) (7 * second)))"

definition mgmt_ref :: ClusterRef where
  "mgmt_ref = \<lparr> clr_ClusterID = ''m1'', clr_Name = ''capi-mgmt-7'',
     clr_Tags = [(OwnedTagKey ''capi-mgmt-7'', ''owned''), (RoleTagKey, RoleApiserver)] \<rparr>"

theorem management_cluster_is_swept_witness:
  "sweep_cluster (client_service 1 example_codec (example_client mgmt_cloud)) (wanted_index [] []) mgmt_ref =
     ignoreE (svc_DeleteCluster (client_service 1 example_codec (example_client mgmt_cloud)) (gc_delete_input ''m1'')) \<and>
   smoke_candidate mgmt_body = None"
proof -
  let ?st = "\<lparr> tl_cloud = [], tl_now = 7 * second, tl_out = [] \<rparr>"
  let ?run = "run_state (createMgmtCluster mgmt_example_os (client_service 1 example_codec (example_client mgmt_cloud)) ''k'') ?st"
  have sent: "tl_cloud (snd ?run) = tl_cloud ?st @ [CceReq (CreateClusterReq mgmt_body), CceReq (ShowClusterReq ''m1'')]"
    by code_simp
  have tags: "set (clr_Tags mgmt_ref) = set (tag_pairs mgmt_body)" by code_simp
  have quiet: "quiet_os mgmt_example_os" by (simp add: quiet_os_def mgmt_example_os_def sends_intros)
  show ?thesis
    using management_cluster_is_swept[OF quiet prod.collapse[symmetric] sent _ tags, of "[]"
        "client_service 1 example_codec (example_client mgmt_cloud)"]
    by (simp add: mgmt_ref_def)
qed

end
