(* ===== verification/DeployTools.thy ===== *)
theory DeployTools
  imports Tools CpController
begin

text \<open>
  The tools under \<open>hack/\<close> that set up a test environment: \<open>deploy-network\<close> (VPC, subnets, key pair and
  flavor), \<open>deploy-bastion\<close> (a jump host with SSH access) and \<open>swr-login\<close> (a registry login). Outside the
  cloud the tools touch the local disk (\<open>os_FileExists\<close>, \<open>os_WriteKey\<close>) and rely on the order in which
  \<open>sort.Slice\<close> leaves equal elements (\<open>os_Sort\<close>); the quoting of printed values (\<open>%q\<close>) is the parameter
  \<open>os_Quote\<close>.
\<close>

section \<open>deploy-network\<close>

record ('c, 'l) deploy_os = "('c, 'l) os" +
  os_Sort :: "(EcsFlavor \<Rightarrow> EcsFlavor \<Rightarrow> bool) \<Rightarrow> EcsFlavor list \<Rightarrow> EcsFlavor list"
  os_Quote :: "string \<Rightarrow> string"
  os_FileExists :: "string \<Rightarrow> ('c, bool) state"
  os_WriteKey :: "string \<Rightarrow> string \<Rightarrow> ('c, unit) go"

definition vpcName :: string where "vpcName = ''capi-vpc''"
definition subnetNode :: string where "subnetNode = ''capi-subnet-node''"
definition subnetENI :: string where "subnetENI = ''capi-subnet-eni''"
definition keypairName :: string where "keypairName = ''capi-node-key''"
definition vpcCIDR :: string where "vpcCIDR = ''10.0.0.0/16''"

definition mustID :: "string \<Rightarrow> string \<Rightarrow> ('c, string) prog" where
  "mustID i kind = (if i = [] then fatal (msgf [''create '', kind, '' returned no id'']) else ok i)"

text \<open>The searches by name: a failed listing finds nothing.\<close>

definition findVPCByName :: "(history, 'l, 'z) os_scheme \<Rightarrow> 'm cloud_scheme \<Rightarrow> string \<Rightarrow> (history tool, string) state" where
  "findVPCByName os vc name = do {
     r \<leftarrow> call os (send (VpcReq (ListVpcsReq None None None)) (ans_ListVpcs vc));
     State_Monad.return (case r of
       Inr (Some vpcs) \<Rightarrow> (case find (\<lambda>v. sv_Name v = name) vpcs of Some v \<Rightarrow> sv_Id v | None \<Rightarrow> [])
     | _ \<Rightarrow> []) }"

definition findSubnetByName :: "(history, 'l, 'z) os_scheme \<Rightarrow> 'm cloud_scheme \<Rightarrow> string \<Rightarrow> string \<Rightarrow> (history tool, string) state" where
  "findSubnetByName os vc vpcID name = do {
     r \<leftarrow> call os (send (VpcReq (ListSubnetsReq vpcID)) (ans_ListSubnets vc));
     State_Monad.return (case r of
       Inr (Some subs) \<Rightarrow> (case find (\<lambda>s. ss_Name s = name) subs of Some s \<Rightarrow> ss_Id s | None \<Rightarrow> [])
     | _ \<Rightarrow> []) }"

text \<open>The loop assigns at every match: the last subnet of a name wins.\<close>

definition neutronSubnetIDs :: "(history, 'l, 'z) os_scheme \<Rightarrow> 'm cloud_scheme \<Rightarrow> string \<Rightarrow> (history tool, string \<times> string) state" where
  "neutronSubnetIDs os vc vpcID = do {
     r \<leftarrow> call os (send (VpcReq (ListSubnetsReq vpcID)) (ans_ListSubnets vc));
     State_Monad.return (case r of
       Inr (Some subs) \<Rightarrow> fold (\<lambda>s (node, eni). if ss_Name s = subnetNode then (ss_NeutronSubnetId s, eni)
           else if ss_Name s = subnetENI then (node, ss_NeutronSubnetId s) else (node, eni)) subs ([], [])
     | _ \<Rightarrow> ([], [])) }"

text \<open>The gateway is the CIDR up to its last dot and \<open>.1\<close>; a CIDR without a dot ends the program (slice bounds).\<close>

definition dn_gateway :: "string \<Rightarrow> string option" where
  "dn_gateway cidr = (case split_last CHR ''.'' cidr of Some (a, _) \<Rightarrow> Some (a @ ''.1'') | None \<Rightarrow> None)"

definition dn_createSubnet :: "(history, 'l, 'z) os_scheme \<Rightarrow> 'm cloud_scheme \<Rightarrow> string \<Rightarrow> string \<Rightarrow> string \<Rightarrow> (history, string) prog" where
  "dn_createSubnet os vc vpcID name cidr = (case dn_gateway cidr of
      None \<Rightarrow> fail (PlainErr ''panic: slice bounds out of range'')
    | Some gw \<Rightarrow>
        tryE (wrapE (msgf [''CreateSubnet '', name]) (RetryThrottled 3 (call os (send (VpcReq (CreateSubnetReq \<lparr> cso_Name = name,
            cso_Cidr = cidr, cso_VpcId = vpcID, cso_GatewayIp = gw, cso_AvailabilityZone = None,
            cso_PrimaryDns = Some ''100.125.1.250'', cso_SecondaryDns = Some ''100.125.129.250'', cso_Tags = [] \<rparr>))
            (ans_CreateSubnet vc))))) (\<lambda>resp. case resp of
          None \<Rightarrow> fail nil_deref
        | Some s \<Rightarrow> mustID (ss_Id s) ''subnet''))"

text \<open>\<open>strconv.Atoi\<close> with its error dropped: 0 for a syntax error, the nearest value for one out of range.\<close>

definition atoi_value :: "string \<Rightarrow> int" where
  "atoi_value s = (case atoi s of
      Some n \<Rightarrow> n
    | None \<Rightarrow> (let (neg, ds) = (case s of c # r \<Rightarrow> if c = CHR ''-'' then (True, r) else if c = CHR ''+'' then (False, r) else (False, s)
                                 | [] \<Rightarrow> (False, s)) in
        if ds = [] \<or> dec_value ds 0 = None then 0 else if neg then - (2 ^ 63) else 2 ^ 63 - 1))"

definition flavor_eligible :: "EcsFlavor \<Rightarrow> bool" where
  "flavor_eligible f \<longleftrightarrow> \<not> (atoi_value (ef_Vcpus f) < 2 \<or> sint (ef_Ram f) < 4096) \<and>
     (case ef_SubEni f of Some (Some q) \<Rightarrow> 0 < atoi_value q | _ \<Rightarrow> False)"

definition flavor_less :: "EcsFlavor \<Rightarrow> EcsFlavor \<Rightarrow> bool" where
  "flavor_less a b = (let va = atoi_value (ef_Vcpus a); vb = atoi_value (ef_Vcpus b) in
     if va \<noteq> vb then va < vb else sint (ef_Ram a) < sint (ef_Ram b))"

definition preferred_families :: "string list" where
  "preferred_families = [''c7.'', ''c7n.'', ''c6ne.'', ''c7t.'', ''s7.'', ''ac7.'', ''e7.'', ''t6.'', ''c6.'', ''s6.'']"

text \<open>The outer loop is over the families, the inner one over the candidates.\<close>

fun first_of_family :: "string list \<Rightarrow> EcsFlavor list \<Rightarrow> EcsFlavor option" where
  "first_of_family [] cs = None"
| "first_of_family (p # ps) cs = (case find (\<lambda>f. has_prefix (ef_Id f) p) cs of
     Some f \<Rightarrow> Some f | None \<Rightarrow> first_of_family ps cs)"

definition pick_flavor :: "((EcsFlavor \<Rightarrow> EcsFlavor \<Rightarrow> bool) \<Rightarrow> EcsFlavor list \<Rightarrow> EcsFlavor list) \<Rightarrow> EcsFlavor list \<Rightarrow> EcsFlavor option" where
  "pick_flavor srt flavors = (case srt flavor_less (filter flavor_eligible flavors) of
      [] \<Rightarrow> None
    | c # cs \<Rightarrow> (case first_of_family preferred_families (c # cs) of Some f \<Rightarrow> Some f | None \<Rightarrow> Some c))"

definition cheapestFlavor :: "(history, 'l, 'z) deploy_os_scheme \<Rightarrow> 'm ops_cloud_scheme \<Rightarrow> (history, EcsFlavor) prog" where
  "cheapestFlavor os ec =
     tryE (call os (send (OpsReq ListFlavorsReq) (ans_ListFlavors ec))) (\<lambda>resp.
       case pick_flavor (os_Sort os) (case resp of Some fs \<Rightarrow> fs | None \<Rightarrow> []) of
         Some f \<Rightarrow> ok f
       | None \<Rightarrow> fail (PlainErr ''no 2C4G Turbo-capable flavor found''))"

definition ensure_dn_vpc :: "(history, 'l, 'z) os_scheme \<Rightarrow> 'm cloud_scheme \<Rightarrow> (history, string) prog" where
  "ensure_dn_vpc os vc = do {
     found \<leftarrow> findVPCByName os vc vpcName;
     if found \<noteq> [] then ok found
     else tryE (wrapE ''CreateVpc'' (RetryThrottled 3 (call os (send (VpcReq (CreateVpcReq (Some vpcName) (Some vpcCIDR) None []))
            (ans_CreateVpc vc))))) (\<lambda>resp. case resp of
              None \<Rightarrow> fail nil_deref
            | Some v \<Rightarrow> mustID (sv_Id v) ''vpc'') }"

definition ensure_dn_subnet :: "(history, 'l, 'z) os_scheme \<Rightarrow> 'm cloud_scheme \<Rightarrow> string \<Rightarrow> string \<Rightarrow> string \<Rightarrow> (history, string) prog" where
  "ensure_dn_subnet os vc vpcID name cidr = do {
     found \<leftarrow> findSubnetByName os vc vpcID name;
     if found \<noteq> [] then ok found else dn_createSubnet os vc vpcID name cidr }"

text \<open>The key pair is created unless the listing shows it; a failed listing counts as not shown.\<close>

definition ensure_keypair :: "(history, 'l, 'z) os_scheme \<Rightarrow> 'm ops_cloud_scheme \<Rightarrow> (history, unit) prog" where
  "ensure_keypair os ec = do {
     r \<leftarrow> call os (send (OpsReq NovaListKeypairsReq) (ans_NovaListKeypairs ec));
     if (case r of Inr (Some ks) \<Rightarrow> Some keypairName \<in> set ks | _ \<Rightarrow> False)
     then do { _ \<leftarrow> println [''Keypair: '', keypairName, '' (exists)'']; ok () }
     else tryE (wrapE ''CreateKeypair'' (RetryThrottled 3 (call os (send (OpsReq (NovaCreateKeypairReq keypairName))
            (ans_NovaCreateKeypair ec))))) (\<lambda>_. do { _ \<leftarrow> println [''Keypair: '', keypairName, '' (created)'']; ok () }) }"

definition print_exports :: "(string \<Rightarrow> string) \<Rightarrow> string \<Rightarrow> string \<Rightarrow> string \<Rightarrow> string \<Rightarrow> string \<Rightarrow> EcsFlavor option \<Rightarrow>
    ('c tool, unit) state" where
  "print_exports q region vpcID nodeSubnetID eniSubnetID eniNeutron flavor = do {
     _ \<leftarrow> println [[char_of (10 :: nat)], ''--- export for the deploy guide (stage 1) ---''];
     _ \<leftarrow> println [''export CCE_DEPLOY_REGION='', q region];
     _ \<leftarrow> println [''export CCE_DEPLOY_VPC='', q vpcID];
     _ \<leftarrow> println [''export CCE_DEPLOY_SUBNET='', q nodeSubnetID];
     _ \<leftarrow> println [''export CCE_DEPLOY_ENI_SUBNET='', q (if eniNeutron \<noteq> [] then eniNeutron else eniSubnetID), ''  # neutron_subnet_id''];
     _ \<leftarrow> println [''export CCE_DEPLOY_KEYPAIR='', q keypairName];
     _ \<leftarrow> (case flavor of Some f \<Rightarrow> println [''export CCE_DEPLOY_FLAVOR='', q (ef_Id f)] | None \<Rightarrow> State_Monad.return ());
     println [''export CCE_DEPLOY_CLUSTER_FLAVOR='', [char_of (39 :: nat)], ''cce.s1.small'', [char_of (39 :: nat)],
       ''  # cheapest cluster (1 control node)''] }"

definition deploy_network :: "(history, 'm ops_cloud_scheme, 'z) deploy_os_scheme \<Rightarrow> (history, unit) prog" where
  "deploy_network os = (
     let ak = os_Getenv os ''CLOUD_SDK_AK''; sk = os_Getenv os ''CLOUD_SDK_SK'';
         region = envDefault (os_Getenv os) ''CCE_DEPLOY_REGION'' ''cn-north-4'' in
     if ak = [] \<or> sk = [] then fatal ''CLOUD_SDK_AK and CLOUD_SDK_SK must be set''
     else tryE (new_client os ''vpc'' region ak sk) (\<lambda>vc.
          tryE (new_client os ''ecs'' region ak sk) (\<lambda>ec.
          tryE (ensure_dn_vpc os vc) (\<lambda>vpcID. do {
            _ \<leftarrow> println [''VPC: '', vpcName, '' ('', vpcID, '')''];
            tryE (ensure_dn_subnet os vc vpcID subnetNode ''10.0.1.0/24'') (\<lambda>nodeID.
            tryE (ensure_dn_subnet os vc vpcID subnetENI ''10.0.2.0/24'') (\<lambda>eniID. do {
              (nodeNeutron, eniNeutron) \<leftarrow> neutronSubnetIDs os vc vpcID;
              _ \<leftarrow> println [''Node subnet: '', subnetNode, '' (id='', nodeID, '' neutron='', nodeNeutron, '')''];
              _ \<leftarrow> println [''ENI  subnet: '', subnetENI, '' (id='', eniID, '' neutron='', eniNeutron, '')''];
              tryE (ensure_keypair os ec) (\<lambda>_. do {
                flavor \<leftarrow> cheapestFlavor os ec;
                _ \<leftarrow> (case flavor of Inr f \<Rightarrow> println [''Cheapest 2C4G flavor: '', ef_Name f, '' ('', ef_Id f, '')'']
                     | Inl _ \<Rightarrow> State_Monad.return ());
                _ \<leftarrow> print_exports (os_Quote os) region vpcID nodeID eniID eniNeutron
                       (case flavor of Inr f \<Rightarrow> Some f | Inl _ \<Rightarrow> None);
                ok () }) })) }))))"

section \<open>deploy-bastion\<close>

definition bastionName :: string where "bastionName = ''capi-bastion''"
definition bastion_keyName :: string where "bastion_keyName = ''capi-bastion-key''"
definition bastion_sgName :: string where "bastion_sgName = ''capi-bastion-sg''"
definition bastion_keyPath :: string where "bastion_keyPath = ''capi-bastion-key.pem''"
definition bastion_waitTimeout :: int where "bastion_waitTimeout = 10 * minute"
definition bastion_pollInterval :: int where "bastion_pollInterval = 10 * second"

definition ensure_key :: "(history, 'l, 'z) deploy_os_scheme \<Rightarrow> 'm ops_cloud_scheme \<Rightarrow> (history, unit) prog" where
  "ensure_key os ec = do {
     present \<leftarrow> call os (os_FileExists os bastion_keyPath);
     if present then do { _ \<leftarrow> println [''Keypair '', bastion_keyName, '' (private key '', bastion_keyPath, '' exists)'']; ok () }
     else tryE (wrapE ''create keypair'' (RetryThrottled 3 (call os (send (OpsReq (NovaCreateKeypairReq bastion_keyName))
            (ans_NovaCreateKeypair ec))))) (\<lambda>key. case key of
          None \<Rightarrow> fatal ''create keypair returned no private key''
        | Some k \<Rightarrow> if k = [] then fatal ''create keypair returned no private key''
            else tryE (wrapE ''write private key'' (call os (os_WriteKey os bastion_keyPath k))) (\<lambda>_. do {
              _ \<leftarrow> println [''Keypair '', bastion_keyName, '' created, private key saved to '', bastion_keyPath];
              ok () })) }"

definition image_wanted :: "ImsImage \<Rightarrow> bool" where
  "image_wanted i \<longleftrightarrow> im_Name i \<noteq> [] \<and> \<not> (contains_sub (im_Name i) ''ARM'' \<or> im_VirtualEnvType i = ''Ironic'') \<and>
     contains_sub (im_Name i) ''Huawei Cloud EulerOS'' \<and> contains_sub (im_Name i) ''2.0''"

definition findImage :: "(history, 'l, 'z) os_scheme \<Rightarrow> 'm ops_cloud_scheme \<Rightarrow> (history tool, string) state" where
  "findImage os ic = do {
     r \<leftarrow> call os (send (OpsReq ListImagesReq) (ans_ListImages ic));
     State_Monad.return (case r of
       Inr (Some imgs) \<Rightarrow> (case find image_wanted imgs of Some i \<Rightarrow> im_Id i | None \<Rightarrow> [])
     | _ \<Rightarrow> []) }"

definition findSecurityGroup :: "(history, 'l, 'z) os_scheme \<Rightarrow> 'm cloud_scheme \<Rightarrow> string \<Rightarrow> string \<Rightarrow> (history tool, string) state" where
  "findSecurityGroup os vc vpcID name = do {
     r \<leftarrow> call os (send (VpcReq (ListSecurityGroupsReq (if vpcID = [] then None else Some vpcID))) (ans_ListSecurityGroups vc));
     State_Monad.return (case r of
       Inr (Some sgs) \<Rightarrow> (case find (\<lambda>g. sg_GroupName g = name) sgs of Some g \<Rightarrow> sg_Id g | None \<Rightarrow> [])
     | _ \<Rightarrow> []) }"

definition createSecurityGroup :: "(history, 'l, 'z) os_scheme \<Rightarrow> 'm cloud_scheme \<Rightarrow> string \<Rightarrow> string \<Rightarrow> (history, string) prog" where
  "createSecurityGroup os vc vpcID name =
     tryE (wrapE ''create security group'' (RetryThrottled 3 (call os (send
         (VpcReq (CreateSecurityGroupReq name (if vpcID = [] then None else Some vpcID))) (ans_CreateSecurityGroup vc))))) (\<lambda>resp.
       case resp of
         None \<Rightarrow> fatal ''create security group returned no id''
       | Some g \<Rightarrow> if sg_Id g = [] then fatal ''create security group returned no id'' else ok (sg_Id g))"

definition ssh_rule :: "string \<Rightarrow> string \<Rightarrow> CreateRuleOption" where
  "ssh_rule sgID cidr = \<lparr> cro_SecurityGroupId = sgID, cro_Direction = ''ingress'', cro_Description = None,
     cro_Protocol = Some ''tcp'', cro_RemoteIpPrefix = Some cidr, cro_RemoteGroupId = None,
     cro_PortRangeMin = Some 22, cro_PortRangeMax = Some 22 \<rparr>"

definition createSSHRule :: "(history, 'l, 'z) os_scheme \<Rightarrow> 'm cloud_scheme \<Rightarrow> string \<Rightarrow> string \<Rightarrow> (history, unit) prog" where
  "createSSHRule os vc sgID cidr = wrapE ''create ssh rule'' (RetryThrottled 3 (call os (send
     (VpcReq (CreateSecurityGroupRuleReq (ssh_rule sgID cidr))) (ack vc))))"

definition findBastion :: "(history, 'l, 'z) os_scheme \<Rightarrow> 'm ops_cloud_scheme \<Rightarrow> (history tool, string) state" where
  "findBastion os ec = do {
     r \<leftarrow> call os (send (OpsReq (ListServersReq (Some bastionName))) (ans_ListServers ec));
     State_Monad.return (case r of
       Inr (Some ss) \<Rightarrow> (case find (\<lambda>(i, n). n = bastionName) ss of Some (i, _) \<Rightarrow> i | None \<Rightarrow> [])
     | _ \<Rightarrow> []) }"

text \<open>The disk type, the bandwidth sharing and the EIP type are constants of the request and left out of it.\<close>

definition bastion_server :: "(string \<Rightarrow> string) \<Rightarrow> string \<Rightarrow> string \<Rightarrow> string \<Rightarrow> string \<Rightarrow> string \<Rightarrow> string \<Rightarrow> PrePaidServer" where
  "bastion_server getenv vpcID subnetID sgID imageID flavor az = (let agency = getenv ''CCE_DEPLOY_BASTION_AGENCY'' in \<lparr>
     pps_ImageRef = imageID, pps_FlavorRef = flavor, pps_Name = bastionName, pps_Vpcid = vpcID, pps_SubnetId = subnetID,
     pps_KeyName = Some bastion_keyName, pps_Count = 1,
     pps_Metadata = (if agency \<noteq> [] then [(''agency_name'', agency)] else []),
     pps_RootVolumeSize = 40, pps_SecurityGroup = sgID, pps_AvailabilityZone = az, pps_EipBandwidthSize = 1 \<rparr>)"

definition createServer :: "(history, 'l, 'z) os_scheme \<Rightarrow> 'm ops_cloud_scheme \<Rightarrow> PrePaidServer \<Rightarrow> (history, string) prog" where
  "createServer os ec srv =
     tryE (wrapE ''create server'' (RetryThrottled 3 (call os (send (OpsReq (CreateServersReq srv)) (ans_CreateServers ec))))) (\<lambda>ids.
       case ids of
         Some (i # _) \<Rightarrow> ok i
       | _ \<Rightarrow> fatal ''create server returned no server id'')"

definition waitActive :: "(history, 'l, 'z) os_scheme \<Rightarrow> 'm ops_cloud_scheme \<Rightarrow> string \<Rightarrow> (history, unit) prog" where
  "waitActive os ec serverID = tryE
     (poll bastion_waitTimeout bastion_pollInterval (do {
        r \<leftarrow> call os (send (OpsReq (ShowServerReq serverID)) (ans_ShowServer ec));
        case r of
          Inr (Some srv) \<Rightarrow> if es_Status srv = ''ACTIVE'' then ok (Some ())
            else if es_Status srv = ''ERROR'' then fatal ''server entered ERROR state'' else ok None
        | _ \<Rightarrow> ok None }))
     (\<lambda>r. case r of Some _ \<Rightarrow> ok () | None \<Rightarrow> fatal (msgf [''server '', serverID, '' did not become ACTIVE in time'']))"

text \<open>\<open>Addresses\<close> is a map: \<open>visit\<close> is the order of its traversal.\<close>

definition publicIP :: "((string \<times> (string option \<times> string) list) list \<Rightarrow> (string \<times> (string option \<times> string) list) list) \<Rightarrow>
    (history, 'l, 'z) os_scheme \<Rightarrow> 'm ops_cloud_scheme \<Rightarrow> string \<Rightarrow> (history tool, string) state" where
  "publicIP visit os ec serverID = do {
     r \<leftarrow> call os (send (OpsReq (ShowServerReq serverID)) (ans_ShowServer ec));
     State_Monad.return (case r of
       Inr (Some srv) \<Rightarrow> (case find (\<lambda>a. fst a = Some ''floating'') (concat (map snd (visit (es_Addresses srv)))) of
           Some (_, addr) \<Rightarrow> addr | None \<Rightarrow> [])
     | _ \<Rightarrow> []) }"

definition ensure_bastion_sg :: "(history, 'l, 'z) os_scheme \<Rightarrow> 'm cloud_scheme \<Rightarrow> string \<Rightarrow> string \<Rightarrow> (history, string) prog" where
  "ensure_bastion_sg os vc vpcID sshCIDR = do {
     found \<leftarrow> findSecurityGroup os vc vpcID bastion_sgName;
     if found \<noteq> [] then ok found
     else tryE (createSecurityGroup os vc vpcID bastion_sgName) (\<lambda>sgID.
          tryE (createSSHRule os vc sgID sshCIDR) (\<lambda>_. ok sgID)) }"

definition ensure_server :: "(history, 'l, 'z) os_scheme \<Rightarrow> 'm ops_cloud_scheme \<Rightarrow> PrePaidServer \<Rightarrow> (history, string) prog" where
  "ensure_server os ec srv = do {
     found \<leftarrow> findBastion os ec;
     if found = [] then tryE (createServer os ec srv) (\<lambda>i. do { _ \<leftarrow> println [''ECS created: '', i]; ok i })
     else do { _ \<leftarrow> println [''ECS exists: '', found]; ok found } }"

text \<open>\<open>valid_cidr\<close> is \<open>net.ParseCIDR\<close> without an error.\<close>

definition deploy_bastion :: "(string \<Rightarrow> bool) \<Rightarrow> ((string \<times> (string option \<times> string) list) list \<Rightarrow> (string \<times> (string option \<times> string) list) list) \<Rightarrow>
    (history, 'm ops_cloud_scheme, 'z) deploy_os_scheme \<Rightarrow> string \<Rightarrow> (history, unit) prog" where
  "deploy_bastion valid_cidr visit os sshCIDR = (
     let getenv = os_Getenv os;
         ak = EnvOr getenv [''CCE_DEPLOY_AK'', ''CLOUD_SDK_AK'']; sk = EnvOr getenv [''CCE_DEPLOY_SK'', ''CLOUD_SDK_SK''];
         region = envDefault getenv ''CCE_DEPLOY_REGION'' ''cn-north-4''; az = envDefault getenv ''CCE_DEPLOY_AZ'' ''cn-north-4a'';
         vpcID = EnvOr getenv [''CCE_DEPLOY_VPC'']; subnetID = EnvOr getenv [''CCE_DEPLOY_SUBNET''];
         flavor = envDefault getenv ''CCE_BASTION_FLAVOR'' ''s6.small.1'' in
     if \<not> valid_cidr sshCIDR then fatal ''-ssh-cidr must be a valid CIDR (e.g. 203.0.113.10/32)''
     else if ak = [] \<or> sk = [] then fatal ''CLOUD_SDK_AK/CCE_DEPLOY_AK and CLOUD_SDK_SK/CCE_DEPLOY_SK must be set''
     else if vpcID = [] \<or> subnetID = [] then fatal ''CCE_DEPLOY_VPC and CCE_DEPLOY_SUBNET are required''
     else tryE (new_client os ''vpc'' region ak sk) (\<lambda>vc.
          tryE (new_client os ''ecs'' region ak sk) (\<lambda>ec.
          tryE (new_client os ''ims'' region ak sk) (\<lambda>ic.
          tryE (ensure_key os ec) (\<lambda>_. do {
            imageID \<leftarrow> findImage os ic;
            if imageID = [] then fatal ''no public Huawei Cloud EulerOS 2.0 x86_64 image found''
            else do {
              _ \<leftarrow> println [''Image: '', imageID];
              tryE (ensure_bastion_sg os vc vpcID sshCIDR) (\<lambda>sgID. do {
                _ \<leftarrow> println [''Security group: '', sgID];
                tryE (ensure_server os ec (bastion_server getenv vpcID subnetID sgID imageID flavor az)) (\<lambda>serverID.
                tryE (waitActive os ec serverID) (\<lambda>_. do {
                  ip \<leftarrow> publicIP visit os ec serverID;
                  _ \<leftarrow> println [''BASTION_SERVER_ID='', serverID];
                  _ \<leftarrow> println [''BASTION_PUBLIC_IP='', ip];
                  _ \<leftarrow> println [''BASTION_KEY='', bastion_keyPath];
                  _ \<leftarrow> println [''ssh -i '', bastion_keyPath, '' root@'', ip];
                  ok () })) }) } })))))"

section \<open>swr-login\<close>

definition swr_registry :: "string \<Rightarrow> string" where
  "swr_registry region = ''swr.'' @ region @ ''.myhuaweicloud.com''"

fun first_login :: "(string \<times> string) list \<Rightarrow> (string \<times> string) option" where
  "first_login [] = None"
| "first_login ((_, a) # auths) = (case b64_decode a of
     None \<Rightarrow> first_login auths
   | Some d \<Rightarrow> (case split2 CHR '':'' d of (u, Some p) \<Rightarrow> Some (u, p) | (_, None) \<Rightarrow> first_login auths))"

text \<open>The credentials come in a map: \<open>visit\<close> is the order of its traversal.\<close>

definition temporaryLogin :: "((string \<times> string) list \<Rightarrow> (string \<times> string) list) \<Rightarrow> (history, 'l, 'z) os_scheme \<Rightarrow> 'm ops_cloud_scheme \<Rightarrow>
    (history, string \<times> string) prog" where
  "temporaryLogin visit os sc =
     tryE (call os (send (OpsReq CreateSecretReq) (ans_CreateSecret sc))) (\<lambda>resp. case resp of
         None \<Rightarrow> fail (PlainErr ''CreateSecret returned no auths'')
       | Some auths \<Rightarrow> (case first_login (visit auths) of
           Some l \<Rightarrow> ok l
         | None \<Rightarrow> fail (PlainErr ''no usable auth in CreateSecret response'')))"

definition ensureNamespace :: "(history, 'l, 'z) os_scheme \<Rightarrow> 'm ops_cloud_scheme \<Rightarrow> string \<Rightarrow> (history, unit) prog" where
  "ensureNamespace os sc ns = do {
     r \<leftarrow> call os (send (OpsReq (CreateNamespaceReq ns)) (ack sc));
     case r of
       Inl err \<Rightarrow> if \<not> contains_sub (os_ErrorText os err) ''already'' \<and> \<not> contains_sub (os_ErrorText os err) ''SVCSTG.SWR.4000''
         then fail err else ok ()
     | Inr _ \<Rightarrow> ok () }"

definition swr_login :: "((string \<times> string) list \<Rightarrow> (string \<times> string) list) \<Rightarrow> (history, 'm ops_cloud_scheme, 'z) os_scheme \<Rightarrow>
    (history, unit) prog" where
  "swr_login visit os = (
     let ak = EnvOr (os_Getenv os) [''CCE_DEPLOY_AK'', ''CLOUD_SDK_AK''];
         sk = EnvOr (os_Getenv os) [''CCE_DEPLOY_SK'', ''CLOUD_SDK_SK''];
         region = envDefault (os_Getenv os) ''CCE_DEPLOY_REGION'' ''cn-north-4'';
         org = envDefault (os_Getenv os) ''SWR_ORG'' ''capi_cce'' in
     if ak = [] \<or> sk = [] then fatal ''CLOUD_SDK_AK and CLOUD_SDK_SK must be set''
     else tryE (new_client os ''swr'' region ak sk) (\<lambda>sc. do {
       n \<leftarrow> ensureNamespace os sc org;
       _ \<leftarrow> (case n of Inr _ \<Rightarrow> println [''namespace '', org, '' ready''] | Inl _ \<Rightarrow> State_Monad.return ());
       tryE (wrapE ''temporary login'' (temporaryLogin visit os sc)) (\<lambda>(user, pass). do {
         _ \<leftarrow> println [''SWR_REGISTRY='', swr_registry region];
         _ \<leftarrow> println [''SWR_USER='', user];
         _ \<leftarrow> println [''SWR_PASSWORD='', pass];
         _ \<leftarrow> println [''SWR_ORG='', org];
         _ \<leftarrow> println [''SWR_IMAGE='', swr_registry region, ''/'', org, ''/cluster-api-cce-controller:latest''];
         ok () }) }))"

section \<open>The flavor picked\<close>

lemma find_sorted_least:
  assumes "sorted_wrt R xs" "find P xs = Some f" "g \<in> set xs" "P g" "R f f"
  shows "R f g"
  using assms
proof (induction xs)
  case (Cons x xs)
  then show ?case by (cases "P x") auto
qed simp

lemma first_of_family_Some:
  "first_of_family ps cs = Some f \<Longrightarrow> \<exists>us p vs. ps = us @ p # vs \<and> find (\<lambda>g. has_prefix (ef_Id g) p) cs = Some f
     \<and> (\<forall>u \<in> set us. \<forall>g \<in> set cs. \<not> has_prefix (ef_Id g) u)"
proof (induction ps)
  case (Cons p ps)
  show ?case
  proof (cases "find (\<lambda>g. has_prefix (ef_Id g) p) cs")
    case None
    with Cons obtain us q vs where *: "ps = us @ q # vs" "find (\<lambda>g. has_prefix (ef_Id g) q) cs = Some f"
      "\<forall>u \<in> set us. \<forall>g \<in> set cs. \<not> has_prefix (ef_Id g) u" by auto
    with None have "p # ps = (p # us) @ q # vs" "\<forall>u \<in> set (p # us). \<forall>g \<in> set cs. \<not> has_prefix (ef_Id g) u"
      by (auto simp: find_None_iff)
    with *(2) show ?thesis by blast
  next
    case (Some a)
    with Cons.prems have "p # ps = [] @ p # ps" "find (\<lambda>g. has_prefix (ef_Id g) p) cs = Some f" by auto
    then show ?thesis by fastforce
  qed
qed simp

lemma first_of_family_None: "first_of_family ps cs = None \<Longrightarrow> p \<in> set ps \<Longrightarrow> g \<in> set cs \<Longrightarrow> \<not> has_prefix (ef_Id g) p"
  by (induction ps) (auto simp: find_None_iff split: option.splits)

lemma find_skip: "find P us = None \<Longrightarrow> P p \<Longrightarrow> find P (us @ p # vs) = Some p"
  by (induction us) (auto split: if_splits)

lemma flavor_less_irrefl: "\<not> flavor_less f f"
  by (simp add: flavor_less_def)

text \<open>\<open>sort.Slice\<close>: a sorted permutation of its argument, equal elements in any order.\<close>

definition sorts :: "((EcsFlavor \<Rightarrow> EcsFlavor \<Rightarrow> bool) \<Rightarrow> EcsFlavor list \<Rightarrow> EcsFlavor list) \<Rightarrow> bool" where
  "sorts srt \<longleftrightarrow> (\<forall>fs. set (srt flavor_less fs) = set fs \<and> sorted_wrt (\<lambda>a b. \<not> flavor_less b a) (srt flavor_less fs))"

text \<open>The flavor \<open>deploy-network\<close> picks is one of the listed flavors, has at least two cores and 4 GiB and
  carries sub-network interfaces; its family is the first preferred one that has such a flavor at all, and within
  the family no such flavor is smaller. None is picked only when no listed flavor qualifies.\<close>

theorem pick_flavor_least:
  assumes "sorts srt"
  shows "case pick_flavor srt fs of
      None \<Rightarrow> \<not> (\<exists>g \<in> set fs. flavor_eligible g)
    | Some f \<Rightarrow> f \<in> set fs \<and> flavor_eligible f \<and>
        (case find (\<lambda>p. \<exists>g \<in> set fs. flavor_eligible g \<and> has_prefix (ef_Id g) p) preferred_families of
           Some p \<Rightarrow> has_prefix (ef_Id f) p \<and>
             (\<forall>g \<in> set fs. flavor_eligible g \<longrightarrow> has_prefix (ef_Id g) p \<longrightarrow> \<not> flavor_less g f)
         | None \<Rightarrow> \<forall>g \<in> set fs. flavor_eligible g \<longrightarrow> \<not> flavor_less g f)"
proof -
  let ?cs = "srt flavor_less (filter flavor_eligible fs)"
  let ?p = "\<lambda>p. \<exists>g \<in> set fs. flavor_eligible g \<and> has_prefix (ef_Id g) p"
  have cs: "set ?cs = set (filter flavor_eligible fs)" "sorted_wrt (\<lambda>a b. \<not> flavor_less b a) ?cs"
    using assms by (auto simp: sorts_def)
  show ?thesis
  proof (cases "first_of_family preferred_families ?cs")
    case None
    then have "find ?p preferred_families = None"
      using first_of_family_None[OF None] cs(1) by (auto simp: find_None_iff)
    moreover have "\<not> flavor_less g c" if "?cs = c # r" "g \<in> set fs" "flavor_eligible g" for g c r
      using that cs by (cases "g = c") (auto simp: flavor_less_irrefl)
    ultimately show ?thesis
      using None cs(1) by (cases ?cs) (auto simp: pick_flavor_def)
  next
    case (Some f)
    from first_of_family_Some[OF this] obtain us p vs where p: "preferred_families = us @ p # vs"
      "find (\<lambda>g. has_prefix (ef_Id g) p) ?cs = Some f" "\<forall>u \<in> set us. \<forall>g \<in> set ?cs. \<not> has_prefix (ef_Id g) u" by blast
    have f: "f \<in> set ?cs" "has_prefix (ef_Id f) p"
      using p(2) by (auto simp: find_Some_iff in_set_conv_nth)
    have "find ?p preferred_families = Some p"
      unfolding p(1) by (rule find_skip) (use p(3) f cs(1) in \<open>auto simp: find_None_iff\<close>)
    moreover have "\<not> flavor_less g f" if "g \<in> set fs" "flavor_eligible g" "has_prefix (ef_Id g) p" for g
      using find_sorted_least[OF cs(2) p(2)] that cs(1) by (auto simp: flavor_less_irrefl)
    ultimately show ?thesis
      using Some f cs(1) by (cases ?cs) (auto simp: pick_flavor_def)
  qed
qed

fun flavor_insert :: "(EcsFlavor \<Rightarrow> EcsFlavor \<Rightarrow> bool) \<Rightarrow> EcsFlavor \<Rightarrow> EcsFlavor list \<Rightarrow> EcsFlavor list" where
  "flavor_insert lt x [] = [x]"
| "flavor_insert lt x (y # ys) = (if lt x y then x # y # ys else y # flavor_insert lt x ys)"

definition insertion_sort :: "(EcsFlavor \<Rightarrow> EcsFlavor \<Rightarrow> bool) \<Rightarrow> EcsFlavor list \<Rightarrow> EcsFlavor list" where
  "insertion_sort lt fs = foldr (flavor_insert lt) fs []"

lemma set_flavor_insert: "set (flavor_insert lt x ys) = insert x (set ys)"
  by (induction ys) auto

lemma sorted_flavor_insert:
  "sorted_wrt (\<lambda>a b. \<not> flavor_less b a) ys \<Longrightarrow> sorted_wrt (\<lambda>a b. \<not> flavor_less b a) (flavor_insert flavor_less x ys)"
  by (induction ys) (auto simp: set_flavor_insert flavor_less_def Let_def split: if_splits)

lemma insertion_sort_sorts: "sorts insertion_sort"
proof -
  have "set (insertion_sort flavor_less fs) = set fs \<and> sorted_wrt (\<lambda>a b. \<not> flavor_less b a) (insertion_sort flavor_less fs)" for fs
    unfolding insertion_sort_def by (induction fs) (simp_all add: set_flavor_insert sorted_flavor_insert)
  then show ?thesis by (simp add: sorts_def)
qed

definition listed_flavors :: "EcsFlavor list" where
  "listed_flavors = map (\<lambda>(n, c, m). \<lparr> ef_Id = n, ef_Name = n, ef_Vcpus = c, ef_Ram = m, ef_SubEni = Some (Some ''8'') \<rparr>)
     [(''c7.xlarge.2'', ''4'', 8192), (''c7.2xlarge.2'', ''8'', 16384), (''kc1.large.2'', ''2'', 4096), (''c7.small.1'', ''1'', 1024)]"

theorem pick_flavor_least_witness:
  "pick_flavor insertion_sort listed_flavors = Some (listed_flavors ! 0) \<and> listed_flavors ! 0 \<in> set listed_flavors"
proof -
  have "pick_flavor insertion_sort listed_flavors = Some (listed_flavors ! 0)" by code_simp
  with pick_flavor_least[OF insertion_sort_sorts, of listed_flavors] show ?thesis by simp
qed

text \<open>The tool announces the cheapest flavor, and takes four cores of a preferred family over two of another.\<close>

lemma smaller_flavor_passed_over:
  "flavor_eligible (listed_flavors ! 2) \<and> flavor_less (listed_flavors ! 2) (listed_flavors ! 0) \<and>
   pick_flavor insertion_sort listed_flavors = Some (listed_flavors ! 0)"
  by code_simp

section \<open>The SSH rule of the bastion\<close>

text \<open>A first run that created the group and failed to open the port leaves a group without the rule; the next
  run takes the group it finds and reports success without opening the port, whatever \<open>-ssh-cidr\<close> asks for.\<close>

lemma bastion_rule_not_repaired:
  assumes "ans_ListSecurityGroups vc (tl_cloud s @ [VpcReq (ListSecurityGroupsReq (if vpcID = [] then None else Some vpcID))]) = Inr (Some sgs)"
    and "find (\<lambda>g. sg_GroupName g = bastion_sgName) sgs = Some g" "sg_Id g \<noteq> []"
  shows "wp (ensure_bastion_sg os vc vpcID sshCIDR) (\<lambda>r s'. r = Inr (sg_Id g) \<and>
    tl_cloud s' = tl_cloud s @ [VpcReq (ListSecurityGroupsReq (if vpcID = [] then None else Some vpcID))]) s"
  using assms by (simp add: ensure_bastion_sg_def findSecurityGroup_def wp_simps)


end
