(* ===== verification/GoStore.thy ===== *)
theory GoStore
  imports Main "HOL-Library.Monad_Syntax" "HOL-Library.AList"
begin

text \<open>
  Go memory with aliasing, for the generated deep copies. A \<open>gval\<close> is what a variable or a field holds: a struct is
  stored in place, a pointer, a slice or a map is a reference to a cell of the store (or nil). \<open>reads T h v\<close> follows
  the references of a value of Go type \<open>T\<close> and returns the tree it stands for; \<open>None\<close> means that the value is not of
  that type. A \<open>copier\<close> is a \<open>DeepCopyInto\<close>: it takes the value \<open>*in\<close>, allocates cells at the end of the store and
  returns \<open>*out\<close>. \<open>copies T c\<close> is the contract of a deep copy, with one rule for each form of statement the
  generator emits (collection \<open>copies_rules\<close>).
\<close>

named_theorems copies_rules \<open>one rule for each form of a generated copy\<close>

section \<open>Values, types and the store\<close>

datatype gval = StrV string | IntV int | BoolV bool | StructV "(string \<times> gval) list"
  | NilV | RefV nat | SliceV nat nat nat

datatype cell = ObjC gval | ArrC "gval list" | MapC "(string \<times> gval) list"

type_synonym store = "cell list"

datatype gtype = StrT | IntT | BoolT | StructT "(string \<times> gtype) list" | PtrT gtype | SliceT gtype | MapT gtype

datatype tree = StrN string | IntN int | BoolN bool | StructN "(string \<times> tree) list" | NilN
  | PtrN tree | SliceN "tree list" | MapN "(string \<times> tree) list"

definition load :: "store \<Rightarrow> nat \<Rightarrow> cell option" where
  "load h a = (if a < length h then Some (h ! a) else None)"

definition load_obj :: "store \<Rightarrow> nat \<Rightarrow> gval option" where
  "load_obj h a = (case load h a of Some (ObjC v) \<Rightarrow> Some v | _ \<Rightarrow> None)"

definition load_slice :: "store \<Rightarrow> nat \<Rightarrow> nat \<Rightarrow> nat \<Rightarrow> gval list option" where
  "load_slice h a off n = (case load h a of
     Some (ArrC xs) \<Rightarrow> if off + n \<le> length xs then Some (take n (drop off xs)) else None | _ \<Rightarrow> None)"

definition load_map :: "store \<Rightarrow> nat \<Rightarrow> (string \<times> gval) list option" where
  "load_map h a = (case load h a of
     Some (MapC kvs) \<Rightarrow> if distinct (map fst kvs) then Some kvs else None | _ \<Rightarrow> None)"

fun all_some :: "'a option list \<Rightarrow> 'a list option" where
  "all_some [] = Some []"
| "all_some (None # xs) = None"
| "all_some (Some x # xs) = map_option (Cons x) (all_some xs)"

lemma all_some_Some: "all_some xs = Some ys \<longleftrightarrow> xs = map Some ys"
  by (induction xs arbitrary: ys rule: all_some.induct) (auto simp: map_eq_Cons_conv)

fun reads :: "gtype \<Rightarrow> store \<Rightarrow> gval \<Rightarrow> tree option"
  and read_fields :: "(string \<times> gtype) list \<Rightarrow> store \<Rightarrow> (string \<times> gval) list \<Rightarrow> (string \<times> tree) list option" where
  "reads StrT h (StrV s) = Some (StrN s)"
| "reads IntT h (IntV i) = Some (IntN i)"
| "reads BoolT h (BoolV b) = Some (BoolN b)"
| "reads (StructT ts) h (StructV fs) = map_option StructN (read_fields ts h fs)"
| "reads (PtrT T) h NilV = Some NilN"
| "reads (PtrT T) h (RefV a) = Option.bind (load_obj h a) (\<lambda>w. map_option PtrN (reads T h w))"
| "reads (SliceT T) h NilV = Some NilN"
| "reads (SliceT T) h (SliceV a off n) =
     Option.bind (load_slice h a off n) (\<lambda>ws. map_option SliceN (all_some (map (reads T h) ws)))"
| "reads (MapT T) h NilV = Some NilN"
| "reads (MapT T) h (RefV a) =
     Option.bind (load_map h a) (\<lambda>kvs. map_option (\<lambda>ts. MapN (zip (map fst kvs) ts)) (all_some (map (reads T h) (map snd kvs))))"
| "reads _ h _ = None"
| "read_fields [] h [] = Some []"
| "read_fields ((n, T) # ts) h ((m, v) # fs) = (if n = m then
     Option.bind (reads T h v) (\<lambda>t. map_option (Cons (n, t)) (read_fields ts h fs)) else None)"
| "read_fields _ h _ = None"

fun_cases reads_StructE: "reads (StructT ts) h v = Some t"
  and reads_PtrE: "reads (PtrT T) h v = Some t"
  and reads_SliceE: "reads (SliceT T) h v = Some t"
  and reads_MapE: "reads (MapT T) h v = Some t"

lemmas reads_ptr_cases = reads_PtrE [consumes 1, case_names nil ref]
  and reads_slice_cases = reads_SliceE [consumes 1, case_names nil slice]
  and reads_map_cases = reads_MapE [consumes 1, case_names nil ref]

text \<open>A type without references: reading it does not look at the store.\<close>

fun plain :: "gtype \<Rightarrow> bool" where
  "plain (StructT ts) = list_all (\<lambda>(n, T). plain T) ts"
| "plain (PtrT T) = False"
| "plain (SliceT T) = False"
| "plain (MapT T) = False"
| "plain _ = True"

lemma reads_plain: "plain T \<Longrightarrow> reads T h v = reads T h' v"
  and read_fields_plain: "list_all (\<lambda>(n, T). plain T) ts \<Longrightarrow> read_fields ts h fs = read_fields ts h' fs"
  by (induction T h v and ts h fs rule: reads_read_fields.induct) (auto split: bind_splits)

section \<open>Allocation does not disturb what is there\<close>

lemma load_append: "load h a = Some c \<Longrightarrow> load (h @ e) a = Some c"
  by (auto simp: load_def nth_append split: if_splits)

lemma load_obj_append: "load_obj h a = Some v \<Longrightarrow> load_obj (h @ e) a = Some v"
  and load_slice_append: "load_slice h a off n = Some vs \<Longrightarrow> load_slice (h @ e) a off n = Some vs"
  and load_map_append: "load_map h a = Some kvs \<Longrightarrow> load_map (h @ e) a = Some kvs"
  by (auto simp: load_obj_def load_slice_def load_map_def load_append split: option.splits cell.splits if_splits
      dest: load_append[of _ _ _ e])

lemma all_some_mono:
  assumes "all_some (map f xs) = Some ys" "\<And>x y. x \<in> set xs \<Longrightarrow> f x = Some y \<Longrightarrow> g x = Some y"
  shows "all_some (map g xs) = Some ys"
  using assms by (induction xs arbitrary: ys) (auto simp: all_some_Some map_eq_Cons_conv)

lemma reads_append: "reads T h v = Some t \<Longrightarrow> reads T (h @ e) v = Some t"
  and read_fields_append: "read_fields ts h fs = Some rs \<Longrightarrow> read_fields ts (h @ e) fs = Some rs"
proof (induction T h v and ts h fs arbitrary: t and rs rule: reads_read_fields.induct)
  case (8 T h a off n)
  then show ?case
    by (fastforce simp: bind_eq_Some_conv load_slice_append intro: all_some_mono)
next
  case (10 T h a)
  then show ?case
    by (fastforce simp: bind_eq_Some_conv load_map_append intro: all_some_mono)
qed (fastforce simp: bind_eq_Some_conv load_obj_append split: if_splits)+


section \<open>Copiers\<close>

type_synonym copier = "gval \<Rightarrow> store \<Rightarrow> (gval \<times> store) option"

text \<open>The plain assignment \<open>*out = *in\<close>.\<close>

definition keep :: copier where
  "keep v h = Some (v, h)"

text \<open>\<open>*out = *in\<close> followed by statements that each replace one field, in the order of the code.\<close>

fun copy_fields :: "(string \<times> copier) list \<Rightarrow> (string \<times> gval) list \<Rightarrow> store \<Rightarrow> ((string \<times> gval) list \<times> store) option" where
  "copy_fields [] fs h = Some (fs, h)"
| "copy_fields ((n, c) # cs) fs h = do {
     v \<leftarrow> map_of fs n;
     (v', h') \<leftarrow> c v h;
     copy_fields cs (AList.update n v' fs) h' }"

definition struct_copy :: "(string \<times> copier) list \<Rightarrow> copier" where
  "struct_copy cs v h = (case v of
     StructV fs \<Rightarrow> do { (fs', h') \<leftarrow> copy_fields cs fs h; Some (StructV fs', h') }
   | _ \<Rightarrow> None)"

text \<open>\<open>if *in != nil { *out = new(T); (*in).DeepCopyInto(*out) }\<close>; the new variable first holds \<open>**in\<close> and then the
  copies of its fields.\<close>

definition ptr_copy :: "copier \<Rightarrow> copier" where
  "ptr_copy c v h = (case v of
     NilV \<Rightarrow> Some (NilV, h)
   | RefV a \<Rightarrow> do {
       w \<leftarrow> load_obj h a;
       (w', h') \<leftarrow> c w (h @ [ObjC w]);
       Some (RefV (length h), h'[length h := ObjC w']) }
   | _ \<Rightarrow> None)"

text \<open>\<open>if *in != nil { *out = make([]T, len(*in)); for i := range *in { (*in)[i].DeepCopyInto(&(*out)[i]) } }\<close>.\<close>

fun copy_elements :: "copier \<Rightarrow> gval list \<Rightarrow> store \<Rightarrow> (gval list \<times> store) option" where
  "copy_elements c [] h = Some ([], h)"
| "copy_elements c (v # vs) h = do {
     (v', h') \<leftarrow> c v h;
     (vs', h'') \<leftarrow> copy_elements c vs h';
     Some (v' # vs', h'') }"

definition slice_copy :: "copier \<Rightarrow> copier" where
  "slice_copy c v h = (case v of
     NilV \<Rightarrow> Some (NilV, h)
   | SliceV a off n \<Rightarrow> do {
       vs \<leftarrow> load_slice h a off n;
       (vs', h') \<leftarrow> copy_elements c vs (h @ [ArrC vs]);
       Some (SliceV (length h) 0 n, h'[length h := ArrC vs']) }
   | _ \<Rightarrow> None)"

text \<open>\<open>*out = make(M, len(*in)); for key, val := range *in { (*out)[key] = val }\<close>; a nil map has no entries.\<close>

definition map_make :: copier where
  "map_make v h = (case v of
     NilV \<Rightarrow> Some (RefV (length h), h @ [MapC []])
   | RefV a \<Rightarrow> do { kvs \<leftarrow> load_map h a; Some (RefV (length h), h @ [MapC (fold (\<lambda>(key, val). AList.update key val) kvs [])]) }
   | _ \<Rightarrow> None)"

definition map_copy :: copier where
  "map_copy v h = (if v = NilV then Some (NilV, h) else map_make v h)"

section \<open>The contract of a deep copy\<close>

text \<open>The copy only adds cells, and it reads the same whatever is later written to the cells that were there.\<close>

definition copied :: "gtype \<Rightarrow> tree \<Rightarrow> store \<Rightarrow> gval \<times> store \<Rightarrow> bool" where
  "copied T t h = (\<lambda>(v', h'). \<exists>new. h' = h @ new \<and> (\<forall>h0. length h0 = length h \<longrightarrow> reads T (h0 @ new) v' = Some t))"

definition copies :: "gtype \<Rightarrow> copier \<Rightarrow> bool" where
  "copies T c \<longleftrightarrow> (\<forall>h v t. reads T h v = Some t \<longrightarrow> (\<exists>r. c v h = Some r \<and> copied T t h r))"

lemma copiesE:
  assumes "copies T c" "reads T h v = Some t"
  obtains v' new where "c v h = Some (v', h @ new)" "\<And>h0. length h0 = length h \<Longrightarrow> reads T (h0 @ new) v' = Some t"
  using assms by (fastforce simp: copies_def copied_def)

lemma copies_keep [copies_rules]: "plain T \<Longrightarrow> copies T keep"
  by (auto simp: copies_def copied_def keep_def) (metis reads_plain)

lemma copies_ptr [copies_rules]:
  assumes "copies T c"
  shows "copies (PtrT T) (ptr_copy c)"
  unfolding copies_def
proof (intro allI impI)
  fix h v t assume "reads (PtrT T) h v = Some t"
  then show "\<exists>r. ptr_copy c v h = Some r \<and> copied (PtrT T) t h r"
  proof (cases rule: reads_ptr_cases)
    case nil
    then show ?thesis by (simp add: ptr_copy_def copied_def)
  next
    case (ref a)
    then obtain w s where w: "load_obj h a = Some w" "reads T h w = Some s" "t = PtrN s"
      by (auto simp: bind_eq_Some_conv eq_commute[of "Some t"])
    obtain w' new where c: "c w (h @ [ObjC w]) = Some (w', (h @ [ObjC w]) @ new)"
      and rd: "\<And>h0. length h0 = Suc (length h) \<Longrightarrow> reads T (h0 @ new) w' = Some s"
      using copiesE[OF assms reads_append[OF w(2), of "[ObjC w]"]] by auto
    have "reads (PtrT T) (h0 @ ObjC w' # new) (RefV (length h)) = Some t" if "length h0 = length h" for h0
      using that w(3) rd[of "h0 @ [ObjC w']"] by (simp add: load_obj_def load_def nth_append)
    then show ?thesis
      using ref(1) w(1) c by (simp add: ptr_copy_def copied_def list_update_append)
  qed
qed

lemma copy_elements_reads:
  assumes "copies T c" "all_some (map (reads T h) vs) = Some ts"
  shows "\<exists>vs' new. copy_elements c vs h = Some (vs', h @ new) \<and> length vs' = length vs \<and>
    (\<forall>h0. length h0 = length h \<longrightarrow> all_some (map (reads T (h0 @ new)) vs') = Some ts)"
  using assms(2)
proof (induction vs arbitrary: h ts)
  case Nil
  then show ?case by simp
next
  case (Cons v vs)
  then obtain s ss where s: "reads T h v = Some s" "all_some (map (reads T h) vs) = Some ss" "ts = s # ss"
    by (auto simp: all_some_Some map_eq_Cons_conv)
  obtain v' e where c: "c v h = Some (v', h @ e)"
    and rd: "\<And>h0. length h0 = length h \<Longrightarrow> reads T (h0 @ e) v' = Some s"
    using copiesE[OF assms(1) s(1)] by blast
  have "all_some (map (reads T (h @ e)) vs) = Some ss"
    using s(2) by (rule all_some_mono) (rule reads_append)
  from Cons.IH[OF this] obtain vs' new where cs: "copy_elements c vs (h @ e) = Some (vs', (h @ e) @ new)"
    "length vs' = length vs"
    and rds: "\<And>h0. length h0 = length (h @ e) \<Longrightarrow> all_some (map (reads T (h0 @ new)) vs') = Some ss"
    by blast
  have "all_some (map (reads T (h0 @ e @ new)) (v' # vs')) = Some ts" if "length h0 = length h" for h0
    using reads_append[OF rd[OF that], of new] rds[of "h0 @ e"] that s(3) by simp
  then show ?case
    using c cs by (intro exI[of _ "v' # vs'"] exI[of _ "e @ new"]) simp
qed

lemma copies_slice [copies_rules]:
  assumes "copies T c"
  shows "copies (SliceT T) (slice_copy c)"
  unfolding copies_def
proof (intro allI impI)
  fix h v t assume "reads (SliceT T) h v = Some t"
  then show "\<exists>r. slice_copy c v h = Some r \<and> copied (SliceT T) t h r"
  proof (cases rule: reads_slice_cases)
    case nil
    then show ?thesis by (simp add: slice_copy_def copied_def)
  next
    case (slice a off n)
    then obtain vs ss where vs: "load_slice h a off n = Some vs" "all_some (map (reads T h) vs) = Some ss" "t = SliceN ss"
      by (auto simp: bind_eq_Some_conv eq_commute[of "Some t"])
    have "length vs = n"
      using vs(1) by (auto simp: load_slice_def split: option.splits cell.splits if_splits)
    have "all_some (map (reads T (h @ [ArrC vs])) vs) = Some ss"
      using vs(2) by (rule all_some_mono) (rule reads_append)
    from copy_elements_reads[OF assms this] obtain vs' new
      where c: "copy_elements c vs (h @ [ArrC vs]) = Some (vs', h @ ArrC vs # new)" "length vs' = n"
        and rd: "\<And>h0. length h0 = Suc (length h) \<Longrightarrow> all_some (map (reads T (h0 @ new)) vs') = Some ss"
      using \<open>length vs = n\<close> by auto
    have "reads (SliceT T) (h0 @ ArrC vs' # new) (SliceV (length h) 0 n) = Some t" if "length h0 = length h" for h0
      using that vs(3) c(2) rd[of "h0 @ [ArrC vs']"] by (simp add: load_slice_def load_def nth_append)
    then show ?thesis
      using slice(1) vs(1) c by (simp add: slice_copy_def copied_def list_update_append)
  qed
qed


lemma fold_update_distinct:
  "distinct (map fst (ms @ kvs)) \<Longrightarrow> fold (\<lambda>(k, v). AList.update k v) kvs ms = ms @ kvs"
proof (induction kvs arbitrary: ms)
  case (Cons kv kvs)
  then have "AList.update (fst kv) (snd kv) ms = ms @ [kv]"
    by (induction ms) auto
  with Cons show ?case by (simp add: case_prod_unfold)
qed simp

lemma copies_map [copies_rules]:
  assumes "plain T"
  shows "copies (MapT T) map_copy"
  unfolding copies_def
proof (intro allI impI)
  fix h v t assume "reads (MapT T) h v = Some t"
  then show "\<exists>r. map_copy v h = Some r \<and> copied (MapT T) t h r"
  proof (cases rule: reads_map_cases)
    case nil
    then show ?thesis by (simp add: map_copy_def copied_def)
  next
    case (ref a)
    then obtain kvs ss where kvs: "load_map h a = Some kvs" "all_some (map (reads T h) (map snd kvs)) = Some ss"
      "t = MapN (zip (map fst kvs) ss)"
      by (auto simp: bind_eq_Some_conv eq_commute[of "Some t"])
    have d: "distinct (map fst kvs)"
      using kvs(1) by (auto simp: load_map_def split: option.splits cell.splits if_splits)
    have "reads (MapT T) (h0 @ [MapC kvs]) (RefV (length h)) = Some t" if "length h0 = length h" for h0
      using that kvs(2,3) d reads_plain[OF assms, of "h0 @ [MapC kvs]" _ h]
      by (simp add: load_map_def load_def nth_append comp_def)
    then show ?thesis
      using ref(1) kvs(1) d fold_update_distinct[of "[]" kvs]
      by (simp add: map_copy_def map_make_def copied_def)
  qed
qed

lemma read_fields_iff:
  "distinct (map fst ts) \<Longrightarrow> read_fields ts h fs = Some rs \<longleftrightarrow>
    map fst fs = map fst ts \<and> map fst rs = map fst ts \<and>
    (\<forall>n T v t. (n, T) \<in> set ts \<longrightarrow> (n, v) \<in> set fs \<longrightarrow> (n, t) \<in> set rs \<longrightarrow> reads T h v = Some t)"
proof (induction ts arbitrary: fs rs)
  case Nil
  then show ?case by (cases fs) auto
next
  case (Cons nT ts)
  obtain n T where nT: "nT = (n, T)" by (cases nT)
  then have fresh: "(n, x) \<notin> set ys" if "map fst ys = map fst ts" for x and ys :: "(string \<times> 'x) list"
    using Cons.prems that by (metis distinct.simps(2) fst_conv image_eqI list.simps(9) set_map)
  show ?case
  proof (cases "fs = [] \<or> rs = []")
    case True
    then show ?thesis
      by (cases fs) (auto simp: nT bind_eq_Some_conv split: if_splits)
  next
    case False
    then obtain m v fs' k t rs' where l: "fs = (m, v) # fs'" "rs = (k, t) # rs'"
      by (metis neq_Nil_conv surj_pair)
    have "(n, x) \<notin> set ts" "map fst fs' = map fst ts \<Longrightarrow> (n, y) \<notin> set fs'"
      "map fst rs' = map fst ts \<Longrightarrow> (n, z) \<notin> set rs'" for x y z
      using fresh[of ts] fresh[of fs'] fresh[of rs'] by simp_all
    then show ?thesis
      using Cons.IH[of fs' rs'] Cons.prems by (auto simp: nT l bind_eq_Some_conv split: if_splits)
  qed
qed


lemma update_field:
  assumes "distinct (map fst fs)" "n \<in> fst ` set fs"
  shows "map fst (AList.update n x fs) = map fst fs"
    and "set (AList.update n x fs) = insert (n, x) {(m, v) \<in> set fs. m \<noteq> n}"
  using assms by (induction fs) (auto simp: image_iff)

definition fields_copied :: "(string \<times> gtype) list \<Rightarrow> (string \<times> tree) list \<Rightarrow> (string \<times> copier) list \<Rightarrow>
    (string \<times> gval) list \<Rightarrow> store \<Rightarrow> (string \<times> gval) list \<times> store \<Rightarrow> bool" where
  "fields_copied ts rs cs fs h = (\<lambda>(fs', h'). \<exists>new. h' = h @ new \<and> map fst fs' = map fst fs \<and>
    (\<forall>n v. n \<notin> fst ` set cs \<longrightarrow> (n, v) \<in> set fs' \<longleftrightarrow> (n, v) \<in> set fs) \<and>
    (\<forall>n T v t h0. (n, T) \<in> set ts \<longrightarrow> (n, v) \<in> set fs' \<longrightarrow> (n, t) \<in> set rs \<longrightarrow> n \<in> fst ` set cs \<longrightarrow>
      length h0 = length h \<longrightarrow> reads T (h0 @ new) v = Some t))"

lemma fields_copied_step:
  assumes "fields_copied ts rs cs fs' (h @ e) r"
    and "\<And>T' t'. (n, T') \<in> set ts \<Longrightarrow> (n, t') \<in> set rs \<Longrightarrow> T' = T \<and> t' = t"
    and "map fst fs' = map fst fs" "set fs' = insert (n, v') {(m, w) \<in> set fs. m \<noteq> n}" "n \<notin> fst ` set cs"
    and "\<And>h0. length h0 = length h \<Longrightarrow> reads T (h0 @ e) v' = Some t"
  shows "fields_copied ts rs ((n, c) # cs) fs h r"
proof -
  from assms(1) obtain gs new where r: "r = (gs, (h @ e) @ new)" "map fst gs = map fst fs'"
    and rest: "\<forall>m w. m \<notin> fst ` set cs \<longrightarrow> (m, w) \<in> set gs \<longleftrightarrow> (m, w) \<in> set fs'"
    and rds: "\<forall>m U w s h0. (m, U) \<in> set ts \<longrightarrow> (m, w) \<in> set gs \<longrightarrow> (m, s) \<in> set rs \<longrightarrow> m \<in> fst ` set cs \<longrightarrow>
      length h0 = length (h @ e) \<longrightarrow> reads U (h0 @ new) w = Some s"
    unfolding fields_copied_def by (cases r) auto
  have keep: "(m, w) \<in> set gs \<longleftrightarrow> (m, w) \<in> set fs" if "m \<notin> fst ` set ((n, c) # cs)" for m w
    using rest[rule_format, of m w] that by (auto simp: assms(4))
  have "reads U (h0 @ e @ new) w = Some s"
    if "(m, U) \<in> set ts" "(m, w) \<in> set gs" "(m, s) \<in> set rs" "m \<in> fst ` set ((n, c) # cs)" "length h0 = length h" for m U w s h0
  proof (cases "m = n")
    case True
    then have "w = v'" "U = T" "s = t"
      using that(1-3) rest[rule_format, OF assms(5)] assms(2) by (auto simp: assms(4))
    then show ?thesis using reads_append[OF assms(6)[OF that(5)], of new] by simp
  next
    case False
    then show ?thesis using rds[rule_format, OF that(1,2,3), of "h0 @ e"] that(4,5) by simp
  qed
  then show ?thesis
    using keep r assms(3) unfolding fields_copied_def by auto
qed

lemma read_fields_update:
  assumes "distinct (map fst ts)" "read_fields ts h fs = Some rs"
    and "(n, T) \<in> set ts" "(n, t) \<in> set rs" "reads T (h @ e) v' = Some t"
  shows "read_fields ts (h @ e) (AList.update n v' fs) = Some rs"
    and "map fst (AList.update n v' fs) = map fst ts"
    and "set (AList.update n v' fs) = insert (n, v') {(m, w) \<in> set fs. m \<noteq> n}"
proof -
  have fs: "map fst fs = map fst ts" "map fst rs = map fst ts"
    and rd: "\<And>m U w s. (m, U) \<in> set ts \<Longrightarrow> (m, w) \<in> set fs \<Longrightarrow> (m, s) \<in> set rs \<Longrightarrow> reads U h w = Some s"
    using assms(2) read_fields_iff[OF assms(1)] by auto
  then have d: "distinct (map fst fs)" "distinct (map fst rs)" "n \<in> fst ` set fs"
    using assms(1) image_eqI[of n fst, OF _ assms(3)] by simp_all (metis set_map)
  show upd: "map fst (AList.update n v' fs) = map fst ts"
    "set (AList.update n v' fs) = insert (n, v') {(m, w) \<in> set fs. m \<noteq> n}"
    using update_field[OF d(1,3), of v'] fs(1) by simp_all
  have "U = T" "s = t" if "(n, U) \<in> set ts" "(n, s) \<in> set rs" for U s
    using that assms(1,3,4) d(2) by (metis eq_key_imp_eq_value)+
  then have "reads U (h @ e) w = Some s"
    if "(m, U) \<in> set ts" "(m, w) \<in> set (AList.update n v' fs)" "(m, s) \<in> set rs" for m U w s
    using that assms(5) reads_append[OF rd[OF that(1) _ that(3)], of w e] by (auto simp: upd(2))
  then show "read_fields ts (h @ e) (AList.update n v' fs) = Some rs"
    using upd(1) fs(2) read_fields_iff[OF assms(1)] by blast
qed

lemma copy_fields_reads:
  assumes "distinct (map fst ts)" "distinct (map fst cs)" "fst ` set cs \<subseteq> fst ` set ts"
    and "\<forall>n c T. (n, c) \<in> set cs \<longrightarrow> (n, T) \<in> set ts \<longrightarrow> copies T c"
    and "read_fields ts h fs = Some rs"
  shows "\<exists>r. copy_fields cs fs h = Some r \<and> fields_copied ts rs cs fs h r"
  using assms(2-5)
proof (induction cs arbitrary: fs h)
  case Nil
  then show ?case by (simp add: fields_copied_def)
next
  case (Cons nc cs)
  obtain n c where nc: "nc = (n, c)" by (cases nc)
  have fs: "map fst fs = map fst ts" "map fst rs = map fst ts"
    and rd: "\<And>m T v t. (m, T) \<in> set ts \<Longrightarrow> (m, v) \<in> set fs \<Longrightarrow> (m, t) \<in> set rs \<Longrightarrow> reads T h v = Some t"
    using Cons.prems(4) read_fields_iff[OF assms(1)] by auto
  have "set (map fst fs) = set (map fst ts)" "set (map fst rs) = set (map fst ts)"
    using fs by (simp_all only:)
  moreover have "n \<in> set (map fst ts)" using Cons.prems(2) by (simp add: nc)
  ultimately have "n \<in> set (map fst ts)" "n \<in> set (map fst fs)" "n \<in> set (map fst rs)" by (simp_all only:)
  then obtain T v t where mem: "(n, T) \<in> set ts" "(n, v) \<in> set fs" "(n, t) \<in> set rs" by auto
  obtain v' e where c: "c v h = Some (v', h @ e)"
    and rv: "\<And>h0. length h0 = length h \<Longrightarrow> reads T (h0 @ e) v' = Some t"
    by (rule copiesE[OF Cons.prems(3)[rule_format, of n c T] rd[OF mem]]) (simp_all add: nc mem(1))
  let ?fs = "AList.update n v' fs"
  note upd = read_fields_update[OF assms(1) Cons.prems(4) mem(1,3) rv[OF refl]]
  have n: "n \<notin> fst ` set cs" using Cons.prems(1) by (simp add: nc)
  have later: "\<forall>n c T. (n, c) \<in> set cs \<longrightarrow> (n, T) \<in> set ts \<longrightarrow> copies T c"
    using Cons.prems(3) by simp
  obtain r where r: "copy_fields cs ?fs (h @ e) = Some r" "fields_copied ts rs cs ?fs (h @ e) r"
    using Cons.IH[OF _ _ later upd(1)] Cons.prems(1,2) by (auto simp: nc)
  have "map_of fs n = Some v" using mem(2) fs(1) assms(1) by (simp add: map_of_eq_Some_iff)
  then have run: "copy_fields (nc # cs) fs h = Some r" using c r(1) by (simp add: nc)
  have "T' = T \<and> t' = t" if "(n, T') \<in> set ts" "(n, t') \<in> set rs" for T' t'
    using that mem(1,3) assms(1) fs(2) by (metis eq_key_imp_eq_value)
  then have "fields_copied ts rs (nc # cs) fs h r"
    unfolding nc using upd(2) fs(1) upd(3) n rv by (intro fields_copied_step[OF r(2)]) simp_all
  with run show ?case by blast
qed

text \<open>Every field is replaced by a copy of its type, or is plain.\<close>

definition fields_ok :: "(string \<times> gtype) list \<Rightarrow> (string \<times> copier) list \<Rightarrow> bool" where
  "fields_ok ts cs \<longleftrightarrow> distinct (map fst ts) \<and> distinct (map fst cs) \<and> list_all (\<lambda>(n, c). n \<in> fst ` set ts) cs \<and>
     list_all (\<lambda>(n, T). case map_of cs n of Some c \<Rightarrow> copies T c | None \<Rightarrow> plain T) ts"

lemma copies_struct [copies_rules]:
  assumes "fields_ok ts cs"
  shows "copies (StructT ts) (struct_copy cs)"
  unfolding copies_def
proof (intro allI impI)
  fix h v t assume "reads (StructT ts) h v = Some t"
  then obtain fs rs where fs: "v = StructV fs" "read_fields ts h fs = Some rs" "t = StructN rs"
    by (auto elim!: reads_StructE simp: eq_commute[of "Some t"])
  have d: "distinct (map fst ts)" "distinct (map fst cs)" "fst ` set cs \<subseteq> fst ` set ts"
    using assms by (auto simp: fields_ok_def list_all_iff)
  have field: "\<forall>n c T. (n, c) \<in> set cs \<longrightarrow> (n, T) \<in> set ts \<longrightarrow> copies T c"
    using assms d(2) by (fastforce simp: fields_ok_def list_all_iff map_of_eq_Some_iff)
  have other: "plain T" if "n \<notin> fst ` set cs" "(n, T) \<in> set ts" for n T
    using assms that by (fastforce simp: fields_ok_def list_all_iff map_of_eq_None_iff[THEN iffD2])
  obtain r where r: "copy_fields cs fs h = Some r" "fields_copied ts rs cs fs h r"
    using copy_fields_reads[OF d field fs(2)] by blast
  from r(2) obtain fs' new where c: "r = (fs', h @ new)" "map fst fs' = map fst fs"
    and rest: "\<forall>n v. n \<notin> fst ` set cs \<longrightarrow> (n, v) \<in> set fs' \<longleftrightarrow> (n, v) \<in> set fs"
    and rd: "\<forall>n T v t h0. (n, T) \<in> set ts \<longrightarrow> (n, v) \<in> set fs' \<longrightarrow> (n, t) \<in> set rs \<longrightarrow> n \<in> fst ` set cs \<longrightarrow>
      length h0 = length h \<longrightarrow> reads T (h0 @ new) v = Some t"
    unfolding fields_copied_def by (cases r) auto
  have old: "map fst fs = map fst ts" "map fst rs = map fst ts"
    "\<And>n T v t. (n, T) \<in> set ts \<Longrightarrow> (n, v) \<in> set fs \<Longrightarrow> (n, t) \<in> set rs \<Longrightarrow> reads T h v = Some t"
    using fs(2) read_fields_iff[OF d(1)] by auto
  have "reads T (h0 @ new) w = Some s"
    if "(n, T) \<in> set ts" "(n, w) \<in> set fs'" "(n, s) \<in> set rs" "length h0 = length h" for n T w s h0
  proof (cases "n \<in> fst ` set cs")
    case False
    then have "(n, w) \<in> set fs" using that(2) rest by simp
    then show ?thesis using old(3) that(1,3) reads_plain[OF other[OF False that(1)]] by metis
  qed (use rd that in blast)
  then have "read_fields ts (h0 @ new) fs' = Some rs" if "length h0 = length h" for h0
    using old c(2) that by (auto simp: read_fields_iff[OF d(1)])
  then show "\<exists>r. struct_copy cs v h = Some r \<and> copied (StructT ts) t h r"
    using fs r(1) c(1) by (simp add: struct_copy_def copied_def)
qed

end
