(* ===== verification/DeepCopies.thy ===== *)
theory DeepCopies
  imports GoStore
begin

text \<open>
  The generated deep copies (\<open>zz_generated.deepcopy.go\<close> of \<open>api/common\<close>, \<open>api/controlplane/v1beta2\<close> and
  \<open>api/infrastructure/v1beta2\<close>) over the store of \<open>GoStore\<close>. \<open>X_T\<close> is the Go type \<open>X\<close> with its fields in the order
  of the type's declaration, \<open>X_DeepCopyInto\<close>, \<open>X_DeepCopy\<close> and \<open>X_DeepCopyObject\<close> its generated functions, statement by
  statement. The types of the Kubernetes and Cluster API modules and their own deep copies are the parameter
  \<open>api_library\<close>. The lemmas check every function against the declaration of its type: a field that holds a reference
  and is not copied makes them unprovable. So the copies the API machinery and the reconcilers work on share nothing
  with the objects they were taken from, which is why the reconcilers' models may treat objects as values.
\<close>

section \<open>The types of other modules\<close>

record api_library =
  lib_TypeMeta :: gtype
  lib_ObjectReference :: gtype
  lib_APIEndpoint :: gtype
  lib_ObjectMeta :: gtype
  lib_ListMeta :: gtype
  lib_Condition :: gtype
  lib_LabelSelector :: gtype
  copy_ObjectMeta :: copier
  copy_ListMeta :: copier
  copy_Condition :: copier
  copy_LabelSelector :: copier

text \<open>Three of them hold no references; the others come with a deep copy.\<close>

definition library_ok :: "api_library \<Rightarrow> bool" where
  "library_ok L \<longleftrightarrow> plain (lib_TypeMeta L) \<and> plain (lib_ObjectReference L) \<and> plain (lib_APIEndpoint L) \<and>
     copies (lib_ObjectMeta L) (copy_ObjectMeta L) \<and> copies (lib_ListMeta L) (copy_ListMeta L) \<and>
     copies (lib_Condition L) (copy_Condition L) \<and> copies (lib_LabelSelector L) (copy_LabelSelector L)"

lemma library_rules [copies_rules]:
  assumes "library_ok L"
  shows "plain (lib_TypeMeta L)" "plain (lib_ObjectReference L)" "plain (lib_APIEndpoint L)"
    "copies (lib_ObjectMeta L) (copy_ObjectMeta L)" "copies (lib_ListMeta L) (copy_ListMeta L)"
    "copies (lib_Condition L) (copy_Condition L)" "copies (lib_LabelSelector L) (copy_LabelSelector L)"
  using assms by (simp_all add: library_ok_def)

text \<open>\<open>if c := in.DeepCopy(); c != nil { return c }; return nil\<close>: a nil pointer becomes a nil interface.\<close>

definition as_object :: "copier \<Rightarrow> copier" where
  "as_object c v h = do { (v', h') \<leftarrow> c v h; if v' \<noteq> NilV then Some (v', h') else Some (NilV, h') }"

lemma copies_as_object [copies_rules]: "copies T c \<Longrightarrow> copies T (as_object c)"
  by (fastforce simp: copies_def as_object_def)

section \<open>Network types (\<open>api/common\<close>)\<close>

text \<open>\<open>Tags.DeepCopyInto\<close> has no check for nil, so a nil map becomes an empty one; \<open>Tags.DeepCopy\<close> and the functions
  of the types with a field of type \<open>Tags\<close> check first.\<close>

definition Tags_T :: gtype where
  "Tags_T = MapT StrT"

definition Tags_DeepCopyInto :: copier where
  "Tags_DeepCopyInto = map_make"

definition Tags_DeepCopy :: copier where
  "Tags_DeepCopy v h = (if v = NilV then Some (NilV, h) else Tags_DeepCopyInto v h)"

definition NatGatewaySpec_T :: gtype where
  "NatGatewaySpec_T = StructT [
     (''Spec'', StrT), (''ResourceID'', StrT), (''EIPResourceID'', StrT)]"

definition NatGatewaySpec_DeepCopyInto :: copier where
  "NatGatewaySpec_DeepCopyInto = struct_copy []"

definition NatGatewaySpec_DeepCopy :: copier where
  "NatGatewaySpec_DeepCopy = ptr_copy NatGatewaySpec_DeepCopyInto"

definition VPC_T :: gtype where
  "VPC_T = StructT [
     (''ID'', StrT), (''Name'', StrT), (''CIDR'', StrT), (''ResourceID'', StrT), (''Description'', StrT),
     (''Tags'', MapT StrT)]"

definition VPC_DeepCopyInto :: copier where
  "VPC_DeepCopyInto = struct_copy [(''Tags'', map_copy)]"

definition VPC_DeepCopy :: copier where
  "VPC_DeepCopy = ptr_copy VPC_DeepCopyInto"

definition Subnet_T :: gtype where
  "Subnet_T = StructT [
     (''ID'', StrT), (''Name'', StrT), (''CIDR'', StrT), (''AvailabilityZone'', StrT), (''Type'', StrT),
     (''NeutronSubnetID'', StrT), (''ResourceID'', StrT)]"

definition Subnet_DeepCopyInto :: copier where
  "Subnet_DeepCopyInto = struct_copy []"

definition Subnet_DeepCopy :: copier where
  "Subnet_DeepCopy = ptr_copy Subnet_DeepCopyInto"

definition SecurityGroupRuleSpec_T :: gtype where
  "SecurityGroupRuleSpec_T = StructT [
     (''Description'', StrT), (''Protocol'', StrT), (''PortRangeMin'', IntT), (''PortRangeMax'', IntT),
     (''RemoteIPPrefix'', StrT), (''RemoteGroupID'', StrT)]"

definition SecurityGroupRuleSpec_DeepCopyInto :: copier where
  "SecurityGroupRuleSpec_DeepCopyInto = struct_copy []"

definition SecurityGroupRuleSpec_DeepCopy :: copier where
  "SecurityGroupRuleSpec_DeepCopy = ptr_copy SecurityGroupRuleSpec_DeepCopyInto"

definition SecurityGroupSpec_T :: gtype where
  "SecurityGroupSpec_T = StructT [
     (''Name'', StrT), (''Ingress'', SliceT SecurityGroupRuleSpec_T),
     (''Egress'', SliceT SecurityGroupRuleSpec_T), (''ResourceID'', StrT)]"

definition SecurityGroupSpec_DeepCopyInto :: copier where
  "SecurityGroupSpec_DeepCopyInto = struct_copy [
     (''Ingress'', slice_copy keep), (''Egress'', slice_copy keep)]"

definition SecurityGroupSpec_DeepCopy :: copier where
  "SecurityGroupSpec_DeepCopy = ptr_copy SecurityGroupSpec_DeepCopyInto"

definition NetworkSpec_T :: gtype where
  "NetworkSpec_T = StructT [
     (''VPC'', VPC_T), (''Subnets'', SliceT Subnet_T), (''NatGateway'', PtrT NatGatewaySpec_T),
     (''SecurityGroup'', PtrT SecurityGroupSpec_T)]"

definition NetworkSpec_DeepCopyInto :: copier where
  "NetworkSpec_DeepCopyInto = struct_copy [
     (''VPC'', VPC_DeepCopyInto), (''Subnets'', slice_copy keep), (''NatGateway'', ptr_copy keep),
     (''SecurityGroup'', ptr_copy SecurityGroupSpec_DeepCopyInto)]"

definition NetworkSpec_DeepCopy :: copier where
  "NetworkSpec_DeepCopy = ptr_copy NetworkSpec_DeepCopyInto"

definition NodeVolume_T :: gtype where
  "NodeVolume_T = StructT [
     (''Size'', IntT), (''Type'', StrT)]"

definition NodeVolume_DeepCopyInto :: copier where
  "NodeVolume_DeepCopyInto = struct_copy []"

definition NodeVolume_DeepCopy :: copier where
  "NodeVolume_DeepCopy = ptr_copy NodeVolume_DeepCopyInto"

section \<open>Control plane types (\<open>api/controlplane\<close>)\<close>

definition AccessPolicySpec_T :: gtype where
  "AccessPolicySpec_T = StructT [
     (''Name'', StrT), (''PolicyType'', StrT), (''PrincipalType'', StrT), (''PrincipalIds'', SliceT StrT),
     (''Namespaces'', SliceT StrT)]"

definition AccessPolicySpec_DeepCopyInto :: copier where
  "AccessPolicySpec_DeepCopyInto = struct_copy [
     (''PrincipalIds'', slice_copy keep), (''Namespaces'', slice_copy keep)]"

definition AccessPolicySpec_DeepCopy :: copier where
  "AccessPolicySpec_DeepCopy = ptr_copy AccessPolicySpec_DeepCopyInto"

definition AddonSpec_T :: gtype where
  "AddonSpec_T = StructT [
     (''Name'', StrT), (''Version'', StrT)]"

definition AddonSpec_DeepCopyInto :: copier where
  "AddonSpec_DeepCopyInto = struct_copy []"

definition AddonSpec_DeepCopy :: copier where
  "AddonSpec_DeepCopy = ptr_copy AddonSpec_DeepCopyInto"

definition AuthenticatingProxySpec_T :: gtype where
  "AuthenticatingProxySpec_T = StructT [
     (''CA'', StrT), (''Cert'', StrT), (''PrivateKey'', StrT)]"

definition AuthenticatingProxySpec_DeepCopyInto :: copier where
  "AuthenticatingProxySpec_DeepCopyInto = struct_copy []"

definition AuthenticatingProxySpec_DeepCopy :: copier where
  "AuthenticatingProxySpec_DeepCopy = ptr_copy AuthenticatingProxySpec_DeepCopyInto"

definition AuthenticationSpec_T :: gtype where
  "AuthenticationSpec_T = StructT [
     (''Mode'', StrT), (''AuthenticatingProxy'', PtrT AuthenticatingProxySpec_T)]"

definition AuthenticationSpec_DeepCopyInto :: copier where
  "AuthenticationSpec_DeepCopyInto = struct_copy [(''AuthenticatingProxy'', ptr_copy keep)]"

definition AuthenticationSpec_DeepCopy :: copier where
  "AuthenticationSpec_DeepCopy = ptr_copy AuthenticationSpec_DeepCopyInto"

definition BillingSpec_T :: gtype where
  "BillingSpec_T = StructT [
     (''Mode'', IntT)]"

definition BillingSpec_DeepCopyInto :: copier where
  "BillingSpec_DeepCopyInto = struct_copy []"

definition BillingSpec_DeepCopy :: copier where
  "BillingSpec_DeepCopy = ptr_copy BillingSpec_DeepCopyInto"

definition ContainerNetworkSpec_T :: gtype where
  "ContainerNetworkSpec_T = StructT [
     (''Mode'', StrT), (''CIDR'', StrT), (''CIDRs'', SliceT StrT), (''ENISubnets'', SliceT StrT)]"

definition ContainerNetworkSpec_DeepCopyInto :: copier where
  "ContainerNetworkSpec_DeepCopyInto = struct_copy [
     (''CIDRs'', slice_copy keep), (''ENISubnets'', slice_copy keep)]"

definition ContainerNetworkSpec_DeepCopy :: copier where
  "ContainerNetworkSpec_DeepCopy = ptr_copy ContainerNetworkSpec_DeepCopyInto"

definition ServiceNetworkSpec_T :: gtype where
  "ServiceNetworkSpec_T = StructT [
     (''CIDR'', StrT), (''IPv6CIDR'', StrT)]"

definition ServiceNetworkSpec_DeepCopyInto :: copier where
  "ServiceNetworkSpec_DeepCopyInto = struct_copy []"

definition ServiceNetworkSpec_DeepCopy :: copier where
  "ServiceNetworkSpec_DeepCopy = ptr_copy ServiceNetworkSpec_DeepCopyInto"

definition EndpointAccessSpec_T :: gtype where
  "EndpointAccessSpec_T = StructT [
     (''Public'', BoolT), (''Private'', BoolT), (''CIDRs'', SliceT StrT)]"

definition EndpointAccessSpec_DeepCopyInto :: copier where
  "EndpointAccessSpec_DeepCopyInto = struct_copy [(''CIDRs'', slice_copy keep)]"

definition EndpointAccessSpec_DeepCopy :: copier where
  "EndpointAccessSpec_DeepCopy = ptr_copy EndpointAccessSpec_DeepCopyInto"

definition PodIdentityAssociationSpec_T :: gtype where
  "PodIdentityAssociationSpec_T = StructT [
     (''Namespace'', StrT), (''ServiceAccount'', StrT), (''AgencyName'', StrT)]"

definition PodIdentityAssociationSpec_DeepCopyInto :: copier where
  "PodIdentityAssociationSpec_DeepCopyInto = struct_copy []"

definition PodIdentityAssociationSpec_DeepCopy :: copier where
  "PodIdentityAssociationSpec_DeepCopy = ptr_copy PodIdentityAssociationSpec_DeepCopyInto"

definition ControlPlaneLogSpec_T :: gtype where
  "ControlPlaneLogSpec_T = StructT [
     (''Name'', StrT), (''Type'', StrT), (''Enable'', BoolT)]"

definition ControlPlaneLogSpec_DeepCopyInto :: copier where
  "ControlPlaneLogSpec_DeepCopyInto = struct_copy []"

definition ControlPlaneLogSpec_DeepCopy :: copier where
  "ControlPlaneLogSpec_DeepCopy = ptr_copy ControlPlaneLogSpec_DeepCopyInto"

definition ControlPlaneLoggingSpec_T :: gtype where
  "ControlPlaneLoggingSpec_T = StructT [
     (''TTLInDays'', IntT), (''Logs'', SliceT ControlPlaneLogSpec_T)]"

definition ControlPlaneLoggingSpec_DeepCopyInto :: copier where
  "ControlPlaneLoggingSpec_DeepCopyInto = struct_copy [(''Logs'', slice_copy keep)]"

definition ControlPlaneLoggingSpec_DeepCopy :: copier where
  "ControlPlaneLoggingSpec_DeepCopy = ptr_copy ControlPlaneLoggingSpec_DeepCopyInto"

definition EncryptionConfigSpec_T :: gtype where
  "EncryptionConfigSpec_T = StructT [
     (''Mode'', StrT)]"

definition EncryptionConfigSpec_DeepCopyInto :: copier where
  "EncryptionConfigSpec_DeepCopyInto = struct_copy []"

definition EncryptionConfigSpec_DeepCopy :: copier where
  "EncryptionConfigSpec_DeepCopy = ptr_copy EncryptionConfigSpec_DeepCopyInto"

definition CCEManagedControlPlaneSpec_T :: "api_library \<Rightarrow> gtype" where
  "CCEManagedControlPlaneSpec_T L = StructT [
     (''ClusterName'', StrT), (''Version'', StrT), (''Category'', StrT), (''Flavor'', StrT),
     (''ContainerNetwork'', ContainerNetworkSpec_T), (''ServiceNetwork'', ServiceNetworkSpec_T),
     (''Ipv6Enable'', PtrT BoolT), (''EnableAutopilot'', PtrT BoolT), (''EnableDataPlaneV2'', PtrT BoolT),
     (''CustomSan'', SliceT StrT), (''EndpointAccess'', EndpointAccessSpec_T), (''AgencyName'', StrT),
     (''AgencyTrustPolicy'', StrT), (''IdentityRef'', PtrT (lib_ObjectReference L)),
     (''Billing'', BillingSpec_T), (''Addons'', SliceT AddonSpec_T),
     (''PodIdentityAssociations'', SliceT PodIdentityAssociationSpec_T),
     (''Logging'', PtrT ControlPlaneLoggingSpec_T), (''AccessPolicies'', SliceT AccessPolicySpec_T),
     (''EncryptionConfig'', PtrT EncryptionConfigSpec_T), (''Authentication'', PtrT AuthenticationSpec_T),
     (''ControlPlaneEndpoint'', PtrT (lib_APIEndpoint L)), (''AdditionalTags'', MapT StrT)]"

definition CCEManagedControlPlaneSpec_DeepCopyInto :: copier where
  "CCEManagedControlPlaneSpec_DeepCopyInto = struct_copy [
     (''ContainerNetwork'', ContainerNetworkSpec_DeepCopyInto), (''ServiceNetwork'', keep),
     (''Ipv6Enable'', ptr_copy keep), (''EnableAutopilot'', ptr_copy keep),
     (''EnableDataPlaneV2'', ptr_copy keep), (''CustomSan'', slice_copy keep),
     (''EndpointAccess'', EndpointAccessSpec_DeepCopyInto), (''IdentityRef'', ptr_copy keep),
     (''Billing'', keep), (''Addons'', slice_copy keep), (''PodIdentityAssociations'', slice_copy keep),
     (''Logging'', ptr_copy ControlPlaneLoggingSpec_DeepCopyInto),
     (''AccessPolicies'', slice_copy AccessPolicySpec_DeepCopyInto), (''EncryptionConfig'', ptr_copy keep),
     (''Authentication'', ptr_copy AuthenticationSpec_DeepCopyInto), (''ControlPlaneEndpoint'', ptr_copy keep),
     (''AdditionalTags'', map_copy)]"

definition CCEManagedControlPlaneSpec_DeepCopy :: copier where
  "CCEManagedControlPlaneSpec_DeepCopy = ptr_copy CCEManagedControlPlaneSpec_DeepCopyInto"

definition ControlPlaneInitializationStatus_T :: gtype where
  "ControlPlaneInitializationStatus_T = StructT [
     (''ControlPlaneInitialized'', BoolT)]"

definition ControlPlaneInitializationStatus_DeepCopyInto :: copier where
  "ControlPlaneInitializationStatus_DeepCopyInto = struct_copy []"

definition ControlPlaneInitializationStatus_DeepCopy :: copier where
  "ControlPlaneInitializationStatus_DeepCopy = ptr_copy ControlPlaneInitializationStatus_DeepCopyInto"

definition CCEManagedControlPlaneStatus_T :: "api_library \<Rightarrow> gtype" where
  "CCEManagedControlPlaneStatus_T L = StructT [
     (''Ready'', BoolT), (''Initialization'', ControlPlaneInitializationStatus_T), (''Initialized'', BoolT),
     (''ClusterID'', StrT), (''ControlPlaneEndpoint'', PtrT (lib_APIEndpoint L)),
     (''KubeconfigSecretName'', StrT), (''ControlPlaneEIPID'', StrT), (''Version'', StrT),
     (''UpgradeTaskID'', StrT), (''ObservedGeneration'', IntT), (''Addons'', SliceT StrT),
     (''AccessPolicies'', SliceT StrT), (''Conditions'', SliceT (lib_Condition L))]"

definition CCEManagedControlPlaneStatus_DeepCopyInto :: "api_library \<Rightarrow> copier" where
  "CCEManagedControlPlaneStatus_DeepCopyInto L = struct_copy [
     (''Initialization'', keep), (''ControlPlaneEndpoint'', ptr_copy keep), (''Addons'', slice_copy keep),
     (''AccessPolicies'', slice_copy keep), (''Conditions'', slice_copy (copy_Condition L))]"

definition CCEManagedControlPlaneStatus_DeepCopy :: "api_library \<Rightarrow> copier" where
  "CCEManagedControlPlaneStatus_DeepCopy L = ptr_copy (CCEManagedControlPlaneStatus_DeepCopyInto L)"

definition CCEManagedControlPlane_T :: "api_library \<Rightarrow> gtype" where
  "CCEManagedControlPlane_T L = StructT [
     (''TypeMeta'', lib_TypeMeta L), (''ObjectMeta'', lib_ObjectMeta L),
     (''Spec'', CCEManagedControlPlaneSpec_T L), (''Status'', CCEManagedControlPlaneStatus_T L)]"

definition CCEManagedControlPlane_DeepCopyInto :: "api_library \<Rightarrow> copier" where
  "CCEManagedControlPlane_DeepCopyInto L = struct_copy [
     (''TypeMeta'', keep), (''ObjectMeta'', copy_ObjectMeta L),
     (''Spec'', CCEManagedControlPlaneSpec_DeepCopyInto),
     (''Status'', CCEManagedControlPlaneStatus_DeepCopyInto L)]"

definition CCEManagedControlPlane_DeepCopy :: "api_library \<Rightarrow> copier" where
  "CCEManagedControlPlane_DeepCopy L = ptr_copy (CCEManagedControlPlane_DeepCopyInto L)"

definition CCEManagedControlPlane_DeepCopyObject :: "api_library \<Rightarrow> copier" where
  "CCEManagedControlPlane_DeepCopyObject L = as_object (CCEManagedControlPlane_DeepCopy L)"

definition CCEManagedControlPlaneList_T :: "api_library \<Rightarrow> gtype" where
  "CCEManagedControlPlaneList_T L = StructT [
     (''TypeMeta'', lib_TypeMeta L), (''ListMeta'', lib_ListMeta L),
     (''Items'', SliceT (CCEManagedControlPlane_T L))]"

definition CCEManagedControlPlaneList_DeepCopyInto :: "api_library \<Rightarrow> copier" where
  "CCEManagedControlPlaneList_DeepCopyInto L = struct_copy [
     (''TypeMeta'', keep), (''ListMeta'', copy_ListMeta L),
     (''Items'', slice_copy (CCEManagedControlPlane_DeepCopyInto L))]"

definition CCEManagedControlPlaneList_DeepCopy :: "api_library \<Rightarrow> copier" where
  "CCEManagedControlPlaneList_DeepCopy L = ptr_copy (CCEManagedControlPlaneList_DeepCopyInto L)"

definition CCEManagedControlPlaneList_DeepCopyObject :: "api_library \<Rightarrow> copier" where
  "CCEManagedControlPlaneList_DeepCopyObject L = as_object (CCEManagedControlPlaneList_DeepCopy L)"

definition CCEManagedControlPlaneTemplateResource_T :: "api_library \<Rightarrow> gtype" where
  "CCEManagedControlPlaneTemplateResource_T L = StructT [
     (''Spec'', CCEManagedControlPlaneSpec_T L)]"

definition CCEManagedControlPlaneTemplateResource_DeepCopyInto :: copier where
  "CCEManagedControlPlaneTemplateResource_DeepCopyInto = struct_copy [(''Spec'', CCEManagedControlPlaneSpec_DeepCopyInto)]"

definition CCEManagedControlPlaneTemplateResource_DeepCopy :: copier where
  "CCEManagedControlPlaneTemplateResource_DeepCopy = ptr_copy CCEManagedControlPlaneTemplateResource_DeepCopyInto"

definition CCEManagedControlPlaneTemplateSpec_T :: "api_library \<Rightarrow> gtype" where
  "CCEManagedControlPlaneTemplateSpec_T L = StructT [
     (''Template'', CCEManagedControlPlaneTemplateResource_T L)]"

definition CCEManagedControlPlaneTemplateSpec_DeepCopyInto :: copier where
  "CCEManagedControlPlaneTemplateSpec_DeepCopyInto = struct_copy [
     (''Template'', CCEManagedControlPlaneTemplateResource_DeepCopyInto)]"

definition CCEManagedControlPlaneTemplateSpec_DeepCopy :: copier where
  "CCEManagedControlPlaneTemplateSpec_DeepCopy = ptr_copy CCEManagedControlPlaneTemplateSpec_DeepCopyInto"

definition CCEManagedControlPlaneTemplate_T :: "api_library \<Rightarrow> gtype" where
  "CCEManagedControlPlaneTemplate_T L = StructT [
     (''TypeMeta'', lib_TypeMeta L), (''ObjectMeta'', lib_ObjectMeta L),
     (''Spec'', CCEManagedControlPlaneTemplateSpec_T L)]"

definition CCEManagedControlPlaneTemplate_DeepCopyInto :: "api_library \<Rightarrow> copier" where
  "CCEManagedControlPlaneTemplate_DeepCopyInto L = struct_copy [
     (''TypeMeta'', keep), (''ObjectMeta'', copy_ObjectMeta L),
     (''Spec'', CCEManagedControlPlaneTemplateSpec_DeepCopyInto)]"

definition CCEManagedControlPlaneTemplate_DeepCopy :: "api_library \<Rightarrow> copier" where
  "CCEManagedControlPlaneTemplate_DeepCopy L = ptr_copy (CCEManagedControlPlaneTemplate_DeepCopyInto L)"

definition CCEManagedControlPlaneTemplate_DeepCopyObject :: "api_library \<Rightarrow> copier" where
  "CCEManagedControlPlaneTemplate_DeepCopyObject L = as_object (CCEManagedControlPlaneTemplate_DeepCopy L)"

definition CCEManagedControlPlaneTemplateList_T :: "api_library \<Rightarrow> gtype" where
  "CCEManagedControlPlaneTemplateList_T L = StructT [
     (''TypeMeta'', lib_TypeMeta L), (''ListMeta'', lib_ListMeta L),
     (''Items'', SliceT (CCEManagedControlPlaneTemplate_T L))]"

definition CCEManagedControlPlaneTemplateList_DeepCopyInto :: "api_library \<Rightarrow> copier" where
  "CCEManagedControlPlaneTemplateList_DeepCopyInto L = struct_copy [
     (''TypeMeta'', keep), (''ListMeta'', copy_ListMeta L),
     (''Items'', slice_copy (CCEManagedControlPlaneTemplate_DeepCopyInto L))]"

definition CCEManagedControlPlaneTemplateList_DeepCopy :: "api_library \<Rightarrow> copier" where
  "CCEManagedControlPlaneTemplateList_DeepCopy L = ptr_copy (CCEManagedControlPlaneTemplateList_DeepCopyInto L)"

definition CCEManagedControlPlaneTemplateList_DeepCopyObject :: "api_library \<Rightarrow> copier" where
  "CCEManagedControlPlaneTemplateList_DeepCopyObject L = as_object (CCEManagedControlPlaneTemplateList_DeepCopy L)"

section \<open>Infrastructure types (\<open>api/infrastructure\<close>)\<close>

definition AllowedNamespaces_T :: "api_library \<Rightarrow> gtype" where
  "AllowedNamespaces_T L = StructT [
     (''NamespaceList'', SliceT StrT), (''Selector'', lib_LabelSelector L)]"

definition AllowedNamespaces_DeepCopyInto :: "api_library \<Rightarrow> copier" where
  "AllowedNamespaces_DeepCopyInto L = struct_copy [
     (''NamespaceList'', slice_copy keep), (''Selector'', copy_LabelSelector L)]"

definition AllowedNamespaces_DeepCopy :: "api_library \<Rightarrow> copier" where
  "AllowedNamespaces_DeepCopy L = ptr_copy (AllowedNamespaces_DeepCopyInto L)"

definition AutoscalingSpec_T :: gtype where
  "AutoscalingSpec_T = StructT [
     (''Enable'', BoolT), (''MinNodeCount'', IntT), (''MaxNodeCount'', IntT)]"

definition AutoscalingSpec_DeepCopyInto :: copier where
  "AutoscalingSpec_DeepCopyInto = struct_copy []"

definition AutoscalingSpec_DeepCopy :: copier where
  "AutoscalingSpec_DeepCopy = ptr_copy AutoscalingSpec_DeepCopyInto"

definition CCEClusterSpec_T :: gtype where
  "CCEClusterSpec_T = StructT [
     (''Region'', StrT), (''Network'', NetworkSpec_T)]"

definition CCEClusterSpec_DeepCopyInto :: copier where
  "CCEClusterSpec_DeepCopyInto = struct_copy [(''Network'', NetworkSpec_DeepCopyInto)]"

definition CCEClusterSpec_DeepCopy :: copier where
  "CCEClusterSpec_DeepCopy = ptr_copy CCEClusterSpec_DeepCopyInto"

definition ClusterInitializationStatus_T :: gtype where
  "ClusterInitializationStatus_T = StructT [
     (''Provisioned'', BoolT)]"

definition ClusterInitializationStatus_DeepCopyInto :: copier where
  "ClusterInitializationStatus_DeepCopyInto = struct_copy []"

definition ClusterInitializationStatus_DeepCopy :: copier where
  "ClusterInitializationStatus_DeepCopy = ptr_copy ClusterInitializationStatus_DeepCopyInto"

definition CCEClusterStatus_T :: "api_library \<Rightarrow> gtype" where
  "CCEClusterStatus_T L = StructT [
     (''Ready'', BoolT), (''Initialization'', ClusterInitializationStatus_T), (''ClusterID'', StrT),
     (''Conditions'', SliceT (lib_Condition L))]"

definition CCEClusterStatus_DeepCopyInto :: "api_library \<Rightarrow> copier" where
  "CCEClusterStatus_DeepCopyInto L = struct_copy [
     (''Initialization'', keep), (''Conditions'', slice_copy (copy_Condition L))]"

definition CCEClusterStatus_DeepCopy :: "api_library \<Rightarrow> copier" where
  "CCEClusterStatus_DeepCopy L = ptr_copy (CCEClusterStatus_DeepCopyInto L)"

definition CCECluster_T :: "api_library \<Rightarrow> gtype" where
  "CCECluster_T L = StructT [
     (''TypeMeta'', lib_TypeMeta L), (''ObjectMeta'', lib_ObjectMeta L), (''Spec'', CCEClusterSpec_T),
     (''Status'', CCEClusterStatus_T L)]"

definition CCECluster_DeepCopyInto :: "api_library \<Rightarrow> copier" where
  "CCECluster_DeepCopyInto L = struct_copy [
     (''TypeMeta'', keep), (''ObjectMeta'', copy_ObjectMeta L), (''Spec'', CCEClusterSpec_DeepCopyInto),
     (''Status'', CCEClusterStatus_DeepCopyInto L)]"

definition CCECluster_DeepCopy :: "api_library \<Rightarrow> copier" where
  "CCECluster_DeepCopy L = ptr_copy (CCECluster_DeepCopyInto L)"

definition CCECluster_DeepCopyObject :: "api_library \<Rightarrow> copier" where
  "CCECluster_DeepCopyObject L = as_object (CCECluster_DeepCopy L)"

definition CCEClusterControllerIdentitySpec_T :: "api_library \<Rightarrow> gtype" where
  "CCEClusterControllerIdentitySpec_T L = StructT [
     (''AllowedNamespaces'', PtrT (AllowedNamespaces_T L))]"

definition CCEClusterControllerIdentitySpec_DeepCopyInto :: "api_library \<Rightarrow> copier" where
  "CCEClusterControllerIdentitySpec_DeepCopyInto L = struct_copy [
     (''AllowedNamespaces'', ptr_copy (AllowedNamespaces_DeepCopyInto L))]"

definition CCEClusterControllerIdentitySpec_DeepCopy :: "api_library \<Rightarrow> copier" where
  "CCEClusterControllerIdentitySpec_DeepCopy L = ptr_copy (CCEClusterControllerIdentitySpec_DeepCopyInto L)"

definition CCEClusterControllerIdentity_T :: "api_library \<Rightarrow> gtype" where
  "CCEClusterControllerIdentity_T L = StructT [
     (''TypeMeta'', lib_TypeMeta L), (''ObjectMeta'', lib_ObjectMeta L),
     (''Spec'', CCEClusterControllerIdentitySpec_T L)]"

definition CCEClusterControllerIdentity_DeepCopyInto :: "api_library \<Rightarrow> copier" where
  "CCEClusterControllerIdentity_DeepCopyInto L = struct_copy [
     (''TypeMeta'', keep), (''ObjectMeta'', copy_ObjectMeta L),
     (''Spec'', CCEClusterControllerIdentitySpec_DeepCopyInto L)]"

definition CCEClusterControllerIdentity_DeepCopy :: "api_library \<Rightarrow> copier" where
  "CCEClusterControllerIdentity_DeepCopy L = ptr_copy (CCEClusterControllerIdentity_DeepCopyInto L)"

definition CCEClusterControllerIdentity_DeepCopyObject :: "api_library \<Rightarrow> copier" where
  "CCEClusterControllerIdentity_DeepCopyObject L = as_object (CCEClusterControllerIdentity_DeepCopy L)"

definition CCEClusterControllerIdentityList_T :: "api_library \<Rightarrow> gtype" where
  "CCEClusterControllerIdentityList_T L = StructT [
     (''TypeMeta'', lib_TypeMeta L), (''ListMeta'', lib_ListMeta L),
     (''Items'', SliceT (CCEClusterControllerIdentity_T L))]"

definition CCEClusterControllerIdentityList_DeepCopyInto :: "api_library \<Rightarrow> copier" where
  "CCEClusterControllerIdentityList_DeepCopyInto L = struct_copy [
     (''TypeMeta'', keep), (''ListMeta'', copy_ListMeta L),
     (''Items'', slice_copy (CCEClusterControllerIdentity_DeepCopyInto L))]"

definition CCEClusterControllerIdentityList_DeepCopy :: "api_library \<Rightarrow> copier" where
  "CCEClusterControllerIdentityList_DeepCopy L = ptr_copy (CCEClusterControllerIdentityList_DeepCopyInto L)"

definition CCEClusterControllerIdentityList_DeepCopyObject :: "api_library \<Rightarrow> copier" where
  "CCEClusterControllerIdentityList_DeepCopyObject L = as_object (CCEClusterControllerIdentityList_DeepCopy L)"

definition CCEClusterList_T :: "api_library \<Rightarrow> gtype" where
  "CCEClusterList_T L = StructT [
     (''TypeMeta'', lib_TypeMeta L), (''ListMeta'', lib_ListMeta L), (''Items'', SliceT (CCECluster_T L))]"

definition CCEClusterList_DeepCopyInto :: "api_library \<Rightarrow> copier" where
  "CCEClusterList_DeepCopyInto L = struct_copy [
     (''TypeMeta'', keep), (''ListMeta'', copy_ListMeta L), (''Items'', slice_copy (CCECluster_DeepCopyInto L))]"

definition CCEClusterList_DeepCopy :: "api_library \<Rightarrow> copier" where
  "CCEClusterList_DeepCopy L = ptr_copy (CCEClusterList_DeepCopyInto L)"

definition CCEClusterList_DeepCopyObject :: "api_library \<Rightarrow> copier" where
  "CCEClusterList_DeepCopyObject L = as_object (CCEClusterList_DeepCopy L)"

definition CCEClusterRoleIdentitySpec_T :: "api_library \<Rightarrow> gtype" where
  "CCEClusterRoleIdentitySpec_T L = StructT [
     (''AgencyName'', StrT), (''AllowedNamespaces'', PtrT (AllowedNamespaces_T L))]"

definition CCEClusterRoleIdentitySpec_DeepCopyInto :: "api_library \<Rightarrow> copier" where
  "CCEClusterRoleIdentitySpec_DeepCopyInto L = struct_copy [
     (''AllowedNamespaces'', ptr_copy (AllowedNamespaces_DeepCopyInto L))]"

definition CCEClusterRoleIdentitySpec_DeepCopy :: "api_library \<Rightarrow> copier" where
  "CCEClusterRoleIdentitySpec_DeepCopy L = ptr_copy (CCEClusterRoleIdentitySpec_DeepCopyInto L)"

definition CCEClusterRoleIdentity_T :: "api_library \<Rightarrow> gtype" where
  "CCEClusterRoleIdentity_T L = StructT [
     (''TypeMeta'', lib_TypeMeta L), (''ObjectMeta'', lib_ObjectMeta L),
     (''Spec'', CCEClusterRoleIdentitySpec_T L)]"

definition CCEClusterRoleIdentity_DeepCopyInto :: "api_library \<Rightarrow> copier" where
  "CCEClusterRoleIdentity_DeepCopyInto L = struct_copy [
     (''TypeMeta'', keep), (''ObjectMeta'', copy_ObjectMeta L),
     (''Spec'', CCEClusterRoleIdentitySpec_DeepCopyInto L)]"

definition CCEClusterRoleIdentity_DeepCopy :: "api_library \<Rightarrow> copier" where
  "CCEClusterRoleIdentity_DeepCopy L = ptr_copy (CCEClusterRoleIdentity_DeepCopyInto L)"

definition CCEClusterRoleIdentity_DeepCopyObject :: "api_library \<Rightarrow> copier" where
  "CCEClusterRoleIdentity_DeepCopyObject L = as_object (CCEClusterRoleIdentity_DeepCopy L)"

definition CCEClusterRoleIdentityList_T :: "api_library \<Rightarrow> gtype" where
  "CCEClusterRoleIdentityList_T L = StructT [
     (''TypeMeta'', lib_TypeMeta L), (''ListMeta'', lib_ListMeta L),
     (''Items'', SliceT (CCEClusterRoleIdentity_T L))]"

definition CCEClusterRoleIdentityList_DeepCopyInto :: "api_library \<Rightarrow> copier" where
  "CCEClusterRoleIdentityList_DeepCopyInto L = struct_copy [
     (''TypeMeta'', keep), (''ListMeta'', copy_ListMeta L),
     (''Items'', slice_copy (CCEClusterRoleIdentity_DeepCopyInto L))]"

definition CCEClusterRoleIdentityList_DeepCopy :: "api_library \<Rightarrow> copier" where
  "CCEClusterRoleIdentityList_DeepCopy L = ptr_copy (CCEClusterRoleIdentityList_DeepCopyInto L)"

definition CCEClusterRoleIdentityList_DeepCopyObject :: "api_library \<Rightarrow> copier" where
  "CCEClusterRoleIdentityList_DeepCopyObject L = as_object (CCEClusterRoleIdentityList_DeepCopy L)"

definition CCEClusterStaticIdentitySpec_T :: "api_library \<Rightarrow> gtype" where
  "CCEClusterStaticIdentitySpec_T L = StructT [
     (''SecretRef'', StrT), (''AllowedNamespaces'', PtrT (AllowedNamespaces_T L))]"

definition CCEClusterStaticIdentitySpec_DeepCopyInto :: "api_library \<Rightarrow> copier" where
  "CCEClusterStaticIdentitySpec_DeepCopyInto L = struct_copy [
     (''AllowedNamespaces'', ptr_copy (AllowedNamespaces_DeepCopyInto L))]"

definition CCEClusterStaticIdentitySpec_DeepCopy :: "api_library \<Rightarrow> copier" where
  "CCEClusterStaticIdentitySpec_DeepCopy L = ptr_copy (CCEClusterStaticIdentitySpec_DeepCopyInto L)"

definition CCEClusterStaticIdentity_T :: "api_library \<Rightarrow> gtype" where
  "CCEClusterStaticIdentity_T L = StructT [
     (''TypeMeta'', lib_TypeMeta L), (''ObjectMeta'', lib_ObjectMeta L),
     (''Spec'', CCEClusterStaticIdentitySpec_T L)]"

definition CCEClusterStaticIdentity_DeepCopyInto :: "api_library \<Rightarrow> copier" where
  "CCEClusterStaticIdentity_DeepCopyInto L = struct_copy [
     (''TypeMeta'', keep), (''ObjectMeta'', copy_ObjectMeta L),
     (''Spec'', CCEClusterStaticIdentitySpec_DeepCopyInto L)]"

definition CCEClusterStaticIdentity_DeepCopy :: "api_library \<Rightarrow> copier" where
  "CCEClusterStaticIdentity_DeepCopy L = ptr_copy (CCEClusterStaticIdentity_DeepCopyInto L)"

definition CCEClusterStaticIdentity_DeepCopyObject :: "api_library \<Rightarrow> copier" where
  "CCEClusterStaticIdentity_DeepCopyObject L = as_object (CCEClusterStaticIdentity_DeepCopy L)"

definition CCEClusterStaticIdentityList_T :: "api_library \<Rightarrow> gtype" where
  "CCEClusterStaticIdentityList_T L = StructT [
     (''TypeMeta'', lib_TypeMeta L), (''ListMeta'', lib_ListMeta L),
     (''Items'', SliceT (CCEClusterStaticIdentity_T L))]"

definition CCEClusterStaticIdentityList_DeepCopyInto :: "api_library \<Rightarrow> copier" where
  "CCEClusterStaticIdentityList_DeepCopyInto L = struct_copy [
     (''TypeMeta'', keep), (''ListMeta'', copy_ListMeta L),
     (''Items'', slice_copy (CCEClusterStaticIdentity_DeepCopyInto L))]"

definition CCEClusterStaticIdentityList_DeepCopy :: "api_library \<Rightarrow> copier" where
  "CCEClusterStaticIdentityList_DeepCopy L = ptr_copy (CCEClusterStaticIdentityList_DeepCopyInto L)"

definition CCEClusterStaticIdentityList_DeepCopyObject :: "api_library \<Rightarrow> copier" where
  "CCEClusterStaticIdentityList_DeepCopyObject L = as_object (CCEClusterStaticIdentityList_DeepCopy L)"

definition CCEClusterTemplateResource_T :: gtype where
  "CCEClusterTemplateResource_T = StructT [
     (''Spec'', CCEClusterSpec_T)]"

definition CCEClusterTemplateResource_DeepCopyInto :: copier where
  "CCEClusterTemplateResource_DeepCopyInto = struct_copy [(''Spec'', CCEClusterSpec_DeepCopyInto)]"

definition CCEClusterTemplateResource_DeepCopy :: copier where
  "CCEClusterTemplateResource_DeepCopy = ptr_copy CCEClusterTemplateResource_DeepCopyInto"

definition CCEClusterTemplateSpec_T :: gtype where
  "CCEClusterTemplateSpec_T = StructT [
     (''Template'', CCEClusterTemplateResource_T)]"

definition CCEClusterTemplateSpec_DeepCopyInto :: copier where
  "CCEClusterTemplateSpec_DeepCopyInto = struct_copy [(''Template'', CCEClusterTemplateResource_DeepCopyInto)]"

definition CCEClusterTemplateSpec_DeepCopy :: copier where
  "CCEClusterTemplateSpec_DeepCopy = ptr_copy CCEClusterTemplateSpec_DeepCopyInto"

definition CCEClusterTemplate_T :: "api_library \<Rightarrow> gtype" where
  "CCEClusterTemplate_T L = StructT [
     (''TypeMeta'', lib_TypeMeta L), (''ObjectMeta'', lib_ObjectMeta L), (''Spec'', CCEClusterTemplateSpec_T)]"

definition CCEClusterTemplate_DeepCopyInto :: "api_library \<Rightarrow> copier" where
  "CCEClusterTemplate_DeepCopyInto L = struct_copy [
     (''TypeMeta'', keep), (''ObjectMeta'', copy_ObjectMeta L), (''Spec'', CCEClusterTemplateSpec_DeepCopyInto)]"

definition CCEClusterTemplate_DeepCopy :: "api_library \<Rightarrow> copier" where
  "CCEClusterTemplate_DeepCopy L = ptr_copy (CCEClusterTemplate_DeepCopyInto L)"

definition CCEClusterTemplate_DeepCopyObject :: "api_library \<Rightarrow> copier" where
  "CCEClusterTemplate_DeepCopyObject L = as_object (CCEClusterTemplate_DeepCopy L)"

definition CCEClusterTemplateList_T :: "api_library \<Rightarrow> gtype" where
  "CCEClusterTemplateList_T L = StructT [
     (''TypeMeta'', lib_TypeMeta L), (''ListMeta'', lib_ListMeta L),
     (''Items'', SliceT (CCEClusterTemplate_T L))]"

definition CCEClusterTemplateList_DeepCopyInto :: "api_library \<Rightarrow> copier" where
  "CCEClusterTemplateList_DeepCopyInto L = struct_copy [
     (''TypeMeta'', keep), (''ListMeta'', copy_ListMeta L),
     (''Items'', slice_copy (CCEClusterTemplate_DeepCopyInto L))]"

definition CCEClusterTemplateList_DeepCopy :: "api_library \<Rightarrow> copier" where
  "CCEClusterTemplateList_DeepCopy L = ptr_copy (CCEClusterTemplateList_DeepCopyInto L)"

definition CCEClusterTemplateList_DeepCopyObject :: "api_library \<Rightarrow> copier" where
  "CCEClusterTemplateList_DeepCopyObject L = as_object (CCEClusterTemplateList_DeepCopy L)"

definition ExtensionScaleGroupSpec_T :: gtype where
  "ExtensionScaleGroupSpec_T = StructT [
     (''Name'', StrT), (''Flavor'', StrT), (''AvailabilityZone'', StrT)]"

definition ExtensionScaleGroupSpec_DeepCopyInto :: copier where
  "ExtensionScaleGroupSpec_DeepCopyInto = struct_copy []"

definition ExtensionScaleGroupSpec_DeepCopy :: copier where
  "ExtensionScaleGroupSpec_DeepCopy = ptr_copy ExtensionScaleGroupSpec_DeepCopyInto"

definition UpdateConfigSpec_T :: gtype where
  "UpdateConfigSpec_T = StructT [
     (''MaxUnavailable'', IntT)]"

definition UpdateConfigSpec_DeepCopyInto :: copier where
  "UpdateConfigSpec_DeepCopyInto = struct_copy []"

definition UpdateConfigSpec_DeepCopy :: copier where
  "UpdateConfigSpec_DeepCopy = ptr_copy UpdateConfigSpec_DeepCopyInto"

definition NodeRepairSpec_T :: gtype where
  "NodeRepairSpec_T = StructT [
     (''Enabled'', BoolT)]"

definition NodeRepairSpec_DeepCopyInto :: copier where
  "NodeRepairSpec_DeepCopyInto = struct_copy []"

definition NodeRepairSpec_DeepCopy :: copier where
  "NodeRepairSpec_DeepCopy = ptr_copy NodeRepairSpec_DeepCopyInto"

definition CCEManagedMachinePoolSpec_T :: gtype where
  "CCEManagedMachinePoolSpec_T = StructT [
     (''ClusterName'', StrT), (''NodePoolName'', StrT), (''Flavor'', StrT), (''OS'', StrT),
     (''RootVolume'', PtrT NodeVolume_T), (''DataVolumes'', SliceT NodeVolume_T), (''SSHKey'', StrT),
     (''AvailabilityZone'', StrT), (''Replicas'', IntT), (''ProviderIDList'', SliceT StrT),
     (''BillingMode'', IntT), (''Spot'', BoolT), (''SpotPrice'', StrT),
     (''ExtensionScaleGroups'', SliceT ExtensionScaleGroupSpec_T), (''Taints'', SliceT StrT),
     (''Labels'', MapT StrT), (''SecurityGroups'', SliceT StrT), (''Autoscaling'', AutoscalingSpec_T),
     (''UpdateConfig'', UpdateConfigSpec_T), (''NodeRepair'', PtrT NodeRepairSpec_T), (''EcsGroupID'', StrT),
     (''FaultDomain'', StrT), (''DedicatedHostID'', StrT), (''PreInstall'', StrT), (''PostInstall'', StrT),
     (''WaitPostInstallFinish'', PtrT BoolT), (''AdditionalTags'', MapT StrT)]"

definition CCEManagedMachinePoolSpec_DeepCopyInto :: copier where
  "CCEManagedMachinePoolSpec_DeepCopyInto = struct_copy [
     (''RootVolume'', ptr_copy keep), (''DataVolumes'', slice_copy keep), (''ProviderIDList'', slice_copy keep),
     (''ExtensionScaleGroups'', slice_copy keep), (''Taints'', slice_copy keep), (''Labels'', map_copy),
     (''SecurityGroups'', slice_copy keep), (''Autoscaling'', keep), (''UpdateConfig'', keep),
     (''NodeRepair'', ptr_copy keep), (''WaitPostInstallFinish'', ptr_copy keep), (''AdditionalTags'', map_copy)]"

definition CCEManagedMachinePoolSpec_DeepCopy :: copier where
  "CCEManagedMachinePoolSpec_DeepCopy = ptr_copy CCEManagedMachinePoolSpec_DeepCopyInto"

definition CCEManagedMachinePoolStatus_T :: "api_library \<Rightarrow> gtype" where
  "CCEManagedMachinePoolStatus_T L = StructT [
     (''Ready'', BoolT), (''Replicas'', IntT), (''AvailableReplicas'', IntT), (''NodePoolID'', StrT),
     (''LastAppliedSecurityGroups'', SliceT StrT), (''LastAppliedAutoscaling'', AutoscalingSpec_T),
     (''ObservedGeneration'', IntT), (''Conditions'', SliceT (lib_Condition L))]"

definition CCEManagedMachinePoolStatus_DeepCopyInto :: "api_library \<Rightarrow> copier" where
  "CCEManagedMachinePoolStatus_DeepCopyInto L = struct_copy [
     (''LastAppliedSecurityGroups'', slice_copy keep), (''LastAppliedAutoscaling'', keep),
     (''Conditions'', slice_copy (copy_Condition L))]"

definition CCEManagedMachinePoolStatus_DeepCopy :: "api_library \<Rightarrow> copier" where
  "CCEManagedMachinePoolStatus_DeepCopy L = ptr_copy (CCEManagedMachinePoolStatus_DeepCopyInto L)"

definition CCEManagedMachinePool_T :: "api_library \<Rightarrow> gtype" where
  "CCEManagedMachinePool_T L = StructT [
     (''TypeMeta'', lib_TypeMeta L), (''ObjectMeta'', lib_ObjectMeta L), (''Spec'', CCEManagedMachinePoolSpec_T),
     (''Status'', CCEManagedMachinePoolStatus_T L)]"

definition CCEManagedMachinePool_DeepCopyInto :: "api_library \<Rightarrow> copier" where
  "CCEManagedMachinePool_DeepCopyInto L = struct_copy [
     (''TypeMeta'', keep), (''ObjectMeta'', copy_ObjectMeta L),
     (''Spec'', CCEManagedMachinePoolSpec_DeepCopyInto),
     (''Status'', CCEManagedMachinePoolStatus_DeepCopyInto L)]"

definition CCEManagedMachinePool_DeepCopy :: "api_library \<Rightarrow> copier" where
  "CCEManagedMachinePool_DeepCopy L = ptr_copy (CCEManagedMachinePool_DeepCopyInto L)"

definition CCEManagedMachinePool_DeepCopyObject :: "api_library \<Rightarrow> copier" where
  "CCEManagedMachinePool_DeepCopyObject L = as_object (CCEManagedMachinePool_DeepCopy L)"

definition CCEManagedMachinePoolList_T :: "api_library \<Rightarrow> gtype" where
  "CCEManagedMachinePoolList_T L = StructT [
     (''TypeMeta'', lib_TypeMeta L), (''ListMeta'', lib_ListMeta L),
     (''Items'', SliceT (CCEManagedMachinePool_T L))]"

definition CCEManagedMachinePoolList_DeepCopyInto :: "api_library \<Rightarrow> copier" where
  "CCEManagedMachinePoolList_DeepCopyInto L = struct_copy [
     (''TypeMeta'', keep), (''ListMeta'', copy_ListMeta L),
     (''Items'', slice_copy (CCEManagedMachinePool_DeepCopyInto L))]"

definition CCEManagedMachinePoolList_DeepCopy :: "api_library \<Rightarrow> copier" where
  "CCEManagedMachinePoolList_DeepCopy L = ptr_copy (CCEManagedMachinePoolList_DeepCopyInto L)"

definition CCEManagedMachinePoolList_DeepCopyObject :: "api_library \<Rightarrow> copier" where
  "CCEManagedMachinePoolList_DeepCopyObject L = as_object (CCEManagedMachinePoolList_DeepCopy L)"

definition CCEManagedMachinePoolTemplateResource_T :: gtype where
  "CCEManagedMachinePoolTemplateResource_T = StructT [
     (''Spec'', CCEManagedMachinePoolSpec_T)]"

definition CCEManagedMachinePoolTemplateResource_DeepCopyInto :: copier where
  "CCEManagedMachinePoolTemplateResource_DeepCopyInto = struct_copy [(''Spec'', CCEManagedMachinePoolSpec_DeepCopyInto)]"

definition CCEManagedMachinePoolTemplateResource_DeepCopy :: copier where
  "CCEManagedMachinePoolTemplateResource_DeepCopy = ptr_copy CCEManagedMachinePoolTemplateResource_DeepCopyInto"

definition CCEManagedMachinePoolTemplateSpec_T :: gtype where
  "CCEManagedMachinePoolTemplateSpec_T = StructT [
     (''Template'', CCEManagedMachinePoolTemplateResource_T)]"

definition CCEManagedMachinePoolTemplateSpec_DeepCopyInto :: copier where
  "CCEManagedMachinePoolTemplateSpec_DeepCopyInto = struct_copy [
     (''Template'', CCEManagedMachinePoolTemplateResource_DeepCopyInto)]"

definition CCEManagedMachinePoolTemplateSpec_DeepCopy :: copier where
  "CCEManagedMachinePoolTemplateSpec_DeepCopy = ptr_copy CCEManagedMachinePoolTemplateSpec_DeepCopyInto"

definition CCEManagedMachinePoolTemplate_T :: "api_library \<Rightarrow> gtype" where
  "CCEManagedMachinePoolTemplate_T L = StructT [
     (''TypeMeta'', lib_TypeMeta L), (''ObjectMeta'', lib_ObjectMeta L),
     (''Spec'', CCEManagedMachinePoolTemplateSpec_T)]"

definition CCEManagedMachinePoolTemplate_DeepCopyInto :: "api_library \<Rightarrow> copier" where
  "CCEManagedMachinePoolTemplate_DeepCopyInto L = struct_copy [
     (''TypeMeta'', keep), (''ObjectMeta'', copy_ObjectMeta L),
     (''Spec'', CCEManagedMachinePoolTemplateSpec_DeepCopyInto)]"

definition CCEManagedMachinePoolTemplate_DeepCopy :: "api_library \<Rightarrow> copier" where
  "CCEManagedMachinePoolTemplate_DeepCopy L = ptr_copy (CCEManagedMachinePoolTemplate_DeepCopyInto L)"

definition CCEManagedMachinePoolTemplate_DeepCopyObject :: "api_library \<Rightarrow> copier" where
  "CCEManagedMachinePoolTemplate_DeepCopyObject L = as_object (CCEManagedMachinePoolTemplate_DeepCopy L)"

definition CCEManagedMachinePoolTemplateList_T :: "api_library \<Rightarrow> gtype" where
  "CCEManagedMachinePoolTemplateList_T L = StructT [
     (''TypeMeta'', lib_TypeMeta L), (''ListMeta'', lib_ListMeta L),
     (''Items'', SliceT (CCEManagedMachinePoolTemplate_T L))]"

definition CCEManagedMachinePoolTemplateList_DeepCopyInto :: "api_library \<Rightarrow> copier" where
  "CCEManagedMachinePoolTemplateList_DeepCopyInto L = struct_copy [
     (''TypeMeta'', keep), (''ListMeta'', copy_ListMeta L),
     (''Items'', slice_copy (CCEManagedMachinePoolTemplate_DeepCopyInto L))]"

definition CCEManagedMachinePoolTemplateList_DeepCopy :: "api_library \<Rightarrow> copier" where
  "CCEManagedMachinePoolTemplateList_DeepCopy L = ptr_copy (CCEManagedMachinePoolTemplateList_DeepCopyInto L)"

definition CCEManagedMachinePoolTemplateList_DeepCopyObject :: "api_library \<Rightarrow> copier" where
  "CCEManagedMachinePoolTemplateList_DeepCopyObject L = as_object (CCEManagedMachinePoolTemplateList_DeepCopy L)"

section \<open>Every function copies its type\<close>

lemma plain_types [copies_rules]:
  "plain NatGatewaySpec_T"
  "plain Subnet_T"
  "plain SecurityGroupRuleSpec_T"
  "plain NodeVolume_T"
  "plain AddonSpec_T"
  "plain AuthenticatingProxySpec_T"
  "plain BillingSpec_T"
  "plain ServiceNetworkSpec_T"
  "plain PodIdentityAssociationSpec_T"
  "plain ControlPlaneLogSpec_T"
  "plain EncryptionConfigSpec_T"
  "plain ControlPlaneInitializationStatus_T"
  "plain AutoscalingSpec_T"
  "plain ClusterInitializationStatus_T"
  "plain ExtensionScaleGroupSpec_T"
  "plain UpdateConfigSpec_T"
  "plain NodeRepairSpec_T"
  by (simp_all add: NatGatewaySpec_T_def Subnet_T_def SecurityGroupRuleSpec_T_def NodeVolume_T_def AddonSpec_T_def AuthenticatingProxySpec_T_def BillingSpec_T_def ServiceNetworkSpec_T_def PodIdentityAssociationSpec_T_def ControlPlaneLogSpec_T_def EncryptionConfigSpec_T_def ControlPlaneInitializationStatus_T_def AutoscalingSpec_T_def ClusterInitializationStatus_T_def ExtensionScaleGroupSpec_T_def UpdateConfigSpec_T_def NodeRepairSpec_T_def)

lemma copies_types_0 [copies_rules]:
  "copies NatGatewaySpec_T NatGatewaySpec_DeepCopyInto"
  "copies VPC_T VPC_DeepCopyInto"
  "copies Subnet_T Subnet_DeepCopyInto"
  "copies SecurityGroupRuleSpec_T SecurityGroupRuleSpec_DeepCopyInto"
  "copies SecurityGroupSpec_T SecurityGroupSpec_DeepCopyInto"
  "copies NodeVolume_T NodeVolume_DeepCopyInto"
  "copies AccessPolicySpec_T AccessPolicySpec_DeepCopyInto"
  "copies AddonSpec_T AddonSpec_DeepCopyInto"
  "copies AuthenticatingProxySpec_T AuthenticatingProxySpec_DeepCopyInto"
  "copies AuthenticationSpec_T AuthenticationSpec_DeepCopyInto"
  "copies BillingSpec_T BillingSpec_DeepCopyInto"
  "copies ContainerNetworkSpec_T ContainerNetworkSpec_DeepCopyInto"
  "copies ServiceNetworkSpec_T ServiceNetworkSpec_DeepCopyInto"
  "copies EndpointAccessSpec_T EndpointAccessSpec_DeepCopyInto"
  "copies PodIdentityAssociationSpec_T PodIdentityAssociationSpec_DeepCopyInto"
  "copies ControlPlaneLogSpec_T ControlPlaneLogSpec_DeepCopyInto"
  "copies ControlPlaneLoggingSpec_T ControlPlaneLoggingSpec_DeepCopyInto"
  "copies EncryptionConfigSpec_T EncryptionConfigSpec_DeepCopyInto"
  "copies ControlPlaneInitializationStatus_T ControlPlaneInitializationStatus_DeepCopyInto"
  "copies AutoscalingSpec_T AutoscalingSpec_DeepCopyInto"
  "copies ClusterInitializationStatus_T ClusterInitializationStatus_DeepCopyInto"
  "copies ExtensionScaleGroupSpec_T ExtensionScaleGroupSpec_DeepCopyInto"
  "copies UpdateConfigSpec_T UpdateConfigSpec_DeepCopyInto"
  "copies NodeRepairSpec_T NodeRepairSpec_DeepCopyInto"
  "copies CCEManagedMachinePoolSpec_T CCEManagedMachinePoolSpec_DeepCopyInto"
  by (simp_all add: fields_ok_def copies_rules
      NatGatewaySpec_T_def NatGatewaySpec_DeepCopyInto_def VPC_T_def VPC_DeepCopyInto_def Subnet_T_def
      Subnet_DeepCopyInto_def SecurityGroupRuleSpec_T_def SecurityGroupRuleSpec_DeepCopyInto_def
      SecurityGroupSpec_T_def SecurityGroupSpec_DeepCopyInto_def NodeVolume_T_def
      NodeVolume_DeepCopyInto_def AccessPolicySpec_T_def AccessPolicySpec_DeepCopyInto_def AddonSpec_T_def
      AddonSpec_DeepCopyInto_def AuthenticatingProxySpec_T_def AuthenticatingProxySpec_DeepCopyInto_def
      AuthenticationSpec_T_def AuthenticationSpec_DeepCopyInto_def BillingSpec_T_def
      BillingSpec_DeepCopyInto_def ContainerNetworkSpec_T_def ContainerNetworkSpec_DeepCopyInto_def
      ServiceNetworkSpec_T_def ServiceNetworkSpec_DeepCopyInto_def EndpointAccessSpec_T_def
      EndpointAccessSpec_DeepCopyInto_def PodIdentityAssociationSpec_T_def
      PodIdentityAssociationSpec_DeepCopyInto_def ControlPlaneLogSpec_T_def
      ControlPlaneLogSpec_DeepCopyInto_def ControlPlaneLoggingSpec_T_def
      ControlPlaneLoggingSpec_DeepCopyInto_def EncryptionConfigSpec_T_def
      EncryptionConfigSpec_DeepCopyInto_def ControlPlaneInitializationStatus_T_def
      ControlPlaneInitializationStatus_DeepCopyInto_def AutoscalingSpec_T_def
      AutoscalingSpec_DeepCopyInto_def ClusterInitializationStatus_T_def
      ClusterInitializationStatus_DeepCopyInto_def ExtensionScaleGroupSpec_T_def
      ExtensionScaleGroupSpec_DeepCopyInto_def UpdateConfigSpec_T_def UpdateConfigSpec_DeepCopyInto_def
      NodeRepairSpec_T_def NodeRepairSpec_DeepCopyInto_def CCEManagedMachinePoolSpec_T_def
      CCEManagedMachinePoolSpec_DeepCopyInto_def)

lemma copies_objects_0 [copies_rules]:
  assumes "library_ok L"
  shows "copies (CCEManagedControlPlaneStatus_T L) (CCEManagedControlPlaneStatus_DeepCopyInto L)"
    "copies (AllowedNamespaces_T L) (AllowedNamespaces_DeepCopyInto L)"
    "copies (CCEClusterStatus_T L) (CCEClusterStatus_DeepCopyInto L)"
    "copies (CCEManagedMachinePoolStatus_T L) (CCEManagedMachinePoolStatus_DeepCopyInto L)"
  using assms
  by (simp_all add: fields_ok_def copies_rules
      CCEManagedControlPlaneStatus_T_def CCEManagedControlPlaneStatus_DeepCopyInto_def
      AllowedNamespaces_T_def AllowedNamespaces_DeepCopyInto_def CCEClusterStatus_T_def
      CCEClusterStatus_DeepCopyInto_def CCEManagedMachinePoolStatus_T_def
      CCEManagedMachinePoolStatus_DeepCopyInto_def)

lemma copies_types_1 [copies_rules]:
  "copies NetworkSpec_T NetworkSpec_DeepCopyInto"
  "copies CCEManagedMachinePoolTemplateResource_T CCEManagedMachinePoolTemplateResource_DeepCopyInto"
  by (simp_all add: fields_ok_def copies_rules
      NetworkSpec_T_def NetworkSpec_DeepCopyInto_def CCEManagedMachinePoolTemplateResource_T_def
      CCEManagedMachinePoolTemplateResource_DeepCopyInto_def)

lemma copies_objects_1 [copies_rules]:
  assumes "library_ok L"
  shows "copies (CCEManagedControlPlaneSpec_T L) CCEManagedControlPlaneSpec_DeepCopyInto"
    "copies (CCEClusterControllerIdentitySpec_T L) (CCEClusterControllerIdentitySpec_DeepCopyInto L)"
    "copies (CCEClusterRoleIdentitySpec_T L) (CCEClusterRoleIdentitySpec_DeepCopyInto L)"
    "copies (CCEClusterStaticIdentitySpec_T L) (CCEClusterStaticIdentitySpec_DeepCopyInto L)"
    "copies (CCEManagedMachinePool_T L) (CCEManagedMachinePool_DeepCopyInto L)"
  using assms
  by (simp_all add: fields_ok_def copies_rules
      CCEManagedControlPlaneSpec_T_def CCEManagedControlPlaneSpec_DeepCopyInto_def
      CCEClusterControllerIdentitySpec_T_def CCEClusterControllerIdentitySpec_DeepCopyInto_def
      CCEClusterRoleIdentitySpec_T_def CCEClusterRoleIdentitySpec_DeepCopyInto_def
      CCEClusterStaticIdentitySpec_T_def CCEClusterStaticIdentitySpec_DeepCopyInto_def
      CCEManagedMachinePool_T_def CCEManagedMachinePool_DeepCopyInto_def)

lemma copies_types_2 [copies_rules]:
  "copies CCEClusterSpec_T CCEClusterSpec_DeepCopyInto"
  "copies CCEManagedMachinePoolTemplateSpec_T CCEManagedMachinePoolTemplateSpec_DeepCopyInto"
  by (simp_all add: fields_ok_def copies_rules
      CCEClusterSpec_T_def CCEClusterSpec_DeepCopyInto_def CCEManagedMachinePoolTemplateSpec_T_def
      CCEManagedMachinePoolTemplateSpec_DeepCopyInto_def)

lemma copies_objects_2 [copies_rules]:
  assumes "library_ok L"
  shows "copies (CCEManagedControlPlane_T L) (CCEManagedControlPlane_DeepCopyInto L)"
    "copies (CCEManagedControlPlaneTemplateResource_T L) CCEManagedControlPlaneTemplateResource_DeepCopyInto"
    "copies (CCEClusterControllerIdentity_T L) (CCEClusterControllerIdentity_DeepCopyInto L)"
    "copies (CCEClusterRoleIdentity_T L) (CCEClusterRoleIdentity_DeepCopyInto L)"
    "copies (CCEClusterStaticIdentity_T L) (CCEClusterStaticIdentity_DeepCopyInto L)"
    "copies (CCEManagedMachinePoolList_T L) (CCEManagedMachinePoolList_DeepCopyInto L)"
  using assms
  by (simp_all add: fields_ok_def copies_rules
      CCEManagedControlPlane_T_def CCEManagedControlPlane_DeepCopyInto_def
      CCEManagedControlPlaneTemplateResource_T_def CCEManagedControlPlaneTemplateResource_DeepCopyInto_def
      CCEClusterControllerIdentity_T_def CCEClusterControllerIdentity_DeepCopyInto_def
      CCEClusterRoleIdentity_T_def CCEClusterRoleIdentity_DeepCopyInto_def CCEClusterStaticIdentity_T_def
      CCEClusterStaticIdentity_DeepCopyInto_def CCEManagedMachinePoolList_T_def
      CCEManagedMachinePoolList_DeepCopyInto_def)

lemma copies_types_3 [copies_rules]:
  "copies CCEClusterTemplateResource_T CCEClusterTemplateResource_DeepCopyInto"
  by (simp_all add: fields_ok_def copies_rules
      CCEClusterTemplateResource_T_def CCEClusterTemplateResource_DeepCopyInto_def)

lemma copies_objects_3 [copies_rules]:
  assumes "library_ok L"
  shows "copies (CCEManagedControlPlaneList_T L) (CCEManagedControlPlaneList_DeepCopyInto L)"
    "copies (CCEManagedControlPlaneTemplateSpec_T L) CCEManagedControlPlaneTemplateSpec_DeepCopyInto"
    "copies (CCECluster_T L) (CCECluster_DeepCopyInto L)"
    "copies (CCEClusterControllerIdentityList_T L) (CCEClusterControllerIdentityList_DeepCopyInto L)"
    "copies (CCEClusterRoleIdentityList_T L) (CCEClusterRoleIdentityList_DeepCopyInto L)"
    "copies (CCEClusterStaticIdentityList_T L) (CCEClusterStaticIdentityList_DeepCopyInto L)"
    "copies (CCEManagedMachinePoolTemplate_T L) (CCEManagedMachinePoolTemplate_DeepCopyInto L)"
  using assms
  by (simp_all add: fields_ok_def copies_rules
      CCEManagedControlPlaneList_T_def CCEManagedControlPlaneList_DeepCopyInto_def
      CCEManagedControlPlaneTemplateSpec_T_def CCEManagedControlPlaneTemplateSpec_DeepCopyInto_def
      CCECluster_T_def CCECluster_DeepCopyInto_def CCEClusterControllerIdentityList_T_def
      CCEClusterControllerIdentityList_DeepCopyInto_def CCEClusterRoleIdentityList_T_def
      CCEClusterRoleIdentityList_DeepCopyInto_def CCEClusterStaticIdentityList_T_def
      CCEClusterStaticIdentityList_DeepCopyInto_def CCEManagedMachinePoolTemplate_T_def
      CCEManagedMachinePoolTemplate_DeepCopyInto_def)

lemma copies_types_4 [copies_rules]:
  "copies CCEClusterTemplateSpec_T CCEClusterTemplateSpec_DeepCopyInto"
  by (simp_all add: fields_ok_def copies_rules
      CCEClusterTemplateSpec_T_def CCEClusterTemplateSpec_DeepCopyInto_def)

lemma copies_objects_4 [copies_rules]:
  assumes "library_ok L"
  shows "copies (CCEManagedControlPlaneTemplate_T L) (CCEManagedControlPlaneTemplate_DeepCopyInto L)"
    "copies (CCEClusterList_T L) (CCEClusterList_DeepCopyInto L)"
    "copies (CCEManagedMachinePoolTemplateList_T L) (CCEManagedMachinePoolTemplateList_DeepCopyInto L)"
  using assms
  by (simp_all add: fields_ok_def copies_rules
      CCEManagedControlPlaneTemplate_T_def CCEManagedControlPlaneTemplate_DeepCopyInto_def
      CCEClusterList_T_def CCEClusterList_DeepCopyInto_def CCEManagedMachinePoolTemplateList_T_def
      CCEManagedMachinePoolTemplateList_DeepCopyInto_def)

lemma copies_objects_5 [copies_rules]:
  assumes "library_ok L"
  shows "copies (CCEManagedControlPlaneTemplateList_T L) (CCEManagedControlPlaneTemplateList_DeepCopyInto L)"
    "copies (CCEClusterTemplate_T L) (CCEClusterTemplate_DeepCopyInto L)"
  using assms
  by (simp_all add: fields_ok_def copies_rules
      CCEManagedControlPlaneTemplateList_T_def CCEManagedControlPlaneTemplateList_DeepCopyInto_def
      CCEClusterTemplate_T_def CCEClusterTemplate_DeepCopyInto_def)

lemma copies_objects_6 [copies_rules]:
  assumes "library_ok L"
  shows "copies (CCEClusterTemplateList_T L) (CCEClusterTemplateList_DeepCopyInto L)"
  using assms
  by (simp_all add: fields_ok_def copies_rules
      CCEClusterTemplateList_T_def CCEClusterTemplateList_DeepCopyInto_def)

section \<open>No copy shares memory with its original\<close>

text \<open>The generated functions whose copy reads the same as its original: all but one.\<close>

definition exact_copies :: "api_library \<Rightarrow> (gtype \<times> copier) list" where
  "exact_copies L = [(Tags_T, Tags_DeepCopy),
     (NatGatewaySpec_T, NatGatewaySpec_DeepCopyInto), (VPC_T, VPC_DeepCopyInto), (Subnet_T, Subnet_DeepCopyInto),
     (SecurityGroupRuleSpec_T, SecurityGroupRuleSpec_DeepCopyInto),
     (SecurityGroupSpec_T, SecurityGroupSpec_DeepCopyInto), (NetworkSpec_T, NetworkSpec_DeepCopyInto),
     (NodeVolume_T, NodeVolume_DeepCopyInto), (AccessPolicySpec_T, AccessPolicySpec_DeepCopyInto),
     (AddonSpec_T, AddonSpec_DeepCopyInto), (AuthenticatingProxySpec_T, AuthenticatingProxySpec_DeepCopyInto),
     (AuthenticationSpec_T, AuthenticationSpec_DeepCopyInto), (BillingSpec_T, BillingSpec_DeepCopyInto),
     (ContainerNetworkSpec_T, ContainerNetworkSpec_DeepCopyInto),
     (ServiceNetworkSpec_T, ServiceNetworkSpec_DeepCopyInto), (EndpointAccessSpec_T, EndpointAccessSpec_DeepCopyInto),
     (PodIdentityAssociationSpec_T, PodIdentityAssociationSpec_DeepCopyInto),
     (ControlPlaneLogSpec_T, ControlPlaneLogSpec_DeepCopyInto),
     (ControlPlaneLoggingSpec_T, ControlPlaneLoggingSpec_DeepCopyInto),
     (EncryptionConfigSpec_T, EncryptionConfigSpec_DeepCopyInto),
     (CCEManagedControlPlaneSpec_T L, CCEManagedControlPlaneSpec_DeepCopyInto),
     (ControlPlaneInitializationStatus_T, ControlPlaneInitializationStatus_DeepCopyInto),
     (CCEManagedControlPlaneStatus_T L, CCEManagedControlPlaneStatus_DeepCopyInto L),
     (CCEManagedControlPlane_T L, CCEManagedControlPlane_DeepCopyInto L),
     (CCEManagedControlPlaneList_T L, CCEManagedControlPlaneList_DeepCopyInto L),
     (CCEManagedControlPlaneTemplateResource_T L, CCEManagedControlPlaneTemplateResource_DeepCopyInto),
     (CCEManagedControlPlaneTemplateSpec_T L, CCEManagedControlPlaneTemplateSpec_DeepCopyInto),
     (CCEManagedControlPlaneTemplate_T L, CCEManagedControlPlaneTemplate_DeepCopyInto L),
     (CCEManagedControlPlaneTemplateList_T L, CCEManagedControlPlaneTemplateList_DeepCopyInto L),
     (AllowedNamespaces_T L, AllowedNamespaces_DeepCopyInto L), (AutoscalingSpec_T, AutoscalingSpec_DeepCopyInto),
     (CCEClusterSpec_T, CCEClusterSpec_DeepCopyInto),
     (ClusterInitializationStatus_T, ClusterInitializationStatus_DeepCopyInto),
     (CCEClusterStatus_T L, CCEClusterStatus_DeepCopyInto L), (CCECluster_T L, CCECluster_DeepCopyInto L),
     (CCEClusterControllerIdentitySpec_T L, CCEClusterControllerIdentitySpec_DeepCopyInto L),
     (CCEClusterControllerIdentity_T L, CCEClusterControllerIdentity_DeepCopyInto L),
     (CCEClusterControllerIdentityList_T L, CCEClusterControllerIdentityList_DeepCopyInto L),
     (CCEClusterList_T L, CCEClusterList_DeepCopyInto L),
     (CCEClusterRoleIdentitySpec_T L, CCEClusterRoleIdentitySpec_DeepCopyInto L),
     (CCEClusterRoleIdentity_T L, CCEClusterRoleIdentity_DeepCopyInto L),
     (CCEClusterRoleIdentityList_T L, CCEClusterRoleIdentityList_DeepCopyInto L),
     (CCEClusterStaticIdentitySpec_T L, CCEClusterStaticIdentitySpec_DeepCopyInto L),
     (CCEClusterStaticIdentity_T L, CCEClusterStaticIdentity_DeepCopyInto L),
     (CCEClusterStaticIdentityList_T L, CCEClusterStaticIdentityList_DeepCopyInto L),
     (CCEClusterTemplateResource_T, CCEClusterTemplateResource_DeepCopyInto),
     (CCEClusterTemplateSpec_T, CCEClusterTemplateSpec_DeepCopyInto),
     (CCEClusterTemplate_T L, CCEClusterTemplate_DeepCopyInto L),
     (CCEClusterTemplateList_T L, CCEClusterTemplateList_DeepCopyInto L),
     (ExtensionScaleGroupSpec_T, ExtensionScaleGroupSpec_DeepCopyInto),
     (UpdateConfigSpec_T, UpdateConfigSpec_DeepCopyInto), (NodeRepairSpec_T, NodeRepairSpec_DeepCopyInto),
     (CCEManagedMachinePoolSpec_T, CCEManagedMachinePoolSpec_DeepCopyInto),
     (CCEManagedMachinePoolStatus_T L, CCEManagedMachinePoolStatus_DeepCopyInto L),
     (CCEManagedMachinePool_T L, CCEManagedMachinePool_DeepCopyInto L),
     (CCEManagedMachinePoolList_T L, CCEManagedMachinePoolList_DeepCopyInto L),
     (CCEManagedMachinePoolTemplateResource_T, CCEManagedMachinePoolTemplateResource_DeepCopyInto),
     (CCEManagedMachinePoolTemplateSpec_T, CCEManagedMachinePoolTemplateSpec_DeepCopyInto),
     (CCEManagedMachinePoolTemplate_T L, CCEManagedMachinePoolTemplate_DeepCopyInto L),
     (CCEManagedMachinePoolTemplateList_T L, CCEManagedMachinePoolTemplateList_DeepCopyInto L),
     (PtrT NatGatewaySpec_T, NatGatewaySpec_DeepCopy), (PtrT VPC_T, VPC_DeepCopy), (PtrT Subnet_T, Subnet_DeepCopy),
     (PtrT SecurityGroupRuleSpec_T, SecurityGroupRuleSpec_DeepCopy),
     (PtrT SecurityGroupSpec_T, SecurityGroupSpec_DeepCopy), (PtrT NetworkSpec_T, NetworkSpec_DeepCopy),
     (PtrT NodeVolume_T, NodeVolume_DeepCopy), (PtrT AccessPolicySpec_T, AccessPolicySpec_DeepCopy),
     (PtrT AddonSpec_T, AddonSpec_DeepCopy), (PtrT AuthenticatingProxySpec_T, AuthenticatingProxySpec_DeepCopy),
     (PtrT AuthenticationSpec_T, AuthenticationSpec_DeepCopy), (PtrT BillingSpec_T, BillingSpec_DeepCopy),
     (PtrT ContainerNetworkSpec_T, ContainerNetworkSpec_DeepCopy),
     (PtrT ServiceNetworkSpec_T, ServiceNetworkSpec_DeepCopy),
     (PtrT EndpointAccessSpec_T, EndpointAccessSpec_DeepCopy),
     (PtrT PodIdentityAssociationSpec_T, PodIdentityAssociationSpec_DeepCopy),
     (PtrT ControlPlaneLogSpec_T, ControlPlaneLogSpec_DeepCopy),
     (PtrT ControlPlaneLoggingSpec_T, ControlPlaneLoggingSpec_DeepCopy),
     (PtrT EncryptionConfigSpec_T, EncryptionConfigSpec_DeepCopy),
     (PtrT (CCEManagedControlPlaneSpec_T L), CCEManagedControlPlaneSpec_DeepCopy),
     (PtrT ControlPlaneInitializationStatus_T, ControlPlaneInitializationStatus_DeepCopy),
     (PtrT (CCEManagedControlPlaneStatus_T L), CCEManagedControlPlaneStatus_DeepCopy L),
     (PtrT (CCEManagedControlPlane_T L), CCEManagedControlPlane_DeepCopy L),
     (PtrT (CCEManagedControlPlaneList_T L), CCEManagedControlPlaneList_DeepCopy L),
     (PtrT (CCEManagedControlPlaneTemplateResource_T L), CCEManagedControlPlaneTemplateResource_DeepCopy),
     (PtrT (CCEManagedControlPlaneTemplateSpec_T L), CCEManagedControlPlaneTemplateSpec_DeepCopy),
     (PtrT (CCEManagedControlPlaneTemplate_T L), CCEManagedControlPlaneTemplate_DeepCopy L),
     (PtrT (CCEManagedControlPlaneTemplateList_T L), CCEManagedControlPlaneTemplateList_DeepCopy L),
     (PtrT (AllowedNamespaces_T L), AllowedNamespaces_DeepCopy L), (PtrT AutoscalingSpec_T, AutoscalingSpec_DeepCopy),
     (PtrT CCEClusterSpec_T, CCEClusterSpec_DeepCopy),
     (PtrT ClusterInitializationStatus_T, ClusterInitializationStatus_DeepCopy),
     (PtrT (CCEClusterStatus_T L), CCEClusterStatus_DeepCopy L), (PtrT (CCECluster_T L), CCECluster_DeepCopy L),
     (PtrT (CCEClusterControllerIdentitySpec_T L), CCEClusterControllerIdentitySpec_DeepCopy L),
     (PtrT (CCEClusterControllerIdentity_T L), CCEClusterControllerIdentity_DeepCopy L),
     (PtrT (CCEClusterControllerIdentityList_T L), CCEClusterControllerIdentityList_DeepCopy L),
     (PtrT (CCEClusterList_T L), CCEClusterList_DeepCopy L),
     (PtrT (CCEClusterRoleIdentitySpec_T L), CCEClusterRoleIdentitySpec_DeepCopy L),
     (PtrT (CCEClusterRoleIdentity_T L), CCEClusterRoleIdentity_DeepCopy L),
     (PtrT (CCEClusterRoleIdentityList_T L), CCEClusterRoleIdentityList_DeepCopy L),
     (PtrT (CCEClusterStaticIdentitySpec_T L), CCEClusterStaticIdentitySpec_DeepCopy L),
     (PtrT (CCEClusterStaticIdentity_T L), CCEClusterStaticIdentity_DeepCopy L),
     (PtrT (CCEClusterStaticIdentityList_T L), CCEClusterStaticIdentityList_DeepCopy L),
     (PtrT CCEClusterTemplateResource_T, CCEClusterTemplateResource_DeepCopy),
     (PtrT CCEClusterTemplateSpec_T, CCEClusterTemplateSpec_DeepCopy),
     (PtrT (CCEClusterTemplate_T L), CCEClusterTemplate_DeepCopy L),
     (PtrT (CCEClusterTemplateList_T L), CCEClusterTemplateList_DeepCopy L),
     (PtrT ExtensionScaleGroupSpec_T, ExtensionScaleGroupSpec_DeepCopy),
     (PtrT UpdateConfigSpec_T, UpdateConfigSpec_DeepCopy), (PtrT NodeRepairSpec_T, NodeRepairSpec_DeepCopy),
     (PtrT CCEManagedMachinePoolSpec_T, CCEManagedMachinePoolSpec_DeepCopy),
     (PtrT (CCEManagedMachinePoolStatus_T L), CCEManagedMachinePoolStatus_DeepCopy L),
     (PtrT (CCEManagedMachinePool_T L), CCEManagedMachinePool_DeepCopy L),
     (PtrT (CCEManagedMachinePoolList_T L), CCEManagedMachinePoolList_DeepCopy L),
     (PtrT CCEManagedMachinePoolTemplateResource_T, CCEManagedMachinePoolTemplateResource_DeepCopy),
     (PtrT CCEManagedMachinePoolTemplateSpec_T, CCEManagedMachinePoolTemplateSpec_DeepCopy),
     (PtrT (CCEManagedMachinePoolTemplate_T L), CCEManagedMachinePoolTemplate_DeepCopy L),
     (PtrT (CCEManagedMachinePoolTemplateList_T L), CCEManagedMachinePoolTemplateList_DeepCopy L),
     (PtrT (CCEManagedControlPlane_T L), CCEManagedControlPlane_DeepCopyObject L),
     (PtrT (CCEManagedControlPlaneList_T L), CCEManagedControlPlaneList_DeepCopyObject L),
     (PtrT (CCEManagedControlPlaneTemplate_T L), CCEManagedControlPlaneTemplate_DeepCopyObject L),
     (PtrT (CCEManagedControlPlaneTemplateList_T L), CCEManagedControlPlaneTemplateList_DeepCopyObject L),
     (PtrT (CCECluster_T L), CCECluster_DeepCopyObject L),
     (PtrT (CCEClusterControllerIdentity_T L), CCEClusterControllerIdentity_DeepCopyObject L),
     (PtrT (CCEClusterControllerIdentityList_T L), CCEClusterControllerIdentityList_DeepCopyObject L),
     (PtrT (CCEClusterList_T L), CCEClusterList_DeepCopyObject L),
     (PtrT (CCEClusterRoleIdentity_T L), CCEClusterRoleIdentity_DeepCopyObject L),
     (PtrT (CCEClusterRoleIdentityList_T L), CCEClusterRoleIdentityList_DeepCopyObject L),
     (PtrT (CCEClusterStaticIdentity_T L), CCEClusterStaticIdentity_DeepCopyObject L),
     (PtrT (CCEClusterStaticIdentityList_T L), CCEClusterStaticIdentityList_DeepCopyObject L),
     (PtrT (CCEClusterTemplate_T L), CCEClusterTemplate_DeepCopyObject L),
     (PtrT (CCEClusterTemplateList_T L), CCEClusterTemplateList_DeepCopyObject L),
     (PtrT (CCEManagedMachinePool_T L), CCEManagedMachinePool_DeepCopyObject L),
     (PtrT (CCEManagedMachinePoolList_T L), CCEManagedMachinePoolList_DeepCopyObject L),
     (PtrT (CCEManagedMachinePoolTemplate_T L), CCEManagedMachinePoolTemplate_DeepCopyObject L),
     (PtrT (CCEManagedMachinePoolTemplateList_T L), CCEManagedMachinePoolTemplateList_DeepCopyObject L)]"

text \<open>All generated functions, each with what its copy reads as, given what the original reads as. The one that is
  not exact is \<open>Tags.DeepCopyInto\<close>: the copy of a nil map is an empty one.\<close>

definition nil_to_empty :: "tree \<Rightarrow> tree" where
  "nil_to_empty t = (if t = NilN then MapN [] else t)"

definition deep_copies :: "api_library \<Rightarrow> (gtype \<times> copier \<times> (tree \<Rightarrow> tree)) list" where
  "deep_copies L = (Tags_T, Tags_DeepCopyInto, nil_to_empty) # map (\<lambda>(T, c). (T, c, id)) (exact_copies L)"

lemma copies_Tags [copies_rules]: "copies Tags_T Tags_DeepCopy"
proof -
  have "Tags_DeepCopy = map_copy"
    by (intro ext) (simp add: Tags_DeepCopy_def Tags_DeepCopyInto_def map_copy_def)
  then show ?thesis by (simp add: Tags_T_def copies_rules)
qed

lemma nil_tags_become_empty: "Tags_DeepCopyInto NilV h = Some (RefV (length h), h @ [MapC []])"
  by (simp add: Tags_DeepCopyInto_def map_make_def)

lemmas DeepCopy_defs = NatGatewaySpec_DeepCopy_def VPC_DeepCopy_def Subnet_DeepCopy_def SecurityGroupRuleSpec_DeepCopy_def
      SecurityGroupSpec_DeepCopy_def NetworkSpec_DeepCopy_def NodeVolume_DeepCopy_def
      AccessPolicySpec_DeepCopy_def AddonSpec_DeepCopy_def AuthenticatingProxySpec_DeepCopy_def
      AuthenticationSpec_DeepCopy_def BillingSpec_DeepCopy_def ContainerNetworkSpec_DeepCopy_def
      ServiceNetworkSpec_DeepCopy_def EndpointAccessSpec_DeepCopy_def
      PodIdentityAssociationSpec_DeepCopy_def ControlPlaneLogSpec_DeepCopy_def
      ControlPlaneLoggingSpec_DeepCopy_def EncryptionConfigSpec_DeepCopy_def
      CCEManagedControlPlaneSpec_DeepCopy_def ControlPlaneInitializationStatus_DeepCopy_def
      CCEManagedControlPlaneStatus_DeepCopy_def CCEManagedControlPlane_DeepCopy_def
      CCEManagedControlPlaneList_DeepCopy_def CCEManagedControlPlaneTemplateResource_DeepCopy_def
      CCEManagedControlPlaneTemplateSpec_DeepCopy_def CCEManagedControlPlaneTemplate_DeepCopy_def
      CCEManagedControlPlaneTemplateList_DeepCopy_def AllowedNamespaces_DeepCopy_def
      AutoscalingSpec_DeepCopy_def CCEClusterSpec_DeepCopy_def ClusterInitializationStatus_DeepCopy_def
      CCEClusterStatus_DeepCopy_def CCECluster_DeepCopy_def CCEClusterControllerIdentitySpec_DeepCopy_def
      CCEClusterControllerIdentity_DeepCopy_def CCEClusterControllerIdentityList_DeepCopy_def
      CCEClusterList_DeepCopy_def CCEClusterRoleIdentitySpec_DeepCopy_def
      CCEClusterRoleIdentity_DeepCopy_def CCEClusterRoleIdentityList_DeepCopy_def
      CCEClusterStaticIdentitySpec_DeepCopy_def CCEClusterStaticIdentity_DeepCopy_def
      CCEClusterStaticIdentityList_DeepCopy_def CCEClusterTemplateResource_DeepCopy_def
      CCEClusterTemplateSpec_DeepCopy_def CCEClusterTemplate_DeepCopy_def
      CCEClusterTemplateList_DeepCopy_def ExtensionScaleGroupSpec_DeepCopy_def
      UpdateConfigSpec_DeepCopy_def NodeRepairSpec_DeepCopy_def CCEManagedMachinePoolSpec_DeepCopy_def
      CCEManagedMachinePoolStatus_DeepCopy_def CCEManagedMachinePool_DeepCopy_def
      CCEManagedMachinePoolList_DeepCopy_def CCEManagedMachinePoolTemplateResource_DeepCopy_def
      CCEManagedMachinePoolTemplateSpec_DeepCopy_def CCEManagedMachinePoolTemplate_DeepCopy_def
      CCEManagedMachinePoolTemplateList_DeepCopy_def CCEManagedControlPlane_DeepCopyObject_def
      CCEManagedControlPlaneList_DeepCopyObject_def CCEManagedControlPlaneTemplate_DeepCopyObject_def
      CCEManagedControlPlaneTemplateList_DeepCopyObject_def CCECluster_DeepCopyObject_def
      CCEClusterControllerIdentity_DeepCopyObject_def CCEClusterControllerIdentityList_DeepCopyObject_def
      CCEClusterList_DeepCopyObject_def CCEClusterRoleIdentity_DeepCopyObject_def
      CCEClusterRoleIdentityList_DeepCopyObject_def CCEClusterStaticIdentity_DeepCopyObject_def
      CCEClusterStaticIdentityList_DeepCopyObject_def CCEClusterTemplate_DeepCopyObject_def
      CCEClusterTemplateList_DeepCopyObject_def CCEManagedMachinePool_DeepCopyObject_def
      CCEManagedMachinePoolList_DeepCopyObject_def CCEManagedMachinePoolTemplate_DeepCopyObject_def
      CCEManagedMachinePoolTemplateList_DeepCopyObject_def

lemma exact_copies_copy: "library_ok L \<Longrightarrow> list_all (\<lambda>(T, c). copies T c) (exact_copies L)"
  by (simp add: exact_copies_def DeepCopy_defs copies_rules)

lemma copied_exactly:
  assumes "copies T c" "reads T h v = Some t"
  shows "\<exists>v' new. c v h = Some (v', h @ new) \<and> (\<forall>old. length old = length h \<longrightarrow> reads T (old @ new) v' = Some t)"
  using copiesE[OF assms] by metis

lemma copied_tags:
  assumes "reads Tags_T h v = Some t"
  shows "\<exists>v' new. Tags_DeepCopyInto v h = Some (v', h @ new) \<and>
    (\<forall>old. length old = length h \<longrightarrow> reads Tags_T (old @ new) v' = Some (nil_to_empty t))"
proof (cases "v = NilV")
  case True
  then show ?thesis
    using assms by (auto simp: nil_tags_become_empty Tags_T_def nil_to_empty_def load_map_def load_def nth_append)
next
  case False
  then have "t \<noteq> NilN"
    using assms by (cases v) (auto simp: Tags_T_def bind_eq_Some_conv)
  then show ?thesis
    using copied_exactly[OF copies_Tags assms] False by (simp add: Tags_DeepCopy_def nil_to_empty_def)
qed

text \<open>C19: A generated copy is deep. For every API type and each of its generated functions, a well-typed value is
  copied without a panic, only new cells are allocated, the copy reads the same tree as the original whatever is later
  written to the cells that existed, and the original reads the same tree whatever is written to the new cells. The one
  exception to reading the same is \<open>Tags.DeepCopyInto\<close>, whose copy of a nil map is an empty map. The deep copies of
  the types of other modules are assumed to be deep.\<close>

theorem deep_copies_share_nothing:
  assumes "library_ok L" "(T, c, reads_as) \<in> set (deep_copies L)" "reads T h v = Some t"
  shows "\<exists>v' new. c v h = Some (v', h @ new) \<and>
    (\<forall>old. length old = length h \<longrightarrow> reads T (old @ new) v' = Some (reads_as t)) \<and>
    (\<forall>written. reads T (h @ written) v = Some t)"
proof -
  have "\<exists>v' new. c v h = Some (v', h @ new) \<and> (\<forall>old. length old = length h \<longrightarrow> reads T (old @ new) v' = Some (reads_as t))"
  proof (cases "(T, c, reads_as) = (Tags_T, Tags_DeepCopyInto, nil_to_empty)")
    case True
    then show ?thesis using copied_tags[of h v t] assms(3) by simp
  next
    case False
    then have "(T, c) \<in> set (exact_copies L)" "reads_as = id" using assms(2) by (auto simp: deep_copies_def)
    moreover from this have "copies T c" using exact_copies_copy[OF assms(1)] by (auto simp: list_all_iff)
    ultimately show ?thesis using copied_exactly[OF _ assms(3)] by simp
  qed
  then show ?thesis using reads_append[OF assms(3)] by blast
qed

definition example_library :: api_library where
  "example_library = \<lparr>lib_TypeMeta = StructT [(''Kind'', StrT)], lib_ObjectReference = StructT [(''Name'', StrT)],
     lib_APIEndpoint = StructT [(''Host'', StrT), (''Port'', IntT)],
     lib_ObjectMeta = StructT [(''Name'', StrT), (''Labels'', MapT StrT)], lib_ListMeta = StrT, lib_Condition = StrT,
     lib_LabelSelector = StructT [(''MatchLabels'', MapT StrT)],
     copy_ObjectMeta = struct_copy [(''Labels'', map_copy)], copy_ListMeta = keep, copy_Condition = keep,
     copy_LabelSelector = struct_copy [(''MatchLabels'', map_copy)]\<rparr>"

text \<open>A network whose security group shares its rules between the two directions.\<close>

definition shared_rules_store :: store where
  "shared_rules_store =
     [ObjC (StructV [(''VPC'', StructV [(''ID'', StrV []), (''Name'', StrV ''v''), (''CIDR'', StrV []),
         (''ResourceID'', StrV ''vpc-1''), (''Description'', StrV []), (''Tags'', RefV 1)]),
       (''Subnets'', NilV), (''NatGateway'', NilV), (''SecurityGroup'', RefV 2)]),
      MapC [(''env'', StrV ''prod'')],
      ObjC (StructV [(''Name'', StrV ''sg''), (''Ingress'', SliceV 3 0 1), (''Egress'', SliceV 3 0 1),
        (''ResourceID'', StrV [])]),
      ArrC [StructV [(''Description'', StrV []), (''Protocol'', StrV ''tcp''), (''PortRangeMin'', IntV 80),
        (''PortRangeMax'', IntV 80), (''RemoteIPPrefix'', StrV []), (''RemoteGroupID'', StrV [])]]]"

theorem deep_copies_share_nothing_witness:
  "\<exists>v' new t. NetworkSpec_DeepCopy (RefV 0) shared_rules_store = Some (v', shared_rules_store @ new) \<and>
    reads (PtrT NetworkSpec_T) shared_rules_store (RefV 0) = Some t \<and>
    reads (PtrT NetworkSpec_T) (replicate 4 (ObjC NilV) @ new) v' = Some t"
proof -
  have "library_ok example_library"
    by (simp add: library_ok_def example_library_def fields_ok_def copies_rules)
  moreover have "(PtrT NetworkSpec_T, NetworkSpec_DeepCopy, id) \<in> set (deep_copies example_library)"
    by (simp add: deep_copies_def exact_copies_def)
  moreover obtain t where t: "reads (PtrT NetworkSpec_T) shared_rules_store (RefV 0) = Some t"
    by (simp add: NetworkSpec_T_def VPC_T_def Subnet_T_def NatGatewaySpec_T_def SecurityGroupSpec_T_def
        SecurityGroupRuleSpec_T_def shared_rules_store_def load_obj_def load_map_def load_slice_def load_def)
  ultimately obtain v' new where "NetworkSpec_DeepCopy (RefV 0) shared_rules_store = Some (v', shared_rules_store @ new)"
    "\<forall>old. length old = length shared_rules_store \<longrightarrow> reads (PtrT NetworkSpec_T) (old @ new) v' = Some t"
    using deep_copies_share_nothing[of example_library "PtrT NetworkSpec_T" NetworkSpec_DeepCopy id shared_rules_store "RefV 0" t]
    by auto
  then show ?thesis using t by (auto simp: shared_rules_store_def)
qed

end
