(* ===== verification/Surveys.thy ===== *)
theory Surveys
  imports Tools CpController "HOL-Library.Multiset"
begin

text \<open>
  The tools under \<open>hack/\<close> that only look: \<open>survey-hw\<close> and \<open>check-smoke-env\<close> print what an account holds,
  \<open>check-retry-after\<close> provokes throttling and counts the headers of the answers. The lemmas show that they request
  nothing but listings, and that the counters do not depend on the order in which the concurrent round trips take
  the mutex.
\<close>

section \<open>check-smoke-env\<close>

text \<open>The answers only the surveys use: a subnet with its VPC, all public IPs, and the result of building credentials
  from a key pair.\<close>

record survey_cloud = ops_cloud +
  ans_ListAllSubnets :: "(SdkSubnet \<times> string) list option answer"
  ans_ListAllPublicips :: "PublicipResp list option answer"

record ('c, 'l) survey_os = "('c, 'l) os" +
  os_Credential :: "string \<Rightarrow> string \<Rightarrow> go_error + unit"
  os_JsonClusters :: "Cluster list option \<Rightarrow> string"
  os_JsonPublicips :: "PublicipResp list option \<Rightarrow> string"
  os_JsonVpcs :: "SdkVpc list option \<Rightarrow> string"
  os_JsonSubnets :: "(SdkSubnet \<times> string) list option \<Rightarrow> string"
  os_Phase :: "string \<Rightarrow> string"

text \<open>The errors of the region and of the client are dropped, so a client that could not be built is a nil pointer.\<close>

definition unchecked_client :: "('c, 'l, 'z) os_scheme \<Rightarrow> string \<Rightarrow> string \<Rightarrow> string \<Rightarrow> ('c, 'l) prog" where
  "unchecked_client os service ak sk = (case os_NewClient os service ''cn-north-4'' ak sk of
     Inl _ \<Rightarrow> fail nil_deref | Inr c \<Rightarrow> ok c)"

text \<open>A loop \<open>for _, x := range *xs\<close> behind a test for nil.\<close>

definition range_print :: "('a \<Rightarrow> string list) \<Rightarrow> 'a list option \<Rightarrow> ('c, unit) prog" where
  "range_print line xs = (case xs of None \<Rightarrow> ok () | Some ys \<Rightarrow> forE (\<lambda>x. do { _ \<leftarrow> println (line x); ok () }) ys)"

definition se_vpc_line :: "SdkVpc \<Rightarrow> string list" where
  "se_vpc_line v = [''VPC '', sv_Id v, '' '', sv_Name v, '' cidr='', sv_Cidr v]"

definition se_subnet_line :: "SdkSubnet \<times> string \<Rightarrow> string list" where
  "se_subnet_line = (\<lambda>(s, vpcId). [''  SUBNET '', ss_Id s, '' '', ss_Name s, '' vpc='', vpcId, '' cidr='', ss_Cidr s,
     '' neutron='', ss_NeutronSubnetId s])"

text \<open>A cluster is printed and counted when it has a UID and a phase.\<close>

definition se_cluster :: "('c, 'l, 'z) survey_os_scheme \<Rightarrow> Cluster \<Rightarrow> nat \<Rightarrow> ('c, nat) prog" where
  "se_cluster os cl n = (case cl_Metadata cl of
      None \<Rightarrow> ok n
    | Some m \<Rightarrow> (case (cm_Uid m, Option.bind (cl_Status cl) cst_Phase) of
        (Some uid, Some phase) \<Rightarrow> do {
          _ \<leftarrow> println [''CLUSTER '', uid, '' '', cm_Name m, '' phase='', os_Phase os phase];
          ok (n + 1) }
      | _ \<Rightarrow> ok n))"

definition check_smoke_env :: "(history, 'm survey_cloud_scheme, 'z) survey_os_scheme \<Rightarrow> (history, unit) prog" where
  "check_smoke_env os = (let ak = os_Getenv os ''AK''; sk = os_Getenv os ''SK'' in
     tryE (State_Monad.return (os_Credential os ak sk)) (\<lambda>_.
     tryE (unchecked_client os ''vpc'' ak sk) (\<lambda>v.
     tryE (call os (send (VpcReq (ListVpcsReq None None None)) (ans_ListVpcs v))) (\<lambda>vpcs.
     tryE (range_print se_vpc_line vpcs) (\<lambda>_.
     tryE (call os (send (OpsReq ListAllSubnetsReq) (ans_ListAllSubnets v))) (\<lambda>subnets.
     tryE (range_print se_subnet_line subnets) (\<lambda>_.
     tryE (unchecked_client os ''cce'' ak sk) (\<lambda>c.
     tryE (call os (send (CceReq ListClustersReq) (ans_ListClusters c))) (\<lambda>items.
     tryE (case items of None \<Rightarrow> ok 0 | Some cls \<Rightarrow> foldE (se_cluster os) cls 0) (\<lambda>n.
     do { _ \<leftarrow> println [''total clusters: '', itoa (int n)]; ok () }))))))))))"

section \<open>survey-hw\<close>

text \<open>One section of the survey: an error of the listing is printed and the survey goes on.\<close>

definition sv_section :: "('c, 'l, 'z) os_scheme \<Rightarrow> string \<Rightarrow> ('a \<Rightarrow> ('c, unit) prog) \<Rightarrow> ('c, 'a) prog \<Rightarrow> ('c, unit) prog" where
  "sv_section os what show_result req = do {
     r \<leftarrow> req;
     case r of
       Inl err \<Rightarrow> do { _ \<leftarrow> println [''list '', what, '' err: '', os_ErrorText os err]; ok () }
     | Inr v \<Rightarrow> show_result v }"

definition print_json :: "('a \<Rightarrow> string) \<Rightarrow> 'a \<Rightarrow> ('c, unit) prog" where
  "print_json j v = do { _ \<leftarrow> println [j v]; ok () }"

definition print_keypair :: "string option \<Rightarrow> ('c, unit) prog" where
  "print_keypair kp = (case kp of None \<Rightarrow> ok () | Some name \<Rightarrow> do { _ \<leftarrow> println [''  KEYPAIR '', name]; ok () })"

definition survey_hw :: "(history, 'm survey_cloud_scheme, 'z) survey_os_scheme \<Rightarrow> (history, unit) prog" where
  "survey_hw os = (let ak = os_Getenv os ''CLOUD_SDK_AK''; sk = os_Getenv os ''CLOUD_SDK_SK'' in
     if ak = '''' \<or> sk = '''' then fatal ''CLOUD_SDK_AK and CLOUD_SDK_SK must be set''
     else case os_Credential os ak sk of
       Inl err \<Rightarrow> do { _ \<leftarrow> println [''cred err: '', os_ErrorText os err]; ok () }
     | Inr _ \<Rightarrow> do {
       _ \<leftarrow> println [''===== CCE CLUSTERS =====''];
       tryE (unchecked_client os ''cce'' ak sk) (\<lambda>cc.
       tryE (sv_section os ''clusters'' (print_json (os_JsonClusters os)) (call os (send (CceReq ListClustersReq) (ans_ListClusters cc)))) (\<lambda>_.
       do { _ \<leftarrow> println [''===== EIPs ====='']; tryE (unchecked_client os ''eip'' ak sk) (\<lambda>ec.
       tryE (sv_section os ''eip'' (print_json (os_JsonPublicips os)) (call os (send (OpsReq ListAllPublicipsReq) (ans_ListAllPublicips ec)))) (\<lambda>_.
       do { _ \<leftarrow> println [''===== VPCs ====='']; tryE (unchecked_client os ''vpc'' ak sk) (\<lambda>vc.
       tryE (sv_section os ''vpc'' (print_json (os_JsonVpcs os)) (call os (send (VpcReq (ListVpcsReq None None None)) (ans_ListVpcs vc)))) (\<lambda>_.
       do { _ \<leftarrow> println [''===== SUBNETS ====='']; tryE
         (sv_section os ''subnets'' (print_json (os_JsonSubnets os)) (call os (send (OpsReq ListAllSubnetsReq) (ans_ListAllSubnets vc)))) (\<lambda>_.
       do { _ \<leftarrow> println [''===== KEYPAIRS ====='']; tryE (unchecked_client os ''ecs'' ak sk) (\<lambda>kc.
         sv_section os ''keypairs'' (\<lambda>kps. case kps of None \<Rightarrow> ok () | Some ks \<Rightarrow> forE print_keypair ks)
           (call os (send (OpsReq NovaListKeypairsReq) (ans_NovaListKeypairs kc)))) }) })) })) })) })"

definition is_listing :: "request \<Rightarrow> bool" where
  "is_listing req \<longleftrightarrow> req \<in> {CceReq ListClustersReq, VpcReq (ListVpcsReq None None None), OpsReq ListAllSubnetsReq,
     OpsReq ListAllPublicipsReq, OpsReq NovaListKeypairsReq}"

lemma tool_sends_unchecked: "tool_sends P (unchecked_client os service ak sk)"
  by (auto simp: unchecked_client_def tool_sends_basic split: sum.split)

lemma tool_sends_option:
  "tool_sends P f \<Longrightarrow> (\<And>v. tool_sends P (g v)) \<Longrightarrow> tool_sends P (case r of None \<Rightarrow> f | Some v \<Rightarrow> g v)"
  by (simp split: option.split)

lemma tool_sends_sum:
  "(\<And>e. tool_sends P (f e)) \<Longrightarrow> (\<And>v. tool_sends P (g v)) \<Longrightarrow> tool_sends P (case r of Inl e \<Rightarrow> f e | Inr v \<Rightarrow> g v)"
  by (simp split: sum.split)

lemma tool_sends_print:
  "tool_sends P (range_print line xs)" "tool_sends P (se_cluster os cl n)" "tool_sends P (print_json j v)" "tool_sends P (print_keypair kp)"
  by (auto simp: range_print_def se_cluster_def print_json_def print_keypair_def
      intro!: tool_sends_intros split: option.split prod.split)

lemma tool_sends_section:
  "tool_sends P req \<Longrightarrow> (\<And>v. tool_sends P (show_result v)) \<Longrightarrow> tool_sends P (sv_section os what show_result req)"
  unfolding sv_section_def by (intro tool_sends_bind tool_sends_sum tool_sends_basic)

lemmas survey_intros = tool_sends_intros tool_sends_unchecked tool_sends_option tool_sends_sum tool_sends_print tool_sends_section

theorem surveys_only_list:
  "tool_sends is_listing (check_smoke_env os)" "tool_sends is_listing (survey_hw os)"
  by (auto simp: check_smoke_env_def survey_hw_def Let_def is_listing_def intro!: survey_intros)

section \<open>check-retry-after\<close>

text \<open>The transport that counts status codes and throttling headers. The locked part of \<open>RoundTrip\<close> is one step;
  a response is its status code with its headers in the order the loop visits them.\<close>

type_synonym http_answer = "int \<times> (string \<times> string list) list"

record captureRT =
  crt_seen :: "(string, nat) gomap"
  crt_stats :: "(int, nat) gomap"

definition no_capture :: captureRT where
  "no_capture = \<lparr> crt_seen = [], crt_stats = [] \<rparr>"

definition count_of :: "('k, nat) gomap \<Rightarrow> 'k \<Rightarrow> nat" where
  "count_of m k = (case map_of m k of Some n \<Rightarrow> n | None \<Rightarrow> 0)"

definition count_up :: "'k \<Rightarrow> ('k, nat) gomap \<Rightarrow> ('k, nat) gomap" where
  "count_up k m = AList.update k (count_of m k + 1) m"

definition throttle_header :: "string \<Rightarrow> bool" where
  "throttle_header k = (let lk = to_lower k in
     contains_sub lk ''retry'' \<or> contains_sub lk ''ratelimit'' \<or> contains_sub lk ''x-rat'')"

definition header_text :: "string \<times> string list \<Rightarrow> string" where
  "header_text = (\<lambda>(k, v). k @ ''='' @ join_with '','' v)"

definition capture_response :: "http_answer \<Rightarrow> captureRT \<Rightarrow> captureRT" where
  "capture_response = (\<lambda>(status, headers) rt.
     rt \<lparr> crt_stats := count_up status (crt_stats rt),
          crt_seen := fold (\<lambda>(k, v) seen. if throttle_header k then count_up (header_text (k, v)) seen else seen)
            headers (crt_seen rt) \<rparr>)"

text \<open>\<open>RoundTrip\<close>: a failed exchange has no response and is not counted.\<close>

definition RoundTrip_capture :: "(history, 'l, 'z) os_scheme \<Rightarrow> http_answer answer \<Rightarrow> captureRT \<Rightarrow> (history tool, captureRT) state" where
  "RoundTrip_capture os transport rt = do {
     r \<leftarrow> call os (send (CceReq ListClustersReq) transport);
     State_Monad.return (case r of Inl _ \<Rightarrow> rt | Inr resp \<Rightarrow> capture_response resp rt) }"

fun burst :: "(history, 'l, 'z) os_scheme \<Rightarrow> http_answer answer \<Rightarrow> nat \<Rightarrow> captureRT \<Rightarrow> (history tool, captureRT) state" where
  "burst os transport 0 rt = State_Monad.return rt"
| "burst os transport (Suc n) rt = do { rt' \<leftarrow> RoundTrip_capture os transport rt; burst os transport n rt' }"

definition workers :: nat where "workers = 10"
definition perWorker :: nat where "perWorker = 200"

text \<open>\<open>main\<close>: every worker sends the same request, so the history is the same in every interleaving; the answers are
  captured in the order of the history, and \<open>captured_in_any_order\<close> is why that is enough. The summary of the burst
  and of the status codes are parameters.\<close>

definition check_retry_after :: "(history, unit, 'z) os_scheme \<Rightarrow> http_answer answer \<Rightarrow> (int \<Rightarrow> string) \<Rightarrow>
    ((int, nat) gomap \<Rightarrow> string) \<Rightarrow> (string \<Rightarrow> string) \<Rightarrow> (history, unit) prog" where
  "check_retry_after os transport show_burst show_stats quote =
     tryE (new_client os ''cce'' ''cn-north-4'' (os_Getenv os ''CLOUD_SDK_AK'') (os_Getenv os ''CLOUD_SDK_SK'')) (\<lambda>_. do {
       start \<leftarrow> now;
       rt \<leftarrow> burst os transport (workers * perWorker) no_capture;
       finish \<leftarrow> now;
       _ \<leftarrow> println [show_burst (finish - start)];
       _ \<leftarrow> println [''status codes: '', show_stats (crt_stats rt)];
       _ \<leftarrow> println [''retry/ratelimit headers observed:''];
       _ \<leftarrow> for_each (\<lambda>(h, n). println [''  '', quote h, '' x'', itoa (int n)]) (crt_seen rt);
       _ \<leftarrow> (if crt_seen rt = [] then println [''  (none) '', [CHR 0xE2, CHR 0x80, CHR 0x94], '' throttled responses carry no Retry-After / x-ratelimit header''] else State_Monad.return ());
       ok () })"

text \<open>The headers a response counts, with repetition.\<close>

definition counted_headers :: "http_answer \<Rightarrow> string list" where
  "counted_headers resp = map header_text (filter (throttle_header \<circ> fst) (snd resp))"

lemma count_of_count_up: "count_of (count_up k m) j = count_of m j + (if j = k then 1 else 0)"
  by (auto simp: count_up_def count_of_def update_conv')

lemma seen_after:
  "count_of (fold (\<lambda>(k, v) seen. if throttle_header k then count_up (header_text (k, v)) seen else seen) hs m) x =
     count_of m x + count (mset (map header_text (filter (throttle_header \<circ> fst) hs))) x"
  by (induction hs arbitrary: m) (auto simp: count_of_count_up)

theorem captured_counts:
  "count_of (crt_stats (fold capture_response resps rt)) status = count_of (crt_stats rt) status + count (mset (map fst resps)) status"
  "count_of (crt_seen (fold capture_response resps rt)) x =
     count_of (crt_seen rt) x + count (mset (concat (map counted_headers resps))) x"
  by (induction resps arbitrary: rt)
    (auto simp: capture_response_def counted_headers_def count_of_count_up seen_after split: prod.splits)

theorem captured_in_any_order:
  assumes "mset resps = mset resps'"
  shows "count_of (crt_stats (fold capture_response resps rt)) = count_of (crt_stats (fold capture_response resps' rt))"
    and "count_of (crt_seen (fold capture_response resps rt)) = count_of (crt_seen (fold capture_response resps' rt))"
proof -
  have "mset (map fst resps) = mset (map fst resps')"
    using assms by simp
  moreover have "mset (concat (map counted_headers resps)) = mset (concat (map counted_headers resps'))"
    using assms by (metis mset_concat mset_map sum_mset_sum_list)
  ultimately show "count_of (crt_stats (fold capture_response resps rt)) = count_of (crt_stats (fold capture_response resps' rt))"
    "count_of (crt_seen (fold capture_response resps rt)) = count_of (crt_seen (fold capture_response resps' rt))"
    by (simp_all add: fun_eq_iff captured_counts)
qed

end
