(* ===== verification/Observability.thy ===== *)
theory Observability
  imports Errors
begin

text \<open>
  \<open>internal/metrics/metrics.go\<close> and \<open>controllers/events.go\<close>: the gauges that are read from the API server whenever
  they are scraped, and the events of the reconcilers with their copy in the log. The program never reads them back,
  so the models of the reconcilers leave the events out.
\<close>

text \<open>A gauge reads the Kubernetes state \<open>'k\<close>. A list that fails reads as zero.\<close>

record 'k gauge =
  gg_Name :: string
  gg_Help :: string
  gg_Read :: "'k \<Rightarrow> nat"

definition count_listed :: "('k \<Rightarrow> go_error + 'a list) \<Rightarrow> 'k \<Rightarrow> nat" where
  "count_listed lister k = (case lister k of Inl _ \<Rightarrow> 0 | Inr items \<Rightarrow> length items)"

definition Register :: "('k \<Rightarrow> go_error + 'a list) \<Rightarrow> ('k \<Rightarrow> go_error + 'b list) \<Rightarrow> 'k gauge list" where
  "Register list_clusters list_pools = [
     \<lparr> gg_Name = ''cce_managed_clusters'', gg_Help = ''Number of CCECluster objects managed by the provider.'',
       gg_Read = count_listed list_clusters \<rparr>,
     \<lparr> gg_Name = ''cce_managed_machine_pools'', gg_Help = ''Number of CCEManagedMachinePool objects managed by the provider.'',
       gg_Read = count_listed list_pools \<rparr>]"

text \<open>An operation as it is reported: the object's key (\<open>None\<close> for an object that is not a \<open>client.Object\<close>), the
  type and reason of the event, and the formatted message.\<close>

record report =
  rp_Object :: "(string \<times> string) option"
  rp_Type :: string
  rp_Reason :: string
  rp_Message :: string

text \<open>The events sent to the recorder and the lines of the log.\<close>

record reports =
  rpt_events :: "report list"
  rpt_log :: "report list"

definition recordEvent :: "bool \<Rightarrow> report \<Rightarrow> reports \<Rightarrow> reports" where
  "recordEvent has_recorder r s =
     (let s' = (if has_recorder then s \<lparr> rpt_events := rpt_events s @ [r] \<rparr> else s) in
      s' \<lparr> rpt_log := rpt_log s' @ [r] \<rparr>)"

lemma gauges_read_zero_on_errors:
  assumes "list_clusters k = Inl e"
  shows "gg_Read (hd (Register list_clusters list_pools)) k = 0"
  using assms by (simp add: Register_def count_listed_def)

text \<open>With a recorder, the log and the events tell the same story, as long as the log starts out with the events.\<close>

lemma log_mirrorpt_events:
  assumes "rpt_log s = rpt_events s"
  shows "rpt_log (fold (recordEvent True) rs s) = rpt_events (fold (recordEvent True) rs s)"
  using assms by (induction rs arbitrary: s) (simp_all add: recordEvent_def)

end
