(* ===== verification/Spec2Isabelle.thy ===== *)
theory Spec2Isabelle
  imports Requeue CceService GarbageCollector NetValidator NetOwnership CpReconcile ClusterController MachinePool Webhooks Throttle Lifecycle
    SpecFilling Scopes Clients Startup CleanupTools EgressTools MgmtCluster DeployTools Fakes
    DeepCopies Surveys Observability
begin

text \<open>
  \<^bold>\<open>The Cluster API provider for Huawei Cloud CCE.\<close> The program is a set of Kubernetes controllers. A
  \<open>CCECluster\<close> object describes the network of a cluster, a \<open>CCEManagedControlPlane\<close> the managed cluster itself
  and a \<open>CCEManagedMachinePool\<close> a pool of nodes; their controllers call the CCE, VPC, NAT, EIP, EVS, IAM and
  STS services through the Huawei Cloud SDK until the cloud matches the objects, admission webhooks check the
  objects, and a garbage collector deletes cloud resources whose Cluster object is gone.

  \<^bold>\<open>Foundations.\<close> \<open>Prelude\<close>: Go strings (byte lists), Go maps (association lists in the order a range loop
  visits them) and the functions of the standard library the code calls. \<open>Effects\<close>: Go functions with effects as a
  state monad with early returns on errors, its loops, the weakest-precondition calculus (\<open>wp\<close>, collection
  \<open>wp_simps\<close>) and the invariant calculus (\<open>keeps\<close>, collection \<open>only_intros\<close>). \<open>SdkModel\<close> and \<open>Cloud\<close>: the SDK's
  requests and responses, a datatype of all requests the program sends, and \<open>cloud\<close>, a record of arbitrary
  functions that answer a request from the history of all requests so far. Every statement over an arbitrary
  \<open>cloud\<close> therefore holds whatever the platform answers. \<open>sends P m\<close> (collection \<open>sends_intros\<close>) says that all
  requests of \<open>m\<close> satisfy \<open>P\<close>. \<open>Errors\<close>: error values with their wrapping chain and
  \<open>internal/services/errors/errors.go\<close>.

  \<^bold>\<open>The CCE service\<close> (\<open>internal/services/cce\<close>, \<open>internal/hwsdk\<close>, \<open>internal/services/tags\<close>). \<open>Tags\<close>: the
  ownership tag. \<open>CceTypes\<close>: \<open>interfaces.go\<close>, with \<open>Service\<close> as a record of operations in three layers (what the
  garbage collector, the control plane and the machine pools use). \<open>CceTags\<close>, \<open>CceCluster\<close>, \<open>Base64\<close>,
  \<open>Kubeconfig\<close>, \<open>Hwsdk\<close>, \<open>CceResources\<close>, \<open>CceNodePool\<close>, \<open>CceMisc\<close>: the operations of \<open>cce.go\<close>, collected in
  \<open>CceService.client_service\<close>. The lemmas show which requests an operation sends and what its answer means: a
  refused create adopts only owned resources, a tag reconcile reaches exactly the desired tags within the
  platform's limit, an EIP is not leaked, a paginated listing is complete. The locale \<open>idempotent_delete\<close> is the
  contract of the deletes, \<open>paged_listing\<close> that of a listing in pages.

  \<^bold>\<open>The network\<close> (\<open>api/common\<close>, \<open>internal/services/network\<close>, \<open>internal/wait\<close>). \<open>Cidr\<close>: address parsing and
  overlap, proved equal to a specification on sets of addresses. \<open>NetTypes\<close>, \<open>NetManager\<close>: the managed network's
  operations. \<open>NetOwnership\<close> and \<open>NetTeardown\<close>: facts about creation and deletion: their order, what is
  attempted whatever fails (\<open>teardown_attempts\<close>), what success means; the locale \<open>confirmed_delete\<close> is the
  contract of a deletion step. \<open>NetValidator\<close>: \<open>validator.go\<close> against its documented
  constraints.

  \<^bold>\<open>Controllers\<close> (\<open>controllers\<close>, \<open>internal/conditions\<close>, \<open>internal/scope\<close>, \<open>internal/credentials\<close>,
  \<open>internal/services/iam\<close>). \<open>Requeue\<close>: the failure counter and the backoff (locale \<open>failure_counter\<close>).
  \<open>CpTypes\<close>, \<open>InfraTypes\<close>: the API objects and the Kubernetes client, a record of operations. \<open>Controller\<close>: the
  state of one reconcile (Kubernetes, cloud, failure counter, the object in memory), conditions, and the deferred
  functions of \<open>Reconcile\<close>. \<open>Identity\<close>: credentials and identities. \<open>CpSubresources\<close>, \<open>CpUpgrade\<close>,
  \<open>CpController\<close>, \<open>CpReconcile\<close>: the control plane controller; upgrades refine the deterministic state machine
  \<open>upgrade_step\<close>, whose event is a function of the platform's answers (\<open>upgrade_answer\<close>), add-on passes are an inductive relation \<open>addon_passes\<close>. \<open>ClusterController\<close>: the cluster shell,
  over \<open>manager_interface\<close>. \<open>MachinePool\<close>: the machine pool controller. \<open>GarbageCollector\<close>: \<open>gc.go\<close>. Where the
  code of a reconciler returns early, its parts take the rest as a continuation. \<open>Scopes\<close>: the per-reconcile
  scopes, and that the control plane's pass over its scope is the one \<open>cp_Reconcile\<close> takes.

  \<^bold>\<open>Contracts between components.\<close> \<open>Lifecycle\<close>: the locale \<open>quiet_service\<close> is the contract of the operations
  a control plane uses once its cluster exists, over any cloud with an invariant they keep and any fact of the
  object a pass has no part in (\<open>pass_inv\<close>, \<open>pass_frame\<close>). It is interpreted on the SDK-backed service, where
  the invariant is a set of allowed requests, and on the test double; from it follow that a recorded cluster is not
  created again and that a normal pass writes only status, finalizers and endpoint. How created tags read to
  the garbage collector is there, too; the two properties below compose these components. \<open>SpecFilling\<close>: the locale
  \<open>spec_filling\<close> is the contract of the network manager's steps, interpreted on \<open>network_manager\<close>: they record
  resource IDs where there are none and that of an owned VPC the user named, add the default subnet, and touch nothing else.

  \<^bold>\<open>The process\<close> (\<open>cmd\<close>, \<open>controllers/setup.go\<close>, \<open>internal/features\<close>, the constructors of clients).
  \<open>Startup\<close>: flags, feature gates, controllers, webhooks and the garbage collector as a sequence of calls on the
  manager that refines a plan computed from the flags. \<open>Clients\<close>: SDK clients over arbitrary builders, and the cache of
  \<open>NewClient\<close> as a step relation of concurrent callers (\<open>callers_step\<close>) with an invariant by rule induction; it
  shows that the factories may be taken for pure functions, as the reconcilers' models do.

  \<^bold>\<open>Tools\<close> (\<open>hack\<close>). \<open>Tools\<close>: a command line program as a state over the cloud, the clock and its output,
  \<open>hwutil\<close>, the polling loop with its rule for total correctness (\<open>wp_poll\<close>) and the requests of a tool
  (\<open>tool_sends\<close>). \<open>CleanupTools\<close>, \<open>EgressTools\<close>, \<open>MgmtCluster\<close>, \<open>DeployTools\<close>: the tools themselves, with
  what they delete and release, how the management cluster meets the garbage collector, and which flavor is picked.

  \<open>Surveys\<close>: the tools that only list, and the counters of \<open>check-retry-after\<close> under concurrent round trips.

  \<^bold>\<open>Values and memory.\<close> The models of the reconcilers treat API objects as values, although Go's hold pointers,
  slices and maps. \<open>GoStore\<close>: a store with aliasing, Go types, the tree a value stands for (\<open>reads\<close>) and the
  contract of a deep copy (\<open>copies\<close>) with a rule for every statement the generator emits. \<open>DeepCopies\<close>: the
  generated functions of all 59 API types, each checked against the declaration of its type (all copy exactly but
  \<open>Tags.DeepCopyInto\<close>, which turns a nil map into an empty one); objects of the client's
  cache and the base of a merge patch are such copies, so later writes to one side never show on the other.
  \<open>Observability\<close>: the gauges and the reports of operations.

  \<^bold>\<open>Test doubles\<close> (\<open>test/fakes\<close>). \<open>Fakes\<close>: the fakes, held to the contract \<open>quiet_service\<close>.

  \<^bold>\<open>Admission\<close> (\<open>api\<close>). \<open>TagsValidate\<close>: the rules for user tags over decoded UTF-8, compared with the
  documented ones (\<open>tag_rules\<close>). \<open>Webhooks\<close>: defaulting and
  validation of every object and template, and what a chain of admitted updates keeps.

  \<^bold>\<open>Throttling\<close> (\<open>internal/services/throttle\<close>). \<open>Throttle\<close>: the shared limiter over an arbitrary token bucket and
  an arbitrary stateful transport; what it shows is about when a call reaches the transport, not about the answers.

  \<^bold>\<open>Parameters.\<close> Code that is not in the repository is an argument of the definitions: the cloud, the Kubernetes
  client (\<open>kube_client\<close>), the Cluster API and controller-runtime helpers (\<open>library\<close>: conditions, finalizers,
  pausing, owner references, URL parsing, error texts), selectors and the environment (\<open>scope_env\<close>), kubeconfig
  encoding (\<open>codec\<close>), PEM and X.509 parsing, JSON parsing of trust policies, \<open>ExponentialBackoff\<close>, semantic
  versions (\<open>semver\<close>), the Unicode tables beyond ASCII, the token bucket, the clock, the feature gate, the visiting
  order of a map where a loop's effect depends on it, the factories of services, the builders of the SDK
  (\<open>sdk\<close>), the deep copies of library types (\<open>api_library\<close>), the controller-runtime manager and the feature gate registry (\<open>platform\<close>), cluster-api's patch helper,
  and the environment of a tool (\<open>os\<close>: variables, durations of requests, files, \<open>sort.Slice\<close>). Hypotheses about them
  are named: \<open>patch_keeps_finalizers\<close> and \<open>pool_patch_keeps\<close> (a patch returns the object it was given),
  \<open>quiet_provider\<close> and \<open>quiet_iam\<close> (STS and IAM calls are none of the modelled requests), \<open>polls_only\<close> (the wait
  loop only polls), \<open>quiet_os\<close> (the helper programs of a tool neither create nor delete clusters), \<open>sorts\<close>
  (\<open>sort.Slice\<close> sorts), \<open>library_ok\<close> (the library's deep copies are deep). The witnesses instantiate them.

  \<^bold>\<open>Fuel.\<close> The paginated listings (\<open>paginateAll\<close>) need not end if the platform keeps answering full pages; they
  take the number of pages they may fetch, and running out is the error \<open>OutOfFuel\<close>. \<open>ListEips_complete\<close> shows
  that more fuel than pages is enough on a paged inventory. A polling loop of a tool takes the rounds its
  timeout allows (\<open>poll_rounds\<close>); every round sleeps, so they are enough (\<open>wp_poll\<close>). All other loops are structural. Go integers keep
  their width (\<open>int32\<close>, 64-bit words); times are nanoseconds.

  \<^bold>\<open>Not modelled.\<close> Log lines, the events of the reconcilers and contexts, which the program never reads back; mutexes (the
  failure counter and the limiter are sequences of atomic steps); the parsing of command lines and the registration of
  API schemes and of gauges. Progress lines of the tools are left out. Arguments
  formatted with \<open>%q\<close> appear without their quotes, field errors leave out the offending value, and the aggregated
  text of a merged-tags error and the reason of an invalid selector are fixed texts.
\<close>

section \<open>Ownership across the control plane reconciler and the garbage collector\<close>

text \<open>C4: A cluster the provider creates is never taken for an orphan while its Cluster object exists. If a pass of
  the control plane reconciler sends a create, then the created cluster is named like the owning Cluster object,
  and whenever the platform later lists it with exactly the created tags, in any order, a sweep that sees a Cluster
  object of that name leaves it alone, provided no user tag of the control plane claims another cluster.\<close>

theorem live_cluster_survives_the_sweep:
  assumes "cpe_ServiceFactory env = (\<lambda>_ _. Inr (client_service fuel cd s))"
    and "quiet_iam env" "quiet_provider (cpe_provider env)"
    and run: "run_state (reconcileNormal env cluster) st = (r, st')"
    and sent: "rs_cloud st' = rs_cloud st @ new" "CceReq (CreateClusterReq cl) \<in> set new"
    and unclaimed: "\<And>m. m \<noteq> ccl_Name cluster \<Longrightarrow> (OwnedTagKey m, ''owned'') \<notin> set (cps_AdditionalTags (cp_Spec (rs_obj st)))"
    and "set (clr_Tags c) = set (tag_pairs cl)"
    and "cr \<in> set items" "ccr_Name cr = ccl_Name cluster"
  shows "map_option cm_Name (cl_Metadata cl) = Some (ccl_Name cluster) \<and>
    sweep_cluster svc (wanted_index items []) c = State_Monad.return ()"
proof -
  let ?sp = "cp_Spec (rs_obj st)"
  have "hist_inv (normal_request (cps_ClusterName ?sp) (cps_AdditionalTags ?sp)) (rs_cloud st) st'"
    using normal_pass_leads[OF assms(1,2,3), of ?sp "rs_cloud st" cluster] run
    by (fastforce simp: leads_def wp_def pass_inv_def dest: spec[of _ st])
  then have "normal_request (cps_ClusterName ?sp) (cps_AdditionalTags ?sp) (CceReq (CreateClusterReq cl))"
    using sent by (auto simp: pass_inv_def extends_def list_all_iff)
  moreover have "cps_ClusterName ?sp = ccl_Name cluster"
    using mismatch_sends_nothing[of st cluster env] run sent by (cases "cps_ClusterName ?sp = ccl_Name cluster") auto
  ultimately have names: "names_cluster (ccl_Name cluster) (cps_AdditionalTags ?sp) cl"
    by (simp add: normal_request_def)
  then have "OwnedClusterName (clr_Tags c) = ccl_Name cluster"
    using assms(8) unclaimed by (rule created_owner)
  then show ?thesis
    using names tracked_not_orphan[of "clr_Tags c" _ cr items] assms(9,10)
    by (auto simp: sweep_cluster_orphan names_cluster_def)
qed

text \<open>A first pass: no cluster is recorded yet.\<close>

definition first_pass_state :: "(unit, history, CCEManagedControlPlane) rstate" where
  "first_pass_state = \<lparr> rs_kube = (), rs_cloud = [], rs_backoff = newBackoffTracker,
     rs_obj = example_cp \<lparr> cp_Status := example_cp_status \<lparr> cpt_ClusterID := '''' \<rparr> \<rparr> \<rparr>"

lemma live_cluster_survives_the_sweep_witness:
  "\<exists>cl. CceReq (CreateClusterReq cl) \<in>
       set (rs_cloud (snd (run_state (reconcileNormal (example_cp_env empty_cloud) example_capi_cluster) first_pass_state))) \<and>
     sweep_cluster (client_service 1 example_codec (example_client empty_cloud))
       (wanted_index [\<lparr> ccr_Name = ''demo'', ccr_Namespace = ''default'', ccr_Annotations = [] \<rparr>] [])
       \<lparr> clr_ClusterID = ''c1'', clr_Name = ''demo'', clr_Tags = rev (tag_pairs cl) \<rparr> = State_Monad.return ()"
proof -
  let ?m = "reconcileNormal (example_cp_env empty_cloud) example_capi_cluster"
  let ?w = "rs_cloud (snd (run_state ?m first_pass_state))"
  have "wp ?m (\<lambda>_ st'. \<exists>cl. CceReq (CreateClusterReq cl) \<in> set (rs_cloud st')) first_pass_state"
    by (simp add: reconcileNormal_def Let_def wp_simps example_cp_env_def first_pass_state_def example_capi_cluster_def
        clusterNetwork_def key_text_def example_kube_def identity_kube_def empty_kube_def example_cce_cluster_def
        example_network_spec_def SubnetTypeENI_def resolveControlPlaneCredentials_def ResolveCredentials_def example_cp_def
        example_cp_spec_def example_cp_status_def get_str_def ensure_agency_def cp_service_for_def Resolve_def
        reconcile_with_service_def ensure_cluster_def client_service_def CreateCluster_def buildCreateClusterRequest_def
        toCreateClusterInput_def on_status_def empty_cloud_def example_client_def cp_failed_def cp_after_error_def
        err_class_defs err_code_defs)
  then obtain cl where cl: "CceReq (CreateClusterReq cl) \<in> set ?w" by (auto simp: wp_run)
  have unclaimed: "\<And>m. m \<noteq> ccl_Name example_capi_cluster \<Longrightarrow>
      (OwnedTagKey m, ''owned'') \<notin> set (cps_AdditionalTags (cp_Spec (rs_obj first_pass_state)))"
    by (simp add: first_pass_state_def example_cp_def example_cp_spec_def)
  have "map_option cm_Name (cl_Metadata cl) = Some (ccl_Name example_capi_cluster) \<and>
      sweep_cluster (client_service 1 example_codec (example_client empty_cloud))
       (wanted_index [\<lparr> ccr_Name = ''demo'', ccr_Namespace = ''default'', ccr_Annotations = [] \<rparr>] [])
       \<lparr> clr_ClusterID = ''c1'', clr_Name = ''demo'', clr_Tags = rev (tag_pairs cl) \<rparr> = State_Monad.return ()"
    by (rule live_cluster_survives_the_sweep[OF _ _ _ prod.collapse[symmetric] _ cl unclaimed])
      (auto simp: example_cp_env_def quiet_iam_def quiet_provider_def first_pass_state_def example_capi_cluster_def)
  then show ?thesis using cl by blast
qed

text \<open>C7: The condition on the user tags is needed, and admission does not enforce it. When the user tags of a
  control plane contain the ownership tag of a name without a Cluster object, there is an order of the created
  tags in which the sweep deletes the live cluster, although its Cluster object exists.\<close>

theorem claiming_user_tag_orphans_a_live_cluster:
  assumes "(OwnedTagKey other, ''owned'') \<in> set userTags" "other \<noteq> n" "other \<noteq> ''''"
    and "\<And>cr. cr \<in> set items \<Longrightarrow> ccr_Name cr \<noteq> other"
    and "buildCreateClusterRequest i = Inr cl" "cci_Name i = n" "cci_Tags i = userTags"
  shows "\<exists>ts. mset ts = mset (tag_pairs cl) \<and>
    snd (run_state (sweep_cluster (client_service fuel cd s) (wanted_index items [])
      \<lparr> clr_ClusterID = cid, clr_Name = n, clr_Tags = ts \<rparr>) tr) =
    tr @ [CceReq (DeleteClusterReq (delete_cluster_request (gc_delete_input cid)))]"
proof -
  have "names_cluster n userTags cl" using names_built assms(5,6,7) by blast
  then have "(OwnedTagKey other, ''owned'') \<in> set (tag_pairs cl)"
    using assms(1,2) by (auto simp: names_tag_pairs skipReservedTagKey_def OwnedTagKey_def OwnedTagPrefix_def RoleTagKey_def)
  then obtain ts where "mset ts = mset (tag_pairs cl)" "orphan (wanted_index items []) ts"
    using claimed_orphan[of other "tag_pairs cl" items] assms(3,4) by blast
  then show ?thesis
    by (intro exI[of _ ts]) (simp add: sweep_cluster_orphan ignoreE_def dc.del_run split: prod.splits)
qed


text \<open>The claiming tag passes the webhook's check.\<close>

lemma claiming_user_tag_orphans_a_live_cluster_witness:
  "tags_Validate (\<lambda>_. False) ''spec.additionalTags'' [(OwnedTagKey ''old'', ''owned'')] = [] \<and>
   (\<exists>cl ts. buildCreateClusterRequest (toCreateClusterInput
        (example_cp \<lparr> cp_Spec := example_cp_spec \<lparr> cps_AdditionalTags := [(OwnedTagKey ''old'', ''owned'')] \<rparr> \<rparr>) ''vpc'' ''sn'' '''' []) = Inr cl \<and>
      mset ts = mset (tag_pairs cl) \<and>
      snd (run_state (sweep_cluster (client_service 1 example_codec (example_client empty_cloud))
         (wanted_index [\<lparr> ccr_Name = ''demo'', ccr_Namespace = ''default'', ccr_Annotations = [] \<rparr>] [])
         \<lparr> clr_ClusterID = ''c1'', clr_Name = ''demo'', clr_Tags = ts \<rparr>) []) =
       [CceReq (DeleteClusterReq (delete_cluster_request (gc_delete_input ''c1'')))])"
proof
  show "tags_Validate (\<lambda>_. False) ''spec.additionalTags'' [(OwnedTagKey ''old'', ''owned'')] = []"
    by (simp add: tags_Validate_iff tag_passes_def OwnedTagKey_def OwnedTagPrefix_def runes_def needs_trim_def is_space_rune_def
        Let_def key_rune_def ascii_alnum_def has_prefix_def)
  let ?i = "toCreateClusterInput
      (example_cp \<lparr> cp_Spec := example_cp_spec \<lparr> cps_AdditionalTags := [(OwnedTagKey ''old'', ''owned'')] \<rparr> \<rparr>) ''vpc'' ''sn'' '''' []"
  obtain cl where cl: "buildCreateClusterRequest ?i = Inr cl"
    by (simp add: buildCreateClusterRequest_def toCreateClusterInput_def Let_def)
  have i: "cci_Name ?i = ''demo''" "cci_Tags ?i = [(OwnedTagKey ''old'', ''owned'')]"
    by (simp_all add: example_cp_spec_def)
  from claiming_user_tag_orphans_a_live_cluster[OF _ _ _ _ cl i, of "''old''"
      "[\<lparr> ccr_Name = ''demo'', ccr_Namespace = ''default'', ccr_Annotations = [] \<rparr>]" 1 example_codec
      "example_client empty_cloud" "''c1''" "[]"]
  show "\<exists>cl ts. buildCreateClusterRequest ?i = Inr cl \<and> mset ts = mset (tag_pairs cl) \<and>
      snd (run_state (sweep_cluster (client_service 1 example_codec (example_client empty_cloud))
         (wanted_index [\<lparr> ccr_Name = ''demo'', ccr_Namespace = ''default'', ccr_Annotations = [] \<rparr>] [])
         \<lparr> clr_ClusterID = ''c1'', clr_Name = ''demo'', clr_Tags = ts \<rparr>) []) =
       [CceReq (DeleteClusterReq (delete_cluster_request (gc_delete_input ''c1'')))]"
    using cl by auto
qed

end
